(* ===== verification/Prelude.thy ===== *)
theory Prelude imports Main "HOL-Library.Sublist" "HOL-Library.Char_ord" "HOL-Library.List_Lexorder" "HOL-Library.Code_Target_Nat" begin

text \<open>
  Shared vocabulary of the development: Python exceptions as values, the sequencing of
  fallible steps, first-match lookups over row lists, and the generic list lemmas the
  component theories use.  The collections \<open>result_simps\<close> and \<open>table_simps\<close> gather the
  equations that let \<open>simp\<close> run through a handler.
\<close>

named_theorems result_simps \<open>equations for fallible computations\<close>
named_theorems table_simps \<open>equations for table updates and queries\<close>

section \<open>Exceptions as values\<close>

text \<open>One constructor per exception class raised by the modelled code; the string is the message.\<close>

datatype py_error =
    ValueError string
  | TypeError string
  | PermissionError string
  | IntegrityError string
  | RuntimeError string
  | EvolutionError string
  | KeyError string
  | OverflowError string
  | IndexError string
  | WorkflowCheckpointError string
  | RuntimeExecutionError string

type_synonym 'a result = "py_error + 'a"

definition bindE :: "'a result \<Rightarrow> ('a \<Rightarrow> 'b result) \<Rightarrow> 'b result" where
  "bindE r f = (case r of Inl e \<Rightarrow> Inl e | Inr x \<Rightarrow> f x)"

text \<open>\<open>guardE c e\<close> is the statement \<^verbatim>\<open>if c: raise e\<close>.\<close>

definition guardE :: "bool \<Rightarrow> py_error \<Rightarrow> unit result" where
  "guardE c e = (if c then Inl e else Inr ())"

fun mapE :: "('a \<Rightarrow> 'b result) \<Rightarrow> 'a list \<Rightarrow> 'b list result" where
  "mapE f [] = Inr []"
| "mapE f (x # xs) = bindE (f x) (\<lambda>y. bindE (mapE f xs) (\<lambda>ys. Inr (y # ys)))"

fun foldE :: "('a \<Rightarrow> 's \<Rightarrow> 's result) \<Rightarrow> 'a list \<Rightarrow> 's \<Rightarrow> 's result" where
  "foldE f [] s = Inr s"
| "foldE f (x # xs) s = bindE (f x s) (foldE f xs)"

definition is_ok :: "'a result \<Rightarrow> bool" where
  "is_ok r = (case r of Inl _ \<Rightarrow> False | Inr _ \<Rightarrow> True)"

lemma bindE_simps [simp, result_simps]:
  "bindE (Inl e) f = Inl e"
  "bindE (Inr x) f = f x"
  by (simp_all add: bindE_def)

lemma is_ok_simps [simp, result_simps]: "\<not> is_ok (Inl e)" "is_ok (Inr x)"
  by (simp_all add: is_ok_def)

lemma is_ok_iff: "is_ok r \<longleftrightarrow> (\<exists>x. r = Inr x)"
  by (cases r) auto

lemma guardE_simps [simp, result_simps]:
  "guardE True e = Inl e"
  "guardE False e = Inr ()"
  by (simp_all add: guardE_def)

lemma bindE_Inr_iff: "bindE r f = Inr y \<longleftrightarrow> (\<exists>x. r = Inr x \<and> f x = Inr y)"
  by (cases r) auto

lemma guardE_Inr_iff: "guardE c e = Inr u \<longleftrightarrow> \<not> c"
  by (simp add: guardE_def)

lemma bind_guardE: "bindE (guardE c e) f = (if c then Inl e else f ())"
  by (simp add: guardE_def)

declare bind_guardE [code_unfold]

lemma is_ok_bindE: "is_ok (bindE r f) \<longleftrightarrow> (\<exists>x. r = Inr x \<and> is_ok (f x))"
  by (cases r) auto

lemma is_ok_guardE [simp]: "is_ok (guardE c e) \<longleftrightarrow> \<not> c"
  by (simp add: guardE_def)

lemmas resultE_iffs = bindE_Inr_iff guardE_Inr_iff bind_guardE is_ok_bindE

lemma mapE_Inr: "mapE f xs = Inr ys \<Longrightarrow> list_all2 (\<lambda>x y. f x = Inr y) xs ys"
  by (induction xs arbitrary: ys) (auto simp: bindE_Inr_iff)

lemma mapE_length: "mapE f xs = Inr ys \<Longrightarrow> length ys = length xs"
  by (drule mapE_Inr) (simp add: list_all2_lengthD)

lemma mapE_set: "mapE f xs = Inr ys \<Longrightarrow> y \<in> set ys \<Longrightarrow> \<exists>x \<in> set xs. f x = Inr y"
  by (induction xs arbitrary: ys) (auto simp: bindE_Inr_iff)

text \<open>An invariant of a loop body is an invariant of the loop.\<close>

lemma foldE_invariant:
  assumes "foldE f xs s = Inr t" and "P s"
    and "\<And>x u v. x \<in> set xs \<Longrightarrow> P u \<Longrightarrow> f x u = Inr v \<Longrightarrow> P v"
  shows "P t"
  using assms by (induction xs arbitrary: s) (auto simp: bindE_Inr_iff)

lemma fold_invariant_on:
  assumes "P s" and "\<And>x u. x \<in> set xs \<Longrightarrow> P u \<Longrightarrow> P (f x u)"
  shows "P (fold f xs s)"
  using assms by (induction xs arbitrary: s) auto

section \<open>Lists\<close>

lemma find_Some_iff_first:
  "find P xs = Some x \<Longrightarrow> P x \<and> x \<in> set xs"
  by (induction xs) (auto split: if_splits)

lemma find_None_set: "find P xs = None \<longleftrightarrow> (\<forall>x\<in>set xs. \<not> P x)"
  by (induction xs) auto

lemma distinct_key_unique:
  "distinct (map f xs) \<Longrightarrow> x \<in> set xs \<Longrightarrow> y \<in> set xs \<Longrightarrow> f x = f y \<Longrightarrow> x = y"
  by (metis distinct_map inj_onD)

lemma find_distinct_key:
  assumes "distinct (map f xs)" and "x \<in> set xs"
  shows "find (\<lambda>y. f y = f x) xs = Some x"
proof -
  obtain z where z: "find (\<lambda>y. f y = f x) xs = Some z"
    using assms(2) by (cases "find (\<lambda>y. f y = f x) xs") (auto simp: find_None_iff)
  then have "f z = f x" and "z \<in> set xs" by (auto dest: find_Some_iff_first)
  with assms have "z = x" by (auto intro: distinct_key_unique)
  with z show ?thesis by simp
qed

lemma filter_distinct_key:
  assumes "distinct (map f xs)" and "x \<in> set xs"
  shows "filter (\<lambda>y. f y = f x) xs = [x]"
  using assms
proof (induction xs)
  case Nil
  then show ?case by simp
next
  case (Cons y ys)
  show ?case
  proof (cases "x = y")
    case True
    with Cons.prems have "\<forall>z\<in>set ys. f z \<noteq> f x" by (auto simp: rev_image_eqI)
    with True show ?thesis by simp
  next
    case False
    with Cons.prems have "x \<in> set ys" and "f y \<noteq> f x" by (auto simp: rev_image_eqI)
    with Cons show ?thesis by simp
  qed
qed

text \<open>Python's \<^verbatim>\<open>list.remove\<close> and \<^verbatim>\<open>max(xs, key=k)\<close> (first maximum).\<close>

fun max_by :: "('a \<Rightarrow> 'k::linorder) \<Rightarrow> 'a list \<Rightarrow> 'a option" where
  "max_by k [] = None"
| "max_by k (x # xs) =
     (case max_by k xs of None \<Rightarrow> Some x | Some y \<Rightarrow> if k y \<le> k x then Some x else Some y)"

lemma max_by_None [simp]: "max_by k xs = None \<longleftrightarrow> xs = []"
  by (cases xs) (auto split: option.splits)

lemma max_by_in: "max_by k xs = Some x \<Longrightarrow> x \<in> set xs"
  by (induction xs arbitrary: x) (auto split: option.splits if_splits)

lemma max_by_ge: "max_by k xs = Some x \<Longrightarrow> y \<in> set xs \<Longrightarrow> k y \<le> k x"
  by (induction xs arbitrary: x) (auto split: option.splits if_splits dest: order.trans)

lemma max_by_first:
  "max_by k xs = Some x \<Longrightarrow> \<exists>ps qs. xs = ps @ x # qs \<and> (\<forall>y\<in>set ps. k y < k x)"
proof (induction xs arbitrary: x)
  case Nil
  then show ?case by simp
next
  case (Cons a xs)
  show ?case
  proof (cases "max_by k xs")
    case None
    with Cons.prems have "a # xs = [] @ x # xs" by simp
    then show ?thesis by fastforce
  next
    case (Some y)
    show ?thesis
    proof (cases "k y \<le> k a")
      case True
      with Some Cons.prems have "a # xs = [] @ x # xs" by simp
      then show ?thesis by fastforce
    next
      case False
      with Some Cons obtain ps qs where "xs = ps @ x # qs" "\<forall>z\<in>set ps. k z < k x" "x = y"
        by fastforce
      with False have "a # xs = (a # ps) @ x # qs" "\<forall>z\<in>set (a # ps). k z < k x" by auto
      then show ?thesis by blast
    qed
  qed
qed

end
