(* ===== verification/PyText.thy ===== *)
theory PyText imports Prelude Complex_Main begin

text \<open>
  Python text and JSON values as the modelled code uses them.  A \<^verbatim>\<open>str\<close> is the list
  of its UTF-8 bytes, so \<open>length\<close> is \<^verbatim>\<open>len(value.encode("utf-8"))\<close>, substring tests agree
  with the ones on code points, and the list order is both SQLite's and Python's order.
  White space and case folding are those of ASCII.
\<close>

section \<open>Strings\<close>

text \<open>\<^verbatim>\<open>str.isspace\<close> on ASCII: tab to carriage return, the four separators, blank.\<close>

definition is_space :: "char \<Rightarrow> bool" where
  "is_space c = (let n = of_char c :: nat in (9 \<le> n \<and> n \<le> 13) \<or> (28 \<le> n \<and> n \<le> 32))"

text \<open>The same tests on the bits of a character, for evaluation.\<close>

lemma is_space_code [code]:
  "is_space (Char b0 b1 b2 b3 b4 b5 b6 b7) \<longleftrightarrow>
     (\<not> b7 \<and> \<not> b6 \<and> (if b5 then \<not> (b4 \<or> b3 \<or> b2 \<or> b1 \<or> b0)
        else if b4 then b3 \<and> b2 else b3 \<and> (if b2 then \<not> b1 else b1 \<or> b0)))"
  by (cases b0; cases b1; cases b2; cases b3; cases b4; cases b5; cases b6; cases b7)
    (simp_all add: is_space_def Let_def of_char_def)

definition strip :: "string \<Rightarrow> string" where
  "strip s = rev (dropWhile is_space (rev (dropWhile is_space s)))"

definition lower_char :: "char \<Rightarrow> char" where
  "lower_char c = (let n = of_char c :: nat in if 65 \<le> n \<and> n \<le> 90 then char_of (n + 32) else c)"

lemma lower_char_code [code]:
  "lower_char (Char b0 b1 b2 b3 b4 b5 b6 b7) =
     Char b0 b1 b2 b3 b4 (b5 \<or> b6 \<and> \<not> b7 \<and> (b0 \<or> b1 \<or> b2 \<or> b3 \<or> b4) \<and> \<not> (b4 \<and> b3 \<and> (b2 \<or> b1 \<and> b0))) b6 b7"
  by (cases b0; cases b1; cases b2; cases b3; cases b4; cases b5; cases b6; cases b7)
    (simp_all add: lower_char_def Let_def of_char_def char_of_def bit_Suc_0_iff)

definition lower :: "string \<Rightarrow> string" where
  "lower s = map lower_char s"

fun starts_with :: "string \<Rightarrow> string \<Rightarrow> bool" where
  "starts_with [] s = True"
| "starts_with (p # ps) [] = False"
| "starts_with (p # ps) (c # cs) = (p = c \<and> starts_with ps cs)"

fun contains :: "string \<Rightarrow> string \<Rightarrow> bool" where
  "contains p [] = (p = [])"
| "contains p (c # cs) = (starts_with p (c # cs) \<or> contains p cs)"

definition ends_with :: "string \<Rightarrow> string \<Rightarrow> bool" where
  "ends_with p s = starts_with (rev p) (rev s)"

lemma starts_with_prefix [simp]: "starts_with p s = prefix p s"
  by (induction p s rule: starts_with.induct) auto

lemma contains_sublist: "contains p s = sublist p s"
  by (induction p s rule: contains.induct) (auto simp: sublist_Cons_right)

lemma strip_subset: "set (strip s) \<subseteq> set s"
  unfolding strip_def by (metis set_dropWhileD set_rev subsetI)

lemma length_strip: "length (strip s) \<le> length s"
  unfolding strip_def by (metis length_dropWhile_le length_rev order.trans)

lemma dropWhile_id: "(xs \<noteq> [] \<Longrightarrow> \<not> P (hd xs)) \<Longrightarrow> dropWhile P xs = xs"
  by (cases xs) auto

lemma strip_hd: "strip s \<noteq> [] \<Longrightarrow> \<not> is_space (hd (strip s))"
proof -
  assume ne: "strip s \<noteq> []"
  let ?u = "dropWhile is_space s"
  let ?w = "takeWhile is_space (rev ?u)"
  have u: "?u = strip s @ rev ?w"
    unfolding strip_def by (metis rev_append rev_rev_ident takeWhile_dropWhile_id)
  with ne have "?u \<noteq> []" by (metis append_is_Nil_conv)
  then have "\<not> is_space (hd ?u)" by (rule hd_dropWhile)
  moreover have "hd ?u = hd (strip s)" using u ne by (metis hd_append2)
  ultimately show ?thesis by simp
qed

lemma strip_last: "strip s \<noteq> [] \<Longrightarrow> \<not> is_space (last (strip s))"
  unfolding strip_def by (metis hd_dropWhile last_rev rev_is_Nil_conv)

lemma strip_idem [simp]: "strip (strip s) = strip s"
proof -
  have "dropWhile is_space (strip s) = strip s"
    by (rule dropWhile_id) (rule strip_hd)
  moreover have "dropWhile is_space (rev (strip s)) = rev (strip s)"
    by (rule dropWhile_id) (metis hd_rev rev_is_Nil_conv strip_last)
  ultimately show ?thesis by (simp add: strip_def [of "strip s"])
qed

text \<open>
  Code points of a UTF-8 text: \<^verbatim>\<open>len(value)\<close>, \<^verbatim>\<open>value[n:]\<close> and \<^verbatim>\<open>value[-n:]\<close>, and what decoding a
  tail with \<^verbatim>\<open>errors="ignore"\<close> keeps (a cut code point at its front is dropped).
\<close>

definition is_continuation :: "char \<Rightarrow> bool" where
  "is_continuation c = (let n = of_char c :: nat in 128 \<le> n \<and> n < 192)"

definition char_length :: "string \<Rightarrow> nat" where
  "char_length s = length (filter (\<lambda>c. \<not> is_continuation c) s)"

fun drop_chars :: "nat \<Rightarrow> string \<Rightarrow> string" where
  "drop_chars n s = (if n = 0 then s else case s of [] \<Rightarrow> [] | c # cs \<Rightarrow> drop_chars (n - 1) (dropWhile is_continuation cs))"

declare drop_chars.simps [simp del]

definition last_chars :: "nat \<Rightarrow> string \<Rightarrow> string" where
  "last_chars n s = drop_chars (char_length s - n) s"

definition last_bytes :: "nat \<Rightarrow> string \<Rightarrow> string" where
  "last_bytes n s = (if length s \<le> n then s else dropWhile is_continuation (drop (length s - n) s))"

lemma length_last_bytes: "length (last_bytes n s) \<le> n"
  unfolding last_bytes_def using length_dropWhile_le [of is_continuation "drop (length s - n) s"] by auto

section \<open>Credential-like text\<close>

text \<open>
  \<^verbatim>\<open>SECRET_RE = (?i)(?:sk-[A-Za-z0-9_-]{12,}|bearer\s+[A-Za-z0-9._-]{12,}|
  api[_-]?key\s*[:=]\s*\S+)\<close>.  Each alternative is deterministic, so a match at a position
  is a run over the suffix there, and \<^verbatim>\<open>search\<close> tries every suffix.
\<close>

definition is_alnum :: "char \<Rightarrow> bool" where
  "is_alnum c = (let n = of_char c :: nat in
     (48 \<le> n \<and> n \<le> 57) \<or> (65 \<le> n \<and> n \<le> 90) \<or> (97 \<le> n \<and> n \<le> 122))"

definition strip_prefix_ci :: "string \<Rightarrow> string \<Rightarrow> string option" where
  "strip_prefix_ci p s = (if starts_with p (lower s) then Some (drop (length p) s) else None)"

lemma strip_prefix_ci_code [code]:
  "strip_prefix_ci [] s = Some s"
  "strip_prefix_ci (p # ps) [] = None"
  "strip_prefix_ci (p # ps) (c # cs) = (if p = lower_char c then strip_prefix_ci ps cs else None)"
  by (auto simp: strip_prefix_ci_def lower_def)

definition at_least12 :: "(char \<Rightarrow> bool) \<Rightarrow> string \<Rightarrow> bool" where
  "at_least12 P s = (12 \<le> length (takeWhile P s))"

definition match_sk :: "string \<Rightarrow> bool" where
  "match_sk s = (case strip_prefix_ci ''sk-'' s of None \<Rightarrow> False
     | Some r \<Rightarrow> at_least12 (\<lambda>c. is_alnum c \<or> c = CHR ''_'' \<or> c = CHR ''-'') r)"

definition match_bearer :: "string \<Rightarrow> bool" where
  "match_bearer s = (case strip_prefix_ci ''bearer'' s of None \<Rightarrow> False
     | Some r \<Rightarrow> r \<noteq> [] \<and> is_space (hd r) \<and>
         at_least12 (\<lambda>c. is_alnum c \<or> c = CHR ''.'' \<or> c = CHR ''_'' \<or> c = CHR ''-'')
           (dropWhile is_space r))"

definition match_api_key :: "string \<Rightarrow> bool" where
  "match_api_key s = (case strip_prefix_ci ''api'' s of None \<Rightarrow> False
     | Some r \<Rightarrow>
        (let r' = (case r of [] \<Rightarrow> [] | c # cs \<Rightarrow> if c = CHR ''_'' \<or> c = CHR ''-'' then cs else r) in
         case strip_prefix_ci ''key'' r' of None \<Rightarrow> False
         | Some q \<Rightarrow> (case dropWhile is_space q of [] \<Rightarrow> False
             | c # cs \<Rightarrow> (c = CHR '':'' \<or> c = CHR ''='') \<and> dropWhile is_space cs \<noteq> [])))"

fun secret_search :: "string \<Rightarrow> bool" where
  "secret_search [] = False"
| "secret_search (c # cs) =
     (match_sk (c # cs) \<or> match_bearer (c # cs) \<or> match_api_key (c # cs) \<or> secret_search cs)"

section \<open>JSON values\<close>

text \<open>
  A decoded JSON value.  An object keeps its items in insertion order, as a Python
  dictionary does; a finite float is carried with the text \<^verbatim>\<open>repr\<close> prints for it, and
  \<^verbatim>\<open>inf\<close>, \<^verbatim>\<open>-inf\<close> and \<^verbatim>\<open>nan\<close> with the text \<^verbatim>\<open>json\<close> prints.
\<close>

datatype json =
    JNull
  | JBool bool
  | JInt int
  | JFloat rat string
  | JNonFinite string
  | JStr string
  | JArr "json list"
  | JObj "(string \<times> json) list"

definition jget :: "(string \<times> json) list \<Rightarrow> string \<Rightarrow> json option" where
  "jget items k = map_of items k"

definition jget_default :: "(string \<times> json) list \<Rightarrow> string \<Rightarrow> json \<Rightarrow> json" where
  "jget_default items k d = (case map_of items k of None \<Rightarrow> d | Some v \<Rightarrow> v)"

definition str_items :: "json list \<Rightarrow> string list option" where
  "str_items vs = (if \<forall>v\<in>set vs. \<exists>s. v = JStr s
     then Some (map (\<lambda>v. case v of JStr s \<Rightarrow> s | _ \<Rightarrow> []) vs) else None)"

lemma str_items_code [code]:
  "str_items vs = (if list_all (\<lambda>v. case v of JStr s \<Rightarrow> True | _ \<Rightarrow> False) vs
     then Some (map (\<lambda>v. case v of JStr s \<Rightarrow> s | _ \<Rightarrow> []) vs) else None)"
proof -
  have "(case v of JStr s \<Rightarrow> True | _ \<Rightarrow> False) \<longleftrightarrow> (\<exists>s. v = JStr s)" for v by (cases v) auto
  then show ?thesis by (simp add: str_items_def list_all_iff)
qed

text \<open>
  \<^verbatim>\<open>isinstance(value, (int, float))\<close> without booleans, its numeric value, and
  \<^verbatim>\<open>math.isfinite(float(value))\<close>, which raises for an integer no double is near to.
\<close>

fun is_number :: "json \<Rightarrow> bool" where
  "is_number (JInt _) = True"
| "is_number (JFloat _ _) = True"
| "is_number (JNonFinite _) = True"
| "is_number _ = False"

fun num_val :: "json \<Rightarrow> rat" where
  "num_val (JInt i) = of_int i"
| "num_val (JFloat r _) = r"
| "num_val _ = 0"

definition float_max_excl :: int where
  "float_max_excl = 2 ^ 1024 - 2 ^ 970"

fun is_finite_number :: "json \<Rightarrow> bool result" where
  "is_finite_number (JInt i) =
     (if float_max_excl \<le> \<bar>i\<bar> then Inl (OverflowError ''int too large to convert to float'') else Inr True)"
| "is_finite_number (JFloat _ _) = Inr True"
| "is_finite_number _ = Inr False"

text \<open>A small integer is within the bound, which saves evaluating the bound.\<close>

lemma is_finite_number_code [code]:
  "is_finite_number (JInt i) =
     (if \<bar>i\<bar> < 1000000000 then Inr True
      else if float_max_excl \<le> \<bar>i\<bar> then Inl (OverflowError ''int too large to convert to float'') else Inr True)"
  "is_finite_number (JFloat r txt) = Inr True"
  "is_finite_number (JNonFinite txt) = Inr False"
  "is_finite_number JNull = Inr False"
  "is_finite_number (JBool b) = Inr False"
  "is_finite_number (JStr t) = Inr False"
  "is_finite_number (JArr vs) = Inr False"
  "is_finite_number (JObj items) = Inr False"
  by (simp_all add: float_max_excl_def)

text \<open>Decimal digits of a natural number, \<^verbatim>\<open>str(n)\<close>.\<close>

definition digit_char :: "nat \<Rightarrow> char" where
  "digit_char n = char_of (48 + n mod 10)"

fun show_nat :: "nat \<Rightarrow> string" where
  "show_nat n = (if n < 10 then [digit_char n] else show_nat (n div 10) @ [digit_char n])"

declare show_nat.simps [simp del]

definition show_int :: "int \<Rightarrow> string" where
  "show_int i = (if i < 0 then CHR ''-'' # show_nat (nat (- i)) else show_nat (nat i))"

definition backslash :: char where "backslash = char_of (92::nat)"

definition hex_digit :: "nat \<Rightarrow> char" where
  "hex_digit n = (if n < 10 then char_of (48 + n) else char_of (87 + n))"

text \<open>\<^verbatim>\<open>json.dumps\<close> escapes (\<^verbatim>\<open>ensure_ascii=False\<close>).\<close>

definition escape_char :: "char \<Rightarrow> string" where
  "escape_char c = (let n = of_char c :: nat in
     if n = 34 then [char_of (92::nat), c]
     else if n = 92 then [c, c]
     else if n = 10 then [char_of (92::nat), CHR ''n'']
     else if n = 13 then [char_of (92::nat), CHR ''r'']
     else if n = 9 then [char_of (92::nat), CHR ''t'']
     else if n = 8 then [char_of (92::nat), CHR ''b'']
     else if n = 12 then [char_of (92::nat), CHR ''f'']
     else if n < 32 then [char_of (92::nat), CHR ''u'', CHR ''0'', CHR ''0'',
                          hex_digit (n div 16), hex_digit (n mod 16)]
     else [c])"

definition escape_rare :: "char \<Rightarrow> string" where
  "escape_rare = escape_char"

lemmas escape_rare_code [code] = escape_char_def [folded escape_rare_def]

lemma escape_char_code [code]:
  "escape_char (Char b0 b1 b2 b3 b4 b5 b6 b7) =
     (let c = Char b0 b1 b2 b3 b4 b5 b6 b7 in
      if (b5 \<or> b6 \<or> b7) \<and> c \<noteq> char_of (34::nat) \<and> c \<noteq> char_of (92::nat) then [c] else escape_rare c)"
  by (cases b0; cases b1; cases b2; cases b3; cases b4; cases b5; cases b6; cases b7)
    (simp_all add: escape_rare_def escape_char_def Let_def of_char_def char_of_def bit_Suc_0_iff)

definition quote_str :: "string \<Rightarrow> string" where
  "quote_str s = [char_of (34::nat)] @ concat (map escape_char s) @ [char_of (34::nat)]"

definition join_with :: "string \<Rightarrow> string list \<Rightarrow> string" where
  "join_with sep xs = concat (case xs of [] \<Rightarrow> [] | y # ys \<Rightarrow> y # map ((@) sep) ys)"

text \<open>\<^verbatim>\<open>json.dumps(value, ensure_ascii=False, sort_keys=True)\<close>, default separators.\<close>

fun dumps :: "json \<Rightarrow> string" where
  "dumps JNull = ''null''"
| "dumps (JBool b) = (if b then ''true'' else ''false'')"
| "dumps (JInt i) = show_int i"
| "dumps (JFloat r txt) = txt"
| "dumps (JNonFinite txt) = txt"
| "dumps (JStr s) = quote_str s"
| "dumps (JArr vs) = ''['' @ join_with '', '' (map dumps vs) @ '']''"
| "dumps (JObj items) =
     ''{'' @ join_with '', '' (map (\<lambda>(k, t). quote_str k @ '': '' @ t)
        (sort_key fst (map (\<lambda>(k, v). (k, dumps v)) items))) @ ''}''"

section \<open>Decimal rendering is injective\<close>

fun digits_val :: "string \<Rightarrow> nat" where
  "digits_val s = foldl (\<lambda>a c. 10 * a + (of_char c - 48)) 0 s"

lemma digit_char_val: "of_char (digit_char n) - (48::nat) = n mod 10"
proof -
  have "n mod 10 < 10" by simp
  then have "48 + n mod 10 < 256" by linarith
  then have "(48 + n mod 10) mod 256 = 48 + n mod 10" by (rule mod_less)
  then show ?thesis by (simp add: digit_char_def of_char_of)
qed

lemma digits_val_show_nat: "digits_val (show_nat n) = n"
proof (induction n rule: show_nat.induct)
  case (1 n)
  show ?case
  proof (cases "n < 10")
    case True
    then show ?thesis
      using digit_char_val [of n] by (subst show_nat.simps) simp
  next
    case False
    with 1 have "digits_val (show_nat (n div 10)) = n div 10" by simp
    with False show ?thesis
      using digit_char_val [of n] by (subst show_nat.simps) simp
  qed
qed

lemma show_nat_inject [simp]: "show_nat m = show_nat n \<longleftrightarrow> m = n"
  by (metis digits_val_show_nat)

end
