(* ===== verification/Budgets.thy ===== *)
theory Budgets imports PyText begin

text \<open>
  \<^verbatim>\<open>budget.py\<close> and the model profile of \<^verbatim>\<open>profiles.py\<close>: validated limits of a run and of
  a model.  Constructor arguments are JSON values, so that the type checks of
  \<^verbatim>\<open>__post_init__\<close> are part of the model; the record holds what passed them.
\<close>

section \<open>Run budgets\<close>

record budget_spec =
  max_tasks :: int
  max_attempts :: int
  max_tool_steps :: int
  max_runtime_seconds :: json
  max_artifact_bytes :: int

definition default_budget :: budget_spec where
  "default_budget = \<lparr>max_tasks = 64, max_attempts = 128, max_tool_steps = 40,
     max_runtime_seconds = JFloat 900 ''900.0'', max_artifact_bytes = 10 * 1024 * 1024\<rparr>"

definition positive_int :: "string \<Rightarrow> json \<Rightarrow> int result" where
  "positive_int name v =
     (case v of JInt i \<Rightarrow> if i < 1 then Inl (ValueError (name @ '' must be a positive integer'')) else Inr i
      | _ \<Rightarrow> Inl (ValueError (name @ '' must be a positive integer'')))"

definition budget_post_init ::
  "json \<Rightarrow> json \<Rightarrow> json \<Rightarrow> json \<Rightarrow> json \<Rightarrow> budget_spec result" where
  "budget_post_init tasks attempts steps seconds bytes =
     bindE (positive_int ''max_tasks'' tasks) (\<lambda>t.
     bindE (positive_int ''max_attempts'' attempts) (\<lambda>a.
     bindE (positive_int ''max_tool_steps'' steps) (\<lambda>s.
     bindE (positive_int ''max_artifact_bytes'' bytes) (\<lambda>b.
     bindE (guardE (\<not> is_number seconds) (TypeError ''max_runtime_seconds must be finite and positive'')) (\<lambda>_.
     bindE (is_finite_number seconds) (\<lambda>fin.
     bindE (guardE (\<not> fin \<or> num_val seconds \<le> 0) (ValueError ''max_runtime_seconds must be finite and positive'')) (\<lambda>_.
       Inr \<lparr>max_tasks = t, max_attempts = a, max_tool_steps = s,
            max_runtime_seconds = seconds, max_artifact_bytes = b\<rparr>)))))))"

definition budget_to_dict :: "budget_spec \<Rightarrow> (string \<times> json) list" where
  "budget_to_dict b =
     [(''max_tasks'', JInt (max_tasks b)), (''max_attempts'', JInt (max_attempts b)),
      (''max_tool_steps'', JInt (max_tool_steps b)),
      (''max_runtime_seconds'', max_runtime_seconds b),
      (''max_artifact_bytes'', JInt (max_artifact_bytes b))]"

definition budget_fields :: "string list" where
  "budget_fields = [''max_tasks'', ''max_attempts'', ''max_tool_steps'',
     ''max_runtime_seconds'', ''max_artifact_bytes'']"

definition budget_from_dict :: "json \<Rightarrow> budget_spec result" where
  "budget_from_dict value =
     (case value of
        JNull \<Rightarrow> Inr default_budget
      | JObj items \<Rightarrow>
          (let unknown = filter (\<lambda>k. k \<notin> set budget_fields) (map fst items) in
           if unknown \<noteq> []
           then Inl (ValueError (''unknown budget fields: '' @ join_with '', '' (sort unknown)))
           else let field = (\<lambda>k. jget_default items k (the (map_of (budget_to_dict default_budget) k)))
                in budget_post_init (field ''max_tasks'') (field ''max_attempts'') (field ''max_tool_steps'')
                     (field ''max_runtime_seconds'') (field ''max_artifact_bytes''))
      | _ \<Rightarrow> Inl (TypeError ''budget must be an object''))"

definition budget_ok :: "budget_spec \<Rightarrow> bool" where
  "budget_ok b \<longleftrightarrow> 1 \<le> max_tasks b \<and> 1 \<le> max_attempts b \<and> 1 \<le> max_tool_steps b
     \<and> 1 \<le> max_artifact_bytes b \<and> is_finite_number (max_runtime_seconds b) = Inr True
     \<and> 0 < num_val (max_runtime_seconds b)"

lemma positive_int_Inr: "positive_int n v = Inr i \<longleftrightarrow> v = JInt i \<and> 1 \<le> i"
  by (auto simp: positive_int_def split: json.splits if_splits)

lemma finite_number_is_number: "is_finite_number v = Inr True \<Longrightarrow> is_number v"
  by (cases v) auto

lemma budget_post_init_Inr:
  "budget_post_init t a s r b = Inr spec \<longleftrightarrow>
     budget_ok spec \<and> t = JInt (max_tasks spec) \<and> a = JInt (max_attempts spec)
     \<and> s = JInt (max_tool_steps spec) \<and> r = max_runtime_seconds spec \<and> b = JInt (max_artifact_bytes spec)"
  unfolding budget_post_init_def budget_ok_def
  by (cases spec) (auto simp: resultE_iffs positive_int_Inr finite_number_is_number)

lemma default_budget_ok: "budget_ok default_budget"
  by (simp add: default_budget_def budget_ok_def)

lemma budget_from_dict_ok: "budget_from_dict v = Inr b \<Longrightarrow> budget_ok b"
  by (auto simp: budget_from_dict_def budget_post_init_Inr default_budget_ok Let_def
      split: json.splits if_splits)

lemma budget_dict_roundtrip: "budget_ok b \<Longrightarrow> budget_from_dict (JObj (budget_to_dict b)) = Inr b"
  by (auto simp: budget_from_dict_def budget_to_dict_def budget_fields_def jget_default_def
      budget_post_init_Inr Let_def)

section \<open>Model profiles\<close>

definition profile_text :: "json \<Rightarrow> string \<Rightarrow> string result" where
  "profile_text value name =
     (let v = (case value of JStr s \<Rightarrow> strip s | _ \<Rightarrow> []) in
      if v = [] \<or> 8000 < length v \<or> secret_search v
      then Inl (ValueError (name @ '' must be bounded and contain no credential-like content''))
      else Inr v)"

record model_profile =
  mp_name :: string
  mp_model :: string
  thinking_budget :: int
  max_steps :: int
  timeout_seconds :: json
  max_total_tokens :: "int option"
  max_cost_micros :: "int option"
  input_cost_per_1k_micros :: "int option"
  output_cost_per_1k_micros :: "int option"

definition optional_nat_field :: "string \<Rightarrow> json \<Rightarrow> int option result" where
  "optional_nat_field name v =
     (case v of
        JNull \<Rightarrow> Inr None
      | JInt i \<Rightarrow> if i < 0 then Inl (ValueError (name @ '' must be a non-negative integer or null'')) else Inr (Some i)
      | _ \<Rightarrow> Inl (ValueError (name @ '' must be a non-negative integer or null'')))"

definition bounded_int_field :: "string \<Rightarrow> int \<Rightarrow> int \<Rightarrow> json \<Rightarrow> int result" where
  "bounded_int_field msg lo hi v =
     (case v of JInt i \<Rightarrow> if lo \<le> i \<and> i \<le> hi then Inr i else Inl (ValueError msg)
      | _ \<Rightarrow> Inl (ValueError msg))"

text \<open>\<^verbatim>\<open>ModelProfile.__post_init__\<close>; the stored name and model are the arguments themselves.\<close>

definition model_profile_post_init ::
  "json \<Rightarrow> json \<Rightarrow> json \<Rightarrow> json \<Rightarrow> json \<Rightarrow> json \<Rightarrow> json \<Rightarrow> json \<Rightarrow> json \<Rightarrow> model_profile result" where
  "model_profile_post_init name model thinking steps timeout tokens cost inp outp =
     bindE (profile_text name ''model profile name'') (\<lambda>_.
     bindE (profile_text model ''model profile model'') (\<lambda>_.
     bindE (bounded_int_field ''thinking_budget must be an integer between 0 and 1000000'' 0 1000000 thinking) (\<lambda>tb.
     bindE (bounded_int_field ''max_steps must be between 1 and 200'' 1 200 steps) (\<lambda>st.
     bindE (guardE (\<not> is_number timeout) (ValueError ''timeout_seconds must be finite and between 0 and 86400'')) (\<lambda>_.
     bindE (is_finite_number timeout) (\<lambda>fin.
     bindE (guardE (\<not> fin \<or> \<not> (0 < num_val timeout \<and> num_val timeout \<le> 86400))
              (ValueError ''timeout_seconds must be finite and between 0 and 86400'')) (\<lambda>_.
     bindE (optional_nat_field ''max_total_tokens'' tokens) (\<lambda>tt.
     bindE (optional_nat_field ''max_cost_micros'' cost) (\<lambda>cm.
     bindE (optional_nat_field ''input_cost_per_1k_micros'' inp) (\<lambda>ic.
     bindE (optional_nat_field ''output_cost_per_1k_micros'' outp) (\<lambda>oc.
     bindE (guardE ((ic = None) \<noteq> (oc = None)) (ValueError ''input and output token prices must be supplied together'')) (\<lambda>_.
     bindE (guardE (cm \<noteq> None \<and> ic = None) (ValueError ''max_cost_micros requires input and output token prices'')) (\<lambda>_.
     bindE (guardE (tt = Some 0 \<or> cm = Some 0) (ValueError ''token and cost ceilings must be positive when supplied'')) (\<lambda>_.
       Inr \<lparr>mp_name = (case name of JStr s \<Rightarrow> s | _ \<Rightarrow> []), mp_model = (case model of JStr s \<Rightarrow> s | _ \<Rightarrow> []),
            thinking_budget = tb, max_steps = st, timeout_seconds = timeout,
            max_total_tokens = tt, max_cost_micros = cm,
            input_cost_per_1k_micros = ic, output_cost_per_1k_micros = oc\<rparr>))))))))))))))"

definition opt_int :: "int option \<Rightarrow> json" where
  "opt_int v = (case v of None \<Rightarrow> JNull | Some i \<Rightarrow> JInt i)"

definition model_profile_fields :: "string list" where
  "model_profile_fields = [''name'', ''model'', ''thinking_budget'', ''max_steps'', ''timeout_seconds'',
     ''max_total_tokens'', ''max_cost_micros'', ''input_cost_per_1k_micros'', ''output_cost_per_1k_micros'']"

text \<open>\<^verbatim>\<open>cls("default", "local").to_dict()\<close>: the values a profile object may leave out.\<close>

definition model_profile_defaults :: "(string \<times> json) list" where
  "model_profile_defaults =
     [(''name'', JStr ''default''), (''model'', JStr ''local''), (''thinking_budget'', JInt 0),
      (''max_steps'', JInt 40), (''timeout_seconds'', JFloat 900 ''900.0''),
      (''max_total_tokens'', JNull), (''max_cost_micros'', JNull),
      (''input_cost_per_1k_micros'', JNull), (''output_cost_per_1k_micros'', JNull)]"

definition model_profile_from_dict :: "json \<Rightarrow> model_profile result" where
  "model_profile_from_dict value =
     (case value of
        JObj items \<Rightarrow>
          (let missing = filter (\<lambda>k. k \<notin> fst ` set items) [''model'', ''name''];
               unknown = filter (\<lambda>k. k \<notin> set model_profile_fields) (map fst items);
               field = (\<lambda>k. jget_default items k (the (map_of model_profile_defaults k))) in
           if missing \<noteq> [] then
             Inl (ValueError (''model profile is missing required fields: '' @ join_with '', '' missing))
           else if unknown \<noteq> [] then
             Inl (ValueError (''unknown model profile fields: '' @ join_with '', '' (sort unknown)))
           else model_profile_post_init (field ''name'') (field ''model'') (field ''thinking_budget'')
                  (field ''max_steps'') (field ''timeout_seconds'') (field ''max_total_tokens'')
                  (field ''max_cost_micros'') (field ''input_cost_per_1k_micros'')
                  (field ''output_cost_per_1k_micros''))
      | _ \<Rightarrow> Inl (TypeError ''model profile must be an object''))"

definition profile_ok :: "model_profile \<Rightarrow> bool" where
  "profile_ok p \<longleftrightarrow>
     (\<forall>m. max_total_tokens p = Some m \<longrightarrow> 0 < m) \<and> (\<forall>m. max_cost_micros p = Some m \<longrightarrow> 0 < m)
     \<and> (\<forall>r. input_cost_per_1k_micros p = Some r \<longrightarrow> 0 \<le> r)
     \<and> (\<forall>r. output_cost_per_1k_micros p = Some r \<longrightarrow> 0 \<le> r)
     \<and> (input_cost_per_1k_micros p = None \<longleftrightarrow> output_cost_per_1k_micros p = None)
     \<and> (max_cost_micros p \<noteq> None \<longrightarrow> input_cost_per_1k_micros p \<noteq> None)"

lemma optional_nat_field_Inr:
  "optional_nat_field n v = Inr x \<longleftrightarrow> (v = JNull \<and> x = None) \<or> (\<exists>i\<ge>0. v = JInt i \<and> x = Some i)"
  by (auto simp: optional_nat_field_def split: json.splits if_splits)

lemma optional_nat_field_nonneg: "optional_nat_field n v = Inr (Some i) \<Longrightarrow> 0 \<le> i"
  by (auto simp: optional_nat_field_Inr)

lemma model_profile_post_init_ok:
  assumes "model_profile_post_init n m t s w tt cm ic oc = Inr p" shows "profile_ok p"
proof -
  from assms obtain tt' cm' ic' oc' where
    "optional_nat_field ''max_total_tokens'' tt = Inr tt'" "optional_nat_field ''max_cost_micros'' cm = Inr cm'"
    "optional_nat_field ''input_cost_per_1k_micros'' ic = Inr ic'"
    "optional_nat_field ''output_cost_per_1k_micros'' oc = Inr oc'"
    "(ic' = None) = (oc' = None)" "\<not> (cm' \<noteq> None \<and> ic' = None)" "\<not> (tt' = Some 0 \<or> cm' = Some 0)"
    "max_total_tokens p = tt'" "max_cost_micros p = cm'" "input_cost_per_1k_micros p = ic'"
    "output_cost_per_1k_micros p = oc'"
    unfolding model_profile_post_init_def bindE_Inr_iff guardE_Inr_iff sum.inject
    by (elim exE conjE, hypsubst) simp
  then show ?thesis
    unfolding profile_ok_def optional_nat_field_Inr by (elim disjE conjE exE) simp_all
qed

lemma model_profile_from_dict_ok: "model_profile_from_dict v = Inr p \<Longrightarrow> profile_ok p"
  by (auto simp: model_profile_from_dict_def Let_def model_profile_post_init_ok
      split: json.splits if_splits)

end
