(* ===== verification/UsageLedger.thy ===== *)
theory UsageLedger imports Budgets begin

text \<open>
  \<^verbatim>\<open>model_profile.py\<close>: token and cost accounting of one model session.  The mutable object
  is the record \<open>usage_ledger\<close>; an operation returns its outcome together with the new state,
  because a rejected response changes the state (it latches the failure) while raising.
\<close>

section \<open>State\<close>

record usage_snapshot =
  us_input :: int
  us_output :: int
  us_total :: int
  us_cost :: "int option"
  us_rounds :: int

datatype usage_limit = Max_total_tokens | Max_cost_micros
datatype failure_state = Exceeded | Exhausted

record failure_evidence =
  fe_limit :: usage_limit
  fe_state :: failure_state
  fe_maximum :: int
  fe_accepted :: usage_snapshot
  fe_observed :: usage_snapshot
  fe_recorded :: bool

datatype usage_error = ProfileBudgetExceeded failure_evidence | Usage_py py_error

record usage_ledger =
  ul_profile :: model_profile
  ul_input :: int
  ul_output :: int
  ul_rounds :: int
  ul_failure :: "failure_evidence option"
  ul_complete :: bool
  ul_models :: "string option list"

section \<open>Operations\<close>

definition new_usage_ledger :: "model_profile \<Rightarrow> usage_ledger" where
  "new_usage_ledger p = \<lparr>ul_profile = p, ul_input = 0, ul_output = 0, ul_rounds = 0,
     ul_failure = None, ul_complete = True, ul_models = []\<rparr>"

definition usage_cost :: "model_profile \<Rightarrow> int \<Rightarrow> int \<Rightarrow> int option" where
  "usage_cost p i out =
     (case (input_cost_per_1k_micros p, output_cost_per_1k_micros p) of
        (Some ri, Some ro) \<Rightarrow> Some ((i * ri + 999) div 1000 + (out * ro + 999) div 1000)
      | _ \<Rightarrow> None)"

definition usage_snapshot_of :: "usage_ledger \<Rightarrow> usage_snapshot" where
  "usage_snapshot_of l = \<lparr>us_input = ul_input l, us_output = ul_output l,
     us_total = ul_input l + ul_output l,
     us_cost = usage_cost (ul_profile l) (ul_input l) (ul_output l), us_rounds = ul_rounds l\<rparr>"

definition usage_complete :: "usage_ledger \<Rightarrow> bool" where
  "usage_complete l \<longleftrightarrow> ul_complete l \<and> ul_failure l = None"

definition response_model :: "usage_ledger \<Rightarrow> string option" where
  "response_model l =
     (case ul_models l of
        [] \<Rightarrow> None
      | m # ms \<Rightarrow>
          if int (length (m # ms)) = ul_rounds l
             \<and> list_all (\<lambda>x. case x of None \<Rightarrow> False | Some s \<Rightarrow> s \<noteq> []) (m # ms)
             \<and> list_all ((=) m) ms
          then m else None)"

definition observe_response_model :: "string option \<Rightarrow> usage_ledger \<Rightarrow> usage_ledger" where
  "observe_response_model m l = l\<lparr>ul_models := ul_models l @ [m]\<rparr>"

definition mark_usage_unavailable :: "usage_ledger \<Rightarrow> usage_ledger" where
  "mark_usage_unavailable l = l\<lparr>ul_complete := False\<rparr>"

text \<open>\<^verbatim>\<open>check_request\<close>: tokens first, then cost; either ceiling met refuses the request.\<close>

definition exhausted :: "usage_limit \<Rightarrow> int \<Rightarrow> usage_snapshot \<Rightarrow> usage_error" where
  "exhausted which m snap = ProfileBudgetExceeded \<lparr>fe_limit = which, fe_state = Exhausted, fe_maximum = m,
     fe_accepted = snap, fe_observed = snap, fe_recorded = True\<rparr>"

definition check_request :: "bool \<Rightarrow> usage_ledger \<Rightarrow> usage_error + unit" where
  "check_request require_complete l =
     (case ul_failure l of
        Some ev \<Rightarrow> Inl (ProfileBudgetExceeded ev)
      | None \<Rightarrow>
          if require_complete \<and> \<not> ul_complete l
          then Inl (Usage_py (ValueError ''model profile aggregate usage is unavailable''))
          else let snap = usage_snapshot_of l in
            case max_total_tokens (ul_profile l) of
              Some m \<Rightarrow>
                if us_total snap \<ge> m then Inl (exhausted Max_total_tokens m snap)
                else (case (max_cost_micros (ul_profile l), us_cost snap) of
                        (Some c, Some a) \<Rightarrow> if a \<ge> c then Inl (exhausted Max_cost_micros c snap) else Inr ()
                      | _ \<Rightarrow> Inr ())
            | None \<Rightarrow>
                (case (max_cost_micros (ul_profile l), us_cost snap) of
                   (Some c, Some a) \<Rightarrow> if a \<ge> c then Inl (exhausted Max_cost_micros c snap) else Inr ()
                 | _ \<Rightarrow> Inr ()))"

text \<open>
  The shape check of a usage sample: exactly the three counters, each a non-negative integer,
  the total their sum.  Which malformed counter Python names first depends on set order; here
  it is the order input, output, total.
\<close>

definition usage_counter :: "string \<Rightarrow> json option \<Rightarrow> int result" where
  "usage_counter name v =
     (case v of Some (JInt i) \<Rightarrow> if i < 0 then Inl (ValueError (''usage '' @ name @ '' must be a non-negative integer'')) else Inr i
      | _ \<Rightarrow> Inl (ValueError (''usage '' @ name @ '' must be a non-negative integer'')))"

definition parse_usage :: "json \<Rightarrow> (int \<times> int) result" where
  "parse_usage usage =
     (case usage of
        JObj items \<Rightarrow>
          bindE (guardE (fst ` set items \<noteq> {''input_tokens'', ''output_tokens'', ''total_tokens''})
                   (ValueError ''usage must contain input_tokens, output_tokens, and total_tokens'')) (\<lambda>_.
          bindE (usage_counter ''input_tokens'' (jget items ''input_tokens'')) (\<lambda>i.
          bindE (usage_counter ''output_tokens'' (jget items ''output_tokens'')) (\<lambda>out.
          bindE (usage_counter ''total_tokens'' (jget items ''total_tokens'')) (\<lambda>t.
          bindE (guardE (i + out \<noteq> t) (ValueError ''usage total must equal input plus output'')) (\<lambda>_.
            Inr (i, out))))))
      | _ \<Rightarrow> Inl (TypeError ''usage must be an object''))"

definition exceeded :: "usage_limit \<Rightarrow> int \<Rightarrow> usage_snapshot \<Rightarrow> usage_snapshot \<Rightarrow> failure_evidence" where
  "exceeded which m acc obs = \<lparr>fe_limit = which, fe_state = Exceeded, fe_maximum = m,
     fe_accepted = acc, fe_observed = obs, fe_recorded = False\<rparr>"

text \<open>The two ceiling tests of \<^verbatim>\<open>record\<close>, in their order.\<close>

definition over_ceiling :: "model_profile \<Rightarrow> usage_snapshot \<Rightarrow> usage_snapshot \<Rightarrow> failure_evidence option" where
  "over_ceiling p acc obs =
     (let cost_test = (case (max_cost_micros p, us_cost obs) of
          (Some c, Some a) \<Rightarrow> if a > c then Some (exceeded Max_cost_micros c acc obs) else None
        | _ \<Rightarrow> None)
      in case max_total_tokens p of
           Some m \<Rightarrow> if us_total obs > m then Some (exceeded Max_total_tokens m acc obs) else cost_test
         | None \<Rightarrow> cost_test)"

definition record_usage :: "json \<Rightarrow> usage_ledger \<Rightarrow> (usage_error + usage_snapshot) \<times> usage_ledger" where
  "record_usage usage l =
     (case ul_failure l of
        Some ev \<Rightarrow> (Inl (ProfileBudgetExceeded ev), l)
      | None \<Rightarrow>
        (case parse_usage usage of
           Inl e \<Rightarrow> (Inl (Usage_py e), l)
         | Inr (i, out) \<Rightarrow>
           (let p = ul_profile l;
                ni = ul_input l + i; no = ul_output l + out;
                acc = usage_snapshot_of l;
                obs = \<lparr>us_input = ni, us_output = no, us_total = ni + no,
                       us_cost = usage_cost p ni no, us_rounds = ul_rounds l + 1\<rparr>
            in case over_ceiling p acc obs of
                 Some ev \<Rightarrow> (Inl (ProfileBudgetExceeded ev), l\<lparr>ul_failure := Some ev\<rparr>)
               | None \<Rightarrow>
                   let l' = l\<lparr>ul_input := ni, ul_output := no, ul_rounds := ul_rounds l + 1\<rparr>
                   in (Inr (usage_snapshot_of l'), l'))))"

section \<open>The ceilings hold in every reachable ledger\<close>

datatype usage_op = Record json | Observe "string option" | Mark_unavailable

definition usage_step :: "usage_op \<Rightarrow> usage_ledger \<Rightarrow> usage_ledger" where
  "usage_step oper l = (case oper of
      Record u \<Rightarrow> snd (record_usage u l)
    | Observe m \<Rightarrow> observe_response_model m l
    | Mark_unavailable \<Rightarrow> mark_usage_unavailable l)"

definition within_ceilings :: "usage_ledger \<Rightarrow> bool" where
  "within_ceilings l \<longleftrightarrow>
     0 \<le> ul_input l \<and> 0 \<le> ul_output l
     \<and> (\<forall>m. max_total_tokens (ul_profile l) = Some m \<longrightarrow> ul_input l + ul_output l \<le> m)
     \<and> (\<forall>c a. max_cost_micros (ul_profile l) = Some c \<longrightarrow>
          usage_cost (ul_profile l) (ul_input l) (ul_output l) = Some a \<longrightarrow> a \<le> c)"

lemma usage_counter_Inr: "usage_counter n v = Inr i \<longleftrightarrow> v = Some (JInt i) \<and> 0 \<le> i"
  by (auto simp: usage_counter_def split: option.splits json.splits if_splits)

lemma parse_usage_nonneg: "parse_usage u = Inr (i, out) \<Longrightarrow> 0 \<le> i \<and> 0 \<le> out"
  by (auto simp: parse_usage_def resultE_iffs usage_counter_Inr split: json.splits if_splits)

lemma over_ceiling_None:
  "over_ceiling p acc obs = None \<longleftrightarrow>
     (\<forall>m. max_total_tokens p = Some m \<longrightarrow> us_total obs \<le> m)
     \<and> (\<forall>c a. max_cost_micros p = Some c \<longrightarrow> us_cost obs = Some a \<longrightarrow> a \<le> c)"
  by (auto simp: over_ceiling_def Let_def split: option.splits)

text \<open>A record is refused with no change, latches a rejection, or adds the sample.\<close>

lemma record_usage_cases:
  obtains (latched) ev where "ul_failure l = Some ev" "record_usage u l = (Inl (ProfileBudgetExceeded ev), l)"
  | (malformed) e where "ul_failure l = None" "record_usage u l = (Inl (Usage_py e), l)"
  | (rejected) ev where "ul_failure l = None"
      "record_usage u l = (Inl (ProfileBudgetExceeded ev), l\<lparr>ul_failure := Some ev\<rparr>)"
  | (accepted) i out l' where "ul_failure l = None" "parse_usage u = Inr (i, out)"
      "l' = l\<lparr>ul_input := ul_input l + i, ul_output := ul_output l + out, ul_rounds := ul_rounds l + 1\<rparr>"
      "record_usage u l = (Inr (usage_snapshot_of l'), l')"
      "\<And>m. max_total_tokens (ul_profile l) = Some m \<Longrightarrow> ul_input l' + ul_output l' \<le> m"
      "\<And>c a. max_cost_micros (ul_profile l) = Some c \<Longrightarrow>
         usage_cost (ul_profile l) (ul_input l') (ul_output l') = Some a \<Longrightarrow> a \<le> c"
proof (cases "ul_failure l")
  case (Some ev)
  then show ?thesis using latched by (simp add: record_usage_def)
next
  case None
  show ?thesis
  proof (cases "parse_usage u")
    case (Inl e)
    with None show ?thesis using malformed by (simp add: record_usage_def)
  next
    case (Inr io)
    obtain i out where io: "io = (i, out)" by (cases io)
    define obs where "obs = \<lparr>us_input = ul_input l + i, us_output = ul_output l + out,
      us_total = ul_input l + i + (ul_output l + out),
      us_cost = usage_cost (ul_profile l) (ul_input l + i) (ul_output l + out), us_rounds = ul_rounds l + 1\<rparr>"
    show ?thesis
    proof (cases "over_ceiling (ul_profile l) (usage_snapshot_of l) obs")
      case (Some ev)
      with None Inr io show ?thesis
        by (intro rejected [of ev]) (simp_all add: record_usage_def obs_def Let_def)
    next
      case ok: None
      have "record_usage u l = (let l' = l\<lparr>ul_input := ul_input l + i, ul_output := ul_output l + out,
          ul_rounds := ul_rounds l + 1\<rparr> in (Inr (usage_snapshot_of l'), l'))"
        using ok None Inr io by (simp add: record_usage_def obs_def Let_def)
      with None Inr io ok show ?thesis
        by (intro accepted [OF None _ refl]) (auto simp: over_ceiling_None obs_def Let_def)
    qed
  qed
qed

lemma within_ceilings_new: "profile_ok p \<Longrightarrow> within_ceilings (new_usage_ledger p)"
  by (force simp: within_ceilings_def new_usage_ledger_def profile_ok_def usage_cost_def split: option.splits)

lemma within_ceilings_step: "within_ceilings l \<Longrightarrow> within_ceilings (usage_step op l)"
proof (cases op)
  case (Record u)
  assume w: "within_ceilings l"
  show ?thesis
  proof (cases rule: record_usage_cases [of l u])
    case (accepted i out l')
    with w parse_usage_nonneg [OF accepted(2)] Record show ?thesis
      by (auto simp: usage_step_def within_ceilings_def)
  qed (use w Record in \<open>auto simp: usage_step_def within_ceilings_def\<close>)
qed (auto simp: usage_step_def within_ceilings_def observe_response_model_def mark_usage_unavailable_def)

lemma usage_step_profile [simp]: "ul_profile (usage_step op l) = ul_profile l"
proof (cases op)
  case (Record u)
  then show ?thesis
    by (cases rule: record_usage_cases [of l u]) (auto simp: usage_step_def)
qed (auto simp: usage_step_def observe_response_model_def mark_usage_unavailable_def)

lemma usage_step_latched: "ul_failure l = Some ev \<Longrightarrow> ul_failure (usage_step op l) = Some ev
   \<and> usage_snapshot_of (usage_step op l) = usage_snapshot_of l"
  by (cases op) (auto simp: usage_step_def record_usage_def observe_response_model_def
      mark_usage_unavailable_def usage_snapshot_of_def)

lemma fold_usage_profile [simp]: "ul_profile (fold usage_step ops l) = ul_profile l"
  by (induction ops arbitrary: l) auto

definition sample_profile_json :: json where
  "sample_profile_json = JObj [(''name'', JStr ''p''), (''model'', JStr ''m''), (''max_total_tokens'', JInt 10)]"

definition sample_usage :: "int \<Rightarrow> int \<Rightarrow> json" where
  "sample_usage i out = JObj [(''input_tokens'', JInt i), (''output_tokens'', JInt out), (''total_tokens'', JInt (i + out))]"

text \<open>C40. Whatever responses arrive, in any order, the recorded usage of a ledger opened for a valid model
  profile never passes the token ceiling or the cost ceiling of that profile.\<close>
theorem usage_never_exceeds_ceilings:
  assumes "model_profile_from_dict v = Inr p"
  shows "within_ceilings (fold usage_step ops (new_usage_ledger p))"
  by (rule fold_invariant_on) (auto intro: within_ceilings_new within_ceilings_step
      model_profile_from_dict_ok [OF assms])

theorem usage_never_exceeds_ceilings_witness:
  "\<exists>p. model_profile_from_dict sample_profile_json = Inr p
     \<and> within_ceilings (fold usage_step [Record (sample_usage 3 4), Record (sample_usage 3 1), Observe None]
          (new_usage_ledger p))"
proof -
  have "is_ok (model_profile_from_dict sample_profile_json)" by code_simp
  then obtain p where p: "model_profile_from_dict sample_profile_json = Inr p" by (auto simp: is_ok_iff)
  from p usage_never_exceeds_ceilings [OF p] show ?thesis by blast
qed

text \<open>The first sample that would pass a ceiling latches the ledger: it is not counted, and whatever
  happens afterwards every further request check and record raises the same evidence, the counters
  stay where they were and the usage is not complete.\<close>
theorem usage_failure_is_latched:
  assumes "record_usage u l = (Inl (ProfileBudgetExceeded ev), l')"
  shows "let l'' = fold usage_step ops l' in
     check_request rc l'' = Inl (ProfileBudgetExceeded ev)
     \<and> record_usage u' l'' = (Inl (ProfileBudgetExceeded ev), l'')
     \<and> usage_snapshot_of l'' = usage_snapshot_of l \<and> \<not> usage_complete l''"
proof -
  have l': "ul_failure l' = Some ev \<and> usage_snapshot_of l' = usage_snapshot_of l"
    using assms
    by (cases rule: record_usage_cases [of l u]) (auto simp: usage_snapshot_of_def)
  have "ul_failure (fold usage_step ops l') = Some ev
      \<and> usage_snapshot_of (fold usage_step ops l') = usage_snapshot_of l"
    by (rule fold_invariant_on [where P = "\<lambda>x. ul_failure x = Some ev \<and> usage_snapshot_of x = usage_snapshot_of l"])
      (use l' usage_step_latched in auto)
  then show ?thesis
    by (simp add: Let_def check_request_def record_usage_def usage_complete_def)
qed

theorem usage_failure_is_latched_witness:
  "\<exists>p ev l'. model_profile_from_dict sample_profile_json = Inr p
     \<and> record_usage (sample_usage 8 9) (new_usage_ledger p) = (Inl (ProfileBudgetExceeded ev), l')
     \<and> check_request True (fold usage_step [Record (sample_usage 1 1), Mark_unavailable] l')
         = Inl (ProfileBudgetExceeded ev)"
proof -
  have "case model_profile_from_dict sample_profile_json of Inl _ \<Rightarrow> False
     | Inr p \<Rightarrow> (case fst (record_usage (sample_usage 8 9) (new_usage_ledger p)) of
          Inl (ProfileBudgetExceeded ev) \<Rightarrow> True | _ \<Rightarrow> False)" by code_simp
  then obtain p ev where p: "model_profile_from_dict sample_profile_json = Inr p"
    and "fst (record_usage (sample_usage 8 9) (new_usage_ledger p)) = Inl (ProfileBudgetExceeded ev)"
    by (auto split: sum.splits usage_error.splits)
  then obtain l' where l': "record_usage (sample_usage 8 9) (new_usage_ledger p) = (Inl (ProfileBudgetExceeded ev), l')"
    by (metis prod.collapse)
  from usage_failure_is_latched [OF l', of "[Record (sample_usage 1 1), Mark_unavailable]"] p l'
  show ?thesis by (auto simp: Let_def)
qed

text \<open>Charges round up: each direction pays for the started thousand micro-units.\<close>

lemma ceil_div_1000: "(a + 999) div 1000 = \<lceil>of_int a / (1000::rat)\<rceil>"
proof -
  have "\<lceil>of_int a / of_int (1000::int) :: rat\<rceil> = - (- a div 1000)" by (rule ceiling_divide_eq_div)
  also have "\<dots> = (a + 999) div 1000" by linarith
  finally show ?thesis by simp
qed

text \<open>The charged cost is exact: it is known exactly when both prices are, and then each direction is
  billed its tokens times its price per thousand, rounded up to a whole micro-unit.\<close>
theorem usage_cost_ceiling:
  "usage_cost p i out = Some c \<longleftrightarrow>
     (\<exists>ri ro. input_cost_per_1k_micros p = Some ri \<and> output_cost_per_1k_micros p = Some ro
        \<and> c = \<lceil>of_int (i * ri) / (1000::rat)\<rceil> + \<lceil>of_int (out * ro) / (1000::rat)\<rceil>)"
  unfolding ceil_div_1000 [symmetric] by (auto simp: usage_cost_def split: option.splits)

end
