(* ===== verification/Acceptance.thy ===== *)
theory Acceptance imports PyText begin

text \<open>
  The acceptance-contract compiler of \<^verbatim>\<open>evaluator.py\<close>: a task's acceptance value is checked
  against a small rule grammar and rewritten to canonical rules before any task runs.
  \<^verbatim>\<open>json.loads\<close> is the argument \<open>loads\<close> (None for a decode error); the mutable rule counter
  \<^verbatim>\<open>count\<close> is passed through.  Canonical rules recompile to themselves, and no contract
  exceeds the depth and size limits.
\<close>

section \<open>Text and paths\<close>

definition MAX_CONTRACT_BYTES :: nat where "MAX_CONTRACT_BYTES = 20000"
definition MAX_RULES :: nat where "MAX_RULES = 32"
definition MAX_RULE_DEPTH :: nat where "MAX_RULE_DEPTH = 8"
definition MAX_TEXT_BYTES :: nat where "MAX_TEXT_BYTES = 8000"
definition MAX_PATH_BYTES :: nat where "MAX_PATH_BYTES = 512"
definition MAX_JSON_KEYS :: nat where "MAX_JSON_KEYS = 16"
definition MAX_OUTPUT_FIELDS :: nat where "MAX_OUTPUT_FIELDS = 32"

definition bounded_text :: "json \<Rightarrow> string \<Rightarrow> nat \<Rightarrow> string result" where
  "bounded_text value field limit =
     (case value of
        JStr s \<Rightarrow>
          (let v = strip s in
           if v = [] then Inl (ValueError (field @ '' must not be empty''))
           else if limit < length v then Inl (ValueError (field @ '' exceeds '' @ show_nat limit @ '' bytes''))
           else if secret_search v then Inl (ValueError (field @ '' contains credential-like content''))
           else Inr v)
      | _ \<Rightarrow> Inl (TypeError (field @ '' must be a string'')))"

fun split_on :: "char \<Rightarrow> string \<Rightarrow> string list" where
  "split_on d [] = [[]]"
| "split_on d (c # cs) =
     (if c = d then [] # split_on d cs
      else case split_on d cs of [] \<Rightarrow> [[c]] | p # ps \<Rightarrow> (c # p) # ps)"

definition nul :: char where "nul = char_of (0::nat)"

definition safe_relative_path :: "json \<Rightarrow> string \<Rightarrow> string result" where
  "safe_relative_path value field =
     bindE (bounded_text value field MAX_PATH_BYTES) (\<lambda>path.
     bindE (guardE (backslash \<in> set path \<or> nul \<in> set path)
              (ValueError (field @ '' must be a portable relative path''))) (\<lambda>_.
     bindE (guardE (starts_with ''/'' path \<or>
                (\<exists>part \<in> set (split_on CHR ''/'' path). part \<in> {[], ''.'', ''..''}))
              (ValueError (field @ '' must stay below the attempt workspace''))) (\<lambda>_. Inr path)))"

definition object_with :: "json \<Rightarrow> string \<Rightarrow> string list \<Rightarrow> (string \<times> json) list result" where
  "object_with value field keys =
     (case value of
        JObj items \<Rightarrow>
          if fst ` set items = set keys then Inr items
          else Inl (ValueError (field @ '' must contain exactly: '' @ join_with '', '' (sort keys)))
      | _ \<Rightarrow> Inl (ValueError (field @ '' must contain exactly: '' @ join_with '', '' (sort keys))))"

text \<open>A key that \<open>object_with\<close> has checked to be present.\<close>

definition jitem :: "(string \<times> json) list \<Rightarrow> string \<Rightarrow> json" where
  "jitem items k = jget_default items k JNull"

section \<open>The rule compiler\<close>

definition text_fields :: "json \<Rightarrow> string \<Rightarrow> string list result" where
  "text_fields fields name =
     (case fields of
        JArr vs \<Rightarrow>
          (if MAX_OUTPUT_FIELDS < length vs \<or> (\<exists>v\<in>set vs. case v of JStr _ \<Rightarrow> False | _ \<Rightarrow> True)
           then Inl (ValueError (name @ '' fields must be a bounded string array''))
           else bindE (mapE (\<lambda>f. bounded_text f (name @ '' field'') 128) vs) (\<lambda>fs.
                bindE (guardE (\<not> distinct fs) (ValueError (name @ '' fields must be unique''))) (\<lambda>_. Inr fs)))
      | _ \<Rightarrow> Inl (ValueError (name @ '' fields must be a bounded string array'')))"

text \<open>The common body of \<^verbatim>\<open>output_valid\<close> and \<^verbatim>\<open>artifact_valid\<close>; only outputs must lie below \<^verbatim>\<open>output/\<close>.\<close>

definition compile_file_rule :: "string \<Rightarrow> json \<Rightarrow> json result" where
  "compile_file_rule rule payload =
     bindE (object_with payload rule [''path'', ''format'', ''fields'']) (\<lambda>item.
     bindE (safe_relative_path (jitem item ''path'') ''artifact path'') (\<lambda>path.
     bindE (guardE (rule = ''output_valid'' \<and> \<not> starts_with ''output/'' path)
              (ValueError ''output_valid path must be below the output/ directory'')) (\<lambda>_.
     bindE (bounded_text (jitem item ''format'') (rule @ '' format'') 32) (\<lambda>fmt0.
     let fmt = lower fmt0 in
     bindE (guardE (fmt \<notin> {''json'', ''jsonl'', ''csv'', ''text''})
              (ValueError (rule @ '' format must be json, jsonl, csv, or text''))) (\<lambda>_.
     bindE (text_fields (jitem item ''fields'') rule) (\<lambda>fs.
     bindE (guardE (fmt = ''text'' \<and> fs \<noteq> [])
              (ValueError (''text '' @ rule @ '' rules cannot declare fields''))) (\<lambda>_.
       Inr (JObj [(rule, JObj [(''path'', JStr path), (''format'', JStr fmt),
                               (''fields'', JArr (map JStr fs))])]))))))))"

text \<open>Every rule but the two combinators.\<close>

definition compile_leaf :: "string \<Rightarrow> json \<Rightarrow> json result" where
  "compile_leaf rule payload =
     (if rule = ''contains'' then
        bindE (bounded_text payload ''acceptance contains'' MAX_TEXT_BYTES)
          (\<lambda>t. Inr (JObj [(''result_contains'', JStr t)]))
      else if rule = ''result_contains'' then
        bindE (bounded_text payload ''acceptance result_contains'' MAX_TEXT_BYTES)
          (\<lambda>t. Inr (JObj [(rule, JStr t)]))
      else if rule = ''artifact_exists'' then
        bindE (safe_relative_path payload ''artifact path'') (\<lambda>p. Inr (JObj [(rule, JStr p)]))
      else if rule = ''artifact_text_contains'' then
        bindE (object_with payload ''artifact_text_contains'' [''path'', ''contains'']) (\<lambda>item.
        bindE (safe_relative_path (jitem item ''path'') ''artifact path'') (\<lambda>p.
        bindE (bounded_text (jitem item ''contains'') ''artifact_text_contains contains'' MAX_TEXT_BYTES) (\<lambda>t.
          Inr (JObj [(rule, JObj [(''path'', JStr p), (''contains'', JStr t)])]))))
      else if rule = ''json_parse'' then
        bindE (safe_relative_path payload ''artifact path'') (\<lambda>p. Inr (JObj [(rule, JStr p)]))
      else if rule = ''json_has_keys'' then
        bindE (object_with payload ''json_has_keys'' [''path'', ''keys'']) (\<lambda>item.
        (case jitem item ''keys'' of
           JArr ks \<Rightarrow>
             bindE (guardE (ks = [] \<or> MAX_JSON_KEYS < length ks)
               (ValueError ''json_has_keys keys must be a non-empty array of at most 16'')) (\<lambda>_.
             bindE (mapE (\<lambda>k. bounded_text k ''json_has_keys key'' MAX_TEXT_BYTES) ks) (\<lambda>nks.
             bindE (guardE (\<not> distinct nks) (ValueError ''json_has_keys keys must be unique'')) (\<lambda>_.
             bindE (safe_relative_path (jitem item ''path'') ''artifact path'') (\<lambda>p.
               Inr (JObj [(rule, JObj [(''path'', JStr p), (''keys'', JArr (map JStr nks))])])))))
         | _ \<Rightarrow> Inl (ValueError ''json_has_keys keys must be a non-empty array of at most 16'')))
      else if rule = ''output_valid'' \<or> rule = ''artifact_valid'' then compile_file_rule rule payload
      else if rule = ''data_profile_valid'' then
        bindE (safe_relative_path payload ''artifact path'') (\<lambda>p.
        bindE (guardE (\<not> starts_with ''data/processed/'' p \<or> p = ''data/processed/'')
          (ValueError ''data_profile_valid path must be below data/processed/'')) (\<lambda>_.
          Inr (JObj [(rule, JStr p)])))
      else if rule = ''evaluation_report_valid'' then
        bindE (safe_relative_path payload ''artifact path'') (\<lambda>p.
        bindE (guardE (\<not> starts_with ''evaluate/'' p \<or> p = ''evaluate/'')
          (ValueError ''evaluation_report_valid path must be below evaluate/'')) (\<lambda>_.
          Inr (JObj [(rule, JStr p)])))
      else Inl (ValueError (''unsupported acceptance rule: '' @ rule)))"

function compile_rule :: "json \<Rightarrow> nat \<Rightarrow> nat \<Rightarrow> (json \<times> nat) result"
and compile_rules :: "json list \<Rightarrow> nat \<Rightarrow> nat \<Rightarrow> (json list \<times> nat) result"
where
  "compile_rule value depth count =
     (if MAX_RULE_DEPTH < depth then Inl (ValueError ''acceptance rule depth exceeds 8'')
      else case value of
        JObj [(rule, payload)] \<Rightarrow>
          if MAX_RULES < count + 1 then Inl (ValueError ''acceptance has more than 32 rules'')
          else if rule = ''all'' \<or> rule = ''any'' then
            (case payload of
               JArr (c # cs) \<Rightarrow>
                 bindE (compile_rules (c # cs) (depth + 1) (count + 1)) (\<lambda>(rs, n).
                   Inr (JObj [(rule, JArr rs)], n))
             | _ \<Rightarrow> Inl (ValueError (rule @ '' must be a non-empty rule array'')))
          else bindE (compile_leaf rule payload) (\<lambda>r. Inr (r, count + 1))
      | _ \<Rightarrow> Inl (ValueError ''acceptance rule must be an object with exactly one rule''))"
| "compile_rules [] depth count = Inr ([], count)"
| "compile_rules (v # vs) depth count =
     bindE (compile_rule v depth count) (\<lambda>(r, n).
     bindE (compile_rules vs depth n) (\<lambda>(rs, n'). Inr (r # rs, n')))"
  by pat_completeness auto
termination
  by (relation "measures [(\<lambda>x. case x of Inl (v, d, c) \<Rightarrow> MAX_RULE_DEPTH + 1 - d | Inr (vs, d, c) \<Rightarrow> MAX_RULE_DEPTH + 1 - d),
                          (\<lambda>x. case x of Inl (v, d, c) \<Rightarrow> 0 | Inr (vs, d, c) \<Rightarrow> Suc (length vs))]") auto

declare compile_rule.simps [simp del]

section \<open>Whole values\<close>

definition normalise_object :: "(string \<times> json) list \<Rightarrow> json result" where
  "normalise_object items =
     (let encoded = dumps (JObj items) in
      if MAX_CONTRACT_BYTES < length encoded then Inl (ValueError ''acceptance exceeds 20000 bytes'')
      else if secret_search encoded then Inl (ValueError ''acceptance contains credential-like content'')
      else Inr (JObj items))"

definition normalise_input :: "(string \<Rightarrow> json option) \<Rightarrow> json \<Rightarrow> json result" where
  "normalise_input loads value =
     (case value of
        JObj items \<Rightarrow> normalise_object items
      | _ \<Rightarrow>
        bindE (bounded_text value ''acceptance'' MAX_CONTRACT_BYTES) (\<lambda>txt.
        (case loads txt of
           None \<Rightarrow> if starts_with ''{'' txt \<or> starts_with ''['' txt
                   then Inl (ValueError ''acceptance JSON is malformed'') else Inr (JStr txt)
         | Some (JStr s) \<Rightarrow> bindE (bounded_text (JStr s) ''acceptance'' MAX_TEXT_BYTES) (\<lambda>t. Inr (JStr t))
         | Some (JObj items) \<Rightarrow> normalise_object items
         | Some _ \<Rightarrow> Inl (TypeError ''acceptance JSON must be a string or object''))))"

definition compile_acceptance :: "(string \<Rightarrow> json option) \<Rightarrow> json \<Rightarrow> json option result" where
  "compile_acceptance loads value =
     (if value = JNull then Inr None
      else bindE (normalise_input loads value) (\<lambda>v.
        case v of
          JStr s \<Rightarrow> Inr (Some (JObj [(''result_contains'', JStr s)]))
        | _ \<Rightarrow> bindE (compile_rule v 1 0) (\<lambda>(r, n). Inr (Some r))))"

definition validate_acceptance :: "(string \<Rightarrow> json option) \<Rightarrow> json \<Rightarrow> unit result" where
  "validate_acceptance loads value = bindE (compile_acceptance loads value) (\<lambda>_. Inr ())"

section \<open>Canonical rules are fixed points\<close>

lemma bounded_text_Inr:
  "bounded_text v f l = Inr t \<longleftrightarrow>
     (\<exists>s. v = JStr s \<and> t = strip s \<and> t \<noteq> [] \<and> length t \<le> l \<and> \<not> secret_search t)"
  by (auto simp: bounded_text_def Let_def split: json.splits if_splits)

lemma bounded_text_idem: "bounded_text v f l = Inr t \<Longrightarrow> bounded_text (JStr t) f' l = Inr t"
  by (auto simp: bounded_text_Inr)

lemma bindE_two_guards:
  "bindE r (\<lambda>p. bindE (guardE (A p) e) (\<lambda>_. bindE (guardE (B p) e') (\<lambda>_. Inr p))) = Inr q \<longleftrightarrow>
     r = Inr q \<and> \<not> A q \<and> \<not> B q"
  by (cases r) (auto simp: guardE_def)

lemma safe_relative_path_Inr:
  "safe_relative_path v f = Inr p \<longleftrightarrow>
     bounded_text v f MAX_PATH_BYTES = Inr p \<and> \<not> (backslash \<in> set p \<or> nul \<in> set p)
     \<and> \<not> (starts_with ''/'' p \<or> (\<exists>part \<in> set (split_on CHR ''/'' p). part \<in> {[], ''.'', ''..''}))"
  unfolding safe_relative_path_def by (rule bindE_two_guards)

lemma safe_relative_path_idem: "safe_relative_path v f = Inr p \<Longrightarrow> safe_relative_path (JStr p) f' = Inr p"
  unfolding safe_relative_path_Inr using bounded_text_idem by metis

lemma mapE_bounded_idem:
  "mapE (\<lambda>k. bounded_text k f l) ks = Inr ts \<Longrightarrow> mapE (\<lambda>k. bounded_text k f l) (map JStr ts) = Inr ts"
  by (induction ks arbitrary: ts) (auto simp: bindE_Inr_iff bounded_text_idem)

lemma object_with_Inr: "object_with v f ks = Inr items \<longleftrightarrow> v = JObj items \<and> fst ` set items = set ks"
  by (auto simp: object_with_def split: json.splits if_splits)

lemma jitem_simps [simp]:
  "jitem ((k, v) # items) k' = (if k = k' then v else jitem items k')"
  by (simp add: jitem_def jget_default_def)

lemma lower_char_idem: "lower_char (lower_char c) = lower_char c"
proof -
  have "of_char (char_of (of_char c + 32 :: nat) :: char) = (of_char c + 32 :: nat)"
    if "of_char c \<le> (90::nat)" using that by (simp add: of_char_of)
  then show ?thesis by (auto simp: lower_char_def Let_def)
qed

lemma lower_idem [simp]: "lower (lower s) = lower s"
  by (simp add: lower_def lower_char_idem)

lemma text_fields_idem:
  assumes "text_fields v n = Inr fs" shows "text_fields (JArr (map JStr fs)) n = Inr fs"
proof -
  from assms obtain vs where "v = JArr vs"
    by (auto simp: text_fields_def split: json.splits)
  with assms have "length vs \<le> MAX_OUTPUT_FIELDS" "distinct fs"
      and m: "mapE (\<lambda>f. bounded_text f (n @ '' field'') 128) vs = Inr fs"
    by (auto simp: text_fields_def resultE_iffs split: if_splits)
  moreover have "length fs = length vs" using m by (rule mapE_length)
  ultimately show ?thesis
    using mapE_bounded_idem [OF m] by (auto simp: text_fields_def)
qed

lemma compile_file_rule_idem:
  assumes "compile_file_rule rule p = Inr r"
  shows "\<exists>q. r = JObj [(rule, q)] \<and> compile_file_rule rule q = Inr r"
proof -
  from assms obtain item path fmt0 fs where
    a: "safe_relative_path (jitem item ''path'') ''artifact path'' = Inr path"
       "rule = ''output_valid'' \<longrightarrow> starts_with ''output/'' path"
       "lower fmt0 \<in> {''json'', ''jsonl'', ''csv'', ''text''}"
       "text_fields (jitem item ''fields'') rule = Inr fs"
       "lower fmt0 = ''text'' \<longrightarrow> fs = []"
    and r: "r = JObj [(rule, JObj [(''path'', JStr path), (''format'', JStr (lower fmt0)), (''fields'', JArr (map JStr fs))])]"
    unfolding compile_file_rule_def Let_def by (auto simp: resultE_iffs split: if_splits)
  have fmt: "bounded_text (JStr (lower fmt0)) (rule @ '' format'') 32 = Inr (lower fmt0)"
    using a(3) by (elim insertE emptyE) (simp_all, code_simp+)
  show ?thesis
    unfolding compile_file_rule_def r
    using safe_relative_path_idem [OF a(1), of "''artifact path''"] text_fields_idem [OF a(4)] fmt a(2,3,5)
    by (auto simp: object_with_def Let_def)
qed

lemma json_has_keys_canonical:
  assumes "nks \<noteq> []" and "distinct nks" and "\<not> MAX_JSON_KEYS < length nks"
    and "mapE (\<lambda>k. bounded_text k ''json_has_keys key'' MAX_TEXT_BYTES) (map JStr nks) = Inr nks"
    and "safe_relative_path (JStr path) ''artifact path'' = Inr path"
  shows "compile_leaf ''json_has_keys'' (JObj [(''path'', JStr path), (''keys'', JArr (map JStr nks))]) =
    Inr (JObj [(''json_has_keys'', JObj [(''path'', JStr path), (''keys'', JArr (map JStr nks))])])"
  using assms by (simp add: compile_leaf_def object_with_def)

lemma compile_leaf_idem:
  assumes "compile_leaf rule p = Inr r" and "rule \<noteq> ''all''" and "rule \<noteq> ''any''"
  shows "\<exists>rule' q. r = JObj [(rule', q)] \<and> rule' \<noteq> ''all'' \<and> rule' \<noteq> ''any'' \<and> compile_leaf rule' q = Inr r"
proof -
  consider "rule = ''contains''" | "rule = ''result_contains''" | "rule = ''artifact_exists''"
    | "rule = ''artifact_text_contains''" | "rule = ''json_parse''" | "rule = ''json_has_keys''"
    | "rule = ''output_valid'' \<or> rule = ''artifact_valid''" | "rule = ''data_profile_valid''"
    | "rule = ''evaluation_report_valid''"
    using assms(1) unfolding compile_leaf_def by (auto split: if_splits)
  then show ?thesis
  proof cases
    case 1
    with assms(1) obtain t where a: "bounded_text p ''acceptance contains'' MAX_TEXT_BYTES = Inr t"
        and r: "r = JObj [(''result_contains'', JStr t)]"
      by (auto simp: compile_leaf_def bindE_Inr_iff)
    have "compile_leaf ''result_contains'' (JStr t) = Inr r"
      using bounded_text_idem [OF a, of "''acceptance result_contains''"] by (simp add: compile_leaf_def r)
    with r show ?thesis by blast
  next
    case 2
    with assms(1) obtain t where a: "bounded_text p ''acceptance result_contains'' MAX_TEXT_BYTES = Inr t"
        and r: "r = JObj [(''result_contains'', JStr t)]"
      by (auto simp: compile_leaf_def bindE_Inr_iff)
    have "compile_leaf ''result_contains'' (JStr t) = Inr r"
      using bounded_text_idem [OF a, of "''acceptance result_contains''"] by (simp add: compile_leaf_def r)
    with r show ?thesis by blast
  next
    case 3
    with assms(1) obtain path where a: "safe_relative_path p ''artifact path'' = Inr path"
        and r: "r = JObj [(rule, JStr path)]"
      by (auto simp: compile_leaf_def bindE_Inr_iff)
    have "compile_leaf rule (JStr path) = Inr r"
      using 3 safe_relative_path_idem [OF a, of "''artifact path''"] by (simp add: compile_leaf_def r)
    with r assms(2,3) show ?thesis by blast
  next
    case 4
    with assms(1) obtain item path t where
      a: "safe_relative_path (jitem item ''path'') ''artifact path'' = Inr path"
      and b: "bounded_text (jitem item ''contains'') ''artifact_text_contains contains'' MAX_TEXT_BYTES = Inr t"
      and r: "r = JObj [(rule, JObj [(''path'', JStr path), (''contains'', JStr t)])]"
      by (auto simp: compile_leaf_def bindE_Inr_iff)
    show ?thesis
      using 4 safe_relative_path_idem [OF a, of "''artifact path''"] bounded_text_idem [OF b, of "''artifact_text_contains contains''"]
      by (auto simp: r compile_leaf_def object_with_def)
  next
    case 5
    with assms(1) obtain path where a: "safe_relative_path p ''artifact path'' = Inr path"
        and r: "r = JObj [(rule, JStr path)]"
      by (auto simp: compile_leaf_def bindE_Inr_iff)
    have "compile_leaf rule (JStr path) = Inr r"
      using 5 safe_relative_path_idem [OF a, of "''artifact path''"] by (simp add: compile_leaf_def r)
    with r assms(2,3) show ?thesis by blast
  next
    case 6
    with assms(1) obtain item where o: "object_with p ''json_has_keys'' [''path'', ''keys''] = Inr item"
      by (auto simp: compile_leaf_def bindE_Inr_iff)
    with assms(1) 6 obtain ks where ks: "jitem item ''keys'' = JArr ks"
      by (cases "jitem item ''keys''") (auto simp: compile_leaf_def)
    with assms(1) 6 o obtain nks path where
      n: "ks \<noteq> []" "length ks \<le> MAX_JSON_KEYS" "distinct nks" and
      m: "mapE (\<lambda>k. bounded_text k ''json_has_keys key'' MAX_TEXT_BYTES) ks = Inr nks" and
      a: "safe_relative_path (jitem item ''path'') ''artifact path'' = Inr path" and
      r: "r = JObj [(rule, JObj [(''path'', JStr path), (''keys'', JArr (map JStr nks))])]"
      by (auto simp: compile_leaf_def bindE_Inr_iff guardE_Inr_iff)
    from m have "length nks = length ks" by (rule mapE_length)
    with n have "nks \<noteq> []" "\<not> MAX_JSON_KEYS < length nks" by auto
    with n mapE_bounded_idem [OF m] safe_relative_path_idem [OF a, of "''artifact path''"]
    have "compile_leaf ''json_has_keys'' (JObj [(''path'', JStr path), (''keys'', JArr (map JStr nks))]) =
        Inr (JObj [(''json_has_keys'', JObj [(''path'', JStr path), (''keys'', JArr (map JStr nks))])])"
      by (intro json_has_keys_canonical)
    then show ?thesis unfolding r 6 by (intro exI conjI) (rule refl, simp, simp)
  next
    case 7
    with assms(1) have "compile_file_rule rule p = Inr r" by (auto simp: compile_leaf_def)
    from compile_file_rule_idem [OF this] obtain q where
      r: "r = JObj [(rule, q)]" and q: "compile_file_rule rule q = Inr r" by blast
    from 7 q have "compile_leaf rule q = Inr r" by (elim disjE) (simp_all add: compile_leaf_def)
    with r assms(2,3) show ?thesis by blast
  next
    case 8
    with assms(1) obtain path where a: "safe_relative_path p ''artifact path'' = Inr path"
        and b: "prefix ''data/processed/'' path" "path \<noteq> ''data/processed/''" and r: "r = JObj [(rule, JStr path)]"
      by (auto simp: compile_leaf_def bindE_Inr_iff bind_guardE split: if_splits)
    have "compile_leaf rule (JStr path) = Inr r"
      using 8 b safe_relative_path_idem [OF a, of "''artifact path''"]
      by (simp add: compile_leaf_def r)
    with r assms(2,3) show ?thesis by blast
  next
    case 9
    with assms(1) obtain path where a: "safe_relative_path p ''artifact path'' = Inr path"
        and b: "prefix ''evaluate/'' path" "path \<noteq> ''evaluate/''" and r: "r = JObj [(rule, JStr path)]"
      by (auto simp: compile_leaf_def bindE_Inr_iff bind_guardE split: if_splits)
    have "compile_leaf rule (JStr path) = Inr r"
      using 9 b safe_relative_path_idem [OF a, of "''artifact path''"]
      by (simp add: compile_leaf_def r)
    with r assms(2,3) show ?thesis by blast
  qed
qed

section \<open>Size and depth of a canonical rule\<close>

fun rule_depth :: "json \<Rightarrow> nat" and rule_depths :: "json list \<Rightarrow> nat" where
  "rule_depth (JObj [(rule, JArr rs)]) = (if rule = ''all'' \<or> rule = ''any'' then Suc (rule_depths rs) else 1)"
| "rule_depth _ = 1"
| "rule_depths [] = 0"
| "rule_depths (r # rs) = max (rule_depth r) (rule_depths rs)"

fun rule_count :: "json \<Rightarrow> nat" and rule_counts :: "json list \<Rightarrow> nat" where
  "rule_count (JObj [(rule, JArr rs)]) = (if rule = ''all'' \<or> rule = ''any'' then Suc (rule_counts rs) else 1)"
| "rule_count _ = 1"
| "rule_counts [] = 0"
| "rule_counts (r # rs) = rule_count r + rule_counts rs"

lemma rule_measures_leaf:
  "rule \<noteq> ''all'' \<Longrightarrow> rule \<noteq> ''any'' \<Longrightarrow> rule_depth (JObj [(rule, q)]) = 1"
  "rule \<noteq> ''all'' \<Longrightarrow> rule \<noteq> ''any'' \<Longrightarrow> rule_count (JObj [(rule, q)]) = 1"
  by (cases q; simp)+

lemma compile_rule_canonical:
  "compile_rule v d c = Inr (r, n) \<Longrightarrow>
     compile_rule r d c = Inr (r, n) \<and> n = c + rule_count r \<and> n \<le> MAX_RULES
     \<and> rule_depth r + d \<le> Suc MAX_RULE_DEPTH"
  "compile_rules vs d c = Inr (rs, n) \<Longrightarrow> d \<le> Suc MAX_RULE_DEPTH \<Longrightarrow> c \<le> MAX_RULES \<Longrightarrow>
     compile_rules rs d c = Inr (rs, n) \<and> n = c + rule_counts rs \<and> n \<le> MAX_RULES
     \<and> rule_depths rs + d \<le> Suc MAX_RULE_DEPTH \<and> (rs = [] \<longleftrightarrow> vs = [])"
proof (induction v d c and vs d c arbitrary: r n and rs n rule: compile_rule_compile_rules.induct)
  case (1 v d c)
  from "1.prems" have d: "d \<le> MAX_RULE_DEPTH"
    by (subst (asm) compile_rule.simps) (auto split: if_splits)
  from "1.prems" d obtain rule p where v: "v = JObj [(rule, p)]"
    by (subst (asm) compile_rule.simps) (auto split: json.splits list.splits)
  from "1.prems" d v have c: "Suc c \<le> MAX_RULES"
    by (subst (asm) compile_rule.simps) (auto split: if_splits)
  show ?case
  proof (cases "rule = ''all'' \<or> rule = ''any''")
    case True
    from "1.prems" d v c True obtain x xs rs where p: "p = JArr (x # xs)"
        and rs: "compile_rules (x # xs) (Suc d) (Suc c) = Inr (rs, n)" and r: "r = JObj [(rule, JArr rs)]"
      by (subst (asm) compile_rule.simps) (auto simp: bindE_Inr_iff split: json.splits list.splits if_splits)
    have "compile_rules rs (Suc d) (Suc c) = Inr (rs, n) \<and> n = Suc c + rule_counts rs \<and> n \<le> MAX_RULES
       \<and> rule_depths rs + Suc d \<le> Suc MAX_RULE_DEPTH \<and> (rs = [] \<longleftrightarrow> x # xs = [])"
      using "1.IH" [of "[(rule, p)]" "(rule, p)" "[]" rule p "x # xs" x xs rs n] d v c p True rs by auto
    then show ?thesis
      using r d c True by (subst compile_rule.simps) (cases rs; auto)
  next
    case False
    from "1.prems" d v c False have "compile_leaf rule p = Inr r" and n: "n = Suc c"
      by (subst (asm) compile_rule.simps; auto simp: bindE_Inr_iff split: if_splits)+
    with False compile_leaf_idem [of rule p r] obtain rule' q where
      "r = JObj [(rule', q)]" "rule' \<noteq> ''all''" "rule' \<noteq> ''any''" "compile_leaf rule' q = Inr r" by auto
    then show ?thesis
      using d c n by (subst compile_rule.simps) (auto simp: rule_measures_leaf)
  qed
next
  case (2 d c)
  then show ?case by simp
next
  case (3 v vs d c)
  from "3.prems"(1) obtain r' m rs' where
    r': "compile_rule v d c = Inr (r', m)" and rs': "compile_rules vs d m = Inr (rs', n)" and rs: "rs = r' # rs'"
    by (auto simp: bindE_Inr_iff)
  have 1: "compile_rule r' d c = Inr (r', m) \<and> m = c + rule_count r' \<and> m \<le> MAX_RULES
     \<and> rule_depth r' + d \<le> Suc MAX_RULE_DEPTH"
    using "3.IH"(1) r' by blast
  have 2: "compile_rules rs' d m = Inr (rs', n) \<and> n = m + rule_counts rs' \<and> n \<le> MAX_RULES
     \<and> rule_depths rs' + d \<le> Suc MAX_RULE_DEPTH"
    using "3.IH"(2) [OF rs' "3.prems"(2)] 1 by blast
  from 1 2 show ?case by (auto simp: rs)
qed



end
