(* ===== verification/CycleCheck.thy ===== *)
theory CycleCheck imports Prelude begin

text \<open>
  The depth-first cycle check that both \<^verbatim>\<open>PlanDocument.__post_init__\<close> (policy.py) and
  \<^verbatim>\<open>Store._validate_plan_tasks\<close> (store.py) run over the task graph, with the two Python
  sets \<^verbatim>\<open>visiting\<close> and \<^verbatim>\<open>visited\<close> as lists.  The recursion carries fuel; one more unit
  than there are nodes is always enough.  The check accepts exactly the acyclic graphs.
\<close>

section \<open>The check\<close>

definition cycle_error :: py_error where
  "cycle_error = ValueError ''plan dependencies contain a cycle''"

fun visit :: "nat \<Rightarrow> ('a \<Rightarrow> 'a list) \<Rightarrow> 'a \<Rightarrow> 'a list \<times> 'a list \<Rightarrow> ('a list \<times> 'a list) result option"
and visit_each :: "nat \<Rightarrow> ('a \<Rightarrow> 'a list) \<Rightarrow> 'a list \<Rightarrow> 'a list \<times> 'a list \<Rightarrow> ('a list \<times> 'a list) result option"
where
  "visit 0 g n s = None"
| "visit (Suc k) g n (visiting, visited) =
     (if n \<in> set visiting then Some (Inl cycle_error)
      else if n \<in> set visited then Some (Inr (visiting, visited))
      else case visit_each k g (g n) (n # visiting, visited) of
             None \<Rightarrow> None
           | Some (Inl e) \<Rightarrow> Some (Inl e)
           | Some (Inr (visiting', visited')) \<Rightarrow>
               Some (Inr (removeAll n visiting', n # visited')))"
| "visit_each k g [] s = Some (Inr s)"
| "visit_each k g (d # ds) s =
     (case visit k g d s of
        None \<Rightarrow> None
      | Some (Inl e) \<Rightarrow> Some (Inl e)
      | Some (Inr s') \<Rightarrow> visit_each k g ds s')"

lemma visit_code [code]:
  "visit k g n s =
     (if k = 0 then None
      else if n \<in> set (fst s) then Some (Inl cycle_error)
      else if n \<in> set (snd s) then Some (Inr s)
      else case visit_each (k - 1) g (g n) (n # fst s, snd s) of
             None \<Rightarrow> None
           | Some (Inl e) \<Rightarrow> Some (Inl e)
           | Some (Inr s') \<Rightarrow> Some (Inr (removeAll n (fst s'), n # snd s')))"
  by (cases k; cases s) (auto split: option.splits sum.splits)

definition check_cycles :: "'a list \<Rightarrow> ('a \<Rightarrow> 'a list) \<Rightarrow> unit result" where
  "check_cycles nodes g =
     (case visit_each (Suc (length nodes)) g nodes ([], []) of
        None \<Rightarrow> Inl (RuntimeError ''maximum recursion depth exceeded'')
      | Some (Inl e) \<Rightarrow> Inl e
      | Some (Inr _) \<Rightarrow> Inr ())"

section \<open>Facts about one visit\<close>

text \<open>The edges of the graph that start at a node.\<close>

definition edges :: "'a list \<Rightarrow> ('a \<Rightarrow> 'a list) \<Rightarrow> ('a \<times> 'a) set" where
  "edges nodes g = {(n, d). n \<in> set nodes \<and> d \<in> set (g n)}"

lemma visit_restores_visiting:
  "visit k g n (vg, vd) = Some (Inr (vg', vd')) \<Longrightarrow> vg' = vg"
  "visit_each k g ns (vg, vd) = Some (Inr (vg', vd')) \<Longrightarrow> vg' = vg"
proof (induction k g n "(vg, vd)" and k g ns "(vg, vd)" arbitrary: vg vd vg' vd' and vg vd vg' vd'
    rule: visit_visit_each.induct)
  case (2 k g n vg vd)
  show ?case
  proof (cases "n \<in> set vg \<or> n \<in> set vd")
    case True
    with 2(2) show ?thesis by (auto split: if_splits)
  next
    case False
    with 2(2) obtain vg1 vd1 where step: "visit_each k g (g n) (n # vg, vd) = Some (Inr (vg1, vd1))"
      and vg': "vg' = removeAll n vg1"
      by (auto split: option.splits sum.splits)
    from False have "vg1 = n # vg" by (intro 2(1) [OF _ _ step]) auto
    with vg' False show ?thesis by (simp add: removeAll_id)
  qed
next
  case (4 k g d ds vg vd)
  from 4(3) obtain vg1 vd1 where s1: "visit k g d (vg, vd) = Some (Inr (vg1, vd1))"
    and s2: "visit_each k g ds (vg1, vd1) = Some (Inr (vg', vd'))"
    by (auto split: option.splits sum.splits)
  from 4(1) [OF s1] have "vg1 = vg" .
  with 4(2) [OF s1 refl s2] show ?case by simp
qed auto

text \<open>Enough fuel: every nested call puts one more node on the visiting list.\<close>

lemma visit_enough_fuel:
  assumes closed: "\<And>n. n \<in> set nodes \<Longrightarrow> set (g n) \<subseteq> set nodes"
  shows "n \<in> set nodes \<Longrightarrow> set vg \<subseteq> set nodes \<Longrightarrow> distinct vg \<Longrightarrow>
           length nodes < k + length vg \<Longrightarrow> visit k g n (vg, vd) \<noteq> None"
    and "set ns \<subseteq> set nodes \<Longrightarrow> set vg \<subseteq> set nodes \<Longrightarrow> distinct vg \<Longrightarrow>
           length nodes < k + length vg \<Longrightarrow> visit_each k g ns (vg, vd) \<noteq> None"
  using closed
proof (induction k g n "(vg, vd)" and k g ns "(vg, vd)" arbitrary: vg vd and vg vd
    rule: visit_visit_each.induct)
  case (1 g n vg vd)
  then have "length vg \<le> length nodes"
    by (metis distinct_card card_length card_mono List.finite_set order.trans)
  with 1 show ?case by simp
next
  case (2 k g n vg vd)
  show ?case
  proof (cases "n \<in> set vg \<or> n \<in> set vd")
    case False
    then have "visit_each k g (g n) (n # vg, vd) \<noteq> None"
      by (intro 2(1)) (use 2 in auto)
    with False show ?thesis by (auto split: option.splits sum.splits)
  qed auto
next
  case (4 k g d ds vg vd)
  have "visit k g d (vg, vd) \<noteq> None"
    by (rule 4(1)) (use 4 in auto)
  moreover have "visit_each k g ds s' \<noteq> None" if v: "visit k g d (vg, vd) = Some (Inr s')" for s'
  proof (cases s')
    case (Pair vg' vd')
    with v have "vg' = vg" using visit_restores_visiting(1) by fast
    with 4(2) [OF v, of vg' vd'] Pair 4(3-7) show ?thesis by simp
  qed
  ultimately show ?case by (auto split: option.splits sum.splits)
qed auto

text \<open>The visited list is a reversed topological order.\<close>

fun topo :: "('a \<Rightarrow> 'a list) \<Rightarrow> 'a list \<Rightarrow> bool" where
  "topo g [] = True"
| "topo g (n # vd) = (set (g n) \<subseteq> set vd \<and> n \<notin> set vd \<and> topo g vd)"

lemma visit_topo:
  "visit k g n (vg, vd) = Some (Inr (vg', vd')) \<Longrightarrow> topo g vd \<Longrightarrow> set vg \<inter> set vd = {} \<Longrightarrow>
     topo g vd' \<and> set vd \<subseteq> set vd' \<and> n \<in> set vd' \<and> set vg \<inter> set vd' = {}"
  "visit_each k g ns (vg, vd) = Some (Inr (vg', vd')) \<Longrightarrow> topo g vd \<Longrightarrow> set vg \<inter> set vd = {} \<Longrightarrow>
     topo g vd' \<and> set vd \<subseteq> set vd' \<and> set ns \<subseteq> set vd' \<and> set vg \<inter> set vd' = {}"
proof (induction k g n "(vg, vd)" and k g ns "(vg, vd)" arbitrary: vg vd vg' vd' and vg vd vg' vd'
    rule: visit_visit_each.induct)
  case (2 k g n vg vd)
  show ?case
  proof (cases "n \<in> set vd")
    case True
    with 2 show ?thesis by (auto split: if_splits)
  next
    case False
    with 2(2) obtain vg1 vd1 where step: "visit_each k g (g n) (n # vg, vd) = Some (Inr (vg1, vd1))"
      and vd': "vd' = n # vd1" and "n \<notin> set vg"
      by (auto split: if_splits option.splits sum.splits)
    from False \<open>n \<notin> set vg\<close> 2(3,4)
    have "topo g vd1 \<and> set vd \<subseteq> set vd1 \<and> set (g n) \<subseteq> set vd1 \<and> set (n # vg) \<inter> set vd1 = {}"
      by (intro 2(1) [OF _ _ step]) auto
    with \<open>n \<notin> set vg\<close> vd' show ?thesis by auto
  qed
next
  case (4 k g d ds vg vd)
  from 4(3) obtain vg1 vd1 where s1: "visit k g d (vg, vd) = Some (Inr (vg1, vd1))"
    and s2: "visit_each k g ds (vg1, vd1) = Some (Inr (vg', vd'))"
    by (auto split: option.splits sum.splits)
  have "vg1 = vg" using s1 by (rule visit_restores_visiting)
  have a: "topo g vd1 \<and> set vd \<subseteq> set vd1 \<and> d \<in> set vd1 \<and> set vg \<inter> set vd1 = {}"
    using 4(1) [OF s1 4(4,5)] .
  have "topo g vd' \<and> set vd1 \<subseteq> set vd' \<and> set ds \<subseteq> set vd' \<and> set vg \<inter> set vd' = {}"
    using 4(2) [OF s1 refl s2] a \<open>vg1 = vg\<close> by simp
  with a show ?case by auto
qed auto

lemma topo_acyclic:
  assumes "topo g vd"
  shows "acyclic (edges vd g)"
proof -
  define rank where "rank n = length (dropWhile (\<lambda>m. m \<noteq> n) vd)" for n
  have "rank d < rank n" if "n \<in> set vd" "d \<in> set (g n)" for n d
    using assms that unfolding rank_def
  proof (induction vd)
    case Nil
    then show ?case by simp
  next
    case (Cons m vd)
    show ?case
    proof (cases "m = n")
      case True
      with Cons.prems have "d \<in> set vd" and "m \<noteq> d" by auto
      then have "dropWhile (\<lambda>m. m \<noteq> d) (m # vd) = dropWhile (\<lambda>m. m \<noteq> d) vd" by simp
      with True show ?thesis
        by (metis (mono_tags, lifting) dropWhile.simps(2) le_imp_less_Suc length_Cons length_dropWhile_le)
    next
      case False
      with Cons.prems have n: "n \<in> set vd" "topo g vd" by auto
      then have "d \<in> set vd" using Cons.prems(3) by (induction vd) auto
      with Cons.prems(1) have "m \<noteq> d" by auto
      with False Cons.IH n Cons.prems(3) show ?thesis by simp
    qed
  qed
  then have "edges vd g \<subseteq> (measure rank)\<inverse>" by (auto simp: edges_def)
  moreover have "acyclic ((measure rank)\<inverse>)" by (simp add: wf_acyclic)
  ultimately show ?thesis by (rule acyclic_subset [rotated])
qed

text \<open>The visiting list is the path from the root of the search.\<close>

fun chain :: "('a \<Rightarrow> 'a list) \<Rightarrow> 'a list \<Rightarrow> bool" where
  "chain g (a # b # vs) = (a \<in> set (g b) \<and> chain g (b # vs))"
| "chain g vs = True"

lemma chain_reach:
  assumes "chain g (a # vs)" "n \<in> set (a # vs)" "set (a # vs) \<subseteq> set nodes"
  shows "(n, a) \<in> (edges nodes g)\<^sup>*"
  using assms
proof (induction vs arbitrary: a)
  case Nil
  then show ?case by simp
next
  case (Cons b vs)
  show ?case
  proof (cases "n = a")
    case False
    with Cons have "(n, b) \<in> (edges nodes g)\<^sup>*" by simp
    moreover have "(b, a) \<in> edges nodes g" using Cons.prems by (simp add: edges_def)
    ultimately show ?thesis by (rule rtrancl_into_rtrancl)
  qed simp
qed

lemma visit_error_cycle:
  assumes closed: "\<And>n. n \<in> set nodes \<Longrightarrow> set (g n) \<subseteq> set nodes"
  shows "visit k g n (vg, vd) = Some (Inl e) \<Longrightarrow> chain g vg \<Longrightarrow> set vg \<subseteq> set nodes \<Longrightarrow>
           (vg \<noteq> [] \<longrightarrow> n \<in> set (g (hd vg))) \<Longrightarrow> n \<in> set nodes \<Longrightarrow>
           \<not> acyclic (edges nodes g) \<and> e = cycle_error"
    and "visit_each k g ns (vg, vd) = Some (Inl e) \<Longrightarrow> chain g vg \<Longrightarrow> set vg \<subseteq> set nodes \<Longrightarrow>
           (vg \<noteq> [] \<longrightarrow> set ns \<subseteq> set (g (hd vg))) \<Longrightarrow> set ns \<subseteq> set nodes \<Longrightarrow>
           \<not> acyclic (edges nodes g) \<and> e = cycle_error"
  using closed
proof (induction k g n "(vg, vd)" and k g ns "(vg, vd)" arbitrary: vg vd and vg vd
    rule: visit_visit_each.induct)
  case (2 k g n vg vd)
  show ?case
  proof (cases "n \<in> set vg")
    case True
    then obtain a vs where vg: "vg = a # vs" by (cases vg) auto
    with True 2 have "(n, a) \<in> (edges nodes g)\<^sup>*" by (intro chain_reach) auto
    moreover have "(a, n) \<in> edges nodes g" using vg 2 by (simp add: edges_def)
    ultimately have "(n, n) \<in> (edges nodes g)\<^sup>+" by (rule rtrancl_into_trancl1)
    with True 2(2) show ?thesis by (auto simp: acyclic_def)
  next
    case False
    moreover have "n \<notin> set vd" using 2(2) False by auto
    ultimately have step: "visit_each k g (g n) (n # vg, vd) = Some (Inl e)"
      using 2(2) by (auto split: option.splits sum.splits)
    have "chain g (n # vg)" using 2 by (cases vg) auto
    then show ?thesis
      by (intro 2(1) [OF False \<open>n \<notin> set vd\<close> step]) (use 2 in auto)
  qed
next
  case (4 k g d ds vg vd)
  show ?case
  proof (cases "visit k g d (vg, vd)")
    case (Some r)
    show ?thesis
    proof (cases r)
      case (Inl e')
      with 4 Some show ?thesis by (auto split: option.splits sum.splits)
    next
      case (Inr s')
      obtain vg1 vd1 where s': "s' = (vg1, vd1)" by (cases s')
      with Inr Some have "vg1 = vg" using visit_restores_visiting(1) by fast
      with 4 Some Inr s' show ?thesis by auto
    qed
  qed (use 4 in auto)
qed auto

section \<open>Correctness of the check\<close>

theorem check_cycles_iff_acyclic:
  assumes closed: "\<And>n. n \<in> set nodes \<Longrightarrow> set (g n) \<subseteq> set nodes"
  shows "is_ok (check_cycles nodes g) \<longleftrightarrow> acyclic (edges nodes g)"
    and "\<not> is_ok (check_cycles nodes g) \<Longrightarrow> check_cycles nodes g = Inl cycle_error"
proof -
  have "visit_each (Suc (length nodes)) g nodes ([], []) \<noteq> None"
    by (rule visit_enough_fuel(2) [of nodes]) (use closed in auto)
  then obtain r where r: "visit_each (Suc (length nodes)) g nodes ([], []) = Some r" by auto
  show "is_ok (check_cycles nodes g) \<longleftrightarrow> acyclic (edges nodes g)"
  proof (cases r)
    case (Inl e)
    with r have "\<not> acyclic (edges nodes g)"
      using visit_error_cycle(2) [of nodes g _ nodes "[]" "[]" e] closed by simp
    with r Inl show ?thesis by (simp add: check_cycles_def)
  next
    case (Inr s)
    obtain vg vd where s: "s = (vg, vd)" by (cases s)
    have "topo g vd \<and> set nodes \<subseteq> set vd"
      using visit_topo(2) [of _ g nodes "[]" "[]" vg vd] r Inr s by auto
    then have "acyclic (edges vd g)" and "edges nodes g \<subseteq> edges vd g"
      by (blast intro: topo_acyclic) (use \<open>topo g vd \<and> _\<close> in \<open>auto simp: edges_def\<close>)
    then have "acyclic (edges nodes g)" by (rule acyclic_subset)
    with r Inr show ?thesis by (simp add: check_cycles_def)
  qed
  show "check_cycles nodes g = Inl cycle_error" if "\<not> is_ok (check_cycles nodes g)"
  proof (cases r)
    case (Inl e)
    with r have "e = cycle_error"
      using visit_error_cycle(2) [of nodes g _ nodes "[]" "[]" e] closed by simp
    with r Inl show ?thesis by (simp add: check_cycles_def)
  next
    case (Inr s)
    with r that show ?thesis by (simp add: check_cycles_def)
  qed
qed

section \<open>The interface the planners use\<close>

text \<open>
  What a client may assume of a cycle check: over a closed graph it accepts exactly the
  acyclic ones.  From that alone every non-empty set of unfinished nodes has one whose
  dependencies are all finished, which is what lets a scheduler make progress.
\<close>

locale cycle_checker =
  fixes check :: "'a list \<Rightarrow> ('a \<Rightarrow> 'a list) \<Rightarrow> unit result"
  assumes check_iff: "(\<And>n. n \<in> set nodes \<Longrightarrow> set (g n) \<subseteq> set nodes) \<Longrightarrow>
    is_ok (check nodes g) \<longleftrightarrow> acyclic (edges nodes g)"
begin

lemma finite_edges: "finite (edges nodes g)"
proof -
  have "edges nodes g = (\<Union>n\<in>set nodes. Pair n ` set (g n))" by (auto simp: edges_def)
  then show ?thesis by simp
qed

lemma accepted_no_self_loop:
  assumes "\<And>n. n \<in> set nodes \<Longrightarrow> set (g n) \<subseteq> set nodes" "is_ok (check nodes g)" "n \<in> set nodes"
  shows "n \<notin> set (g n)"
proof
  assume "n \<in> set (g n)"
  with assms(3) have "(n, n) \<in> edges nodes g" by (simp add: edges_def)
  moreover have "acyclic (edges nodes g)" using check_iff [of nodes g] assms(1,2) by blast
  ultimately show False by (auto simp: acyclic_def)
qed

lemma accepted_has_source:
  assumes "\<And>n. n \<in> set nodes \<Longrightarrow> set (g n) \<subseteq> set nodes" "is_ok (check nodes g)"
    and "U \<subseteq> set nodes" "U \<noteq> {}"
  shows "\<exists>n\<in>U. set (g n) \<inter> U = {}"
proof -
  have "acyclic (edges nodes g)" using check_iff [of nodes g] assms(1,2) by blast
  then have "wf ((edges nodes g)\<inverse>)"
    by (simp add: finite_edges finite_acyclic_wf_converse)
  with assms(4) obtain n where n: "n \<in> U" "\<And>d. (d, n) \<in> (edges nodes g)\<inverse> \<Longrightarrow> d \<notin> U"
    by (metis all_not_in_conv wfE_min)
  with assms(3) have "set (g n) \<inter> U = {}" by (auto simp: edges_def)
  with n(1) show ?thesis ..
qed

end

interpretation dfs: cycle_checker check_cycles
  by unfold_locales (rule check_cycles_iff_acyclic(1))

text \<open>C38. The cycle check decides acyclicity: over a graph whose edges stay inside its nodes it returns
  normally exactly when the graph has no cycle and raises the cycle error otherwise, and it never
  runs out of recursion.\<close>
theorem cycle_check_decides:
  assumes "\<forall>n\<in>set nodes. set (g n) \<subseteq> set nodes"
  shows "check_cycles nodes g = (if acyclic (edges nodes g) then Inr () else Inl cycle_error)"
proof (cases "is_ok (check_cycles nodes g)")
  case True
  with assms check_cycles_iff_acyclic(1) [of nodes g] have "acyclic (edges nodes g)" by blast
  with True show ?thesis by (auto simp: is_ok_iff)
next
  case False
  with assms check_cycles_iff_acyclic [of nodes g] show ?thesis by auto
qed

theorem cycle_check_decides_witness:
  "check_cycles [1, 2::int] (\<lambda>n. if n = 1 then [2] else [1]) = Inl cycle_error
   \<and> \<not> acyclic (edges [1, 2::int] (\<lambda>n. if n = 1 then [2] else [1]))"
proof -
  have "check_cycles [1, 2::int] (\<lambda>n. if n = 1 then [2] else [1]) = Inl cycle_error" by code_simp
  with cycle_check_decides [of "[1, 2::int]" "\<lambda>n. if n = 1 then [2] else [1]"] show ?thesis
    by (auto split: if_splits)
qed

end
