(* ===== verification/PyValues.thy ===== *)
theory PyValues imports PyText begin

text \<open>
  Conversions between decoded JSON values and other Python values: \<^verbatim>\<open>repr\<close>, \<^verbatim>\<open>str\<close>, \<^verbatim>\<open>int\<close>, the
  key a value has in a set, and lookups with a default.
\<close>

section \<open>Conversions of the language\<close>

text \<open>\<^verbatim>\<open>repr\<close> of a string and \<^verbatim>\<open>str\<close> of a decoded JSON value (bytes from 128 on are kept).\<close>

definition repr_char :: "char \<Rightarrow> char \<Rightarrow> string" where
  "repr_char q c = (let n = of_char c :: nat in
     if c = q \<or> c = backslash then [backslash, c]
     else if n = 10 then [backslash, CHR ''n'']
     else if n = 13 then [backslash, CHR ''r'']
     else if n = 9 then [backslash, CHR ''t'']
     else if n < 32 \<or> n = 127 then [backslash, CHR ''x'', hex_digit (n div 16), hex_digit (n mod 16)]
     else [c])"

definition repr_str :: "string \<Rightarrow> string" where
  "repr_str s =
     (let single = char_of (39::nat); double = char_of (34::nat);
          q = (if single \<in> set s \<and> double \<notin> set s then double else single)
      in [q] @ concat (map (repr_char q) s) @ [q])"

fun py_repr :: "json \<Rightarrow> string" where
  "py_repr JNull = ''None''"
| "py_repr (JBool b) = (if b then ''True'' else ''False'')"
| "py_repr (JInt i) = show_int i"
| "py_repr (JFloat r txt) = txt"
| "py_repr (JNonFinite txt) = (if txt = ''NaN'' then ''nan'' else if txt = ''Infinity'' then ''inf'' else ''-inf'')"
| "py_repr (JStr s) = repr_str s"
| "py_repr (JArr vs) = ''['' @ join_with '', '' (map py_repr vs) @ '']''"
| "py_repr (JObj items) = ''{'' @ join_with '', '' (map (\<lambda>(k, v). repr_str k @ '': '' @ py_repr v) items) @ ''}''"

definition py_str :: "json \<Rightarrow> string" where
  "py_str v = (case v of JStr s \<Rightarrow> s | _ \<Rightarrow> py_repr v)"

text \<open>\<^verbatim>\<open>int\<close> of a decoded JSON value: truncation of floats, decimal text with single underscores.\<close>

definition is_digit :: "char \<Rightarrow> bool" where
  "is_digit c = (let n = of_char c :: nat in 48 \<le> n \<and> n \<le> 57)"

fun int_digits :: "string \<Rightarrow> string option" where
  "int_digits [] = None"
| "int_digits [c] = (if is_digit c then Some [c] else None)"
| "int_digits (c # d # cs) =
     (if \<not> is_digit c then None
      else if d = CHR ''_'' then map_option ((#) c) (int_digits cs)
      else map_option ((#) c) (int_digits (d # cs)))"

definition parse_int :: "string \<Rightarrow> int option" where
  "parse_int s =
     (let t = strip s;
          (sg, body) = (case t of [] \<Rightarrow> (1, [])
             | c # cs \<Rightarrow> if c = CHR ''-'' then (-1, cs) else if c = CHR ''+'' then (1, cs) else (1, t))
      in case int_digits body of None \<Rightarrow> None
         | Some ds \<Rightarrow> if 4300 < length ds then None else Some (sg * int (digits_val ds)))"

fun py_int :: "json \<Rightarrow> int result" where
  "py_int (JInt i) = Inr i"
| "py_int (JBool b) = Inr (if b then 1 else 0)"
| "py_int (JFloat r txt) = Inr (if 0 \<le> r then \<lfloor>r\<rfloor> else \<lceil>r\<rceil>)"
| "py_int (JNonFinite txt) = (if txt = ''NaN'' then Inl (ValueError ''cannot convert float NaN to integer'')
     else Inl (OverflowError ''cannot convert float infinity to integer''))"
| "py_int (JStr s) = (case parse_int s of Some i \<Rightarrow> Inr i
     | None \<Rightarrow> Inl (ValueError (''invalid literal for int() with base 10: '' @ repr_str s)))"
| "py_int v = Inl (TypeError ''int() argument must be a string, a bytes-like object or a real number'')"

text \<open>The key a hashable value has in a set: \<^verbatim>\<open>True == 1 == 1.0\<close>; arrays and objects are unhashable.\<close>

fun hash_key :: "json \<Rightarrow> json option" where
  "hash_key (JBool b) = Some (JFloat (if b then 1 else 0) [])"
| "hash_key (JInt i) = Some (JFloat (of_int i) [])"
| "hash_key (JFloat r txt) = Some (JFloat r [])"
| "hash_key (JArr vs) = None"
| "hash_key (JObj items) = None"
| "hash_key v = Some v"

text \<open>The text a validated field holds (only reached after \<open>plan_text\<close> accepted it).\<close>

definition str_of :: "json \<Rightarrow> string" where
  "str_of v = (case v of JStr s \<Rightarrow> s | _ \<Rightarrow> [])"

text \<open>\<^verbatim>\<open>payload.get(k)\<close>: a missing key reads as None.\<close>

abbreviation getn :: "(string \<times> json) list \<Rightarrow> string \<Rightarrow> json" where
  "getn items k \<equiv> jget_default items k JNull"

lemma map_str_of_JStr [simp]: "map (str_of \<circ> JStr) xs = xs" "map str_of (map JStr xs) = xs"
  by (induction xs) (auto simp: str_of_def)

end
