(* ===== verification/Algorithm.thy ===== *)
theory Algorithm imports Acceptance PyValues begin

text \<open>
  The algorithm-problem contract and the evaluation report of \<^verbatim>\<open>algorithm.py\<close>: validation of decoded
  JSON into immutable records and their rendering back.  Numbers that the code keeps as it found them
  (metric weights, scores) stay JSON values.
\<close>

section \<open>Bounded text\<close>

definition ALG_ITEMS :: nat where "ALG_ITEMS = 64"
definition MAX_FIELDS :: nat where "MAX_FIELDS = 128"
definition MAX_METRICS :: nat where "MAX_METRICS = 32"
definition MAX_REPORT_BYTES :: nat where "MAX_REPORT_BYTES = 32768"
definition ALG_CONTRACT_BYTES :: nat where "ALG_CONTRACT_BYTES = 65536"
definition MAX_ERROR_INFO :: nat where "MAX_ERROR_INFO = 32"
definition MAX_OUTPUTS :: nat where "MAX_OUTPUTS = 32"

definition problem_types :: "string list" where
  "problem_types = [''scheduling'', ''routing'', ''packing'', ''assignment'', ''forecasting'', ''network_flow'',
     ''continuous'']"

definition alg_text :: "json \<Rightarrow> string \<Rightarrow> bool \<Rightarrow> nat \<Rightarrow> string result" where
  "alg_text value field required limit =
     (case value of
        JStr s \<Rightarrow>
          (let v = strip s in
           if required \<and> v = [] then Inl (ValueError (field @ '' must not be empty''))
           else if limit < length v then Inl (ValueError (field @ '' exceeds '' @ show_nat limit @ '' bytes''))
           else if secret_search v then Inl (ValueError (field @ '' contains credential-like content''))
           else Inr v)
      | _ \<Rightarrow> if required then Inl (TypeError (field @ '' must be a string'')) else Inr [])"

definition safe_segment :: "json \<Rightarrow> string \<Rightarrow> string result" where
  "safe_segment value field =
     bindE (alg_text value field True 512) (\<lambda>v.
     bindE (guardE (v \<in> {''.'', ''..''} \<or> CHR ''/'' \<in> set v \<or> backslash \<in> set v \<or> nul \<in> set v)
              (ValueError (field @ '' must be a safe identifier''))) (\<lambda>_. Inr v))"

definition relative_path :: "json \<Rightarrow> string \<Rightarrow> string result" where
  "relative_path value field =
     bindE (alg_text value field True 512) (\<lambda>path.
     bindE (guardE (backslash \<in> set path \<or> nul \<in> set path)
              (ValueError (field @ '' must be a portable relative path''))) (\<lambda>_.
     bindE (guardE (starts_with ''/'' path \<or> (\<exists>part\<in>set (split_on CHR ''/'' path). part \<in> {[], ''.'', ''..''}))
              (ValueError (field @ '' must be a portable relative path''))) (\<lambda>_. Inr path)))"

definition alg_strings :: "json \<Rightarrow> string \<Rightarrow> string list result" where
  "alg_strings value field =
     (case value of
        JNull \<Rightarrow> Inr []
      | JArr vs \<Rightarrow>
          if ALG_ITEMS < length vs then Inl (ValueError (field @ '' must be a bounded string array''))
          else mapE (\<lambda>v. alg_text v field True 8000) vs
      | _ \<Rightarrow> Inl (ValueError (field @ '' must be a bounded string array'')))"

text \<open>\<^verbatim>\<open>json.dumps(value, ensure_ascii=False, sort_keys=True, separators=(",", ":"))\<close>.\<close>

fun canonical :: "json \<Rightarrow> string" where
  "canonical (JArr vs) = ''['' @ join_with '','' (map canonical vs) @ '']''"
| "canonical (JObj items) =
     ''{'' @ join_with '','' (map (\<lambda>(k, t). quote_str k @ '':'' @ t)
        (sort_key fst (map (\<lambda>(k, v). (k, canonical v)) items))) @ ''}''"
| "canonical v = dumps v"

definition json_size :: "json \<Rightarrow> string \<Rightarrow> nat \<Rightarrow> unit result" where
  "json_size value field limit =
     (let encoded = canonical value in
      bindE (guardE (limit < length encoded) (ValueError (field @ '' exceeds '' @ show_nat limit @ '' bytes''))) (\<lambda>_.
      guardE (secret_search encoded) (ValueError (field @ '' contains credential-like content''))))"

text \<open>\<^verbatim>\<open>value not in {...}\<close> for a set of strings: an unhashable value raises.\<close>

definition member_of :: "json \<Rightarrow> string list \<Rightarrow> py_error \<Rightarrow> unit result" where
  "member_of value names err =
     (if hash_key value = None then Inl (TypeError ''unhashable type'')
      else guardE (value \<notin> set (map JStr names)) err)"

section \<open>Inputs\<close>

record input_spec =
  in_path :: string
  in_format :: string
  in_fields :: "(string \<times> string) list"
  in_key :: "string option"

text \<open>A dictionary built by assignments, in insertion order.\<close>

fun put_field :: "string \<Rightarrow> string \<Rightarrow> (string \<times> string) list \<Rightarrow> (string \<times> string) list" where
  "put_field k v [] = [(k, v)]"
| "put_field k v ((k', v') # d) = (if k = k' then (k, v) # d else (k', v') # put_field k v d)"

definition input_fields :: "(string \<times> string) list \<Rightarrow> (string \<times> string) list result" where
  "input_fields flds =
     foldE (\<lambda>(name, description) d.
        bindE (safe_segment (JStr name) ''input field name'') (\<lambda>f.
        bindE (alg_text (JStr description) (''input field '' @ f) True 512) (\<lambda>t. Inr (put_field f t d)))) flds []"

definition input_init :: "string \<Rightarrow> string \<Rightarrow> (string \<times> string) list \<Rightarrow> string option \<Rightarrow> input_spec result" where
  "input_init path0 format0 flds key =
     bindE (relative_path (JStr path0) ''input path'') (\<lambda>path.
     bindE (alg_text (JStr format0) ''input format'' True 128) (\<lambda>_.
     bindE (guardE (flds = [] \<or> MAX_FIELDS < length flds)
              (ValueError ''input fields must be a bounded non-empty object'')) (\<lambda>_.
     bindE (input_fields flds) (\<lambda>normalized.
     bindE (case key of
              None \<Rightarrow> Inr None
            | Some k \<Rightarrow>
                bindE (safe_segment (JStr k) ''input key'') (\<lambda>s.
                bindE (guardE (s \<notin> set (map fst normalized))
                         (ValueError ''input key must name a declared field'')) (\<lambda>_. Inr (Some s)))) (\<lambda>key'.
     Inr \<lparr>in_path = path, in_format = strip format0, in_fields = normalized, in_key = key'\<rparr>)))))"

definition opt_json :: "string option \<Rightarrow> json" where
  "opt_json v = (case v of None \<Rightarrow> JNull | Some s \<Rightarrow> JStr s)"

definition input_to_dict :: "input_spec \<Rightarrow> json" where
  "input_to_dict i = JObj [(''path'', JStr (in_path i)), (''format'', JStr (in_format i)),
     (''fields'', JObj (map (\<lambda>(k, v). (k, JStr v)) (in_fields i))), (''key'', opt_json (in_key i))]"

definition string_fields :: "json \<Rightarrow> (string \<times> string) list option" where
  "string_fields v = (case v of
       JObj flds \<Rightarrow> if \<exists>(k, x)\<in>set flds. case x of JStr _ \<Rightarrow> False | _ \<Rightarrow> True then None
                      else Some (map (\<lambda>(k, x). (k, str_of x)) flds)
     | _ \<Rightarrow> None)"

definition input_from_dict :: "json \<Rightarrow> input_spec result" where
  "input_from_dict value =
     (case value of
        JObj items \<Rightarrow>
          (case string_fields (getn items ''fields'') of
             None \<Rightarrow> Inl (TypeError ''input fields must be a string object'')
           | Some flds \<Rightarrow>
               bindE (case getn items ''key'' of JNull \<Rightarrow> Inr None | JStr k \<Rightarrow> Inr (Some k)
                      | _ \<Rightarrow> Inl (TypeError ''input key must be a string or null'')) (\<lambda>key.
               bindE (relative_path (getn items ''path'') ''input path'') (\<lambda>path.
               bindE (alg_text (getn items ''format'') ''input format'' True 128) (\<lambda>fmt.
               input_init path fmt flds key))))
      | _ \<Rightarrow> Inl (TypeError ''input must be an object''))"

section \<open>Objectives\<close>

definition directions :: "string list" where "directions = [''maximize'', ''minimize'']"

record metric_spec =
  me_name :: string
  me_direction :: string
  me_weight :: json

text \<open>\<^verbatim>\<open>isinstance(v, bool) or not isinstance(v, (int, float)) or not math.isfinite(float(v)) or v < 0\<close>.\<close>

definition bad_number :: "json \<Rightarrow> bool \<Rightarrow> bool result" where
  "bad_number v signed =
     (if \<not> is_number v then Inr True
      else bindE (is_finite_number v) (\<lambda>f. Inr (\<not> f \<or> (\<not> signed \<and> num_val v < 0))))"

definition metric_init :: "string \<Rightarrow> json \<Rightarrow> json \<Rightarrow> metric_spec result" where
  "metric_init name direction weight =
     bindE (alg_text (JStr name) ''metric name'' True 256) (\<lambda>_.
     bindE (member_of direction directions (ValueError ''metric direction must be maximize or minimize'')) (\<lambda>_.
     bindE (bad_number weight False) (\<lambda>bad.
     bindE (guardE bad (ValueError ''metric weight must be a finite non-negative number'')) (\<lambda>_.
     Inr \<lparr>me_name = name, me_direction = str_of direction, me_weight = weight\<rparr>))))"

definition metric_to_dict :: "metric_spec \<Rightarrow> json" where
  "metric_to_dict m = JObj [(''name'', JStr (me_name m)), (''direction'', JStr (me_direction m)),
     (''weight'', me_weight m)]"

definition metric_from_dict :: "json \<Rightarrow> metric_spec result" where
  "metric_from_dict value =
     (case value of
        JObj items \<Rightarrow>
          bindE (alg_text (getn items ''name'') ''metric name'' True 256) (\<lambda>name.
          metric_init name (getn items ''direction'') (jget_default items ''weight'' (JInt 0)))
      | _ \<Rightarrow> Inl (TypeError ''objective metric must be an object''))"

record objective_spec =
  ob_name :: string
  ob_direction :: string
  ob_metrics :: "metric_spec list"

text \<open>
  \<^verbatim>\<open>sum(weights) > 0\<close>: integers add exactly until the first float, which converts the partial sum and
  raises when it is too large.
\<close>

fun positive_sum :: "int \<Rightarrow> json list \<Rightarrow> bool result" where
  "positive_sum acc [] = Inr (0 < acc)"
| "positive_sum acc (w # ws) =
     (case w of JInt i \<Rightarrow> positive_sum (acc + i) ws
      | _ \<Rightarrow> if float_max_excl \<le> \<bar>acc\<bar> then Inl (OverflowError ''int too large to convert to float'')
             else Inr (0 < acc \<or> (\<exists>x\<in>set (w # ws). 0 < num_val x)))"

definition objective_init :: "string \<Rightarrow> json \<Rightarrow> metric_spec list \<Rightarrow> objective_spec result" where
  "objective_init name direction metrics =
     bindE (alg_text (JStr name) ''objective name'' True 512) (\<lambda>_.
     bindE (member_of direction directions (ValueError ''objective direction must be maximize or minimize'')) (\<lambda>_.
     bindE (guardE (MAX_METRICS < length metrics) (ValueError ''objective has too many metrics'')) (\<lambda>_.
     bindE (guardE (\<not> distinct (map me_name metrics)) (ValueError ''objective metric names must be unique'')) (\<lambda>_.
     bindE (if metrics = [] then Inr True else positive_sum 0 (map me_weight metrics)) (\<lambda>pos.
     bindE (guardE (\<not> pos) (ValueError ''objective metric weights must have a positive total'')) (\<lambda>_.
     Inr \<lparr>ob_name = name, ob_direction = str_of direction, ob_metrics = metrics\<rparr>))))))"

definition objective_to_dict :: "objective_spec \<Rightarrow> json" where
  "objective_to_dict ob = JObj ([(''name'', JStr (ob_name ob)), (''direction'', JStr (ob_direction ob))]
     @ (if ob_metrics ob = [] then [] else [(''metrics'', JArr (map metric_to_dict (ob_metrics ob)))]))"

definition objective_from_dict :: "json \<Rightarrow> objective_spec result" where
  "objective_from_dict value =
     (case value of
        JObj items \<Rightarrow>
          (case jget_default items ''metrics'' (JArr []) of
             JArr raw \<Rightarrow>
               bindE (alg_text (getn items ''name'') ''objective name'' True 512) (\<lambda>name.
               bindE (mapE metric_from_dict raw) (\<lambda>metrics.
               objective_init name (getn items ''direction'') metrics))
           | _ \<Rightarrow> Inl (TypeError ''objective metrics must be an array''))
      | _ \<Rightarrow> Inl (TypeError ''objective must be an object''))"

section \<open>Constraints\<close>

record source_check =
  sc_kind :: string
  sc_minimum :: int

definition source_check_init :: "json \<Rightarrow> json \<Rightarrow> source_check result" where
  "source_check_init kind minimum =
     bindE (guardE (kind \<noteq> JStr ''python_file_count'') (ValueError ''source_check kind is unsupported'')) (\<lambda>_.
     case minimum of
       JInt n \<Rightarrow> bindE (guardE (\<not> (1 \<le> n \<and> n \<le> 64))
                   (ValueError ''source_check minimum must be an integer from 1 to 64'')) (\<lambda>_.
                 Inr \<lparr>sc_kind = str_of kind, sc_minimum = n\<rparr>)
     | _ \<Rightarrow> Inl (ValueError ''source_check minimum must be an integer from 1 to 64''))"

definition source_check_to_dict :: "source_check \<Rightarrow> json" where
  "source_check_to_dict c = JObj [(''kind'', JStr (sc_kind c)), (''minimum'', JInt (sc_minimum c))]"

definition source_check_from_dict :: "json \<Rightarrow> source_check result" where
  "source_check_from_dict value =
     (case value of
        JObj items \<Rightarrow>
          if fst ` set items = {''kind'', ''minimum''}
          then source_check_init (getn items ''kind'') (getn items ''minimum'')
          else Inl (ValueError ''source_check must contain exactly kind and minimum'')
      | _ \<Rightarrow> Inl (ValueError ''source_check must contain exactly kind and minimum''))"

record constraint_spec =
  co_id :: string
  co_description :: string
  co_source :: string
  co_verification :: string
  co_result_fields :: "string list"
  co_scope :: "string option"
  co_check :: "source_check option"

definition provenance_values :: "string list" where
  "provenance_values = [''user_confirmed'', ''data_observed'', ''explicit_assumption'']"

definition verification_values :: "string list" where
  "verification_values = [''independent'', ''partial'', ''solver'']"

definition scope_values :: "string list" where "scope_values = [''output'', ''source'', ''execution'']"

definition constraint_init ::
  "string \<Rightarrow> string \<Rightarrow> json \<Rightarrow> json \<Rightarrow> string list \<Rightarrow> json \<Rightarrow> source_check option \<Rightarrow> constraint_spec result" where
  "constraint_init cid description source verification result_fields scope check =
     bindE (safe_segment (JStr cid) ''constraint id'') (\<lambda>_.
     bindE (alg_text (JStr description) ''constraint description'' True 8000) (\<lambda>_.
     bindE (member_of source provenance_values (ValueError ''constraint source is unsupported'')) (\<lambda>_.
     bindE (member_of verification verification_values
              (ValueError ''constraint verification is unsupported'')) (\<lambda>_.
     bindE (guardE (scope \<noteq> JNull \<and> scope \<notin> set (map JStr scope_values))
              (ValueError ''constraint verification_scope is unsupported'')) (\<lambda>_.
     bindE (case check of
              None \<Rightarrow> Inr None
            | Some c \<Rightarrow>
                bindE (guardE (scope \<noteq> JStr ''source'')
                         (ValueError ''source_check requires source verification_scope'')) (\<lambda>_.
                bindE (source_check_from_dict (source_check_to_dict c)) (\<lambda>c'. Inr (Some c')))) (\<lambda>check'.
     bindE (guardE (ALG_ITEMS < length result_fields) (ValueError ''constraint result fields are too many'')) (\<lambda>_.
     bindE (mapE (\<lambda>f. safe_segment (JStr f) ''constraint result field'') result_fields) (\<lambda>_.
     Inr \<lparr>co_id = cid, co_description = description, co_source = str_of source,
          co_verification = str_of verification, co_result_fields = result_fields,
          co_scope = (if scope = JNull then None else Some (str_of scope)), co_check = check'\<rparr>))))))))"

definition constraint_to_dict :: "constraint_spec \<Rightarrow> json" where
  "constraint_to_dict c = JObj ([(''id'', JStr (co_id c)), (''description'', JStr (co_description c)),
       (''source'', JStr (co_source c)), (''verification'', JStr (co_verification c)),
       (''result_fields'', JArr (map JStr (co_result_fields c)))]
     @ (case co_scope c of None \<Rightarrow> [] | Some s \<Rightarrow> [(''verification_scope'', JStr s)])
     @ (case co_check c of None \<Rightarrow> [] | Some k \<Rightarrow> [(''source_check'', source_check_to_dict k)]))"

text \<open>A JSON array of strings.\<close>

definition string_array :: "json \<Rightarrow> string list option" where
  "string_array v = (case v of
       JArr vs \<Rightarrow> if \<exists>x\<in>set vs. case x of JStr _ \<Rightarrow> False | _ \<Rightarrow> True then None else Some (map str_of vs)
     | _ \<Rightarrow> None)"

definition constraint_from_dict :: "json \<Rightarrow> constraint_spec result" where
  "constraint_from_dict value =
     (case value of
        JObj items \<Rightarrow>
          bindE (guardE (map_of items ''verification_scope'' = Some JNull)
                   (ValueError ''constraint verification_scope must not be null'')) (\<lambda>_.
          case string_array (jget_default items ''result_fields'' (JArr [])) of
            None \<Rightarrow> Inl (TypeError ''constraint result_fields must be a string array'')
          | Some result_fields \<Rightarrow>
              bindE (safe_segment (getn items ''id'') ''constraint id'') (\<lambda>cid.
              bindE (alg_text (getn items ''description'') ''constraint description'' True 8000) (\<lambda>description.
              bindE (case map_of items ''source_check'' of None \<Rightarrow> Inr None
                     | Some v \<Rightarrow> bindE (source_check_from_dict v) (\<lambda>c. Inr (Some c))) (\<lambda>check.
              constraint_init cid description (getn items ''source'') (getn items ''verification'') result_fields
                (getn items ''verification_scope'') check))))
      | _ \<Rightarrow> Inl (TypeError ''constraint must be an object''))"

section \<open>Evolution and outputs\<close>

record evolution_spec =
  es_strategy :: string
  es_max_rounds :: int
  es_stagnation :: int

definition evolution_strategies :: "string list" where
  "evolution_strategies = [''population'', ''openevolve'', ''loop'']"

definition bounded_round :: "json \<Rightarrow> int \<Rightarrow> string \<Rightarrow> int result" where
  "bounded_round v maximum name =
     (case v of JInt n \<Rightarrow> if 1 \<le> n \<and> n \<le> maximum then Inr n
                          else Inl (ValueError (name @ '' must be a positive bounded integer''))
      | _ \<Rightarrow> Inl (ValueError (name @ '' must be a positive bounded integer'')))"

definition evolution_init :: "json \<Rightarrow> json \<Rightarrow> json \<Rightarrow> evolution_spec result" where
  "evolution_init strategy max_rounds stagnation_rounds =
     bindE (member_of strategy evolution_strategies
              (ValueError ''evolution strategy must be loop, population, or openevolve'')) (\<lambda>_.
     bindE (bounded_round max_rounds 10000 ''max_rounds'') (\<lambda>m.
     bindE (bounded_round stagnation_rounds 1000 ''stagnation_rounds'') (\<lambda>n.
     Inr \<lparr>es_strategy = str_of strategy, es_max_rounds = m, es_stagnation = n\<rparr>)))"

definition evolution_to_dict :: "evolution_spec \<Rightarrow> json" where
  "evolution_to_dict e = JObj [(''strategy'', JStr (es_strategy e)), (''max_rounds'', JInt (es_max_rounds e)),
     (''stagnation_rounds'', JInt (es_stagnation e))]"

definition evolution_from_dict :: "json \<Rightarrow> evolution_spec result" where
  "evolution_from_dict value =
     (case value of
        JNull \<Rightarrow> evolution_init (JStr ''population'') (JInt 5) (JInt 3)
      | JObj items \<Rightarrow> evolution_init (jget_default items ''strategy'' (JStr ''population''))
          (jget_default items ''max_rounds'' (JInt 5)) (jget_default items ''stagnation_rounds'' (JInt 3))
      | _ \<Rightarrow> Inl (TypeError ''evolution must be an object''))"

record output_spec =
  ou_path :: string
  ou_format :: string
  ou_fields :: "string list"
  ou_required :: bool
  ou_description :: string

definition output_formats :: "string list" where "output_formats = [''json'', ''jsonl'', ''csv'', ''text'']"

definition output_init :: "string \<Rightarrow> json \<Rightarrow> string list \<Rightarrow> json \<Rightarrow> string \<Rightarrow> output_spec result" where
  "output_init path0 format0 names required description0 =
     bindE (relative_path (JStr path0) ''output path'') (\<lambda>path.
     bindE (guardE (\<not> starts_with ''output/'' path \<or> path = ''output/'')
              (ValueError ''output path must be below the output/ directory'')) (\<lambda>_.
     bindE (alg_text format0 ''output format'' True 32) (\<lambda>fmt.
     let output_format = lower fmt in
     bindE (guardE (output_format \<notin> set output_formats)
              (ValueError ''output format must be json, jsonl, csv, or text'')) (\<lambda>_.
     case required of
       JBool req \<Rightarrow>
         bindE (guardE (MAX_OUTPUT_FIELDS < length names) (ValueError ''output fields are too many'')) (\<lambda>_.
         bindE (mapE (\<lambda>f. safe_segment (JStr f) ''output field'') names) (\<lambda>normalized.
         bindE (guardE (\<not> distinct normalized) (ValueError ''output fields must be unique'')) (\<lambda>_.
         bindE (guardE (output_format = ''text'' \<and> normalized \<noteq> [])
                  (ValueError ''text outputs cannot declare fields'')) (\<lambda>_.
         bindE (alg_text (JStr description0) ''output description'' False 512) (\<lambda>description.
         Inr \<lparr>ou_path = path, ou_format = output_format, ou_fields = normalized, ou_required = req,
              ou_description = description\<rparr>)))))
     | _ \<Rightarrow> Inl (TypeError ''output required must be a boolean'')))))"

definition output_to_dict :: "output_spec \<Rightarrow> json" where
  "output_to_dict u = JObj ([(''path'', JStr (ou_path u)), (''format'', JStr (ou_format u)),
       (''fields'', JArr (map JStr (ou_fields u))), (''required'', JBool (ou_required u))]
     @ (if ou_description u = [] then [] else [(''description'', JStr (ou_description u))]))"

definition output_from_dict :: "json \<Rightarrow> output_spec result" where
  "output_from_dict value =
     (case value of
        JObj items \<Rightarrow>
          (let unknown = filter (\<lambda>k. k \<notin> {''path'', ''format'', ''fields'', ''required'', ''description''})
                           (remdups (map fst items)) in
           bindE (guardE (unknown \<noteq> []) (ValueError (''output contains unknown fields: ''
                    @ join_with '', '' (sort unknown)))) (\<lambda>_.
           case string_array (jget_default items ''fields'' (JArr [])) of
             None \<Rightarrow> Inl (TypeError ''output fields must be a string array'')
           | Some names \<Rightarrow>
               (case jget_default items ''description'' (JStr []) of
                  JStr description \<Rightarrow>
                    bindE (relative_path (getn items ''path'') ''output path'') (\<lambda>path.
                    output_init path (getn items ''format'') names (jget_default items ''required'' (JBool True))
                      description)
                | _ \<Rightarrow> Inl (TypeError ''output description must be a string''))))
      | _ \<Rightarrow> Inl (TypeError ''output must be an object''))"

section \<open>The problem contract\<close>

record problem_contract =
  pc_schema_version :: string
  pc_problem_id :: string
  pc_problem_type :: string
  pc_statement :: string
  pc_inputs :: "input_spec list"
  pc_decision_variables :: "string list"
  pc_objective :: objective_spec
  pc_hard :: "constraint_spec list"
  pc_soft :: "constraint_spec list"
  pc_success_criteria :: "string list"
  pc_deliverables :: "string list"
  pc_assumptions :: "string list"
  pc_evolution :: evolution_spec
  pc_outputs :: "output_spec list"

definition strs_json :: "string list \<Rightarrow> json" where "strs_json xs = JArr (map JStr xs)"

definition problem_to_dict :: "problem_contract \<Rightarrow> json" where
  "problem_to_dict c = JObj ([(''schema_version'', JStr (pc_schema_version c)),
       (''problem_id'', JStr (pc_problem_id c)), (''problem_type'', JStr (pc_problem_type c)),
       (''statement'', JStr (pc_statement c)), (''inputs'', JArr (map input_to_dict (pc_inputs c))),
       (''decision_variables'', strs_json (pc_decision_variables c)),
       (''objective'', objective_to_dict (pc_objective c)),
       (''hard_constraints'', JArr (map constraint_to_dict (pc_hard c))),
       (''soft_constraints'', JArr (map constraint_to_dict (pc_soft c))),
       (''success_criteria'', strs_json (pc_success_criteria c)),
       (''deliverables'', strs_json (pc_deliverables c)), (''assumptions'', strs_json (pc_assumptions c)),
       (''evolution'', evolution_to_dict (pc_evolution c))]
     @ (if pc_outputs c = [] then [] else [(''outputs'', JArr (map output_to_dict (pc_outputs c)))]))"

definition problem_init :: "problem_contract \<Rightarrow> problem_contract result" where
  "problem_init c =
     bindE (alg_text (JStr (pc_schema_version c)) ''contract schema version'' True 64) (\<lambda>_.
     bindE (safe_segment (JStr (pc_problem_id c)) ''problem id'') (\<lambda>_.
     bindE (guardE (pc_problem_type c \<notin> set problem_types) (ValueError ''problem type is unsupported'')) (\<lambda>_.
     bindE (alg_text (JStr (pc_statement c)) ''problem statement'' True 8000) (\<lambda>_.
     bindE (guardE (pc_inputs c = [] \<or> ALG_ITEMS < length (pc_inputs c))
              (ValueError ''contract inputs must be a bounded non-empty array'')) (\<lambda>_.
     bindE (guardE (\<not> distinct (map in_path (pc_inputs c))) (ValueError ''input paths must be unique'')) (\<lambda>_.
     bindE (guardE (pc_decision_variables c = [] \<or> ALG_ITEMS < length (pc_decision_variables c))
              (ValueError ''decision_variables must be a bounded non-empty array'')) (\<lambda>_.
     bindE (alg_strings (strs_json (pc_decision_variables c)) ''decision_variables'') (\<lambda>_.
     bindE (guardE (ALG_ITEMS < length (pc_hard c @ pc_soft c))
              (ValueError ''contract has too many constraints'')) (\<lambda>_.
     bindE (guardE (\<not> distinct (map co_id (pc_hard c @ pc_soft c)))
              (ValueError ''constraint IDs must be unique'')) (\<lambda>_.
     bindE (alg_strings (strs_json (pc_success_criteria c)) ''success_criteria'') (\<lambda>_.
     bindE (alg_strings (strs_json (pc_deliverables c)) ''deliverables'') (\<lambda>_.
     bindE (guardE (pc_success_criteria c = [] \<or> pc_deliverables c = [])
              (ValueError ''success_criteria and deliverables must not be empty'')) (\<lambda>_.
     bindE (alg_strings (strs_json (pc_assumptions c)) ''assumptions'') (\<lambda>_.
     bindE (guardE (MAX_OUTPUTS < length (pc_outputs c))
              (ValueError ''outputs must be a bounded OutputSpec array'')) (\<lambda>_.
     bindE (guardE (\<not> distinct (map ou_path (pc_outputs c))) (ValueError ''output paths must be unique'')) (\<lambda>_.
     bindE (json_size (problem_to_dict c) ''algorithm problem contract'' ALG_CONTRACT_BYTES) (\<lambda>_.
     Inr c)))))))))))))))))"

text \<open>The four array arguments, checked before anything else.\<close>

definition array_items :: "(string \<times> json) list \<Rightarrow> string \<Rightarrow> json \<Rightarrow> py_error \<Rightarrow> json list result" where
  "array_items items key dflt err = (case jget_default items key dflt of JArr vs \<Rightarrow> Inr vs | _ \<Rightarrow> Inl err)"

definition problem_from_dict :: "json \<Rightarrow> problem_contract result" where
  "problem_from_dict value =
     (case value of
        JObj items \<Rightarrow>
          bindE (array_items items ''inputs'' JNull (TypeError ''algorithm_problem inputs must be an array'')) (\<lambda>raw_inputs.
          bindE (array_items items ''hard_constraints'' (JArr []) (TypeError ''constraints must be arrays'')) (\<lambda>raw_hard.
          bindE (array_items items ''soft_constraints'' (JArr []) (TypeError ''constraints must be arrays'')) (\<lambda>raw_soft.
          bindE (array_items items ''outputs'' (JArr []) (TypeError ''outputs must be an array'')) (\<lambda>raw_outputs.
          bindE (alg_text (jget_default items ''schema_version'' (JStr ''1'')) ''contract schema version'' True 64) (\<lambda>schema.
          bindE (safe_segment (getn items ''problem_id'') ''problem id'') (\<lambda>pid.
          bindE (alg_text (getn items ''problem_type'') ''problem type'' True 64) (\<lambda>ptype.
          bindE (alg_text (getn items ''statement'') ''problem statement'' True 8000) (\<lambda>statement.
          bindE (mapE input_from_dict raw_inputs) (\<lambda>inputs.
          bindE (alg_strings (getn items ''decision_variables'') ''decision_variables'') (\<lambda>variables.
          bindE (objective_from_dict (getn items ''objective'')) (\<lambda>objective.
          bindE (mapE constraint_from_dict raw_hard) (\<lambda>hard.
          bindE (mapE constraint_from_dict raw_soft) (\<lambda>soft.
          bindE (alg_strings (getn items ''success_criteria'') ''success_criteria'') (\<lambda>criteria.
          bindE (alg_strings (getn items ''deliverables'') ''deliverables'') (\<lambda>deliverables.
          bindE (alg_strings (getn items ''assumptions'') ''assumptions'') (\<lambda>assumptions.
          bindE (evolution_from_dict (getn items ''evolution'')) (\<lambda>evolution.
          bindE (mapE output_from_dict raw_outputs) (\<lambda>outputs.
          problem_init \<lparr>pc_schema_version = schema, pc_problem_id = pid, pc_problem_type = ptype,
            pc_statement = statement, pc_inputs = inputs, pc_decision_variables = variables,
            pc_objective = objective, pc_hard = hard, pc_soft = soft, pc_success_criteria = criteria,
            pc_deliverables = deliverables, pc_assumptions = assumptions, pc_evolution = evolution,
            pc_outputs = outputs\<rparr>))))))))))))))))))
      | _ \<Rightarrow> Inl (TypeError ''algorithm_problem must be an object''))"

text \<open>What \<^verbatim>\<open>PlanDocument.__post_init__\<close> stores: the contract read and rendered again.\<close>

definition normal_problem :: "json \<Rightarrow> json result" where
  "normal_problem value = bindE (problem_from_dict value) (\<lambda>c. Inr (problem_to_dict c))"

section \<open>Evaluation reports\<close>

record evaluation_report =
  er_schema_version :: string
  er_evaluator_id :: string
  er_validity :: json
  er_score :: json
  er_detailed :: json
  er_errors :: "json list"
  er_quality :: json

definition report_to_dict :: "evaluation_report \<Rightarrow> json" where
  "report_to_dict r = JObj [(''schema_version'', JStr (er_schema_version r)),
     (''evaluator_id'', JStr (er_evaluator_id r)), (''validity'', er_validity r), (''quality'', er_quality r),
     (''combined_score'', er_score r), (''detailed_scores'', er_detailed r), (''error_info'', JArr (er_errors r))]"

definition check_detail :: "string \<times> json \<Rightarrow> unit result" where
  "check_detail = (\<lambda>(name, detail).
     bindE (safe_segment (JStr name) ''detailed score name'') (\<lambda>_.
     case detail of
       JObj d \<Rightarrow>
         if fst ` set d \<noteq> {''value'', ''direction''}
         then Inl (ValueError ''each detailed score must contain value and direction'')
         else
           bindE (bad_number (getn d ''value'') True) (\<lambda>bad.
           bindE (guardE bad (ValueError ''detailed score value must be finite'')) (\<lambda>_.
           member_of (getn d ''direction'') directions
             (ValueError ''detailed score direction must be maximize or minimize'')))
     | _ \<Rightarrow> Inl (ValueError ''each detailed score must contain value and direction'')))"

definition check_error_entry :: "json \<Rightarrow> unit result" where
  "check_error_entry item =
     (case item of
        JObj d \<Rightarrow>
          if fst ` set d \<noteq> {''code'', ''message''}
          then Inl (ValueError ''each error_info entry must contain code and message'')
          else bindE (safe_segment (getn d ''code'') ''error code'') (\<lambda>_.
               bindE (alg_text (getn d ''message'') ''error message'' True 512) (\<lambda>_. Inr ()))
      | _ \<Rightarrow> Inl (ValueError ''each error_info entry must contain code and message''))"

definition is_zero :: "json \<Rightarrow> bool" where
  "is_zero v = (hash_key v = hash_key (JInt 0))"

definition report_init :: "evaluation_report \<Rightarrow> evaluation_report result" where
  "report_init r =
     bindE (alg_text (JStr (er_schema_version r)) ''report schema version'' True 64) (\<lambda>_.
     bindE (safe_segment (JStr (er_evaluator_id r)) ''evaluator id'') (\<lambda>_.
     bindE (guardE (hash_key (er_validity r) = None) (TypeError ''unhashable type'')) (\<lambda>_.
     bindE (guardE (hash_key (er_validity r) \<notin> {hash_key (JInt 0), hash_key (JInt 1)}
                    \<or> (case er_validity r of JBool _ \<Rightarrow> True | _ \<Rightarrow> False))
              (ValueError ''validity must be 0 or 1'')) (\<lambda>_.
     bindE (bad_number (er_score r) False) (\<lambda>bad.
     bindE (guardE bad (ValueError ''combined_score must be a finite non-negative number'')) (\<lambda>_.
     bindE (guardE (is_zero (er_validity r) \<and> \<not> is_zero (er_score r))
              (ValueError ''combined_score must be zero when validity is zero'')) (\<lambda>_.
     bindE (if er_quality r = JNull then Inr False else bad_number (er_quality r) False) (\<lambda>bad_quality.
     bindE (guardE bad_quality (ValueError ''quality must be finite and non-negative'')) (\<lambda>_.
     case er_detailed r of
       JObj details \<Rightarrow>
         bindE (guardE (MAX_METRICS < length details) (ValueError ''detailed_scores must be a bounded object'')) (\<lambda>_.
         bindE (mapE check_detail details) (\<lambda>_.
         bindE (guardE (MAX_ERROR_INFO < length (er_errors r)) (ValueError ''error_info is too large'')) (\<lambda>_.
         bindE (guardE (is_zero (er_validity r) \<and> er_errors r = [])
                  (ValueError ''invalid report requires error_info'')) (\<lambda>_.
         bindE (mapE check_error_entry (er_errors r)) (\<lambda>_.
         bindE (json_size (report_to_dict r) ''evaluation report'' MAX_REPORT_BYTES) (\<lambda>_.
         Inr r))))))
     | _ \<Rightarrow> Inl (ValueError ''detailed_scores must be a bounded object''))))))))))"

definition report_from_dict :: "json \<Rightarrow> evaluation_report result" where
  "report_from_dict value =
     (case value of
        JObj items \<Rightarrow>
          bindE (array_items items ''error_info'' (JArr []) (TypeError ''error_info must be an array'')) (\<lambda>errs.
          bindE (alg_text (jget_default items ''schema_version'' (JStr ''1'')) ''report schema version'' True 64) (\<lambda>schema.
          bindE (safe_segment (getn items ''evaluator_id'') ''evaluator id'') (\<lambda>eid.
          report_init \<lparr>er_schema_version = schema, er_evaluator_id = eid, er_validity = getn items ''validity'',
            er_score = getn items ''combined_score'', er_detailed = getn items ''detailed_scores'',
            er_errors = errs, er_quality = getn items ''quality''\<rparr>)))
      | _ \<Rightarrow> Inl (TypeError ''evaluation report must be an object''))"

end
