(* ===== verification/AlgorithmCodec.thy ===== *)
theory AlgorithmCodec imports Algorithm begin

text \<open>
  Reading what was written: every record of theory Algorithm that \<^verbatim>\<open>from_dict\<close> accepts survives
  \<^verbatim>\<open>to_dict\<close> followed by \<^verbatim>\<open>from_dict\<close>.  The locale \<open>codec\<close> is that contract; a codec for a record
  rests on the codecs of its parts.
\<close>

section \<open>Codecs\<close>

locale codec =
  fixes decode :: "json \<Rightarrow> 'a result" and encode :: "'a \<Rightarrow> json"
  assumes reload: "decode v = Inr x \<Longrightarrow> decode (encode x) = Inr x"
begin

lemma reload_list: "mapE decode vs = Inr xs \<Longrightarrow> mapE decode (map encode xs) = Inr xs"
  by (induction vs arbitrary: xs) (auto simp: bindE_Inr_iff reload)

text \<open>Decoding and encoding again is the identity on what it produces.\<close>

lemma normal_idem:
  assumes "bindE (decode v) (\<lambda>x. Inr (encode x)) = Inr w"
  shows "bindE (decode w) (\<lambda>x. Inr (encode x)) = Inr w"
  using assms reload by (auto simp: bindE_Inr_iff)

end

section \<open>Text\<close>

lemma strip_Nil [simp]: "strip [] = []"
  by (simp add: strip_def)

lemma alg_text_reload: "alg_text v f required limit = Inr t \<Longrightarrow> alg_text (JStr t) f required limit = Inr t"
  by (auto simp: alg_text_def Let_def split: json.splits if_splits)

lemma alg_text_JStr: "alg_text (JStr s) f required limit = Inr t \<Longrightarrow> t = strip s"
  by (auto simp: alg_text_def Let_def split: if_splits)

lemma safe_segment_reload: "safe_segment v f = Inr t \<Longrightarrow> safe_segment (JStr t) f = Inr t"
  by (auto simp: safe_segment_def bindE_Inr_iff guardE_Inr_iff dest: alg_text_reload)

lemma relative_path_reload: "relative_path v f = Inr t \<Longrightarrow> relative_path (JStr t) f = Inr t"
  by (auto simp: relative_path_def bindE_Inr_iff guardE_Inr_iff dest: alg_text_reload)

interpretation text_codec: codec "\<lambda>v. alg_text v f required limit" JStr for f required limit
  by unfold_locales (rule alg_text_reload)

interpretation segment_codec: codec "\<lambda>v. safe_segment v f" JStr for f
  by unfold_locales (rule safe_segment_reload)

lemma alg_strings_reload: "alg_strings v f = Inr xs \<Longrightarrow> alg_strings (strs_json xs) f = Inr xs"
  by (auto simp: alg_strings_def strs_json_def split: json.splits if_splits
      dest: text_codec.reload_list mapE_length)

section \<open>Inputs\<close>

definition normal_field :: "string \<times> string \<Rightarrow> bool" where
  "normal_field = (\<lambda>(k, t). safe_segment (JStr k) ''input field name'' = Inr k
     \<and> alg_text (JStr t) (''input field '' @ k) True 512 = Inr t)"

lemma put_field_set: "set (put_field k v d) \<subseteq> insert (k, v) (set d)"
  by (induction k v d rule: put_field.induct) auto

lemma put_field_keys: "fst ` set (put_field k v d) = insert k (fst ` set d)"
  by (induction k v d rule: put_field.induct) auto

lemma put_field_distinct: "distinct (map fst d) \<Longrightarrow> distinct (map fst (put_field k v d))"
proof (induction k v d rule: put_field.induct)
  case (2 k v k' v' d)
  then show ?case using put_field_keys [of k v d] by auto
qed simp

lemma put_field_length: "length (put_field k v d) \<le> Suc (length d)"
  by (induction k v d rule: put_field.induct) auto

lemma put_field_new: "k \<notin> fst ` set d \<Longrightarrow> put_field k v d = d @ [(k, v)]"
  by (induction k v d rule: put_field.induct) auto

lemma input_fields_result:
  assumes "input_fields raw = Inr d"
  shows "distinct (map fst d) \<and> (\<forall>x\<in>set d. normal_field x)"
  using assms unfolding input_fields_def
proof (rule foldE_invariant [where P = "\<lambda>d. distinct (map fst d) \<and> (\<forall>x\<in>set d. normal_field x)"])
  fix x u v
  assume u: "distinct (map fst u) \<and> (\<forall>x\<in>set u. normal_field x)"
    and "(\<lambda>(name, description) d.
        bindE (safe_segment (JStr name) ''input field name'') (\<lambda>f.
        bindE (alg_text (JStr description) (''input field '' @ f) True 512) (\<lambda>t. Inr (put_field f t d)))) x u = Inr v"
  then obtain n ds f t where "safe_segment (JStr n) ''input field name'' = Inr f"
    "alg_text (JStr ds) (''input field '' @ f) True 512 = Inr t" "v = put_field f t u"
    by (cases x) (auto simp: bindE_Inr_iff)
  then show "distinct (map fst v) \<and> (\<forall>x\<in>set v. normal_field x)"
    using u put_field_set [of f t u] put_field_distinct [of u f t] safe_segment_reload alg_text_reload
    by (fastforce simp: normal_field_def)
qed simp

lemma foldE_length:
  assumes "foldE f xs d = Inr e" "\<And>x u v. f x u = Inr v \<Longrightarrow> length v \<le> Suc (length u)"
  shows "length e \<le> length d + length xs"
  using assms(1)
proof (induction xs arbitrary: d)
  case (Cons x xs)
  then obtain u where "f x d = Inr u" "foldE f xs u = Inr e" by (auto simp: bindE_Inr_iff)
  with Cons.IH [of u] assms(2) [of x d u] show ?case by simp
qed simp

lemma input_fields_length: "input_fields raw = Inr d \<Longrightarrow> length d \<le> length raw"
  unfolding input_fields_def
  by (drule foldE_length) (auto simp: bindE_Inr_iff put_field_length)

lemma input_fields_nonempty: "input_fields raw = Inr d \<Longrightarrow> raw \<noteq> [] \<Longrightarrow> d \<noteq> []"
proof -
  have keep: "foldE (\<lambda>(name, description) d.
        bindE (safe_segment (JStr name) ''input field name'') (\<lambda>f.
        bindE (alg_text (JStr description) (''input field '' @ f) True 512) (\<lambda>t. Inr (put_field f t d)))) xs u = Inr w
      \<Longrightarrow> u \<noteq> [] \<Longrightarrow> w \<noteq> []" for xs u w
  proof (erule foldE_invariant [where P = "\<lambda>d. d \<noteq> []"])
    fix x u v
    assume "(\<lambda>(name, description) d.
        bindE (safe_segment (JStr name) ''input field name'') (\<lambda>f.
        bindE (alg_text (JStr description) (''input field '' @ f) True 512) (\<lambda>t. Inr (put_field f t d)))) x u = Inr v"
    then obtain f t where "v = put_field f t u" by (cases x) (auto simp: bindE_Inr_iff)
    then show "v \<noteq> []" using put_field_keys [of f t u] by auto
  qed
  assume "input_fields raw = Inr d" "raw \<noteq> []"
  then obtain n t rest f ds where "foldE (\<lambda>(name, description) d.
        bindE (safe_segment (JStr name) ''input field name'') (\<lambda>f.
        bindE (alg_text (JStr description) (''input field '' @ f) True 512) (\<lambda>t. Inr (put_field f t d)))) rest (put_field f ds []) = Inr d"
    by (cases raw) (auto simp: input_fields_def bindE_Inr_iff)
  then show "d \<noteq> []" by (rule keep) simp
qed

lemma input_fields_normal:
  assumes "distinct (map fst d)" "\<forall>x\<in>set d. normal_field x" shows "input_fields d = Inr d"
proof -
  have "foldE (\<lambda>(name, description) d.
        bindE (safe_segment (JStr name) ''input field name'') (\<lambda>f.
        bindE (alg_text (JStr description) (''input field '' @ f) True 512) (\<lambda>t. Inr (put_field f t d)))) d u = Inr (u @ d)"
    if "distinct (map fst (u @ d))" for u
    using that assms(2)
  proof (induction d arbitrary: u)
    case (Cons x d)
    then show ?case
      using Cons.IH [of "u @ [x]"] by (cases x) (auto simp: normal_field_def put_field_new)
  qed simp
  from this [of "[]"] assms(1) show ?thesis by (simp add: input_fields_def)
qed

lemma string_fields_encode: "string_fields (JObj (map (\<lambda>(k, v). (k, JStr v)) d)) = Some d"
  by (auto simp: string_fields_def str_of_def comp_def case_prod_unfold)

lemma input_init_reload:
  assumes "input_init path fmt raw key = Inr i" and "alg_text (JStr fmt) ''input format'' True 128 = Inr fmt"
  shows "input_init (in_path i) (in_format i) (in_fields i) (in_key i) = Inr i"
proof -
  have fmt: "strip fmt = fmt" using alg_text_JStr [OF assms(2)] by simp
  obtain nrm p k where
    p: "relative_path (JStr path) ''input path'' = Inr p" and raw: "raw \<noteq> []" "length raw \<le> MAX_FIELDS"
    and n: "input_fields raw = Inr nrm" and i: "i = \<lparr>in_path = p, in_format = fmt, in_fields = nrm, in_key = k\<rparr>"
    and k: "(case key of
              None \<Rightarrow> Inr None
            | Some k \<Rightarrow>
                bindE (safe_segment (JStr k) ''input key'') (\<lambda>s.
                bindE (guardE (s \<notin> set (map fst nrm))
                         (ValueError ''input key must name a declared field'')) (\<lambda>_. Inr (Some s)))) = Inr k"
    using assms(1) fmt unfolding input_init_def
    by (simp add: bindE_Inr_iff bind_guardE not_less split: if_splits) blast
  have "nrm \<noteq> []" "length nrm \<le> MAX_FIELDS" and nn: "input_fields nrm = Inr nrm"
    using input_fields_nonempty [OF n raw(1)] input_fields_length [OF n] raw(2) input_fields_result [OF n]
    by (auto intro: input_fields_normal)
  moreover have "k = None \<or> (\<exists>s. k = Some s \<and> safe_segment (JStr s) ''input key'' = Inr s \<and> s \<in> set (map fst nrm))"
    using k by (auto simp: bindE_Inr_iff bind_guardE split: option.splits if_splits dest: safe_segment_reload)
  ultimately show ?thesis
    using relative_path_reload [OF p] assms(2) fmt unfolding input_init_def i
    by (elim disjE exE conjE) (simp_all add: bind_guardE)
qed

lemma input_reload:
  assumes "input_from_dict v = Inr i" shows "input_from_dict (input_to_dict i) = Inr i"
proof -
  from assms obtain items raw key path fmt where
    p: "relative_path (getn items ''path'') ''input path'' = Inr path"
    and f: "alg_text (getn items ''format'') ''input format'' True 128 = Inr fmt"
    and i: "input_init path fmt raw key = Inr i"
    unfolding input_from_dict_def by (auto simp: bindE_Inr_iff split: json.splits option.splits)
  note fmt = alg_text_reload [OF f]
  from i have "relative_path (JStr (in_path i)) ''input path'' = Inr (in_path i)" "in_format i = fmt"
    using alg_text_JStr [OF fmt] unfolding input_init_def
    by (auto simp: bindE_Inr_iff guardE_Inr_iff dest: relative_path_reload)
  with input_init_reload [OF i fmt] fmt show ?thesis
    by (cases "in_key i")
      (simp_all add: input_from_dict_def input_to_dict_def jget_default_def string_fields_encode opt_json_def)
qed

interpretation input_codec: codec input_from_dict input_to_dict
  by unfold_locales (rule input_reload)

section \<open>Objectives\<close>

lemma member_of_Inr: "member_of v names e = Inr u \<longleftrightarrow> (\<exists>s\<in>set names. v = JStr s)"
  by (auto simp: member_of_def guardE_Inr_iff)

lemma str_of_JStr [simp]: "str_of (JStr s) = s"
  by (simp add: str_of_def)

lemma metric_reload:
  assumes "metric_from_dict v = Inr m" shows "metric_from_dict (metric_to_dict m) = Inr m"
proof -
  from assms obtain items name where
    n: "alg_text (getn items ''name'') ''metric name'' True 256 = Inr name"
    and m: "metric_init name (getn items ''direction'') (jget_default items ''weight'' (JInt 0)) = Inr m"
    unfolding metric_from_dict_def by (auto simp: bindE_Inr_iff split: json.splits)
  from m obtain d w where
    d: "d \<in> set directions" and w: "bad_number w False = Inr False"
    and eq: "m = \<lparr>me_name = name, me_direction = d, me_weight = w\<rparr>"
    unfolding metric_init_def by (auto simp: bindE_Inr_iff guardE_Inr_iff member_of_Inr)
  from d have dd: "member_of (JStr d) directions e = Inr ()" for e by (simp add: member_of_Inr)
  show ?thesis
    using alg_text_reload [OF n] w dd
    by (simp add: metric_from_dict_def metric_to_dict_def metric_init_def eq jget_default_def)
qed

interpretation metric_codec: codec metric_from_dict metric_to_dict
  by unfold_locales (rule metric_reload)

lemma objective_reload:
  assumes "objective_from_dict v = Inr x" shows "objective_from_dict (objective_to_dict x) = Inr x"
proof -
  from assms obtain items raw name ms where
    n: "alg_text (getn items ''name'') ''objective name'' True 512 = Inr name"
    and ms: "mapE metric_from_dict raw = Inr ms"
    and x: "objective_init name (getn items ''direction'') ms = Inr x"
    unfolding objective_from_dict_def by (auto simp: bindE_Inr_iff split: json.splits)
  from x obtain d where
    d: "d \<in> set directions" and eq: "x = \<lparr>ob_name = name, ob_direction = d, ob_metrics = ms\<rparr>"
    and g: "length ms \<le> MAX_METRICS" "distinct (map me_name ms)"
      "(if ms = [] then Inr True else positive_sum 0 (map me_weight ms)) = Inr True"
    unfolding objective_init_def
    by (simp add: bindE_Inr_iff bind_guardE member_of_Inr not_less split: if_split_asm) auto
  from d have dd: "member_of (JStr d) directions e = Inr ()" for e by (simp add: member_of_Inr)
  show ?thesis
  proof (cases "ms = []")
    case True
    with alg_text_reload [OF n] dd show ?thesis
      by (simp add: objective_from_dict_def objective_to_dict_def objective_init_def eq jget_default_def bind_guardE)
  next
    case False
    with alg_text_reload [OF n] dd g metric_codec.reload_list [OF ms] show ?thesis
      by (simp add: objective_from_dict_def objective_to_dict_def objective_init_def eq jget_default_def bind_guardE)
  qed
qed

interpretation objective_codec: codec objective_from_dict objective_to_dict
  by unfold_locales (rule objective_reload)

section \<open>Constraints, evolution, outputs\<close>

lemma source_check_reload:
  assumes "source_check_from_dict v = Inr c" shows "source_check_from_dict (source_check_to_dict c) = Inr c"
proof -
  from assms obtain items where c: "source_check_init (getn items ''kind'') (getn items ''minimum'') = Inr c"
    unfolding source_check_from_dict_def by (simp split: json.splits if_split_asm)
  then obtain n where "c = \<lparr>sc_kind = ''python_file_count'', sc_minimum = n\<rparr>" "1 \<le> n" "n \<le> 64"
    unfolding source_check_init_def by (auto simp: bind_guardE split: json.splits if_split_asm)
  then show ?thesis
    by (simp add: source_check_from_dict_def source_check_init_def source_check_to_dict_def jget_default_def
        bind_guardE insert_commute)
qed

interpretation source_check_codec: codec source_check_from_dict source_check_to_dict
  by unfold_locales (rule source_check_reload)

lemma string_array_encode: "string_array (JArr (map JStr xs)) = Some xs"
  by (auto simp: string_array_def comp_def)

lemma constraint_reload:
  assumes "constraint_from_dict v = Inr c" shows "constraint_from_dict (constraint_to_dict c) = Inr c"
proof -
  from assms obtain items rf where items: "v = JObj items"
    and rf0: "string_array (jget_default items ''result_fields'' (JArr [])) = Some rf"
    unfolding constraint_from_dict_def by (auto simp: bind_guardE split: json.splits option.splits if_split_asm)
  with assms obtain cid d check where
    id: "safe_segment (getn items ''id'') ''constraint id'' = Inr cid"
    and d: "alg_text (getn items ''description'') ''constraint description'' True 8000 = Inr d"
    and i: "constraint_init cid d (getn items ''source'') (getn items ''verification'') rf
              (getn items ''verification_scope'') check = Inr c"
    unfolding constraint_from_dict_def by (simp add: bindE_Inr_iff bind_guardE split: if_split_asm) blast
  from i obtain check' us src ver where
    c: "c = \<lparr>co_id = cid, co_description = d, co_source = src, co_verification = ver, co_result_fields = rf,
          co_scope = (if getn items ''verification_scope'' = JNull then None
                      else Some (str_of (getn items ''verification_scope''))), co_check = check'\<rparr>"
    and src: "src \<in> set provenance_values" and ver: "ver \<in> set verification_values"
    and scope: "getn items ''verification_scope'' = JNull
      \<or> getn items ''verification_scope'' \<in> set (map JStr scope_values)"
    and check: "(case check of None \<Rightarrow> Inr None
            | Some c \<Rightarrow>
                bindE (guardE (getn items ''verification_scope'' \<noteq> JStr ''source'')
                         (ValueError ''source_check requires source verification_scope'')) (\<lambda>_.
                bindE (source_check_from_dict (source_check_to_dict c)) (\<lambda>c'. Inr (Some c')))) = Inr check'"
    and rf: "length rf \<le> ALG_ITEMS" "mapE (\<lambda>f. safe_segment (JStr f) ''constraint result field'') rf = Inr us"
    unfolding constraint_init_def
    by (simp add: bindE_Inr_iff bind_guardE member_of_Inr not_less split: if_split_asm)
      (auto simp: member_of_Inr)
  from check have check': "check' = None \<or> (\<exists>k. check' = Some k \<and> getn items ''verification_scope'' = JStr ''source''
      \<and> source_check_from_dict (source_check_to_dict k) = Inr k)"
    by (auto simp: bindE_Inr_iff bind_guardE split: option.splits if_splits dest: source_check_reload)
  have m: "member_of (JStr src) provenance_values e = Inr ()" "member_of (JStr ver) verification_values e = Inr ()" for e
    using src ver by (simp_all add: member_of_Inr)
  note s = constraint_from_dict_def constraint_init_def constraint_to_dict_def jget_default_def bind_guardE
    string_array_encode
  note facts = m rf safe_segment_reload [OF id] alg_text_reload [OF d]
  from scope show ?thesis
  proof
    assume "getn items ''verification_scope'' = JNull"
    with check' facts show ?thesis by (auto simp: c s)
  next
    assume "getn items ''verification_scope'' \<in> set (map JStr scope_values)"
    then obtain x where "getn items ''verification_scope'' = JStr x" "x \<in> set scope_values" by auto
    with check' facts show ?thesis by (elim disjE exE conjE) (simp_all add: c s)
  qed
qed

interpretation constraint_codec: codec constraint_from_dict constraint_to_dict
  by unfold_locales (rule constraint_reload)

lemma evolution_reload:
  assumes "evolution_from_dict v = Inr e" shows "evolution_from_dict (evolution_to_dict e) = Inr e"
proof -
  have "evolution_from_dict (evolution_to_dict e) = Inr e" if "evolution_init st m n = Inr e" for st m n
    using that unfolding evolution_from_dict_def evolution_init_def evolution_to_dict_def bounded_round_def
    by (auto simp: bindE_Inr_iff member_of_Inr jget_default_def split: json.splits if_splits)
  with assms show ?thesis unfolding evolution_from_dict_def [of v] by (auto split: json.splits)
qed

interpretation evolution_codec: codec evolution_from_dict evolution_to_dict
  by unfold_locales (rule evolution_reload)

lemma lower_format: "lower fmt \<in> set output_formats \<Longrightarrow> alg_text (JStr (lower fmt)) f True 32 = Inr (lower fmt)"
proof -
  have "\<forall>s\<in>set output_formats. strip s = s \<and> s \<noteq> [] \<and> length s \<le> 32 \<and> \<not> secret_search s \<and> lower s = s"
    by code_simp
  then show "lower fmt \<in> set output_formats \<Longrightarrow> ?thesis" by (auto simp: alg_text_def)
qed

lemma lower_lower_format: "lower fmt \<in> set output_formats \<Longrightarrow> lower (lower fmt) = lower fmt"
proof -
  have "\<forall>s\<in>set output_formats. lower s = s" by code_simp
  then show "lower fmt \<in> set output_formats \<Longrightarrow> ?thesis" by blast
qed

lemma output_reload:
  assumes "output_from_dict v = Inr x" shows "output_from_dict (output_to_dict x) = Inr x"
proof -
  from assms obtain items names d path where
    p: "relative_path (getn items ''path'') ''output path'' = Inr path"
    and x: "output_init path (getn items ''format'') names (jget_default items ''required'' (JBool True)) d = Inr x"
    unfolding output_from_dict_def
    by (auto simp: Let_def bind_guardE bindE_Inr_iff split: json.splits option.splits if_split_asm)
  note pr = relative_path_reload [OF p]
  from x pr obtain req where "jget_default items ''required'' (JBool True) = JBool req"
    unfolding output_init_def
    by (cases "jget_default items ''required'' (JBool True)") (auto simp: Let_def bindE_Inr_iff guardE_Inr_iff)
  with x pr obtain fmt flds desc where
    f: "lower fmt \<in> set output_formats" and po: "starts_with ''output/'' path" "path \<noteq> ''output/''"
    and l: "length names \<le> MAX_OUTPUT_FIELDS"
    and n: "mapE (\<lambda>f. safe_segment (JStr f) ''output field'') names = Inr flds"
    and u: "distinct flds" "lower fmt = ''text'' \<longrightarrow> flds = []"
    and d: "alg_text (JStr d) ''output description'' False 512 = Inr desc"
    and eq: "x = \<lparr>ou_path = path, ou_format = lower fmt, ou_fields = flds, ou_required = req,
              ou_description = desc\<rparr>"
    unfolding output_init_def
    by (simp add: Let_def bindE_Inr_iff guardE_Inr_iff not_less del: starts_with_prefix) blast
  have nn: "mapE (\<lambda>f. safe_segment (JStr f) ''output field'') flds = Inr flds"
    using n by (induction names arbitrary: flds) (auto simp: bindE_Inr_iff dest: safe_segment_reload)
  have lf: "length flds \<le> MAX_OUTPUT_FIELDS" using mapE_length [OF n] l by simp
  note facts = alg_text_reload [OF d] lower_format [OF f] lower_lower_format [OF f] nn lf pr f po u
  have "output_init path (JStr (lower fmt)) flds (JBool req) desc = Inr x"
    using facts by (simp add: output_init_def bind_guardE Let_def eq)
  then show ?thesis
    using pr by (cases "desc = []")
      (simp_all add: output_from_dict_def output_to_dict_def jget_default_def string_array_encode eq)
qed

interpretation output_codec: codec output_from_dict output_to_dict
  by unfold_locales (rule output_reload)

section \<open>The contract\<close>

lemma problem_init_Inr: "problem_init d = Inr c \<Longrightarrow> d = c"
  by (simp add: problem_init_def bindE_Inr_iff)

definition problem_items :: "problem_contract \<Rightarrow> (string \<times> json) list" where
  "problem_items c = (case problem_to_dict c of JObj items \<Rightarrow> items | _ \<Rightarrow> [])"

lemma problem_items: "problem_to_dict c = JObj (problem_items c)"
  by (simp add: problem_items_def problem_to_dict_def)

lemma problem_lookup:
  "jget_default (problem_items c) ''schema_version'' d = JStr (pc_schema_version c)"
  "jget_default (problem_items c) ''problem_id'' d = JStr (pc_problem_id c)"
  "jget_default (problem_items c) ''problem_type'' d = JStr (pc_problem_type c)"
  "jget_default (problem_items c) ''statement'' d = JStr (pc_statement c)"
  "jget_default (problem_items c) ''inputs'' d = JArr (map input_to_dict (pc_inputs c))"
  "jget_default (problem_items c) ''decision_variables'' d = strs_json (pc_decision_variables c)"
  "jget_default (problem_items c) ''objective'' d = objective_to_dict (pc_objective c)"
  "jget_default (problem_items c) ''hard_constraints'' d = JArr (map constraint_to_dict (pc_hard c))"
  "jget_default (problem_items c) ''soft_constraints'' d = JArr (map constraint_to_dict (pc_soft c))"
  "jget_default (problem_items c) ''success_criteria'' d = strs_json (pc_success_criteria c)"
  "jget_default (problem_items c) ''deliverables'' d = strs_json (pc_deliverables c)"
  "jget_default (problem_items c) ''assumptions'' d = strs_json (pc_assumptions c)"
  "jget_default (problem_items c) ''evolution'' d = evolution_to_dict (pc_evolution c)"
  "jget_default (problem_items c) ''outputs'' (JArr []) = JArr (map output_to_dict (pc_outputs c))"
  by (simp_all add: problem_items_def problem_to_dict_def jget_default_def)

lemma problem_eta:
  "\<lparr>pc_schema_version = pc_schema_version c, pc_problem_id = pc_problem_id c, pc_problem_type = pc_problem_type c,
     pc_statement = pc_statement c, pc_inputs = pc_inputs c, pc_decision_variables = pc_decision_variables c,
     pc_objective = pc_objective c, pc_hard = pc_hard c, pc_soft = pc_soft c,
     pc_success_criteria = pc_success_criteria c, pc_deliverables = pc_deliverables c,
     pc_assumptions = pc_assumptions c, pc_evolution = pc_evolution c, pc_outputs = pc_outputs c\<rparr> = c"
  by simp

lemma problem_reload:
  assumes "problem_from_dict v = Inr c" shows "problem_from_dict (problem_to_dict c) = Inr c"
proof -
  from assms obtain items where "v = JObj items"
    unfolding problem_from_dict_def by (auto split: json.splits)
  with assms obtain d raw_inputs raw_hard raw_soft raw_outputs where
    p: "alg_text (jget_default items ''schema_version'' (JStr ''1'')) ''contract schema version'' True 64 = Inr (pc_schema_version d)"
      "safe_segment (getn items ''problem_id'') ''problem id'' = Inr (pc_problem_id d)"
      "alg_text (getn items ''problem_type'') ''problem type'' True 64 = Inr (pc_problem_type d)"
      "alg_text (getn items ''statement'') ''problem statement'' True 8000 = Inr (pc_statement d)"
      "mapE input_from_dict raw_inputs = Inr (pc_inputs d)"
      "alg_strings (getn items ''decision_variables'') ''decision_variables'' = Inr (pc_decision_variables d)"
      "objective_from_dict (getn items ''objective'') = Inr (pc_objective d)"
      "mapE constraint_from_dict raw_hard = Inr (pc_hard d)"
      "mapE constraint_from_dict raw_soft = Inr (pc_soft d)"
      "alg_strings (getn items ''success_criteria'') ''success_criteria'' = Inr (pc_success_criteria d)"
      "alg_strings (getn items ''deliverables'') ''deliverables'' = Inr (pc_deliverables d)"
      "alg_strings (getn items ''assumptions'') ''assumptions'' = Inr (pc_assumptions d)"
      "evolution_from_dict (getn items ''evolution'') = Inr (pc_evolution d)"
      "mapE output_from_dict raw_outputs = Inr (pc_outputs d)"
    and i: "problem_init d = Inr c"
    unfolding problem_from_dict_def by (simp add: bindE_Inr_iff) (metis (lifting) problem_contract.select_convs)
  note d = problem_init_Inr [OF i]
  note q = p(1,3,4) [THEN alg_text_reload] p(2) [THEN safe_segment_reload]
    p(6,10,11,12) [THEN alg_strings_reload] p(7) [THEN objective_reload] p(13) [THEN evolution_reload]
    input_codec.reload_list [OF p(5)] constraint_codec.reload_list [OF p(8)]
    constraint_codec.reload_list [OF p(9)] output_codec.reload_list [OF p(14)]
  show ?thesis
    using i unfolding problem_items problem_from_dict_def
    by (simp add: array_items_def problem_lookup q [unfolded d] d problem_eta)
qed

interpretation problem_codec: codec problem_from_dict problem_to_dict
  by unfold_locales (rule problem_reload)

lemma normal_problem_idem:
  assumes "normal_problem p = Inr q" shows "normal_problem q = Inr q \<and> q \<noteq> JNull"
  using assms problem_codec.normal_idem [of p q] by (auto simp: normal_problem_def bindE_Inr_iff problem_to_dict_def)

section \<open>Reports\<close>

lemma report_init_Inr: "report_init r = Inr x \<Longrightarrow> r = x"
  by (auto simp: report_init_def bindE_Inr_iff split: json.splits)

lemma report_eta:
  "\<lparr>er_schema_version = er_schema_version r, er_evaluator_id = er_evaluator_id r, er_validity = er_validity r,
     er_score = er_score r, er_detailed = er_detailed r, er_errors = er_errors r, er_quality = er_quality r\<rparr> = r"
  by simp

lemma report_reload:
  assumes "report_from_dict v = Inr r" shows "report_from_dict (report_to_dict r) = Inr r"
proof -
  from assms obtain items where "v = JObj items"
    unfolding report_from_dict_def by (auto split: json.splits)
  with assms obtain d where
    p: "alg_text (jget_default items ''schema_version'' (JStr ''1'')) ''report schema version'' True 64 = Inr (er_schema_version d)"
      "safe_segment (getn items ''evaluator_id'') ''evaluator id'' = Inr (er_evaluator_id d)"
    and i: "report_init d = Inr r"
    unfolding report_from_dict_def by (simp add: bindE_Inr_iff) (metis (lifting) evaluation_report.select_convs)
  note q = p(1) [THEN alg_text_reload] p(2) [THEN safe_segment_reload]
  note d = report_init_Inr [OF i]
  show ?thesis
    using i by (simp add: report_from_dict_def report_to_dict_def array_items_def jget_default_def q [unfolded d] d report_eta)
qed

interpretation report_codec: codec report_from_dict report_to_dict
  by unfold_locales (rule report_reload)

section \<open>Round trips\<close>

definition sample_problem :: json where
  "sample_problem = JObj [(''problem_id'', JStr ''p1''), (''problem_type'', JStr ''packing''),
     (''statement'', JStr '' pack ''),
     (''inputs'', JArr [JObj [(''path'', JStr ''data/a.csv''), (''format'', JStr ''csv''),
        (''fields'', JObj [(''id'', JStr '' n '')]), (''key'', JStr ''id'')]]),
     (''decision_variables'', JArr [JStr ''x'']),
     (''objective'', JObj [(''name'', JStr ''cost''), (''direction'', JStr ''minimize'')]),
     (''success_criteria'', JArr [JStr ''s'']), (''deliverables'', JArr [JStr ''t'']),
     (''outputs'', JArr [JObj [(''path'', JStr ''output/a.json''), (''format'', JStr ''JSON'')]])]"

definition sample_report :: json where
  "sample_report = JObj [(''evaluator_id'', JStr ''e''), (''validity'', JInt 0), (''combined_score'', JInt 0),
     (''detailed_scores'', JObj [(''m'', JObj [(''direction'', JStr ''maximize''), (''value'', JInt (- 3))])]),
     (''error_info'', JArr [JObj [(''code'', JStr ''c''), (''message'', JStr ''m'')]])]"

lemma sample_problem_ok: "\<exists>c. problem_from_dict sample_problem = Inr c"
proof -
  have "is_ok (problem_from_dict sample_problem)" by code_simp
  then show ?thesis by (simp add: is_ok_iff)
qed

lemma sample_report_ok: "\<exists>r. report_from_dict sample_report = Inr r"
proof -
  have "is_ok (report_from_dict sample_report)" by code_simp
  then show ?thesis by (simp add: is_ok_iff)
qed

text \<open>C36. An algorithm-problem contract that \<^verbatim>\<open>from_dict\<close> accepts is stable: rendering it with \<^verbatim>\<open>to_dict\<close>
  and reading that again gives the very same contract, whatever parts it has (inputs with fields and
  key, weighted metrics, constraints with source checks, outputs).\<close>
theorem problem_contract_roundtrip:
  assumes "problem_from_dict v = Inr c"
  shows "problem_from_dict (problem_to_dict c) = Inr c"
  using assms by (rule problem_codec.reload)

theorem problem_contract_roundtrip_witness:
  "\<exists>c. problem_from_dict sample_problem = Inr c \<and> problem_from_dict (problem_to_dict c) = Inr c"
  using sample_problem_ok problem_contract_roundtrip by blast

text \<open>C37. An evaluation report that \<^verbatim>\<open>from_dict\<close> accepts is read back from its own \<^verbatim>\<open>to_dict\<close> unchanged.\<close>
theorem evaluation_report_roundtrip:
  assumes "report_from_dict v = Inr r"
  shows "report_from_dict (report_to_dict r) = Inr r"
  using assms by (rule report_codec.reload)

theorem evaluation_report_roundtrip_witness:
  "\<exists>r. report_from_dict sample_report = Inr r \<and> report_from_dict (report_to_dict r) = Inr r"
  using sample_report_ok evaluation_report_roundtrip by blast

end
