(* ===== verification/Plan.thy ===== *)
theory Plan imports Acceptance Budgets CycleCheck AlgorithmCodec begin

text \<open>
  Plan documents, patches and the deterministic master policy of \<^verbatim>\<open>policy.py\<close>.  A constructor
  of a frozen dataclass together with its \<^verbatim>\<open>__post_init__\<close> is one function \<open>..._init\<close> that
  either raises or returns the record.  The argument \<open>loads\<close> is \<^verbatim>\<open>json.loads\<close> (None for a
  decode error); the algorithm problem of a plan is normalised by \<open>normal_problem\<close> of theory Algorithm.
\<close>

section \<open>Bounded fields\<close>

definition PLAN_TEXT_BYTES :: nat where "PLAN_TEXT_BYTES = 8000"
definition MAX_ITEMS :: nat where "MAX_ITEMS = 32"
definition MAX_QUESTIONS :: nat where "MAX_QUESTIONS = 4"

definition plan_text :: "json \<Rightarrow> string \<Rightarrow> bool \<Rightarrow> string result" where
  "plan_text value field required =
     (case value of
        JStr s \<Rightarrow>
          (let v = strip s in
           if required \<and> v = [] then Inl (ValueError (field @ '' must not be empty''))
           else if PLAN_TEXT_BYTES < length v then Inl (ValueError (field @ '' exceeds 8000 bytes''))
           else if secret_search v then Inl (ValueError (field @ '' contains credential-like content''))
           else Inr v)
      | _ \<Rightarrow> if required then Inl (ValueError (field @ '' must be a string'')) else Inr [])"

definition plan_strings :: "json \<Rightarrow> string \<Rightarrow> string list result" where
  "plan_strings value field =
     (case value of
        JNull \<Rightarrow> Inr []
      | JArr vs \<Rightarrow>
          if MAX_ITEMS < length vs then Inl (ValueError (field @ '' must be a bounded string array''))
          else mapE (\<lambda>v. plan_text v field True) vs
      | _ \<Rightarrow> Inl (ValueError (field @ '' must be a bounded string array'')))"

definition validate_reason :: "json \<Rightarrow> string \<Rightarrow> string result" where
  "validate_reason value field = plan_text value field True"

definition validate_evidence :: "json \<Rightarrow> string \<Rightarrow> string list result" where
  "validate_evidence value field = plan_strings value field"

definition json_object :: "json \<Rightarrow> string \<Rightarrow> (string \<times> json) list result" where
  "json_object value field =
     (case value of
        JNull \<Rightarrow> Inr []
      | JObj items \<Rightarrow>
          (let encoded = dumps (JObj items) in
           if 20000 < length encoded \<or> secret_search encoded
           then Inl (ValueError (field @ '' is too large or contains credential-like content''))
           else Inr items)
      | _ \<Rightarrow> Inl (TypeError (field @ '' must be an object'')))"

section \<open>Plan tasks\<close>

record plan_task =
  pt_id :: string
  pt_title :: string
  pt_prompt :: string
  pt_depends_on :: "string list"
  pt_acceptance :: json

definition unsafe_segment :: "string \<Rightarrow> bool" where
  "unsafe_segment s = (s \<in> {''.'', ''..''} \<or> CHR ''/'' \<in> set s \<or> backslash \<in> set s)"

definition plan_task_init ::
  "(string \<Rightarrow> json option) \<Rightarrow> string \<Rightarrow> json \<Rightarrow> json \<Rightarrow> json list \<Rightarrow> json \<Rightarrow> plan_task result" where
  "plan_task_init loads tid title prompt deps acceptance =
     bindE (guardE (tid = [] \<or> unsafe_segment tid)
              (ValueError (''task id is not a safe path segment: '' @ repr_str tid))) (\<lambda>_.
     bindE (plan_text title ''task title'' True) (\<lambda>_.
     bindE (plan_text prompt ''task prompt'' True) (\<lambda>_.
     bindE (guardE (MAX_ITEMS < length deps)
              (ValueError (''dependencies for task '' @ tid @ '' are invalid''))) (\<lambda>_.
     bindE (guardE (\<exists>d\<in>set deps. hash_key d = None) (TypeError ''unhashable type'')) (\<lambda>_.
     bindE (guardE (\<not> distinct (map hash_key deps))
              (ValueError (''dependencies for task '' @ tid @ '' are invalid''))) (\<lambda>_.
     bindE (guardE (\<exists>d\<in>set deps. case d of JStr s \<Rightarrow> strip s = [] | _ \<Rightarrow> True)
              (ValueError (''dependencies for task '' @ tid @ '' must be non-empty IDs''))) (\<lambda>_.
     bindE (case acceptance of
              JNull \<Rightarrow> Inr ()
            | JStr s \<Rightarrow> bindE (plan_text acceptance ''task acceptance'' False) (\<lambda>_. validate_acceptance loads acceptance)
            | JObj items \<Rightarrow> bindE (json_object acceptance ''task acceptance'') (\<lambda>_. validate_acceptance loads acceptance)
            | _ \<Rightarrow> Inl (ValueError (''acceptance for task '' @ tid @ '' must be a string or object''))) (\<lambda>_.
       Inr \<lparr>pt_id = tid, pt_title = str_of title, pt_prompt = str_of prompt,
            pt_depends_on = map str_of deps, pt_acceptance = acceptance\<rparr>))))))))"

definition plan_task_to_dict :: "plan_task \<Rightarrow> json" where
  "plan_task_to_dict t = JObj
     [(''id'', JStr (pt_id t)), (''title'', JStr (pt_title t)), (''prompt'', JStr (pt_prompt t)),
      (''depends_on'', JArr (map JStr (pt_depends_on t))), (''acceptance'', pt_acceptance t)]"

definition plan_task_from_dict :: "(string \<Rightarrow> json option) \<Rightarrow> json \<Rightarrow> plan_task result" where
  "plan_task_from_dict loads payload =
     (case payload of
        JObj items \<Rightarrow>
          (case jget_default items ''depends_on'' (jget_default items ''dependencies'' (JArr [])) of
             JArr deps \<Rightarrow>
               if \<exists>d\<in>set deps. case d of JStr s \<Rightarrow> False | _ \<Rightarrow> True
               then Inl (ValueError ''task dependencies must be a string array'')
               else bindE (plan_text (getn items ''id'') ''task id'' True) (\<lambda>tid.
                    bindE (plan_text (jget_default items ''title'' (getn items ''id'')) ''task title'' True) (\<lambda>title.
                    bindE (plan_text (getn items ''prompt'') ''task prompt'' True) (\<lambda>prompt.
                      plan_task_init loads tid (JStr title) (JStr prompt) deps (getn items ''acceptance''))))
           | _ \<Rightarrow> Inl (ValueError ''task dependencies must be a string array''))
      | _ \<Rightarrow> Inl (TypeError ''task must be an object''))"

section \<open>Plan documents\<close>

record plan_document =
  pd_goal :: string
  pd_tasks :: "plan_task list"
  pd_plan_id :: string
  pd_version :: int
  pd_parent_version :: "int option"
  pd_schema_version :: string
  pd_hard_constraints :: "string list"
  pd_soft_constraints :: "string list"
  pd_objective :: json
  pd_evidence :: "string list"
  pd_assumptions :: "string list"
  pd_acceptance :: "(string \<times> json) list"
  pd_verification :: "(string \<times> json) list"
  pd_delivery :: "(string \<times> json) list"
  pd_budget :: budget_spec
  pd_algorithm_problem :: "json option"

text \<open>The graph dictionary of \<^verbatim>\<open>__post_init__\<close>.\<close>

definition task_graph :: "plan_task list \<Rightarrow> string \<Rightarrow> string list" where
  "task_graph ts n = (case find (\<lambda>t. pt_id t = n) ts of None \<Rightarrow> [] | Some t \<Rightarrow> pt_depends_on t)"

definition check_task_refs :: "string set \<Rightarrow> plan_task \<Rightarrow> unit result" where
  "check_task_refs ids t =
     (let unknown = filter (\<lambda>d. d \<notin> ids) (remdups (pt_depends_on t)) in
      if unknown \<noteq> [] then Inl (ValueError (''task '' @ pt_id t @ '' references unknown dependencies: ''
                                 @ join_with '', '' (sort unknown)))
      else if pt_id t \<in> set (pt_depends_on t)
      then Inl (ValueError (''task '' @ pt_id t @ '' cannot depend on itself'')) else Inr ())"

text \<open>
  The constructor: the checks, then the normalised problem.  The constraint lists are still JSON items here, because
  \<^verbatim>\<open>apply_patch\<close> passes them as the operation holds them.
\<close>

definition plan_document_checks :: "json list \<Rightarrow> json list \<Rightarrow> plan_document \<Rightarrow> unit result" where
  "plan_document_checks hard soft d =
     bindE (plan_text (JStr (pd_goal d)) ''plan goal'' True) (\<lambda>_.
     bindE (plan_text (JStr (pd_plan_id d)) ''plan id'' True) (\<lambda>_.
     bindE (guardE (unsafe_segment (pd_plan_id d))
              (ValueError (''plan id is not a safe path segment: '' @ repr_str (pd_plan_id d)))) (\<lambda>_.
     bindE (guardE (pd_version d < 1 \<or> (case pd_parent_version d of None \<Rightarrow> False | Some v \<Rightarrow> pd_version d \<le> v))
              (ValueError ''plan version must be positive and greater than its parent'')) (\<lambda>_.
     bindE (guardE (pd_tasks d = []) (ValueError ''plan must contain at least one task'')) (\<lambda>_.
     let ids = map pt_id (pd_tasks d) in
     bindE (guardE (\<not> distinct ids) (ValueError ''plan contains duplicate task IDs'')) (\<lambda>_.
     bindE (mapE (check_task_refs (set ids)) (pd_tasks d)) (\<lambda>_.
     bindE (check_cycles ids (task_graph (pd_tasks d))) (\<lambda>_.
     bindE (plan_strings (JArr hard) ''hard constraints'') (\<lambda>_.
     bindE (plan_strings (JArr soft) ''soft constraints'') (\<lambda>_.
     bindE (plan_strings (JArr (map JStr (pd_evidence d))) ''evidence'') (\<lambda>_.
     bindE (plan_strings (JArr (map JStr (pd_assumptions d))) ''assumptions'') (\<lambda>_.
     bindE (case pd_objective d of
              JStr s \<Rightarrow> bindE (plan_text (JStr s) ''objective'' False) (\<lambda>_. Inr ())
            | v \<Rightarrow> bindE (json_object v ''objective'') (\<lambda>_. Inr ())) (\<lambda>_.
     bindE (json_object (JObj (pd_acceptance d)) ''acceptance'') (\<lambda>_.
     bindE (json_object (JObj (pd_verification d)) ''verification'') (\<lambda>_.
     bindE (json_object (JObj (pd_delivery d)) ''delivery'') (\<lambda>_. Inr ()))))))))))))))))"

definition plan_document_init ::
  "json list \<Rightarrow> json list \<Rightarrow> plan_document \<Rightarrow> plan_document result" where
  "plan_document_init hard soft d =
     bindE (plan_document_checks hard soft d) (\<lambda>_.
     bindE (case pd_algorithm_problem d of
              None \<Rightarrow> Inr None
            | Some p \<Rightarrow> bindE (normal_problem p) (\<lambda>q. Inr (Some q))) (\<lambda>problem.
       Inr (d\<lparr>pd_hard_constraints := map str_of hard, pd_soft_constraints := map str_of soft,
              pd_algorithm_problem := problem\<rparr>)))"

definition plan_document_to_dict :: "plan_document \<Rightarrow> (string \<times> json) list" where
  "plan_document_to_dict d =
     [(''schema_version'', JStr (pd_schema_version d)), (''plan_id'', JStr (pd_plan_id d)),
      (''version'', JInt (pd_version d)), (''parent_version'', opt_int (pd_parent_version d)),
      (''goal'', JStr (pd_goal d)),
      (''hard_constraints'', JArr (map JStr (pd_hard_constraints d))),
      (''soft_constraints'', JArr (map JStr (pd_soft_constraints d))),
      (''objective'', pd_objective d),
      (''evidence'', JArr (map JStr (pd_evidence d))),
      (''assumptions'', JArr (map JStr (pd_assumptions d))),
      (''tasks'', JArr (map plan_task_to_dict (pd_tasks d))),
      (''acceptance'', JObj (pd_acceptance d)), (''verification'', JObj (pd_verification d)),
      (''delivery'', JObj (pd_delivery d)), (''budget'', JObj (budget_to_dict (pd_budget d)))]
     @ (case pd_algorithm_problem d of None \<Rightarrow> [] | Some p \<Rightarrow> [(''algorithm_problem'', p)])"

text \<open>\<open>fresh\<close> is the default id \<^verbatim>\<open>plan-<12 hex digits>\<close>.\<close>

definition plan_document_from_dict ::
  "(string \<Rightarrow> json option) \<Rightarrow> string \<Rightarrow> json \<Rightarrow> plan_document result" where
  "plan_document_from_dict loads fresh payload =
     (case payload of
        JObj items \<Rightarrow>
          (case getn items ''tasks'' of
             JArr raw \<Rightarrow>
               bindE (mapE (plan_task_from_dict loads) raw) (\<lambda>tasks.
               bindE (plan_text (getn items ''goal'') ''plan goal'' True) (\<lambda>goal.
               bindE (plan_text (jget_default items ''plan_id'' (JStr fresh)) ''plan id'' True) (\<lambda>pid.
               bindE (py_int (jget_default items ''version'' (JInt 1))) (\<lambda>version.
               bindE (if getn items ''parent_version'' = JNull then Inr None
                      else bindE (py_int (getn items ''parent_version'')) (\<lambda>v. Inr (Some v))) (\<lambda>parent.
               let schema = py_str (jget_default items ''schema_version'' (JStr ''1'')) in
               bindE (plan_strings (getn items ''hard_constraints'') ''hard constraints'') (\<lambda>hard.
               bindE (plan_strings (getn items ''soft_constraints'') ''soft constraints'') (\<lambda>soft.
               bindE (plan_strings (getn items ''evidence'') ''evidence'') (\<lambda>evidence.
               bindE (plan_strings (getn items ''assumptions'') ''assumptions'') (\<lambda>assumptions.
               bindE (json_object (getn items ''acceptance'') ''acceptance'') (\<lambda>acceptance.
               bindE (json_object (getn items ''verification'') ''verification'') (\<lambda>verification.
               bindE (json_object (getn items ''delivery'') ''delivery'') (\<lambda>delivery.
               bindE (budget_from_dict (getn items ''budget'')) (\<lambda>budget.
                 plan_document_init (map JStr hard) (map JStr soft)
                   \<lparr>pd_goal = goal, pd_tasks = tasks, pd_plan_id = pid, pd_version = version,
                    pd_parent_version = parent, pd_schema_version = schema,
                    pd_hard_constraints = hard, pd_soft_constraints = soft,
                    pd_objective = jget_default items ''objective'' (JStr []),
                    pd_evidence = evidence, pd_assumptions = assumptions, pd_acceptance = acceptance,
                    pd_verification = verification, pd_delivery = delivery, pd_budget = budget,
                    pd_algorithm_problem =
                      (if getn items ''algorithm_problem'' = JNull then None
                       else Some (getn items ''algorithm_problem''))\<rparr>)))))))))))))
           | _ \<Rightarrow> Inl (TypeError ''plan requires a tasks array''))
      | _ \<Rightarrow> Inl (TypeError ''plan must be a JSON object''))"

section \<open>Patches\<close>

record plan_patch =
  pp_plan_id :: string
  pp_base_version :: int
  pp_reason :: string
  pp_operations :: "(string \<times> json) list list"
  pp_evidence :: "string list"

definition patch_ops :: "string list" where
  "patch_ops = [''add_task'', ''remove_task'', ''update_task'', ''add_dependency'', ''remove_dependency'',
     ''update_acceptance'', ''update_constraints'', ''update_budget'']"

definition check_operation :: "json \<Rightarrow> (string \<times> json) list result" where
  "check_operation operation =
     (case operation of
        JObj items \<Rightarrow>
          (case getn items ''op'' of
             JStr op \<Rightarrow>
               if op \<notin> set patch_ops then Inl (ValueError (''unsupported patch operation: '' @ op))
               else json_object operation ''patch operation''
           | _ \<Rightarrow> Inl (TypeError ''patch operation requires an op''))
      | _ \<Rightarrow> Inl (TypeError ''patch operation requires an op''))"

definition plan_patch_init :: "string \<Rightarrow> int \<Rightarrow> string \<Rightarrow> json list \<Rightarrow> string list \<Rightarrow> plan_patch result" where
  "plan_patch_init pid base reason operations evidence =
     bindE (plan_text (JStr pid) ''plan id'' True) (\<lambda>_.
     bindE (plan_text (JStr reason) ''patch reason'' True) (\<lambda>_.
     bindE (guardE (base < 1 \<or> operations = [] \<or> MAX_ITEMS < length operations)
              (ValueError ''patch requires a positive base version and bounded operations'')) (\<lambda>_.
     bindE (plan_strings (JArr (map JStr evidence)) ''evidence'') (\<lambda>_.
     bindE (mapE check_operation operations) (\<lambda>ops.
       Inr \<lparr>pp_plan_id = pid, pp_base_version = base, pp_reason = reason, pp_operations = ops,
            pp_evidence = evidence\<rparr>)))))"

definition plan_patch_from_dict :: "json \<Rightarrow> plan_patch result" where
  "plan_patch_from_dict payload =
     (case payload of
        JObj items \<Rightarrow>
          (case getn items ''operations'' of
             JArr operations \<Rightarrow>
               bindE (plan_text (getn items ''plan_id'') ''plan id'' True) (\<lambda>pid.
               bindE (py_int (jget_default items ''base_version'' (JInt 0))) (\<lambda>base.
               bindE (plan_text (getn items ''reason'') ''patch reason'' True) (\<lambda>reason.
               bindE (plan_strings (getn items ''evidence'') ''evidence'') (\<lambda>evidence.
                 plan_patch_init pid base reason operations evidence))))
           | _ \<Rightarrow> Inl (TypeError ''patch requires an operations array''))
      | _ \<Rightarrow> Inl (TypeError ''patch must be a JSON object''))"

text \<open>The loop state of \<^verbatim>\<open>apply_patch\<close>: \<open>by_id\<close> is the second view of the task list.\<close>

record patch_state =
  ps_tasks :: "plan_task list"
  ps_by_id :: "string \<Rightarrow> plan_task option"
  ps_hard :: "json list"
  ps_soft :: "json list"
  ps_budget :: budget_spec

definition replace_task :: "plan_task \<Rightarrow> patch_state \<Rightarrow> patch_state" where
  "replace_task u s = s\<lparr>ps_by_id := (ps_by_id s)(pt_id u \<mapsto> u),
     ps_tasks := map (\<lambda>t. if pt_id t = pt_id u then u else t) (ps_tasks s)\<rparr>"

definition patch_add_task :: "(string \<Rightarrow> json option) \<Rightarrow> (string \<times> json) list \<Rightarrow> patch_state \<Rightarrow> patch_state result" where
  "patch_add_task loads operation s =
     (case getn operation ''task'' of
        JObj t \<Rightarrow>
          bindE (plan_task_from_dict loads (JObj t)) (\<lambda>task.
            if ps_by_id s (pt_id task) \<noteq> None then Inl (ValueError (''task already exists: '' @ pt_id task))
            else Inr (s\<lparr>ps_by_id := (ps_by_id s)(pt_id task \<mapsto> task), ps_tasks := ps_tasks s @ [task]\<rparr>))
      | _ \<Rightarrow> Inl (ValueError ''add_task requires a task object''))"

definition patch_remove_task :: "string \<Rightarrow> patch_state \<Rightarrow> patch_state result" where
  "patch_remove_task tid s =
     (if ps_by_id s tid = None then Inl (ValueError (''unknown task: '' @ tid))
      else if \<exists>t\<in>set (ps_tasks s). tid \<in> set (pt_depends_on t)
      then Inl (ValueError ''cannot remove a task with dependents'')
      else Inr (s\<lparr>ps_tasks := filter (\<lambda>t. pt_id t \<noteq> tid) (ps_tasks s), ps_by_id := (ps_by_id s)(tid := None)\<rparr>))"

definition patch_update_task ::
  "(string \<Rightarrow> json option) \<Rightarrow> (string \<times> json) list \<Rightarrow> string \<Rightarrow> patch_state \<Rightarrow> patch_state result" where
  "patch_update_task loads operation tid s =
     (case ps_by_id s tid of
        None \<Rightarrow> Inl (ValueError (''unknown task: '' @ tid))
      | Some old \<Rightarrow>
          (case jget_default operation ''depends_on'' (JArr (map JStr (pt_depends_on old))) of
             JArr deps \<Rightarrow>
               bindE (plan_task_init loads tid
                        (jget_default operation ''title'' (JStr (pt_title old)))
                        (jget_default operation ''prompt'' (JStr (pt_prompt old))) deps
                        (jget_default operation ''acceptance'' (pt_acceptance old)))
                 (\<lambda>u. Inr (replace_task u s))
           | _ \<Rightarrow> Inl (TypeError ''update_task depends_on must be an array'')))"

definition patch_dependency ::
  "(string \<Rightarrow> json option) \<Rightarrow> bool \<Rightarrow> (string \<times> json) list \<Rightarrow> string \<Rightarrow> patch_state \<Rightarrow> patch_state result" where
  "patch_dependency loads add operation tid s =
     (let dependency = strip (py_str (jget_default operation ''dependency'' (JStr []))) in
      case ps_by_id s tid of
        None \<Rightarrow> Inl (ValueError ''dependency operation references an unknown task'')
      | Some old \<Rightarrow>
          if ps_by_id s dependency = None
          then Inl (ValueError ''dependency operation references an unknown task'')
          else
            (let deps = pt_depends_on old;
                 deps' = (if add then (if dependency \<in> set deps then deps else deps @ [dependency])
                          else remove1 dependency deps)
             in bindE (plan_task_init loads (pt_id old) (JStr (pt_title old)) (JStr (pt_prompt old))
                         (map JStr deps') (pt_acceptance old))
                  (\<lambda>u. Inr (replace_task u s))))"

definition patch_acceptance ::
  "(string \<Rightarrow> json option) \<Rightarrow> (string \<times> json) list \<Rightarrow> string \<Rightarrow> patch_state \<Rightarrow> patch_state result" where
  "patch_acceptance loads operation tid s =
     (case ps_by_id s tid of
        None \<Rightarrow> Inl (ValueError (''unknown task: '' @ tid))
      | Some old \<Rightarrow>
          bindE (plan_task_init loads (pt_id old) (JStr (pt_title old)) (JStr (pt_prompt old))
                   (map JStr (pt_depends_on old)) (getn operation ''acceptance''))
            (\<lambda>u. Inr (replace_task u s)))"

definition patch_constraints :: "(string \<times> json) list \<Rightarrow> patch_state \<Rightarrow> patch_state result" where
  "patch_constraints operation s =
     (case (jget_default operation ''hard_constraints'' (JArr (ps_hard s)),
            jget_default operation ''soft_constraints'' (JArr (ps_soft s))) of
        (JArr hard, JArr soft) \<Rightarrow> Inr (s\<lparr>ps_hard := hard, ps_soft := soft\<rparr>)
      | _ \<Rightarrow> Inl (TypeError ''update_constraints hard_constraints and soft_constraints must be arrays''))"

text \<open>One iteration of the loop over \<^verbatim>\<open>patch.operations\<close>.\<close>

definition patch_step ::
  "(string \<Rightarrow> json option) \<Rightarrow> (string \<times> json) list \<Rightarrow> patch_state \<Rightarrow> patch_state result" where
  "patch_step loads operation s =
     (let op = str_of (getn operation ''op'');
          tid = strip (py_str (jget_default operation ''id'' (JStr [])))
      in if op = ''add_task'' then patch_add_task loads operation s
      else if op = ''remove_task'' then patch_remove_task tid s
      else if op = ''update_task'' then patch_update_task loads operation tid s
      else if op = ''add_dependency'' then patch_dependency loads True operation tid s
      else if op = ''remove_dependency'' then patch_dependency loads False operation tid s
      else if op = ''update_acceptance'' then patch_acceptance loads operation tid s
      else if op = ''update_constraints'' then patch_constraints operation s
      else if op = ''update_budget''
      then bindE (budget_from_dict (getn operation ''budget'')) (\<lambda>b. Inr (s\<lparr>ps_budget := b\<rparr>))
      else Inr s)"

definition apply_patch ::
  "(string \<Rightarrow> json option) \<Rightarrow> plan_document \<Rightarrow> plan_patch \<Rightarrow> plan_document result" where
  "apply_patch loads d p =
     bindE (guardE (pp_plan_id p \<noteq> pd_plan_id d \<or> pp_base_version p \<noteq> pd_version d)
              (ValueError ''patch base plan/version does not match the current revision'')) (\<lambda>_.
     bindE (foldE (patch_step loads) (pp_operations p)
              \<lparr>ps_tasks = pd_tasks d,
               ps_by_id = map_of (map (\<lambda>t. (pt_id t, t)) (rev (pd_tasks d))),
               ps_hard = map JStr (pd_hard_constraints d), ps_soft = map JStr (pd_soft_constraints d),
               ps_budget = pd_budget d\<rparr>) (\<lambda>s.
       plan_document_init (ps_hard s) (ps_soft s)
         (d\<lparr>pd_tasks := ps_tasks s, pd_version := pd_version d + 1, pd_parent_version := Some (pd_version d),
            pd_evidence := pd_evidence d @ pp_evidence p, pd_budget := ps_budget s\<rparr>)))"

section \<open>The master policy\<close>

record policy_decision =
  de_action :: string
  de_rationale :: string
  de_confidence :: rat
  de_questions :: "string list"
  de_plan_id :: "string option"
  de_plan_version :: "int option"
  de_evidence :: "string list"
  de_plan :: "(string \<times> json) list option"

definition policy_decision_init ::
  "(string \<Rightarrow> json option) \<Rightarrow> string \<Rightarrow> policy_decision \<Rightarrow> policy_decision result" where
  "policy_decision_init loads fresh d =
     bindE (guardE (de_action d \<notin> {''answer'', ''ask_user'', ''execute_plan'', ''patch_plan'', ''replan'', ''deliver''})
              (ValueError (''unsupported policy action: '' @ de_action d))) (\<lambda>_.
     bindE (plan_text (JStr (de_rationale d)) ''decision rationale'' True) (\<lambda>_.
     bindE (guardE (\<not> (0 \<le> de_confidence d \<and> de_confidence d \<le> 1))
              (ValueError ''decision confidence must be between 0 and 1'')) (\<lambda>_.
     bindE (guardE (MAX_QUESTIONS < length (de_questions d))
              (ValueError ''a decision may contain at most four questions'')) (\<lambda>_.
     bindE (mapE (\<lambda>q. plan_text (JStr q) ''question'' True) (de_questions d)) (\<lambda>_.
     bindE (plan_strings (JArr (map JStr (de_evidence d))) ''evidence'') (\<lambda>_.
     bindE (case de_plan_id d of None \<Rightarrow> Inr [] | Some i \<Rightarrow> plan_text (JStr i) ''plan id'' True) (\<lambda>_.
     bindE (guardE (case de_plan_version d of None \<Rightarrow> False | Some v \<Rightarrow> v < 1)
              (ValueError ''decision plan version must be positive'')) (\<lambda>_.
     bindE (case de_plan d of
              None \<Rightarrow> Inr ()
            | Some items \<Rightarrow>
                bindE (json_object (JObj items) ''decision plan'') (\<lambda>plan.
                bindE (plan_document_from_dict loads fresh (JObj plan)) (\<lambda>doc.
                bindE (guardE (case de_plan_id d of None \<Rightarrow> False | Some i \<Rightarrow> i \<noteq> pd_plan_id doc)
                         (ValueError ''decision plan id does not match its plan document'')) (\<lambda>_.
                guardE (case de_plan_version d of None \<Rightarrow> False | Some v \<Rightarrow> v \<noteq> pd_version doc)
                         (ValueError ''decision plan version does not match its plan document''))))) (\<lambda>_.
     bindE (guardE (de_action d = ''ask_user'' \<and> de_questions d = [])
              (ValueError ''ask_user decision requires questions'')) (\<lambda>_.
     bindE (guardE (de_action d \<in> {''patch_plan'', ''replan'', ''deliver''} \<and>
                    (case de_plan_id d of None \<Rightarrow> True | Some i \<Rightarrow> i = []))
              (ValueError (de_action d @ '' decision requires a plan reference''))) (\<lambda>_. Inr d)))))))))))"

definition policy_decision_to_dict :: "policy_decision \<Rightarrow> string \<Rightarrow> (string \<times> json) list" where
  "policy_decision_to_dict d conf =
     [(''action'', JStr (de_action d)), (''rationale'', JStr (de_rationale d)),
      (''confidence'', JFloat (de_confidence d) conf),
      (''questions'', JArr (map JStr (de_questions d))),
      (''plan_id'', case de_plan_id d of None \<Rightarrow> JNull | Some i \<Rightarrow> JStr i),
      (''plan_version'', opt_int (de_plan_version d)),
      (''evidence'', JArr (map JStr (de_evidence d)))]
     @ (case de_plan d of None \<Rightarrow> [] | Some p \<Rightarrow> [(''plan'', JObj p)])"

definition utf8 :: "nat list \<Rightarrow> string" where "utf8 bs = map char_of bs"

definition missing_markers :: "string list" where
  "missing_markers =
    [''need your choice'',
     ''which format'',
     ''please choose'',
     ''ask me'',
     ''missing information'',
     utf8 [233, 156, 128, 232, 166, 129, 233, 128, 137, 230, 139, 169],
     utf8 [233, 156, 128, 232, 166, 129, 231, 161, 174, 232, 174, 164],
     utf8 [228, 191, 161, 230, 129, 175, 228, 184, 141, 232, 182, 179],
     utf8 [231, 188, 186, 229, 176, 145, 228, 191, 161, 230, 129, 175],
     utf8 [232, 175, 183, 231, 161, 174, 232, 174, 164],
     utf8 [232, 175, 183, 230, 140, 135, 229, 174, 154]]"

definition complex_markers :: "string list" where
  "complex_markers =
    ['' and '',
     ''then'',
     ''multiple'',
     ''steps'',
     ''files'',
     ''artifacts'',
     ''report'',
     ''verify'',
     ''tests'',
     ''plan'',
     utf8 [229, 185, 182, 228, 184, 148],
     utf8 [231, 132, 182, 229, 144, 142],
     utf8 [229, 164, 154, 230, 173, 165, 233, 170, 164],
     utf8 [229, 164, 154, 228, 184, 170],
     utf8 [230, 150, 135, 228, 187, 182],
     utf8 [230, 138, 165, 229, 145, 138],
     utf8 [233, 170, 140, 232, 175, 129],
     utf8 [230, 181, 139, 232, 175, 149],
     utf8 [232, 174, 161, 229, 136, 146]]"

definition work_markers :: "string list" where
  "work_markers =
    [''implement'',
     ''build'',
     ''deploy'',
     utf8 [229, 188, 128, 229, 143, 145],
     utf8 [229, 174, 158, 231, 142, 176],
     utf8 [233, 131, 168, 231, 189, 178]]"

definition answer_decision :: policy_decision where
  "answer_decision = \<lparr>de_action = ''answer'',
     de_rationale = ''The goal appears self-contained and explainable'', de_confidence = 82 / 100,
     de_questions = [], de_plan_id = None, de_plan_version = None,
     de_evidence = [''no multi-step work signal detected''], de_plan = None\<rparr>"

definition ask_user_decision :: policy_decision where
  "ask_user_decision = \<lparr>de_action = ''ask_user'',
     de_rationale = ''The goal is missing a material user decision'', de_confidence = 9 / 10,
     de_questions = [''Please provide the missing decision before I continue.''],
     de_plan_id = None, de_plan_version = None,
     de_evidence = [''goal contains an explicit missing-information marker''], de_plan = None\<rparr>"

definition goal_plan :: "(string \<Rightarrow> json option) \<Rightarrow> string \<Rightarrow> string \<Rightarrow> plan_document result" where
  "goal_plan loads fresh goal =
     bindE (plan_task_init loads ''execute'' (JStr ''Execute goal'') (JStr goal) [] JNull) (\<lambda>t.
       plan_document_init [] []
         \<lparr>pd_goal = goal, pd_tasks = [t], pd_plan_id = fresh, pd_version = 1, pd_parent_version = None,
          pd_schema_version = ''1'', pd_hard_constraints = [], pd_soft_constraints = [],
          pd_objective = JStr ''complete the requested goal'',
          pd_evidence = [''goal contains multiple observable work signals''], pd_assumptions = [],
          pd_acceptance = [], pd_verification = [(''required'', JBool True)],
          pd_delivery = [(''artifacts'', JBool True)], pd_budget = default_budget,
          pd_algorithm_problem = None\<rparr>)"

text \<open>\<^verbatim>\<open>MasterPolicy.decide\<close>; \<open>fresh\<close> is the id drawn for the plan it may create.\<close>

definition decide :: "(string \<Rightarrow> json option) \<Rightarrow> string \<Rightarrow> json \<Rightarrow> policy_decision result" where
  "decide loads fresh goal0 =
     bindE (plan_text goal0 ''goal'' True) (\<lambda>goal.
     let lowered = lower goal in
     if \<exists>m\<in>set missing_markers. contains m lowered
     then policy_decision_init loads fresh ask_user_decision
     else if 2 \<le> length (filter (\<lambda>m. contains m lowered) complex_markers)
            \<or> (\<exists>m\<in>set work_markers. contains m lowered)
     then bindE (goal_plan loads fresh goal) (\<lambda>plan.
            policy_decision_init loads fresh
              \<lparr>de_action = ''execute_plan'',
               de_rationale = ''The goal has multiple observable work signals'', de_confidence = 78 / 100,
               de_questions = [], de_plan_id = Some (pd_plan_id plan),
               de_plan_version = Some (pd_version plan), de_evidence = pd_evidence plan,
               de_plan = Some (plan_document_to_dict plan)\<rparr>)
     else policy_decision_init loads fresh answer_decision)"

section \<open>Well-formed documents\<close>

definition plan_wf :: "plan_document \<Rightarrow> bool" where
  "plan_wf d \<longleftrightarrow> pd_tasks d \<noteq> [] \<and> distinct (map pt_id (pd_tasks d))
     \<and> (\<forall>t\<in>set (pd_tasks d). set (pt_depends_on t) \<subseteq> pt_id ` set (pd_tasks d) \<and> pt_id t \<notin> set (pt_depends_on t))
     \<and> acyclic (edges (map pt_id (pd_tasks d)) (task_graph (pd_tasks d)))
     \<and> 1 \<le> pd_version d \<and> (\<forall>v. pd_parent_version d = Some v \<longrightarrow> v < pd_version d)"

lemma check_task_refs_Inr:
  "check_task_refs ids t = Inr u \<longleftrightarrow> set (pt_depends_on t) \<subseteq> ids \<and> pt_id t \<notin> set (pt_depends_on t)"
  by (auto simp: check_task_refs_def Let_def filter_empty_conv)

lemma mapE_units: "mapE f xs = Inr ys \<Longrightarrow> \<forall>x\<in>set xs. \<exists>y. f x = Inr y"
  by (induction xs arbitrary: ys) (auto simp: bindE_Inr_iff)

lemma task_graph_closed:
  assumes "\<forall>t\<in>set ts. set (pt_depends_on t) \<subseteq> pt_id ` set ts"
  shows "set (task_graph ts n) \<subseteq> set (map pt_id ts)"
proof (cases "find (\<lambda>t. pt_id t = n) ts")
  case (Some t)
  then have "t \<in> set ts" by (auto dest: find_Some_iff_first)
  with assms Some show ?thesis by (auto simp: task_graph_def)
qed (simp add: task_graph_def)

lemma plan_document_init_Inr:
  assumes "plan_document_init hard soft d = Inr d'"
  obtains problem where
    "d' = d\<lparr>pd_hard_constraints := map str_of hard, pd_soft_constraints := map str_of soft,
            pd_algorithm_problem := problem\<rparr>"
    "plan_document_checks hard soft d = Inr ()"
    "(case pd_algorithm_problem d of None \<Rightarrow> Inr None | Some p \<Rightarrow> bindE (normal_problem p) (\<lambda>q. Inr (Some q))) = Inr problem"
  using assms by (auto simp: plan_document_init_def bindE_Inr_iff)

lemma plan_document_checks_wf:
  assumes "plan_document_checks hard soft d = Inr ()" shows "plan_wf d"
proof -
  from assms obtain us u where
    c: "1 \<le> pd_version d" "\<And>v. pd_parent_version d = Some v \<Longrightarrow> v < pd_version d"
    "pd_tasks d \<noteq> []" "distinct (map pt_id (pd_tasks d))"
    "mapE (check_task_refs (set (map pt_id (pd_tasks d)))) (pd_tasks d) = Inr us"
    "check_cycles (map pt_id (pd_tasks d)) (task_graph (pd_tasks d)) = Inr u"
    unfolding plan_document_checks_def Let_def bindE_Inr_iff guardE_Inr_iff
    by (elim exE conjE) (auto split: option.splits)
  have refs: "\<forall>t\<in>set (pd_tasks d). set (pt_depends_on t) \<subseteq> pt_id ` set (pd_tasks d)
      \<and> pt_id t \<notin> set (pt_depends_on t)"
    using mapE_units [OF c(5)] by (simp add: check_task_refs_Inr)
  then have "acyclic (edges (map pt_id (pd_tasks d)) (task_graph (pd_tasks d)))"
    using dfs.check_iff [of "map pt_id (pd_tasks d)" "task_graph (pd_tasks d)"]
      task_graph_closed [of "pd_tasks d"] c(6) by simp
  with c refs show ?thesis by (simp add: plan_wf_def)
qed

lemma plan_document_init_wf: "plan_document_init hard soft d = Inr d' \<Longrightarrow> plan_wf d'"
  by (erule plan_document_init_Inr, drule plan_document_checks_wf) (simp add: plan_wf_def)

lemma plan_document_from_dict_wf:
  assumes "plan_document_from_dict loads fresh v = Inr d" shows "plan_wf d"
  using assms unfolding plan_document_from_dict_def Let_def
  by (auto simp: bindE_Inr_iff split: json.splits intro: plan_document_init_wf)

definition patch_view :: "patch_state \<Rightarrow> bool" where
  "patch_view s \<longleftrightarrow> distinct (map pt_id (ps_tasks s)) \<and> ps_by_id s = map_of (map (\<lambda>t. (pt_id t, t)) (ps_tasks s))"

definition op_target :: "(string \<times> json) list \<Rightarrow> string" where
  "op_target operation = strip (py_str (jget_default operation ''id'' (JStr [])))"

lemma plan_task_init_id: "plan_task_init loads tid a b c e = Inr t \<Longrightarrow> pt_id t = tid"
  unfolding plan_task_init_def bindE_Inr_iff sum.inject by (elim exE conjE, hypsubst, simp)

lemma view_lookup: "patch_view s \<Longrightarrow> ps_by_id s k = Some t \<longleftrightarrow> t \<in> set (ps_tasks s) \<and> pt_id t = k"
  by (auto simp: patch_view_def o_def dest: map_of_SomeD)

lemma view_None: "patch_view s \<Longrightarrow> ps_by_id s k = None \<longleftrightarrow> k \<notin> pt_id ` set (ps_tasks s)"
  by (auto simp: patch_view_def map_of_eq_None_iff image_image)

lemma map_of_rev_keys: "distinct (map fst xs) \<Longrightarrow> map_of (rev xs) = map_of xs"
proof (induction xs)
  case (Cons x xs)
  then have "fst x \<notin> dom (map_of xs)" by (auto simp: dom_map_of_conv_image_fst)
  with Cons show ?case by (auto simp: map_add_def fun_eq_iff split: option.splits)
qed simp

lemma map_of_rev_tasks:
  "distinct (map pt_id ts) \<Longrightarrow> map_of (map (\<lambda>t. (pt_id t, t)) (rev ts)) = map_of (map (\<lambda>t. (pt_id t, t)) ts)"
  using map_of_rev_keys [of "map (\<lambda>t. (pt_id t, t)) ts"] by (simp add: rev_map o_def)

lemma map_of_replace:
  "map_of (map (\<lambda>t. (pt_id t, t)) (map (\<lambda>t. if pt_id t = pt_id u then u else t) ts)) =
     (if pt_id u \<in> pt_id ` set ts then (map_of (map (\<lambda>t. (pt_id t, t)) ts))(pt_id u \<mapsto> u)
      else map_of (map (\<lambda>t. (pt_id t, t)) ts))"
  by (induction ts) (auto simp: fun_eq_iff)

lemma map_of_remove:
  "map_of (map (\<lambda>t. (pt_id t, t)) (filter (\<lambda>t. pt_id t \<noteq> k) ts)) = (map_of (map (\<lambda>t. (pt_id t, t)) ts))(k := None)"
  by (induction ts) (auto simp: fun_eq_iff)

lemma replace_ids: "map pt_id (map (\<lambda>t. if pt_id t = pt_id u then u else t) ts) = map pt_id ts"
  by (induction ts) auto

lemma replace_task_view:
  assumes "patch_view s" and "ps_by_id s (pt_id u) \<noteq> None" shows "patch_view (replace_task u s)"
proof -
  have "pt_id u \<in> pt_id ` set (ps_tasks s)" using view_None [OF assms(1), of "pt_id u"] assms(2) by blast
  then show ?thesis
    using assms(1) replace_ids [of u] map_of_replace [of u "ps_tasks s"]
    by (simp add: patch_view_def replace_task_def del: map_map)
qed

lemma replace_task_frame: "t \<in> set (ps_tasks s) \<Longrightarrow> pt_id t \<noteq> pt_id u \<Longrightarrow> t \<in> set (ps_tasks (replace_task u s))"
  by (force simp: replace_task_def)

lemma add_task_view:
  assumes "patch_view s" and "ps_by_id s (pt_id t) = None"
  shows "patch_view (s\<lparr>ps_by_id := (ps_by_id s)(pt_id t \<mapsto> t), ps_tasks := ps_tasks s @ [t]\<rparr>)"
proof -
  have "pt_id t \<notin> pt_id ` set (ps_tasks s)" using view_None [OF assms(1)] assms(2) by blast
  moreover from this have "map_of (map (\<lambda>t. (pt_id t, t)) (ps_tasks s)) (pt_id t) = None"
    by (simp add: map_of_eq_None_iff image_image)
  ultimately show ?thesis
    using assms(1) by (auto simp: patch_view_def map_add_def fun_eq_iff split: option.splits)
qed

text \<open>Every operation keeps the two views in step and leaves the tasks it does not name alone.\<close>

definition patch_keeps :: "string \<Rightarrow> patch_state \<Rightarrow> patch_state \<Rightarrow> bool" where
  "patch_keeps k s s' \<longleftrightarrow> patch_view s' \<and> (\<forall>t\<in>set (ps_tasks s). pt_id t \<noteq> k \<longrightarrow> t \<in> set (ps_tasks s'))"

lemma replace_keeps:
  "patch_view s \<Longrightarrow> ps_by_id s k \<noteq> None \<Longrightarrow> pt_id u = k \<Longrightarrow> patch_keeps k s (replace_task u s)"
  by (auto simp: patch_keeps_def intro: replace_task_view replace_task_frame)

lemma patch_step_keeps:
  assumes v: "patch_view s" and st: "patch_step loads operation s = Inr s'"
  shows "patch_keeps (op_target operation) s s'"
proof -
  define k where "k = op_target operation"
  have id: "ps_by_id s k = Some old \<Longrightarrow> pt_id old = k" for old using view_lookup [OF v] by blast
  have 1: "patch_add_task loads operation s = Inr s' \<Longrightarrow> patch_keeps k s s'"
    using v by (auto simp: patch_add_task_def bindE_Inr_iff patch_keeps_def add_task_view
        split: json.splits if_splits)
  have 2: "patch_remove_task k s = Inr s' \<Longrightarrow> patch_keeps k s s'"
    using v by (auto simp: patch_remove_task_def patch_keeps_def patch_view_def distinct_map_filter map_of_remove
        split: if_splits)
  have 3: "patch_update_task loads operation k s = Inr s' \<Longrightarrow> patch_keeps k s s'"
    unfolding patch_update_task_def
    by (auto simp: bindE_Inr_iff split: option.splits json.splits intro!: replace_keeps [OF v] dest: plan_task_init_id)
  have 4: "patch_dependency loads b operation k s = Inr s' \<Longrightarrow> patch_keeps k s s'" for b
    unfolding patch_dependency_def Let_def
    by (auto simp: bindE_Inr_iff split: option.splits if_splits intro!: replace_keeps [OF v]
        dest: plan_task_init_id id)
  have 5: "patch_acceptance loads operation k s = Inr s' \<Longrightarrow> patch_keeps k s s'"
    unfolding patch_acceptance_def
    by (auto simp: bindE_Inr_iff split: option.splits intro!: replace_keeps [OF v] dest: plan_task_init_id id)
  have 6: "patch_constraints operation s = Inr s' \<Longrightarrow> patch_keeps k s s'"
    using v unfolding patch_constraints_def
    by (auto simp: patch_keeps_def patch_view_def split: json.splits)
  have 7: "bindE (budget_from_dict (getn operation ''budget'')) (\<lambda>b. Inr (s\<lparr>ps_budget := b\<rparr>)) = Inr s'
      \<Longrightarrow> patch_keeps k s s'"
    using v by (auto simp: bindE_Inr_iff patch_keeps_def patch_view_def)
  have 8: "patch_keeps k s s" using v by (simp add: patch_keeps_def)
  from st show ?thesis
    using 1 2 3 4 5 6 7 8 unfolding patch_step_def Let_def k_def op_target_def [symmetric]
    by (simp split: if_splits)
qed

lemma patch_steps_keep:
  "foldE (patch_step loads) ops s = Inr s' \<Longrightarrow> patch_view s \<Longrightarrow>
     patch_view s' \<and> (\<forall>t\<in>set (ps_tasks s). pt_id t \<notin> op_target ` set ops \<longrightarrow> t \<in> set (ps_tasks s'))"
proof (induction ops arbitrary: s)
  case (Cons oper ops)
  from Cons.prems obtain u where u: "patch_step loads oper s = Inr u" "foldE (patch_step loads) ops u = Inr s'"
    by (auto simp: bindE_Inr_iff)
  have "patch_keeps (op_target oper) s u" by (rule patch_step_keeps [OF Cons.prems(2) u(1)])
  with Cons.IH [OF u(2)] show ?case by (auto simp: patch_keeps_def)
qed simp

text \<open>C34. A patch that applies yields the next version of the same plan: well formed (task ids distinct, every
  dependency known, no cycle), one version higher with the old version as parent, and every task that
  no operation names is carried over unchanged.\<close>
theorem apply_patch_next_revision:
  assumes "plan_wf d" and "apply_patch loads d p = Inr d'"
  shows "plan_wf d' \<and> pd_plan_id d' = pd_plan_id d \<and> pd_goal d' = pd_goal d
    \<and> pd_version d' = pp_base_version p + 1 \<and> pd_parent_version d' = Some (pd_version d)
    \<and> pd_evidence d' = pd_evidence d @ pp_evidence p
    \<and> (\<forall>t\<in>set (pd_tasks d). pt_id t \<notin> op_target ` set (pp_operations p) \<longrightarrow> t \<in> set (pd_tasks d'))"
proof -
  let ?s0 = "\<lparr>ps_tasks = pd_tasks d, ps_by_id = map_of (map (\<lambda>t. (pt_id t, t)) (rev (pd_tasks d))),
     ps_hard = map JStr (pd_hard_constraints d), ps_soft = map JStr (pd_soft_constraints d),
     ps_budget = pd_budget d\<rparr>"
  from assms(2) obtain s where base: "pp_base_version p = pd_version d"
    and s: "foldE (patch_step loads) (pp_operations p) ?s0 = Inr s"
    and d': "plan_document_init (ps_hard s) (ps_soft s)
         (d\<lparr>pd_tasks := ps_tasks s, pd_version := pd_version d + 1, pd_parent_version := Some (pd_version d),
            pd_evidence := pd_evidence d @ pp_evidence p, pd_budget := ps_budget s\<rparr>) = Inr d'"
    unfolding apply_patch_def bindE_Inr_iff guardE_Inr_iff by auto
  have dist: "distinct (map pt_id (pd_tasks d))" using assms(1) by (simp add: plan_wf_def)
  then have "patch_view ?s0"
    by (simp add: patch_view_def map_of_rev_tasks)
  with patch_steps_keep [OF s] have frame:
    "\<forall>t\<in>set (pd_tasks d). pt_id t \<notin> op_target ` set (pp_operations p) \<longrightarrow> t \<in> set (ps_tasks s)" by simp
  from d' show ?thesis
  proof (cases rule: plan_document_init_Inr)
    case (1 problem)
    with frame base plan_document_init_wf [OF d'] show ?thesis by simp
  qed
qed

section \<open>Saving and loading\<close>

lemma plan_text_Inr:
  "plan_text v f True = Inr t \<longleftrightarrow>
     (\<exists>s. v = JStr s \<and> t = strip s \<and> t \<noteq> [] \<and> length t \<le> PLAN_TEXT_BYTES \<and> \<not> secret_search t)"
  by (auto simp: plan_text_def Let_def split: json.splits if_splits)

lemma plan_text_idem: "plan_text v f True = Inr t \<Longrightarrow> plan_text (JStr t) f' True = Inr t"
  by (auto simp: plan_text_Inr)

lemma mapE_plan_text_idem:
  "mapE (\<lambda>k. plan_text k f True) ks = Inr ts \<Longrightarrow> mapE (\<lambda>k. plan_text k f True) (map JStr ts) = Inr ts"
  by (induction ks arbitrary: ts) (auto simp: bindE_Inr_iff plan_text_idem)

lemma plan_strings_idem: "plan_strings v f = Inr ts \<Longrightarrow> plan_strings (JArr (map JStr ts)) f = Inr ts"
  by (auto simp: plan_strings_def mapE_plan_text_idem dest: mapE_length split: json.splits if_splits)

lemma json_object_empty: "json_object (JObj []) f = Inr []"
  by (simp add: json_object_def Let_def join_with_def match_sk_def match_bearer_def match_api_key_def
      strip_prefix_ci_def lower_def lower_char_def)

lemma json_object_idem: "json_object v f = Inr items \<Longrightarrow> json_object (JObj items) f' = Inr items"
  using json_object_empty by (auto simp: json_object_def Let_def split: json.splits if_splits)

lemma all_strings: "(\<forall>d\<in>set deps. \<exists>s. d = JStr s) \<Longrightarrow> map JStr (map str_of deps) = deps"
  by (induction deps) (auto simp: str_of_def)

lemma getd_simps [simp]:
  "jget_default ((k, v) # items) k' d = (if k = k' then v else jget_default items k' d)"
  "jget_default [] k' d = d"
  by (simp_all add: jget_default_def)

lemma plan_task_init_fields:
  assumes "plan_task_init loads tid title prompt deps acceptance = Inr t"
  shows "t = \<lparr>pt_id = tid, pt_title = str_of title, pt_prompt = str_of prompt,
            pt_depends_on = map str_of deps, pt_acceptance = acceptance\<rparr>"
  using assms unfolding plan_task_init_def bindE_Inr_iff sum.inject by (elim exE conjE, hypsubst, simp)

lemma plan_task_roundtrip:
  assumes "plan_task_from_dict loads v = Inr t"
  shows "plan_task_from_dict loads (plan_task_to_dict t) = Inr t"
proof -
  from assms obtain items deps tid title prompt where
    deps: "\<forall>d\<in>set deps. \<exists>s. d = JStr s" and
    a: "plan_text (getn items ''id'') ''task id'' True = Inr tid"
       "plan_text (jget_default items ''title'' (getn items ''id'')) ''task title'' True = Inr title"
       "plan_text (getn items ''prompt'') ''task prompt'' True = Inr prompt" and
    t: "plan_task_init loads tid (JStr title) (JStr prompt) deps (getn items ''acceptance'') = Inr t"
    unfolding plan_task_from_dict_def
    by (auto simp: bindE_Inr_iff split: json.splits if_splits)
  from deps have d: "map JStr (map str_of deps) = deps" by (rule all_strings)
  have td: "plan_task_to_dict t = JObj [(''id'', JStr tid), (''title'', JStr title), (''prompt'', JStr prompt),
      (''depends_on'', JArr deps), (''acceptance'', getn items ''acceptance'')]"
    unfolding plan_task_init_fields [OF t] using d by (simp add: plan_task_to_dict_def str_of_def)
  have ns: "\<not> (\<exists>d\<in>set deps. case d of JStr s \<Rightarrow> False | _ \<Rightarrow> True)"
    using deps by auto
  show ?thesis
    unfolding td plan_task_from_dict_def
    using ns t plan_text_idem [OF a(1), of "''task id''"] plan_text_idem [OF a(2), of "''task title''"]
      plan_text_idem [OF a(3), of "''task prompt''"] by simp
qed

lemma plan_tasks_roundtrip:
  "mapE (plan_task_from_dict loads) vs = Inr ts \<Longrightarrow>
     mapE (plan_task_from_dict loads) (map plan_task_to_dict ts) = Inr ts"
  by (induction vs arbitrary: ts) (auto simp: bindE_Inr_iff dest: plan_task_roundtrip)


lemma plan_document_checks_update [simp]:
  "plan_document_checks hard soft (d\<lparr>pd_hard_constraints := h, pd_soft_constraints := t, pd_algorithm_problem := p\<rparr>) =
     plan_document_checks hard soft d"
  by (simp add: plan_document_checks_def Let_def cong: option.case_cong)

lemma plan_document_init_idem:
  assumes i: "plan_document_init (map JStr hs) (map JStr ss) d = Inr d'"
  shows "plan_document_init (map JStr hs) (map JStr ss) d' = Inr d' \<and> pd_algorithm_problem d' \<noteq> Some JNull"
  using i
proof (cases rule: plan_document_init_Inr)
  case (1 problem)
  have "(case problem of None \<Rightarrow> Inr None | Some p \<Rightarrow> bindE (normal_problem p) (\<lambda>q. Inr (Some q))) = Inr problem
      \<and> problem \<noteq> Some JNull"
    using 1(3) normal_problem_idem by (auto simp: bindE_Inr_iff split: option.splits)
  moreover have "plan_document_checks (map JStr hs) (map JStr ss) d' = Inr ()"
    using 1(2) by (simp add: 1(1))
  ultimately show ?thesis by (simp add: plan_document_init_def 1(1))
qed

text \<open>C35. A plan document that was loaded is stable: writing it out with \<^verbatim>\<open>to_dict\<close> and loading that again
  returns the very same document, its algorithm problem included.\<close>
theorem plan_document_roundtrip:
  assumes d: "plan_document_from_dict loads fresh v = Inr d"
  shows "plan_document_from_dict loads fresh' (JObj (plan_document_to_dict d)) = Inr d"
proof -
  from d obtain items raw tasks goal pid version parent hard soft evidence assumptions acceptance
      verification delivery budget where
    a: "mapE (plan_task_from_dict loads) raw = Inr tasks"
       "plan_text (getn items ''goal'') ''plan goal'' True = Inr goal"
       "plan_text (jget_default items ''plan_id'' (JStr fresh)) ''plan id'' True = Inr pid"
       "plan_strings (getn items ''hard_constraints'') ''hard constraints'' = Inr hard"
       "plan_strings (getn items ''soft_constraints'') ''soft constraints'' = Inr soft"
       "plan_strings (getn items ''evidence'') ''evidence'' = Inr evidence"
       "plan_strings (getn items ''assumptions'') ''assumptions'' = Inr assumptions"
       "json_object (getn items ''acceptance'') ''acceptance'' = Inr acceptance"
       "json_object (getn items ''verification'') ''verification'' = Inr verification"
       "json_object (getn items ''delivery'') ''delivery'' = Inr delivery"
       "budget_from_dict (getn items ''budget'') = Inr budget" and
    i: "plan_document_init (map JStr hard) (map JStr soft)
                   \<lparr>pd_goal = goal, pd_tasks = tasks, pd_plan_id = pid, pd_version = version,
                    pd_parent_version = parent,
                    pd_schema_version = py_str (jget_default items ''schema_version'' (JStr ''1'')),
                    pd_hard_constraints = hard, pd_soft_constraints = soft,
                    pd_objective = jget_default items ''objective'' (JStr []),
                    pd_evidence = evidence, pd_assumptions = assumptions, pd_acceptance = acceptance,
                    pd_verification = verification, pd_delivery = delivery, pd_budget = budget,
                    pd_algorithm_problem =
                      (if getn items ''algorithm_problem'' = JNull then None
                       else Some (getn items ''algorithm_problem''))\<rparr> = Inr d"
      (is "plan_document_init _ _ ?d0 = _")
    unfolding plan_document_from_dict_def Let_def
    by (simp split: json.splits) (auto simp: bindE_Inr_iff)
  have init: "plan_document_init (map JStr hard) (map JStr soft) d = Inr d"
    and np: "pd_algorithm_problem d \<noteq> Some JNull"
    using plan_document_init_idem [OF i] by blast+
  obtain problem where dd: "d = ?d0\<lparr>pd_hard_constraints := map str_of (map JStr hard),
      pd_soft_constraints := map str_of (map JStr soft), pd_algorithm_problem := problem\<rparr>"
    using i by (cases rule: plan_document_init_Inr) blast
  note rt = plan_tasks_roundtrip [OF a(1)] plan_text_idem [OF a(2), of "''plan goal''"]
    plan_text_idem [OF a(3), of "''plan id''"] plan_strings_idem [OF a(4)] plan_strings_idem [OF a(5)]
    plan_strings_idem [OF a(6)] plan_strings_idem [OF a(7)]
    json_object_idem [OF a(8), of "''acceptance''"] json_object_idem [OF a(9), of "''verification''"]
    json_object_idem [OF a(10), of "''delivery''"] budget_dict_roundtrip [OF budget_from_dict_ok [OF a(11)]]
  show ?thesis
    using rt init np
    by (cases problem; cases parent)
      (simp_all add: dd plan_document_from_dict_def plan_document_to_dict_def opt_int_def Let_def py_str_def)
qed

section \<open>Witnesses\<close>

definition sample_plan :: plan_document where
  "sample_plan = \<lparr>pd_goal = ''g'', pd_tasks = [\<lparr>pt_id = ''a'', pt_title = ''a'', pt_prompt = ''p'',
       pt_depends_on = [], pt_acceptance = JNull\<rparr>], pd_plan_id = ''q'', pd_version = 1,
     pd_parent_version = None, pd_schema_version = ''1'', pd_hard_constraints = [], pd_soft_constraints = [],
     pd_objective = JStr [], pd_evidence = [], pd_assumptions = [], pd_acceptance = [],
     pd_verification = [], pd_delivery = [], pd_budget = default_budget, pd_algorithm_problem = None\<rparr>"

definition sample_json :: json where
  "sample_json = JObj [(''goal'', JStr ''g''), (''plan_id'', JStr ''q''),
     (''tasks'', JArr [JObj [(''id'', JStr ''a''), (''prompt'', JStr ''p'')]])]"

lemma sample_plan_loads: "plan_document_from_dict (\<lambda>_. None) ''f'' sample_json = Inr sample_plan"
  by code_simp

definition sample_patch :: plan_patch where
  "sample_patch = \<lparr>pp_plan_id = ''q'', pp_base_version = 1, pp_reason = ''r'',
     pp_operations = [[(''op'', JStr ''remove_dependency''), (''id'', JStr ''a''), (''dependency'', JStr ''a'')],
                      [(''op'', JStr ''add_task''), (''task'', JObj [(''id'', JStr ''b''), (''prompt'', JStr ''p''),
                         (''depends_on'', JArr [JStr ''a''])])]],
     pp_evidence = []\<rparr>"

lemma sample_patch_applies:
  "is_ok (apply_patch (\<lambda>_. None) sample_plan sample_patch)"
  by code_simp
lemma sample_plan_wf: "plan_wf sample_plan"
  using sample_plan_loads by (rule plan_document_from_dict_wf)

theorem apply_patch_next_revision_witness:
  "\<exists>d'. apply_patch (\<lambda>_. None) sample_plan sample_patch = Inr d'
     \<and> plan_wf d' \<and> pd_version d' = 2"
proof -
  obtain d' where d': "apply_patch (\<lambda>_. None) sample_plan sample_patch = Inr d'"
    using sample_patch_applies by (auto simp: is_ok_iff)
  from apply_patch_next_revision [OF sample_plan_wf d'] d' show ?thesis
    by (auto simp: sample_patch_def)
qed

theorem plan_document_roundtrip_witness:
  "plan_document_from_dict (\<lambda>_. None) ''z'' (JObj (plan_document_to_dict sample_plan)) = Inr sample_plan"
  by (rule plan_document_roundtrip [OF sample_plan_loads])

end
