(* ===== verification/Routing.thy ===== *)
theory Routing imports Plan begin

text \<open>
  The deterministic domain router of \<^verbatim>\<open>routing.py\<close>.  A signal is paired with whether it is an
  ASCII word, which decides between the word search (the pattern
  \<^verbatim>\<open>(?<![a-z0-9_])signal(?![a-z0-9_])\<close>) and the substring search.  A confidence is the exact
  decimal the code writes, not its nearest double.
\<close>

section \<open>Route decisions\<close>

record route_decision =
  ro_domain :: string
  ro_reason :: string
  ro_confidence :: rat
  ro_capabilities :: "string list"
  ro_solver :: string
  ro_evaluator :: string
  ro_budget :: budget_spec
  ro_evidence :: "string list"

definition ROUTE_ITEMS :: nat where "ROUTE_ITEMS = 16"

definition route_text :: "json \<Rightarrow> string \<Rightarrow> string result" where
  "route_text value name =
     (case value of
        JStr s \<Rightarrow>
          (if strip s = [] then Inl (ValueError (name @ '' must be a non-empty string''))
           else if 8000 < length (strip s) \<or> secret_search (strip s)
           then Inl (ValueError (name @ '' is too large or contains credential-like content''))
           else Inr (strip s))
      | _ \<Rightarrow> Inl (ValueError (name @ '' must be a non-empty string'')))"

definition route_init :: "route_decision \<Rightarrow> route_decision result" where
  "route_init r =
     bindE (route_text (JStr (ro_domain r)) ''domain'') (\<lambda>_.
     bindE (route_text (JStr (ro_reason r)) ''route reason'') (\<lambda>_.
     bindE (guardE (\<not> (0 \<le> ro_confidence r \<and> ro_confidence r \<le> 1))
              (ValueError ''route confidence must be between 0 and 1'')) (\<lambda>_.
     bindE (route_text (JStr (ro_solver r)) ''solver profile'') (\<lambda>_.
     bindE (route_text (JStr (ro_evaluator r)) ''evaluator profile'') (\<lambda>_.
     bindE (guardE (ROUTE_ITEMS < length (ro_capabilities r) \<or> ROUTE_ITEMS < length (ro_evidence r))
              (ValueError ''route arrays are too large'')) (\<lambda>_.
     bindE (mapE (\<lambda>i. route_text (JStr i) ''route item'') (ro_capabilities r @ ro_evidence r)) (\<lambda>_.
       Inr r)))))))"

definition route_to_dict :: "route_decision \<Rightarrow> (string \<times> json) list" where
  "route_to_dict r =
     [(''domain'', JStr (ro_domain r)), (''reason'', JStr (ro_reason r)),
      (''confidence'', JFloat (ro_confidence r) []),
      (''required_capabilities'', JArr (map JStr (ro_capabilities r))),
      (''solver_profile'', JStr (ro_solver r)), (''evaluator_profile'', JStr (ro_evaluator r)),
      (''budget'', JObj (budget_to_dict (ro_budget r))),
      (''evidence'', JArr (map JStr (ro_evidence r)))]"

section \<open>The router\<close>

definition route_signals :: "(string \<times> (bool \<times> string) list) list" where
  "route_signals =
     [(''coding'',
        [(True, ''code''),
         (True, ''coding''),
         (True, ''bug''),
         (True, ''debug''),
         (True, ''test''),
         (True, ''pytest''),
         (True, ''repository''),
         (False, utf8 [228, 187, 163, 231, 160, 129]),
         (False, utf8 [229, 188, 128, 229, 143, 145]),
         (False, utf8 [230, 181, 139, 232, 175, 149]),
         (False, utf8 [228, 191, 174, 229, 164, 141])]),
      (''data'',
        [(True, ''csv''),
         (True, ''spreadsheet''),
         (True, ''excel''),
         (True, ''sql''),
         (True, ''dataset''),
         (True, ''dataframe''),
         (False, utf8 [230, 149, 176, 230, 141, 174]),
         (False, utf8 [232, 161, 168, 230, 160, 188]),
         (False, utf8 [232, 129, 154, 229, 144, 136]),
         (False, utf8 [231, 187, 159, 232, 174, 161])]),
      (''research'',
        [(True, ''research''),
         (True, ''literature''),
         (True, ''sources''),
         (True, ''citations''),
         (True, ''paper''),
         (False, utf8 [232, 176, 131, 230, 159, 165]),
         (False, utf8 [231, 160, 148, 231, 169, 182]),
         (False, utf8 [230, 150, 135, 231, 140, 174]),
         (False, utf8 [229, 188, 149, 231, 148, 168])])]"

definition word_char :: "char \<Rightarrow> bool" where
  "word_char c = (let n = of_char c :: nat in
     (97 \<le> n \<and> n \<le> 122) \<or> (48 \<le> n \<and> n \<le> 57) \<or> c = CHR ''_'')"

text \<open>\<open>word_at p prev s\<close>: some position of \<open>s\<close>, whose preceding character is \<open>prev\<close>, starts the word \<open>p\<close>.\<close>

fun word_search :: "string \<Rightarrow> bool \<Rightarrow> string \<Rightarrow> bool" where
  "word_search p prev s =
     ((\<not> prev \<and> starts_with p s \<and> (case drop (length p) s of [] \<Rightarrow> True | c # _ \<Rightarrow> \<not> word_char c))
      \<or> (case s of [] \<Rightarrow> False | c # cs \<Rightarrow> word_search p (word_char c) cs))"

declare word_search.simps [simp del]

definition signal_matches :: "string \<Rightarrow> bool \<times> string \<Rightarrow> bool" where
  "signal_matches lowered sig =
     (if fst sig then word_search (lower (snd sig)) False lowered else contains (lower (snd sig)) lowered)"

definition route_matches :: "string \<Rightarrow> (string \<times> string) list" where
  "route_matches lowered =
     concat (map (\<lambda>(d, sigs). map (\<lambda>sg. (d, snd sg)) (filter (signal_matches lowered) sigs)) route_signals)"

definition domain_capabilities :: "string \<Rightarrow> string list" where
  "domain_capabilities d =
     (if d = ''coding'' then [''read_files'', ''write_files'', ''run_tests'', ''write_artifacts'']
      else if d = ''data'' then [''read_files'', ''write_files'', ''analyze_data'', ''write_artifacts'']
      else [''read_files'', ''gather_sources'', ''write_artifacts''])"

definition route :: "json \<Rightarrow> route_decision result" where
  "route goal0 =
     bindE (route_text goal0 ''goal'') (\<lambda>goal.
     let matches = route_matches (lower goal) in
     case find (\<lambda>(d, _). d \<in> fst ` set matches) route_signals of
       None \<Rightarrow> route_init
         \<lparr>ro_domain = ''general'', ro_reason = ''no domain-specific signal detected'',
          ro_confidence = 62 / 100, ro_capabilities = [''read_files'', ''write_artifacts''],
          ro_solver = ''general'', ro_evaluator = ''general'', ro_budget = default_budget,
          ro_evidence = [''fallback:general'']\<rparr>
     | Some (domain, _) \<Rightarrow>
         (let evidence = take ROUTE_ITEMS (map (\<lambda>(d, sg). ''signal:'' @ sg) (filter (\<lambda>(d, _). d = domain) matches));
              confidence = min (95 / 100) (78 / 100 + 4 / 100 * of_int (int (length evidence) - 1))
          in route_init
               \<lparr>ro_domain = domain, ro_reason = ''matched '' @ domain @ '' goal signals'',
                ro_confidence = confidence, ro_capabilities = domain_capabilities domain,
                ro_solver = domain, ro_evaluator = domain, ro_budget = default_budget,
                ro_evidence = evidence\<rparr>))"

end
