(* ===== verification/Tables.thy ===== *)
theory Tables imports Routing "HOL-Library.Product_Lexorder" begin

text \<open>
  The SQLite tables of \<^verbatim>\<open>store.py\<close> as lists of row records, in row-id order, and the statements the
  store uses on them.  A JSON text column that only ever holds the rendering of a string list is
  that list; a payload column is the decoded object.  A time stamp is a natural number: the
  readings of \<^verbatim>\<open>utc_now()\<close> come from the arbitrary \<open>timeline\<close>, one per tick.
  A random event id is the tick at which it is drawn.
\<close>

section \<open>Status values\<close>

datatype run_status = Run_pending | Run_running | Run_awaiting_input | Run_succeeded | Run_failed | Run_cancelled

datatype task_status = Pending | Ready | Running | Waiting | Blocked | Succeeded | Failed | Cancelled
  | Superseded | Uncertain

datatype attempt_status = At_running | At_succeeded | At_failed | At_awaiting_input | At_uncertain | At_cancelled

datatype worker_phase = Ph_running | Ph_idle
datatype worker_outcome = Wo_success | Wo_failure | Wo_stopped | Wo_lost
datatype worker_attempt_status = Wa_running | Wa_finished
datatype binding_status = Bn_active | Bn_delivering | Bn_settled | Bn_discarded | Bn_lost
datatype stop_reason = Sr_cancelled | Sr_parent_cancelled | Sr_timeout | Sr_runtime_error
  | Sr_process_cleanup | Sr_restart

definition run_status_text :: "run_status \<Rightarrow> string" where
  "run_status_text s = (case s of Run_pending \<Rightarrow> ''pending'' | Run_running \<Rightarrow> ''running''
     | Run_awaiting_input \<Rightarrow> ''awaiting_input'' | Run_succeeded \<Rightarrow> ''succeeded''
     | Run_failed \<Rightarrow> ''failed'' | Run_cancelled \<Rightarrow> ''cancelled'')"

definition worker_outcome_text :: "worker_outcome \<Rightarrow> string" where
  "worker_outcome_text v = (case v of Wo_success \<Rightarrow> ''success'' | Wo_failure \<Rightarrow> ''failure''
     | Wo_stopped \<Rightarrow> ''stopped'' | Wo_lost \<Rightarrow> ''lost'')"

definition stop_reason_text :: "stop_reason \<Rightarrow> string" where
  "stop_reason_text v = (case v of Sr_cancelled \<Rightarrow> ''cancelled'' | Sr_parent_cancelled \<Rightarrow> ''parent_cancelled''
     | Sr_timeout \<Rightarrow> ''timeout'' | Sr_runtime_error \<Rightarrow> ''runtime_error''
     | Sr_process_cleanup \<Rightarrow> ''process_cleanup'' | Sr_restart \<Rightarrow> ''restart'')"

section \<open>Rows\<close>

record run_row =
  rr_id :: string
  rr_goal :: string
  rr_status :: run_status
  rr_workspace :: string
  rr_created :: nat
  rr_updated :: nat
  rr_runner_pid :: "int option"
  rr_runner_pgid :: "int option"
  rr_plan_id :: "string option"
  rr_plan_version :: "int option"
  rr_route :: "route_decision option"
  rr_budget :: budget_spec

record task_row =
  tr_id :: string
  tr_run :: string
  tr_title :: string
  tr_prompt :: string
  tr_state :: task_status
  tr_attempts :: nat
  tr_result_path :: "string option"
  tr_last_error :: "string option"
  tr_dependencies :: "string list"
  tr_acceptance :: "string option"
  tr_question :: "string option"
  tr_options :: "string list"
  tr_answer_path :: "string option"
  tr_plan_task :: "string option"
  tr_orchestration :: bool
  tr_created :: nat
  tr_updated :: nat

record attempt_row =
  ar_id :: string
  ar_task :: string
  ar_runtime :: string
  ar_status :: attempt_status
  ar_started :: nat
  ar_finished :: "nat option"
  ar_heartbeat :: "nat option"
  ar_error :: "string option"
  ar_pid :: "int option"
  ar_pgid :: "int option"

datatype event_id = Fresh_event nat | Named_event string

record event_row =
  ev_id :: event_id
  ev_run :: string
  ev_task :: "string option"
  ev_type :: string
  ev_payload :: "(string \<times> json) list"
  ev_created :: nat

record artifact_row =
  fa_id :: string
  fa_run :: string
  fa_task :: string
  fa_path :: string
  fa_sha256 :: string
  fa_size :: int
  fa_kind :: string
  fa_created :: nat

record revision_row =
  rv_plan :: string
  rv_run :: string
  rv_version :: int
  rv_parent :: "int option"
  rv_document :: json
  rv_created :: nat

record decision_row =
  dc_id :: string
  dc_run :: "string option"
  dc_action :: string
  dc_payload :: "(string \<times> json) list"
  dc_created :: nat

record worker_row =
  wr_id :: string
  wr_owner :: string
  wr_parent :: "string option"
  wr_role :: string
  wr_agent_type :: string
  wr_description :: string
  wr_depth :: nat
  wr_phase :: worker_phase
  wr_outcome :: "worker_outcome option"
  wr_stop_reason :: "stop_reason option"
  wr_result :: "string option"
  wr_result_ref :: "string option"
  wr_last_error :: "string option"
  wr_created :: nat
  wr_updated :: nat

record worker_attempt_row =
  wa_id :: string
  wa_worker :: string
  wa_prompt :: string
  wa_status :: worker_attempt_status
  wa_started :: nat
  wa_finished :: "nat option"
  wa_outcome :: "worker_outcome option"
  wa_result :: "string option"
  wa_error :: "string option"
  wa_service_owner :: "string option"

record worker_process_row =
  wp_attempt :: string
  wp_pid :: int
  wp_pgid :: int
  wp_created :: nat

record worker_input_row =
  wi_id :: string
  wi_worker :: string
  wi_content :: string
  wi_created :: nat

record worker_event_row =
  we_id :: event_id
  we_worker :: string
  we_type :: string
  we_payload :: "(string \<times> json) list"
  we_created :: nat

record binding_row =
  bn_worker :: string
  bn_worker_attempt :: string
  bn_run :: string
  bn_task :: string
  bn_task_attempt :: string
  bn_service_owner :: string
  bn_status :: binding_status
  bn_active_timeout :: "rat option"
  bn_created :: nat
  bn_updated :: nat

record worker_result_row =
  wx_attempt :: string
  wx_worker :: string
  wx_schema :: string
  wx_payload :: string
  wx_sha256 :: string
  wx_size :: int
  wx_created :: nat

record ledger =
  timeline :: "nat \<Rightarrow> nat"
  ticks :: nat
  runs :: "run_row list"
  tasks :: "task_row list"
  attempts :: "attempt_row list"
  events :: "event_row list"
  artifacts :: "artifact_row list"
  revisions :: "revision_row list"
  decisions :: "decision_row list"
  workers :: "worker_row list"
  worker_attempts :: "worker_attempt_row list"
  worker_processes :: "worker_process_row list"
  worker_inputs :: "worker_input_row list"
  worker_events :: "worker_event_row list"
  bindings :: "binding_row list"
  worker_results :: "worker_result_row list"

definition empty_ledger :: "(nat \<Rightarrow> nat) \<Rightarrow> ledger" where
  "empty_ledger clock = \<lparr>timeline = clock, ticks = 0, runs = [], tasks = [], attempts = [], events = [],
     artifacts = [], revisions = [], decisions = [], workers = [], worker_attempts = [],
     worker_processes = [], worker_inputs = [], worker_events = [], bindings = [], worker_results = []\<rparr>"

section \<open>Transactions\<close>

text \<open>
  A store operation either raises, and the transaction rolls back, or commits a new ledger.  A
  caller of a raising operation keeps the ledger it had.
\<close>

type_synonym 'a store = "ledger \<Rightarrow> (py_error + 'a \<times> ledger)"

definition ret :: "'a \<Rightarrow> 'a store" where
  "ret x s = Inr (x, s)"

definition raise :: "py_error \<Rightarrow> 'a store" where
  "raise e s = Inl e"

definition bindS :: "'a store \<Rightarrow> ('a \<Rightarrow> 'b store) \<Rightarrow> 'b store" where
  "bindS m f s = (case m s of Inl e \<Rightarrow> Inl e | Inr (x, s') \<Rightarrow> f x s')"

definition lift :: "'a result \<Rightarrow> 'a store" where
  "lift r s = (case r of Inl e \<Rightarrow> Inl e | Inr x \<Rightarrow> Inr (x, s))"

definition ask :: "(ledger \<Rightarrow> 'a) \<Rightarrow> 'a store" where
  "ask q s = Inr (q s, s)"

definition modify :: "(ledger \<Rightarrow> ledger) \<Rightarrow> unit store" where
  "modify g s = Inr ((), g s)"

fun forS :: "('a \<Rightarrow> unit store) \<Rightarrow> 'a list \<Rightarrow> unit store" where
  "forS f [] = ret ()"
| "forS f (x # xs) = bindS (f x) (\<lambda>_. forS f xs)"

definition utc_now :: "nat store" where
  "utc_now s = Inr (timeline s (ticks s), s\<lparr>ticks := Suc (ticks s)\<rparr>)"

text \<open>What remains of the ledger when the caller ignores the outcome of an operation.\<close>

definition after :: "'a store \<Rightarrow> ledger \<Rightarrow> ledger" where
  "after m s = (case m s of Inl e \<Rightarrow> s | Inr (_, s') \<Rightarrow> s')"

lemma store_simps [simp, table_simps]:
  "ret x s = Inr (x, s)"
  "raise e s = Inl e"
  "lift (Inl e) s = Inl e"
  "lift (Inr x) s = Inr (x, s)"
  "ask q s = Inr (q s, s)"
  "modify g s = Inr ((), g s)"
  by (simp_all add: ret_def raise_def lift_def ask_def modify_def)

lemma bindS_Inr_iff:
  "bindS m f s = Inr r \<longleftrightarrow> (\<exists>x u. m s = Inr (x, u) \<and> f x u = Inr r)"
  by (auto simp: bindS_def split: sum.splits)

lemma bindS_Inr [simp]: "m s = Inr (x, u) \<Longrightarrow> bindS m f s = f x u"
  by (simp add: bindS_def)

lemma bindS_Inl [simp]: "m s = Inl e \<Longrightarrow> bindS m f s = Inl e"
  by (simp add: bindS_def)

lemma lift_Inr_iff: "lift r s = Inr (x, u) \<longleftrightarrow> r = Inr x \<and> u = s"
  by (cases r) auto

lemma bindS_ask [simp, table_simps]: "bindS (ask q) f s = f (q s) s"
  by (simp add: bindS_def)

lemma bindS_modify [simp, table_simps]: "bindS (modify g) f s = f () (g s)"
  by (simp add: bindS_def)

lemma bindS_utc [simp, table_simps]:
  "bindS utc_now f s = f (timeline s (ticks s)) (s\<lparr>ticks := Suc (ticks s)\<rparr>)"
  by (simp add: bindS_def utc_now_def)

section \<open>Statements on one table\<close>

definition insert_row :: "('r \<Rightarrow> 'k) \<Rightarrow> 'r \<Rightarrow> 'r list \<Rightarrow> 'r list result" where
  "insert_row key r t =
     (if key r \<in> set (map key t) then Inl (IntegrityError ''UNIQUE constraint failed'') else Inr (t @ [r]))"

definition update_rows :: "('r \<Rightarrow> bool) \<Rightarrow> ('r \<Rightarrow> 'r) \<Rightarrow> 'r list \<Rightarrow> 'r list" where
  "update_rows P f t = map (\<lambda>r. if P r then f r else r) t"

definition row_count :: "('r \<Rightarrow> bool) \<Rightarrow> 'r list \<Rightarrow> nat" where
  "row_count P t = length (filter P t)"

definition fetch_one :: "('r \<Rightarrow> bool) \<Rightarrow> 'r list \<Rightarrow> 'r option" where
  "fetch_one P t = find P t"

text \<open>
  The contract of a keyed table.  A client gets from it that keys stay unique, that an inserted
  row is found again, and what a lookup returns after an update.
\<close>

locale keyed_table =
  fixes key :: "'r \<Rightarrow> 'k"
    and ins :: "'r \<Rightarrow> 'r list \<Rightarrow> 'r list result"
    and upd :: "('r \<Rightarrow> bool) \<Rightarrow> ('r \<Rightarrow> 'r) \<Rightarrow> 'r list \<Rightarrow> 'r list"
  assumes ins_Inr: "ins r t = Inr t' \<longleftrightarrow> key r \<notin> key ` set t \<and> t' = t @ [r]"
    and upd_eq: "upd P f t = map (\<lambda>r. if P r then f r else r) t"
begin

definition lookup :: "'k \<Rightarrow> 'r list \<Rightarrow> 'r option" where
  "lookup k t = find (\<lambda>r. key r = k) t"

lemma lookup_Some: "lookup k t = Some r \<Longrightarrow> r \<in> set t \<and> key r = k"
  by (auto simp: lookup_def dest: find_Some_iff_first)

lemma lookup_None: "lookup k t = None \<longleftrightarrow> k \<notin> key ` set t"
  by (auto simp: lookup_def find_None_set)

lemma lookup_in: "distinct (map key t) \<Longrightarrow> r \<in> set t \<Longrightarrow> lookup (key r) t = Some r"
  by (simp add: lookup_def find_distinct_key)

lemma insert_distinct: "distinct (map key t) \<Longrightarrow> ins r t = Inr t' \<Longrightarrow> distinct (map key t')"
  by (auto simp: ins_Inr)

lemma insert_lookup:
  "ins r t = Inr t' \<Longrightarrow> lookup k t' = (if k = key r then Some r else lookup k t)"
  unfolding ins_Inr lookup_def by (elim conjE, hypsubst_thin) (induction t, auto)

lemma update_keys: "(\<And>r. r \<in> set t \<Longrightarrow> P r \<Longrightarrow> key (f r) = key r) \<Longrightarrow> map key (upd P f t) = map key t"
  by (auto simp: upd_eq)

lemma update_lookup:
  "(\<And>r. P r \<Longrightarrow> key (f r) = key r) \<Longrightarrow>
     lookup k (upd P f t) = map_option (\<lambda>r. if P r then f r else r) (lookup k t)"
  unfolding lookup_def upd_eq by (induction t) auto

end

lemma keyed_table_rows: "keyed_table key (insert_row key) update_rows"
  by unfold_locales (auto simp: insert_row_def update_rows_def)

interpretation run_table: keyed_table rr_id "insert_row rr_id" update_rows
  by (rule keyed_table_rows)

interpretation task_table: keyed_table tr_id "insert_row tr_id" update_rows
  by (rule keyed_table_rows)

interpretation attempt_table: keyed_table ar_id "insert_row ar_id" update_rows
  by (rule keyed_table_rows)

interpretation worker_table: keyed_table wr_id "insert_row wr_id" update_rows
  by (rule keyed_table_rows)

section \<open>Statements on the ledger\<close>

definition foreign_key :: "bool \<Rightarrow> unit store" where
  "foreign_key ok = lift (guardE (\<not> ok) (IntegrityError ''FOREIGN KEY constraint failed''))"

definition has_run :: "ledger \<Rightarrow> string \<Rightarrow> bool" where
  "has_run s r \<longleftrightarrow> r \<in> set (map rr_id (runs s))"

definition has_task :: "ledger \<Rightarrow> string \<Rightarrow> bool" where
  "has_task s t \<longleftrightarrow> t \<in> set (map tr_id (tasks s))"

definition insert_run :: "run_row \<Rightarrow> unit store" where
  "insert_run r s = bindE (insert_row rr_id r (runs s)) (\<lambda>t. Inr ((), s\<lparr>runs := t\<rparr>))"

definition insert_task :: "task_row \<Rightarrow> unit store" where
  "insert_task r s =
     bindE (insert_row tr_id r (tasks s)) (\<lambda>t.
     bindE (guardE (\<not> has_run s (tr_run r)) (IntegrityError ''FOREIGN KEY constraint failed'')) (\<lambda>_.
       Inr ((), s\<lparr>tasks := t\<rparr>)))"

definition insert_attempt :: "attempt_row \<Rightarrow> unit store" where
  "insert_attempt r s =
     bindE (insert_row ar_id r (attempts s)) (\<lambda>t.
     bindE (guardE (\<not> has_task s (ar_task r)) (IntegrityError ''FOREIGN KEY constraint failed'')) (\<lambda>_.
       Inr ((), s\<lparr>attempts := t\<rparr>)))"

definition insert_artifact :: "artifact_row \<Rightarrow> unit store" where
  "insert_artifact r s =
     bindE (insert_row fa_id r (artifacts s)) (\<lambda>t.
     bindE (guardE (\<not> (has_run s (fa_run r) \<and> has_task s (fa_task r)))
              (IntegrityError ''FOREIGN KEY constraint failed'')) (\<lambda>_.
       Inr ((), s\<lparr>artifacts := t\<rparr>)))"

definition insert_revision :: "revision_row \<Rightarrow> unit store" where
  "insert_revision r s =
     bindE (insert_row (\<lambda>v. (rv_run v, rv_version v)) r (revisions s)) (\<lambda>t.
     bindE (guardE (\<not> has_run s (rv_run r)) (IntegrityError ''FOREIGN KEY constraint failed'')) (\<lambda>_.
       Inr ((), s\<lparr>revisions := t\<rparr>)))"

definition update_runs :: "(run_row \<Rightarrow> bool) \<Rightarrow> (run_row \<Rightarrow> run_row) \<Rightarrow> nat store" where
  "update_runs P f s = Inr (row_count P (runs s), s\<lparr>runs := update_rows P f (runs s)\<rparr>)"

definition update_tasks :: "(task_row \<Rightarrow> bool) \<Rightarrow> (task_row \<Rightarrow> task_row) \<Rightarrow> nat store" where
  "update_tasks P f s = Inr (row_count P (tasks s), s\<lparr>tasks := update_rows P f (tasks s)\<rparr>)"

definition update_attempts :: "(attempt_row \<Rightarrow> bool) \<Rightarrow> (attempt_row \<Rightarrow> attempt_row) \<Rightarrow> nat store" where
  "update_attempts P f s = Inr (row_count P (attempts s), s\<lparr>attempts := update_rows P f (attempts s)\<rparr>)"

definition get_run :: "string \<Rightarrow> ledger \<Rightarrow> run_row option" where
  "get_run r s = fetch_one (\<lambda>x. rr_id x = r) (runs s)"

definition get_task :: "string \<Rightarrow> ledger \<Rightarrow> task_row option" where
  "get_task t s = fetch_one (\<lambda>x. tr_id x = t) (tasks s)"

definition get_attempt :: "string \<Rightarrow> ledger \<Rightarrow> attempt_row option" where
  "get_attempt a s = fetch_one (\<lambda>x. ar_id x = a) (attempts s)"

text \<open>\<^verbatim>\<open>ORDER BY created_at, id\<close>.\<close>

definition list_tasks :: "string \<Rightarrow> ledger \<Rightarrow> task_row list" where
  "list_tasks r s = sort_key (\<lambda>x. (tr_created x, tr_id x)) (filter (\<lambda>x. tr_run x = r) (tasks s))"

text \<open>
  \<^verbatim>\<open>_append_event\<close>: insert-or-ignore; an unknown run or task violates a foreign key, which
  \<^verbatim>\<open>OR IGNORE\<close> does not ignore.
\<close>

definition append_event ::
  "string \<Rightarrow> string option \<Rightarrow> string \<Rightarrow> (string \<times> json) list \<Rightarrow> string option \<Rightarrow> bool store" where
  "append_event run task typ payload eid s =
     (let i = (case eid of None \<Rightarrow> Fresh_event (ticks s) | Some n \<Rightarrow> Named_event n);
          row = \<lparr>ev_id = i, ev_run = run, ev_task = task, ev_type = typ, ev_payload = payload,
                 ev_created = timeline s (ticks s)\<rparr>;
          s' = s\<lparr>ticks := Suc (ticks s)\<rparr>
      in if i \<in> set (map ev_id (events s)) then Inr (False, s')
         else if \<not> has_run s run \<or> (case task of None \<Rightarrow> False | Some t \<Rightarrow> \<not> has_task s t)
         then Inl (IntegrityError ''FOREIGN KEY constraint failed'')
         else Inr (True, s'\<lparr>events := events s @ [row]\<rparr>))"

text \<open>The same, used as a statement.\<close>

definition event :: "string \<Rightarrow> string option \<Rightarrow> string \<Rightarrow> (string \<times> json) list \<Rightarrow> unit store" where
  "event run task typ payload = bindS (append_event run task typ payload None) (\<lambda>_. ret ())"

definition opt_str :: "string option \<Rightarrow> json" where
  "opt_str v = (case v of None \<Rightarrow> JNull | Some x \<Rightarrow> JStr x)"

end
