(* ===== verification/Ledger.thy ===== *)
theory Ledger imports Tables begin

text \<open>
  Creating runs and revising plans (\<^verbatim>\<open>store.py\<close>, \<^verbatim>\<open>create_run\<close> to \<^verbatim>\<open>_validate_plan_tasks\<close>).
  Random ids are arguments; \<open>loads\<close> is the argument of theory Plan.
\<close>

section \<open>Dictionaries and stored JSON\<close>

text \<open>A Python dictionary in insertion order; assigning to a present key keeps its place.\<close>

fun dict_put :: "'k \<Rightarrow> 'v \<Rightarrow> ('k \<times> 'v) list \<Rightarrow> ('k \<times> 'v) list" where
  "dict_put k v [] = [(k, v)]"
| "dict_put k v ((k', v') # d) = (if k = k' then (k, v) # d else (k', v') # dict_put k v d)"

text \<open>What \<^verbatim>\<open>json.loads(json.dumps(v, sort_keys=True))\<close> returns, and \<^verbatim>\<open>json.dumps\<close> without sorting.\<close>

fun sort_json :: "json \<Rightarrow> json" where
  "sort_json (JArr vs) = JArr (map sort_json vs)"
| "sort_json (JObj items) = JObj (sort_key fst (map (\<lambda>(k, v). (k, sort_json v)) items))"
| "sort_json v = v"

fun dumps_unsorted :: "json \<Rightarrow> string" where
  "dumps_unsorted (JArr vs) = ''['' @ join_with '', '' (map dumps_unsorted vs) @ '']''"
| "dumps_unsorted (JObj items) =
     ''{'' @ join_with '', '' (map (\<lambda>(k, v). quote_str k @ '': '' @ dumps_unsorted v) items) @ ''}''"
| "dumps_unsorted v = dumps v"

section \<open>Validating plan tasks\<close>

record plan_item =
  it_id :: string
  it_title :: string
  it_prompt :: string
  it_depends_on :: "string list"
  it_acceptance :: "string option"

definition validate_item ::
  "(string \<Rightarrow> json option) \<Rightarrow> nat \<Rightarrow> string set \<Rightarrow> json \<Rightarrow> plan_item result" where
  "validate_item loads index ids raw =
     (case raw of
        JObj items \<Rightarrow>
          (let tid = strip (py_str (jget_default items ''id'' (JStr [])));
               title = strip (py_str (jget_default items ''title'' (JStr tid)));
               prompt = strip (py_str (jget_default items ''prompt'' (JStr [])));
               deps = jget_default items ''depends_on'' (jget_default items ''dependencies'' (JArr []));
               acceptance = getn items ''acceptance'' in
           bindE (guardE (tid = [] \<or> prompt = [])
                    (ValueError (''plan task '' @ show_nat index @ '' requires non-empty id and prompt''))) (\<lambda>_.
           bindE (guardE (unsafe_segment tid)
                    (ValueError (''plan task id is not a safe path segment: '' @ repr_str tid))) (\<lambda>_.
           bindE (guardE (tid \<in> ids) (ValueError (''plan contains duplicate task id: '' @ tid))) (\<lambda>_.
           bindE (case deps of
                    JNull \<Rightarrow> Inr []
                  | JArr vs \<Rightarrow>
                      if \<exists>v\<in>set vs. case v of JStr _ \<Rightarrow> False | _ \<Rightarrow> True
                      then Inl (ValueError (''dependencies for task '' @ tid @ '' must be a string array''))
                      else Inr (map (strip \<circ> str_of) vs)
                  | _ \<Rightarrow> Inl (ValueError (''dependencies for task '' @ tid @ '' must be a string array''))) (\<lambda>ds.
           bindE (guardE ([] \<in> set ds)
                    (ValueError (''dependencies for task '' @ tid @ '' cannot contain empty IDs''))) (\<lambda>_.
           bindE (guardE (case acceptance of JNull \<Rightarrow> False | JStr _ \<Rightarrow> False | JObj _ \<Rightarrow> False | _ \<Rightarrow> True)
                    (ValueError (''acceptance for task '' @ tid @ '' must be a string or object''))) (\<lambda>_.
           bindE (validate_acceptance loads acceptance) (\<lambda>_.
             Inr \<lparr>it_id = tid, it_title = (if title = [] then tid else title), it_prompt = prompt,
                  it_depends_on = ds,
                  it_acceptance = (case acceptance of JObj o' \<Rightarrow> Some (dumps (JObj o'))
                                   | JStr s \<Rightarrow> Some s | _ \<Rightarrow> None)\<rparr>))))))))
      | _ \<Rightarrow> Inl (TypeError (''plan task '' @ show_nat index @ '' must be an object'')))"

fun validate_items ::
  "(string \<Rightarrow> json option) \<Rightarrow> nat \<Rightarrow> string set \<Rightarrow> json list \<Rightarrow> plan_item list result" where
  "validate_items loads index ids [] = Inr []"
| "validate_items loads index ids (raw # raws) =
     bindE (validate_item loads index ids raw) (\<lambda>item.
     bindE (validate_items loads (Suc index) (insert (it_id item) ids) raws) (\<lambda>items. Inr (item # items)))"

definition check_item_refs :: "string set \<Rightarrow> plan_item \<Rightarrow> unit result" where
  "check_item_refs ids item =
     (let unknown = filter (\<lambda>d. d \<notin> ids) (remdups (it_depends_on item)) in
      if unknown \<noteq> [] then Inl (ValueError (''task '' @ it_id item @ '' references unknown dependencies: ''
                                 @ join_with '', '' (sort unknown)))
      else if it_id item \<in> set (it_depends_on item)
      then Inl (ValueError (''task '' @ it_id item @ '' cannot depend on itself'')) else Inr ())"

definition item_graph :: "plan_item list \<Rightarrow> string \<Rightarrow> string list" where
  "item_graph its n = (case find (\<lambda>t. it_id t = n) its of None \<Rightarrow> [] | Some t \<Rightarrow> it_depends_on t)"

definition validate_plan_tasks :: "(string \<Rightarrow> json option) \<Rightarrow> json list \<Rightarrow> plan_item list result" where
  "validate_plan_tasks loads raws =
     bindE (guardE (raws = []) (ValueError ''plan must contain at least one task'')) (\<lambda>_.
     bindE (validate_items loads 0 {} raws) (\<lambda>items.
     bindE (mapE (check_item_refs (set (map it_id items))) items) (\<lambda>_.
     bindE (check_cycles (map it_id items) (item_graph items)) (\<lambda>_. Inr items))))"

section \<open>Choosing physical task ids\<close>

text \<open>The loop \<^verbatim>\<open>while candidate in reserved\<close>; one more round than there are reserved ids is enough.\<close>

fun find_suffix :: "nat \<Rightarrow> string list \<Rightarrow> string \<Rightarrow> nat \<Rightarrow> string option" where
  "find_suffix fuel reserved base n =
     (if fuel = 0 then None
      else let candidate = base @ ''-'' @ show_nat n in
        if candidate \<in> set reserved then find_suffix (fuel - 1) reserved base (n + 1) else Some candidate)"

declare find_suffix.simps [simp del]

definition free_id :: "string list \<Rightarrow> string \<Rightarrow> string result" where
  "free_id reserved base =
     (if base \<notin> set reserved then Inr base
      else case find_suffix (Suc (length reserved)) reserved base 2 of
             Some c \<Rightarrow> Inr c | None \<Rightarrow> Inl (RuntimeError ''unbounded loop''))"

definition run_prefix :: "string \<Rightarrow> string \<Rightarrow> string" where
  "run_prefix run_id tid = take 8 run_id @ ''-'' @ tid"

text \<open>
  The two id maps: \<^verbatim>\<open>create_run\<close> keeps a plan id that no task of any run uses, \<^verbatim>\<open>attach_plan_to_run\<close>
  always prefixes.  The accumulator holds the ids that are taken.
\<close>

fun assign_ids :: "bool \<Rightarrow> string \<Rightarrow> string list \<Rightarrow> plan_item list \<Rightarrow> (string \<times> string) list result" where
  "assign_ids keep run_id reserved [] = Inr []"
| "assign_ids keep run_id reserved (item # items) =
     bindE (if keep \<and> it_id item \<notin> set reserved then Inr (it_id item)
            else free_id reserved (run_prefix run_id (it_id item))) (\<lambda>c.
     bindE (assign_ids keep run_id (c # reserved) items) (\<lambda>m. Inr ((it_id item, c) # m)))"

definition physical :: "(string \<times> string) list \<Rightarrow> string \<Rightarrow> string" where
  "physical m k = (case map_of m k of None \<Rightarrow> k | Some c \<Rightarrow> c)"

definition initial_state :: "string list \<Rightarrow> task_status" where
  "initial_state deps = (if deps = [] then Ready else Waiting)"

definition new_task_row ::
  "string \<Rightarrow> string \<Rightarrow> string \<Rightarrow> string \<Rightarrow> string list \<Rightarrow> string option \<Rightarrow> string option \<Rightarrow> nat \<Rightarrow> nat \<Rightarrow> task_row" where
  "new_task_row tid run title prompt deps acceptance plan_task created updated =
     \<lparr>tr_id = tid, tr_run = run, tr_title = title, tr_prompt = prompt, tr_state = initial_state deps,
      tr_attempts = 0, tr_result_path = None, tr_last_error = None, tr_dependencies = deps,
      tr_acceptance = acceptance, tr_question = None, tr_options = [], tr_answer_path = None,
      tr_plan_task = plan_task, tr_orchestration = False, tr_created = created, tr_updated = updated\<rparr>"

section \<open>Creating runs\<close>

definition default_task :: "string \<Rightarrow> string \<Rightarrow> json" where
  "default_task fresh goal = JObj [(''id'', JStr fresh), (''title'', JStr ''Execute user goal''),
     (''prompt'', JStr goal), (''depends_on'', JArr []), (''acceptance'', JNull)]"

definition new_run_row ::
  "string \<Rightarrow> string \<Rightarrow> string \<Rightarrow> (string \<times> int) option \<Rightarrow> route_decision option \<Rightarrow> nat \<Rightarrow> run_row" where
  "new_run_row run_id goal workspace plan rt timestamp =
     \<lparr>rr_id = run_id, rr_goal = goal, rr_status = Run_pending, rr_workspace = workspace,
      rr_created = timestamp, rr_updated = timestamp, rr_runner_pid = None, rr_runner_pgid = None,
      rr_plan_id = map_option fst plan, rr_plan_version = map_option snd plan, rr_route = rt,
      rr_budget = (case rt of None \<Rightarrow> default_budget | Some r \<Rightarrow> ro_budget r)\<rparr>"

definition route_items :: "route_decision option \<Rightarrow> (string \<times> json) list" where
  "route_items rt = (case rt of None \<Rightarrow> [] | Some r \<Rightarrow> [(''route'', JObj (route_to_dict r))])"

definition strs :: "string list \<Rightarrow> json" where
  "strs xs = JArr (map JStr xs)"

definition task_created_payload :: "string \<Rightarrow> string list \<Rightarrow> string option \<Rightarrow> (string \<times> json) list" where
  "task_created_payload title deps acceptance =
     [(''title'', JStr title), (''dependencies'', strs deps), (''acceptance'', opt_str acceptance)]"

text \<open>\<open>rename m item\<close> is the normalised item with its physical id and dependencies.\<close>

definition rename_item :: "(string \<times> string) list \<Rightarrow> plan_item \<Rightarrow> plan_item" where
  "rename_item m item = item\<lparr>it_id := physical m (it_id item),
     it_depends_on := map (physical m) (it_depends_on item)\<rparr>"

definition insert_items :: "string \<Rightarrow> nat \<Rightarrow> (plan_item \<Rightarrow> string option) \<Rightarrow> plan_item list \<Rightarrow> unit store" where
  "insert_items run_id timestamp plan_task = forS (\<lambda>item.
     insert_task (new_task_row (it_id item) run_id (it_title item) (it_prompt item) (it_depends_on item)
       (it_acceptance item) (plan_task item) timestamp timestamp))"

definition item_events :: "string \<Rightarrow> plan_item list \<Rightarrow> unit store" where
  "item_events run_id = forS (\<lambda>item.
     event run_id (Some (it_id item)) ''task_created''
       (task_created_payload (it_title item) (it_depends_on item) (it_acceptance item)))"

definition route_event :: "string \<Rightarrow> route_decision option \<Rightarrow> unit store" where
  "route_event run_id rt =
     (case rt of None \<Rightarrow> ret () | Some r \<Rightarrow> event run_id None ''route_selected'' (route_to_dict r))"

text \<open>\<open>plan_tasks\<close> is None when the caller gives no task list; \<open>fresh\<close> is the id of the default task.\<close>

definition create_run ::
  "(string \<Rightarrow> json option) \<Rightarrow> string \<Rightarrow> string \<Rightarrow> string \<Rightarrow> string \<Rightarrow> json list option \<Rightarrow> route_decision option
     \<Rightarrow> run_row option store" where
  "create_run loads run_id fresh goal0 workspace plan_tasks rt =
     (let goal = strip goal0 in
      bindS (lift (guardE (goal = []) (ValueError ''goal must not be empty''))) (\<lambda>_.
      bindS utc_now (\<lambda>timestamp.
      bindS (insert_run (new_run_row run_id goal workspace None rt timestamp)) (\<lambda>_.
      bindS (lift (validate_plan_tasks loads
                (case plan_tasks of None \<Rightarrow> [default_task fresh goal] | Some ts \<Rightarrow> ts))) (\<lambda>normalized.
      bindS (ask (\<lambda>s. filter (\<lambda>i. i \<in> set (map it_id normalized)) (map tr_id (tasks s)))) (\<lambda>existing.
      bindS (lift (assign_ids True run_id existing normalized)) (\<lambda>m.
      let items = map (rename_item m) normalized in
      bindS (insert_items run_id timestamp (\<lambda>_. None) items) (\<lambda>_.
      bindS (event run_id None ''run_created''
        ([(''goal'', JStr goal), (''task_count'', JInt (int (length items)))] @ route_items rt)) (\<lambda>_.
      bindS (route_event run_id rt) (\<lambda>_.
      bindS (item_events run_id items) (\<lambda>_.
      ask (get_run run_id))))))))))))"

section \<open>Decisions\<close>

definition insert_decision :: "string option \<Rightarrow> policy_decision \<Rightarrow> string \<Rightarrow> string store" where
  "insert_decision run_id d did =
     bindS utc_now (\<lambda>now.
     bindS (\<lambda>s. let row = \<lparr>dc_id = did, dc_run = run_id, dc_action = de_action d,
                       dc_payload = policy_decision_to_dict d [], dc_created = now\<rparr> in
        if did \<in> set (map dc_id (decisions s)) then Inr ((), s)
        else if (case run_id of None \<Rightarrow> False | Some r \<Rightarrow> \<not> has_run s r)
        then Inl (IntegrityError ''FOREIGN KEY constraint failed'')
        else Inr ((), s\<lparr>decisions := decisions s @ [row]\<rparr>)) (\<lambda>_.
     bindS (case run_id of
              None \<Rightarrow> ret True
            | Some r \<Rightarrow> append_event r None ''policy_decision''
                ((''decision_id'', JStr did) # policy_decision_to_dict d []) (Some (''event-'' @ did))) (\<lambda>_.
     ret did)))"

definition record_decision :: "policy_decision \<Rightarrow> string option \<Rightarrow> string \<Rightarrow> string store" where
  "record_decision d run_id did = insert_decision run_id d did"

text \<open>The checks \<^verbatim>\<open>create_run_with_plan\<close> and \<^verbatim>\<open>attach_plan_to_run\<close> share; \<open>what\<close> is \<^verbatim>\<open>a new planned\<close> etc.\<close>

definition check_first_revision :: "string \<Rightarrow> string \<Rightarrow> string \<Rightarrow> plan_document \<Rightarrow> policy_decision option \<Rightarrow> unit result" where
  "check_first_revision msg1 msg2 msg3 doc decision =
     bindE (guardE (pd_version doc \<noteq> 1 \<or> pd_parent_version doc \<noteq> None) (ValueError msg1)) (\<lambda>_.
     case decision of
       None \<Rightarrow> Inr ()
     | Some d \<Rightarrow>
         bindE (guardE (de_action d \<noteq> ''execute_plan'') (ValueError msg2)) (\<lambda>_.
         guardE ((de_plan_id d, de_plan_version d) \<noteq> (Some (pd_plan_id doc), Some (pd_version doc)))
           (ValueError msg3)))"

definition stored_document :: "plan_document \<Rightarrow> json" where
  "stored_document doc = sort_json (JObj (plan_document_to_dict doc))"

definition first_revision :: "plan_document \<Rightarrow> string \<Rightarrow> nat \<Rightarrow> revision_row" where
  "first_revision doc run_id timestamp = \<lparr>rv_plan = pd_plan_id doc, rv_run = run_id,
     rv_version = pd_version doc, rv_parent = pd_parent_version doc,
     rv_document = stored_document doc, rv_created = timestamp\<rparr>"

definition optional_decision :: "string \<Rightarrow> policy_decision option \<Rightarrow> string \<Rightarrow> unit store" where
  "optional_decision run_id decision did =
     (case decision of None \<Rightarrow> ret () | Some d \<Rightarrow> bindS (insert_decision (Some run_id) d did) (\<lambda>_. ret ()))"

definition create_run_with_plan ::
  "(string \<Rightarrow> json option) \<Rightarrow> string \<Rightarrow> string \<Rightarrow> string \<Rightarrow> plan_document \<Rightarrow> policy_decision option
     \<Rightarrow> route_decision option \<Rightarrow> run_row option store" where
  "create_run_with_plan loads run_id did workspace doc decision rt =
     bindS (lift (check_first_revision ''a new planned run must start at version 1''
        ''a planned run requires an execute_plan decision''
        ''execute_plan decision does not reference the supplied plan revision'' doc decision)) (\<lambda>_.
     bindS utc_now (\<lambda>timestamp.
     bindS (lift (validate_plan_tasks loads (map plan_task_to_dict (pd_tasks doc)))) (\<lambda>normalized.
     let m = map (\<lambda>i. (it_id i, run_prefix run_id (it_id i))) normalized;
         pairs = map (\<lambda>i. (it_id i, rename_item m i)) normalized;
         items = map snd pairs in
     bindS (insert_run (new_run_row run_id (pd_goal doc) workspace (Some (pd_plan_id doc, 1)) rt timestamp)) (\<lambda>_.
     bindS (forS (\<lambda>(plan_task, item).
        insert_task (new_task_row (it_id item) run_id (it_title item) (it_prompt item) (it_depends_on item)
          (it_acceptance item) (Some plan_task) timestamp timestamp)) pairs) (\<lambda>_.
     bindS (insert_revision (first_revision doc run_id timestamp)) (\<lambda>_.
     bindS (event run_id None ''run_created''
        ([(''goal'', JStr (pd_goal doc)), (''task_count'', JInt (int (length items))),
          (''plan_id'', JStr (pd_plan_id doc))] @ route_items rt)) (\<lambda>_.
     bindS (route_event run_id rt) (\<lambda>_.
     bindS (event run_id None ''plan_created'' [(''plan_id'', JStr (pd_plan_id doc)), (''version'', JInt 1)]) (\<lambda>_.
     bindS (item_events run_id items) (\<lambda>_.
     bindS (optional_decision run_id decision did) (\<lambda>_.
     ask (get_run run_id))))))))))))"

section \<open>Attaching a plan to an intake run\<close>

definition attach_item :: "string \<Rightarrow> nat \<Rightarrow> string \<times> plan_item \<Rightarrow> unit store" where
  "attach_item run_id timestamp = (\<lambda>(plan_task, item).
     bindS (insert_task (new_task_row (it_id item) run_id (it_title item) (it_prompt item) (it_depends_on item)
              (it_acceptance item) (Some plan_task) timestamp timestamp)) (\<lambda>_.
     event run_id (Some (it_id item)) ''task_created''
       (task_created_payload (it_title item) (it_depends_on item) (it_acceptance item)
        @ [(''plan_task_id'', JStr plan_task)])))"

definition attach_plan_to_run ::
  "(string \<Rightarrow> json option) \<Rightarrow> string \<Rightarrow> string \<Rightarrow> plan_document \<Rightarrow> policy_decision option \<Rightarrow> bool store" where
  "attach_plan_to_run loads run_id did doc decision =
     bindS (lift (check_first_revision ''an attached plan must start at version 1''
        ''an attached plan requires an execute_plan decision''
        ''execute_plan decision does not reference the attached plan'' doc decision)) (\<lambda>_.
     bindS utc_now (\<lambda>timestamp.
     bindS (lift (validate_plan_tasks loads (map plan_task_to_dict (pd_tasks doc)))) (\<lambda>normalized.
     bindS (ask (get_run run_id)) (\<lambda>found.
     case found of
       None \<Rightarrow> raise (ValueError (''unknown run: '' @ run_id))
     | Some run \<Rightarrow>
         if rr_plan_id run \<noteq> None
         then (if rr_plan_id run = Some (pd_plan_id doc) \<and> rr_plan_version run = Some 1 then ret False
               else raise (ValueError ''run already has a plan''))
         else
           bindS (ask (\<lambda>s. map tr_id (filter (\<lambda>t. tr_run t = run_id) (tasks s)))) (\<lambda>existing.
           bindS (lift (assign_ids False run_id existing normalized)) (\<lambda>m.
           bindS (update_runs (\<lambda>r. rr_id r = run_id) (\<lambda>r. r\<lparr>rr_plan_id := Some (pd_plan_id doc),
                    rr_plan_version := Some (pd_version doc), rr_budget := pd_budget doc,
                    rr_updated := timestamp\<rparr>)) (\<lambda>_.
           bindS (insert_revision (first_revision doc run_id timestamp)) (\<lambda>_.
           bindS (event run_id None ''plan_created'' [(''plan_id'', JStr (pd_plan_id doc)),
                    (''version'', JInt (pd_version doc)), (''source'', JStr ''conversational_intake'')]) (\<lambda>_.
           bindS (forS (attach_item run_id timestamp)
                    (map (\<lambda>i. (it_id i, rename_item m i)) normalized)) (\<lambda>_.
           bindS (optional_decision run_id decision did) (\<lambda>_. ret True)))))))))))"

section \<open>Reading plans\<close>

definition get_current_plan ::
  "(string \<Rightarrow> json option) \<Rightarrow> string \<Rightarrow> string \<Rightarrow> ledger \<Rightarrow> plan_document option result" where
  "get_current_plan loads fresh run_id s =
     (case get_run run_id s of
        None \<Rightarrow> Inr None
      | Some run \<Rightarrow>
          (case (rr_plan_id run, rr_plan_version run) of
             (Some pid, Some v) \<Rightarrow>
               if pid = [] then Inr None
               else (case fetch_one (\<lambda>r. rv_run r = run_id \<and> rv_plan r = pid \<and> rv_version r = v) (revisions s) of
                       None \<Rightarrow> Inr None
                     | Some r \<Rightarrow> bindE (plan_document_from_dict loads fresh (rv_document r)) (\<lambda>d. Inr (Some d)))
           | _ \<Rightarrow> Inr None))"

definition list_plan_revisions ::
  "(string \<Rightarrow> json option) \<Rightarrow> string \<Rightarrow> string \<Rightarrow> ledger \<Rightarrow> plan_document list result" where
  "list_plan_revisions loads fresh run_id s =
     mapE (\<lambda>r. plan_document_from_dict loads fresh (rv_document r))
       (sort_key rv_version (filter (\<lambda>r. rv_run r = run_id) (revisions s)))"

definition list_decisions :: "string option \<Rightarrow> ledger \<Rightarrow> decision_row list" where
  "list_decisions run_id s =
     sort_key dc_created (case run_id of None \<Rightarrow> decisions s
       | Some r \<Rightarrow> filter (\<lambda>d. dc_run d = Some r) (decisions s))"

section \<open>Revising a plan\<close>

text \<open>\<^verbatim>\<open>row["plan_task_id"] or row["id"]\<close>, and the dictionary of the run's rows by that name.\<close>

definition plan_name :: "task_row \<Rightarrow> string" where
  "plan_name t = (case tr_plan_task t of None \<Rightarrow> tr_id t | Some p \<Rightarrow> if p = [] then tr_id t else p)"

definition existing_rows :: "string \<Rightarrow> ledger \<Rightarrow> (string \<times> task_row) list" where
  "existing_rows run_id s =
     fold (\<lambda>t d. dict_put (plan_name t) t d) (filter (\<lambda>t. tr_run t = run_id) (tasks s)) []"

definition physical_dependency :: "string \<Rightarrow> (string \<times> task_row) list \<Rightarrow> string \<Rightarrow> string" where
  "physical_dependency run_id existing dep =
     (case map_of existing dep of Some t \<Rightarrow> tr_id t | None \<Rightarrow> run_prefix run_id dep)"

definition acceptance_text :: "(json \<Rightarrow> string) \<Rightarrow> json \<Rightarrow> string option" where
  "acceptance_text render v = (case v of JObj items \<Rightarrow> Some (render v) | JStr t \<Rightarrow> Some t | _ \<Rightarrow> None)"

text \<open>A row whose plan task the revision dropped.\<close>

definition drop_task :: "string set \<Rightarrow> string \<times> task_row \<Rightarrow> unit store" where
  "drop_task desired = (\<lambda>(name, row).
     if name \<in> desired then ret ()
     else if tr_state row = Succeeded then raise (ValueError ''completed tasks must remain in a plan revision'')
     else if tr_state row \<in> {Superseded, Cancelled} then ret ()
     else bindS utc_now (\<lambda>now.
          bindS (update_tasks (\<lambda>t. tr_id t = tr_id row) (\<lambda>t. t\<lparr>tr_state := Superseded, tr_updated := now\<rparr>))
            (\<lambda>_. ret ())))"

text \<open>A task of the new revision: compared, reset or inserted.\<close>

definition sync_task :: "string \<Rightarrow> (string \<times> task_row) list \<Rightarrow> plan_task \<Rightarrow> unit store" where
  "sync_task run_id existing task =
     (let deps = map (physical_dependency run_id existing) (pt_depends_on task);
          state = initial_state (pt_depends_on task) in
      case map_of existing (pt_id task) of
        Some row \<Rightarrow>
          (let acceptance = acceptance_text dumps (pt_acceptance task) in
           if tr_state row = Succeeded
           then lift (guardE ((tr_title row, tr_prompt row, tr_dependencies row, tr_acceptance row)
                                \<noteq> (pt_title task, pt_prompt task, deps, acceptance))
                  (ValueError ''completed task definitions are immutable across revisions''))
           else bindS utc_now (\<lambda>now.
                bindS (update_tasks (\<lambda>t. tr_id t = tr_id row)
                  (\<lambda>t. t\<lparr>tr_title := pt_title task, tr_prompt := pt_prompt task, tr_state := state,
                         tr_attempts := 0, tr_result_path := None, tr_last_error := None,
                         tr_dependencies := deps, tr_acceptance := acceptance, tr_updated := now\<rparr>))
                  (\<lambda>_. ret ())))
      | None \<Rightarrow>
          bindS utc_now (\<lambda>created.
          bindS utc_now (\<lambda>updated.
          insert_task ((new_task_row (run_prefix run_id (pt_id task)) run_id (pt_title task) (pt_prompt task)
             deps (acceptance_text dumps_unsorted (pt_acceptance task)) (Some (pt_id task)) created updated)
             \<lparr>tr_state := state\<rparr>))))"

definition check_revision :: "run_row \<Rightarrow> plan_document \<Rightarrow> unit result" where
  "check_revision run doc =
     bindE (guardE (rr_plan_id run \<noteq> Some (pd_plan_id doc) \<or> rr_plan_version run \<noteq> pd_parent_version doc)
              (ValueError ''plan revision parent does not match current version'')) (\<lambda>_.
     bindE (guardE (case pd_parent_version doc of None \<Rightarrow> True | Some v \<Rightarrow> pd_version doc \<noteq> v + 1)
              (ValueError ''plan revision version must increment the current version by one'')) (\<lambda>_.
     guardE (rr_status run \<in> {Run_running, Run_awaiting_input, Run_cancelled})
              (ValueError ''cannot revise a plan while the run is active'')))"

text \<open>The writing half of a revision, once it is admitted.\<close>

definition write_revision ::
  "(string \<Rightarrow> json option) \<Rightarrow> string \<Rightarrow> string \<Rightarrow> plan_document \<Rightarrow> string \<Rightarrow> string list
     \<Rightarrow> string \<Rightarrow> (string \<times> task_row) list \<Rightarrow> plan_document store" where
  "write_revision loads run_id did doc reason evidence action existing =
     bindS (forS (drop_task (set (map pt_id (pd_tasks doc)))) existing) (\<lambda>_.
     bindS (forS (sync_task run_id existing) (pd_tasks doc)) (\<lambda>_.
     bindS utc_now (\<lambda>t1.
     bindS (insert_revision (first_revision doc run_id t1)) (\<lambda>_.
     bindS utc_now (\<lambda>t2.
     bindS (update_runs (\<lambda>r. rr_id r = run_id) (\<lambda>r. r\<lparr>rr_plan_id := Some (pd_plan_id doc),
              rr_plan_version := Some (pd_version doc), rr_budget := pd_budget doc, rr_updated := t2\<rparr>)) (\<lambda>_.
     bindS utc_now (\<lambda>t3.
     bindS (update_runs (\<lambda>r. rr_id r = run_id)
              (\<lambda>r. r\<lparr>rr_status := Run_pending, rr_updated := t3\<rparr>)) (\<lambda>_.
     bindS (event run_id None ''plan_revision_created''
              [(''plan_id'', JStr (pd_plan_id doc)), (''version'', JInt (pd_version doc)),
               (''parent_version'', opt_int (pd_parent_version doc)), (''reason'', JStr reason),
               (''evidence'', strs evidence)]) (\<lambda>_.
     bindS (lift (policy_decision_init loads did
              \<lparr>de_action = action, de_rationale = reason, de_confidence = 1, de_questions = [],
               de_plan_id = Some (pd_plan_id doc), de_plan_version = Some (pd_version doc),
               de_evidence = evidence, de_plan = None\<rparr>)) (\<lambda>d.
     bindS (insert_decision (Some run_id) d did) (\<lambda>_. ret doc)))))))))))"

definition commit_plan_revision ::
  "(string \<Rightarrow> json option) \<Rightarrow> string \<Rightarrow> string \<Rightarrow> plan_document \<Rightarrow> string \<Rightarrow> string list
     \<Rightarrow> string \<Rightarrow> plan_document store" where
  "commit_plan_revision loads run_id did doc reason0 evidence0 action =
     bindS (lift (validate_reason (JStr reason0) ''reason'')) (\<lambda>reason.
     bindS (lift (validate_evidence (JArr (map JStr evidence0)) ''evidence'')) (\<lambda>evidence.
     bindS (ask (get_run run_id)) (\<lambda>found.
     case found of
       None \<Rightarrow> raise (ValueError (''unknown run: '' @ run_id))
     | Some run \<Rightarrow>
         bindS (lift (check_revision run doc)) (\<lambda>_.
         bindS (ask (existing_rows run_id)) (\<lambda>existing.
         write_revision loads run_id did doc reason evidence action existing)))))"

definition patch_plan ::
  "(string \<Rightarrow> json option) \<Rightarrow> string \<Rightarrow> string \<Rightarrow> string \<Rightarrow> plan_patch \<Rightarrow> plan_document store" where
  "patch_plan loads fresh run_id did patch =
     bindS (\<lambda>s. lift (get_current_plan loads fresh run_id s) s) (\<lambda>current.
     case current of
       None \<Rightarrow> raise (ValueError ''run has no current plan'')
     | Some doc0 \<Rightarrow>
         bindS (lift (apply_patch loads doc0 patch)) (\<lambda>doc.
         commit_plan_revision loads run_id did doc (pp_reason patch) (pp_evidence patch) ''patch_plan''))"

end
