(* ===== verification/Scheduler.thy ===== *)
theory Scheduler imports Ledger begin

text \<open>
  The task and run life cycle of \<^verbatim>\<open>store.py\<close>: promotion, claiming, input, completion, retry,
  recovery, settlement, cancellation and budget failure, and the process registrations.  An
  attempt id or orchestration task id is the random id the caller's operation draws.
\<close>

section \<open>Process registrations of a run\<close>

definition set_runner_process :: "string \<Rightarrow> int option \<Rightarrow> int option \<Rightarrow> bool store" where
  "set_runner_process run_id pid pgid =
     bindS utc_now (\<lambda>now.
     bindS (update_runs (\<lambda>r. rr_id r = run_id)
              (\<lambda>r. r\<lparr>rr_runner_pid := pid, rr_runner_pgid := pgid, rr_updated := now\<rparr>)) (\<lambda>changed.
     ret (changed = 1)))"

definition claim_runner_process :: "string \<Rightarrow> int \<Rightarrow> int \<Rightarrow> bool store" where
  "claim_runner_process run_id pid pgid =
     bindS (lift (guardE (pid \<le> 1 \<or> pgid \<le> 1)
              (ValueError ''runner PID and PGID must be integers above 1''))) (\<lambda>_.
     bindS utc_now (\<lambda>now.
     bindS (update_runs (\<lambda>r. rr_id r = run_id \<and> rr_runner_pid r = None \<and> rr_runner_pgid r = None
                            \<and> rr_status r \<in> {Run_pending, Run_running})
              (\<lambda>r. r\<lparr>rr_runner_pid := Some pid, rr_runner_pgid := Some pgid, rr_updated := now\<rparr>)) (\<lambda>changed.
     ret (changed = 1))))"

text \<open>\<^verbatim>\<open>WHERE pid = ?\<close> never holds for a NULL column.\<close>

definition process_match :: "int option \<Rightarrow> int option \<Rightarrow> int option \<Rightarrow> int option \<Rightarrow> bool" where
  "process_match pid pgid row_pid row_pgid =
     (case pid of None \<Rightarrow> True
      | Some p \<Rightarrow> row_pid = Some p \<and> (case pgid of None \<Rightarrow> True | Some g \<Rightarrow> row_pgid = Some g))"

definition clear_runner_process :: "string \<Rightarrow> int option \<Rightarrow> int option \<Rightarrow> bool store" where
  "clear_runner_process run_id pid pgid =
     bindS utc_now (\<lambda>now.
     bindS (update_runs (\<lambda>r. rr_id r = run_id \<and> process_match pid pgid (rr_runner_pid r) (rr_runner_pgid r))
              (\<lambda>r. r\<lparr>rr_runner_pid := None, rr_runner_pgid := None, rr_updated := now\<rparr>)) (\<lambda>changed.
     ret (changed = 1)))"

section \<open>Scheduling\<close>

definition has_input_question :: "string option \<Rightarrow> bool" where
  "has_input_question q = (case q of None \<Rightarrow> False | Some t \<Rightarrow> strip t \<noteq> [])"

definition dependency_state :: "ledger \<Rightarrow> string \<Rightarrow> string \<Rightarrow> task_status option" where
  "dependency_state s run_id dep =
     map_option tr_state (find (\<lambda>t. tr_run t = run_id \<and> tr_id t = dep) (tasks s))"

definition dead_status :: "task_status \<Rightarrow> bool" where
  "dead_status st \<longleftrightarrow> st \<in> {Failed, Blocked, Cancelled, Superseded}"

text \<open>One row of the promotion loop of \<^verbatim>\<open>next_task\<close>; the row is the one selected before the loop.\<close>

definition set_state_if :: "string \<Rightarrow> task_status set \<Rightarrow> (nat \<Rightarrow> task_row \<Rightarrow> task_row) \<Rightarrow> nat store" where
  "set_state_if tid froms f =
     bindS utc_now (\<lambda>now. update_tasks (\<lambda>t. tr_id t = tid \<and> tr_state t \<in> froms) (f now))"

definition promote_row :: "string \<Rightarrow> task_row \<Rightarrow> unit store" where
  "promote_row run_id row =
     (if tr_state row = Waiting \<and> has_input_question (tr_question row) then ret ()
      else if tr_dependencies row = [] then
        (if tr_state row \<noteq> Ready then
           bindS (set_state_if (tr_id row) {Pending, Waiting}
                    (\<lambda>now t. t\<lparr>tr_state := Ready, tr_updated := now\<rparr>)) (\<lambda>changed.
           if changed \<noteq> 0 then event run_id (Some (tr_id row)) ''task_ready'' [] else ret ())
         else ret ())
      else
        bindS (ask (\<lambda>s. map (dependency_state s run_id) (tr_dependencies row))) (\<lambda>states.
        if \<exists>st\<in>set states. case st of None \<Rightarrow> False | Some x \<Rightarrow> dead_status x then
          bindS (set_state_if (tr_id row) {Pending, Waiting}
                   (\<lambda>now t. t\<lparr>tr_state := Blocked,
                      tr_last_error := Some ''blocked because a dependency did not succeed'',
                      tr_updated := now\<rparr>)) (\<lambda>changed.
          if changed \<noteq> 0 then event run_id (Some (tr_id row)) ''task_blocked''
             [(''dependencies'', strs (tr_dependencies row))] else ret ())
        else if \<forall>st\<in>set states. st = Some Succeeded then
          bindS (set_state_if (tr_id row) {Pending, Waiting}
                   (\<lambda>now t. t\<lparr>tr_state := Ready, tr_updated := now\<rparr>)) (\<lambda>changed.
          if changed \<noteq> 0 then event run_id (Some (tr_id row)) ''task_ready''
             [(''dependencies'', strs (tr_dependencies row))] else ret ())
        else ret ()))"

definition promotable :: "string \<Rightarrow> task_row \<Rightarrow> bool" where
  "promotable run_id t \<longleftrightarrow> tr_run t = run_id \<and> tr_state t \<in> {Pending, Waiting}"

definition runnable :: "string \<Rightarrow> task_row \<Rightarrow> bool" where
  "runnable run_id t \<longleftrightarrow> tr_run t = run_id \<and> tr_state t \<in> {Ready, Uncertain} \<and> \<not> tr_orchestration t"

text \<open>\<^verbatim>\<open>ORDER BY created_at, id LIMIT 1\<close>.\<close>

definition first_created :: "(task_row \<Rightarrow> bool) \<Rightarrow> task_row list \<Rightarrow> task_row option" where
  "first_created P ts =
     (case sort_key (\<lambda>t. (tr_created t, tr_id t)) (filter P ts) of [] \<Rightarrow> None | t # _ \<Rightarrow> Some t)"

definition next_task :: "string \<Rightarrow> task_row option store" where
  "next_task run_id =
     bindS (ask (\<lambda>s. filter (promotable run_id) (tasks s))) (\<lambda>pending.
     bindS (forS (promote_row run_id) pending) (\<lambda>_.
     ask (\<lambda>s. first_created (runnable run_id) (tasks s))))"

definition claim_task :: "string \<Rightarrow> string \<Rightarrow> string \<Rightarrow> bool \<Rightarrow> attempt_row option store" where
  "claim_task attempt_id task_id runtime allow_orchestration =
     bindS utc_now (\<lambda>timestamp.
     bindS (update_tasks (\<lambda>t. tr_id t = task_id \<and> tr_state t \<in> {Pending, Ready, Uncertain}
                              \<and> (\<not> tr_orchestration t \<or> allow_orchestration))
              (\<lambda>t. t\<lparr>tr_state := Running, tr_attempts := tr_attempts t + 1, tr_updated := timestamp\<rparr>)) (\<lambda>updated.
     if updated \<noteq> 1 then ret None
     else
       bindS (ask (get_task task_id)) (\<lambda>found.
       case found of
         None \<Rightarrow> raise (TypeError ''NoneType object is not subscriptable'')
       | Some task \<Rightarrow>
           bindS (update_runs (\<lambda>r. rr_id r = tr_run task \<and> rr_status r = Run_pending)
                    (\<lambda>r. r\<lparr>rr_status := Run_running, rr_updated := timestamp\<rparr>)) (\<lambda>_.
           bindS (insert_attempt \<lparr>ar_id = attempt_id, ar_task = task_id, ar_runtime = runtime,
                    ar_status = At_running, ar_started = timestamp, ar_finished = None,
                    ar_heartbeat = Some timestamp, ar_error = None, ar_pid = None, ar_pgid = None\<rparr>) (\<lambda>_.
           bindS (event (tr_run task) (Some task_id) ''task_claimed''
                    [(''attempt_id'', JStr attempt_id), (''runtime'', JStr runtime),
                     (''attempt'', JInt (int (tr_attempts task)))]) (\<lambda>_.
           ask (get_attempt attempt_id)))))))"

definition dependency_artifacts :: "string \<Rightarrow> ledger \<Rightarrow> (string \<times> json) list list result" where
  "dependency_artifacts task_id s =
     (case get_task task_id s of
        None \<Rightarrow> Inl (ValueError (''unknown task: '' @ task_id))
      | Some row \<Rightarrow>
          Inr (concat (map (\<lambda>dep.
            case find (\<lambda>t. tr_run t = tr_run row \<and> tr_id t = dep \<and> tr_state t = Succeeded) (tasks s) of
              None \<Rightarrow> []
            | Some predecessor \<Rightarrow>
                (let files = sort_key (\<lambda>a. (fa_created a, fa_id a))
                               (filter (\<lambda>a. fa_run a = tr_run row \<and> fa_task a = dep) (artifacts s)) in
                 if files = []
                 then (case tr_result_path predecessor of
                         None \<Rightarrow> []
                       | Some p \<Rightarrow> if p = [] then [] else [[(''task_id'', JStr dep), (''path'', JStr p)]])
                 else map (\<lambda>a. [(''task_id'', JStr dep), (''path'', JStr (fa_path a)),
                        (''sha256'', JStr (fa_sha256 a)), (''size'', JInt (fa_size a)),
                        (''kind'', JStr (fa_kind a))]) files)) (tr_dependencies row))))"

section \<open>Orchestration tasks\<close>

definition ensure_orchestration_task :: "string \<Rightarrow> string \<Rightarrow> string \<Rightarrow> string \<Rightarrow> task_row option store" where
  "ensure_orchestration_task task_id run_id title prompt =
     bindS (lift (guardE (strip title = []) (ValueError ''orchestration task title must be non-empty''))) (\<lambda>_.
     bindS (lift (guardE (strip prompt = []) (ValueError ''orchestration task prompt must be non-empty''))) (\<lambda>_.
     bindS utc_now (\<lambda>timestamp.
     bindS (ask (get_run run_id)) (\<lambda>found.
     case found of
       None \<Rightarrow> raise (ValueError (''unknown run: '' @ run_id))
     | Some run \<Rightarrow>
         bindS (ask (\<lambda>s. first_created (\<lambda>t. tr_run t = run_id \<and> tr_orchestration t) (tasks s))) (\<lambda>existing.
         if existing \<noteq> None then ret existing
         else
           bindS (lift (guardE (rr_status run \<in> {Run_succeeded, Run_failed, Run_cancelled})
                    (ValueError ''cannot add orchestration to a terminal run''))) (\<lambda>_.
           bindS (insert_task ((new_task_row task_id run_id (strip title) (strip prompt) [] None None
                    timestamp timestamp)\<lparr>tr_orchestration := True\<rparr>)) (\<lambda>_.
           bindS (event run_id (Some task_id) ''task_created''
                    [(''title'', JStr (strip title)), (''orchestration'', JBool True)]) (\<lambda>_.
           ask (get_task task_id)))))))))"

text \<open>\<^verbatim>\<open>ORDER BY started_at DESC, id DESC LIMIT 1\<close>.\<close>

definition active_attempt :: "string \<Rightarrow> ledger \<Rightarrow> attempt_row option" where
  "active_attempt task_id s =
     (case rev (sort_key (\<lambda>a. (ar_started a, ar_id a))
              (filter (\<lambda>a. ar_task a = task_id \<and> ar_status a = At_running) (attempts s))) of
        [] \<Rightarrow> None | a # _ \<Rightarrow> Some a)"

definition claim_orchestration_task :: "string \<Rightarrow> string \<Rightarrow> string \<Rightarrow> attempt_row option store" where
  "claim_orchestration_task attempt_id task_id runtime =
     bindS (ask (get_task task_id)) (\<lambda>found.
     if (case found of None \<Rightarrow> True | Some t \<Rightarrow> \<not> tr_orchestration t)
     then raise (ValueError ''task is not an orchestration task'')
     else
       bindS (ask (active_attempt task_id)) (\<lambda>active.
       if active \<noteq> None then ret active else claim_task attempt_id task_id runtime True))"

section \<open>Questions and answers\<close>

text \<open>\<^verbatim>\<open>Path(p).is_absolute() or ".." in Path(p).parts\<close>.\<close>

definition not_run_relative :: "string \<Rightarrow> bool" where
  "not_run_relative p \<longleftrightarrow> starts_with ''/'' p \<or> ''..'' \<in> set (split_on CHR ''/'' p)"

definition await_input :: "string \<Rightarrow> string \<Rightarrow> string \<Rightarrow> string \<Rightarrow> string list \<Rightarrow> bool store" where
  "await_input task_id attempt_id request_path question options =
     bindS (lift (guardE (strip question = [] \<or> 8000 < length question)
              (ValueError ''input question must be non-empty and at most 8 KiB''))) (\<lambda>_.
     bindS (lift (guardE (10 < length options \<or> (\<exists>x\<in>set options. 200 < length x))
              (ValueError ''input options exceed the limit''))) (\<lambda>_.
     bindS (lift (guardE (not_run_relative request_path)
              (ValueError ''input request path must be run-relative''))) (\<lambda>_.
     bindS utc_now (\<lambda>timestamp.
     bindS (ask (\<lambda>s. fetch_one (\<lambda>t. tr_id t = task_id \<and> tr_state t = Running) (tasks s))) (\<lambda>found.
     case found of
       None \<Rightarrow> ret False
     | Some task \<Rightarrow>
         bindS (update_tasks (\<lambda>t. tr_id t = task_id \<and> tr_state t = Running)
                  (\<lambda>t. t\<lparr>tr_state := Waiting, tr_question := Some question, tr_options := options,
                         tr_answer_path := None, tr_last_error := None, tr_updated := timestamp\<rparr>)) (\<lambda>updated.
         if updated \<noteq> 1 then ret False
         else
           bindS (update_attempts (\<lambda>a. ar_id a = attempt_id \<and> ar_status a = At_running)
                    (\<lambda>a. a\<lparr>ar_status := At_awaiting_input, ar_finished := Some timestamp,
                           ar_heartbeat := Some timestamp, ar_error := None\<rparr>)) (\<lambda>_.
           bindS (update_runs (\<lambda>r. rr_id r = tr_run task \<and> rr_status r \<noteq> Run_cancelled)
                    (\<lambda>r. r\<lparr>rr_status := Run_awaiting_input, rr_updated := timestamp\<rparr>)) (\<lambda>_.
           bindS (event (tr_run task) (Some task_id) ''input_required''
                    [(''attempt_id'', JStr attempt_id), (''request_path'', JStr request_path),
                     (''question_bytes'', JInt (int (length question))),
                     (''options_count'', JInt (int (length options)))]) (\<lambda>_.
           ret True)))))))))"

definition pending_input_row :: "string \<Rightarrow> ledger \<Rightarrow> task_row option" where
  "pending_input_row run_id s =
     find (\<lambda>t. has_input_question (tr_question t))
       (sort_key (\<lambda>t. (tr_created t, tr_id t))
          (filter (\<lambda>t. tr_run t = run_id \<and> tr_state t = Waiting) (tasks s)))"

definition input_request_path :: "string \<Rightarrow> string \<Rightarrow> ledger \<Rightarrow> string option" where
  "input_request_path run_id task_id s =
     (case rev (sort_key (\<lambda>a. (fa_created a, fa_id a))
              (filter (\<lambda>a. fa_run a = run_id \<and> fa_task a = task_id \<and> fa_kind a = ''input'') (artifacts s))) of
        [] \<Rightarrow> None | a # _ \<Rightarrow> Some (fa_path a))"

definition pending_input :: "string \<Rightarrow> ledger \<Rightarrow> (string \<times> json) list option" where
  "pending_input run_id s =
     (case pending_input_row run_id s of
        None \<Rightarrow> None
      | Some t \<Rightarrow> Some [(''run_id'', JStr run_id), (''task_id'', JStr (tr_id t)),
          (''question'', opt_str (tr_question t)), (''options'', strs (tr_options t)),
          (''request_path'', opt_str (input_request_path run_id (tr_id t) s)),
          (''answer_path'', opt_str (tr_answer_path t))])"

definition answer_input :: "string \<Rightarrow> string \<Rightarrow> string option store" where
  "answer_input run_id answer_path =
     bindS (lift (guardE (not_run_relative answer_path)
              (ValueError ''input answer path must be run-relative''))) (\<lambda>_.
     bindS utc_now (\<lambda>timestamp.
     bindS (ask (pending_input_row run_id)) (\<lambda>found.
     case found of
       None \<Rightarrow> ret None
     | Some row \<Rightarrow>
         bindS (update_tasks (\<lambda>t. tr_id t = tr_id row \<and> tr_state t = Waiting \<and> tr_question t = tr_question row)
                  (\<lambda>t. t\<lparr>tr_state := Ready, tr_answer_path := Some answer_path, tr_updated := timestamp\<rparr>)) (\<lambda>updated.
         if updated \<noteq> 1 then ret None
         else
           bindS (update_runs (\<lambda>r. rr_id r = run_id \<and> rr_status r = Run_awaiting_input)
                    (\<lambda>r. r\<lparr>rr_status := Run_pending, rr_updated := timestamp\<rparr>)) (\<lambda>_.
           bindS (event run_id (Some (tr_id row)) ''input_answered''
                    [(''answer_path'', JStr answer_path)]) (\<lambda>_.
           ret (Some (tr_id row))))))))"

section \<open>Completion, retry, supersession\<close>

definition finish_task :: "string \<Rightarrow> string \<Rightarrow> bool \<Rightarrow> string option \<Rightarrow> string option \<Rightarrow> bool store" where
  "finish_task task_id attempt_id success result_path error =
     bindS utc_now (\<lambda>timestamp.
     bindS (ask (get_task task_id)) (\<lambda>found.
     case found of
       None \<Rightarrow> raise (ValueError (''unknown task: '' @ task_id))
     | Some task \<Rightarrow>
         bindS (update_tasks (\<lambda>t. tr_id t = task_id \<and> tr_state t = Running)
                  (\<lambda>t. t\<lparr>tr_state := (if success then Succeeded else Failed), tr_result_path := result_path,
                         tr_last_error := error, tr_updated := timestamp\<rparr>)) (\<lambda>updated.
         if updated \<noteq> 1 then ret False
         else
           bindS (update_attempts (\<lambda>a. ar_id a = attempt_id)
                    (\<lambda>a. a\<lparr>ar_status := (if success then At_succeeded else At_failed),
                           ar_finished := Some timestamp, ar_heartbeat := Some timestamp, ar_error := error\<rparr>)) (\<lambda>_.
           bindS (event (tr_run task) (Some task_id) (if success then ''task_succeeded'' else ''task_failed'')
                    [(''attempt_id'', JStr attempt_id), (''result_path'', opt_str result_path),
                     (''error'', opt_str error)]) (\<lambda>_.
           ret True)))))"

definition retry_task :: "string \<Rightarrow> string \<Rightarrow> string \<Rightarrow> bool store" where
  "retry_task task_id attempt_id error =
     bindS utc_now (\<lambda>timestamp.
     bindS (ask (get_task task_id)) (\<lambda>found.
     case found of
       None \<Rightarrow> raise (ValueError (''unknown task: '' @ task_id))
     | Some task \<Rightarrow>
         bindS (update_tasks (\<lambda>t. tr_id t = task_id \<and> tr_state t = Running)
                  (\<lambda>t. t\<lparr>tr_state := Ready, tr_last_error := Some error, tr_updated := timestamp\<rparr>)) (\<lambda>updated.
         if updated \<noteq> 1 then ret False
         else
           bindS (update_attempts (\<lambda>a. ar_id a = attempt_id)
                    (\<lambda>a. a\<lparr>ar_status := At_failed, ar_finished := Some timestamp,
                           ar_heartbeat := Some timestamp, ar_error := Some error\<rparr>)) (\<lambda>_.
           bindS (event (tr_run task) (Some task_id) ''task_retry_scheduled''
                    [(''attempt_id'', JStr attempt_id), (''error'', JStr error)]) (\<lambda>_.
           ret True)))))"

definition supersede_row :: "string \<Rightarrow> string \<Rightarrow> nat \<Rightarrow> task_row \<Rightarrow> unit store" where
  "supersede_row run_id reason timestamp row =
     bindS (update_tasks (\<lambda>t. tr_id t = tr_id row \<and> tr_plan_task t \<noteq> None
                              \<and> tr_state t \<in> {Pending, Ready, Waiting})
              (\<lambda>t. t\<lparr>tr_state := Superseded, tr_last_error := Some reason, tr_updated := timestamp\<rparr>)) (\<lambda>changed.
     if changed \<noteq> 0 then event run_id (Some (tr_id row)) ''task_superseded'' [(''reason'', JStr reason)]
     else ret ())"

definition supersede_pending_tasks :: "string \<Rightarrow> string \<Rightarrow> nat store" where
  "supersede_pending_tasks run_id reason0 =
     bindS (lift (guardE (strip reason0 = []) (ValueError ''supersede reason must be non-empty''))) (\<lambda>_.
     let reason = last_chars 2000 (strip reason0) in
     bindS utc_now (\<lambda>timestamp.
     bindS (ask (\<lambda>s. filter (\<lambda>t. tr_run t = run_id \<and> tr_plan_task t \<noteq> None
                                 \<and> tr_state t \<in> {Pending, Ready, Waiting}) (tasks s))) (\<lambda>rows.
     bindS (forS (supersede_row run_id reason timestamp) rows) (\<lambda>_.
     ret (length rows)))))"

section \<open>Attempts and their processes\<close>

definition set_attempt_process :: "string \<Rightarrow> int option \<Rightarrow> int option \<Rightarrow> bool store" where
  "set_attempt_process attempt_id pid pgid =
     bindS utc_now (\<lambda>now.
     bindS (update_attempts (\<lambda>a. ar_id a = attempt_id)
              (\<lambda>a. a\<lparr>ar_pid := pid, ar_pgid := pgid, ar_heartbeat := Some now\<rparr>)) (\<lambda>changed.
     ret (changed = 1)))"

definition clear_attempt_process :: "string \<Rightarrow> int option \<Rightarrow> int option \<Rightarrow> bool store" where
  "clear_attempt_process attempt_id pid pgid =
     bindS utc_now (\<lambda>now.
     bindS (update_attempts (\<lambda>a. ar_id a = attempt_id \<and> process_match pid pgid (ar_pid a) (ar_pgid a))
              (\<lambda>a. a\<lparr>ar_pid := None, ar_pgid := None, ar_heartbeat := Some now\<rparr>)) (\<lambda>changed.
     ret (changed = 1)))"

definition list_attempt_processes :: "string \<Rightarrow> ledger \<Rightarrow> attempt_row list" where
  "list_attempt_processes run_id s =
     sort_key (\<lambda>a. (ar_started a, ar_id a))
       (filter (\<lambda>a. (\<exists>t\<in>set (tasks s). tr_id t = ar_task a \<and> tr_run t = run_id)
                   \<and> (ar_pid a \<noteq> None \<or> ar_pgid a \<noteq> None)) (attempts s))"

definition recover_row :: "string \<Rightarrow> nat \<Rightarrow> task_row \<Rightarrow> unit store" where
  "recover_row run_id timestamp row =
     bindS (update_tasks (\<lambda>t. tr_id t = tr_id row)
              (\<lambda>t. t\<lparr>tr_state := Uncertain, tr_updated := timestamp,
                     tr_last_error := Some ''controller restarted while task was running''\<rparr>)) (\<lambda>_.
     bindS (update_attempts (\<lambda>a. ar_task a = tr_id row \<and> ar_status a = At_running)
              (\<lambda>a. a\<lparr>ar_status := At_uncertain, ar_heartbeat := Some timestamp,
                     ar_error := Some ''controller restarted before attempt completed''\<rparr>)) (\<lambda>_.
     event run_id (Some (tr_id row)) ''task_recovered'' [(''reason'', JStr ''controller_restart'')]))"

definition recover_running :: "string \<Rightarrow> nat store" where
  "recover_running run_id =
     bindS utc_now (\<lambda>timestamp.
     bindS (ask (\<lambda>s. filter (\<lambda>t. tr_run t = run_id \<and> tr_state t = Running) (tasks s))) (\<lambda>rows.
     bindS (forS (recover_row run_id timestamp) rows) (\<lambda>_.
     ret (length rows))))"

section \<open>Settling, cancelling and failing a run\<close>

definition derived_status :: "task_row list \<Rightarrow> run_status" where
  "derived_status rows =
     (let states = tr_state ` set rows in
      if Failed \<in> states \<or> Blocked \<in> states then Run_failed
      else if states \<subseteq> {Succeeded, Superseded} \<and> Succeeded \<in> states then Run_succeeded
      else if \<exists>t\<in>set rows. tr_state t = Waiting \<and> has_input_question (tr_question t) then Run_awaiting_input
      else if Cancelled \<in> states then Run_cancelled
      else Run_running)"

definition wall_timeout_event :: "string \<Rightarrow> event_id" where
  "wall_timeout_event run_id = Named_event (''event-budget-solve_wall_timeout-'' @ run_id)"

definition settle_run :: "string \<Rightarrow> run_row option store" where
  "settle_run run_id =
     bindS utc_now (\<lambda>timestamp.
     bindS (ask (get_run run_id)) (\<lambda>found.
     case found of
       None \<Rightarrow> ret None
     | Some current \<Rightarrow>
         bindS (ask (\<lambda>s. \<exists>e\<in>set (events s). ev_id e = wall_timeout_event run_id \<and> ev_run e = run_id
                            \<and> ev_type e = ''budget_exceeded'')) (\<lambda>timed_out.
         if rr_status current = Run_failed \<and> timed_out then ask (get_run run_id)
         else
           bindS (ask (\<lambda>s. filter (\<lambda>t. tr_run t = run_id) (tasks s))) (\<lambda>rows.
           if rows = [] then ask (get_run run_id)
           else
             let status = derived_status rows in
             bindS (update_runs (\<lambda>r. rr_id r = run_id \<and> rr_status r \<noteq> Run_cancelled)
                      (\<lambda>r. r\<lparr>rr_status := status, rr_updated := timestamp\<rparr>)) (\<lambda>_.
             bindS (if status \<in> {Run_succeeded, Run_failed} \<and> rr_status current \<noteq> status
                    then event run_id None (''run_'' @ run_status_text status) [] else ret ()) (\<lambda>_.
             ask (get_run run_id)))))))"

definition cancel_run :: "string \<Rightarrow> bool store" where
  "cancel_run run_id =
     bindS utc_now (\<lambda>timestamp.
     bindS (ask (get_run run_id)) (\<lambda>found.
     if found = None then ret False
     else
       bindS (update_runs (\<lambda>r. rr_id r = run_id \<and> rr_status r \<notin> {Run_succeeded, Run_failed, Run_cancelled})
                (\<lambda>r. r\<lparr>rr_status := Run_cancelled, rr_updated := timestamp\<rparr>)) (\<lambda>changed.
       if changed = 0 then ret False
       else
         bindS (ask (\<lambda>s. filter (\<lambda>t. tr_run t = run_id
                  \<and> tr_state t \<notin> {Succeeded, Failed, Cancelled, Superseded}) (tasks s))) (\<lambda>task_rows.
         bindS (update_tasks (\<lambda>t. tr_run t = run_id \<and> tr_state t \<notin> {Succeeded, Failed, Cancelled, Superseded})
                  (\<lambda>t. t\<lparr>tr_state := Cancelled, tr_updated := timestamp\<rparr>)) (\<lambda>changed_tasks.
         bindS (ask (\<lambda>s. map tr_id (filter (\<lambda>t. tr_run t = run_id) (tasks s)))) (\<lambda>ids.
         bindS (update_attempts (\<lambda>a. ar_task a \<in> set ids \<and> ar_status a = At_running)
                  (\<lambda>a. a\<lparr>ar_status := At_cancelled, ar_finished := Some timestamp\<rparr>)) (\<lambda>_.
         bindS (event run_id None ''run_cancelled'' []) (\<lambda>_.
         bindS (if changed_tasks \<noteq> 0
                then forS (\<lambda>t. event run_id (Some (tr_id t)) ''task_cancelled''
                                 [(''reason'', JStr ''run_cancelled'')]) task_rows
                else ret ()) (\<lambda>_.
         ret True)))))))))"

definition fail_budget :: "string \<Rightarrow> string \<Rightarrow> json \<Rightarrow> json \<Rightarrow> string \<Rightarrow> bool store" where
  "fail_budget run_id limit actual maximum reason =
     bindS (ask (get_run run_id)) (\<lambda>found.
     case found of
       None \<Rightarrow> ret False
     | Some row \<Rightarrow>
         if rr_status row \<in> {Run_succeeded, Run_cancelled} then ret False
         else if limit = ''solve_wall_timeout'' \<and> rr_status row = Run_failed then ret False
         else
           bindS utc_now (\<lambda>timestamp.
           bindS (update_runs (\<lambda>r. rr_id r = run_id \<and> rr_status r \<noteq> Run_cancelled)
                    (\<lambda>r. r\<lparr>rr_status := Run_failed, rr_updated := timestamp\<rparr>)) (\<lambda>_.
           bindS (update_tasks (\<lambda>t. tr_run t = run_id \<and> tr_state t \<in> {Pending, Ready, Waiting, Running})
                    (\<lambda>t. t\<lparr>tr_state := Blocked, tr_last_error := Some reason, tr_updated := timestamp\<rparr>)) (\<lambda>_.
           bindS (ask (\<lambda>s. map tr_id (filter (\<lambda>t. tr_run t = run_id) (tasks s)))) (\<lambda>ids.
           bindS (update_attempts (\<lambda>a. ar_task a \<in> set ids \<and> ar_status a = At_running)
                    (\<lambda>a. a\<lparr>ar_status := At_failed, ar_finished := Some timestamp,
                           ar_heartbeat := Some timestamp, ar_error := Some reason\<rparr>)) (\<lambda>_.
           bindS (if limit = ''solve_wall_timeout''
                  then bindS (update_tasks (\<lambda>t. tr_run t = run_id \<and> tr_orchestration t
                                 \<and> tr_state t \<in> {Blocked, Pending, Ready, Waiting, Running, Uncertain})
                          (\<lambda>t. t\<lparr>tr_state := Failed, tr_last_error := Some reason,
                                 tr_updated := timestamp\<rparr>)) (\<lambda>_. ret ())
                  else ret ()) (\<lambda>_.
           append_event run_id None ''budget_exceeded''
             [(''limit'', JStr limit), (''actual'', actual), (''maximum'', maximum), (''reason'', JStr reason)]
             (Some (''event-budget-'' @ limit @ ''-'' @ run_id)))))))))"

section \<open>Artifacts and audit events\<close>

definition add_artifact ::
  "string \<Rightarrow> string \<Rightarrow> string \<Rightarrow> string \<Rightarrow> string \<Rightarrow> int \<Rightarrow> string \<Rightarrow> string store" where
  "add_artifact artifact_id run_id task_id path sha256 nbytes kind =
     bindS utc_now (\<lambda>now.
     bindS (insert_artifact \<lparr>fa_id = artifact_id, fa_run = run_id, fa_task = task_id, fa_path = path,
              fa_sha256 = sha256, fa_size = nbytes, fa_kind = kind, fa_created = now\<rparr>) (\<lambda>_.
     bindS (event run_id (Some task_id) ''artifact_recorded''
              [(''artifact_id'', JStr artifact_id), (''path'', JStr path), (''sha256'', JStr sha256),
               (''size'', JInt nbytes)]) (\<lambda>_.
     ret artifact_id)))"

text \<open>SQL \<^verbatim>\<open>LIKE\<close>: percent matches any text, underscore one character, ASCII case is ignored.\<close>

fun sql_like :: "string \<Rightarrow> string \<Rightarrow> bool" where
  "sql_like [] s = (s = [])"
| "sql_like (p # ps) s =
     (if p = CHR ''%'' then sql_like ps s \<or> (case s of [] \<Rightarrow> False | c # cs \<Rightarrow> sql_like (p # ps) cs)
      else case s of [] \<Rightarrow> False
        | c # cs \<Rightarrow> (p = CHR ''_'' \<or> lower_char p = lower_char c) \<and> sql_like ps cs)"

text \<open>
  The statement is \<^verbatim>\<open>run_id = ? AND task_id = ? AND (path LIKE ? AND kind IN (?, ?)) OR (kind = 'output'
  AND id IN (...))\<close>: conjunction binds tighter, so the second alternative has no run or task.
\<close>

definition discard_selects :: "string \<Rightarrow> string \<Rightarrow> string \<Rightarrow> string list \<Rightarrow> artifact_row \<Rightarrow> bool" where
  "discard_selects run_id task_id attempt_id output_ids a \<longleftrightarrow>
     (fa_run a = run_id \<and> fa_task a = task_id
        \<and> sql_like (''tasks/'' @ task_id @ ''/'' @ attempt_id @ ''/%'') (fa_path a)
        \<and> fa_kind a \<in> {''result'', ''runtime''})
     \<or> (fa_kind a = ''output'' \<and> fa_id a \<in> set output_ids)"

definition discard_attempt_outputs ::
  "string \<Rightarrow> string \<Rightarrow> string \<Rightarrow> string list \<Rightarrow> string list store" where
  "discard_attempt_outputs run_id task_id attempt_id output_ids =
     bindS (ask (\<lambda>s. map fa_path (filter (discard_selects run_id task_id attempt_id output_ids) (artifacts s)))) (\<lambda>paths.
     bindS (modify (\<lambda>s. s\<lparr>artifacts :=
              filter (\<lambda>a. \<not> discard_selects run_id task_id attempt_id output_ids a) (artifacts s)\<rparr>)) (\<lambda>_.
     ret paths))"

end
