(* ===== verification/StoreLogic.thy ===== *)
theory StoreLogic imports Scheduler begin

text \<open>
  Reasoning about store operations.  \<open>keeps I m\<close> says that a committed \<open>m\<close> preserves \<open>I\<close>; its
  rules follow the shape of an operation, so that only its \<^verbatim>\<open>UPDATE\<close> and \<^verbatim>\<open>INSERT\<close> statements are left.
  The locale \<open>row_evolution\<close> is the contract of a table whose rows are only updated in ways a
  preorder allows and are never deleted; it is interpreted for the tables of the ledger.
\<close>

named_theorems keeps_rules \<open>preservation rules for the statements of an operation\<close>

section \<open>Preservation\<close>

definition keeps :: "(ledger \<Rightarrow> bool) \<Rightarrow> 'a store \<Rightarrow> bool" where
  "keeps I m \<longleftrightarrow> (\<forall>s x s'. I s \<longrightarrow> m s = Inr (x, s') \<longrightarrow> I s')"

lemma keepsD: "keeps I m \<Longrightarrow> I s \<Longrightarrow> m s = Inr (x, s') \<Longrightarrow> I s'"
  unfolding keeps_def by blast

lemma keeps_after: "keeps I m \<Longrightarrow> I s \<Longrightarrow> I (after m s)"
  by (auto simp: after_def split: sum.splits dest: keepsD)

lemma keeps_pure [keeps_rules]:
  "keeps I (ret x)" "keeps I (raise e)" "keeps I (lift r)" "keeps I (ask q)"
  by (auto simp: keeps_def lift_Inr_iff)

lemma keeps_bind [keeps_rules]: "keeps I m \<Longrightarrow> (\<And>x. keeps I (f x)) \<Longrightarrow> keeps I (bindS m f)"
  unfolding keeps_def bindS_Inr_iff by blast

lemma keeps_if [keeps_rules]: "(c \<Longrightarrow> keeps I a) \<Longrightarrow> (\<not> c \<Longrightarrow> keeps I b) \<Longrightarrow> keeps I (if c then a else b)"
  by simp

lemma keeps_option [keeps_rules]:
  "(x = None \<Longrightarrow> keeps I a) \<Longrightarrow> (\<And>y. x = Some y \<Longrightarrow> keeps I (b y)) \<Longrightarrow>
     keeps I (case x of None \<Rightarrow> a | Some y \<Rightarrow> b y)"
  by (cases x) auto

lemma keeps_let [keeps_rules]: "(\<And>y. y = x \<Longrightarrow> keeps I (f y)) \<Longrightarrow> keeps I (let y = x in f y)"
  by (simp add: Let_def)

lemma keeps_prod [keeps_rules]: "(\<And>a b. p = (a, b) \<Longrightarrow> keeps I (f a b)) \<Longrightarrow> keeps I (case p of (a, b) \<Rightarrow> f a b)"
  by (cases p) auto

lemma keeps_forS:
  assumes "\<And>x. x \<in> set xs \<Longrightarrow> keeps I (f x)" shows "keeps I (forS f xs)"
  using assms by (induction xs) (auto intro: keeps_pure keeps_bind)

lemma keeps_forS_all [keeps_rules]: "(\<And>x. keeps I (f x)) \<Longrightarrow> keeps I (forS f xs)"
  by (rule keeps_forS)

section \<open>Tables whose rows only evolve\<close>

locale row_evolution =
  fixes tbl :: "ledger \<Rightarrow> 'r list" and T :: "'r \<Rightarrow> 'r \<Rightarrow> bool"
  assumes T_refl: "T r r" and T_trans: "T a b \<Longrightarrow> T b c \<Longrightarrow> T a c"
begin

definition evolved :: "ledger \<Rightarrow> ledger \<Rightarrow> bool" where
  "evolved s s' \<longleftrightarrow> (\<exists>f news. tbl s' = map f (tbl s) @ news \<and> (\<forall>r\<in>set (tbl s). T r (f r)))"

lemma evolved_refl: "evolved s s"
proof -
  have "tbl s = map id (tbl s) @ []" by simp
  with T_refl show ?thesis unfolding evolved_def by (metis id_apply)
qed

lemma evolved_same: "evolved s s' \<Longrightarrow> tbl s'' = tbl s' \<Longrightarrow> evolved s s''"
  by (simp add: evolved_def)

lemma evolved_append: "evolved s s' \<Longrightarrow> tbl s'' = tbl s' @ rs \<Longrightarrow> evolved s s''"
  unfolding evolved_def by auto

lemma evolved_update:
  assumes "evolved s s'" and "tbl s'' = update_rows P g (tbl s')"
    and "\<And>r. r \<in> set (tbl s') \<Longrightarrow> P r \<Longrightarrow> T r (g r)"
  shows "evolved s s''"
proof -
  from assms(1) obtain f news where f: "tbl s' = map f (tbl s) @ news" "\<forall>r\<in>set (tbl s). T r (f r)"
    by (auto simp: evolved_def)
  let ?h = "\<lambda>r. if P r then g r else r"
  have "T r (?h (f r))" if "r \<in> set (tbl s)" for r
    using f(2) that assms(3) [of "f r"] T_trans [of r "f r" "g (f r)"] f(1) by auto
  moreover have "tbl s'' = map (?h \<circ> f) (tbl s) @ map ?h news"
    using assms(2) f(1) by (simp add: update_rows_def)
  ultimately show ?thesis unfolding evolved_def by (intro exI [of _ "?h \<circ> f"] exI [of _ "map ?h news"]) simp
qed

lemma evolved_trans: "evolved s s' \<Longrightarrow> evolved s' s'' \<Longrightarrow> evolved s s''"
proof -
  assume "evolved s s'" "evolved s' s''"
  then obtain f g n m where "tbl s' = map f (tbl s) @ n" "\<forall>r\<in>set (tbl s). T r (f r)"
    "tbl s'' = map g (tbl s') @ m" "\<forall>r\<in>set (tbl s'). T r (g r)" unfolding evolved_def by blast
  then have "tbl s'' = map (g \<circ> f) (tbl s) @ (map g n @ m)" "\<forall>r\<in>set (tbl s). T r ((g \<circ> f) r)"
    using T_trans by auto
  then show ?thesis unfolding evolved_def by blast
qed

text \<open>What a client gets: a row that is there stays, and changes only as \<open>T\<close> allows.\<close>

lemma evolved_persists: "evolved s s' \<Longrightarrow> r \<in> set (tbl s) \<Longrightarrow> \<exists>r'\<in>set (tbl s'). T r r'"
  unfolding evolved_def by fastforce

lemma keeps_same:
  assumes "\<And>s x s'. m s = Inr (x, s') \<Longrightarrow> tbl s' = tbl s" shows "keeps (evolved s0) m"
  unfolding keeps_def using assms evolved_same by blast

lemma keeps_update:
  assumes "\<And>s x s'. m s = Inr (x, s') \<Longrightarrow> tbl s' = update_rows P g (tbl s)"
    and "\<And>r. P r \<Longrightarrow> T r (g r)"
  shows "keeps (evolved s0) m"
  unfolding keeps_def using assms evolved_update by blast

lemma keeps_append:
  assumes "\<And>s x s'. m s = Inr (x, s') \<Longrightarrow> \<exists>rs. tbl s' = tbl s @ rs" shows "keeps (evolved s0) m"
  unfolding keeps_def using assms evolved_append by blast

text \<open>A history of steps that each evolve the table evolves it.\<close>

lemma history_evolved:
  assumes "\<And>x s. x \<in> set xs \<Longrightarrow> evolved s (step x s)" shows "evolved s (fold step xs s)"
  using assms by (induction xs arbitrary: s) (auto intro: evolved_refl evolved_trans)

end

end
