(* ===== verification/Lifecycle.thy ===== *)
theory Lifecycle imports StoreLogic begin

text \<open>
  What every store operation preserves.  \<open>ledger_ok\<close> is the integrity the schema promises; the
  locale \<open>task_policy\<close> is the contract between the operations and a rule about how a task row may
  change, and proves once that every operation but a plan revision follows any such rule.
\<close>

section \<open>Integrity of the ledger\<close>

definition ledger_ok :: "ledger \<Rightarrow> bool" where
  "ledger_ok s \<longleftrightarrow> distinct (map rr_id (runs s)) \<and> distinct (map tr_id (tasks s))
     \<and> distinct (map ar_id (attempts s)) \<and> distinct (map ev_id (events s))
     \<and> tr_run ` set (tasks s) \<subseteq> rr_id ` set (runs s) \<and> ar_task ` set (attempts s) \<subseteq> tr_id ` set (tasks s)
     \<and> (\<forall>e\<in>set (events s). \<forall>n. ev_id e = Fresh_event n \<longrightarrow> n < ticks s)"

lemma ledger_ok_empty: "ledger_ok (empty_ledger clock)"
  by (simp add: ledger_ok_def empty_ledger_def)

section \<open>How rows may change\<close>

definition same_task :: "task_row \<Rightarrow> task_row \<Rightarrow> bool" where
  "same_task a b \<longleftrightarrow> tr_id b = tr_id a \<and> tr_run b = tr_run a \<and> tr_created b = tr_created a
     \<and> tr_orchestration b = tr_orchestration a \<and> tr_plan_task b = tr_plan_task a"

definition terminal :: "task_status \<Rightarrow> bool" where
  "terminal st \<longleftrightarrow> st \<in> {Succeeded, Failed, Cancelled, Superseded}"

definition run_may :: "run_row \<Rightarrow> run_row \<Rightarrow> bool" where
  "run_may a b \<longleftrightarrow> rr_id b = rr_id a \<and> rr_goal b = rr_goal a \<and> rr_workspace b = rr_workspace a
     \<and> rr_created b = rr_created a \<and> rr_route b = rr_route a
     \<and> (rr_status a = Run_cancelled \<longrightarrow> rr_status b = Run_cancelled)"

definition attempt_may :: "attempt_row \<Rightarrow> attempt_row \<Rightarrow> bool" where
  "attempt_may a b \<longleftrightarrow> ar_id b = ar_id a \<and> ar_task b = ar_task a \<and> ar_runtime b = ar_runtime a
     \<and> ar_started b = ar_started a"

interpretation runs_ev: row_evolution runs run_may
  by unfold_locales (auto simp: run_may_def)

interpretation attempts_ev: row_evolution attempts attempt_may
  by unfold_locales (auto simp: attempt_may_def)

interpretation events_ev: row_evolution events "(=)" by unfold_locales auto
interpretation revisions_ev: row_evolution revisions "(=)" by unfold_locales auto
interpretation decisions_ev: row_evolution decisions "(=)" by unfold_locales auto

lemma same_task_trans: "same_task a b \<Longrightarrow> same_task b c \<Longrightarrow> same_task a c"
  by (simp add: same_task_def)

section \<open>Integrity under the statements\<close>

lemma ledger_ok_ticks: "ledger_ok s \<Longrightarrow> ledger_ok (s\<lparr>ticks := Suc (ticks s)\<rparr>)"
  by (auto simp: ledger_ok_def less_Suc_eq)

lemma ledger_ok_update_tasks:
  assumes "ledger_ok s" and "\<And>t. P t \<Longrightarrow> same_task t (f t)"
  shows "ledger_ok (s\<lparr>tasks := update_rows P f (tasks s)\<rparr>)"
proof -
  have "map tr_id (update_rows P f (tasks s)) = map tr_id (tasks s)"
    by (rule task_table.update_keys) (use assms(2) in \<open>auto simp: same_task_def\<close>)
  moreover from this have "tr_id ` set (update_rows P f (tasks s)) = tr_id ` set (tasks s)"
    by (metis set_map)
  moreover have "map tr_run (update_rows P f (tasks s)) = map tr_run (tasks s)"
    by (rule keyed_table.update_keys [OF keyed_table_rows]) (use assms(2) in \<open>auto simp: same_task_def\<close>)
  then have "tr_run ` set (update_rows P f (tasks s)) = tr_run ` set (tasks s)" by (metis set_map)
  ultimately show ?thesis using assms(1) by (simp add: ledger_ok_def)
qed

lemma ledger_ok_update_runs:
  assumes "ledger_ok s" and "\<And>r. P r \<Longrightarrow> run_may r (f r)"
  shows "ledger_ok (s\<lparr>runs := update_rows P f (runs s)\<rparr>)"
proof -
  have "map rr_id (update_rows P f (runs s)) = map rr_id (runs s)"
    by (rule run_table.update_keys) (use assms(2) in \<open>auto simp: run_may_def\<close>)
  moreover from this have "rr_id ` set (update_rows P f (runs s)) = rr_id ` set (runs s)" by (metis set_map)
  ultimately show ?thesis using assms(1) by (simp add: ledger_ok_def)
qed

lemma ledger_ok_update_attempts:
  assumes "ledger_ok s" and "\<And>a. P a \<Longrightarrow> attempt_may a (f a)"
  shows "ledger_ok (s\<lparr>attempts := update_rows P f (attempts s)\<rparr>)"
proof -
  have "map ar_id (update_rows P f (attempts s)) = map ar_id (attempts s)"
    by (rule attempt_table.update_keys) (use assms(2) in \<open>auto simp: attempt_may_def\<close>)
  moreover have "map ar_task (update_rows P f (attempts s)) = map ar_task (attempts s)"
    by (rule keyed_table.update_keys [OF keyed_table_rows]) (use assms(2) in \<open>auto simp: attempt_may_def\<close>)
  then have "ar_task ` set (update_rows P f (attempts s)) = ar_task ` set (attempts s)" by (metis set_map)
  ultimately show ?thesis using assms(1) by (simp add: ledger_ok_def)
qed

text \<open>The statements that insert, by their effect.\<close>

lemma insert_run_Inr:
  "insert_run r s = Inr (x, s') \<longleftrightarrow> rr_id r \<notin> rr_id ` set (runs s) \<and> s' = s\<lparr>runs := runs s @ [r]\<rparr>"
  by (auto simp: insert_run_def insert_row_def bindE_Inr_iff)

lemma insert_task_Inr:
  "insert_task r s = Inr (x, s') \<longleftrightarrow>
     tr_id r \<notin> tr_id ` set (tasks s) \<and> has_run s (tr_run r) \<and> s' = s\<lparr>tasks := tasks s @ [r]\<rparr>"
  by (auto simp: insert_task_def insert_row_def bindE_Inr_iff guardE_Inr_iff)

lemma insert_attempt_Inr:
  "insert_attempt r s = Inr (x, s') \<longleftrightarrow>
     ar_id r \<notin> ar_id ` set (attempts s) \<and> has_task s (ar_task r) \<and> s' = s\<lparr>attempts := attempts s @ [r]\<rparr>"
  by (auto simp: insert_attempt_def insert_row_def bindE_Inr_iff guardE_Inr_iff)

lemma insert_artifact_Inr:
  "insert_artifact r s = Inr (x, s') \<Longrightarrow> \<exists>t. s' = s\<lparr>artifacts := t\<rparr>"
  by (auto simp: insert_artifact_def bindE_Inr_iff guardE_Inr_iff)

lemma insert_revision_Inr:
  "insert_revision r s = Inr (x, s') \<Longrightarrow> s' = s\<lparr>revisions := revisions s @ [r]\<rparr>"
  by (auto simp: insert_revision_def insert_row_def bindE_Inr_iff guardE_Inr_iff split: if_splits)

lemma append_event_Inr:
  assumes "append_event run task typ payload eid s = Inr (b, s')"
  obtains (dup) "s' = s\<lparr>ticks := Suc (ticks s)\<rparr>" "\<not> b"
  | (added) e where "s' = s\<lparr>ticks := Suc (ticks s), events := events s @ [e]\<rparr>" "b"
      "ev_id e \<notin> ev_id ` set (events s)" "\<And>n. ev_id e = Fresh_event n \<Longrightarrow> n = ticks s"
      "ev_run e = run" "ev_task e = task" "ev_type e = typ" "ev_payload e = payload"
proof -
  let ?i = "case eid of None \<Rightarrow> Fresh_event (ticks s) | Some n \<Rightarrow> Named_event n"
  let ?e = "\<lparr>ev_id = ?i, ev_run = run, ev_task = task, ev_type = typ, ev_payload = payload,
     ev_created = timeline s (ticks s)\<rparr>"
  show ?thesis
  proof (cases "?i \<in> set (map ev_id (events s))")
    case True
    with assms show ?thesis by (intro dup) (simp_all add: append_event_def Let_def)
  next
    case False
    with assms have "s' = s\<lparr>ticks := Suc (ticks s), events := events s @ [?e]\<rparr>" "b"
      unfolding append_event_def Let_def by (simp_all split: if_splits)
    with False show ?thesis by (intro added [of ?e]) (auto split: option.splits)
  qed
qed

lemma ledger_ok_added:
  assumes "ledger_ok s" "ev_id e \<notin> ev_id ` set (events s)" "\<And>n. ev_id e = Fresh_event n \<Longrightarrow> n = ticks s"
  shows "ledger_ok (s\<lparr>ticks := Suc (ticks s), events := events s @ [e]\<rparr>)"
  using assms by (auto simp: ledger_ok_def less_Suc_eq)

locale task_policy =
  fixes T :: "task_row \<Rightarrow> task_row \<Rightarrow> bool"
  assumes refl: "T a a" and trans: "T a b \<Longrightarrow> T b c \<Longrightarrow> T a c"
    and identity: "T a b \<Longrightarrow> same_task a b"
    and live: "\<not> terminal (tr_state a) \<Longrightarrow> tr_state a \<noteq> Blocked \<Longrightarrow> same_task a b \<Longrightarrow> T a b"
    and blocked: "tr_state a = Blocked \<Longrightarrow> tr_state b \<in> {Failed, Cancelled} \<Longrightarrow> same_task a b \<Longrightarrow> T a b"

sublocale task_policy \<subseteq> tasks_ev: row_evolution tasks T
  using refl trans by unfold_locales

context task_policy begin

definition evolution :: "ledger \<Rightarrow> ledger \<Rightarrow> bool" where
  "evolution s s' \<longleftrightarrow> ledger_ok s' \<and> tasks_ev.evolved s s' \<and> runs_ev.evolved s s' \<and> attempts_ev.evolved s s'
     \<and> events_ev.evolved s s' \<and> revisions_ev.evolved s s' \<and> decisions_ev.evolved s s'"

lemma evolution_refl: "ledger_ok s \<Longrightarrow> evolution s s"
  by (simp add: evolution_def tasks_ev.evolved_refl runs_ev.evolved_refl attempts_ev.evolved_refl
      events_ev.evolved_refl revisions_ev.evolved_refl decisions_ev.evolved_refl)

lemma evolution_trans: "evolution s s' \<Longrightarrow> evolution s' s'' \<Longrightarrow> evolution s s''"
  unfolding evolution_def
  by (meson tasks_ev.evolved_trans runs_ev.evolved_trans attempts_ev.evolved_trans events_ev.evolved_trans
      revisions_ev.evolved_trans decisions_ev.evolved_trans)

text \<open>The statements.\<close>

lemma keeps_utc [keeps_rules]: "keeps (evolution s0) utc_now"
  unfolding keeps_def utc_now_def evolution_def
  by (auto intro: ledger_ok_ticks tasks_ev.evolved_same runs_ev.evolved_same attempts_ev.evolved_same
      events_ev.evolved_same revisions_ev.evolved_same decisions_ev.evolved_same)

lemma evolution_frame:
  assumes "evolution s0 s" "ledger_ok s'" "tasks s' = tasks s" "runs s' = runs s" "attempts s' = attempts s"
    "events s' = events s" "revisions s' = revisions s" "decisions s' = decisions s"
  shows "evolution s0 s'"
  using assms unfolding evolution_def
  by (auto intro: tasks_ev.evolved_same runs_ev.evolved_same attempts_ev.evolved_same
      events_ev.evolved_same revisions_ev.evolved_same decisions_ev.evolved_same)

lemma evolution_events:
  assumes "evolution s0 s" "ledger_ok s'" "tasks s' = tasks s" "runs s' = runs s" "attempts s' = attempts s"
    "events s' = events s @ es" "revisions s' = revisions s @ vs" "decisions s' = decisions s @ ds"
  shows "evolution s0 s'"
  using assms unfolding evolution_def
  by (auto intro: tasks_ev.evolved_same runs_ev.evolved_same attempts_ev.evolved_same
      events_ev.evolved_append revisions_ev.evolved_append decisions_ev.evolved_append)

lemma evolution_update_tasks:
  assumes "evolution s0 s" and "\<And>t. P t \<Longrightarrow> same_task t (f t)"
    and "\<And>t. t \<in> set (tasks s) \<Longrightarrow> P t \<Longrightarrow> T t (f t)"
  shows "evolution s0 (s\<lparr>tasks := update_rows P f (tasks s)\<rparr>)"
  using assms unfolding evolution_def
  by (auto intro!: ledger_ok_update_tasks intro: tasks_ev.evolved_update runs_ev.evolved_same
      attempts_ev.evolved_same events_ev.evolved_same revisions_ev.evolved_same decisions_ev.evolved_same)

lemma keeps_update_tasks:
  assumes "\<And>t. P t \<Longrightarrow> T t (f t)" shows "keeps (evolution s0) (update_tasks P f)"
  unfolding keeps_def update_tasks_def
  using assms by (auto intro!: evolution_update_tasks dest: identity)

lemma keeps_update_runs:
  assumes "\<And>r. P r \<Longrightarrow> run_may r (f r)" shows "keeps (evolution s0) (update_runs P f)"
  unfolding keeps_def update_runs_def evolution_def
  using assms by (auto intro!: ledger_ok_update_runs intro: tasks_ev.evolved_same runs_ev.evolved_update
      attempts_ev.evolved_same events_ev.evolved_same revisions_ev.evolved_same decisions_ev.evolved_same)

lemma keeps_update_attempts:
  assumes "\<And>a. P a \<Longrightarrow> attempt_may a (f a)" shows "keeps (evolution s0) (update_attempts P f)"
  unfolding keeps_def update_attempts_def evolution_def
  using assms by (auto intro!: ledger_ok_update_attempts intro: tasks_ev.evolved_same runs_ev.evolved_same
      attempts_ev.evolved_update events_ev.evolved_same revisions_ev.evolved_same decisions_ev.evolved_same)

lemma keeps_insert_run [keeps_rules]: "keeps (evolution s0) (insert_run r)"
  unfolding keeps_def insert_run_Inr evolution_def
  by (auto intro: tasks_ev.evolved_same runs_ev.evolved_append attempts_ev.evolved_same
      events_ev.evolved_same revisions_ev.evolved_same decisions_ev.evolved_same simp: ledger_ok_def)

lemma keeps_insert_task [keeps_rules]: "keeps (evolution s0) (insert_task r)"
  unfolding keeps_def insert_task_Inr evolution_def
  by (auto intro: tasks_ev.evolved_append runs_ev.evolved_same attempts_ev.evolved_same
      events_ev.evolved_same revisions_ev.evolved_same decisions_ev.evolved_same simp: ledger_ok_def has_run_def)

lemma keeps_insert_attempt [keeps_rules]: "keeps (evolution s0) (insert_attempt r)"
  unfolding keeps_def insert_attempt_Inr evolution_def
  by (auto intro: tasks_ev.evolved_same runs_ev.evolved_same attempts_ev.evolved_append
      events_ev.evolved_same revisions_ev.evolved_same decisions_ev.evolved_same simp: ledger_ok_def has_task_def)

lemma keeps_insert_artifact [keeps_rules]: "keeps (evolution s0) (insert_artifact r)"
  unfolding keeps_def
proof (intro allI impI)
  fix s x s' assume e: "evolution s0 s" and "insert_artifact r s = Inr (x, s')"
  then obtain t where s': "s' = s\<lparr>artifacts := t\<rparr>" using insert_artifact_Inr by blast
  have "ledger_ok s'" using e by (simp add: s' evolution_def ledger_ok_def)
  with e show "evolution s0 s'" by (rule evolution_frame) (simp_all add: s')
qed

lemma keeps_insert_revision [keeps_rules]: "keeps (evolution s0) (insert_revision r)"
  unfolding keeps_def
proof (intro allI impI)
  fix s x s' assume "evolution s0 s" "insert_revision r s = Inr (x, s')"
  then show "evolution s0 s'"
    using insert_revision_Inr [of r s x s']
    by (intro evolution_events [of s0 s s' "[]" "[r]" "[]"]) (simp_all add: evolution_def ledger_ok_def)
qed

lemma keeps_append_event [keeps_rules]: "keeps (evolution s0) (append_event run task typ payload eid)"
  unfolding keeps_def
proof (intro allI impI)
  fix s b s' assume e: "evolution s0 s" and a: "append_event run task typ payload eid s = Inr (b, s')"
  have ok: "ledger_ok s" using e by (simp add: evolution_def)
  from a show "evolution s0 s'"
  proof (cases rule: append_event_Inr)
    case dup
    from e show ?thesis by (rule evolution_frame) (simp_all add: dup ledger_ok_ticks [OF ok])
  next
    case (added ev)
    from e show ?thesis
      by (rule evolution_events [where es = "[ev]" and vs = "[]" and ds = "[]"])
        (simp_all add: added(1) ledger_ok_added [OF ok added(3,4)])
  qed
qed

lemma keeps_event [keeps_rules]: "keeps (evolution s0) (event run task typ payload)"
  unfolding event_def by (intro keeps_rules)

end

section \<open>Every operation but a revision follows a task policy\<close>

context task_policy begin

lemma T_state:
  "\<not> terminal (tr_state a) \<Longrightarrow> same_task a b \<Longrightarrow> tr_state a \<noteq> Blocked \<or> tr_state b \<in> {Failed, Cancelled} \<Longrightarrow> T a b"
  using live blocked by blast

lemma keeps_set_state [keeps_rules]:
  assumes "\<And>now t. tr_id t = tid \<Longrightarrow> tr_state t \<in> froms \<Longrightarrow> T t (f now t)"
  shows "keeps (evolution s0) (set_state_if tid froms f)"
  unfolding set_state_if_def using assms by (intro keeps_rules keeps_update_tasks) auto

lemmas statement_rules = keeps_rules keeps_update_tasks keeps_update_runs keeps_update_attempts
lemmas row_simps = same_task_def terminal_def run_may_def attempt_may_def

lemma keeps_process_ops:
  "keeps (evolution s0) (set_runner_process r p g)"
  "keeps (evolution s0) (claim_runner_process r p' g')"
  "keeps (evolution s0) (clear_runner_process r p g)"
  "keeps (evolution s0) (set_attempt_process a p g)"
  "keeps (evolution s0) (clear_attempt_process a p g)"
  unfolding set_runner_process_def claim_runner_process_def clear_runner_process_def
    set_attempt_process_def clear_attempt_process_def
  by (intro statement_rules; simp add: row_simps)+

lemma keeps_promote_row [keeps_rules]: "keeps (evolution s0) (promote_row run_id row)"
  unfolding promote_row_def by (intro statement_rules) (auto intro: T_state simp: row_simps)

lemma keeps_next_task: "keeps (evolution s0) (next_task run_id)"
  unfolding next_task_def by (intro statement_rules keeps_promote_row)

lemma keeps_claim_task [keeps_rules]: "keeps (evolution s0) (claim_task aid tid runtime allow)"
  unfolding claim_task_def by (intro statement_rules) (auto intro: T_state simp: row_simps)

lemma keeps_orchestration:
  "keeps (evolution s0) (ensure_orchestration_task tid run_id title prompt)"
  "keeps (evolution s0) (claim_orchestration_task aid tid runtime)"
  unfolding ensure_orchestration_task_def claim_orchestration_task_def
  by (intro statement_rules keeps_claim_task)+

lemma keeps_input:
  "keeps (evolution s0) (await_input tid aid path q opts)"
  "keeps (evolution s0) (answer_input run_id path)"
  unfolding await_input_def answer_input_def
  by (intro statement_rules; auto intro: T_state simp: row_simps)+

lemma keeps_completion:
  "keeps (evolution s0) (finish_task tid aid success path err)"
  "keeps (evolution s0) (retry_task tid aid err')"
  unfolding finish_task_def retry_task_def
  by (intro statement_rules; auto intro: T_state simp: row_simps)+

lemma keeps_supersede: "keeps (evolution s0) (supersede_pending_tasks run_id reason)"
  unfolding supersede_pending_tasks_def supersede_row_def
  by (intro statement_rules) (auto intro: T_state simp: row_simps)

lemma keeps_settle_run: "keeps (evolution s0) (settle_run run_id)"
  unfolding settle_run_def by (intro statement_rules) (auto simp: row_simps)

lemma keeps_cancel_run: "keeps (evolution s0) (cancel_run run_id)"
  unfolding cancel_run_def by (intro statement_rules) (auto intro: T_state simp: row_simps)

lemma keeps_fail_budget: "keeps (evolution s0) (fail_budget run_id limit actual maximum reason)"
  unfolding fail_budget_def by (intro statement_rules) (auto intro: T_state simp: row_simps)

lemma keeps_add_artifact: "keeps (evolution s0) (add_artifact i run_id tid path sha n kind)"
  unfolding add_artifact_def by (intro statement_rules)


lemma keeps_discard: "keeps (evolution s0) (discard_attempt_outputs run_id tid aid ids)"
proof -
  have "keeps (evolution s0) (modify (\<lambda>s. s\<lparr>artifacts := f s\<rparr>))" for f :: "ledger \<Rightarrow> artifact_row list"
    unfolding keeps_def
  proof (intro allI impI)
    fix s x s' assume e: "evolution s0 s" and "modify (\<lambda>s. s\<lparr>artifacts := f s\<rparr>) s = Inr (x, s')"
    then have s': "s' = s\<lparr>artifacts := f s\<rparr>" by simp
    from e show "evolution s0 s'"
      by (rule evolution_frame) (use e in \<open>simp_all add: s' evolution_def ledger_ok_def\<close>)
  qed
  then show ?thesis unfolding discard_attempt_outputs_def by (intro statement_rules)
qed

lemma keeps_insert_decision [keeps_rules]: "keeps (evolution s0) (insert_decision run_id d did)"
proof -
  have "keeps (evolution s0) (\<lambda>s. let row = f s in
        if did \<in> set (map dc_id (decisions s)) then Inr ((), s)
        else if (case run_id of None \<Rightarrow> False | Some r \<Rightarrow> \<not> has_run s r)
        then Inl (IntegrityError ''FOREIGN KEY constraint failed'')
        else Inr ((), s\<lparr>decisions := decisions s @ [row]\<rparr>))" for f
    unfolding keeps_def Let_def
  proof (intro allI impI)
    fix s x s'
    assume e: "evolution s0 s" and m: "(if did \<in> set (map dc_id (decisions s)) then Inr ((), s)
        else if (case run_id of None \<Rightarrow> False | Some r \<Rightarrow> \<not> has_run s r)
        then Inl (IntegrityError ''FOREIGN KEY constraint failed'')
        else Inr ((), s\<lparr>decisions := decisions s @ [f s]\<rparr>)) = Inr (x, s')"
    then consider "s' = s" | "s' = s\<lparr>decisions := decisions s @ [f s]\<rparr>" by (auto split: if_splits)
    then show "evolution s0 s'"
    proof cases
      case 2
      from e show ?thesis
        by (rule evolution_events [where es = "[]" and vs = "[]" and ds = "[f s]"])
          (use e in \<open>simp_all add: 2 evolution_def ledger_ok_def\<close>)
    qed (use e in simp)
  qed
  then show ?thesis unfolding insert_decision_def by (intro statement_rules)
qed

lemma keeps_create_run: "keeps (evolution s0) (create_run loads run_id fresh goal ws ts rt)"
  unfolding create_run_def insert_items_def item_events_def route_event_def
  by (intro statement_rules)

lemma keeps_create_planned: "keeps (evolution s0) (create_run_with_plan loads run_id did ws doc dec rt)"
  unfolding create_run_with_plan_def item_events_def route_event_def optional_decision_def
  by (intro statement_rules keeps_insert_decision)

lemma keeps_attach: "keeps (evolution s0) (attach_plan_to_run loads run_id did doc dec)"
  unfolding attach_plan_to_run_def attach_item_def optional_decision_def
  by (intro statement_rules keeps_insert_decision) (auto simp: row_simps)

text \<open>Recovery rewrites rows by id alone; ids are unique, so it only reaches the running rows.\<close>

lemma keeps_recover: "keeps (evolution s0) (recover_running run_id)"
  unfolding keeps_def
proof (intro allI impI)
  fix s x s' assume e: "evolution s0 s" and m: "recover_running run_id s = Inr (x, s')"
  let ?rows = "filter (\<lambda>t. tr_run t = run_id \<and> tr_state t = Running) (tasks s)"
  let ?I = "\<lambda>u. evolution s0 u \<and> (\<forall>t\<in>set (tasks u). tr_id t \<in> tr_id ` set ?rows \<longrightarrow> tr_state t \<in> {Running, Uncertain})"
  have row: "keeps ?I (recover_row run_id now row)" if "row \<in> set ?rows" for now row
  proof -
    have 1: "keeps ?I (update_tasks (\<lambda>t. tr_id t = tr_id row)
              (\<lambda>t. t\<lparr>tr_state := Uncertain, tr_updated := now, tr_last_error := msg\<rparr>))" for msg
      unfolding keeps_def
    proof (intro allI impI)
      fix u y u'
      assume I: "?I u" and "update_tasks (\<lambda>t. tr_id t = tr_id row)
              (\<lambda>t. t\<lparr>tr_state := Uncertain, tr_updated := now, tr_last_error := msg\<rparr>) u = Inr (y, u')"
      then have u': "u' = u\<lparr>tasks := update_rows (\<lambda>t. tr_id t = tr_id row)
              (\<lambda>t. t\<lparr>tr_state := Uncertain, tr_updated := now, tr_last_error := msg\<rparr>) (tasks u)\<rparr>"
        by (simp add: update_tasks_def)
      have "tr_id row \<in> tr_id ` set ?rows" using that by simp
      with I have st: "tr_state t \<in> {Running, Uncertain}" if "t \<in> set (tasks u)" "tr_id t = tr_id row" for t
        using that by (metis (no_types, lifting))
      have "evolution s0 u'"
        unfolding u' using I st
        by (intro evolution_update_tasks) (force simp: same_task_def intro!: T_state simp: terminal_def)+
      moreover have "\<forall>t\<in>set (tasks u'). tr_id t \<in> tr_id ` set ?rows \<longrightarrow> tr_state t \<in> {Running, Uncertain}"
        using I by (auto simp: u' update_rows_def)
      ultimately show "?I u'" by blast
    qed
    have frame: "keeps ?I m'" if "keeps (evolution s0) m'" "\<And>u y u'. m' u = Inr (y, u') \<Longrightarrow> tasks u' = tasks u"
      for m' :: "'z store"
      unfolding keeps_def
    proof (intro allI impI)
      fix u y u' assume "?I u" "m' u = Inr (y, u')"
      then show "?I u'" using that(2) [of u y u'] keepsD [OF that(1)] by auto
    qed
    show ?thesis
      unfolding recover_row_def
      by (intro keeps_bind 1 frame keeps_update_attempts keeps_event)
        (auto simp: update_attempts_def row_simps event_def bindS_Inr_iff elim!: append_event_Inr)
  qed
  let ?s = "s\<lparr>ticks := Suc (ticks s)\<rparr>"
  from m have loop: "forS (recover_row run_id (timeline s (ticks s))) ?rows ?s = Inr ((), s')"
    by (auto simp: recover_running_def bindS_Inr_iff)
  have ok: "ledger_ok s" using e by (simp add: evolution_def)
  have "evolution s0 ?s" using e by (rule evolution_frame) (simp_all add: ledger_ok_ticks [OF ok])
  moreover have "tr_state t = Running" if "t \<in> set (tasks s)" "tr_id t \<in> tr_id ` set ?rows" for t
  proof -
    from that(2) obtain r where "r \<in> set ?rows" "tr_id t = tr_id r" by auto
    with that(1) ok have "t = r" by (auto simp: ledger_ok_def intro: distinct_key_unique [of tr_id "tasks s"])
    with \<open>r \<in> set ?rows\<close> show ?thesis by simp
  qed
  ultimately have "?I ?s" by auto
  moreover have "keeps ?I (forS (recover_row run_id (timeline s (ticks s))) ?rows)"
    by (intro keeps_forS row)
  ultimately have "?I s'" using loop by (blast dest: keepsD [where I = ?I])
  then show "evolution s0 s'" by blast
qed

end

section \<open>The two policies of the store\<close>

definition frozen_task :: "task_row \<Rightarrow> task_row \<Rightarrow> bool" where
  "frozen_task a b \<longleftrightarrow> same_task a b \<and> (tr_state a = Succeeded \<longrightarrow> b = a)"

definition settled_task :: "task_row \<Rightarrow> task_row \<Rightarrow> bool" where
  "settled_task a b \<longleftrightarrow> same_task a b \<and> (terminal (tr_state a) \<longrightarrow> b = a)
     \<and> (tr_state a = Blocked \<longrightarrow> tr_state b \<in> {Blocked, Failed, Cancelled})"

interpretation frozen: task_policy frozen_task
  by unfold_locales (auto simp: frozen_task_def terminal_def intro: same_task_trans simp: same_task_def)

interpretation settled: task_policy settled_task
  by unfold_locales (auto simp: settled_task_def terminal_def same_task_def)

section \<open>Plan revisions keep finished tasks\<close>

lemma dict_put_values: "snd ` set (dict_put k v d) \<subseteq> insert v (snd ` set d)"
  by (induction k v d rule: dict_put.induct) auto

lemma existing_rows_subset: "r \<in> snd ` set (existing_rows run_id s) \<Longrightarrow> r \<in> set (tasks s) \<and> tr_run r = run_id"
proof -
  have "snd ` set (fold (\<lambda>t d. dict_put (plan_name t) t d) ts d) \<subseteq> set ts \<union> snd ` set d" for ts d
  proof (induction ts arbitrary: d)
    case (Cons t ts)
    then show ?case using Cons [of "dict_put (plan_name t) t d"] dict_put_values [of "plan_name t" t d] by auto
  qed simp
  from this [of "filter (\<lambda>t. tr_run t = run_id) (tasks s)" "[]"]
  have "snd ` set (existing_rows run_id s) \<subseteq> set (filter (\<lambda>t. tr_run t = run_id) (tasks s))"
    by (simp add: existing_rows_def)
  then show "r \<in> snd ` set (existing_rows run_id s) \<Longrightarrow> r \<in> set (tasks s) \<and> tr_run r = run_id" by auto
qed

definition unfinished_ids :: "task_row list \<Rightarrow> string set" where
  "unfinished_ids rows = tr_id ` {r \<in> set rows. tr_state r \<noteq> Succeeded}"

text \<open>What holds while a revision of run \<open>k\<close> with snapshot \<open>rows\<close> is under way.\<close>

definition revising :: "ledger \<Rightarrow> string \<Rightarrow> task_row list \<Rightarrow> ledger \<Rightarrow> bool" where
  "revising s0 k rows s \<longleftrightarrow> frozen.evolution s0 s
     \<and> (\<forall>t\<in>set (tasks s). tr_id t \<in> unfinished_ids rows \<longrightarrow> tr_state t \<noteq> Succeeded)
     \<and> (\<forall>r\<in>set (runs s). rr_id r = k \<longrightarrow> rr_status r \<noteq> Run_cancelled)"

lemma revising_frame:
  assumes "keeps (frozen.evolution s0) m"
    and "\<And>s x s'. m s = Inr (x, s') \<Longrightarrow> tasks s' = tasks s \<and> runs s' = runs s"
  shows "keeps (revising s0 k rows) m"
  unfolding keeps_def revising_def using keepsD [OF assms(1)] assms(2) by metis

lemma revising_update:
  assumes "tr_id row \<in> unfinished_ids rows"
    and "\<And>t. same_task t (f t) \<and> tr_state (f t) \<noteq> Succeeded"
  shows "keeps (revising s0 k rows) (update_tasks (\<lambda>t. tr_id t = tr_id row) f)"
  unfolding keeps_def
proof (intro allI impI)
  fix u y u' assume I: "revising s0 k rows u" and "update_tasks (\<lambda>t. tr_id t = tr_id row) f u = Inr (y, u')"
  then have u': "u' = u\<lparr>tasks := update_rows (\<lambda>t. tr_id t = tr_id row) f (tasks u)\<rparr>"
    by (simp add: update_tasks_def)
  have "frozen.evolution s0 u'"
    unfolding u'
    by (rule frozen.evolution_update_tasks) (use I assms in \<open>auto simp: revising_def frozen_task_def\<close>)
  moreover have "\<forall>t\<in>set (tasks u'). tr_id t \<in> unfinished_ids rows \<longrightarrow> tr_state t \<noteq> Succeeded"
    using I assms(2) by (auto simp: u' update_rows_def revising_def)
  ultimately show "revising s0 k rows u'" using I by (simp add: revising_def u')
qed

lemma revising_update_runs:
  assumes "\<And>r. rr_id (f r) = rr_id r \<and> rr_goal (f r) = rr_goal r \<and> rr_workspace (f r) = rr_workspace r
     \<and> rr_created (f r) = rr_created r \<and> rr_route (f r) = rr_route r
     \<and> (rr_status r \<noteq> Run_cancelled \<longrightarrow> rr_status (f r) \<noteq> Run_cancelled)"
  shows "keeps (revising s0 k rows) (update_runs (\<lambda>r. rr_id r = k) f)"
  unfolding keeps_def
proof (intro allI impI)
  fix u y u' assume I: "revising s0 k rows u" and "update_runs (\<lambda>r. rr_id r = k) f u = Inr (y, u')"
  then have u': "u' = u\<lparr>runs := update_rows (\<lambda>r. rr_id r = k \<and> rr_status r \<noteq> Run_cancelled) f (runs u)\<rparr>"
    by (auto simp: update_runs_def revising_def update_rows_def)
  have "keeps (frozen.evolution s0) (update_runs (\<lambda>r. rr_id r = k \<and> rr_status r \<noteq> Run_cancelled) f)"
    by (rule frozen.keeps_update_runs) (use assms in \<open>auto simp: run_may_def\<close>)
  then have "frozen.evolution s0 u'"
    by (rule keepsD [where s = u]) (use I in \<open>simp_all add: revising_def update_runs_def u'\<close>)
  then show "revising s0 k rows u'"
    using I assms by (auto simp: revising_def u' update_rows_def)
qed

lemma revising_insert:
  assumes "tr_state r \<noteq> Succeeded" shows "keeps (revising s0 k rows) (insert_task r)"
  using assms keepsD [OF frozen.keeps_insert_task [of s0 r]]
  unfolding keeps_def revising_def insert_task_Inr by auto

lemma event_tables: "event run task typ payload s = Inr (x, s') \<Longrightarrow> tasks s' = tasks s \<and> runs s' = runs s"
  by (auto simp: event_def bindS_Inr_iff elim!: append_event_Inr)

lemma insert_decision_tables: "insert_decision dr d did s = Inr (x, s') \<Longrightarrow> tasks s' = tasks s \<and> runs s' = runs s"
  unfolding insert_decision_def Let_def
  by (auto simp: bindS_Inr_iff split: if_splits option.splits elim!: append_event_Inr)

lemma revising_statements:
  "keeps (revising s0 k rows) utc_now"
  "keeps (revising s0 k rows) (insert_revision v)"
  "keeps (revising s0 k rows) (event run task typ payload)"
  "keeps (revising s0 k rows) (insert_decision dr d did)"
proof -
  show "keeps (revising s0 k rows) utc_now"
    by (rule revising_frame [OF frozen.keeps_utc]) (auto simp: utc_now_def)
  show "keeps (revising s0 k rows) (insert_revision v)"
    by (rule revising_frame [OF frozen.keeps_insert_revision]) (auto dest: insert_revision_Inr)
  show "keeps (revising s0 k rows) (event run task typ payload)"
    by (rule revising_frame [OF frozen.keeps_event event_tables])
  show "keeps (revising s0 k rows) (insert_decision dr d did)"
    by (rule revising_frame [OF frozen.keeps_insert_decision insert_decision_tables])
qed

lemma initial_state_not_succeeded: "initial_state deps \<noteq> Succeeded"
  by (simp add: initial_state_def)

lemma keeps_drop:
  assumes "snd nr \<in> set rows" shows "keeps (revising s0 k rows) (drop_task desired nr)"
proof (cases nr)
  case (Pair n row)
  have "tr_state row \<noteq> Succeeded \<Longrightarrow> tr_id row \<in> unfinished_ids rows"
    using assms Pair by (auto simp: unfinished_ids_def)
  then show ?thesis
    unfolding drop_task_def Pair prod.case
    by (intro keeps_rules revising_statements revising_update) (auto simp: same_task_def)
qed

lemma keeps_sync:
  assumes "snd ` set existing \<subseteq> set rows" shows "keeps (revising s0 k rows) (sync_task run_id existing task)"
proof -
  have "tr_state row \<noteq> Succeeded \<Longrightarrow> tr_id row \<in> unfinished_ids rows"
    if "map_of existing (pt_id task) = Some row" for row
    using assms that by (force simp: unfinished_ids_def dest: map_of_SomeD)
  then show ?thesis
    unfolding sync_task_def
    by (intro keeps_rules revising_statements revising_update revising_insert)
      (auto simp: same_task_def initial_state_not_succeeded)
qed

lemma revising_start:
  assumes e: "frozen.evolution s0 s" and run: "get_run k s = Some run" "rr_status run \<noteq> Run_cancelled"
  shows "revising s0 k (map snd (existing_rows k s)) s"
proof -
  have ok: "ledger_ok s" using e by (simp add: frozen.evolution_def)
  have "tr_state t \<noteq> Succeeded"
    if t: "t \<in> set (tasks s)" "tr_id t \<in> unfinished_ids (map snd (existing_rows k s))" for t
  proof -
    from t(2) obtain r where r: "r \<in> snd ` set (existing_rows k s)" "tr_state r \<noteq> Succeeded" "tr_id t = tr_id r"
      by (auto simp: unfinished_ids_def)
    then have "r \<in> set (tasks s)" using existing_rows_subset by blast
    with t(1) r(3) ok have "t = r" by (auto simp: ledger_ok_def intro: distinct_key_unique [of tr_id "tasks s"])
    with r show ?thesis by simp
  qed
  moreover have "r = run" if "r \<in> set (runs s)" "rr_id r = k" for r
    using run(1) that ok find_Some_iff_first [of "\<lambda>x. rr_id x = k" "runs s" run]
    by (auto simp: get_run_def fetch_one_def ledger_ok_def intro: distinct_key_unique [of rr_id "runs s"])
  ultimately show ?thesis using e run(2) by (auto simp: revising_def)
qed

lemma keeps_write_revision:
  assumes "snd ` set existing \<subseteq> set rows"
  shows "keeps (revising s0 k rows) (write_revision loads k did doc reason evidence action existing)"
  unfolding write_revision_def
  by (intro keeps_bind keeps_forS keeps_drop keeps_sync revising_statements revising_update_runs keeps_pure)
    (use assms in auto)

lemma keeps_revision:
  "keeps (frozen.evolution s0) (commit_plan_revision loads k did doc reason evidence action)"
  unfolding keeps_def
proof (intro allI impI)
  fix s x s' assume e: "frozen.evolution s0 s"
    and m: "commit_plan_revision loads k did doc reason evidence action s = Inr (x, s')"
  from m obtain run reason' evidence' where run: "get_run k s = Some run" "check_revision run doc = Inr ()"
    and w: "write_revision loads k did doc reason' evidence' action (existing_rows k s) s = Inr (x, s')"
    unfolding commit_plan_revision_def by (auto simp: bindS_Inr_iff lift_Inr_iff split: option.splits)
  have "rr_status run \<noteq> Run_cancelled" using run(2) by (auto simp: check_revision_def bindE_Inr_iff guardE_Inr_iff)
  then have "revising s0 k (map snd (existing_rows k s)) s" by (rule revising_start [OF e run(1)])
  moreover have "snd ` set (existing_rows k s) \<subseteq> set (map snd (existing_rows k s))" by simp
  ultimately have "revising s0 k (map snd (existing_rows k s)) s'"
    using w by (blast intro: keepsD keeps_write_revision)
  then show "frozen.evolution s0 s'" by (simp add: revising_def)
qed

lemma keeps_patch: "keeps (frozen.evolution s0) (patch_plan loads fresh run_id did patch)"
proof -
  have "keeps (frozen.evolution s0) (\<lambda>s. lift (get_current_plan loads fresh run_id s) s)"
    by (auto simp: keeps_def lift_Inr_iff)
  then show ?thesis unfolding patch_plan_def by (intro keeps_rules keeps_revision)
qed

end
