(* ===== verification/Workers.thy ===== *)
theory Workers imports Lifecycle begin

text \<open>
  Delegated workers in the ledger (\<^verbatim>\<open>store.py\<close>, \<^verbatim>\<open>create_worker\<close> to \<^verbatim>\<open>_append_worker_event\<close>): a tree
  of owned, resumable workers, their attempts and processes, and the bindings that tie one worker
  attempt to one scheduler attempt.  A time stamp counts microseconds.  Ids drawn by an operation
  are arguments.
\<close>

section \<open>Statements\<close>

definition MAX_WORKER_DEPTH :: int where "MAX_WORKER_DEPTH = 32"

definition fk_error :: py_error where "fk_error = IntegrityError ''FOREIGN KEY constraint failed''"

definition has_worker :: "ledger \<Rightarrow> string \<Rightarrow> bool" where
  "has_worker s w \<longleftrightarrow> w \<in> set (map wr_id (workers s))"

definition worker_event :: "string \<Rightarrow> string \<Rightarrow> (string \<times> json) list \<Rightarrow> string option \<Rightarrow> unit store" where
  "worker_event worker typ payload identity s =
     (let i = (case identity of None \<Rightarrow> Fresh_event (ticks s)
               | Some x \<Rightarrow> if x = [] then Fresh_event (ticks s)
                           else Named_event (''worker-event-'' @ typ @ ''-'' @ x));
          row = \<lparr>we_id = i, we_worker = worker, we_type = typ, we_payload = payload,
                 we_created = timeline s (ticks s)\<rparr>;
          s' = s\<lparr>ticks := Suc (ticks s)\<rparr>
      in if i \<in> set (map we_id (worker_events s)) then Inr ((), s')
         else if \<not> has_worker s worker then Inl fk_error
         else Inr ((), s'\<lparr>worker_events := worker_events s @ [row]\<rparr>))"

definition insert_worker :: "worker_row \<Rightarrow> unit store" where
  "insert_worker r s =
     bindE (insert_row wr_id r (workers s)) (\<lambda>t.
     bindE (guardE (case wr_parent r of None \<Rightarrow> False | Some p \<Rightarrow> \<not> has_worker s p) fk_error) (\<lambda>_.
       Inr ((), s\<lparr>workers := t\<rparr>)))"

definition insert_worker_attempt :: "worker_attempt_row \<Rightarrow> unit store" where
  "insert_worker_attempt r s =
     bindE (insert_row wa_id r (worker_attempts s)) (\<lambda>t.
     bindE (guardE (\<not> has_worker s (wa_worker r)) fk_error) (\<lambda>_.
       Inr ((), s\<lparr>worker_attempts := t\<rparr>)))"

definition insert_worker_input :: "worker_input_row \<Rightarrow> unit store" where
  "insert_worker_input r s =
     bindE (insert_row wi_id r (worker_inputs s)) (\<lambda>t.
     bindE (guardE (\<not> has_worker s (wi_worker r)) fk_error) (\<lambda>_.
       Inr ((), s\<lparr>worker_inputs := t\<rparr>)))"

text \<open>The primary key and the two unique indexes of \<^verbatim>\<open>worker_bindings\<close>.\<close>

definition insert_binding :: "binding_row \<Rightarrow> unit store" where
  "insert_binding r s =
     bindE (insert_row bn_worker r (bindings s)) (\<lambda>t.
     bindE (guardE (\<exists>b\<in>set (bindings s). bn_worker_attempt b = bn_worker_attempt r
                      \<or> bn_task_attempt b = bn_task_attempt r)
              (IntegrityError ''UNIQUE constraint failed'')) (\<lambda>_.
     bindE (guardE (\<not> (has_worker s (bn_worker r) \<and> bn_worker_attempt r \<in> set (map wa_id (worker_attempts s))
                      \<and> has_run s (bn_run r) \<and> has_task s (bn_task r)
                      \<and> bn_task_attempt r \<in> set (map ar_id (attempts s)))) fk_error) (\<lambda>_.
       Inr ((), s\<lparr>bindings := t\<rparr>))))"

definition update_workers :: "(worker_row \<Rightarrow> bool) \<Rightarrow> (worker_row \<Rightarrow> worker_row) \<Rightarrow> nat store" where
  "update_workers P f s = Inr (row_count P (workers s), s\<lparr>workers := update_rows P f (workers s)\<rparr>)"

definition update_worker_attempts ::
  "(worker_attempt_row \<Rightarrow> bool) \<Rightarrow> (worker_attempt_row \<Rightarrow> worker_attempt_row) \<Rightarrow> nat store" where
  "update_worker_attempts P f s =
     Inr (row_count P (worker_attempts s), s\<lparr>worker_attempts := update_rows P f (worker_attempts s)\<rparr>)"

definition update_bindings :: "(binding_row \<Rightarrow> bool) \<Rightarrow> (binding_row \<Rightarrow> binding_row) \<Rightarrow> nat store" where
  "update_bindings P f s = Inr (row_count P (bindings s), s\<lparr>bindings := update_rows P f (bindings s)\<rparr>)"

definition get_worker :: "string \<Rightarrow> ledger \<Rightarrow> worker_row option" where
  "get_worker w s = fetch_one (\<lambda>r. wr_id r = w) (workers s)"

definition worker_attempt :: "string \<Rightarrow> ledger \<Rightarrow> worker_attempt_row option" where
  "worker_attempt a s = fetch_one (\<lambda>r. wa_id r = a) (worker_attempts s)"

definition get_worker_binding :: "string \<Rightarrow> ledger \<Rightarrow> binding_row option" where
  "get_worker_binding w s = fetch_one (\<lambda>b. bn_worker b = w) (bindings s)"

section \<open>Creating workers\<close>

definition new_worker ::
  "string \<Rightarrow> string \<Rightarrow> string option \<Rightarrow> string \<Rightarrow> string \<Rightarrow> string \<Rightarrow> nat \<Rightarrow> nat \<Rightarrow> worker_row" where
  "new_worker worker_id owner_id parent role agent_type description depth timestamp =
     \<lparr>wr_id = worker_id, wr_owner = owner_id, wr_parent = parent, wr_role = role,
      wr_agent_type = agent_type, wr_description = description, wr_depth = depth, wr_phase = Ph_idle,
      wr_outcome = None, wr_stop_reason = None, wr_result = None, wr_result_ref = None,
      wr_last_error = None, wr_created = timestamp, wr_updated = timestamp\<rparr>"

text \<open>The depth a new worker gets from its parent, if the parent admits it.\<close>

definition parent_depth :: "string \<Rightarrow> string option \<Rightarrow> bool \<Rightarrow> ledger \<Rightarrow> nat result" where
  "parent_depth owner_id parent_worker_id require_parent_running s =
     (case parent_worker_id of
        None \<Rightarrow> Inr 0
      | Some p \<Rightarrow>
          (case get_worker p s of
             None \<Rightarrow> Inl (ValueError ''unknown parent worker'')
           | Some parent \<Rightarrow>
               if wr_owner parent \<noteq> owner_id
               then Inl (PermissionError ''parent worker is owned by another caller'')
               else if require_parent_running \<and> wr_phase parent \<noteq> Ph_running
               then Inl (ValueError ''parent worker is not running'')
               else Inr (wr_depth parent + 1)))"

definition create_worker ::
  "string \<Rightarrow> string \<Rightarrow> string \<Rightarrow> string \<Rightarrow> string option \<Rightarrow> string \<Rightarrow> int \<Rightarrow> bool \<Rightarrow> worker_row option store" where
  "create_worker worker_id owner_id role description parent_worker_id agent_type max_depth require_parent_running =
     bindS (lift (guardE (strip owner_id = [] \<or> strip role = [] \<or> strip description = [])
              (ValueError ''worker owner, role, and description must be non-empty''))) (\<lambda>_.
     bindS (lift (guardE (8000 < length description) (ValueError ''worker description exceeds 8 KiB''))) (\<lambda>_.
     bindS (lift (guardE (max_depth < 0) (ValueError ''max_depth must be a non-negative integer''))) (\<lambda>_.
     bindS (lift (guardE (MAX_WORKER_DEPTH < max_depth)
              (ValueError ''worker maximum depth must be at most 32''))) (\<lambda>_.
     bindS utc_now (\<lambda>timestamp.
     bindS (\<lambda>s. lift (parent_depth owner_id parent_worker_id require_parent_running s) s) (\<lambda>depth.
     bindS (lift (guardE (max_depth < int depth) (ValueError ''worker maximum depth exceeded''))) (\<lambda>_.
     bindS (insert_worker (new_worker worker_id owner_id parent_worker_id role agent_type description depth
              timestamp)) (\<lambda>_.
     bindS (worker_event worker_id ''worker_created''
              [(''phase'', JStr ''idle''), (''depth'', JInt (int depth))] None) (\<lambda>_.
     ask (get_worker worker_id))))))))))"

section \<open>Bindings\<close>

definition active_pair ::
  "string \<Rightarrow> string \<Rightarrow> string \<Rightarrow> string \<Rightarrow> worker_attempt_row \<Rightarrow> task_row \<Rightarrow> attempt_row \<Rightarrow> bool" where
  "active_pair worker_id run_id task_id service_owner_id attempt task task_attempt \<longleftrightarrow>
     wa_worker attempt = worker_id \<and> wa_service_owner attempt = Some service_owner_id
     \<and> wa_status attempt = Wa_running \<and> tr_run task = run_id \<and> tr_state task = Running
     \<and> ar_task task_attempt = task_id \<and> ar_status task_attempt = At_running"

definition bind_worker ::
  "string \<Rightarrow> string \<Rightarrow> string \<Rightarrow> string \<Rightarrow> string \<Rightarrow> string \<Rightarrow> rat option \<Rightarrow> binding_row option store" where
  "bind_worker worker_id worker_attempt_id run_id task_id task_attempt_id service_owner_id active_timeout =
     bindS (lift (guardE (\<exists>v\<in>{worker_id, worker_attempt_id, run_id, task_id, task_attempt_id, service_owner_id}.
                            strip v = [])
              (ValueError ''worker binding identities must be non-empty strings''))) (\<lambda>_.
     bindS (lift (guardE (case active_timeout of None \<Rightarrow> False | Some t \<Rightarrow> t \<le> 0 \<or> 86400 < t)
              (ValueError ''active timeout must be between 0 and 86400 seconds''))) (\<lambda>_.
     bindS utc_now (\<lambda>timestamp.
     bindS (ask (get_worker_binding worker_id)) (\<lambda>bound.
     if bound \<noteq> None then raise (ValueError ''worker already has a binding'')
     else
       bindS (ask (\<lambda>s. (get_worker worker_id s, worker_attempt worker_attempt_id s, get_task task_id s,
                        get_attempt task_attempt_id s, get_run run_id s))) (\<lambda>found.
       case found of
         (Some worker, Some attempt, Some task, Some task_attempt, Some run) \<Rightarrow>
           bindS (lift (guardE (\<not> active_pair worker_id run_id task_id service_owner_id attempt task task_attempt)
                    (ValueError ''worker binding records are not an active reciprocal pair''))) (\<lambda>_.
           bindS (insert_binding \<lparr>bn_worker = worker_id, bn_worker_attempt = worker_attempt_id, bn_run = run_id,
                    bn_task = task_id, bn_task_attempt = task_attempt_id, bn_service_owner = service_owner_id,
                    bn_status = Bn_active, bn_active_timeout = active_timeout, bn_created = timestamp,
                    bn_updated = timestamp\<rparr>) (\<lambda>_.
           ask (get_worker_binding worker_id)))
       | _ \<Rightarrow> raise (ValueError ''worker binding references an unknown record''))))))"

definition list_worker_bindings :: "string option \<Rightarrow> binding_status option \<Rightarrow> ledger \<Rightarrow> binding_row list" where
  "list_worker_bindings run_id status s =
     sort_key (\<lambda>b. (bn_created b, bn_worker b))
       (filter (\<lambda>b. (case run_id of None \<Rightarrow> True | Some r \<Rightarrow> bn_run b = r)
                   \<and> (case status of None \<Rightarrow> True | Some st \<Rightarrow> bn_status b = st)) (bindings s))"

definition open_binding :: "binding_row \<Rightarrow> bool" where
  "open_binding b \<longleftrightarrow> bn_status b \<in> {Bn_active, Bn_delivering}"

definition binding_status_of :: "string \<Rightarrow> binding_status option" where
  "binding_status_of t = (if t = ''active'' then Some Bn_active else if t = ''settled'' then Some Bn_settled
     else if t = ''discarded'' then Some Bn_discarded else if t = ''lost'' then Some Bn_lost else None)"

definition settle_worker_binding :: "string \<Rightarrow> string \<Rightarrow> bool store" where
  "settle_worker_binding worker_id status =
     (case binding_status_of status of
        None \<Rightarrow> raise (ValueError ''invalid worker binding status'')
      | Some st \<Rightarrow>
          bindS utc_now (\<lambda>now.
          bindS (update_bindings (\<lambda>b. bn_worker b = worker_id \<and> open_binding b)
                   (\<lambda>b. b\<lparr>bn_status := st, bn_updated := now\<rparr>)) (\<lambda>changed.
          ret (changed = 1))))"

definition claim_worker_binding_delivery ::
  "string \<Rightarrow> string \<Rightarrow> string \<Rightarrow> string \<Rightarrow> string \<Rightarrow> bool store" where
  "claim_worker_binding_delivery worker_id worker_attempt_id run_id task_id task_attempt_id =
     bindS utc_now (\<lambda>timestamp.
     bindS (update_bindings (\<lambda>b. bn_worker b = worker_id \<and> bn_worker_attempt b = worker_attempt_id
                \<and> bn_run b = run_id \<and> bn_task b = task_id \<and> bn_task_attempt b = task_attempt_id
                \<and> bn_status b = Bn_active)
              (\<lambda>b. b\<lparr>bn_status := Bn_delivering, bn_updated := timestamp\<rparr>)) (\<lambda>changed.
     ret (changed = 1)))"

text \<open>A lease is stale when it was last touched at least \<open>stale_after\<close> seconds ago.\<close>

definition stale_lease :: "nat \<Rightarrow> rat \<Rightarrow> nat \<Rightarrow> bool" where
  "stale_lease now stale_after updated \<longleftrightarrow> of_nat updated \<le> of_nat now - stale_after * 1000000"

definition recover_worker_binding_delivery :: "string \<Rightarrow> string \<Rightarrow> rat \<Rightarrow> bool store" where
  "recover_worker_binding_delivery worker_id worker_attempt_id stale_after =
     bindS (lift (guardE (stale_after \<le> 0) (ValueError ''stale_after must be a positive number''))) (\<lambda>_.
     bindS utc_now (\<lambda>now.
     bindS (ask (\<lambda>s. fetch_one (\<lambda>b. bn_worker b = worker_id \<and> bn_worker_attempt b = worker_attempt_id
                                   \<and> bn_status b = Bn_delivering) (bindings s))) (\<lambda>row.
     case row of
       None \<Rightarrow> ret False
     | Some b0 \<Rightarrow>
         if \<not> stale_lease now stale_after (bn_updated b0) then ret False
         else
           bindS (update_bindings (\<lambda>b. bn_worker b = worker_id \<and> bn_worker_attempt b = worker_attempt_id
                      \<and> bn_status b = Bn_delivering \<and> bn_updated b = bn_updated b0)
                    (\<lambda>b. b\<lparr>bn_status := Bn_active, bn_updated := now\<rparr>)) (\<lambda>changed.
           ret (changed = 1)))))"

text \<open>The outcome of a delivery: the task state, the attempt state and the event.\<close>

definition completion_of :: "string \<Rightarrow> (task_status \<times> attempt_status \<times> string) option" where
  "completion_of outcome =
     (if outcome = ''succeeded'' then Some (Succeeded, At_succeeded, ''task_succeeded'')
      else if outcome = ''failed'' then Some (Failed, At_failed, ''task_failed'')
      else if outcome = ''retry'' then Some (Ready, At_failed, ''task_retry_scheduled'') else None)"

text \<open>The guard of \<^verbatim>\<open>complete_worker_binding\<close> on the six rows it reads.\<close>

definition deliverable ::
  "string \<Rightarrow> string \<Rightarrow> string \<Rightarrow> string \<Rightarrow> string \<Rightarrow> ledger \<Rightarrow> bool" where
  "deliverable worker_id worker_attempt_id run_id task_id task_attempt_id s =
     (case (get_worker_binding worker_id s, get_task task_id s, get_attempt task_attempt_id s,
            worker_attempt worker_attempt_id s, get_worker worker_id s, get_run run_id s) of
        (Some b, Some t, Some a, Some wa, Some w, Some r) \<Rightarrow>
          bn_worker_attempt b = worker_attempt_id \<and> bn_run b = run_id \<and> bn_task b = task_id
          \<and> bn_task_attempt b = task_attempt_id \<and> open_binding b
          \<and> tr_run t = run_id \<and> tr_state t = Running
          \<and> ar_task a = task_id \<and> ar_status a = At_running
          \<and> wa_worker wa = worker_id \<and> wa_status wa = Wa_finished
          \<and> wa_service_owner wa = Some (bn_service_owner b)
          \<and> wr_owner w = run_id \<and> wr_phase w = Ph_idle
          \<and> rr_status r \<notin> {Run_succeeded, Run_failed, Run_cancelled}
      | _ \<Rightarrow> False)"

text \<open>The derived run status, committed in the same transaction as the delivery.\<close>

definition settle_delivery :: "string \<Rightarrow> nat \<Rightarrow> unit store" where
  "settle_delivery run_id timestamp =
     bindS (ask (\<lambda>s. filter (\<lambda>t. tr_run t = run_id) (tasks s))) (\<lambda>rows.
     let run_state = derived_status rows in
     bindS (update_runs (\<lambda>r. rr_id r = run_id \<and> rr_status r \<noteq> Run_cancelled)
              (\<lambda>r. r\<lparr>rr_status := run_state, rr_updated := timestamp\<rparr>)) (\<lambda>_.
     if run_state \<in> {Run_succeeded, Run_failed}
     then event run_id None (''run_'' @ run_status_text run_state) [] else ret ()))"

definition complete_worker_binding ::
  "string \<Rightarrow> string \<Rightarrow> string \<Rightarrow> string \<Rightarrow> string \<Rightarrow> string \<Rightarrow> string option \<Rightarrow> string option \<Rightarrow> string
     \<Rightarrow> (string \<times> json) list \<Rightarrow> (string \<times> json) list \<Rightarrow> bool store" where
  "complete_worker_binding worker_id worker_attempt_id run_id task_id task_attempt_id outcome result_path
       error agent_event_type agent_payload evaluation_payload =
     (case completion_of outcome of
        None \<Rightarrow> raise (ValueError ''invalid worker binding completion outcome'')
      | Some (task_state, attempt_state, task_event_type) \<Rightarrow>
          bindS (lift (guardE (agent_event_type \<notin> {''agent_finished'', ''agent_failed''})
                   (ValueError ''invalid worker binding agent event type''))) (\<lambda>_.
          bindS (lift (guardE ([] \<in> {worker_id, worker_attempt_id, run_id, task_id, task_attempt_id})
                   (ValueError ''worker binding completion identities must be non-empty strings''))) (\<lambda>_.
          bindS utc_now (\<lambda>timestamp.
          bindS (ask (deliverable worker_id worker_attempt_id run_id task_id task_attempt_id)) (\<lambda>ok.
          if \<not> ok then ret False
          else
            bindS (update_tasks (\<lambda>t. tr_id t = task_id \<and> tr_state t = Running)
                     (\<lambda>t. t\<lparr>tr_state := task_state, tr_result_path := result_path, tr_last_error := error,
                            tr_updated := timestamp\<rparr>)) (\<lambda>updated_task.
            bindS (update_attempts (\<lambda>a. ar_id a = task_attempt_id \<and> ar_task a = task_id \<and> ar_status a = At_running)
                     (\<lambda>a. a\<lparr>ar_status := attempt_state, ar_finished := Some timestamp,
                            ar_heartbeat := Some timestamp, ar_error := error\<rparr>)) (\<lambda>updated_attempt.
            bindS (update_bindings (\<lambda>b. bn_worker b = worker_id \<and> open_binding b)
                     (\<lambda>b. b\<lparr>bn_status := Bn_settled, bn_updated := timestamp\<rparr>)) (\<lambda>updated_binding.
            bindS (lift (guardE (updated_task \<noteq> 1 \<or> updated_attempt \<noteq> 1 \<or> updated_binding \<noteq> 1)
                     (RuntimeError ''worker binding completion lost its transaction guard''))) (\<lambda>_.
            bindS (event run_id (Some task_id) agent_event_type agent_payload) (\<lambda>_.
            bindS (event run_id (Some task_id) ''task_evaluated'' evaluation_payload) (\<lambda>_.
            bindS (event run_id (Some task_id) task_event_type
                     (if outcome = ''retry''
                      then [(''attempt_id'', JStr task_attempt_id), (''error'', opt_str error)]
                      else [(''attempt_id'', JStr task_attempt_id), (''result_path'', opt_str result_path),
                            (''error'', opt_str error)])) (\<lambda>_.
            bindS (settle_delivery run_id timestamp) (\<lambda>_.
            ret True)))))))))))))"

section \<open>Attempts of a worker\<close>

definition worker_busy :: "string \<Rightarrow> ledger \<Rightarrow> bool" where
  "worker_busy w s \<longleftrightarrow> (\<exists>a\<in>set (worker_attempts s). wa_worker a = w
     \<and> (wa_status a = Wa_running \<or> (\<exists>p\<in>set (worker_processes s). wp_attempt p = wa_id a)))"

definition check_worker_parent :: "worker_row \<Rightarrow> string \<Rightarrow> bool \<Rightarrow> bool \<Rightarrow> ledger \<Rightarrow> unit result" where
  "check_worker_parent worker owner_id require_parent_running reject_cancelled_parent s =
     (if require_parent_running then
        (case wr_parent worker of
           None \<Rightarrow> Inl (ValueError ''worker parent is required'')
         | Some p \<Rightarrow>
             (case get_worker p s of
                None \<Rightarrow> Inl (PermissionError ''worker parent is not owned by caller'')
              | Some parent \<Rightarrow>
                  if wr_owner parent \<noteq> owner_id
                  then Inl (PermissionError ''worker parent is not owned by caller'')
                  else guardE (wr_phase parent \<noteq> Ph_running) (ValueError ''parent worker is not running'')))
      else if reject_cancelled_parent then
        (case wr_parent worker of
           None \<Rightarrow> Inr ()
         | Some p \<Rightarrow>
             (case get_worker p s of
                None \<Rightarrow> Inl (PermissionError ''worker parent is not owned by caller'')
              | Some parent \<Rightarrow>
                  if wr_owner parent \<noteq> owner_id
                  then Inl (PermissionError ''worker parent is not owned by caller'')
                  else guardE (wr_stop_reason parent \<in> {Some Sr_cancelled, Some Sr_parent_cancelled})
                         (ValueError ''parent worker was cancelled'')))
      else Inr ())"

definition new_worker_attempt ::
  "string \<Rightarrow> string \<Rightarrow> string \<Rightarrow> string option \<Rightarrow> nat \<Rightarrow> worker_attempt_row" where
  "new_worker_attempt attempt_id worker_id prompt service_owner_id timestamp =
     \<lparr>wa_id = attempt_id, wa_worker = worker_id, wa_prompt = prompt, wa_status = Wa_running,
      wa_started = timestamp, wa_finished = None, wa_outcome = None, wa_result = None, wa_error = None,
      wa_service_owner = service_owner_id\<rparr>"

definition start_worker_attempt ::
  "string \<Rightarrow> string \<Rightarrow> string \<Rightarrow> string \<Rightarrow> string option \<Rightarrow> string list \<Rightarrow> bool \<Rightarrow> bool \<Rightarrow> bool
     \<Rightarrow> worker_attempt_row option store" where
  "start_worker_attempt attempt_id worker_id owner_id prompt service_owner_id input_ids
       require_parent_running reject_cancelled_parent allow_stopped_resume =
     bindS (lift (guardE (strip prompt = [] \<or> 65536 < length prompt)
              (ValueError ''worker prompt must be non-empty and at most 64 KiB''))) (\<lambda>_.
     bindS (lift (guardE (case service_owner_id of None \<Rightarrow> False | Some o' \<Rightarrow> strip o' = [] \<or> 128 < char_length o')
              (ValueError ''worker service owner must be a non-empty bounded identifier''))) (\<lambda>_.
     bindS (lift (guardE ([] \<in> set input_ids) (ValueError ''worker input identities must be non-empty strings''))) (\<lambda>_.
     bindS (lift (guardE (\<not> distinct input_ids) (ValueError ''worker input identities must be unique''))) (\<lambda>_.
     bindS utc_now (\<lambda>timestamp.
     bindS (ask (\<lambda>s. fetch_one (\<lambda>w. wr_id w = worker_id \<and> wr_owner w = owner_id) (workers s))) (\<lambda>found.
     case found of
       None \<Rightarrow> raise (PermissionError ''worker is not owned by caller'')
     | Some worker \<Rightarrow>
         bindS (lift (guardE (wr_phase worker = Ph_running) (ValueError ''worker is already running''))) (\<lambda>_.
         bindS (lift (guardE (\<not> allow_stopped_resume \<and> wr_stop_reason worker \<noteq> None)
                  (ValueError ''worker was stopped before its attempt could start''))) (\<lambda>_.
         bindS (\<lambda>s. lift (check_worker_parent worker owner_id require_parent_running reject_cancelled_parent s) s) (\<lambda>_.
         bindS (\<lambda>s. lift (guardE (worker_busy worker_id s)
                  (ValueError ''worker still has an active attempt or retained process ownership'')) s) (\<lambda>_.
         bindS (\<lambda>s. lift (guardE (\<not> set input_ids \<subseteq> set (map wi_id (filter (\<lambda>i. wi_worker i = worker_id) (worker_inputs s))))
                  (ValueError ''worker input identities changed before attempt start'')) s) (\<lambda>_.
         bindS (insert_worker_attempt (new_worker_attempt attempt_id worker_id prompt service_owner_id timestamp)) (\<lambda>_.
         bindS (modify (\<lambda>s. s\<lparr>worker_inputs :=
                  filter (\<lambda>i. \<not> (wi_worker i = worker_id \<and> wi_id i \<in> set input_ids)) (worker_inputs s)\<rparr>)) (\<lambda>_.
         bindS (update_workers (\<lambda>w. wr_id w = worker_id)
                  (\<lambda>w. w\<lparr>wr_phase := Ph_running, wr_stop_reason := None, wr_last_error := None,
                         wr_updated := timestamp\<rparr>)) (\<lambda>_.
         bindS (worker_event worker_id ''worker_started'' [(''phase'', JStr ''running'')] (Some attempt_id)) (\<lambda>_.
         ask (worker_attempt attempt_id))))))))))))))))"

definition get_worker_attempt ::
  "string \<Rightarrow> string \<Rightarrow> string option \<Rightarrow> string option \<Rightarrow> ledger \<Rightarrow> worker_attempt_row option" where
  "get_worker_attempt worker_id attempt_id owner_id service_owner_id s =
     find (\<lambda>a. wa_worker a = worker_id \<and> wa_id a = attempt_id
               \<and> (\<exists>w\<in>set (workers s). wr_id w = wa_worker a \<and> (case owner_id of None \<Rightarrow> True | Some u \<Rightarrow> wr_owner w = u))
               \<and> (case service_owner_id of None \<Rightarrow> True | Some u \<Rightarrow> wa_service_owner a = Some u))
       (worker_attempts s)"

definition list_worker_owned_attempts :: "string \<Rightarrow> ledger \<Rightarrow> worker_attempt_row list" where
  "list_worker_owned_attempts owner_id s =
     sort_key (\<lambda>a. (wa_started a, wa_id a))
       (filter (\<lambda>a. (\<exists>w\<in>set (workers s). wr_id w = wa_worker a \<and> wr_owner w = owner_id)
                   \<and> wa_service_owner a \<noteq> None
                   \<and> (wa_status a = Wa_running \<or> (\<exists>p\<in>set (worker_processes s). wp_attempt p = wa_id a)))
          (worker_attempts s))"

section \<open>Processes and inputs\<close>

definition owned_attempt :: "string \<Rightarrow> string \<Rightarrow> string \<Rightarrow> worker_attempt_row \<Rightarrow> bool" where
  "owned_attempt worker_id attempt_id service_owner_id a \<longleftrightarrow>
     wa_worker a = worker_id \<and> wa_id a = attempt_id \<and> wa_service_owner a = Some service_owner_id"

text \<open>An upsert that keeps the row of a registration made before.\<close>

definition register_worker_process :: "string \<Rightarrow> string \<Rightarrow> string \<Rightarrow> int \<Rightarrow> int \<Rightarrow> bool store" where
  "register_worker_process worker_id attempt_id service_owner_id pid pgid =
     bindS (lift (guardE (pid \<le> 1 \<or> pgid \<le> 1)
              (ValueError ''worker process identifiers must be integers greater than one''))) (\<lambda>_.
     bindS utc_now (\<lambda>now.
     bindS (ask (\<lambda>s. row_count (owned_attempt worker_id attempt_id service_owner_id) (worker_attempts s))) (\<lambda>inserted.
     bindS (modify (\<lambda>s. if inserted = 0 \<or> (\<exists>p\<in>set (worker_processes s).
                             wp_attempt p = attempt_id \<and> wp_pid p = pid \<and> wp_pgid p = pgid) then s
                          else s\<lparr>worker_processes := worker_processes s @
                                  [\<lparr>wp_attempt = attempt_id, wp_pid = pid, wp_pgid = pgid, wp_created = now\<rparr>]\<rparr>)) (\<lambda>_.
     ret (inserted = 1)))))"

definition list_worker_processes :: "string \<Rightarrow> string \<Rightarrow> string \<Rightarrow> ledger \<Rightarrow> worker_process_row list" where
  "list_worker_processes worker_id attempt_id service_owner_id s =
     sort_key (\<lambda>p. (wp_created p, wp_pid p, wp_pgid p))
       (filter (\<lambda>p. wp_attempt p = attempt_id
                   \<and> (\<exists>a\<in>set (worker_attempts s). owned_attempt worker_id attempt_id service_owner_id a))
          (worker_processes s))"

definition clear_worker_process :: "string \<Rightarrow> string \<Rightarrow> string \<Rightarrow> int \<Rightarrow> int \<Rightarrow> bool store" where
  "clear_worker_process worker_id attempt_id service_owner_id pid pgid =
     bindS (ask (\<lambda>s p. wp_attempt p = attempt_id \<and> wp_pid p = pid \<and> wp_pgid p = pgid
                        \<and> (\<exists>a\<in>set (worker_attempts s). owned_attempt worker_id attempt_id service_owner_id a))) (\<lambda>sel.
     bindS (ask (\<lambda>s. row_count sel (worker_processes s))) (\<lambda>deleted.
     bindS (modify (\<lambda>s. s\<lparr>worker_processes := filter (\<lambda>p. \<not> sel p) (worker_processes s)\<rparr>)) (\<lambda>_.
     ret (deleted = 1))))"

definition append_worker_input :: "string \<Rightarrow> string \<Rightarrow> string \<Rightarrow> string \<Rightarrow> bool store" where
  "append_worker_input input_id worker_id owner_id content =
     bindS (lift (guardE (strip content = [] \<or> 16384 < length content)
              (ValueError ''worker input must be non-empty and at most 16 KiB''))) (\<lambda>_.
     bindS utc_now (\<lambda>timestamp.
     bindS (ask (\<lambda>s. fetch_one (\<lambda>w. wr_id w = worker_id \<and> wr_owner w = owner_id) (workers s))) (\<lambda>found.
     case found of
       None \<Rightarrow> raise (PermissionError ''worker is not owned by caller'')
     | Some w \<Rightarrow>
         bindS (lift (guardE (wr_phase w \<noteq> Ph_running) (ValueError ''worker is not running''))) (\<lambda>_.
         bindS (insert_worker_input \<lparr>wi_id = input_id, wi_worker = worker_id, wi_content = content,
                  wi_created = timestamp\<rparr>) (\<lambda>_.
         bindS (worker_event worker_id ''worker_input'' [(''input_id'', JStr input_id)] None) (\<lambda>_.
         ret True))))))"

definition list_worker_attempts :: "string \<Rightarrow> string option \<Rightarrow> ledger \<Rightarrow> worker_attempt_row list" where
  "list_worker_attempts worker_id owner_id s =
     sort_key (\<lambda>a. (wa_started a, wa_id a))
       (filter (\<lambda>a. wa_worker a = worker_id
                   \<and> (case owner_id of None \<Rightarrow> True
                      | Some u \<Rightarrow> \<exists>w\<in>set (workers s). wr_id w = wa_worker a \<and> wr_owner w = u))
          (worker_attempts s))"

definition worker_input_rows :: "string \<Rightarrow> ledger \<Rightarrow> worker_input_row list" where
  "worker_input_rows worker_id s =
     sort_key (\<lambda>i. (wi_created i, wi_id i)) (filter (\<lambda>i. wi_worker i = worker_id) (worker_inputs s))"

definition list_worker_inputs :: "string \<Rightarrow> bool \<Rightarrow> string list store" where
  "list_worker_inputs worker_id consume =
     bindS (ask (worker_input_rows worker_id)) (\<lambda>rows.
     bindS (if consume \<and> rows \<noteq> []
            then modify (\<lambda>s. s\<lparr>worker_inputs := filter (\<lambda>i. wi_id i \<notin> set (map wi_id rows)) (worker_inputs s)\<rparr>)
            else ret ()) (\<lambda>_.
     ret (map wi_content rows)))"

definition list_worker_input_records :: "string \<Rightarrow> ledger \<Rightarrow> (string \<times> string) list" where
  "list_worker_input_records worker_id s = map (\<lambda>i. (wi_id i, wi_content i)) (worker_input_rows worker_id s)"

definition consume_worker_inputs :: "string \<Rightarrow> string \<Rightarrow> string list \<Rightarrow> nat store" where
  "consume_worker_inputs worker_id owner_id input_ids =
     bindS (ask (\<lambda>s. \<exists>w\<in>set (workers s). wr_id w = worker_id \<and> wr_owner w = owner_id)) (\<lambda>owned.
     if \<not> owned then raise (PermissionError ''worker is not owned by caller'')
     else
       let sel = (\<lambda>i. wi_id i \<in> set input_ids \<and> wi_worker i = worker_id) in
       bindS (ask (\<lambda>s. row_count sel (worker_inputs s))) (\<lambda>deleted.
       bindS (modify (\<lambda>s. s\<lparr>worker_inputs := filter (\<lambda>i. \<not> sel i) (worker_inputs s)\<rparr>)) (\<lambda>_.
       ret deleted)))"

section \<open>Settling, cancelling and reconciling workers\<close>

definition is_hex :: "char \<Rightarrow> bool" where
  "is_hex c = (let n = of_char c :: nat in (48 \<le> n \<and> n \<le> 57) \<or> (97 \<le> n \<and> n \<le> 102))"

text \<open>\<^verbatim>\<open>worker-result-worker-attempt-[0-9a-f]{32}-[0-9a-f]{64}\<close>, matched in full.\<close>

definition valid_result_ref :: "string \<Rightarrow> bool" where
  "valid_result_ref r =
     (let p = ''worker-result-worker-attempt-''; q = drop (length p) r in
      starts_with p r \<and> length q = 97 \<and> list_all is_hex (take 32 q) \<and> q ! 32 = CHR ''-''
      \<and> list_all is_hex (drop 33 q))"

definition reason_items :: "stop_reason option \<Rightarrow> (string \<times> json) list" where
  "reason_items reason = (case reason of None \<Rightarrow> [] | Some r \<Rightarrow> [(''reason'', JStr (stop_reason_text r))])"

definition delivery_event :: "string \<Rightarrow> string \<Rightarrow> worker_outcome \<Rightarrow> string option \<Rightarrow> unit store" where
  "delivery_event worker_id attempt_id outcome delivery =
     (case delivery of
        None \<Rightarrow> ret ()
      | Some d \<Rightarrow> worker_event worker_id
          (if d = ''waiter'' then ''worker_result_delivered'' else ''worker_notification'')
          [(''delivery'', JStr d), (''outcome'', JStr (worker_outcome_text outcome))] (Some attempt_id))"

definition settle_worker ::
  "string \<Rightarrow> string \<Rightarrow> worker_outcome \<Rightarrow> string option \<Rightarrow> string option \<Rightarrow> stop_reason option \<Rightarrow> string option
     \<Rightarrow> worker_row option store" where
  "settle_worker worker_id attempt_id outcome result0 result_ref reason delivery =
     (let result = map_option (last_bytes 65536) result0 in
      bindS (lift (guardE (case result_ref of None \<Rightarrow> False | Some r \<Rightarrow> \<not> valid_result_ref r)
               (ValueError ''result_ref must be a bounded worker result reference''))) (\<lambda>_.
      bindS (lift (guardE (delivery \<notin> {None, Some ''waiter'', Some ''notification''})
               (ValueError ''delivery must be waiter, notification, or None''))) (\<lambda>_.
      bindS utc_now (\<lambda>timestamp.
      bindS (ask (worker_attempt attempt_id)) (\<lambda>found.
      case found of
        None \<Rightarrow> ret None
      | Some attempt \<Rightarrow>
          if wa_worker attempt \<noteq> worker_id then ret None
          else if wa_status attempt \<noteq> Wa_running then ask (get_worker worker_id)
          else
            bindS (update_worker_attempts (\<lambda>a. wa_id a = attempt_id \<and> wa_status a = Wa_running)
                     (\<lambda>a. a\<lparr>wa_status := Wa_finished, wa_finished := Some timestamp, wa_outcome := Some outcome,
                            wa_result := result, wa_error := map_option stop_reason_text reason\<rparr>)) (\<lambda>_.
            bindS (update_workers (\<lambda>w. wr_id w = worker_id)
                     (\<lambda>w. w\<lparr>wr_phase := Ph_idle, wr_outcome := Some outcome, wr_stop_reason := reason,
                            wr_result := result, wr_result_ref := result_ref,
                            wr_last_error := map_option stop_reason_text reason, wr_updated := timestamp\<rparr>)) (\<lambda>_.
            bindS (worker_event worker_id ''worker_settled''
                     ([(''phase'', JStr ''idle''), (''outcome'', JStr (worker_outcome_text outcome))]
                      @ reason_items reason) (Some attempt_id)) (\<lambda>_.
            bindS (delivery_event worker_id attempt_id outcome delivery) (\<lambda>_.
            ask (get_worker worker_id))))))))))"

definition children_of :: "worker_row list \<Rightarrow> string \<Rightarrow> string \<Rightarrow> string list" where
  "children_of ws owner_id current =
     map wr_id (filter (\<lambda>w. wr_parent w = Some current \<and> wr_owner w = owner_id) ws)"

text \<open>
  The loop \<^verbatim>\<open>while frontier\<close>; the frontier is a stack whose top is the head of the list.  Each
  round takes one worker out, so as many rounds as there are workers are enough.
\<close>

fun collect_tree :: "nat \<Rightarrow> worker_row list \<Rightarrow> string \<Rightarrow> string list \<Rightarrow> string list \<Rightarrow> string list option" where
  "collect_tree fuel ws owner_id frontier ids =
     (if frontier = [] then Some ids
      else if fuel = 0 then None
      else collect_tree (fuel - 1) ws owner_id
             (rev (children_of ws owner_id (hd frontier)) @ tl frontier) (ids @ [hd frontier]))"

declare collect_tree.simps [simp del]

definition cancel_one :: "nat \<Rightarrow> string \<times> stop_reason \<Rightarrow> unit store" where
  "cancel_one timestamp = (\<lambda>(current, reason).
     bindS (update_worker_attempts (\<lambda>a. wa_worker a = current \<and> wa_status a = Wa_running)
              (\<lambda>a. a\<lparr>wa_status := Wa_finished, wa_finished := Some timestamp, wa_outcome := Some Wo_stopped,
                     wa_error := Some (stop_reason_text reason)\<rparr>)) (\<lambda>_.
     bindS (update_workers (\<lambda>w. wr_id w = current
                                \<and> (wr_phase w = Ph_running \<or> (wr_phase w = Ph_idle \<and> wr_outcome w = None)))
              (\<lambda>w. w\<lparr>wr_phase := Ph_idle, wr_outcome := Some Wo_stopped, wr_stop_reason := Some reason,
                     wr_updated := timestamp\<rparr>)) (\<lambda>changes.
     if changes \<noteq> 0
     then worker_event current ''worker_cancelled''
            [(''outcome'', JStr ''stopped''), (''reason'', JStr (stop_reason_text reason))] None
     else ret ())))"

definition cancel_reasons :: "string list \<Rightarrow> (string \<times> stop_reason) list" where
  "cancel_reasons ids =
     map (\<lambda>(i, w). (w, if i = 0 then Sr_cancelled else Sr_parent_cancelled)) (zip [0..<length ids] ids)"

definition cancel_worker_tree :: "string \<Rightarrow> string \<Rightarrow> string list store" where
  "cancel_worker_tree worker_id owner_id =
     bindS utc_now (\<lambda>timestamp.
     bindS (ask (\<lambda>s. \<exists>w\<in>set (workers s). wr_id w = worker_id \<and> wr_owner w = owner_id)) (\<lambda>owned.
     if \<not> owned then raise (PermissionError ''worker is not owned by caller'')
     else
       bindS (ask (\<lambda>s. collect_tree (length (workers s)) (workers s) owner_id [worker_id] [])) (\<lambda>collected.
       case collected of
         None \<Rightarrow> raise (RuntimeError ''unbounded loop'')
       | Some ids \<Rightarrow> bindS (forS (cancel_one timestamp) (cancel_reasons ids)) (\<lambda>_. ret ids))))"

text \<open>The single \<^verbatim>\<open>UPDATE\<close> that decides whether an attempt was abandoned by its owner.\<close>

definition abandoned :: "ledger \<Rightarrow> string \<Rightarrow> string \<Rightarrow> string \<Rightarrow> string \<Rightarrow> worker_attempt_row \<Rightarrow> bool" where
  "abandoned s owner_id service_owner_id worker_id attempt_id a \<longleftrightarrow>
     owned_attempt worker_id attempt_id service_owner_id a \<and> wa_status a = Wa_running
     \<and> (\<exists>w\<in>set (workers s). wr_id w = wa_worker a \<and> wr_owner w = owner_id \<and> wr_phase w = Ph_running)
     \<and> (\<forall>p\<in>set (worker_processes s). wp_attempt p \<noteq> wa_id a)
     \<and> (\<forall>b\<in>set (worker_attempts s). wa_worker b = wa_worker a \<and> wa_id b \<noteq> wa_id a \<longrightarrow> wa_status b \<noteq> Wa_running)"

definition given :: "string option \<Rightarrow> bool" where
  "given v = (case v of None \<Rightarrow> False | Some x \<Rightarrow> x \<noteq> [])"

definition reconcile_scope :: "string \<Rightarrow> string \<Rightarrow> string \<Rightarrow> string \<Rightarrow> nat store" where
  "reconcile_scope owner_id service_owner_id worker_id attempt_id =
     bindS utc_now (\<lambda>timestamp.
     bindS (ask (\<lambda>s. abandoned s owner_id service_owner_id worker_id attempt_id)) (\<lambda>sel.
     bindS (update_worker_attempts sel
              (\<lambda>a. a\<lparr>wa_status := Wa_finished, wa_finished := Some timestamp, wa_outcome := Some Wo_lost,
                     wa_error := Some (stop_reason_text Sr_restart)\<rparr>)) (\<lambda>changed.
     if changed \<noteq> 1 then ret 0
     else
       bindS (update_workers (\<lambda>w. wr_id w = worker_id \<and> wr_owner w = owner_id \<and> wr_phase w = Ph_running)
                (\<lambda>w. w\<lparr>wr_phase := Ph_idle, wr_outcome := Some Wo_lost, wr_stop_reason := Some Sr_restart,
                       wr_last_error := Some ''controller restarted before worker completed'',
                       wr_updated := timestamp\<rparr>)) (\<lambda>_.
       bindS (update_bindings (\<lambda>b. bn_worker b = worker_id \<and> bn_worker_attempt b = attempt_id
                                  \<and> bn_service_owner b = service_owner_id \<and> open_binding b)
                (\<lambda>b. b\<lparr>bn_status := Bn_lost, bn_updated := timestamp\<rparr>)) (\<lambda>_.
       bindS (worker_event worker_id ''worker_lost''
                [(''outcome'', JStr ''lost''), (''reason'', JStr ''restart'')] (Some attempt_id)) (\<lambda>_.
       ret 1))))))"

definition reconcile_workers ::
  "string option \<Rightarrow> string option \<Rightarrow> string option \<Rightarrow> string option \<Rightarrow> nat store" where
  "reconcile_workers owner_id service_owner_id worker_id attempt_id =
     (if given owner_id \<and> given service_owner_id \<and> given worker_id \<and> given attempt_id
      then reconcile_scope (the owner_id) (the service_owner_id) (the worker_id) (the attempt_id)
      else ret 0)"

definition list_workers :: "string \<Rightarrow> worker_phase option \<Rightarrow> ledger \<Rightarrow> worker_row list" where
  "list_workers owner_id phase s =
     sort_key (\<lambda>w. (wr_created w, wr_id w))
       (filter (\<lambda>w. wr_owner w = owner_id \<and> (case phase of None \<Rightarrow> True | Some p \<Rightarrow> wr_phase w = p)) (workers s))"

definition list_worker_children :: "string \<Rightarrow> ledger \<Rightarrow> worker_row list" where
  "list_worker_children worker_id s =
     sort_key (\<lambda>w. (wr_created w, wr_id w)) (filter (\<lambda>w. wr_parent w = Some worker_id) (workers s))"

end
