(* ===== verification/WorkerLogic.thy ===== *)
theory WorkerLogic imports Workers begin

text \<open>
  What the worker operations preserve: the task policies of theory Lifecycle (only a delivery touches
  tasks, runs and attempts), and two row evolutions of their own.  A finished worker attempt and a
  closed binding never change, which is what makes a delivery happen at most once.
\<close>

section \<open>The worker statements and the task policies\<close>

lemmas worker_statement_defs = insert_worker_def insert_worker_attempt_def insert_worker_input_def
  insert_binding_def update_workers_def update_worker_attempts_def update_bindings_def

context task_policy begin

lemma evolution_outside:
  assumes "evolution s0 s" "ticks s \<le> ticks s'" "tasks s' = tasks s" "runs s' = runs s"
    "attempts s' = attempts s" "events s' = events s" "revisions s' = revisions s" "decisions s' = decisions s"
  shows "evolution s0 s'"
proof -
  have "ledger_ok s" using assms(1) by (simp add: evolution_def)
  then have "ledger_ok s'" using assms(2-8) unfolding ledger_ok_def by force
  with assms show ?thesis by (intro evolution_frame [of s0 s s'])
qed

lemma keeps_worker_statements [keeps_rules]:
  "keeps (evolution s0) (worker_event w typ payload identity)"
  "keeps (evolution s0) (insert_worker wr)"
  "keeps (evolution s0) (insert_worker_attempt wa)"
  "keeps (evolution s0) (insert_worker_input wi)"
  "keeps (evolution s0) (insert_binding b)"
  "keeps (evolution s0) (update_workers P f)"
  "keeps (evolution s0) (update_worker_attempts Q g)"
  "keeps (evolution s0) (update_bindings R h)"
  "keeps (evolution s0) (modify (\<lambda>s. s\<lparr>worker_inputs := i s\<rparr>))"
  "keeps (evolution s0) (modify (\<lambda>s. s\<lparr>worker_processes := p s\<rparr>))"
  "keeps (evolution s0) (modify (\<lambda>s. if c s then s else s\<lparr>worker_processes := p s\<rparr>))"
  unfolding keeps_def worker_statement_defs worker_event_def Let_def
  by (auto simp: bindE_Inr_iff guardE_Inr_iff split: if_splits elim: evolution_outside)

lemma keeps_read [keeps_rules]: "keeps (evolution s0) (\<lambda>s. lift (q s) s)"
  by (auto simp: keeps_def lift_Inr_iff)

lemma keeps_worker_ops:
  "keeps (evolution s0) (create_worker w u role d parent a m q)"
  "keeps (evolution s0) (bind_worker w wa run tid aid so tmo)"
  "keeps (evolution s0) (settle_worker_binding w st)"
  "keeps (evolution s0) (claim_worker_binding_delivery w wa run tid aid)"
  "keeps (evolution s0) (recover_worker_binding_delivery w wa stale)"
  "keeps (evolution s0) (start_worker_attempt wa w u prompt svc ids rp rc al)"
  "keeps (evolution s0) (register_worker_process w wa so pid pgid)"
  "keeps (evolution s0) (clear_worker_process w wa so pid pgid)"
  "keeps (evolution s0) (append_worker_input i w u content)"
  "keeps (evolution s0) (list_worker_inputs w consume)"
  "keeps (evolution s0) (consume_worker_inputs w u ids)"
  "keeps (evolution s0) (settle_worker w wa oc res ref reason dl)"
  "keeps (evolution s0) (cancel_worker_tree w u)"
  "keeps (evolution s0) (reconcile_workers o1 o2 o3 o4)"
  unfolding create_worker_def bind_worker_def settle_worker_binding_def claim_worker_binding_delivery_def
    recover_worker_binding_delivery_def start_worker_attempt_def register_worker_process_def
    clear_worker_process_def append_worker_input_def list_worker_inputs_def consume_worker_inputs_def
    settle_worker_def delivery_event_def cancel_worker_tree_def cancel_one_def reconcile_workers_def reconcile_scope_def
  by (intro keeps_rules)+

lemma keeps_complete:
  "keeps (evolution s0) (complete_worker_binding w wa run tid aid oc path err typ ap ep)"
  unfolding complete_worker_binding_def settle_delivery_def
  by (intro keeps_rules keeps_update_tasks keeps_update_runs keeps_update_attempts)
    (auto intro: T_state simp: row_simps completion_of_def split: if_splits)

end

end
