(* ===== verification/WorkerInv.thy ===== *)
theory WorkerInv imports WorkerLogic begin

text \<open>
  The invariant of the worker tables.  Workers form a forest of bounded depth whose edges stay inside
  one owner; a worker is running exactly when it has a running attempt, and it never has two.  Every
  worker operation keeps the invariant, and the operations of the other theories do not see the
  worker tables at all.
\<close>

section \<open>The invariant\<close>

definition forest :: "worker_row list \<Rightarrow> bool" where
  "forest ws \<longleftrightarrow> distinct (map wr_id ws)
     \<and> (\<forall>w\<in>set ws. int (wr_depth w) \<le> MAX_WORKER_DEPTH
          \<and> (case wr_parent w of None \<Rightarrow> wr_depth w = 0
             | Some p \<Rightarrow> \<exists>q\<in>set ws. wr_id q = p \<and> wr_owner q = wr_owner w \<and> wr_depth w = Suc (wr_depth q)))"

definition attempts_match :: "worker_row list \<Rightarrow> worker_attempt_row list \<Rightarrow> bool" where
  "attempts_match ws ats \<longleftrightarrow> distinct (map wa_id ats) \<and> wa_worker ` set ats \<subseteq> wr_id ` set ws
     \<and> (\<forall>a\<in>set ats. \<forall>b\<in>set ats. wa_status a = Wa_running \<and> wa_status b = Wa_running
            \<and> wa_worker a = wa_worker b \<longrightarrow> a = b)
     \<and> (\<forall>w\<in>set ws. wr_phase w = Ph_running \<longleftrightarrow>
            (\<exists>a\<in>set ats. wa_worker a = wr_id w \<and> wa_status a = Wa_running))"

definition workers_ok :: "ledger \<Rightarrow> bool" where
  "workers_ok s \<longleftrightarrow> forest (workers s) \<and> attempts_match (workers s) (worker_attempts s)
     \<and> distinct (map bn_worker (bindings s))"

definition same_worker :: "worker_row \<Rightarrow> worker_row \<Rightarrow> bool" where
  "same_worker w v \<longleftrightarrow> wr_id v = wr_id w \<and> wr_parent v = wr_parent w \<and> wr_owner v = wr_owner w
     \<and> wr_depth v = wr_depth w"

definition same_attempt :: "worker_attempt_row \<Rightarrow> worker_attempt_row \<Rightarrow> bool" where
  "same_attempt a b \<longleftrightarrow> wa_id b = wa_id a \<and> wa_worker b = wa_worker a"

section \<open>Table updates\<close>

lemma forest_update:
  assumes "forest ws" and same: "\<And>w. P w \<Longrightarrow> same_worker w (f w)"
  shows "forest (update_rows P f ws)"
proof -
  let ?h = "\<lambda>w. if P w then f w else w"
  have h: "wr_id (?h w) = wr_id w" "wr_parent (?h w) = wr_parent w" "wr_owner (?h w) = wr_owner w"
    "wr_depth (?h w) = wr_depth w" for w
    using same by (auto simp: same_worker_def)
  have ids: "map wr_id (update_rows P f ws) = map wr_id ws"
    unfolding update_rows_def by (simp add: h comp_def)
  have "int (wr_depth v) \<le> MAX_WORKER_DEPTH \<and> (case wr_parent v of None \<Rightarrow> wr_depth v = 0
     | Some p \<Rightarrow> \<exists>q\<in>set (update_rows P f ws). wr_id q = p \<and> wr_owner q = wr_owner v \<and> wr_depth v = Suc (wr_depth q))"
    if v: "v \<in> set (update_rows P f ws)" for v
  proof -
    from v obtain w where w: "w \<in> set ws" "v = ?h w" unfolding update_rows_def by auto
    have "int (wr_depth w) \<le> MAX_WORKER_DEPTH \<and> (case wr_parent w of None \<Rightarrow> wr_depth w = 0
       | Some p \<Rightarrow> \<exists>q\<in>set ws. wr_id q = p \<and> wr_owner q = wr_owner w \<and> wr_depth w = Suc (wr_depth q))"
      using assms(1) w(1) by (simp add: forest_def)
    moreover have "\<exists>q'\<in>set (update_rows P f ws). wr_id q' = wr_id q \<and> wr_owner q' = wr_owner q
        \<and> wr_depth q' = wr_depth q" if "q \<in> set ws" for q
      using that h [of q] unfolding update_rows_def by (intro bexI [of _ "?h q"]) auto
    ultimately show ?thesis
      unfolding w(2) h by (cases "wr_parent w") (auto simp: h, metis)
  qed
  with assms(1) ids show ?thesis by (simp add: forest_def)
qed

lemma update_rows_ids:
  "(\<And>w. P w \<Longrightarrow> key (f w) = key w) \<Longrightarrow> map key (update_rows P f t) = map key t"
  by (rule keyed_table.update_keys [OF keyed_table_rows])

lemma update_rows_image:
  assumes "\<And>w. P w \<Longrightarrow> key (f w) = key w" shows "key ` set (update_rows P f t) = key ` set t"
  using update_rows_ids [of P key f t] assms by (metis list.set_map)

text \<open>Stopping worker \<open>k\<close>: all its running attempts finish and it becomes idle.\<close>

lemma attempts_match_stop:
  assumes m: "attempts_match ws ats"
    and P: "\<And>a. a \<in> set ats \<Longrightarrow> P a \<Longrightarrow> wa_worker a = k" "\<And>a. a \<in> set ats \<Longrightarrow> wa_worker a = k \<Longrightarrow> wa_status a = Wa_running \<Longrightarrow> P a"
    and f: "\<And>a. P a \<Longrightarrow> same_attempt a (f a) \<and> wa_status (f a) = Wa_finished"
    and Q: "\<And>w. Q w \<Longrightarrow> wr_id w = k" "\<And>w. w \<in> set ws \<Longrightarrow> wr_id w = k \<Longrightarrow> wr_phase w = Ph_running \<Longrightarrow> Q w"
    and g: "\<And>w. Q w \<Longrightarrow> same_worker w (g w) \<and> wr_phase (g w) = Ph_idle"
  shows "attempts_match (update_rows Q g ws) (update_rows P f ats)"
proof -
  let ?a = "update_rows P f ats" and ?w = "update_rows Q g ws"
  have run: "b \<in> set ?a \<and> wa_status b = Wa_running \<longleftrightarrow> b \<in> set ats \<and> wa_status b = Wa_running \<and> wa_worker b \<noteq> k" for b
  proof
    assume b: "b \<in> set ?a \<and> wa_status b = Wa_running"
    then obtain a where a: "a \<in> set ats" "b = (if P a then f a else a)" by (auto simp: update_rows_def)
    with b f [of a] have "\<not> P a" "b = a" by (auto split: if_splits)
    with a b P(2) [of a] show "b \<in> set ats \<and> wa_status b = Wa_running \<and> wa_worker b \<noteq> k" by auto
  next
    assume b: "b \<in> set ats \<and> wa_status b = Wa_running \<and> wa_worker b \<noteq> k"
    then have "\<not> P b" using P(1) [of b] by auto
    with b show "b \<in> set ?a \<and> wa_status b = Wa_running" by (auto simp: update_rows_def)
  qed
  have "map wa_id ?a = map wa_id ats" using f by (intro update_rows_ids) (auto simp: same_attempt_def)
  moreover have "wa_worker ` set ?a = wa_worker ` set ats"
    using f by (intro update_rows_image) (auto simp: same_attempt_def)
  moreover have "wr_id ` set ?w = wr_id ` set ws"
    using g by (intro update_rows_image) (auto simp: same_worker_def)
  moreover have "wr_phase v = Ph_running \<longleftrightarrow> (\<exists>a\<in>set ?a. wa_worker a = wr_id v \<and> wa_status a = Wa_running)"
    if v: "v \<in> set ?w" for v
  proof -
    from v obtain w where w: "w \<in> set ws" "v = (if Q w then g w else w)" by (auto simp: update_rows_def)
    have id: "wr_id v = wr_id w" using w(2) g [of w] by (auto simp: same_worker_def)
    show ?thesis
    proof (cases "wr_id w = k")
      case True
      then have "wr_phase v \<noteq> Ph_running" using w g [of w] Q(2) [of w] by auto
      with True id run show ?thesis by metis
    next
      case False
      then have "v = w" using w(2) Q(1) [of w] by auto
      moreover have "wr_phase w = Ph_running \<longleftrightarrow> (\<exists>a\<in>set ats. wa_worker a = wr_id w \<and> wa_status a = Wa_running)"
        using m w(1) by (simp add: attempts_match_def)
      ultimately show ?thesis using False run by metis
    qed
  qed
  ultimately show ?thesis using m run unfolding attempts_match_def by (metis (no_types, lifting))
qed

text \<open>Starting a new attempt of a worker that has none running.\<close>

lemma attempts_match_start:
  assumes m: "attempts_match ws ats" and k: "k \<in> wr_id ` set ws"
    and idle: "\<And>a. a \<in> set ats \<Longrightarrow> wa_worker a = k \<Longrightarrow> wa_status a \<noteq> Wa_running"
    and r: "wa_worker r = k" "wa_status r = Wa_running" "wa_id r \<notin> wa_id ` set ats"
    and g: "\<And>w. same_worker w (g w) \<and> wr_phase (g w) = Ph_running"
  shows "attempts_match (update_rows (\<lambda>w. wr_id w = k) g ws) (ats @ [r])"
proof -
  let ?w = "update_rows (\<lambda>w. wr_id w = k) g ws"
  have ids: "wr_id ` set ?w = wr_id ` set ws"
    using g by (intro update_rows_image) (auto simp: same_worker_def)
  have "wr_phase v = Ph_running \<longleftrightarrow> (\<exists>a\<in>set (ats @ [r]). wa_worker a = wr_id v \<and> wa_status a = Wa_running)"
    if v: "v \<in> set ?w" for v
  proof -
    from v obtain w where w: "w \<in> set ws" "v = (if wr_id w = k then g w else w)" by (auto simp: update_rows_def)
    have id: "wr_id v = wr_id w" using w(2) g [of w] by (auto simp: same_worker_def)
    have "wr_phase w = Ph_running \<longleftrightarrow> (\<exists>a\<in>set ats. wa_worker a = wr_id w \<and> wa_status a = Wa_running)"
      using m w(1) by (simp add: attempts_match_def)
    with w(2) g [of w] r id show ?thesis by (cases "wr_id w = k") auto
  qed
  moreover have "\<forall>a\<in>set (ats @ [r]). \<forall>b\<in>set (ats @ [r]). wa_status a = Wa_running \<and> wa_status b = Wa_running
       \<and> wa_worker a = wa_worker b \<longrightarrow> a = b"
    using m idle r by (auto simp: attempts_match_def)
  ultimately show ?thesis using m k ids r by (auto simp: attempts_match_def)
qed

lemma attempts_match_create:
  assumes "attempts_match ws ats" "wr_id r \<notin> wr_id ` set ws" "wr_phase r = Ph_idle"
  shows "attempts_match (ws @ [r]) ats"
proof -
  have "wa_worker a \<noteq> wr_id r" if "a \<in> set ats" for a
    using that assms(1,2) unfolding attempts_match_def by (metis image_eqI subsetD)
  then have "\<not> (\<exists>a\<in>set ats. wa_worker a = wr_id r \<and> wa_status a = Wa_running)" by blast
  then show ?thesis using assms(1,3) by (auto simp: attempts_match_def)
qed

lemma forest_create:
  assumes "forest ws" "wr_id r \<notin> wr_id ` set ws" "int (wr_depth r) \<le> MAX_WORKER_DEPTH"
    "case wr_parent r of None \<Rightarrow> wr_depth r = 0
     | Some p \<Rightarrow> \<exists>q\<in>set ws. wr_id q = p \<and> wr_owner q = wr_owner r \<and> wr_depth r = Suc (wr_depth q)"
  shows "forest (ws @ [r])"
  using assms unfolding forest_def by (auto split: option.splits)

section \<open>The tree of a worker\<close>

definition child :: "worker_row list \<Rightarrow> string \<Rightarrow> (string \<times> string) set" where
  "child ws u = {(p, c). \<exists>w\<in>set ws. wr_id w = c \<and> wr_parent w = Some p \<and> wr_owner w = u}"

definition descendants :: "worker_row list \<Rightarrow> string \<Rightarrow> string \<Rightarrow> string set" where
  "descendants ws u anc = (child ws u)\<^sup>* `` {anc}"

lemma children_of_set: "set (children_of ws u p) = child ws u `` {p}"
  by (auto simp: children_of_def child_def)

lemma children_of_distinct: "distinct (map wr_id ws) \<Longrightarrow> distinct (children_of ws u p)"
  unfolding children_of_def by (rule distinct_map_filter)

lemma child_ids: "(p, c) \<in> child ws u \<Longrightarrow> c \<in> wr_id ` set ws"
  by (auto simp: child_def)

definition depth_of :: "worker_row list \<Rightarrow> string \<Rightarrow> nat" where
  "depth_of ws w = (case find (\<lambda>r. wr_id r = w) ws of None \<Rightarrow> 0 | Some r \<Rightarrow> wr_depth r)"

lemma child_depth:
  assumes "forest ws" "(p, c) \<in> child ws u" shows "depth_of ws c = Suc (depth_of ws p)"
proof -
  obtain w where w: "w \<in> set ws" "wr_id w = c" "wr_parent w = Some p" using assms(2) by (auto simp: child_def)
  then obtain q where q: "q \<in> set ws" "wr_id q = p" "wr_depth w = Suc (wr_depth q)"
    using assms(1) by (force simp: forest_def)
  have d: "distinct (map wr_id ws)" using assms(1) by (simp add: forest_def)
  from find_distinct_key [OF d w(1)] find_distinct_key [OF d q(1)] w(2) q(2,3)
  show ?thesis by (simp add: depth_of_def)
qed

lemma child_trancl_depth:
  assumes "forest ws" "(p, c) \<in> (child ws u)\<^sup>+" shows "depth_of ws p < depth_of ws c"
  using assms(2) by (induction rule: trancl_induct) (auto dest: child_depth [OF assms(1)])

lemma child_acyclic: "forest ws \<Longrightarrow> acyclic (child ws u)"
  by (auto intro!: acyclicI dest: child_trancl_depth)

lemma child_unique:
  assumes "forest ws" "(p, c) \<in> child ws u" "(q, c) \<in> child ws u" shows "p = q"
proof -
  obtain v w where "v \<in> set ws" "wr_id v = c" "wr_parent v = Some p" "w \<in> set ws" "wr_id w = c" "wr_parent w = Some q"
    using assms(2,3) by (auto simp: child_def)
  moreover have "distinct (map wr_id ws)" using assms(1) by (simp add: forest_def)
  ultimately have "v = w" by (metis distinct_key_unique)
  with \<open>wr_parent v = Some p\<close> \<open>wr_parent w = Some q\<close> show ?thesis by simp
qed

text \<open>The loop invariant of the traversal.\<close>

definition traversing :: "worker_row list \<Rightarrow> string \<Rightarrow> string \<Rightarrow> string list \<Rightarrow> string list \<Rightarrow> bool" where
  "traversing ws u anc frontier ids \<longleftrightarrow>
     distinct (frontier @ ids) \<and> set (frontier @ ids) \<subseteq> wr_id ` set ws
     \<and> set (frontier @ ids) \<subseteq> descendants ws u anc \<and> anc \<in> set (frontier @ ids)
     \<and> child ws u `` set ids \<subseteq> set (frontier @ ids)
     \<and> (\<forall>c\<in>set (frontier @ ids). c \<noteq> anc \<longrightarrow> (\<exists>p\<in>set ids. (p, c) \<in> child ws u))"

lemma traversing_step:
  assumes f: "forest ws" and t: "traversing ws u anc (x # rest) ids"
  shows "traversing ws u anc (rev (children_of ws u x) @ rest) (ids @ [x])"
proof -
  let ?cs = "children_of ws u x"
  have d: "distinct (map wr_id ws)" using f by (simp add: forest_def)
  have cs: "set ?cs = child ws u `` {x}" by (rule children_of_set)
  have x: "(anc, x) \<in> (child ws u)\<^sup>*" using t by (simp add: traversing_def descendants_def)
  have new: "c \<notin> set (x # rest) \<union> set ids" if "c \<in> set ?cs" for c
  proof
    assume old: "c \<in> set (x # rest) \<union> set ids"
    have xc: "(x, c) \<in> child ws u" using that cs by simp
    have "c \<noteq> anc"
    proof
      assume "c = anc"
      with x xc have "(anc, anc) \<in> (child ws u)\<^sup>+" by simp
      with child_acyclic [OF f] show False by (simp add: acyclic_def)
    qed
    moreover have "c \<in> set ((x # rest) @ ids)" using old by auto
    ultimately obtain p where "p \<in> set ids" "(p, c) \<in> child ws u"
      using t unfolding traversing_def by blast
    with child_unique [OF f xc] have "x \<in> set ids" by blast
    with t show False by (simp add: traversing_def)
  qed
  have "c \<in> descendants ws u anc" if "c \<in> set ?cs" for c
    using x that cs by (auto simp: descendants_def intro: rtrancl_into_rtrancl)
  moreover have "set ?cs \<subseteq> wr_id ` set ws" unfolding cs using child_ids by blast
  moreover have "distinct ?cs" by (rule children_of_distinct [OF d])
  ultimately show ?thesis using t new cs unfolding traversing_def by auto
qed

lemma traversing_end:
  assumes t: "traversing ws u anc [] ids" shows "set ids = descendants ws u anc"
proof
  show "set ids \<subseteq> descendants ws u anc" using t by (simp add: traversing_def)
  have "x \<in> set ids" if "(anc, x) \<in> (child ws u)\<^sup>*" for x
    using that by (induction rule: rtrancl_induct) (use t in \<open>auto simp: traversing_def\<close>)
  then show "descendants ws u anc \<subseteq> set ids" by (auto simp: descendants_def)
qed

lemma collect_tree_Nil: "collect_tree fuel ws u [] ids = Some ids"
  by (subst collect_tree.simps) simp

lemma collect_tree_Cons:
  "collect_tree (Suc n) ws u (x # rest) ids = collect_tree n ws u (rev (children_of ws u x) @ rest) (ids @ [x])"
  by (subst collect_tree.simps) simp

lemma traversing_done:
  assumes "traversing ws u anc [] ids"
  shows "\<exists>out. collect_tree fuel ws u [] ids = Some out \<and> distinct out \<and> set out = descendants ws u anc
     \<and> prefix ids out"
  using assms traversing_end [OF assms] by (simp add: collect_tree_Nil traversing_def)

lemma collect_tree_total:
  assumes f: "forest ws" and t: "traversing ws u anc frontier ids" and fuel: "length ws \<le> fuel + length ids"
  shows "\<exists>out. collect_tree fuel ws u frontier ids = Some out \<and> distinct out \<and> set out = descendants ws u anc
     \<and> prefix ids out"
  using t fuel
proof (induction fuel arbitrary: frontier ids)
  case 0
  have "length (frontier @ ids) \<le> card (wr_id ` set ws)"
    using 0(1) card_mono [of "wr_id ` set ws" "set (frontier @ ids)"]
    by (metis distinct_card finite_imageI List.finite_set traversing_def)
  also have "\<dots> \<le> length ws" by (metis card_length length_map list.set_map)
  finally have "frontier = []" using 0(2) by (cases frontier) simp_all
  with 0(1) show ?case by (simp add: traversing_done)
next
  case (Suc n)
  show ?case
  proof (cases frontier)
    case Nil
    with Suc.prems(1) show ?thesis by (simp add: traversing_done)
  next
    case (Cons x rest)
    have "traversing ws u anc (rev (children_of ws u x) @ rest) (ids @ [x])"
      using traversing_step [OF f] Suc.prems(1) Cons by blast
    from Suc.IH [OF this] Suc.prems(2) obtain out where
      "collect_tree n ws u (rev (children_of ws u x) @ rest) (ids @ [x]) = Some out" "distinct out"
      "set out = descendants ws u anc" "prefix (ids @ [x]) out" by auto
    with Cons show ?thesis by (simp add: collect_tree_Cons append_prefixD)
  qed
qed

lemma collect_tree_root:
  assumes "forest ws" "anc \<in> wr_id ` set ws"
  obtains out where "collect_tree (length ws) ws u [anc] [] = Some out" "distinct out"
    "set out = descendants ws u anc"
proof -
  have "traversing ws u anc [anc] []" using assms(2) by (auto simp: traversing_def descendants_def)
  from collect_tree_total [OF assms(1) this] show ?thesis using that by auto
qed

end
