(* ===== verification/WorkerSafety.thy ===== *)
theory WorkerSafety imports WorkerInv begin

text \<open>
  Every worker operation keeps the worker invariant, cancelling a worker stops its whole subtree, and
  bindings and attempts only move forward.
\<close>

section \<open>Statements that leave the worker tables alone\<close>

definition worker_view :: "ledger \<Rightarrow> worker_row list \<times> worker_attempt_row list \<times> binding_row list" where
  "worker_view s = (workers s, worker_attempts s, bindings s)"

lemma view_statements:
  "keeps (\<lambda>s. worker_view s = v) utc_now"
  "keeps (\<lambda>s. worker_view s = v) (append_event run task typ payload eid)"
  "keeps (\<lambda>s. worker_view s = v) (event run task typ payload)"
  "keeps (\<lambda>s. worker_view s = v) (insert_run rr)"
  "keeps (\<lambda>s. worker_view s = v) (insert_task tr)"
  "keeps (\<lambda>s. worker_view s = v) (insert_attempt ar)"
  "keeps (\<lambda>s. worker_view s = v) (insert_artifact fa)"
  "keeps (\<lambda>s. worker_view s = v) (insert_revision rv)"
  "keeps (\<lambda>s. worker_view s = v) (update_runs P1 f1)"
  "keeps (\<lambda>s. worker_view s = v) (update_tasks P2 f2)"
  "keeps (\<lambda>s. worker_view s = v) (update_attempts P3 f3)"
  "keeps (\<lambda>s. worker_view s = v) (modify (\<lambda>s. s\<lparr>artifacts := f4 s\<rparr>))"
  "keeps (\<lambda>s. worker_view s = v) (modify (\<lambda>s. s\<lparr>worker_inputs := f5 s\<rparr>))"
  "keeps (\<lambda>s. worker_view s = v) (modify (\<lambda>s. s\<lparr>worker_processes := f6 s\<rparr>))"
  "keeps (\<lambda>s. worker_view s = v) (modify (\<lambda>s. if c s then s else s\<lparr>worker_processes := f7 s\<rparr>))"
  "keeps (\<lambda>s. worker_view s = v) (worker_event w typ payload identity)"
  "keeps (\<lambda>s. worker_view s = v) (insert_worker_input wi)"
  "keeps (\<lambda>s. worker_view s = v) (\<lambda>s. lift (q s) s)"
  unfolding keeps_def worker_view_def utc_now_def event_def insert_run_def insert_task_def insert_attempt_def
    insert_artifact_def insert_revision_def update_runs_def update_tasks_def update_attempts_def
    worker_event_def insert_worker_input_def Let_def
  by (auto simp: bindE_Inr_iff guardE_Inr_iff bindS_Inr_iff lift_Inr_iff split: if_splits elim!: append_event_Inr)

text \<open>A statement that keeps the view keeps whatever the view determines.\<close>

lemma keeps_of_view:
  assumes "\<And>v. keeps (\<lambda>s. worker_view s = v) m" shows "keeps (\<lambda>s. I (worker_view s)) m"
  unfolding keeps_def
proof (intro allI impI)
  fix s x s' assume "I (worker_view s)" "m s = Inr (x, s')"
  moreover from this(2) have "worker_view s' = worker_view s" using keepsD [OF assms refl] by blast
  ultimately show "I (worker_view s')" by simp
qed

lemma insert_decision_view: "keeps (\<lambda>s. worker_view s = v) (insert_decision run_id d did)"
  unfolding keeps_def insert_decision_def Let_def
  by (auto simp: bindS_Inr_iff worker_view_def split: if_splits option.splits elim!: append_event_Inr)

lemma set_state_view: "keeps (\<lambda>s. worker_view s = v) (set_state_if tid froms f)"
  unfolding set_state_if_def by (intro keeps_bind view_statements)

lemmas view_rules = view_statements insert_decision_view set_state_view keeps_pure keeps_bind keeps_if keeps_option
  keeps_let keeps_prod keeps_forS_all

lemma store_ops_view:
  "keeps (\<lambda>s. worker_view s = v) (create_run loads rid fresh goal ws ts rt)"
  "keeps (\<lambda>s. worker_view s = v) (create_run_with_plan loads rid did ws doc dec rt)"
  "keeps (\<lambda>s. worker_view s = v) (attach_plan_to_run loads rid did doc dec)"
  "keeps (\<lambda>s. worker_view s = v) (commit_plan_revision loads rid did doc reason ev action)"
  "keeps (\<lambda>s. worker_view s = v) (patch_plan loads fresh rid did patch)"
  unfolding create_run_def insert_items_def item_events_def route_event_def create_run_with_plan_def
    optional_decision_def attach_plan_to_run_def attach_item_def commit_plan_revision_def write_revision_def
    drop_task_def sync_task_def patch_plan_def
  by (intro view_rules)+

lemma task_ops_view:
  "keeps (\<lambda>s. worker_view s = v) (set_runner_process rid p g)"
  "keeps (\<lambda>s. worker_view s = v) (claim_runner_process rid p' g')"
  "keeps (\<lambda>s. worker_view s = v) (clear_runner_process rid p g)"
  "keeps (\<lambda>s. worker_view s = v) (next_task rid)"
  "keeps (\<lambda>s. worker_view s = v) (claim_task aid tid runtime allow)"
  "keeps (\<lambda>s. worker_view s = v) (ensure_orchestration_task tid rid title prompt)"
  "keeps (\<lambda>s. worker_view s = v) (claim_orchestration_task aid tid runtime)"
  "keeps (\<lambda>s. worker_view s = v) (await_input tid aid path q' opts)"
  "keeps (\<lambda>s. worker_view s = v) (answer_input rid path)"
  "keeps (\<lambda>s. worker_view s = v) (finish_task tid aid ok rpath err)"
  "keeps (\<lambda>s. worker_view s = v) (retry_task tid aid err')"
  "keeps (\<lambda>s. worker_view s = v) (supersede_pending_tasks rid reason)"
  "keeps (\<lambda>s. worker_view s = v) (set_attempt_process aid p g)"
  "keeps (\<lambda>s. worker_view s = v) (clear_attempt_process aid p g)"
  "keeps (\<lambda>s. worker_view s = v) (recover_running rid)"
  "keeps (\<lambda>s. worker_view s = v) (settle_run rid)"
  "keeps (\<lambda>s. worker_view s = v) (cancel_run rid)"
  "keeps (\<lambda>s. worker_view s = v) (fail_budget rid limit actual maximum reason)"
  "keeps (\<lambda>s. worker_view s = v) (add_artifact i rid tid path sha n kind)"
  "keeps (\<lambda>s. worker_view s = v) (discard_attempt_outputs rid tid aid ids)"
  unfolding set_runner_process_def claim_runner_process_def clear_runner_process_def next_task_def promote_row_def
    claim_task_def ensure_orchestration_task_def claim_orchestration_task_def await_input_def answer_input_def
    finish_task_def retry_task_def supersede_pending_tasks_def supersede_row_def set_attempt_process_def
    clear_attempt_process_def recover_running_def recover_row_def settle_run_def cancel_run_def fail_budget_def
    add_artifact_def discard_attempt_outputs_def
  by (intro view_rules)+

section \<open>Worker operations keep the invariant\<close>

definition view_ok :: "worker_row list \<times> worker_attempt_row list \<times> binding_row list \<Rightarrow> bool" where
  "view_ok v = (case v of (ws, ats, bs) \<Rightarrow> forest ws \<and> attempts_match ws ats \<and> distinct (map bn_worker bs))"

lemma workers_ok_view: "workers_ok = (\<lambda>s. view_ok (worker_view s))"
  by (rule ext) (simp add: workers_ok_def view_ok_def worker_view_def)

lemma ok_statements:
  assumes "\<And>v. keeps (\<lambda>s. worker_view s = v) m" shows "keeps workers_ok m"
  unfolding workers_ok_view by (rule keeps_of_view) (rule assms)

lemma ok_update_bindings:
  assumes "\<And>b. bn_worker (f b) = bn_worker b" shows "keeps workers_ok (update_bindings P f)"
proof -
  have "map bn_worker (update_rows P f bs) = map bn_worker bs" for bs
    using assms by (intro update_rows_ids)
  then show ?thesis by (auto simp: keeps_def update_bindings_def workers_ok_def)
qed

lemma ok_insert_binding: "keeps workers_ok (insert_binding b)"
  by (auto simp: keeps_def insert_binding_def insert_row_def bindE_Inr_iff guardE_Inr_iff workers_ok_def)

lemmas ok_rules = keeps_pure keeps_bind keeps_if keeps_option keeps_let keeps_prod keeps_forS_all
  view_statements [THEN ok_statements] ok_insert_binding ok_update_bindings

lemma ok_plain_ops:
  "keeps workers_ok (bind_worker w wa run tid aid so tmo)"
  "keeps workers_ok (settle_worker_binding w st)"
  "keeps workers_ok (claim_worker_binding_delivery w wa run tid aid)"
  "keeps workers_ok (recover_worker_binding_delivery w wa stale)"
  "keeps workers_ok (register_worker_process w wa so pid pgid)"
  "keeps workers_ok (clear_worker_process w wa so pid pgid)"
  "keeps workers_ok (append_worker_input i w u content)"
  "keeps workers_ok (list_worker_inputs w consume)"
  "keeps workers_ok (consume_worker_inputs w u ids)"
  "keeps workers_ok (complete_worker_binding w wa run tid aid oc path err typ ap ep)"
  unfolding bind_worker_def settle_worker_binding_def claim_worker_binding_delivery_def
    recover_worker_binding_delivery_def register_worker_process_def clear_worker_process_def
    append_worker_input_def list_worker_inputs_def consume_worker_inputs_def complete_worker_binding_def
    settle_delivery_def
  by (intro ok_rules; simp)+

text \<open>What a worker event leaves in place.\<close>

lemma worker_event_same:
  assumes "worker_event w typ payload identity s = Inr (x, s')"
  shows "workers s' = workers s \<and> worker_attempts s' = worker_attempts s \<and> bindings s' = bindings s
    \<and> tasks s' = tasks s \<and> worker_processes s' = worker_processes s"
  using assms by (auto simp: worker_event_def Let_def split: if_splits)

lemma parent_depth_ticks: "parent_depth u p q (s\<lparr>ticks := n\<rparr>) = parent_depth u p q s"
  by (simp add: parent_depth_def get_worker_def split: option.splits)

lemma parent_depth_Inr:
  "parent_depth u parent q s = Inr depth \<Longrightarrow>
     (case parent of None \<Rightarrow> depth = 0
      | Some p \<Rightarrow> \<exists>v\<in>set (workers s). wr_id v = p \<and> wr_owner v = u \<and> depth = Suc (wr_depth v)
           \<and> (q \<longrightarrow> wr_phase v = Ph_running))"
  by (auto simp: parent_depth_def get_worker_def fetch_one_def dest!: find_Some_iff_first split: option.splits if_splits)

lemma new_worker_sel [simp]:
  "wr_id (new_worker k u p role ty d n t) = k" "wr_owner (new_worker k u p role ty d n t) = u"
  "wr_parent (new_worker k u p role ty d n t) = p" "wr_depth (new_worker k u p role ty d n t) = n"
  "wr_phase (new_worker k u p role ty d n t) = Ph_idle"
  by (simp_all add: new_worker_def)

lemma new_worker_attempt_sel [simp]:
  "wa_id (new_worker_attempt aid k pr so t) = aid" "wa_worker (new_worker_attempt aid k pr so t) = k"
  "wa_status (new_worker_attempt aid k pr so t) = Wa_running"
  by (simp_all add: new_worker_attempt_def)

lemma create_worker_effect:
  assumes "create_worker k u role d parent a m q s = Inr (x, s')"
  obtains depth t where "workers s' = workers s @ [new_worker k u parent role a d depth t]"
    "worker_attempts s' = worker_attempts s" "bindings s' = bindings s" "k \<notin> wr_id ` set (workers s)"
    "int depth \<le> MAX_WORKER_DEPTH" "parent_depth u parent q s = Inr depth"
proof -
  have "\<exists>depth t. workers s' = workers s @ [new_worker k u parent role a d depth t]
    \<and> worker_attempts s' = worker_attempts s \<and> bindings s' = bindings s \<and> k \<notin> wr_id ` set (workers s)
    \<and> int depth \<le> MAX_WORKER_DEPTH \<and> parent_depth u parent q s = Inr depth"
    using assms unfolding create_worker_def
    by (fastforce simp: bindS_Inr_iff lift_Inr_iff guardE_Inr_iff insert_worker_def insert_row_def bindE_Inr_iff
        parent_depth_ticks utc_now_def dest!: worker_event_same split: if_splits)
  with that show ?thesis by blast
qed

lemma ok_create: "keeps workers_ok (create_worker k u role d parent a m q)"
  unfolding keeps_def
proof (intro allI impI)
  fix s x s' assume ok: "workers_ok s" and "create_worker k u role d parent a m q s = Inr (x, s')"
  from this(2) show "workers_ok s'"
  proof (rule create_worker_effect)
    fix depth t assume r: "workers s' = workers s @ [new_worker k u parent role a d depth t]"
      "worker_attempts s' = worker_attempts s" "bindings s' = bindings s"
      "k \<notin> wr_id ` set (workers s)" "int depth \<le> MAX_WORKER_DEPTH" "parent_depth u parent q s = Inr depth"
    have "forest (workers s @ [new_worker k u parent role a d depth t])"
      by (rule forest_create) (use ok r parent_depth_Inr [OF r(6)] in \<open>auto simp: workers_ok_def split: option.splits\<close>)
    with ok r show "workers_ok s'" unfolding workers_ok_def by (simp add: attempts_match_create)
  qed
qed

text \<open>Starting: the guards that passed, and the two tables it writes.\<close>

lemma check_parent_ticks:
  "check_worker_parent w u rp rc (s\<lparr>ticks := n\<rparr>) = check_worker_parent w u rp rc s"
  unfolding check_worker_parent_def get_worker_def by (simp split: option.splits)

lemma worker_busy_ticks: "worker_busy k (s\<lparr>ticks := n\<rparr>) = worker_busy k s"
  by (simp add: worker_busy_def)

lemma start_effect:
  assumes "start_worker_attempt aid k u prompt svc ids rp rc al s = Inr (x, s')"
  obtains w t where "w \<in> set (workers s)" "wr_id w = k" "wr_owner w = u" "wr_phase w \<noteq> Ph_running"
    "check_worker_parent w u rp rc s = Inr ()" "\<not> worker_busy k s" "aid \<notin> wa_id ` set (worker_attempts s)"
    "worker_attempts s' = worker_attempts s @ [new_worker_attempt aid k prompt svc t]"
    "workers s' = update_rows (\<lambda>w. wr_id w = k)
       (\<lambda>w. w\<lparr>wr_phase := Ph_running, wr_stop_reason := None, wr_last_error := None, wr_updated := t\<rparr>) (workers s)"
    "bindings s' = bindings s"
proof -
  let ?t = "timeline s (ticks s)"
  have "\<exists>w. find (\<lambda>w. wr_id w = k \<and> wr_owner w = u) (workers s) = Some w \<and> wr_phase w \<noteq> Ph_running
    \<and> check_worker_parent w u rp rc s = Inr () \<and> \<not> worker_busy k s \<and> aid \<notin> wa_id ` set (worker_attempts s)
    \<and> worker_attempts s' = worker_attempts s @ [new_worker_attempt aid k prompt svc ?t]
    \<and> workers s' = update_rows (\<lambda>w. wr_id w = k)
       (\<lambda>w. w\<lparr>wr_phase := Ph_running, wr_stop_reason := None, wr_last_error := None, wr_updated := ?t\<rparr>) (workers s)
    \<and> bindings s' = bindings s"
    using assms unfolding start_worker_attempt_def
    by (cases "find (\<lambda>w. wr_id w = k \<and> wr_owner w = u) (workers s)")
      (auto simp: bindS_Inr_iff lift_Inr_iff guardE_Inr_iff insert_worker_attempt_def insert_row_def
        bindE_Inr_iff update_workers_def utc_now_def fetch_one_def check_parent_ticks worker_busy_ticks
        dest!: worker_event_same split: if_splits)
  then obtain w where "find (\<lambda>w. wr_id w = k \<and> wr_owner w = u) (workers s) = Some w" "wr_phase w \<noteq> Ph_running"
    "check_worker_parent w u rp rc s = Inr ()" "\<not> worker_busy k s" "aid \<notin> wa_id ` set (worker_attempts s)"
    "worker_attempts s' = worker_attempts s @ [new_worker_attempt aid k prompt svc ?t]"
    "workers s' = update_rows (\<lambda>w. wr_id w = k)
       (\<lambda>w. w\<lparr>wr_phase := Ph_running, wr_stop_reason := None, wr_last_error := None, wr_updated := ?t\<rparr>) (workers s)"
    "bindings s' = bindings s" by blast
  moreover from this(1) have "w \<in> set (workers s)" "wr_id w = k" "wr_owner w = u"
    by (auto dest: find_Some_iff_first)
  ultimately show ?thesis using that by blast
qed

lemma ok_start: "keeps workers_ok (start_worker_attempt aid k u prompt svc ids rp rc al)"
  unfolding keeps_def
proof (intro allI impI)
  fix s x s' assume ok: "workers_ok s" and "start_worker_attempt aid k u prompt svc ids rp rc al s = Inr (x, s')"
  from this(2) show "workers_ok s'"
  proof (rule start_effect)
    fix w t
    let ?g = "\<lambda>w. w\<lparr>wr_phase := Ph_running, wr_stop_reason := None, wr_last_error := None, wr_updated := t\<rparr>"
    assume w: "w \<in> set (workers s)" "wr_id w = k" and busy: "\<not> worker_busy k s"
      and new: "aid \<notin> wa_id ` set (worker_attempts s)"
      and s': "worker_attempts s' = worker_attempts s @ [new_worker_attempt aid k prompt svc t]"
        "workers s' = update_rows (\<lambda>w. wr_id w = k) ?g (workers s)" "bindings s' = bindings s"
    have "attempts_match (workers s') (worker_attempts s')"
      unfolding s'(1,2)
      by (rule attempts_match_start) (use ok w busy new in \<open>auto simp: workers_ok_def worker_busy_def same_worker_def\<close>)
    moreover have "forest (workers s')"
      unfolding s'(2) using ok by (intro forest_update) (auto simp: workers_ok_def same_worker_def)
    ultimately show "workers_ok s'" using ok s'(3) by (simp add: workers_ok_def)
  qed
qed

text \<open>Settling an attempt: nothing happens unless it is this worker's running attempt.\<close>

lemma delivery_same:
  "delivery_event w aid oc dl s = Inr (x, s') \<Longrightarrow>
     workers s' = workers s \<and> worker_attempts s' = worker_attempts s \<and> bindings s' = bindings s"
  by (auto simp: delivery_event_def split: option.splits dest!: worker_event_same)

lemma settle_effect:
  assumes "settle_worker k aid oc res ref reason dl s = Inr (x, s')"
  obtains (noop) "workers s' = workers s" "worker_attempts s' = worker_attempts s" "bindings s' = bindings s"
  | (stop) a f g where "worker_attempt aid s = Some a" "wa_worker a = k" "wa_status a = Wa_running"
      "worker_attempts s' = update_rows (\<lambda>a. wa_id a = aid \<and> wa_status a = Wa_running) f (worker_attempts s)"
      "workers s' = update_rows (\<lambda>w. wr_id w = k) g (workers s)"
      "\<And>a. same_attempt a (f a) \<and> wa_status (f a) = Wa_finished"
      "\<And>w. same_worker w (g w) \<and> wr_phase (g w) = Ph_idle" "bindings s' = bindings s"
proof -
  let ?t = "timeline s (ticks s)"
  let ?f = "\<lambda>a. a\<lparr>wa_status := Wa_finished, wa_finished := Some ?t, wa_outcome := Some oc,
    wa_result := map_option (last_bytes 65536) res, wa_error := map_option stop_reason_text reason\<rparr>"
  let ?g = "\<lambda>w. w\<lparr>wr_phase := Ph_idle, wr_outcome := Some oc, wr_stop_reason := reason,
    wr_result := map_option (last_bytes 65536) res, wr_result_ref := ref,
    wr_last_error := map_option stop_reason_text reason, wr_updated := ?t\<rparr>"
  have att: "worker_attempt aid (s\<lparr>ticks := n\<rparr>) = worker_attempt aid s" for n by (simp add: worker_attempt_def)
  have "workers s' = workers s \<and> worker_attempts s' = worker_attempts s \<and> bindings s' = bindings s
    \<or> (\<exists>a. worker_attempt aid s = Some a \<and> wa_worker a = k \<and> wa_status a = Wa_running
       \<and> worker_attempts s' = update_rows (\<lambda>a. wa_id a = aid \<and> wa_status a = Wa_running) ?f (worker_attempts s)
       \<and> workers s' = update_rows (\<lambda>w. wr_id w = k) ?g (workers s) \<and> bindings s' = bindings s)"
    using assms unfolding settle_worker_def Let_def
    by (cases "worker_attempt aid s")
      (auto simp: bindS_Inr_iff lift_Inr_iff guardE_Inr_iff update_worker_attempts_def update_workers_def
        utc_now_def att dest!: worker_event_same delivery_same split: if_splits)
  then show ?thesis
    using noop stop [where f = ?f and g = ?g] by (auto simp: same_attempt_def same_worker_def)
qed

lemma ok_stop:
  assumes ok: "workers_ok s" and bn: "bindings s' = bindings s"
    and "worker_attempts s' = update_rows P f (worker_attempts s)" "workers s' = update_rows Q g (workers s)"
    and "\<And>a. a \<in> set (worker_attempts s) \<Longrightarrow> P a \<Longrightarrow> wa_worker a = k"
    and "\<And>a. a \<in> set (worker_attempts s) \<Longrightarrow> wa_worker a = k \<Longrightarrow> wa_status a = Wa_running \<Longrightarrow> P a"
    and "\<And>a. P a \<Longrightarrow> same_attempt a (f a) \<and> wa_status (f a) = Wa_finished"
    and "\<And>w. Q w \<Longrightarrow> wr_id w = k"
    and "\<And>w. w \<in> set (workers s) \<Longrightarrow> wr_id w = k \<Longrightarrow> wr_phase w = Ph_running \<Longrightarrow> Q w"
    and g: "\<And>w. Q w \<Longrightarrow> same_worker w (g w) \<and> wr_phase (g w) = Ph_idle"
  shows "workers_ok s'"
proof -
  have "attempts_match (workers s') (worker_attempts s')"
    unfolding assms(3,4) using ok assms(5-) by (intro attempts_match_stop [where k = k]) (simp_all add: workers_ok_def)
  moreover have "forest (workers s')" unfolding assms(4) using ok g by (intro forest_update) (auto simp: workers_ok_def)
  ultimately show ?thesis using ok bn by (simp add: workers_ok_def)
qed

lemma workers_ok_attempts:
  assumes "workers_ok s" shows "distinct (map wa_id (worker_attempts s))"
    "\<And>a b. a \<in> set (worker_attempts s) \<Longrightarrow> b \<in> set (worker_attempts s) \<Longrightarrow> wa_worker a = wa_worker b \<Longrightarrow>
       wa_status a = Wa_running \<Longrightarrow> wa_status b = Wa_running \<Longrightarrow> a = b"
  using assms unfolding workers_ok_def attempts_match_def by blast+

lemma worker_attempt_in: "worker_attempt aid s = Some a \<Longrightarrow> a \<in> set (worker_attempts s) \<and> wa_id a = aid"
  by (auto simp: worker_attempt_def fetch_one_def dest: find_Some_iff_first)

lemma ok_settle: "keeps workers_ok (settle_worker k aid oc res ref reason dl)"
  unfolding keeps_def
proof (intro allI impI)
  fix s x s' assume ok: "workers_ok s" and "settle_worker k aid oc res ref reason dl s = Inr (x, s')"
  from this(2) show "workers_ok s'"
  proof (cases rule: settle_effect)
    case noop
    with ok show ?thesis by (simp add: workers_ok_def)
  next
    case (stop a f g)
    note a = worker_attempt_in [OF stop(1)] stop(2,3)
    have own: "wa_worker b = k" if "b \<in> set (worker_attempts s)" "wa_id b = aid" for b
      using that a distinct_key_unique [OF workers_ok_attempts(1) [OF ok], of b a] by simp
    have only: "wa_id b = aid" if "b \<in> set (worker_attempts s)" "wa_worker b = k" "wa_status b = Wa_running" for b
      using that a workers_ok_attempts(2) [OF ok, of b a] by simp
    show ?thesis
      by (rule ok_stop [OF ok stop(8,4,5), of k]) (use stop own only in simp_all)
  qed
qed

text \<open>Cancelling one worker of the tree.\<close>

definition stopped :: "string \<Rightarrow> ledger \<Rightarrow> bool" where
  "stopped k s \<longleftrightarrow> (\<forall>a\<in>set (worker_attempts s). wa_worker a = k \<longrightarrow> wa_status a = Wa_finished)
     \<and> (\<forall>w\<in>set (workers s). wr_id w = k \<longrightarrow> wr_phase w = Ph_idle)"

lemma wa_status_cases: "wa_status a = Wa_finished \<longleftrightarrow> wa_status a \<noteq> Wa_running"
  by (cases "wa_status a") auto

lemma wr_phase_cases: "wr_phase w = Ph_idle \<longleftrightarrow> wr_phase w \<noteq> Ph_running"
  by (cases "wr_phase w") auto

lemma cancel_one_effect:
  assumes "cancel_one t (k, r) s = Inr (x, s')"
  shows "worker_attempts s' = update_rows (\<lambda>a. wa_worker a = k \<and> wa_status a = Wa_running)
      (\<lambda>a. a\<lparr>wa_status := Wa_finished, wa_finished := Some t, wa_outcome := Some Wo_stopped,
             wa_error := Some (stop_reason_text r)\<rparr>) (worker_attempts s)
    \<and> workers s' = update_rows (\<lambda>w. wr_id w = k \<and> (wr_phase w = Ph_running \<or> (wr_phase w = Ph_idle \<and> wr_outcome w = None)))
      (\<lambda>w. w\<lparr>wr_phase := Ph_idle, wr_outcome := Some Wo_stopped, wr_stop_reason := Some r, wr_updated := t\<rparr>) (workers s)
    \<and> bindings s' = bindings s"
  using assms unfolding cancel_one_def
  by (auto simp: bindS_Inr_iff update_worker_attempts_def update_workers_def dest!: worker_event_same split: if_splits)

lemmas cancel_one_tables = cancel_one_effect [THEN conjunct1] cancel_one_effect [THEN conjunct2, THEN conjunct1]
  cancel_one_effect [THEN conjunct2, THEN conjunct2]

lemma ok_cancel_one: "keeps workers_ok (cancel_one t kr)"
proof (cases kr)
  case (Pair k r)
  have "workers_ok s'" if ok: "workers_ok s" and m: "cancel_one t (k, r) s = Inr (x, s')" for s x s'
    by (rule ok_stop [OF ok cancel_one_tables(3,1,2) [OF m], of k]) (auto simp: same_attempt_def same_worker_def)
  with Pair show ?thesis by (auto simp: keeps_def)
qed

lemma update_rows_ball: "(\<forall>r\<in>set (update_rows P f t). R r) \<longleftrightarrow> (\<forall>r\<in>set t. R (if P r then f r else r))"
  by (auto simp: update_rows_def)

lemma row_count_pos: "row_count P t \<noteq> 0 \<longleftrightarrow> (\<exists>r\<in>set t. P r)"
  by (auto simp: row_count_def filter_empty_conv)

lemma cancel_one_stops:
  assumes "cancel_one t (k, r) s = Inr (x, s')"
  shows "stopped k s'" and "stopped j s \<Longrightarrow> stopped j s'" and "wr_id ` set (workers s') = wr_id ` set (workers s)"
proof -
  note e = cancel_one_tables [OF assms]
  show "stopped k s'"
    unfolding stopped_def e(1,2) update_rows_ball by (simp add: wr_phase_cases wa_status_cases)
  show "stopped j s \<Longrightarrow> stopped j s'" unfolding stopped_def e(1,2) update_rows_ball by simp
  show "wr_id ` set (workers s') = wr_id ` set (workers s)" unfolding e(2) by (rule update_rows_image) simp
qed

lemma ok_cancel: "keeps workers_ok (cancel_worker_tree k u)"
  unfolding cancel_worker_tree_def by (intro ok_rules ok_cancel_one)

lemma abandoned_ticks: "abandoned (s\<lparr>ticks := n\<rparr>) = abandoned s"
  by (intro ext) (simp add: abandoned_def)

lemma ok_reconcile: "keeps workers_ok (reconcile_workers o1 o2 o3 o4)"
proof -
  have "keeps workers_ok (reconcile_scope u so k aid)" for u so k aid
    unfolding keeps_def
  proof (intro allI impI)
    fix s x s' assume ok: "workers_ok s" and m: "reconcile_scope u so k aid s = Inr (x, s')"
    let ?P = "abandoned s u so k aid"
    let ?Q = "\<lambda>w. wr_id w = k \<and> wr_owner w = u \<and> wr_phase w = Ph_running"
    let ?t = "timeline s (ticks s)"
    let ?f = "\<lambda>a. a\<lparr>wa_status := Wa_finished, wa_finished := Some ?t, wa_outcome := Some Wo_lost,
      wa_error := Some (stop_reason_text Sr_restart)\<rparr>"
    let ?g = "\<lambda>w. w\<lparr>wr_phase := Ph_idle, wr_outcome := Some Wo_lost, wr_stop_reason := Some Sr_restart,
      wr_last_error := Some ''controller restarted before worker completed'', wr_updated := ?t\<rparr>"
    let ?R = "\<lambda>b. bn_worker b = k \<and> bn_worker_attempt b = aid \<and> bn_service_owner b = so \<and> open_binding b"
    let ?h = "\<lambda>b. b\<lparr>bn_status := Bn_lost, bn_updated := ?t\<rparr>"
    have e: "worker_attempts s' = update_rows ?P ?f (worker_attempts s)
       \<and> (if row_count ?P (worker_attempts s) = 1
          then workers s' = update_rows ?Q ?g (workers s) \<and> bindings s' = update_rows ?R ?h (bindings s)
          else workers s' = workers s \<and> bindings s' = bindings s)"
      using m unfolding reconcile_scope_def
      by (auto simp: bindS_Inr_iff update_worker_attempts_def update_workers_def update_bindings_def utc_now_def
          abandoned_ticks dest!: worker_event_same split: if_splits)
    note at = workers_ok_attempts [OF ok]
    have P: "wa_worker a = k \<and> wa_id a = aid \<and> wa_status a = Wa_running" if "?P a" for a
      using that by (auto simp: abandoned_def owned_attempt_def)
    show "workers_ok s'"
    proof (cases "row_count ?P (worker_attempts s) = 1")
      case True
      then obtain a where a: "a \<in> set (worker_attempts s)" "?P a"
        using row_count_pos [of ?P "worker_attempts s"] by auto
      have only: "?P b" if "b \<in> set (worker_attempts s)" "wa_worker b = k" "wa_status b = Wa_running" for b
        using at(2) [of b a] that a P [of a] by simp
      have Q: "?Q w" if "w \<in> set (workers s)" "wr_id w = k" "wr_phase w = Ph_running" for w
      proof -
        from a(2) obtain v where "v \<in> set (workers s)" "wr_id v = wa_worker a" "wr_owner v = u"
          by (auto simp: abandoned_def)
        moreover have "distinct (map wr_id (workers s))" using ok by (simp add: workers_ok_def forest_def)
        ultimately have "v = w" using that(1,2) P [OF a(2)] distinct_key_unique [of wr_id "workers s" v w] by simp
        with that \<open>wr_owner v = u\<close> show ?thesis by simp
      qed
      let ?s = "s'\<lparr>bindings := bindings s\<rparr>"
      have "workers_ok ?s"
        by (rule ok_stop [OF ok, of ?s ?P ?f ?Q ?g k]) (use e True P only Q in \<open>auto simp: same_attempt_def same_worker_def\<close>)
      moreover have "map bn_worker (bindings s') = map bn_worker (bindings s)"
        using e True by (simp add: update_rows_ids)
      ultimately show ?thesis using ok by (simp add: workers_ok_def)
    next
      case False
      have "\<not> ?P a" if "a \<in> set (worker_attempts s)" for a
      proof
        assume "?P a"
        have "filter ?P (worker_attempts s) = filter (\<lambda>b. wa_id b = wa_id a) (worker_attempts s)"
          using P P [OF \<open>?P a\<close>] that \<open>?P a\<close> distinct_key_unique [OF at(1)] by (intro filter_cong) auto
        with filter_distinct_key [OF at(1) that] False show False by (simp add: row_count_def)
      qed
      then have "update_rows ?P ?f (worker_attempts s) = worker_attempts s"
        by (simp add: update_rows_def map_idI)
      with e False ok show ?thesis by (simp add: workers_ok_def)
    qed
  qed
  then show ?thesis unfolding reconcile_workers_def by (intro ok_rules)
qed

section \<open>Bindings and attempts only move forward\<close>

definition binding_may :: "binding_row \<Rightarrow> binding_row \<Rightarrow> bool" where
  "binding_may a b \<longleftrightarrow> bn_worker b = bn_worker a \<and> bn_worker_attempt b = bn_worker_attempt a
     \<and> bn_run b = bn_run a \<and> bn_task b = bn_task a \<and> bn_task_attempt b = bn_task_attempt a
     \<and> bn_service_owner b = bn_service_owner a \<and> (\<not> open_binding a \<longrightarrow> b = a)"

definition worker_attempt_may :: "worker_attempt_row \<Rightarrow> worker_attempt_row \<Rightarrow> bool" where
  "worker_attempt_may a b \<longleftrightarrow> wa_id b = wa_id a \<and> wa_worker b = wa_worker a \<and> wa_prompt b = wa_prompt a
     \<and> wa_started b = wa_started a \<and> wa_service_owner b = wa_service_owner a
     \<and> (wa_status a = Wa_finished \<longrightarrow> b = a)"

interpretation bindings_ev: row_evolution bindings binding_may
  by unfold_locales (auto simp: binding_may_def)

interpretation worker_attempts_ev: row_evolution worker_attempts worker_attempt_may
  by unfold_locales (auto simp: worker_attempt_may_def)

definition forward :: "ledger \<Rightarrow> ledger \<Rightarrow> bool" where
  "forward s s' \<longleftrightarrow> bindings_ev.evolved s s' \<and> worker_attempts_ev.evolved s s'"

lemma forward_refl: "forward s s"
  by (simp add: forward_def bindings_ev.evolved_refl worker_attempts_ev.evolved_refl)

lemma forward_trans: "forward s s' \<Longrightarrow> forward s' s'' \<Longrightarrow> forward s s''"
  unfolding forward_def by (meson bindings_ev.evolved_trans worker_attempts_ev.evolved_trans)

lemma forward_view:
  assumes "\<And>v. keeps (\<lambda>s. worker_view s = v) m" shows "keeps (forward s0) m"
  unfolding keeps_def
proof (intro allI impI)
  fix s x s' assume "forward s0 s" "m s = Inr (x, s')"
  moreover from this(2) have "worker_view s' = worker_view s" using keepsD [OF assms refl] by blast
  ultimately show "forward s0 s'"
    unfolding forward_def worker_view_def
    using bindings_ev.evolved_same worker_attempts_ev.evolved_same by (metis prod.inject)
qed

lemma forward_update_bindings:
  assumes "\<And>b. P b \<Longrightarrow> binding_may b (f b)" shows "keeps (forward s0) (update_bindings P f)"
  unfolding keeps_def update_bindings_def forward_def
  using assms by (auto intro: bindings_ev.evolved_update worker_attempts_ev.evolved_same)

lemma forward_update_attempts:
  assumes "\<And>a. P a \<Longrightarrow> worker_attempt_may a (f a)" shows "keeps (forward s0) (update_worker_attempts P f)"
  unfolding keeps_def update_worker_attempts_def forward_def
  using assms by (auto intro: worker_attempts_ev.evolved_update bindings_ev.evolved_same)

lemma forward_statements:
  "keeps (forward s0) (insert_binding b)" "keeps (forward s0) (insert_worker_attempt a)"
  "keeps (forward s0) (insert_worker w)" "keeps (forward s0) (update_workers P f)"
  unfolding keeps_def worker_statement_defs forward_def insert_row_def
  by (auto simp: bindE_Inr_iff guardE_Inr_iff split: if_splits
      intro: worker_attempts_ev.evolved_same bindings_ev.evolved_same bindings_ev.evolved_append
        worker_attempts_ev.evolved_append)

lemmas forward_rules = keeps_pure keeps_bind keeps_if keeps_option keeps_let keeps_prod keeps_forS_all
  view_statements [THEN forward_view] forward_statements forward_update_bindings forward_update_attempts
lemmas forward_simps = binding_may_def worker_attempt_may_def open_binding_def abandoned_def

lemma keeps_asked: "(\<And>s. keeps I (f (q s))) \<Longrightarrow> keeps I (bindS (ask q) f)"
  unfolding keeps_def by simp

lemma forward_plain_ops:
  "keeps (forward s0) (create_worker w u role d parent a m q)"
  "keeps (forward s0) (bind_worker w wa run tid aid so tmo)"
  "keeps (forward s0) (start_worker_attempt wa w u prompt svc ids rp rc al)"
  "keeps (forward s0) (register_worker_process w wa so pid pgid)"
  "keeps (forward s0) (clear_worker_process w wa so pid pgid)"
  "keeps (forward s0) (append_worker_input i w u content)"
  "keeps (forward s0) (list_worker_inputs w consume)"
  "keeps (forward s0) (consume_worker_inputs w u ids)"
  unfolding create_worker_def bind_worker_def start_worker_attempt_def register_worker_process_def
    clear_worker_process_def append_worker_input_def list_worker_inputs_def consume_worker_inputs_def
  by (intro forward_rules)+

lemma forward_binding_ops:
  "keeps (forward s0) (settle_worker_binding w st)"
  "keeps (forward s0) (claim_worker_binding_delivery w wa run tid aid)"
  "keeps (forward s0) (recover_worker_binding_delivery w wa stale)"
  "keeps (forward s0) (complete_worker_binding w wa run tid aid oc path err typ ap ep)"
  unfolding settle_worker_binding_def claim_worker_binding_delivery_def
    recover_worker_binding_delivery_def complete_worker_binding_def settle_delivery_def
  by (intro forward_rules; simp add: forward_simps)+

lemma forward_delivery_event: "keeps (forward s0) (delivery_event w aid oc dl)"
  unfolding delivery_event_def by (intro forward_rules)

lemma forward_stopping_ops:
  "keeps (forward s0) (settle_worker w wa oc res ref reason dl)"
  "keeps (forward s0) (cancel_worker_tree w u)"
  unfolding settle_worker_def cancel_worker_tree_def cancel_one_def
  by (intro forward_rules forward_delivery_event; simp add: forward_simps)+

lemma forward_reconcile: "keeps (forward s0) (reconcile_workers o1 o2 o3 o4)"
  unfolding reconcile_workers_def reconcile_scope_def
  by (intro keeps_asked forward_rules; simp add: forward_simps)

end
