(* ===== verification/History.thy ===== *)
theory History imports WorkerSafety begin

text \<open>
  Histories of store calls.  A \<open>store_op\<close> is one call with its arguments, \<open>exec_op\<close> runs it and
  \<open>history\<close> runs a list of them in order, which is what several controllers interleaving their
  transactions do to the database.  The theorems hold for every history from every ledger that
  satisfies the schema.
\<close>

section \<open>Histories\<close>

text \<open>The calls on workers, then the calls on the ledger.\<close>

datatype worker_op =
    Op_worker_create string string string string "string option" string int bool
  | Op_bind string string string string string string "rat option"
  | Op_settle_binding string string
  | Op_claim_delivery string string string string string
  | Op_recover_delivery string string rat
  | Op_deliver string string string string string string "string option" "string option" string
      "(string \<times> json) list" "(string \<times> json) list"
  | Op_worker_start string string string string "string option" "string list" bool bool bool
  | Op_register_process string string string int int
  | Op_clear_process string string string int int
  | Op_worker_input string string string string
  | Op_read_inputs string bool
  | Op_consume_inputs string string "string list"
  | Op_worker_settle string string worker_outcome "string option" "string option" "stop_reason option"
      "string option"
  | Op_worker_cancel string string
  | Op_reconcile "string option" "string option" "string option" "string option"

datatype store_op =
    Op_create_run string string string string "json list option" "route_decision option"
  | Op_create_planned string string string plan_document "policy_decision option" "route_decision option"
  | Op_attach string string plan_document "policy_decision option"
  | Op_decide policy_decision "string option" string
  | Op_revise string string plan_document string "string list" string
  | Op_patch string string string plan_patch
  | Op_set_runner string "int option" "int option"
  | Op_claim_runner string int int
  | Op_clear_runner string "int option" "int option"
  | Op_next string
  | Op_claim string string string bool
  | Op_orchestrate string string string string
  | Op_claim_orchestration string string string
  | Op_await string string string string "string list"
  | Op_answer string string
  | Op_finish string string bool "string option" "string option"
  | Op_retry string string string
  | Op_supersede string string
  | Op_set_attempt string "int option" "int option"
  | Op_clear_attempt string "int option" "int option"
  | Op_recover string
  | Op_settle string
  | Op_cancel string
  | Op_fail_budget string string json json string
  | Op_artifact string string string string string int string
  | Op_discard string string string "string list"
  | Op_event string "string option" string "(string \<times> json) list" "string option"
  | Op_worker worker_op

definition is_revision :: "store_op \<Rightarrow> bool" where
  "is_revision op = (case op of Op_revise _ _ _ _ _ _ \<Rightarrow> True | Op_patch _ _ _ _ \<Rightarrow> True | _ \<Rightarrow> False)"

text \<open>One call on the store, whose outcome the caller may ignore.\<close>

primrec exec_worker_op :: "worker_op \<Rightarrow> ledger \<Rightarrow> ledger" where
  "exec_worker_op (Op_worker_create w u role d parent ty depth req) = after (create_worker w u role d parent ty depth req)"
| "exec_worker_op (Op_bind w wa rid tid aid so tmo) = after (bind_worker w wa rid tid aid so tmo)"
| "exec_worker_op (Op_settle_binding w st) = after (settle_worker_binding w st)"
| "exec_worker_op (Op_claim_delivery w wa rid tid aid) = after (claim_worker_binding_delivery w wa rid tid aid)"
| "exec_worker_op (Op_recover_delivery w wa stale) = after (recover_worker_binding_delivery w wa stale)"
| "exec_worker_op (Op_deliver w wa rid tid aid oc path err typ ap ep) =
     after (complete_worker_binding w wa rid tid aid oc path err typ ap ep)"
| "exec_worker_op (Op_worker_start wa w u prompt svc ids rp rc al) =
     after (start_worker_attempt wa w u prompt svc ids rp rc al)"
| "exec_worker_op (Op_register_process w wa so' p' g') = after (register_worker_process w wa so' p' g')"
| "exec_worker_op (Op_clear_process w wa so' p' g') = after (clear_worker_process w wa so' p' g')"
| "exec_worker_op (Op_worker_input i w u content) = after (append_worker_input i w u content)"
| "exec_worker_op (Op_read_inputs w consume) = after (list_worker_inputs w consume)"
| "exec_worker_op (Op_consume_inputs w u ids) = after (consume_worker_inputs w u ids)"
| "exec_worker_op (Op_worker_settle w wa out res ref why dl) = after (settle_worker w wa out res ref why dl)"
| "exec_worker_op (Op_worker_cancel w u) = after (cancel_worker_tree w u)"
| "exec_worker_op (Op_reconcile o1 o2 o3 o4) = after (reconcile_workers o1 o2 o3 o4)"

primrec exec_op :: "(string \<Rightarrow> json option) \<Rightarrow> store_op \<Rightarrow> ledger \<Rightarrow> ledger" where
  "exec_op loads (Op_create_run rid fresh goal ws ts rt) = after (create_run loads rid fresh goal ws ts rt)"
| "exec_op loads (Op_create_planned rid did ws doc dec rt) = after (create_run_with_plan loads rid did ws doc dec rt)"
| "exec_op loads (Op_attach rid did doc dec) = after (attach_plan_to_run loads rid did doc dec)"
| "exec_op loads (Op_decide d rid did) = after (record_decision d rid did)"
| "exec_op loads (Op_revise rid did doc reason ev action) =
     after (commit_plan_revision loads rid did doc reason ev action)"
| "exec_op loads (Op_patch fresh rid did patch) = after (patch_plan loads fresh rid did patch)"
| "exec_op loads (Op_set_runner rid p g) = after (set_runner_process rid p g)"
| "exec_op loads (Op_claim_runner rid p' g') = after (claim_runner_process rid p' g')"
| "exec_op loads (Op_clear_runner rid p g) = after (clear_runner_process rid p g)"
| "exec_op loads (Op_next rid) = after (next_task rid)"
| "exec_op loads (Op_claim aid tid runtime allow) = after (claim_task aid tid runtime allow)"
| "exec_op loads (Op_orchestrate tid rid title prompt) = after (ensure_orchestration_task tid rid title prompt)"
| "exec_op loads (Op_claim_orchestration aid tid runtime) = after (claim_orchestration_task aid tid runtime)"
| "exec_op loads (Op_await tid aid path q opts) = after (await_input tid aid path q opts)"
| "exec_op loads (Op_answer rid path) = after (answer_input rid path)"
| "exec_op loads (Op_finish tid aid ok path err) = after (finish_task tid aid ok path err)"
| "exec_op loads (Op_retry tid aid err') = after (retry_task tid aid err')"
| "exec_op loads (Op_supersede rid reason) = after (supersede_pending_tasks rid reason)"
| "exec_op loads (Op_set_attempt aid p g) = after (set_attempt_process aid p g)"
| "exec_op loads (Op_clear_attempt aid p g) = after (clear_attempt_process aid p g)"
| "exec_op loads (Op_recover rid) = after (recover_running rid)"
| "exec_op loads (Op_settle rid) = after (settle_run rid)"
| "exec_op loads (Op_cancel rid) = after (cancel_run rid)"
| "exec_op loads (Op_fail_budget rid limit actual maximum reason) = after (fail_budget rid limit actual maximum reason)"
| "exec_op loads (Op_artifact i rid tid path sha n kind) = after (add_artifact i rid tid path sha n kind)"
| "exec_op loads (Op_discard rid tid aid ids) = after (discard_attempt_outputs rid tid aid ids)"
| "exec_op loads (Op_event rid tid typ payload eid) = after (append_event rid tid typ payload eid)"
| "exec_op loads (Op_worker op) = exec_worker_op op"

definition history :: "(string \<Rightarrow> json option) \<Rightarrow> store_op list \<Rightarrow> ledger \<Rightarrow> ledger" where
  "history loads ops s = fold (exec_op loads) ops s"

context task_policy begin

lemma worker_step_evolution: "ledger_ok s \<Longrightarrow> evolution s (exec_worker_op op s)"
  by (cases op) (auto intro!: keeps_after evolution_refl keeps_worker_ops keeps_complete)

lemma step_evolution:
  assumes "\<not> is_revision op" and "ledger_ok s" shows "evolution s (exec_op loads op s)"
  using assms(1)
  by (cases op) (auto intro!: keeps_after evolution_refl assms(2) keeps_process_ops keeps_next_task keeps_claim_task
      keeps_orchestration keeps_input keeps_completion keeps_supersede keeps_settle_run keeps_cancel_run
      keeps_fail_budget keeps_add_artifact keeps_discard keeps_create_run keeps_create_planned keeps_attach
      keeps_recover keeps_insert_decision keeps_append_event
      worker_step_evolution simp: record_decision_def is_revision_def)

lemma history_evolution:
  assumes "\<And>op u. op \<in> set ops \<Longrightarrow> ledger_ok u \<Longrightarrow> evolution u (exec_op loads op u)" and "ledger_ok s"
  shows "evolution s (history loads ops s)"
  using assms
proof (induction ops arbitrary: s)
  case Nil
  then show ?case by (simp add: history_def evolution_refl)
next
  case (Cons op ops)
  then have 1: "evolution s (exec_op loads op s)" by simp
  then have "ledger_ok (exec_op loads op s)" by (simp add: evolution_def)
  with Cons have "evolution (exec_op loads op s) (history loads ops (exec_op loads op s))" by simp
  from evolution_trans [OF 1 this] show ?case by (simp add: history_def)
qed

end

lemma frozen_step: "ledger_ok s \<Longrightarrow> frozen.evolution s (exec_op loads op s)"
proof (cases "is_revision op")
  case True
  assume "ledger_ok s"
  with True show ?thesis
    by (cases op) (auto intro!: keeps_after keeps_revision keeps_patch frozen.evolution_refl simp: is_revision_def)
qed (rule frozen.step_evolution)

lemma frozen_history: "ledger_ok s \<Longrightarrow> frozen.evolution s (history loads ops s)"
  by (rule frozen.history_evolution) (auto intro: frozen_step)

lemma settled_history:
  "ledger_ok s \<Longrightarrow> \<forall>op\<in>set ops. \<not> is_revision op \<Longrightarrow> settled.evolution s (history loads ops s)"
  by (rule settled.history_evolution) (auto intro: settled.step_evolution)

lemmas worker_op_facts = ok_plain_ops ok_create ok_start ok_settle ok_cancel ok_reconcile
lemmas forward_op_facts = forward_plain_ops forward_binding_ops forward_stopping_ops forward_reconcile
lemmas view_op_facts = store_ops_view task_ops_view insert_decision_view view_statements

lemma workers_worker_step: "workers_ok s \<Longrightarrow> workers_ok (exec_worker_op op s)"
  by (cases op) (auto intro!: keeps_after worker_op_facts)

lemma forward_worker_step: "forward s (exec_worker_op op s)"
  by (cases op) (auto intro!: keeps_after forward_refl forward_op_facts)

lemma workers_step: "workers_ok s \<Longrightarrow> workers_ok (exec_op loads op s)"
  by (cases op) (auto intro!: keeps_after workers_worker_step view_op_facts [THEN ok_statements] simp: record_decision_def)

lemma workers_history: "workers_ok s \<Longrightarrow> workers_ok (history loads ops s)"
  unfolding history_def by (rule fold_invariant_on [of workers_ok]) (auto intro: workers_step)

lemma forward_step: "forward s (exec_op loads op s)"
  by (cases op) (auto intro!: keeps_after forward_refl forward_worker_step view_op_facts [THEN forward_view]
      simp: record_decision_def)

lemma forward_history: "forward s (history loads ops s)"
proof (induction ops arbitrary: s)
  case (Cons op ops)
  show ?case
    using forward_trans [OF forward_step Cons.IH] by (simp add: history_def)
qed (simp add: history_def forward_refl)

lemma history_ok: "ledger_ok s \<Longrightarrow> ledger_ok (history loads ops s)"
  using frozen_history by (simp add: frozen.evolution_def)

text \<open>A small history for the witnesses: one run of two tasks, the first one finished.\<close>

definition no_loads :: "string \<Rightarrow> json option" where "no_loads = (\<lambda>_. None)"

definition demo_task :: "string \<Rightarrow> string list \<Rightarrow> json" where
  "demo_task tid deps = JObj [(''id'', JStr tid), (''prompt'', JStr ''p''), (''depends_on'', strs deps)]"

definition demo_ledger :: ledger where
  "demo_ledger = history no_loads
     [Op_create_run ''r'' ''f'' ''g'' ''/w'' (Some [demo_task ''a'' [], demo_task ''b'' [''a'']]) None,
      Op_claim ''x1'' ''a'' ''local'' False, Op_finish ''a'' ''x1'' True None None]
     (empty_ledger (\<lambda>n. n))"

lemma demo_ledger_ok: "ledger_ok demo_ledger"
  unfolding demo_ledger_def by (rule history_ok [OF ledger_ok_empty])

lemma demo_finished: "\<exists>t. t \<in> set (tasks demo_ledger) \<and> tr_id t = ''a'' \<and> tr_state t = Succeeded"
proof -
  have "case get_task ''a'' demo_ledger of None \<Rightarrow> False | Some t \<Rightarrow> tr_state t = Succeeded" by code_simp
  then show ?thesis
    by (auto simp: get_task_def fetch_one_def dest: find_Some_iff_first split: option.splits)
qed



text \<open>C17. A finished task never changes again: whatever calls follow (revisions, retries, recovery,
  cancellation, budget failures, late completions), the row of a succeeded task stays the same.\<close>
theorem finished_task_is_immutable:
  assumes "ledger_ok s" and "t \<in> set (tasks s)" and "tr_state t = Succeeded"
  shows "get_task (tr_id t) (history loads ops s) = Some t"
proof -
  let ?u = "history loads ops s"
  have ev: "frozen.evolution s ?u" by (rule frozen_history [OF assms(1)])
  then have "t \<in> set (tasks ?u)" and "ledger_ok ?u"
    using frozen.tasks_ev.evolved_persists [of s ?u t] assms(2,3)
    by (auto simp: frozen.evolution_def frozen_task_def)
  then show ?thesis by (simp add: get_task_def fetch_one_def ledger_ok_def find_distinct_key)
qed

theorem finished_task_is_immutable_witness:
  "\<exists>t. tr_state t = Succeeded
     \<and> get_task ''a'' (history no_loads [Op_cancel ''r'', Op_retry ''a'' ''x1'' ''e''] demo_ledger) = Some t"
  using demo_finished finished_task_is_immutable [OF demo_ledger_ok] by metis

text \<open>C18. As long as the plan is not revised, every terminal task (succeeded, failed, cancelled or superseded)
  keeps its row whatever calls follow.\<close>
theorem terminal_task_stays_without_revision:
  assumes "ledger_ok s" and "\<forall>op\<in>set ops. \<not> is_revision op" and "t \<in> set (tasks s)" and "terminal (tr_state t)"
  shows "get_task (tr_id t) (history loads ops s) = Some t"
proof -
  let ?u = "history loads ops s"
  have ev: "settled.evolution s ?u" by (rule settled_history [OF assms(1,2)])
  then have "t \<in> set (tasks ?u)" and "ledger_ok ?u"
    using settled.tasks_ev.evolved_persists [of s ?u t] assms(3,4)
    by (auto simp: settled.evolution_def settled_task_def)
  then show ?thesis by (simp add: get_task_def fetch_one_def ledger_ok_def find_distinct_key)
qed

theorem terminal_task_stays_without_revision_witness:
  "\<exists>t. terminal (tr_state t)
     \<and> get_task ''a'' (history no_loads [Op_recover ''r'', Op_claim ''x2'' ''a'' ''local'' True] demo_ledger) = Some t"
proof -
  from demo_finished obtain t where t: "t \<in> set (tasks demo_ledger)" "tr_id t = ''a''" "tr_state t = Succeeded" by blast
  have "\<forall>op\<in>set [Op_recover ''r'', Op_claim ''x2'' ''a'' ''local'' True]. \<not> is_revision op" by (simp add: is_revision_def)
  from terminal_task_stays_without_revision [OF demo_ledger_ok this t(1)] t show ?thesis
    by (auto simp: terminal_def)
qed

text \<open>C19. A cancelled run stays cancelled: no later call gives it another status.\<close>
theorem cancelled_run_stays_cancelled:
  assumes "ledger_ok s" and "get_run k s = Some r" and "rr_status r = Run_cancelled"
  shows "\<exists>r'. get_run k (history loads ops s) = Some r' \<and> rr_status r' = Run_cancelled"
proof -
  let ?u = "history loads ops s"
  have ev: "frozen.evolution s ?u" by (rule frozen_history [OF assms(1)])
  have r: "r \<in> set (runs s)" "rr_id r = k"
    using assms(2) by (auto simp: get_run_def fetch_one_def dest: find_Some_iff_first)
  obtain r' where r': "r' \<in> set (runs ?u)" "run_may r r'"
    using ev runs_ev.evolved_persists [of s ?u r] r by (auto simp: frozen.evolution_def)
  moreover have "ledger_ok ?u" using ev by (simp add: frozen.evolution_def)
  ultimately have "get_run (rr_id r') ?u = Some r'"
    by (simp add: get_run_def fetch_one_def ledger_ok_def find_distinct_key)
  with r' assms(3) r(2) show ?thesis by (auto simp: run_may_def)
qed

theorem cancelled_run_stays_cancelled_witness:
  "\<exists>r. get_run ''r'' (history no_loads [Op_settle ''r'', Op_claim ''x2'' ''b'' ''local'' False]
        (history no_loads [Op_cancel ''r''] demo_ledger)) = Some r \<and> rr_status r = Run_cancelled"
proof -
  let ?s = "history no_loads [Op_cancel ''r''] demo_ledger"
  have "case get_run ''r'' ?s of None \<Rightarrow> False | Some r \<Rightarrow> rr_status r = Run_cancelled" by code_simp
  then obtain r where "get_run ''r'' ?s = Some r" "rr_status r = Run_cancelled" by (auto split: option.splits)
  from cancelled_run_stays_cancelled [OF history_ok [OF demo_ledger_ok] this] show ?thesis .
qed

lemma evolved_eq_prefix:
  fixes tbl :: "ledger \<Rightarrow> 'r list"
  shows "row_evolution.evolved tbl (=) s s' \<Longrightarrow> prefix (tbl s) (tbl s')"
proof -
  have re: "row_evolution ((=) :: 'r \<Rightarrow> 'r \<Rightarrow> bool)" by unfold_locales auto
  assume "row_evolution.evolved tbl (=) s s'"
  then obtain f news where "tbl s' = map f (tbl s) @ news" "\<forall>r\<in>set (tbl s). r = f r"
    using row_evolution.evolved_def [OF re] by blast
  moreover from this(2) have "map f (tbl s) = tbl s" by (simp add: map_idI)
  ultimately show "prefix (tbl s) (tbl s')" by simp
qed

text \<open>C24. The audit trail is append-only: every history only adds rows at the end of the event, plan-revision
  and decision tables; recorded rows are neither changed nor removed.\<close>
theorem audit_trail_is_append_only:
  assumes "ledger_ok s"
  shows "prefix (events s) (events (history loads ops s))
    \<and> prefix (revisions s) (revisions (history loads ops s))
    \<and> prefix (decisions s) (decisions (history loads ops s))"
  using frozen_history [OF assms, of loads ops] unfolding frozen.evolution_def
  by (simp add: evolved_eq_prefix)

theorem audit_trail_is_append_only_witness:
  "prefix (events demo_ledger) (events (history no_loads [Op_cancel ''r''] demo_ledger))"
  using audit_trail_is_append_only [OF demo_ledger_ok] by blast

end
