(* ===== verification/Delivery.thy ===== *)
theory Delivery imports History begin

text \<open>
  What delegation promises: the worker tables stay consistent, cancelling a worker stops its whole
  subtree, a finished attempt is final, and a worker's result reaches its task at most once and all
  at once.
\<close>

section \<open>A delegated task for the witnesses\<close>

definition worker_ledger :: ledger where
  "worker_ledger = history no_loads
     [Op_next ''r'', Op_claim ''x2'' ''b'' ''local'' False,
      Op_worker (Op_worker_create ''w1'' ''r'' ''role'' ''d'' None ''runtime'' 2 False),
      Op_worker (Op_worker_start ''y1'' ''w1'' ''r'' ''p'' (Some ''svc'') [] False False True),
      Op_worker (Op_worker_create ''w2'' ''r'' ''role'' ''d'' (Some ''w1'') ''runtime'' 2 True),
      Op_worker (Op_bind ''w1'' ''y1'' ''r'' ''b'' ''x2'' ''svc'' None),
      Op_worker (Op_worker_start ''y2'' ''w2'' ''r'' ''p'' None [] True True True)] demo_ledger"

definition finished_worker_ledger :: ledger where
  "finished_worker_ledger =
     history no_loads [Op_worker (Op_worker_settle ''w1'' ''y1'' Wo_success (Some ''out'') None None None)]
       worker_ledger"

lemma workers_ok_empty: "workers_ok (empty_ledger clock)"
  by (simp add: workers_ok_def empty_ledger_def forest_def attempts_match_def)

lemma demo_workers_ok: "workers_ok demo_ledger"
  unfolding demo_ledger_def by (rule workers_history [OF workers_ok_empty])

lemma worker_ledger_ok: "workers_ok worker_ledger" "workers_ok finished_worker_ledger"
  unfolding worker_ledger_def finished_worker_ledger_def
  by (intro workers_history demo_workers_ok)+

section \<open>The worker tables\<close>

text \<open>C4. Every history of calls keeps the worker tables consistent: workers form a forest of depth at most 32
  whose edges stay within one owner, a worker is running exactly when one of its attempts is, and it never
  has two running attempts.\<close>
theorem worker_invariant_is_kept: "workers_ok s \<Longrightarrow> workers_ok (history loads ops s)"
  by (rule workers_history)

theorem worker_invariant_is_kept_witness:
  "workers_ok (history no_loads [Op_worker (Op_worker_cancel ''w1'' ''r'')] worker_ledger)"
  by (rule worker_invariant_is_kept [OF worker_ledger_ok(1)])

section \<open>Cancelling a subtree\<close>

lemma worker_event_total: "has_worker s w \<Longrightarrow> \<exists>s'. worker_event w typ payload identity s = Inr ((), s')"
  by (simp add: worker_event_def Let_def)

lemma cancel_one_total:
  assumes "k \<in> wr_id ` set (workers s)" shows "\<exists>s'. cancel_one t (k, r) s = Inr ((), s')"
proof -
  let ?u = "s\<lparr>worker_attempts := update_rows P f (worker_attempts s), workers := update_rows Q g (workers s)\<rparr>"
  have "has_worker (s\<lparr>worker_attempts := ats, workers := update_rows Q g (workers s)\<rparr>) k"
    if "\<And>w. Q w \<Longrightarrow> wr_id (g w) = wr_id w" for ats Q g
    using assms update_rows_image [of Q wr_id g "workers s"] that by (simp add: has_worker_def)
  then show ?thesis
    unfolding cancel_one_def
    by (auto simp: bindS_def update_worker_attempts_def update_workers_def split: sum.split intro!: worker_event_total)
qed

lemma cancel_all_total:
  assumes "\<forall>(k, r)\<in>set krs. k \<in> wr_id ` set (workers s)"
  shows "\<exists>s'. forS (cancel_one t) krs s = Inr ((), s') \<and> (\<forall>k\<in>fst ` set krs. stopped k s')
     \<and> (\<forall>j. stopped j s \<longrightarrow> stopped j s')"
  using assms
proof (induction krs arbitrary: s)
  case Nil
  then show ?case by simp
next
  case (Cons kr krs)
  obtain k r where kr: "kr = (k, r)" by (cases kr)
  from Cons.prems kr obtain u where u: "cancel_one t (k, r) s = Inr ((), u)"
    using cancel_one_total [of k s t r] by auto
  note st = cancel_one_stops [OF u]
  have "\<forall>(k, r)\<in>set krs. k \<in> wr_id ` set (workers u)" using Cons.prems st(3) by auto
  from Cons.IH [OF this] obtain s' where s': "forS (cancel_one t) krs u = Inr ((), s')"
    "\<forall>k\<in>fst ` set krs. stopped k s'" "\<forall>j. stopped j u \<longrightarrow> stopped j s'" by blast
  then have "forS (cancel_one t) (kr # krs) s = Inr ((), s')" using u kr by simp
  with s' st kr show ?case by auto
qed

lemma cancel_reasons_fst: "fst ` set (cancel_reasons ids) = set ids"
proof -
  have "map fst (cancel_reasons ids) = ids" by (simp add: cancel_reasons_def comp_def case_prod_unfold)
  then show ?thesis by (metis list.set_map)
qed

lemma descendants_ids: "anc \<in> wr_id ` set ws \<Longrightarrow> descendants ws u anc \<subseteq> wr_id ` set ws"
  unfolding descendants_def by (auto elim!: rtrancl.cases dest!: child_ids)


section \<open>Delivering a result\<close>

lemma bindS_updates:
  "bindS (update_tasks P1 f1) h s = h (row_count P1 (tasks s)) (s\<lparr>tasks := update_rows P1 f1 (tasks s)\<rparr>)"
  "bindS (update_attempts P2 f2) h s = h (row_count P2 (attempts s)) (s\<lparr>attempts := update_rows P2 f2 (attempts s)\<rparr>)"
  "bindS (update_bindings P3 f3) h s = h (row_count P3 (bindings s)) (s\<lparr>bindings := update_rows P3 f3 (bindings s)\<rparr>)"
  by (simp_all add: update_tasks_def update_attempts_def update_bindings_def bindS_def)

lemma bindS_guard: "\<not> c \<Longrightarrow> bindS (lift (guardE c e)) h s = h () s"
  by simp

lemma find_update:
  "(\<And>r. P r \<Longrightarrow> key (f r) = key r) \<Longrightarrow>
     find (\<lambda>x. key x = k) (update_rows P f t) = map_option (\<lambda>r. if P r then f r else r) (find (\<lambda>x. key x = k) t)"
  by (rule keyed_table.update_lookup [OF keyed_table_rows, unfolded keyed_table.lookup_def [OF keyed_table_rows]])

lemma row_count_key:
  assumes "distinct (map key t)" "find (\<lambda>x. key x = k) t = Some r" "Q r"
  shows "row_count (\<lambda>x. key x = k \<and> Q x) t = 1"
proof -
  have r: "r \<in> set t" "key r = k" using assms(2) by (auto dest: find_Some_iff_first)
  have "filter (\<lambda>x. key x = k \<and> Q x) t = filter Q (filter (\<lambda>x. key x = key r) t)"
    using r(2) by (simp add: conj_commute)
  then show ?thesis using filter_distinct_key [OF assms(1) r(1)] assms(3) by (simp add: row_count_def)
qed

lemma event_total:
  assumes "has_run s run" "case task of None \<Rightarrow> True | Some t \<Rightarrow> has_task s t"
  shows "\<exists>n es. event run task typ payload s = Inr ((), s\<lparr>ticks := n, events := es\<rparr>)"
proof -
  have "\<exists>b n es. append_event run task typ payload None s = Inr (b, s\<lparr>ticks := n, events := es\<rparr>)"
  proof (cases "Fresh_event (ticks s) \<in> set (map ev_id (events s))")
    case True
    then have "append_event run task typ payload None s = Inr (False, s\<lparr>ticks := Suc (ticks s), events := events s\<rparr>)"
      by (simp add: append_event_def Let_def)
    then show ?thesis by blast
  next
    case False
    with assms show ?thesis by (auto simp: append_event_def Let_def split: option.splits)
  qed
  then obtain b n es where "append_event run task typ payload None s = Inr (b, s\<lparr>ticks := n, events := es\<rparr>)" by blast
  then have "event run task typ payload s = Inr ((), s\<lparr>ticks := n, events := es\<rparr>)" by (simp add: event_def)
  then show ?thesis by blast
qed

lemma get_run_has: "get_run k s = Some r \<Longrightarrow> has_run s k"
  by (force simp: has_run_def get_run_def fetch_one_def dest: find_Some_iff_first)

lemma get_task_has: "get_task k s = Some t \<Longrightarrow> has_task s k"
  by (force simp: has_task_def get_task_def fetch_one_def dest: find_Some_iff_first)

text \<open>The six rows a deliverable result refers to.\<close>

lemma deliverableE:
  assumes "deliverable k wa rid tid aid s"
  obtains b t a v w r where "get_worker_binding k s = Some b" "get_task tid s = Some t" "get_attempt aid s = Some a"
    "worker_attempt wa s = Some v" "get_worker k s = Some w" "get_run rid s = Some r"
    "open_binding b" "tr_run t = rid" "tr_state t = Running" "ar_task a = tid" "ar_status a = At_running"
    "rr_status r \<notin> {Run_succeeded, Run_failed, Run_cancelled}" "bn_task_attempt b = aid"
  using assms unfolding deliverable_def by (auto split: option.splits)

lemma deliverable_ticks: "deliverable k wa rid tid aid (s\<lparr>ticks := n\<rparr>) = deliverable k wa rid tid aid s"
  by (simp add: deliverable_def get_worker_binding_def get_task_def get_attempt_def worker_attempt_def
      get_worker_def get_run_def)

definition delivered ::
  "string \<Rightarrow> string \<Rightarrow> string \<Rightarrow> string \<Rightarrow> string \<Rightarrow> string option \<Rightarrow> string option \<Rightarrow> ledger \<Rightarrow> bool" where
  "delivered k rid tid aid outcome path err s \<longleftrightarrow>
     (\<exists>ts st ty. completion_of outcome = Some (ts, st, ty)
        \<and> (\<exists>t. get_task tid s = Some t \<and> tr_state t = ts \<and> tr_result_path t = path \<and> tr_last_error t = err)
        \<and> (\<exists>a. get_attempt aid s = Some a \<and> ar_status a = st \<and> ar_error a = err)
        \<and> (\<exists>b. get_worker_binding k s = Some b \<and> bn_status b = Bn_settled)
        \<and> (\<exists>r. get_run rid s = Some r
             \<and> rr_status r = derived_status (filter (\<lambda>t. tr_run t = rid) (tasks s))))"

text \<open>The tables after a delivery, before the events.\<close>

definition write_delivery ::
  "string \<Rightarrow> string \<Rightarrow> string \<Rightarrow> task_status \<Rightarrow> attempt_status \<Rightarrow> string option \<Rightarrow> string option \<Rightarrow> nat \<Rightarrow> ledger \<Rightarrow> ledger" where
  "write_delivery k tid aid ts st path err now s = s\<lparr>
     tasks := update_rows (\<lambda>t. tr_id t = tid \<and> tr_state t = Running)
       (\<lambda>t. t\<lparr>tr_state := ts, tr_result_path := path, tr_last_error := err, tr_updated := now\<rparr>) (tasks s),
     attempts := update_rows (\<lambda>a. ar_id a = aid \<and> ar_task a = tid \<and> ar_status a = At_running)
       (\<lambda>a. a\<lparr>ar_status := st, ar_finished := Some now, ar_heartbeat := Some now, ar_error := err\<rparr>) (attempts s),
     bindings := update_rows (\<lambda>b. bn_worker b = k \<and> open_binding b)
       (\<lambda>b. b\<lparr>bn_status := Bn_settled, bn_updated := now\<rparr>) (bindings s)\<rparr>"

lemma settle_delivery_total:
  assumes "get_run rid s = Some r" "rr_status r \<noteq> Run_cancelled"
  shows "\<exists>s'. settle_delivery rid now s = Inr ((), s') \<and> tasks s' = tasks s \<and> attempts s' = attempts s
    \<and> bindings s' = bindings s
    \<and> (\<exists>r'. get_run rid s' = Some r' \<and> rr_status r' = derived_status (filter (\<lambda>t. tr_run t = rid) (tasks s)))"
proof -
  let ?st = "derived_status (filter (\<lambda>t. tr_run t = rid) (tasks s))"
  let ?P = "\<lambda>r. rr_id r = rid \<and> rr_status r \<noteq> Run_cancelled"
  let ?u = "s\<lparr>runs := update_rows ?P (\<lambda>r. r\<lparr>rr_status := ?st, rr_updated := now\<rparr>) (runs s)\<rparr>"
  have id: "rr_id r = rid" using assms(1) by (auto simp: get_run_def fetch_one_def dest: find_Some_iff_first)
  have run: "get_run rid ?u = Some (r\<lparr>rr_status := ?st, rr_updated := now\<rparr>)"
    using assms id find_update [of ?P rr_id "\<lambda>r. r\<lparr>rr_status := ?st, rr_updated := now\<rparr>" rid "runs s"]
    by (simp add: get_run_def fetch_one_def)
  from event_total [OF get_run_has [OF run], of None "''run_'' @ run_status_text ?st" "[]"] obtain n es where
    "event rid None (''run_'' @ run_status_text ?st) [] ?u = Inr ((), ?u\<lparr>ticks := n, events := es\<rparr>)" by auto
  then show ?thesis
    using run by (auto simp: settle_delivery_def Let_def bindS_def update_runs_def get_run_def fetch_one_def)
qed

lemma complete_delivers:
  assumes ok: "ledger_ok s" "workers_ok s" and d: "deliverable k wa rid tid aid s"
    and oc: "completion_of outcome = Some (ts, st, ty)" and ety: "typ \<in> {''agent_finished'', ''agent_failed''}"
    and ids: "[] \<notin> {k, wa, rid, tid, aid}"
  shows "\<exists>s'. complete_worker_binding k wa rid tid aid outcome path err typ ap ep s = Inr (True, s')
     \<and> delivered k rid tid aid outcome path err s'"
proof -
  let ?t = "timeline s (ticks s)"
  let ?P1 = "\<lambda>t. tr_id t = tid \<and> tr_state t = Running"
  let ?P2 = "\<lambda>a. ar_id a = aid \<and> ar_task a = tid \<and> ar_status a = At_running"
  let ?P3 = "\<lambda>b. bn_worker b = k \<and> open_binding b"
  let ?s = "s\<lparr>ticks := Suc (ticks s)\<rparr>"
  let ?w = "write_delivery k tid aid ts st path err ?t ?s"
  from d obtain b t a v w r where rows: "get_worker_binding k s = Some b" "get_task tid s = Some t"
      "get_attempt aid s = Some a" "get_run rid s = Some r"
    and st: "open_binding b" "tr_run t = rid" "tr_state t = Running" "ar_task a = tid" "ar_status a = At_running"
      "rr_status r \<notin> {Run_succeeded, Run_failed, Run_cancelled}" by (rule deliverableE)
  have n: "row_count ?P1 (tasks s) = 1" "row_count ?P2 (attempts s) = 1" "row_count ?P3 (bindings s) = 1"
    using ok rows st row_count_key [of tr_id "tasks s" tid t "\<lambda>t. tr_state t = Running"]
      row_count_key [of ar_id "attempts s" aid a "\<lambda>a. ar_task a = tid \<and> ar_status a = At_running"]
      row_count_key [of bn_worker "bindings s" k b open_binding]
    by (simp_all add: ledger_ok_def workers_ok_def get_task_def get_attempt_def get_worker_binding_def fetch_one_def)
  have task: "get_task tid ?w = Some (t\<lparr>tr_state := ts, tr_result_path := path, tr_last_error := err, tr_updated := ?t\<rparr>)"
    using rows(2) st(3) find_Some_iff_first [of "\<lambda>x. tr_id x = tid" "tasks s" t]
    by (simp add: get_task_def fetch_one_def write_delivery_def find_update)
  have att: "get_attempt aid ?w = Some (a\<lparr>ar_status := st, ar_finished := Some ?t, ar_heartbeat := Some ?t, ar_error := err\<rparr>)"
    using rows(3) st(4,5) find_Some_iff_first [of "\<lambda>x. ar_id x = aid" "attempts s" a]
    by (simp add: get_attempt_def fetch_one_def write_delivery_def find_update)
  have bind: "get_worker_binding k ?w = Some (b\<lparr>bn_status := Bn_settled, bn_updated := ?t\<rparr>)"
    using rows(1) st(1) find_Some_iff_first [of "\<lambda>x. bn_worker x = k" "bindings s" b]
    by (simp add: get_worker_binding_def fetch_one_def write_delivery_def find_update)
  have run: "get_run rid ?w = Some r" using rows(4) by (simp add: get_run_def write_delivery_def)
  have tables: "has_run (?w\<lparr>ticks := i, events := es\<rparr>) rid" "has_task (?w\<lparr>ticks := i, events := es\<rparr>) tid"
    "get_run rid (?w\<lparr>ticks := i, events := es\<rparr>) = Some r" for i es
    using get_run_has [OF run] get_task_has [OF task] run by (simp_all add: has_run_def has_task_def get_run_def)
  have ev: "\<exists>n es. event rid (Some tid) y pl (?w\<lparr>ticks := i, events := es0\<rparr>) = Inr ((), ?w\<lparr>ticks := n, events := es\<rparr>)"
    for y pl i es0 using event_total [OF tables(1) [of es0 i], of "Some tid" y pl] tables(2) [of es0 i] by simp
  have w0: "?w = ?w\<lparr>ticks := ticks ?w, events := events ?w\<rparr>" by simp
  from ev obtain n1 e1 where e1: "event rid (Some tid) typ ap ?w = Inr ((), ?w\<lparr>ticks := n1, events := e1\<rparr>)"
    by (metis w0)
  from ev obtain n2 e2 where e2: "event rid (Some tid) ''task_evaluated'' ep (?w\<lparr>ticks := n1, events := e1\<rparr>)
    = Inr ((), ?w\<lparr>ticks := n2, events := e2\<rparr>)" by blast
  let ?pl = "if outcome = ''retry''
    then [(''attempt_id'', JStr aid), (''error'', opt_str err)]
    else [(''attempt_id'', JStr aid), (''result_path'', opt_str path), (''error'', opt_str err)]"
  from ev obtain n3 e3 where e3: "event rid (Some tid) ty ?pl (?w\<lparr>ticks := n2, events := e2\<rparr>)
    = Inr ((), ?w\<lparr>ticks := n3, events := e3\<rparr>)" by blast
  let ?z = "?w\<lparr>ticks := n3, events := e3\<rparr>"
  from settle_delivery_total [OF tables(3) [of e3 n3], of ?t] st(6) obtain s' r' where
    s': "settle_delivery rid ?t ?z = Inr ((), s')" "tasks s' = tasks ?w" "attempts s' = attempts ?w"
      "bindings s' = bindings ?w" "get_run rid s' = Some r'"
      "rr_status r' = derived_status (filter (\<lambda>t. tr_run t = rid) (tasks ?w))" by auto
  have "complete_worker_binding k wa rid tid aid outcome path err typ ap ep s = Inr (True, s')"
    using oc ety ids d n e1 e2 e3 s'(1)
    unfolding complete_worker_binding_def write_delivery_def
    by (simp add: deliverable_ticks bindS_updates bindS_guard)
  moreover have "delivered k rid tid aid outcome path err s'"
    using oc task att bind s'(2-6)
    by (simp add: delivered_def get_task_def get_attempt_def get_worker_binding_def)
  ultimately show ?thesis by blast
qed

text \<open>C2. Delivery is atomic and total: a well-formed call delivers exactly when the binding, the task, both
  attempts, the worker and the run still belong together; then the task, its attempt, the binding and the run
  status are all committed, and otherwise nothing but the clock changes.\<close>
theorem delivery_is_atomic:
  assumes "ledger_ok s" and "workers_ok s" and "completion_of outcome \<noteq> None"
    and "typ \<in> {''agent_finished'', ''agent_failed''}" and "[] \<notin> {k, wa, rid, tid, aid}"
  shows "if deliverable k wa rid tid aid s
    then \<exists>s'. complete_worker_binding k wa rid tid aid outcome path err typ ap ep s = Inr (True, s')
           \<and> delivered k rid tid aid outcome path err s'
    else complete_worker_binding k wa rid tid aid outcome path err typ ap ep s
           = Inr (False, s\<lparr>ticks := Suc (ticks s)\<rparr>)"
proof -
  obtain ts st ty where oc: "completion_of outcome = Some (ts, st, ty)"
    using assms(3) by (metis option.exhaust prod.exhaust)
  show ?thesis
  proof (cases "deliverable k wa rid tid aid s")
    case True
    with complete_delivers [OF assms(1,2) True oc assms(4,5)] show ?thesis by auto
  next
    case False
    then have "complete_worker_binding k wa rid tid aid outcome path err typ ap ep s = Inr (False, s\<lparr>ticks := Suc (ticks s)\<rparr>)"
      using oc assms(4,5) by (simp add: complete_worker_binding_def deliverable_ticks)
    with False show ?thesis by simp
  qed
qed

section \<open>Delivery happens at most once, settlement is final\<close>

lemma closed_binding_stays:
  assumes "workers_ok s" "get_worker_binding k s = Some b" "\<not> open_binding b"
  shows "get_worker_binding k (history loads ops s) = Some b"
proof -
  let ?u = "history loads ops s"
  have b: "b \<in> set (bindings s)" "bn_worker b = k"
    using assms(2) by (auto simp: get_worker_binding_def fetch_one_def dest: find_Some_iff_first)
  obtain b' where b': "b' \<in> set (bindings ?u)" "binding_may b b'"
    using forward_history [of s loads ops] bindings_ev.evolved_persists [of s ?u b] b(1)
    by (auto simp: forward_def)
  then have "b' = b" using assms(3) by (simp add: binding_may_def)
  moreover have "distinct (map bn_worker (bindings ?u))"
    using workers_history [OF assms(1), of loads ops] by (simp add: workers_ok_def)
  ultimately show ?thesis
    using b' b(2) find_distinct_key [of bn_worker "bindings ?u" b] by (simp add: get_worker_binding_def fetch_one_def)
qed

lemma delivered_closed: "delivered k rid tid aid outcome path err s \<Longrightarrow> \<exists>b. get_worker_binding k s = Some b \<and> \<not> open_binding b"
  by (auto simp: delivered_def open_binding_def)

lemma complete_True:
  assumes "complete_worker_binding k wa rid tid aid outcome path err typ ap ep s = Inr (True, s')"
  shows "deliverable k wa rid tid aid s" "completion_of outcome \<noteq> None"
    "typ \<in> {''agent_finished'', ''agent_failed''}" "[] \<notin> {k, wa, rid, tid, aid}"
  using assms unfolding complete_worker_binding_def
  by (auto simp: bindS_Inr_iff lift_Inr_iff guardE_Inr_iff deliverable_ticks utc_now_def split: option.splits if_splits)

text \<open>C1. A worker delivers at most once: after one successful delivery no call, with whatever identities and
  outcome and after whatever other operations, delivers a result of the same worker again.\<close>
theorem delivered_at_most_once:
  assumes "ledger_ok s" and "workers_ok s"
    and first: "complete_worker_binding k wa rid tid aid outcome path err typ ap ep s = Inr (True, s')"
  shows "complete_worker_binding k wa' rid' tid' aid' outcome' path' err' typ' ap' ep' (history loads ops s')
    \<noteq> Inr (True, u)"
proof
  assume second: "complete_worker_binding k wa' rid' tid' aid' outcome' path' err' typ' ap' ep'
    (history loads ops s') = Inr (True, u)"
  obtain ts st ty where oc: "completion_of outcome = Some (ts, st, ty)"
    using complete_True(2) [OF first] by (metis option.exhaust prod.exhaust)
  from complete_delivers [OF assms(1,2) complete_True(1) [OF first] oc complete_True(3,4) [OF first], of path err ap ep] first
  have "delivered k rid tid aid outcome path err s'" by auto
  then obtain b where b: "get_worker_binding k s' = Some b" "\<not> open_binding b" using delivered_closed by blast
  have "workers_ok s'" using keepsD [OF ok_plain_ops(10) assms(2) first] .
  from closed_binding_stays [OF this b] have "get_worker_binding k (history loads ops s') = Some b" .
  moreover have "deliverable k wa' rid' tid' aid' (history loads ops s')" by (rule complete_True(1) [OF second])
  ultimately show False using b(2) by (auto elim!: deliverableE)
qed

text \<open>C5. A finished worker attempt is final: late settlements, cancellations and recoveries leave its outcome,
  result and error as they are.\<close>
theorem finished_attempt_is_final:
  assumes "workers_ok s" and "a \<in> set (worker_attempts s)" and "wa_status a = Wa_finished"
  shows "worker_attempt (wa_id a) (history loads ops s) = Some a"
proof -
  let ?u = "history loads ops s"
  obtain a' where a': "a' \<in> set (worker_attempts ?u)" "worker_attempt_may a a'"
    using forward_history [of s loads ops] worker_attempts_ev.evolved_persists [of s ?u a] assms(2)
    by (auto simp: forward_def)
  then have "a' = a" using assms(3) by (simp add: worker_attempt_may_def)
  moreover have "distinct (map wa_id (worker_attempts ?u))"
    using workers_history [OF assms(1), of loads ops] by (rule workers_ok_attempts)
  ultimately show ?thesis
    using a' find_distinct_key [of wa_id "worker_attempts ?u" a] by (simp add: worker_attempt_def fetch_one_def)
qed

section \<open>Witnesses\<close>

lemma worker_ledgers_ok: "ledger_ok worker_ledger" "ledger_ok finished_worker_ledger"
  unfolding worker_ledger_def finished_worker_ledger_def by (intro history_ok demo_ledger_ok)+

definition demo_delivery :: "ledger \<Rightarrow> py_error + bool \<times> ledger" where
  "demo_delivery = complete_worker_binding ''w1'' ''y1'' ''r'' ''b'' ''x2'' ''succeeded'' (Some ''p'') None
     ''agent_finished'' [] []"

lemma demo_delivery_True: "\<exists>s'. demo_delivery finished_worker_ledger = Inr (True, s')"
proof -
  have "case demo_delivery finished_worker_ledger of Inl _ \<Rightarrow> False | Inr (b, _) \<Rightarrow> b" by code_simp
  then show ?thesis by (auto split: sum.splits prod.splits)
qed


theorem delivery_is_atomic_witness:
  "\<exists>s'. demo_delivery finished_worker_ledger = Inr (True, s')
     \<and> delivered ''w1'' ''r'' ''b'' ''x2'' ''succeeded'' (Some ''p'') None s'"
proof -
  have d: "deliverable ''w1'' ''y1'' ''r'' ''b'' ''x2'' finished_worker_ledger" by code_simp
  have "completion_of ''succeeded'' \<noteq> None" by (simp add: completion_of_def)
  from delivery_is_atomic [OF worker_ledgers_ok(2) worker_ledger_ok(2) this, of "''agent_finished''" "''w1''" "''y1''"
      "''r''" "''b''" "''x2''" "Some ''p''" None "[]" "[]"] d
  show ?thesis by (simp add: demo_delivery_def)
qed

theorem delivered_at_most_once_witness:
  "\<exists>s'. demo_delivery finished_worker_ledger = Inr (True, s')
     \<and> (\<forall>u. demo_delivery (history no_loads [Op_retry ''b'' ''x2'' ''e''] s') \<noteq> Inr (True, u))"
proof -
  obtain s' where s': "demo_delivery finished_worker_ledger = Inr (True, s')" using demo_delivery_True by blast
  from delivered_at_most_once [OF worker_ledgers_ok(2) worker_ledger_ok(2) s' [unfolded demo_delivery_def]] s'
  show ?thesis by (auto simp: demo_delivery_def)
qed

theorem finished_attempt_is_final_witness:
  "\<exists>a. wa_status a = Wa_finished
     \<and> worker_attempt ''y1'' (history no_loads [Op_worker (Op_worker_cancel ''w1'' ''r'')]
          finished_worker_ledger) = Some a"
proof -
  have "case worker_attempt ''y1'' finished_worker_ledger of None \<Rightarrow> False | Some a \<Rightarrow> wa_status a = Wa_finished"
    by code_simp
  then obtain a where a: "worker_attempt ''y1'' finished_worker_ledger = Some a" "wa_status a = Wa_finished"
    by (auto split: option.splits)
  note i = worker_attempt_in [OF a(1)]
  from finished_attempt_is_final [OF worker_ledger_ok(2) i [THEN conjunct1] a(2)] a(2) i show ?thesis by metis
qed

end
