(* ===== verification/Progress.thy ===== *)
theory Progress imports History begin

text \<open>
  What the scheduling operations achieve: \<open>next_task\<close> always returns, hands out the oldest runnable
  task, promotes only tasks whose dependencies succeeded, and never leaves a healthy run without
  runnable work; a claimed task cannot be claimed again by a competing controller.
\<close>

section \<open>Operations that always commit\<close>

text \<open>From a ledger with \<open>I\<close> the operation returns, and \<open>I\<close> still holds.\<close>

definition commits :: "(ledger \<Rightarrow> bool) \<Rightarrow> 'a store \<Rightarrow> bool" where
  "commits I m \<longleftrightarrow> (\<forall>s. I s \<longrightarrow> (\<exists>x s'. m s = Inr (x, s') \<and> I s'))"

named_theorems commits_rules \<open>operations that never raise\<close>

lemma commits_pure [commits_rules]: "commits I (ret x)" "commits I (ask q)"
  by (auto simp: commits_def ret_def ask_def)

lemma commits_bind [commits_rules]: "commits I m \<Longrightarrow> (\<And>x. commits I (f x)) \<Longrightarrow> commits I (bindS m f)"
  unfolding commits_def bindS_Inr_iff by meson

lemma commits_if [commits_rules]: "commits I a \<Longrightarrow> commits I b \<Longrightarrow> commits I (if c then a else b)"
  by simp

lemma commits_forS: "(\<And>x. x \<in> set xs \<Longrightarrow> commits I (f x)) \<Longrightarrow> commits I (forS f xs)"
  by (induction xs) (auto intro: commits_rules)

definition known :: "string \<Rightarrow> string set \<Rightarrow> ledger \<Rightarrow> bool" where
  "known k ids s \<longleftrightarrow> has_run s k \<and> ids \<subseteq> tr_id ` set (tasks s)"

lemma commits_event: "t \<in> ids \<Longrightarrow> commits (known k ids) (event k (Some t) typ payload)"
  by (auto simp: commits_def event_def bindS_def append_event_def Let_def known_def has_task_def has_run_def ret_def)

lemma commits_set_state:
  assumes "\<And>now t. tr_id (f now t) = tr_id t" shows "commits (known k ids) (set_state_if tid froms f)"
proof -
  have "tr_id ` set (update_rows P (f now) ts) = tr_id ` set ts" for P now ts
    unfolding update_rows_def set_map image_image using assms by (intro image_cong) auto
  then show ?thesis
    by (simp add: commits_def set_state_if_def bindS_def utc_now_def update_tasks_def known_def has_run_def)
qed

lemma commits_promote_row: "tr_id row \<in> ids \<Longrightarrow> commits (known k ids) (promote_row k row)"
  unfolding promote_row_def by (intro commits_rules commits_event commits_set_state) simp_all

lemma next_task_returns: "has_run s k \<Longrightarrow> \<exists>r s'. next_task k s = Inr (r, s')"
proof -
  let ?rows = "filter (promotable k) (tasks s)"
  assume "has_run s k"
  then have "known k (tr_id ` set ?rows) s" by (auto simp: known_def)
  moreover have "commits (known k (tr_id ` set ?rows)) (forS (promote_row k) ?rows)"
    by (intro commits_forS commits_promote_row) simp
  ultimately obtain u where "forS (promote_row k) ?rows s = Inr ((), u)" by (auto simp: commits_def)
  then show ?thesis by (auto simp: next_task_def bindS_Inr_iff ask_def)
qed

section \<open>The effect of a promotion\<close>

definition depends_met :: "ledger \<Rightarrow> string \<Rightarrow> task_row \<Rightarrow> bool" where
  "depends_met s k t \<longleftrightarrow> (\<forall>d\<in>set (tr_dependencies t). dependency_state s k d = Some Succeeded)"

definition depends_dead :: "ledger \<Rightarrow> string \<Rightarrow> task_row \<Rightarrow> bool" where
  "depends_dead s k t \<longleftrightarrow> (\<exists>d\<in>set (tr_dependencies t). \<exists>st. dependency_state s k d = Some st \<and> dead_status st)"

definition paused :: "task_row \<Rightarrow> bool" where
  "paused t \<longleftrightarrow> tr_state t = Waiting \<and> has_input_question (tr_question t)"

text \<open>The state a promotion gives its row, if it changes it.\<close>

definition promotion :: "ledger \<Rightarrow> string \<Rightarrow> task_row \<Rightarrow> task_status option" where
  "promotion s k row =
     (if paused row then None
      else if depends_dead s k row then Some Blocked
      else if depends_met s k row \<and> (tr_dependencies row = [] \<longrightarrow> tr_state row \<noteq> Ready) then Some Ready
      else None)"

lemma append_event_frame: "event run task typ payload s = Inr (x, s') \<Longrightarrow> tasks s' = tasks s"
  by (auto simp: event_def bindS_Inr_iff elim!: append_event_Inr)

lemma set_state_if_Inr:
  "set_state_if tid froms f s = Inr (n, s') \<longleftrightarrow>
     (let P = (\<lambda>t. tr_id t = tid \<and> tr_state t \<in> froms) in
      n = row_count P (tasks s)
      \<and> s' = s\<lparr>ticks := Suc (ticks s), tasks := update_rows P (f (timeline s (ticks s))) (tasks s)\<rparr>)"
  by (auto simp: set_state_if_def bindS_Inr_iff utc_now_def update_tasks_def Let_def)

lemma case_dead: "(case st of None \<Rightarrow> False | Some x \<Rightarrow> dead_status x) \<longleftrightarrow> (\<exists>x. st = Some x \<and> dead_status x)"
  by (cases st) auto

definition ready_row :: "nat \<Rightarrow> task_row \<Rightarrow> task_row" where
  "ready_row now t = t\<lparr>tr_state := Ready, tr_updated := now\<rparr>"

definition blocked_row :: "nat \<Rightarrow> task_row \<Rightarrow> task_row" where
  "blocked_row now t = t\<lparr>tr_state := Blocked,
     tr_last_error := Some ''blocked because a dependency did not succeed'', tr_updated := now\<rparr>"

definition untouched :: "string \<Rightarrow> task_row \<Rightarrow> bool" where
  "untouched tid t \<longleftrightarrow> tr_id t = tid \<and> tr_state t \<in> {Pending, Waiting}"

definition mark :: "string \<Rightarrow> string \<Rightarrow> (nat \<Rightarrow> task_row \<Rightarrow> task_row) \<Rightarrow> string \<Rightarrow> (string \<times> json) list \<Rightarrow> unit store" where
  "mark k tid f typ payload = bindS (set_state_if tid {Pending, Waiting} f) (\<lambda>changed.
     if changed \<noteq> 0 then event k (Some tid) typ payload else ret ())"

lemma mark_tasks:
  assumes "mark k tid f typ payload s = Inr (x, s')"
  shows "tasks s' = update_rows (untouched tid) (f (timeline s (ticks s))) (tasks s)"
proof -
  have "untouched tid = (\<lambda>t. tr_id t = tid \<and> tr_state t \<in> {Pending, Waiting})"
    by (simp add: untouched_def fun_eq_iff)
  with assms show ?thesis
    unfolding mark_def by (auto simp: bindS_Inr_iff set_state_if_Inr Let_def ret_def dest!: append_event_frame split: if_split_asm)
qed

lemma promote_row_mark:
  "promote_row k row s =
     (if paused row then ret ()
      else if tr_dependencies row = [] then
        (if tr_state row \<noteq> Ready then mark k (tr_id row) ready_row ''task_ready'' [] else ret ())
      else if depends_dead s k row then mark k (tr_id row) blocked_row ''task_blocked'' [(''dependencies'', strs (tr_dependencies row))]
      else if depends_met s k row then mark k (tr_id row) ready_row ''task_ready'' [(''dependencies'', strs (tr_dependencies row))]
      else ret ()) s"
proof -
  have dead: "(\<exists>st\<in>set (map (dependency_state s k) (tr_dependencies row)). case st of None \<Rightarrow> False | Some x \<Rightarrow> dead_status x)
      \<longleftrightarrow> depends_dead s k row"
    by (auto simp: depends_dead_def case_dead)
  have met: "(\<forall>st\<in>set (map (dependency_state s k) (tr_dependencies row)). st = Some Succeeded) \<longleftrightarrow> depends_met s k row"
    by (auto simp: depends_met_def)
  have asked: "bindS (ask q) g s = g (q s) s" for q :: "ledger \<Rightarrow> 'a" and g :: "'a \<Rightarrow> 'b store"
    by (simp add: bindS_def ask_def)
  show ?thesis
    unfolding promote_row_def mark_def paused_def ready_row_def [abs_def] blocked_row_def [abs_def]
    by (simp only: if_distribR asked dead met)
qed

lemma promote_row_effect:
  assumes "promote_row k row s = Inr (x, s')"
  shows "tasks s' = (case promotion s k row of
     None \<Rightarrow> tasks s
   | Some st \<Rightarrow> update_rows (untouched (tr_id row))
       (if st = Ready then ready_row (timeline s (ticks s)) else blocked_row (timeline s (ticks s))) (tasks s))"
proof -
  have "tr_dependencies row = [] \<Longrightarrow> \<not> depends_dead s k row \<and> depends_met s k row"
    by (simp add: depends_dead_def depends_met_def)
  with assms [unfolded promote_row_mark] show ?thesis
    by (cases "paused row"; cases "depends_dead s k row"; cases "depends_met s k row"; cases "tr_dependencies row = []";
        cases "tr_state row = Ready") (simp_all add: promotion_def ret_def mark_tasks)
qed

section \<open>The promotion loop\<close>

definition moves :: "task_row \<Rightarrow> task_row \<Rightarrow> bool" where
  "moves a b \<longleftrightarrow> same_task a b \<and> tr_dependencies b = tr_dependencies a \<and> tr_question b = tr_question a
     \<and> (tr_state b = tr_state a \<or> tr_state a \<in> {Pending, Waiting} \<and> tr_state b \<in> {Ready, Blocked})"

lemma moves_refl: "moves a a"
  by (simp add: moves_def same_task_def)

lemma moves_trans: "moves a b \<Longrightarrow> moves b c \<Longrightarrow> moves a c"
  by (auto simp: moves_def same_task_def)

lemma list_moves_refl: "list_all2 moves xs xs"
  by (simp add: list.rel_refl moves_refl)

lemma list_moves_set: "list_all2 moves xs ys \<Longrightarrow> y \<in> set ys \<Longrightarrow> \<exists>x\<in>set xs. moves x y"
  by (induction rule: list_all2_induct) auto

lemma list_moves_get: "list_all2 moves xs ys \<Longrightarrow> x \<in> set xs \<Longrightarrow> \<exists>y\<in>set ys. moves x y"
  by (induction rule: list_all2_induct) auto

lemma marked_moves:
  assumes "list_all2 moves xs ts" and "\<And>t. untouched tid t \<Longrightarrow> moves t (f t)"
  shows "list_all2 moves xs (update_rows (untouched tid) f ts)"
  using assms(1)
  by (induction rule: list_all2_induct) (auto simp: update_rows_def intro: moves_trans assms(2))

lemma row_moves:
  "untouched tid t \<Longrightarrow> moves t (ready_row now t)" "untouched tid t \<Longrightarrow> moves t (blocked_row now t)"
  by (auto simp: moves_def same_task_def untouched_def ready_row_def blocked_row_def)

lemma keeps_moves: "keeps (\<lambda>u. list_all2 moves xs (tasks u)) (promote_row k row)"
  unfolding keeps_def
proof (intro allI impI)
  fix u x u' assume m: "list_all2 moves xs (tasks u)" and "promote_row k row u = Inr (x, u')"
  then have "tasks u' = (case promotion u k row of
     None \<Rightarrow> tasks u
   | Some st \<Rightarrow> update_rows (untouched (tr_id row))
       (if st = Ready then ready_row (timeline u (ticks u)) else blocked_row (timeline u (ticks u))) (tasks u))"
    by (intro promote_row_effect)
  with m show "list_all2 moves xs (tasks u')"
    by (auto intro!: marked_moves row_moves split: option.split)
qed

lemma find_moves:
  "list_all2 moves xs ys \<Longrightarrow> rel_option moves (find (\<lambda>t. tr_run t = k \<and> tr_id t = d) xs)
     (find (\<lambda>t. tr_run t = k \<and> tr_id t = d) ys)"
  by (induction rule: list_all2_induct) (auto simp: moves_def same_task_def)

lemma dependency_moves:
  assumes "list_all2 moves (tasks s) (tasks u)"
  shows "dependency_state u k d = Some Succeeded \<longleftrightarrow> dependency_state s k d = Some Succeeded"
  using find_moves [OF assms, of k d]
  by (auto simp: dependency_state_def moves_def elim!: option.rel_cases)

lemma met_moves: "list_all2 moves (tasks s) (tasks u) \<Longrightarrow> depends_met u k t \<longleftrightarrow> depends_met s k t"
  by (simp add: depends_met_def dependency_moves)

lemma met_same: "tr_dependencies t' = tr_dependencies t \<Longrightarrow> depends_met s k t' \<longleftrightarrow> depends_met s k t"
  by (simp add: depends_met_def)

section \<open>Only tasks whose dependencies succeeded become ready\<close>

definition was_ready :: "ledger \<Rightarrow> task_row \<Rightarrow> bool" where
  "was_ready s t \<longleftrightarrow> (\<exists>t0\<in>set (tasks s). tr_id t0 = tr_id t \<and> tr_state t0 = Ready)"

definition justified :: "ledger \<Rightarrow> string \<Rightarrow> ledger \<Rightarrow> bool" where
  "justified s k u \<longleftrightarrow> list_all2 moves (tasks s) (tasks u)
     \<and> (\<forall>t\<in>set (tasks u). tr_state t = Ready \<longrightarrow> was_ready s t \<or> depends_met s k t)"

lemma keeps_justified:
  assumes ok: "distinct (map tr_id (tasks s))" and row: "row \<in> set (tasks s)"
  shows "keeps (justified s k) (promote_row k row)"
  unfolding keeps_def
proof (intro allI impI)
  fix u x u' assume j: "justified s k u" and p: "promote_row k row u = Inr (x, u')"
  from j have m: "list_all2 moves (tasks s) (tasks u)" by (simp add: justified_def)
  have "list_all2 moves (tasks s) (tasks u')" by (rule keepsD [OF keeps_moves m p])
  moreover have "was_ready s t \<or> depends_met s k t" if t: "t \<in> set (tasks u')" "tr_state t = Ready" for t
  proof (cases "t \<in> set (tasks u)")
    case True
    with j t show ?thesis by (simp add: justified_def)
  next
    case False
    from promote_row_effect [OF p] False t
    have pr: "promotion u k row = Some Ready" and "\<exists>t1\<in>set (tasks u). untouched (tr_id row) t1 \<and> t = ready_row (timeline u (ticks u)) t1"
      by (auto simp: update_rows_def promotion_def blocked_row_def split: option.splits if_splits)
    then obtain t1 where t1: "t1 \<in> set (tasks u)" "tr_id t1 = tr_id row" "tr_dependencies t = tr_dependencies t1"
      by (auto simp: untouched_def ready_row_def)
    obtain t0 where t0: "t0 \<in> set (tasks s)" "moves t0 t1" using list_moves_set [OF m t1(1)] by blast
    then have "tr_id t0 = tr_id row" "tr_dependencies t1 = tr_dependencies t0"
      using t1(2) by (auto simp: moves_def same_task_def)
    moreover from this(1) have "t0 = row" using distinct_key_unique [OF ok t0(1) row] by simp
    ultimately have "depends_met u k t \<longleftrightarrow> depends_met u k row" using t1(3) by (intro met_same) simp
    with pr have "depends_met u k t" by (auto simp: promotion_def split: if_splits)
    then show ?thesis by (simp add: met_moves [OF m])
  qed
  ultimately show "justified s k u'" by (simp add: justified_def)
qed

lemma next_task_Inr:
  assumes "next_task k s = Inr (r, s')"
  shows "forS (promote_row k) (filter (promotable k) (tasks s)) s = Inr ((), s')
    \<and> r = first_created (runnable k) (tasks s')"
  using assms by (auto simp: next_task_def bindS_Inr_iff ask_def)

lemma next_task_justified:
  assumes "ledger_ok s" and "next_task k s = Inr (r, s')" shows "justified s k s'"
proof -
  have "keeps (justified s k) (forS (promote_row k) (filter (promotable k) (tasks s)))"
    using assms(1) by (intro keeps_forS keeps_justified) (auto simp: ledger_ok_def)
  moreover have "justified s k s" unfolding justified_def was_ready_def using list_moves_refl by blast
  ultimately show ?thesis by (rule keepsD) (rule conjunct1 [OF next_task_Inr [OF assms(2)]])
qed

lemma first_created_Some:
  assumes "first_created P ts = Some t"
  shows "t \<in> set ts \<and> P t \<and> (\<forall>t'\<in>set ts. P t' \<longrightarrow> (tr_created t, tr_id t) \<le> (tr_created t', tr_id t'))"
proof -
  let ?k = "\<lambda>t. (tr_created t, tr_id t)"
  obtain rest where r: "sort_key ?k (filter P ts) = t # rest"
    using assms by (auto simp: first_created_def split: list.splits)
  have "sorted (map ?k (t # rest))" using sorted_sort_key [of ?k "filter P ts"] by (simp only: r)
  moreover have "set (t # rest) = {x \<in> set ts. P x}" using set_sort [of ?k "filter P ts"] by (simp only: r set_filter)
  ultimately show ?thesis by (auto simp: insert_eq_iff)
qed

lemma first_created_None: "first_created P ts = None \<longleftrightarrow> (\<forall>t\<in>set ts. \<not> P t)"
proof -
  let ?l = "sort_key (\<lambda>t. (tr_created t, tr_id t)) (filter P ts)"
  have "first_created P ts = None \<longleftrightarrow> set ?l = {}"
    unfolding first_created_def by (simp split: list.splits del: set_sort)
  then show ?thesis by auto
qed

section \<open>A healthy run always has runnable work\<close>

definition healthy :: "string \<Rightarrow> ledger \<Rightarrow> bool" where
  "healthy k s \<longleftrightarrow> (\<forall>t\<in>set (tasks s). tr_run t = k \<longrightarrow>
     tr_state t \<in> {Pending, Ready, Waiting, Succeeded} \<and> \<not> paused t)"

definition closed_run :: "string \<Rightarrow> ledger \<Rightarrow> bool" where
  "closed_run k s \<longleftrightarrow> (\<forall>t\<in>set (tasks s). tr_run t = k \<longrightarrow>
     set (tr_dependencies t) \<subseteq> tr_id ` {u \<in> set (tasks s). tr_run u = k})"

definition run_edges :: "string \<Rightarrow> ledger \<Rightarrow> (string \<times> string) set" where
  "run_edges k s = {(d, tr_id t) | t d. t \<in> set (tasks s) \<and> tr_run t = k \<and> d \<in> set (tr_dependencies t)}"

lemma finite_run_edges: "finite (run_edges k s)"
proof -
  have "run_edges k s \<subseteq> (\<Union>t\<in>set (tasks s). (\<lambda>d. (d, tr_id t)) ` set (tr_dependencies t))"
    by (auto simp: run_edges_def)
  then show ?thesis by (rule finite_subset) simp
qed

lemma find_task: "distinct (map tr_id ts) \<Longrightarrow> t \<in> set ts \<Longrightarrow> find (\<lambda>x. tr_run x = tr_run t \<and> tr_id x = tr_id t) ts = Some t"
  by (induction ts) auto

lemma dependency_state_of:
  "ledger_ok s \<Longrightarrow> t \<in> set (tasks s) \<Longrightarrow> dependency_state s (tr_run t) (tr_id t) = Some (tr_state t)"
  by (simp add: dependency_state_def ledger_ok_def find_task)

lemma dependency_state_row:
  "dependency_state s k d = Some st \<Longrightarrow> \<exists>t\<in>set (tasks s). tr_run t = k \<and> tr_id t = d \<and> tr_state t = st"
  by (auto simp: dependency_state_def dest: find_Some_iff_first)

text \<open>A task that is not finished while all its dependencies are: one exists in an acyclic run.\<close>

lemma frontier_task:
  assumes ok: "ledger_ok s" and closed: "closed_run k s" and acyc: "acyclic (run_edges k s)"
    and some: "t \<in> set (tasks s)" "tr_run t = k" "tr_state t \<noteq> Succeeded"
  shows "\<exists>u\<in>set (tasks s). tr_run u = k \<and> tr_state u \<noteq> Succeeded \<and> depends_met s k u"
proof -
  have "wf (run_edges k s)" using acyc finite_run_edges by (simp add: finite_acyclic_wf)
  moreover have "tr_id t \<in> {tr_id u |u. u \<in> set (tasks s) \<and> tr_run u = k \<and> tr_state u \<noteq> Succeeded}"
    using some by blast
  ultimately obtain z where z: "z \<in> {tr_id u |u. u \<in> set (tasks s) \<and> tr_run u = k \<and> tr_state u \<noteq> Succeeded}"
    and min: "\<And>y. (y, z) \<in> run_edges k s \<Longrightarrow> y \<notin> {tr_id u |u. u \<in> set (tasks s) \<and> tr_run u = k \<and> tr_state u \<noteq> Succeeded}"
    by (rule wfE_min) blast
  from z obtain u where u: "u \<in> set (tasks s)" "tr_run u = k" "tr_state u \<noteq> Succeeded" "z = tr_id u" by blast
  have "dependency_state s k d = Some Succeeded" if d: "d \<in> set (tr_dependencies u)" for d
  proof -
    from closed u d obtain v where v: "v \<in> set (tasks s)" "tr_run v = k" "tr_id v = d"
      by (auto simp: closed_run_def)
    have "(d, z) \<in> run_edges k s" using u d by (auto simp: run_edges_def)
    from min [OF this] v have "tr_state v = Succeeded" by blast
    with dependency_state_of [OF ok v(1)] v show ?thesis by simp
  qed
  with u show ?thesis by (auto simp: depends_met_def)
qed

definition working :: "ledger \<Rightarrow> string \<Rightarrow> ledger \<Rightarrow> bool" where
  "working s k u \<longleftrightarrow> list_all2 moves (tasks s) (tasks u) \<and> healthy k u"

lemma healthy_promotion: "healthy k u \<Longrightarrow> promotion u k row \<noteq> Some Blocked"
  by (fastforce simp: promotion_def depends_dead_def healthy_def dead_status_def dest!: dependency_state_row split: if_splits)

lemma promote_healthy:
  assumes "healthy k u" and "promote_row k row u = Inr (x, u')"
  shows "tasks u' = (if promotion u k row = None then tasks u
     else update_rows (untouched (tr_id row)) (ready_row (timeline u (ticks u))) (tasks u))"
proof -
  have "promotion u k row = None \<or> promotion u k row = Some Ready"
    using healthy_promotion [OF assms(1), of row] by (auto simp: promotion_def split: if_splits)
  with promote_row_effect [OF assms(2)] show ?thesis by auto
qed

lemma keeps_working: "keeps (working s k) (promote_row k row)"
  unfolding keeps_def
proof (intro allI impI)
  fix u x u' assume w: "working s k u" and p: "promote_row k row u = Inr (x, u')"
  from w have m: "list_all2 moves (tasks s) (tasks u)" and h: "healthy k u" by (simp_all add: working_def)
  have "list_all2 moves (tasks s) (tasks u')" by (rule keepsD [OF keeps_moves m p])
  moreover have "healthy k u'"
    using h promote_healthy [OF h p] by (auto simp: healthy_def paused_def update_rows_def ready_row_def)
  ultimately show "working s k u'" by (simp add: working_def)
qed

lemma keeps_ready: "keeps (\<lambda>u. working s k u \<and> (\<exists>t\<in>set (tasks u). tr_id t = i \<and> tr_run t = k \<and> tr_state t = Ready))
    (promote_row k row)"
  unfolding keeps_def
proof (intro allI impI)
  fix u x u' assume w: "working s k u \<and> (\<exists>t\<in>set (tasks u). tr_id t = i \<and> tr_run t = k \<and> tr_state t = Ready)"
    and p: "promote_row k row u = Inr (x, u')"
  then obtain t where t: "t \<in> set (tasks u)" "tr_id t = i" "tr_run t = k" "tr_state t = Ready" by blast
  have "working s k u'" using w by (intro keepsD [OF keeps_working _ p]) simp
  moreover have "t \<in> set (tasks u')"
    using promote_healthy [of k u row x u'] w p t by (force simp: working_def update_rows_def untouched_def)
  ultimately show "working s k u' \<and> (\<exists>t\<in>set (tasks u'). tr_id t = i \<and> tr_run t = k \<and> tr_state t = Ready)"
    using t by blast
qed

lemma promote_frontier:
  assumes ok: "ledger_ok s" and w: "working s k u" and row: "row \<in> set (tasks s)" "tr_run row = k"
    and met: "depends_met s k row" and p: "promote_row k row u = Inr (x, u')" and np: "\<not> paused row"
    and pending: "tr_state row \<in> {Pending, Waiting}"
  shows "\<exists>t\<in>set (tasks u'). tr_id t = tr_id row \<and> tr_run t = k \<and> tr_state t = Ready"
proof -
  from w have m: "list_all2 moves (tasks s) (tasks u)" and h: "healthy k u" by (simp_all add: working_def)
  have "depends_met u k row" using met met_moves [OF m] by simp
  moreover have "\<not> depends_dead u k row"
    using healthy_promotion [OF h, of row] np by (auto simp: promotion_def)
  ultimately have pr: "promotion u k row = Some Ready" using np pending by (auto simp: promotion_def)
  obtain t where t: "t \<in> set (tasks u)" "moves row t" using list_moves_get [OF m row(1)] by blast
  then have "tr_run t = k" "tr_id t = tr_id row" using row(2) by (auto simp: moves_def same_task_def)
  with h t(1) have "tr_state t \<in> {Pending, Waiting} \<or> tr_state t = Ready"
    using t(2) pending by (auto simp: moves_def healthy_def)
  then have "\<exists>t'\<in>set (tasks u'). tr_id t' = tr_id t \<and> tr_run t' = tr_run t \<and> tr_state t' = Ready"
    using promote_healthy [OF h p] pr t(1) \<open>tr_id t = tr_id row\<close>
    by (intro bexI [of _ "if untouched (tr_id row) t then ready_row (timeline u (ticks u)) t else t"])
      (auto simp: update_rows_def untouched_def ready_row_def)
  then show ?thesis using \<open>tr_id t = tr_id row\<close> \<open>tr_run t = k\<close> by simp
qed

lemma loop_promotes:
  assumes ok: "ledger_ok s" and h: "healthy k s" and row: "row \<in> set (tasks s)" "tr_run row = k"
    and met: "depends_met s k row" and un: "tr_state row \<noteq> Succeeded"
    and loop: "forS (promote_row k) (filter (promotable k) (tasks s)) s = Inr ((), s')"
  shows "\<exists>t\<in>set (tasks s'). tr_id t = tr_id row \<and> tr_run t = k \<and> tr_state t = Ready"
proof -
  have start: "working s k s" using h by (simp add: working_def list_moves_refl)
  have state: "tr_state row \<in> {Pending, Ready, Waiting}" "\<not> paused row"
    using h row un by (auto simp: healthy_def)
  have later: "keeps (\<lambda>u. working s k u \<and> (\<exists>t\<in>set (tasks u). tr_id t = tr_id row \<and> tr_run t = k \<and> tr_state t = Ready))
      (forS (promote_row k) rows)" for rows
    by (intro keeps_forS keeps_ready)
  show ?thesis
  proof (cases "tr_state row = Ready")
    case True
    with start row have "working s k s \<and> (\<exists>t\<in>set (tasks s). tr_id t = tr_id row \<and> tr_run t = k \<and> tr_state t = Ready)"
      by blast
    from keepsD [OF later this loop] show ?thesis by blast
  next
    case False
    with state row have "row \<in> set (filter (promotable k) (tasks s))" by (auto simp: promotable_def)
    then obtain xs ys where split: "filter (promotable k) (tasks s) = xs @ row # ys" by (metis split_list)
    have forS_append: "forS f (as @ bs) u = bindS (forS f as) (\<lambda>_. forS f bs) u" for f :: "task_row \<Rightarrow> unit store" and as bs u
      by (induction as arbitrary: u) (auto simp: bindS_def ret_def split: sum.splits)
    from loop [unfolded split forS_append] obtain a b where
      a: "forS (promote_row k) xs s = Inr ((), a)" and b: "promote_row k row a = Inr ((), b)"
      and c: "forS (promote_row k) ys b = Inr ((), s')"
      by (auto simp: bindS_Inr_iff)
    have wa: "working s k a" by (rule keepsD [OF keeps_forS [OF keeps_working] start a])
    have "working s k b" by (rule keepsD [OF keeps_working wa b])
    moreover have "\<exists>t\<in>set (tasks b). tr_id t = tr_id row \<and> tr_run t = k \<and> tr_state t = Ready"
      using state False by (intro promote_frontier [OF ok wa row met b]) auto
    ultimately show ?thesis using keepsD [OF later _ c] by blast
  qed
qed

lemma ledger_has_run: "ledger_ok s \<Longrightarrow> t \<in> set (tasks s) \<Longrightarrow> has_run s (tr_run t)"
  by (auto simp: ledger_ok_def has_run_def)

section \<open>Competing controllers\<close>

definition is_schedule :: "store_op \<Rightarrow> bool" where
  "is_schedule op \<longleftrightarrow> (case op of Op_next _ \<Rightarrow> True | Op_claim _ _ _ _ \<Rightarrow> True | Op_claim_orchestration _ _ _ \<Rightarrow> True
     | Op_set_runner _ _ _ \<Rightarrow> True | Op_claim_runner _ _ _ \<Rightarrow> True | Op_set_attempt _ _ _ \<Rightarrow> True
     | Op_event _ _ _ _ _ \<Rightarrow> True | Op_artifact _ _ _ _ _ _ _ \<Rightarrow> True | _ \<Rightarrow> False)"

text \<open>While a task runs, these calls leave its row alone.\<close>

definition held_task :: "task_row \<Rightarrow> task_row \<Rightarrow> bool" where
  "held_task a b \<longleftrightarrow> same_task a b \<and> (tr_state a = Running \<longrightarrow> b = a)"

interpretation held_ev: row_evolution tasks held_task
  by unfold_locales (auto simp: held_task_def same_task_def)

lemma held_rows:
  assumes "held_ev.evolved s u" and "tasks u' = update_rows P g (tasks u)" and "\<And>t. P t \<Longrightarrow> held_task t (g t)"
  shows "held_ev.evolved s u'"
  using assms by (intro held_ev.evolved_update [of s u u' P g]) auto

lemma held_promote [keeps_rules]: "keeps (held_ev.evolved s) (promote_row k row)"
  unfolding keeps_def
proof (intro allI impI)
  fix u x u' assume e: "held_ev.evolved s u" and p: "promote_row k row u = Inr (x, u')"
  have "held_task t (ready_row now t) \<and> held_task t (blocked_row now t)" if "untouched (tr_id row) t" for t now
    using that by (simp add: held_task_def same_task_def untouched_def ready_row_def blocked_row_def) auto
  with promote_row_effect [OF p] show "held_ev.evolved s u'"
    by (cases "promotion u k row") (auto intro: held_ev.evolved_same [OF e] held_rows [OF e] split: if_splits)
qed

lemma held_statements [keeps_rules]:
  "keeps (held_ev.evolved s) utc_now"
  "keeps (held_ev.evolved s) (append_event run task typ payload eid)"
  "keeps (held_ev.evolved s) (update_runs P g)" "keeps (held_ev.evolved s) (update_attempts P' g')"
  "keeps (held_ev.evolved s) (insert_attempt a)" "keeps (held_ev.evolved s) (insert_artifact f)"
  by (rule held_ev.keeps_same; auto simp: utc_now_def update_runs_def update_attempts_def insert_attempt_Inr
      elim!: append_event_Inr dest!: insert_artifact_Inr)+

lemma held_event [keeps_rules]: "keeps (held_ev.evolved s) (event run task typ payload)"
  unfolding event_def by (intro keeps_rules)

definition claimable :: "string \<Rightarrow> bool \<Rightarrow> task_row \<Rightarrow> bool" where
  "claimable tid allow t \<longleftrightarrow> tr_id t = tid \<and> tr_state t \<in> {Pending, Ready, Uncertain} \<and> (\<not> tr_orchestration t \<or> allow)"

definition claimed_row :: "nat \<Rightarrow> task_row \<Rightarrow> task_row" where
  "claimed_row now t = t\<lparr>tr_state := Running, tr_attempts := tr_attempts t + 1, tr_updated := now\<rparr>"

lemma claimable_fold:
  "update_tasks (\<lambda>t. tr_id t = tid \<and> tr_state t \<in> {Pending, Ready, Uncertain} \<and> (\<not> tr_orchestration t \<or> allow))
     (\<lambda>t. t\<lparr>tr_state := Running, tr_attempts := tr_attempts t + 1, tr_updated := now\<rparr>) =
   update_tasks (claimable tid allow) (claimed_row now)"
  by (simp add: claimable_def [abs_def] claimed_row_def [abs_def])

lemmas claim_task_folded = claim_task_def [unfolded claimable_fold]

lemma held_claimed [keeps_rules]: "keeps (held_ev.evolved s) (update_tasks (claimable tid allow) (claimed_row now))"
proof -
  have "held_task t (claimed_row now t)" if "claimable tid allow t" for t
    using that by (auto simp: claimable_def claimed_row_def held_task_def same_task_def)
  then show ?thesis
    unfolding keeps_def update_tasks_def using held_rows by fastforce
qed

lemma held_claim [keeps_rules]: "keeps (held_ev.evolved s) (claim_task aid tid runtime allow)"
  unfolding claim_task_folded by (intro keeps_rules)

lemma held_ops:
  "keeps (held_ev.evolved s) (next_task k)"
  "keeps (held_ev.evolved s) (claim_orchestration_task aid tid runtime)"
  "keeps (held_ev.evolved s) (set_runner_process k p g)"
  "keeps (held_ev.evolved s) (claim_runner_process k p' g')"
  "keeps (held_ev.evolved s) (set_attempt_process aid p g)"
  "keeps (held_ev.evolved s) (add_artifact i k tid path sha n kind)"
  unfolding next_task_def claim_orchestration_task_def set_runner_process_def claim_runner_process_def
    set_attempt_process_def add_artifact_def
  by (intro keeps_rules)+

lemma held_step: "is_schedule op \<Longrightarrow> held_ev.evolved s (exec_op loads op s)"
  by (cases op)
    (simp_all add: is_schedule_def keeps_after held_ev.evolved_refl held_ops held_claim held_statements)

lemma held_history:
  assumes "\<forall>op\<in>set ops. is_schedule op" shows "held_ev.evolved s (history loads ops s)"
  unfolding history_def using assms by (intro held_ev.history_evolved held_step) blast

lemma claim_Some:
  assumes "claim_task aid tid runtime allow s = Inr (Some a, s')"
  shows "\<exists>t\<in>set (tasks s'). tr_id t = tid \<and> tr_state t = Running"
proof -
  let ?now = "timeline s (ticks s)"
  from assms have 1: "row_count (claimable tid allow) (tasks s) = 1"
    and 2: "tasks s' = update_rows (claimable tid allow) (claimed_row ?now) (tasks s)"
    unfolding claim_task_folded
    by (auto simp: bindS_Inr_iff utc_now_def update_tasks_def ask_def ret_def raise_def update_runs_def insert_attempt_Inr
        dest!: append_event_frame split: if_split_asm option.splits)
  from 1 have "filter (claimable tid allow) (tasks s) \<noteq> []" by (auto simp: row_count_def)
  then obtain t where "t \<in> set (tasks s)" "claimable tid allow t" by (auto simp: filter_empty_conv)
  with 2 show ?thesis
    by (intro bexI [of _ "claimed_row ?now t"]) (auto simp: update_rows_def claimed_row_def claimable_def)
qed

lemma claim_running:
  assumes "ledger_ok s" and "t \<in> set (tasks s)" and "tr_id t = tid" and "tr_state t = Running"
  shows "\<exists>s'. claim_task aid tid runtime allow s = Inr (None, s')"
proof -
  have d: "distinct (map tr_id (tasks s))" using assms(1) by (simp add: ledger_ok_def)
  have "\<not> claimable tid allow u" if u: "u \<in> set (tasks s)" for u
  proof
    assume c: "claimable tid allow u"
    then have "t = u" using assms(3) by (intro distinct_key_unique [OF d assms(2) u]) (simp add: claimable_def)
    with c assms(4) show False by (simp add: claimable_def)
  qed
  then have "row_count (claimable tid allow) (tasks s) = 0"
    by (auto simp: row_count_def filter_empty_conv)
  then have "update_tasks (claimable tid allow) (claimed_row now) (s\<lparr>ticks := Suc (ticks s)\<rparr>) =
      Inr (0, s\<lparr>ticks := Suc (ticks s), tasks := update_rows (claimable tid allow) (claimed_row now) (tasks s)\<rparr>)" for now
    by (simp add: update_tasks_def)
  moreover have "utc_now s = Inr (timeline s (ticks s), s\<lparr>ticks := Suc (ticks s)\<rparr>)"
    by (simp add: utc_now_def)
  ultimately show ?thesis
    by (simp add: claim_task_folded ret_def)
qed

section \<open>Properties\<close>


text \<open>C20. Asking for work is live: in a run whose tasks are all pending, ready, waiting for dependencies or
  succeeded, with an acyclic dependency graph and some task not yet succeeded, \<^verbatim>\<open>next_task\<close> returns a
  task to run. The scheduler cannot get stuck.\<close>
theorem next_task_makes_progress:
  assumes "ledger_ok s" and "healthy k s" and "closed_run k s" and "acyclic (run_edges k s)"
    and "\<forall>t\<in>set (tasks s). tr_run t = k \<longrightarrow> \<not> tr_orchestration t"
    and "t \<in> set (tasks s)" and "tr_run t = k" and "tr_state t \<noteq> Succeeded"
  shows "\<exists>t' s'. next_task k s = Inr (Some t', s') \<and> tr_state t' = Ready"
proof -
  from assms obtain r s' where n: "next_task k s = Inr (r, s')"
    using next_task_returns ledger_has_run by blast
  note loop = next_task_Inr [OF n]
  obtain u where u: "u \<in> set (tasks s)" "tr_run u = k" "tr_state u \<noteq> Succeeded" "depends_met s k u"
    using frontier_task [OF assms(1,3,4,6,7,8)] by blast
  obtain v where v: "v \<in> set (tasks s')" "tr_id v = tr_id u" "tr_run v = k" "tr_state v = Ready"
    using loop_promotes [OF assms(1,2) u(1,2,4,3)] loop by blast
  have m: "list_all2 moves (tasks s) (tasks s')"
    using next_task_justified [OF assms(1) n] by (simp add: justified_def)
  have h: "healthy k s'"
    using keepsD [OF keeps_forS [OF keeps_working [of s]] _ conjunct1 [OF loop]] assms(2)
    by (auto simp: working_def list_moves_refl)
  have no: "\<not> tr_orchestration w" if w: "w \<in> set (tasks s')" "tr_run w = k" for w
    using list_moves_set [OF m w(1)] assms(5) w(2) by (auto simp: moves_def same_task_def)
  from v no [OF v(1)] have "first_created (runnable k) (tasks s') \<noteq> None"
    by (auto simp: first_created_None runnable_def)
  then obtain t' where t': "r = Some t'" using loop by auto
  with loop have "t' \<in> set (tasks s')" "runnable k t'"
    using first_created_Some [of "runnable k" "tasks s'" t'] by auto
  with h have "tr_state t' = Ready" by (auto simp: healthy_def runnable_def)
  with n t' show ?thesis by blast
qed

text \<open>C21. A claim is exclusive: once a controller has claimed a task, no competing controller can claim it,
  whatever sequence of scheduling calls (asking for work, claims of any task, process registrations,
  artifacts, events) the two interleave.\<close>
theorem claim_is_exclusive:
  assumes "ledger_ok s" and "claim_task aid tid runtime allow s = Inr (Some a, s1)"
    and "\<forall>op\<in>set ops. is_schedule op"
  shows "\<exists>s2. claim_task aid' tid runtime' allow' (history loads ops s1) = Inr (None, s2)"
proof -
  obtain t where t: "t \<in> set (tasks s1)" "tr_id t = tid" "tr_state t = Running"
    using claim_Some [OF assms(2)] by blast
  have "frozen.evolution s s1"
    by (rule keepsD [OF frozen.keeps_claim_task frozen.evolution_refl [OF assms(1)] assms(2)])
  then have "ledger_ok (history loads ops s1)" by (intro history_ok) (simp add: frozen.evolution_def)
  moreover obtain t' where "t' \<in> set (tasks (history loads ops s1))" "held_task t t'"
    using held_ev.evolved_persists [OF held_history [OF assms(3)] t(1)] by blast
  ultimately show ?thesis
    using t by (intro claim_running [of _ t']) (auto simp: held_task_def)
qed

section \<open>Witnesses\<close>

lemma demo_healthy: "healthy ''r'' demo_ledger"
proof -
  have "list_all (\<lambda>t. tr_state t \<in> set [Pending, Ready, Waiting, Succeeded] \<and> \<not> paused t) (tasks demo_ledger)"
    by code_simp
  then show ?thesis by (auto simp: healthy_def list_all_iff)
qed

lemma demo_run: "closed_run ''r'' demo_ledger \<and> acyclic (run_edges ''r'' demo_ledger)
    \<and> (\<forall>t\<in>set (tasks demo_ledger). tr_run t = ''r'' \<longrightarrow> \<not> tr_orchestration t)"
proof -
  have t: "map (\<lambda>t. (tr_id t, tr_run t, tr_dependencies t, tr_orchestration t)) (tasks demo_ledger) =
      [(''a'', ''r'', [], False), (''b'', ''r'', [''a''], False)]"
    by code_simp
  then obtain x y where xy: "tasks demo_ledger = [x, y]" "tr_id x = ''a''" "tr_run x = ''r''" "tr_dependencies x = []"
    "\<not> tr_orchestration x" "tr_id y = ''b''" "tr_run y = ''r''" "tr_dependencies y = [''a'']" "\<not> tr_orchestration y"
    by (auto simp: map_eq_Cons_conv)
  have "run_edges ''r'' demo_ledger = {(''a'', ''b'')}"
  proof (intro set_eqI iffI)
    fix e assume "e \<in> {(''a'', ''b'')}"
    then have "e = (''a'', tr_id y)" "''a'' \<in> set (tr_dependencies y)" using xy by simp_all
    moreover have "y \<in> set (tasks demo_ledger)" using xy by simp
    ultimately show "e \<in> run_edges ''r'' demo_ledger" unfolding run_edges_def using xy by blast
  qed (use xy in \<open>auto simp: run_edges_def\<close>)
  moreover have "acyclic {(''a'', ''b'')}" by (simp add: acyclic_insert wf_acyclic)
  moreover have "closed_run ''r'' demo_ledger"
    unfolding closed_run_def xy(1) using xy(2-) by (auto intro: image_eqI [of _ _ x])
  ultimately show ?thesis using xy by simp
qed

lemma demo_unfinished: "\<exists>t\<in>set (tasks demo_ledger). tr_id t = ''b'' \<and> tr_run t = ''r'' \<and> tr_state t = Waiting"
proof -
  have "list_ex (\<lambda>t. tr_id t = ''b'' \<and> tr_run t = ''r'' \<and> tr_state t = Waiting) (tasks demo_ledger)" by code_simp
  then show ?thesis by (simp add: list_ex_iff)
qed

theorem next_task_makes_progress_witness:
  "\<exists>t' s'. next_task ''r'' demo_ledger = Inr (Some t', s') \<and> tr_state t' = Ready"
proof -
  from demo_unfinished obtain t where t: "t \<in> set (tasks demo_ledger)" "tr_run t = ''r''" "tr_state t = Waiting" by blast
  with demo_run show ?thesis
    by (intro next_task_makes_progress [OF demo_ledger_ok demo_healthy _ _ _ t(1,2)]) auto
qed


definition demo_offered :: ledger where
  "demo_offered = history no_loads [Op_next ''r''] demo_ledger"

theorem claim_is_exclusive_witness:
  "\<exists>a s1 s2. claim_task ''x2'' ''b'' ''local'' False demo_offered = Inr (Some a, s1)
     \<and> claim_task ''x3'' ''b'' ''other'' True (history no_loads [Op_next ''r'', Op_claim ''x4'' ''a'' ''local'' True] s1) = Inr (None, s2)"
proof -
  have ok: "ledger_ok demo_offered" unfolding demo_offered_def by (rule history_ok [OF demo_ledger_ok])
  have "case claim_task ''x2'' ''b'' ''local'' False demo_offered of Inr (Some a, s1) \<Rightarrow> True | _ \<Rightarrow> False" by code_simp
  then obtain a s1 where c: "claim_task ''x2'' ''b'' ''local'' False demo_offered = Inr (Some a, s1)"
    by (auto split: sum.splits option.splits prod.splits)
  have "\<forall>op\<in>set [Op_next ''r'', Op_claim ''x4'' ''a'' ''local'' True]. is_schedule op" by (simp add: is_schedule_def)
  from claim_is_exclusive [OF ok c this, of "''x3''" "''other''" True no_loads] c show ?thesis by blast
qed

end
