(* ===== verification/Population.thy ===== *)
theory Population imports Algorithm "HOL-Library.Product_Lexorder" begin

text \<open>
  The selection core of \<^verbatim>\<open>PopulationStrategy\<close> in \<^verbatim>\<open>evolution.py\<close>: its bounded configuration, candidates,
  token novelty, ranking, family elites, trimming, parents, inspirations and ring migration.
  The active population \<^verbatim>\<open>dict[int, list[str]]\<close> is the list of its islands.  Scores and distances are
  exact rationals; token sets have at most \<open>2 ^ 19\<close> elements, so doubles order the distances alike.
  \<open>src c\<close> is the text of the source of \<open>c\<close>, None when the code fails to read it.
\<close>

section \<open>Configuration\<close>

text \<open>The arguments \<^verbatim>\<open>__post_init__\<close> checks, as given, and the checked configuration.\<close>

record config_args =
  ga_strategy :: json
  ga_max_rounds :: json
  ga_stagnation_rounds :: json
  ga_population_size :: json
  ga_offspring :: json
  ga_num_islands :: json
  ga_migration_interval :: json
  ga_migration_rate :: json
  ga_rng_seed :: json
  ga_timeout :: json
  ga_command :: "string list"
  ga_generator_fp :: json
  ga_evaluator_fp :: json
  ga_runner_fp :: json
  ga_evaluator_kind :: json
  ga_dependency :: json
  ga_environment :: json

record evolution_config =
  ec_strategy :: string
  ec_max_rounds :: nat
  ec_stagnation_rounds :: nat
  ec_population_size :: nat
  ec_offspring :: nat
  ec_num_islands :: nat
  ec_migration_interval :: nat
  ec_migration_rate :: json
  ec_rng_seed :: "int option"
  ec_timeout :: json
  ec_command :: "string list"
  ec_generator_fp :: "string option"
  ec_evaluator_fp :: "string option"
  ec_runner_fp :: "string option"
  ec_evaluator_kind :: "string option"
  ec_dependency :: "string option"
  ec_environment :: "string option"

definition LOOP_RETIRED :: string where
  "LOOP_RETIRED = ''loop_strategy_retired: legacy loop runs are read-only; use population or explicit openevolve''"

definition bounded_int :: "json \<Rightarrow> nat \<Rightarrow> string \<Rightarrow> nat result" where
  "bounded_int v maximum name =
     (case v of JInt n \<Rightarrow> if 1 \<le> n \<and> n \<le> int maximum then Inr (nat n)
                          else Inl (ValueError (name @ '' must be a positive bounded integer''))
      | _ \<Rightarrow> Inl (ValueError (name @ '' must be a positive bounded integer'')))"

definition is_hex64 :: "string \<Rightarrow> bool" where
  "is_hex64 s \<longleftrightarrow> length s = 64 \<and> (\<forall>c\<in>set s. is_digit c \<or> c \<in> set ''abcdef'')"

definition id_char :: "char \<Rightarrow> bool" where
  "id_char c \<longleftrightarrow> is_alnum c \<or> c \<in> set ''_.-''"

text \<open>\<^verbatim>\<open>_SAFE_ID = ^[A-Za-z0-9][A-Za-z0-9_.-]{0,127}$\<close>, full match.\<close>

definition is_safe_id :: "string \<Rightarrow> bool" where
  "is_safe_id s \<longleftrightarrow> s \<noteq> [] \<and> length s \<le> 128 \<and> is_alnum (hd s) \<and> (\<forall>c\<in>set s. id_char c)"

definition opt_digest :: "json \<Rightarrow> string \<Rightarrow> string option result" where
  "opt_digest v name =
     (case v of JNull \<Rightarrow> Inr None
      | JStr s \<Rightarrow> if is_hex64 s then Inr (Some s)
                  else Inl (ValueError (name @ '' must be a lowercase SHA-256 hex digest or null''))
      | _ \<Rightarrow> Inl (ValueError (name @ '' must be a lowercase SHA-256 hex digest or null'')))"

definition MAX_COMMAND_ARGS :: nat where "MAX_COMMAND_ARGS = 32"

definition config_rest :: "config_args \<Rightarrow> evolution_config \<Rightarrow> evolution_config result" where
  "config_rest a c =
     bindE (guardE (MAX_COMMAND_ARGS < length (ga_command a)) (ValueError ''command must be a bounded argument tuple'')) (\<lambda>_.
     bindE (guardE ([] \<in> set (ga_command a)) (ValueError ''command arguments must be non-empty strings'')) (\<lambda>_.
     bindE (opt_digest (ga_generator_fp a) ''generator_fingerprint'') (\<lambda>gfp.
     bindE (opt_digest (ga_evaluator_fp a) ''evaluator_fingerprint'') (\<lambda>efp.
     bindE (opt_digest (ga_runner_fp a) ''runner_fingerprint'') (\<lambda>rfp.
     bindE (opt_digest (ga_dependency a) ''dependency_sha256'') (\<lambda>dep.
     bindE (opt_digest (ga_environment a) ''environment_sha256'') (\<lambda>env.
     bindE (case ga_evaluator_kind a of
              JNull \<Rightarrow> Inr None
            | JStr k \<Rightarrow> if is_safe_id k \<and> \<not> secret_search k then Inr (Some k)
                        else Inl (ValueError ''evaluator_kind must be a safe identifier or null'')
            | _ \<Rightarrow> Inl (ValueError ''evaluator_kind must be a safe identifier or null'')) (\<lambda>kind.
     bindE (guardE (ec_strategy c = ''openevolve'' \<and> ga_command a = [])
              (ValueError ''openevolve strategy requires an explicit command'')) (\<lambda>_.
     bindE (guardE (ec_strategy c = ''openevolve'' \<and> efp = None)
              (ValueError ''openevolve strategy requires a pinned local evaluator fingerprint'')) (\<lambda>_.
     Inr (c\<lparr>ec_command := ga_command a, ec_generator_fp := gfp, ec_evaluator_fp := efp, ec_runner_fp := rfp,
            ec_evaluator_kind := kind, ec_dependency := dep, ec_environment := env\<rparr>)))))))))))"

definition config_init :: "config_args \<Rightarrow> evolution_config result" where
  "config_init a =
     bindE (guardE (ga_strategy a = JStr ''loop'') (ValueError LOOP_RETIRED)) (\<lambda>_.
     bindE (member_of (ga_strategy a) [''population'', ''openevolve'']
              (ValueError ''strategy must be population or openevolve'')) (\<lambda>_.
     bindE (bounded_int (ga_max_rounds a) 10000 ''max_rounds'') (\<lambda>rounds.
     bindE (bounded_int (ga_stagnation_rounds a) 1000 ''stagnation_rounds'') (\<lambda>stagnation.
     bindE (bounded_int (ga_population_size a) 10000 ''population_size'') (\<lambda>pop.
     bindE (bounded_int (ga_offspring a) 256 ''offspring_per_iteration'') (\<lambda>offspring.
     bindE (case ga_num_islands a of JInt n \<Rightarrow> Inr n
            | _ \<Rightarrow> Inl (TypeError ''num_islands must be a positive bounded integer'')) (\<lambda>islands.
     bindE (guardE (\<not> (1 \<le> islands \<and> islands \<le> 64) \<or> int pop < islands)
              (ValueError ''num_islands must be between 1 and population_size'')) (\<lambda>_.
     bindE (case ga_migration_interval a of JInt n \<Rightarrow> Inr n
            | _ \<Rightarrow> Inl (TypeError ''migration_interval must be a non-negative integer'')) (\<lambda>interval.
     bindE (guardE (\<not> (0 \<le> interval \<and> interval \<le> 10000))
              (ValueError ''migration_interval must be a non-negative bounded integer'')) (\<lambda>_.
     bindE (guardE (\<not> is_number (ga_migration_rate a))
              (TypeError ''migration_rate must be a number between 0 and 1'')) (\<lambda>_.
     bindE (is_finite_number (ga_migration_rate a)) (\<lambda>finite_rate.
     bindE (guardE (\<not> finite_rate \<or> \<not> (0 \<le> num_val (ga_migration_rate a) \<and> num_val (ga_migration_rate a) \<le> 1))
              (ValueError ''migration_rate must be a number between 0 and 1'')) (\<lambda>_.
     bindE (case ga_rng_seed a of JNull \<Rightarrow> Inr None | JInt n \<Rightarrow> Inr (Some n)
            | _ \<Rightarrow> Inl (ValueError ''rng_seed must be an integer or null'')) (\<lambda>rng.
     bindE (guardE (\<not> is_number (ga_timeout a)) (TypeError ''timeout_seconds must be positive'')) (\<lambda>_.
     bindE (is_finite_number (ga_timeout a)) (\<lambda>finite_timeout.
     bindE (guardE (\<not> finite_timeout \<or> num_val (ga_timeout a) \<le> 0)
              (ValueError ''timeout_seconds must be positive'')) (\<lambda>_.
     config_rest a
       \<lparr>ec_strategy = str_of (ga_strategy a), ec_max_rounds = rounds, ec_stagnation_rounds = stagnation,
        ec_population_size = pop, ec_offspring = offspring, ec_num_islands = nat islands,
        ec_migration_interval = nat interval, ec_migration_rate = ga_migration_rate a, ec_rng_seed = rng,
        ec_timeout = ga_timeout a, ec_command = [], ec_generator_fp = None, ec_evaluator_fp = None,
        ec_runner_fp = None, ec_evaluator_kind = None, ec_dependency = None, ec_environment = None\<rparr>)))))))))))))))))"

definition opt_int_json :: "int option \<Rightarrow> json" where
  "opt_int_json v = (case v of None \<Rightarrow> JNull | Some n \<Rightarrow> JInt n)"

definition opt_item :: "string \<Rightarrow> string option \<Rightarrow> (string \<times> json) list" where
  "opt_item k v = (case v of None \<Rightarrow> [] | Some s \<Rightarrow> [(k, JStr s)])"

text \<open>\<^verbatim>\<open>json.dumps(list(command), ensure_ascii=False, separators=(",", ":"))\<close> is \<open>canonical\<close> on an array of
  strings; \<open>sha256\<close> is the hexadecimal SHA-256 digest.\<close>

definition config_to_dict :: "(string \<Rightarrow> string) \<Rightarrow> evolution_config \<Rightarrow> json" where
  "config_to_dict sha256 c = JObj ([(''strategy'', JStr (ec_strategy c)), (''max_rounds'', JInt (int (ec_max_rounds c))),
       (''stagnation_rounds'', JInt (int (ec_stagnation_rounds c))),
       (''population_size'', JInt (int (ec_population_size c))),
       (''offspring_per_iteration'', JInt (int (ec_offspring c))), (''num_islands'', JInt (int (ec_num_islands c))),
       (''migration_interval'', JInt (int (ec_migration_interval c))), (''migration_rate'', ec_migration_rate c),
       (''rng_seed'', opt_int_json (ec_rng_seed c)), (''timeout_seconds'', ec_timeout c),
       (''command_sha256'', if ec_command c = [] then JNull else JStr (sha256 (canonical (strs_json (ec_command c)))))]
     @ opt_item ''generator_fingerprint'' (ec_generator_fp c) @ opt_item ''evaluator_fingerprint'' (ec_evaluator_fp c)
     @ opt_item ''runner_fingerprint'' (ec_runner_fp c) @ opt_item ''evaluator_kind'' (ec_evaluator_kind c)
     @ opt_item ''dependency_sha256'' (ec_dependency c) @ opt_item ''environment_sha256'' (ec_environment c))"

section \<open>Candidates\<close>

record candidate =
  ca_id :: string
  ca_code_path :: string
  ca_parent :: "string option"
  ca_generation :: nat
  ca_iteration :: nat
  ca_strategy :: string
  ca_island :: "nat option"
  ca_evaluation :: evaluation_report
  ca_metadata :: "(string \<times> json) list"
  ca_created :: json
  ca_source_sha256 :: "string option"
  ca_receipt_sha256 :: "string option"
  ca_integrity :: "json option"
  ca_bundle :: "json option"

definition candidate_to_dict :: "candidate \<Rightarrow> json" where
  "candidate_to_dict c = JObj ([(''candidate_id'', JStr (ca_id c)), (''code_path'', JStr (ca_code_path c)),
       (''parent_id'', opt_json (ca_parent c)), (''generation'', JInt (int (ca_generation c))),
       (''iteration'', JInt (int (ca_iteration c))), (''strategy'', JStr (ca_strategy c)),
       (''island_id'', case ca_island c of None \<Rightarrow> JNull | Some i \<Rightarrow> JInt (int i)),
       (''evaluation'', report_to_dict (ca_evaluation c)), (''metadata'', JObj (ca_metadata c)),
       (''created_at'', ca_created c)]
     @ (case ca_source_sha256 c of None \<Rightarrow> []
        | Some d \<Rightarrow> [(''source_sha256'', JStr d), (''receipt_sha256'', opt_json (ca_receipt_sha256 c)),
             (''integrity'', case ca_integrity c of None \<Rightarrow> JObj [] | Some v \<Rightarrow> v)])
     @ (case ca_bundle c of None \<Rightarrow> [] | Some b \<Rightarrow> [(''bundle_evidence'', b)]))"

definition is_seed_candidate :: "candidate \<Rightarrow> bool" where
  "is_seed_candidate c \<longleftrightarrow> ''seed_handoff'' \<in> set (map fst (ca_metadata c))"

text \<open>\<^verbatim>\<open>evaluation.validity == 1\<close>, and the two numbers of the ranking key.\<close>

definition validity :: "candidate \<Rightarrow> rat" where
  "validity c = num_val (er_validity (ca_evaluation c))"

definition score :: "candidate \<Rightarrow> rat" where
  "score c = num_val (er_score (ca_evaluation c))"

definition valid :: "candidate \<Rightarrow> bool" where
  "valid c \<longleftrightarrow> validity c = 1"

text \<open>\<^verbatim>\<open>CandidateArchive.best\<close>: the first best of the valid records.\<close>

definition best :: "candidate list \<Rightarrow> candidate option" where
  "best records = max_by score (filter valid records)"

section \<open>Novelty\<close>

definition ident_start :: "char \<Rightarrow> bool" where
  "ident_start c \<longleftrightarrow> (is_alnum c \<and> \<not> is_digit c) \<or> c = CHR ''_''"

text \<open>\<^verbatim>\<open>re.findall(r"[A-Za-z_][A-Za-z0-9_]*|\d+", text)\<close>.\<close>

function tokens :: "string \<Rightarrow> string list" where
  "tokens [] = []"
| "tokens (c # cs) =
     (if ident_start c
      then (c # takeWhile (\<lambda>x. is_alnum x \<or> x = CHR ''_'') cs)
             # tokens (dropWhile (\<lambda>x. is_alnum x \<or> x = CHR ''_'') cs)
      else if is_digit c then (c # takeWhile is_digit cs) # tokens (dropWhile is_digit cs)
      else tokens cs)"
  by pat_completeness auto
termination by (relation "measure length") (auto simp: le_imp_less_Suc length_dropWhile_le)

definition token_set :: "(candidate \<Rightarrow> string option) \<Rightarrow> candidate \<Rightarrow> string list" where
  "token_set src c = (case src c of None \<Rightarrow> [] | Some t \<Rightarrow> remdups (tokens t))"

definition distance :: "string list \<Rightarrow> string list \<Rightarrow> rat" where
  "distance xs ys =
     (let common = length (filter (\<lambda>x. x \<in> set ys) xs) in
      1 - of_nat common / of_nat (length xs + length ys - common))"

definition novelty :: "(candidate \<Rightarrow> string option) \<Rightarrow> candidate \<Rightarrow> candidate list \<Rightarrow> rat" where
  "novelty src c peers =
     (let current = token_set src c in
      if current = [] then 0
      else (case map (\<lambda>p. distance current (token_set src p)) peers of
              [] \<Rightarrow> 1 | d # ds \<Rightarrow> foldl min d ds))"

section \<open>Ranking\<close>

text \<open>\<^verbatim>\<open>sorted(xs, key=k, reverse=True)\<close> keeps the order of equal elements.\<close>

definition sort_desc :: "('a \<Rightarrow> 'k::linorder) \<Rightarrow> 'a list \<Rightarrow> 'a list" where
  "sort_desc k xs = rev (sort_key k (rev xs))"

definition rank_key :: "(candidate \<Rightarrow> string option) \<Rightarrow> candidate list \<Rightarrow> candidate \<Rightarrow> rat \<times> rat \<times> rat \<times> string" where
  "rank_key src all_active c =
     (validity c, score c, novelty src c (filter (\<lambda>p. ca_id p \<noteq> ca_id c) all_active), ca_id c)"

definition rank :: "(candidate \<Rightarrow> string option) \<Rightarrow> candidate list \<Rightarrow> candidate list \<Rightarrow> candidate list" where
  "rank src candidates all_active = sort_desc (rank_key src all_active) candidates"

text \<open>\<^verbatim>\<open>ALGORITHM_FAMILY_REPERTOIRES\<close>.\<close>

definition repertoires :: "(string \<times> string list) list" where
  "repertoires =
    [(''routing'', [''nearest_insertion'', ''savings_merge'', ''regret_insertion'', ''two_opt_local_search'',
        ''large_neighborhood_search'']),
     (''scheduling'', [''priority_dispatch'', ''insertion_schedule'', ''interval_local_search'',
        ''critical_path_improvement'', ''large_neighborhood_search'']),
     (''packing'', [''first_fit_decreasing'', ''best_fit_decreasing'', ''shelf_packing'', ''local_repacking'',
        ''multi_start_constructive'']),
     (''assignment'', [''greedy_min_cost'', ''augmenting_path_assignment'', ''local_swap_assignment'',
        ''min_cost_flow_assignment'', ''multi_start_assignment'']),
     (''forecasting'', [''seasonal_naive'', ''moving_average'', ''exponential_smoothing'',
        ''linear_trend_regression'', ''residual_correction_ensemble'']),
     (''network_flow'', [''augmenting_path_flow'', ''successive_shortest_path'', ''capacity_scaling_flow'',
        ''cycle_canceling_flow'', ''path_decomposition_search'']),
     (''continuous'', [''coordinate_descent'', ''projected_pattern_search'', ''adaptive_step_search'',
        ''nelder_mead_simplex'', ''multi_start_local_search''])]"

definition repertoire :: "string \<Rightarrow> string list" where
  "repertoire problem_type = (case map_of repertoires problem_type of None \<Rightarrow> [] | Some r \<Rightarrow> r)"

definition candidate_family :: "string \<Rightarrow> candidate \<Rightarrow> string option" where
  "candidate_family problem_type c =
     (case getn (ca_metadata c) ''experiment'' of
        JObj experiment \<Rightarrow>
          (case getn experiment ''change_tags'' of
             JArr tags \<Rightarrow> find (\<lambda>family. JStr family \<in> set tags) (repertoire problem_type)
           | _ \<Rightarrow> None)
      | _ \<Rightarrow> None)"

text \<open>The loop over the ranked candidates, with the families seen so far.\<close>

fun elites :: "(candidate \<Rightarrow> string option) \<Rightarrow> string list \<Rightarrow> candidate list \<Rightarrow> candidate list" where
  "elites family seen [] = []"
| "elites family seen (c # cs) =
     (if \<not> valid c then elites family seen cs
      else case family c of
             None \<Rightarrow> elites family seen cs
           | Some f \<Rightarrow> if f \<in> set seen then elites family seen cs else c # elites family (f # seen) cs)"

text \<open>What selection reads besides the archive: configuration, sources and problem type.\<close>

record selection_env =
  se_config :: evolution_config
  se_source :: "candidate \<Rightarrow> string option"
  se_problem :: string

definition family_elites :: "selection_env \<Rightarrow> candidate list \<Rightarrow> candidate list \<Rightarrow> candidate list" where
  "family_elites e candidates all_active =
     elites (candidate_family (se_problem e)) [] (rank (se_source e) candidates all_active)"

section \<open>Trimming\<close>

definition capacity :: "evolution_config \<Rightarrow> nat \<Rightarrow> nat" where
  "capacity cfg island =
     ec_population_size cfg div ec_num_islands cfg
       + (if island < ec_population_size cfg mod ec_num_islands cfg then 1 else 0)"

text \<open>\<^verbatim>\<open>_candidates\<close>: the records of the given ids, unknown ids skipped.\<close>

definition candidates_of :: "candidate list \<Rightarrow> string list \<Rightarrow> candidate list" where
  "candidates_of records ids = List.map_filter (\<lambda>i. find (\<lambda>c. ca_id c = i) records) ids"

text \<open>The two loops that fill an island up to its capacity with candidates not yet selected.\<close>

fun fill_up :: "nat \<Rightarrow> candidate list \<Rightarrow> candidate list \<Rightarrow> candidate list" where
  "fill_up cap selected [] = selected"
| "fill_up cap selected (c # cs) =
     (if cap \<le> length selected then selected
      else if ca_id c \<in> ca_id ` set selected then fill_up cap selected cs
      else fill_up cap (selected @ [c]) cs)"

definition trim_island :: "selection_env \<Rightarrow> candidate list \<Rightarrow> candidate list \<Rightarrow> nat \<Rightarrow> string list \<Rightarrow> string list" where
  "trim_island e records all_active island ids =
     (let candidates = candidates_of records ids;
          valids = filter valid (rank (se_source e) candidates all_active);
          cap = capacity (se_config e) island
      in map ca_id (fill_up cap (fill_up cap (take 1 valids) (family_elites e candidates all_active)) valids))"

definition trim :: "selection_env \<Rightarrow> candidate list \<Rightarrow> string list list \<Rightarrow> string list list" where
  "trim e records active =
     (let all_active = candidates_of records (concat active) in
      map (\<lambda>(island, ids). trim_island e records all_active island ids) (zip [0..<length active] active))"

section \<open>Parents and inspirations\<close>

definition parent_pool :: "selection_env \<Rightarrow> candidate list \<Rightarrow> string list list \<Rightarrow> nat \<Rightarrow> candidate list" where
  "parent_pool e records active island =
     (let all_active = candidates_of records (concat active);
          own = candidates_of records (active ! island);
          candidates = (if own = [] then all_active else own);
          ranked = rank (se_source e) candidates all_active;
          chosen = family_elites e candidates all_active
      in if chosen = [] then take 3 ranked
         else take 3 (chosen @ filter (\<lambda>c. ca_id c \<notin> ca_id ` set chosen) (filter valid ranked)))"

text \<open>\<open>pick\<close> is \<^verbatim>\<open>self.rng.choice\<close> on a non-empty list.\<close>

definition select_parent ::
  "selection_env \<Rightarrow> (candidate list \<Rightarrow> candidate) \<Rightarrow> candidate list \<Rightarrow> string list list \<Rightarrow> nat \<Rightarrow> candidate option" where
  "select_parent e pick records active island =
     (let pool = parent_pool e records active island in if pool = [] then None else Some (pick pool))"

definition inspiration_key ::
  "selection_env \<Rightarrow> candidate option \<Rightarrow> candidate list \<Rightarrow> string list \<Rightarrow> candidate
     \<Rightarrow> bool \<times> bool \<times> bool \<times> rat \<times> rat \<times> string" where
  "inspiration_key e parent selected families c =
     (let family = candidate_family (se_problem e) c;
          parent_family = (case parent of None \<Rightarrow> None | Some p \<Rightarrow> candidate_family (se_problem e) p);
          other = (family \<noteq> None \<and> family \<noteq> parent_family);
          fresh = (family \<noteq> None \<and> family \<notin> Some ` set families)
      in (other \<and> fresh, other, fresh,
          novelty (se_source e) c ((case parent of None \<Rightarrow> [] | Some p \<Rightarrow> [p]) @ selected), score c, ca_id c))"

text \<open>The loop \<^verbatim>\<open>while remaining and len(selected) < 2\<close>.\<close>

function inspire ::
  "selection_env \<Rightarrow> candidate option \<Rightarrow> candidate list \<Rightarrow> string list \<Rightarrow> candidate list \<Rightarrow> candidate list" where
  "inspire e parent selected families remaining =
     (if remaining = [] \<or> 2 \<le> length selected then selected
      else
        let chosen = hd (sort_desc (inspiration_key e parent selected families) remaining);
            families' = (case candidate_family (se_problem e) chosen of None \<Rightarrow> families | Some f \<Rightarrow> f # families)
        in inspire e parent (selected @ [chosen]) families' (filter (\<lambda>c. ca_id c \<noteq> ca_id chosen) remaining))"
  by pat_completeness auto
termination by (relation "measure (\<lambda>(e, p, selected, f, r). 2 - length selected)") auto

declare inspire.simps [simp del]

definition inspirations ::
  "selection_env \<Rightarrow> candidate list \<Rightarrow> string list list \<Rightarrow> nat \<Rightarrow> candidate option \<Rightarrow> candidate list" where
  "inspirations e records active island parent =
     (let others = (\<lambda>c. case parent of None \<Rightarrow> True | Some p \<Rightarrow> ca_id c \<noteq> ca_id p);
          near = concat (map (\<lambda>other. filter others (candidates_of records (active ! other)))
                     (filter (\<lambda>other. other \<noteq> island) [0..<length active]));
          candidates = (if near = [] then filter others (candidates_of records (concat active)) else near);
          valids = filter valid candidates
      in inspire e parent [] [] (if valids = [] then candidates else valids))"

section \<open>Migration\<close>

text \<open>
  \<^verbatim>\<open>int(capacity * rate)\<close> for a capacity of at least one and a rate of at most one: the product of
  the doubles is rounded to 53 bits, ties to even, before it is truncated.  Below one the result
  is irrelevant, because \<^verbatim>\<open>max(1, ...)\<close> follows.
\<close>

fun bit_count :: "nat \<Rightarrow> nat" where
  "bit_count n = (if n = 0 then 0 else Suc (bit_count (n div 2)))"

declare bit_count.simps [simp del]

definition round_half_even :: "rat \<Rightarrow> int" where
  "round_half_even x =
     (let f = \<lfloor>x\<rfloor>; d = x - of_int f in
      if d < 1 / 2 then f else if 1 / 2 < d then f + 1 else if even f then f else f + 1)"

definition scaled_int :: "nat \<Rightarrow> rat \<Rightarrow> nat" where
  "scaled_int cap rate =
     (let x = of_nat cap * rate in
      if x < 1 then 0
      else let unit = 2 ^ (53 - bit_count (nat \<lfloor>x\<rfloor>)) in nat \<lfloor>of_int (round_half_even (x * unit)) / (unit :: rat)\<rfloor>)"

definition migration_count :: "evolution_config \<Rightarrow> nat" where
  "migration_count cfg = max 1 (scaled_int (capacity cfg 0) (num_val (ec_migration_rate cfg)))"

definition moves_of :: "selection_env \<Rightarrow> candidate list \<Rightarrow> string list list \<Rightarrow> nat \<Rightarrow> (nat \<times> string) list" where
  "moves_of e records active source =
     (if 1 < length (active ! source)
      then map (\<lambda>c. ((source + 1) mod length active, ca_id c))
             (take (migration_count (se_config e))
                (rank (se_source e) (candidates_of records (active ! source)) (candidates_of records (concat active))))
      else [])"

definition move_candidate :: "nat \<times> string \<Rightarrow> string list list \<Rightarrow> string list list" where
  "move_candidate = (\<lambda>(target, cid) active.
     let without = map (removeAll cid) active in without[target := without ! target @ [cid]])"

definition migrate :: "selection_env \<Rightarrow> candidate list \<Rightarrow> string list list \<Rightarrow> nat \<Rightarrow> bool \<times> string list list" where
  "migrate e records active iteration =
     (let cfg = se_config e in
      if ec_num_islands cfg \<le> 1 \<or> ec_migration_interval cfg = 0 then (False, active)
      else if iteration mod ec_migration_interval cfg \<noteq> 0 \<or> num_val (ec_migration_rate cfg) \<le> 0 then (False, active)
      else
        let moves = concat (map (moves_of e records active) [0..<length active])
        in (moves \<noteq> [], trim e records (fold move_candidate moves active)))"

end
