(* ===== verification/PopulationRun.thy ===== *)
theory PopulationRun imports Population begin

text \<open>
  The durable side of \<^verbatim>\<open>PopulationStrategy\<close>: the state object of \<^verbatim>\<open>state.json\<close>, the offspring journal,
  offspring batches, the replay of a checkpoint and the main loop.  The archive holds what the code
  reads back: the candidate records, the journal and the last state object written.  File-system
  failures, size limits of the files and the stage callback's exceptions are left out; \<open>sha256\<close> is the
  hexadecimal digest of a text, and what the generator, the evaluator and \<^verbatim>\<open>_persist\<close> make of an
  attempt is the reply of the environment.
\<close>

section \<open>The archive and its environment\<close>

record offspring_outcome =
  oo_iteration :: nat
  oo_attempt :: nat
  oo_island :: nat
  oo_code :: string
  oo_candidate :: "string option"

record archive =
  av_records :: "candidate list"
  av_outcomes :: "offspring_outcome list"
  av_state :: "(string \<times> json) list"

record strategy_env =
  sv_selection :: selection_env
  sv_sha256 :: "string \<Rightarrow> string"
  sv_contract :: string
  sv_authority :: json
  sv_seeded :: bool

abbreviation sv_config :: "strategy_env \<Rightarrow> evolution_config" where
  "sv_config e \<equiv> se_config (sv_selection e)"

definition outcome_codes :: "string list" where
  "outcome_codes = [''evaluated'', ''candidate_failed'', ''evaluator_timeout'', ''worker_unknown'', ''run_failed'']"

definition evolution_id :: "json \<Rightarrow> string \<Rightarrow> string result" where
  "evolution_id v name =
     (case v of JStr s \<Rightarrow> if is_safe_id s then Inr s else Inl (EvolutionError (name @ '' must be a safe identifier''))
      | _ \<Rightarrow> Inl (EvolutionError (name @ '' must be a safe identifier'')))"

definition ranged_int :: "json \<Rightarrow> int \<Rightarrow> int \<Rightarrow> string \<Rightarrow> nat result" where
  "ranged_int v least bound message =
     (case v of JInt n \<Rightarrow> if least \<le> n \<and> n < bound then Inr (nat n) else Inl (ValueError message)
      | _ \<Rightarrow> Inl (ValueError message))"

definition outcome_init :: "json \<Rightarrow> json \<Rightarrow> json \<Rightarrow> json \<Rightarrow> json \<Rightarrow> json \<Rightarrow> offspring_outcome result" where
  "outcome_init schema iteration attempt island code cid =
     bindE (guardE (schema \<noteq> JStr ''1'') (ValueError ''offspring outcome schema is unsupported'')) (\<lambda>_.
     bindE (case iteration of JInt n \<Rightarrow> if 1 \<le> n then Inr (nat n) else Inl (ValueError ''offspring outcome iteration is invalid'')
            | _ \<Rightarrow> Inl (ValueError ''offspring outcome iteration is invalid'')) (\<lambda>i.
     bindE (ranged_int attempt 0 256 ''offspring outcome attempt is invalid'') (\<lambda>a.
     bindE (ranged_int island 0 64 ''offspring outcome island is invalid'') (\<lambda>l.
     bindE (member_of code outcome_codes (ValueError ''offspring outcome code is invalid'')) (\<lambda>_.
     bindE (if code = JStr ''evaluated''
            then bindE (evolution_id cid ''offspring outcome candidate_id'') (\<lambda>s. Inr (Some s))
            else if cid \<noteq> JNull then Inl (ValueError ''failed offspring outcome must not claim a candidate'')
            else Inr None) (\<lambda>c.
     Inr \<lparr>oo_iteration = i, oo_attempt = a, oo_island = l, oo_code = str_of code, oo_candidate = c\<rparr>))))))"

definition outcome_to_dict :: "offspring_outcome \<Rightarrow> json" where
  "outcome_to_dict u = JObj [(''schema_version'', JStr ''1''), (''iteration'', JInt (int (oo_iteration u))),
     (''attempt'', JInt (int (oo_attempt u))), (''island_id'', JInt (int (oo_island u))),
     (''code'', JStr (oo_code u)), (''candidate_id'', opt_json (oo_candidate u))]"

definition outcome_from_dict :: "json \<Rightarrow> offspring_outcome result" where
  "outcome_from_dict value =
     (case value of
        JObj items \<Rightarrow>
          if fst ` set items = {''schema_version'', ''iteration'', ''attempt'', ''island_id'', ''code'', ''candidate_id''}
          then outcome_init (getn items ''schema_version'') (getn items ''iteration'') (getn items ''attempt'')
                 (getn items ''island_id'') (getn items ''code'') (getn items ''candidate_id'')
          else Inl (ValueError ''offspring outcome record is invalid'')
      | _ \<Rightarrow> Inl (ValueError ''offspring outcome record is invalid''))"

definition append_outcome :: "offspring_outcome \<Rightarrow> archive \<Rightarrow> archive result" where
  "append_outcome u a =
     bindE (guardE (\<exists>v\<in>set (av_outcomes a). oo_iteration v = oo_iteration u \<and> oo_attempt v = oo_attempt u)
              (EvolutionError ''population_outcome_duplicate'')) (\<lambda>_.
     Inr (a\<lparr>av_outcomes := av_outcomes a @ [u]\<rparr>))"

text \<open>\<^verbatim>\<open>next_id\<close>: one more than the largest number of the ids \<^verbatim>\<open>candidate-<digits>\<close>, four digits at least.\<close>

definition candidate_number :: "string \<Rightarrow> nat option" where
  "candidate_number s =
     (if starts_with ''candidate-'' s
      then let ds = drop 10 s in if ds \<noteq> [] \<and> (\<forall>c\<in>set ds. is_digit c) then Some (digits_val ds) else None
      else None)"

definition pad4 :: "string \<Rightarrow> string" where
  "pad4 s = replicate (4 - length s) CHR ''0'' @ s"

definition next_id :: "archive \<Rightarrow> string" where
  "next_id a = ''candidate-'' @ pad4 (show_nat (Max (insert 0 (set (List.map_filter (\<lambda>c. candidate_number (ca_id c)) (av_records a)))) + 1))"

section \<open>Digests\<close>

definition outcome_digest :: "strategy_env \<Rightarrow> offspring_outcome list \<Rightarrow> string" where
  "outcome_digest e us =
     sv_sha256 e (canonical (JArr (map outcome_to_dict (sort_key (\<lambda>u. (oo_iteration u, oo_attempt u)) us))))"

definition candidate_digest :: "strategy_env \<Rightarrow> candidate list \<Rightarrow> string" where
  "candidate_digest e cs = sv_sha256 e (canonical (JArr (map candidate_to_dict (sort_key ca_id cs))))"

definition archive_digest :: "strategy_env \<Rightarrow> archive \<Rightarrow> string" where
  "archive_digest e a =
     sv_sha256 e (canonical (JArr (map candidate_to_dict (filter (\<lambda>c. \<not> is_seed_candidate c) (av_records a)))))"

section \<open>Writing the state\<close>

fun put_item :: "string \<Rightarrow> json \<Rightarrow> (string \<times> json) list \<Rightarrow> (string \<times> json) list" where
  "put_item k v [] = [(k, v)]"
| "put_item k v ((k', v') # d) = (if k = k' then (k, v) # d else (k', v') # put_item k v d)"

definition has_key :: "(string \<times> json) list \<Rightarrow> string \<Rightarrow> bool" where
  "has_key d k \<longleftrightarrow> map_of d k \<noteq> None"

definition carried_fields :: "string list" where
  "carried_fields = [''outcome_schema_version'', ''outcome_start_iteration'', ''outcome_watermark'',
     ''outcome_watermark_sha256'', ''outcome_archive_baseline_sha256'', ''failed_offspring_iteration'',
     ''failed_offspring_sha256'']"

definition state_payload ::
  "strategy_env \<Rightarrow> archive \<Rightarrow> string \<Rightarrow> nat \<Rightarrow> (string \<times> json) list \<Rightarrow> (string \<times> json) list" where
  "state_payload e a status iteration extra =
     (let existing = av_state a;
          base = [(''schema_version'', JStr ''1''), (''strategy'', JStr ''population''), (''status'', JStr status),
                  (''iteration'', JInt (int iteration)), (''contract_sha256'', JStr (sv_contract e)),
                  (''config'', config_to_dict (sv_sha256 e) (sv_config e))] @ extra;
          marked = (if \<not> sv_seeded e \<or> has_key extra ''pending_offspring''
                      \<or> getn existing ''candidate_integrity_schema_version'' = JStr ''1''
                      \<or> (\<exists>c\<in>set (av_records a). \<not> is_seed_candidate c)
                    then base @ [(''candidate_integrity_schema_version'', JStr ''1''),
                                 (''candidate_integrity_authority'', sv_authority e),
                                 (''candidate_archive_sha256'', JStr (archive_digest e a))]
                    else base);
          seeded = (if getn existing ''seed_admission'' = JNull then marked
                    else put_item ''seed_admission'' (getn existing ''seed_admission'') marked)
      in fold (\<lambda>k d. case map_of existing k of None \<Rightarrow> d | Some v \<Rightarrow> if has_key d k then d else put_item k v d)
           carried_fields seeded)"

definition write_state ::
  "strategy_env \<Rightarrow> string \<Rightarrow> nat \<Rightarrow> (string \<times> json) list \<Rightarrow> archive \<Rightarrow> archive" where
  "write_state e status iteration extra a = a\<lparr>av_state := state_payload e a status iteration extra\<rparr>"

definition active_json :: "string list list \<Rightarrow> json" where
  "active_json active = JObj (map (\<lambda>(i, ids). (show_nat i, strs_json ids)) (zip [0..<length active] active))"

definition best_id :: "archive \<Rightarrow> string option" where
  "best_id a = map_option ca_id (best (av_records a))"

text \<open>The fields every snapshot of the population carries.\<close>

definition snapshot ::
  "strategy_env \<Rightarrow> archive \<Rightarrow> string list list \<Rightarrow> int \<Rightarrow> json \<Rightarrow> string option \<Rightarrow> int \<Rightarrow> (string \<times> json) list" where
  "snapshot e a active stagnation err best_candidate migration =
     [(''active_ids'', active_json active), (''stagnation'', JInt stagnation), (''error'', err),
      (''best_candidate_id'', opt_json best_candidate), (''rng_seed'', opt_int_json (ec_rng_seed (sv_config e))),
      (''last_migration_iteration'', JInt migration)]"

section \<open>The offspring journal\<close>

definition mismatch :: py_error where "mismatch = EvolutionError ''population_outcome_state_mismatch''"
definition pending_invalid :: py_error where "pending_invalid = EvolutionError ''population_pending_batch_invalid''"

definition pending_offspring :: "(string \<times> json) list \<Rightarrow> (nat \<times> nat) option result" where
  "pending_offspring state =
     (case getn state ''pending_offspring'' of
        JNull \<Rightarrow> Inr None
      | JObj p \<Rightarrow>
          if fst ` set p \<noteq> {''schema_version'', ''iteration'', ''attempt_count''} then Inl pending_invalid
          else (case (getn p ''schema_version'', getn p ''iteration'', getn p ''attempt_count'') of
                  (JStr v, JInt i, JInt n) \<Rightarrow>
                    if v = ''1'' \<and> 1 \<le> i \<and> 1 \<le> n \<and> n \<le> 256 then Inr (Some (nat i, nat n)) else Inl pending_invalid
                | _ \<Rightarrow> Inl pending_invalid)
      | _ \<Rightarrow> Inl pending_invalid)"

definition binding_fields :: "string list" where
  "binding_fields = [''outcome_schema_version'', ''outcome_start_iteration'', ''outcome_watermark'',
     ''outcome_watermark_sha256'', ''outcome_archive_baseline_sha256'']"

text \<open>States written before the journal existed: no binding field.\<close>

definition unbound_ok ::
  "(string \<times> json) list \<Rightarrow> (nat \<times> nat) option \<Rightarrow> candidate list \<Rightarrow> offspring_outcome list \<Rightarrow> bool" where
  "unbound_ok state pending records outcomes \<longleftrightarrow>
     (let current = jget_default state ''iteration'' (JInt 0);
          modern = (getn state ''candidate_integrity_schema_version'' = JStr ''1'');
          required = modern \<and>
            (has_key state ''seed_admission''
             \<or> (case current of JInt n \<Rightarrow> 0 < n | _ \<Rightarrow> False)
             \<or> (\<exists>c\<in>set records. 0 < ca_iteration c)
             \<or> getn state ''status'' \<in> {JStr ''completed'', JStr ''stagnated''}
             \<or> (getn state ''status'' = JStr ''failed'' \<and> getn state ''error'' = JStr ''offspring_batch_failed''))
      in outcomes = [] \<and> pending = None \<and> getn state ''failed_offspring_iteration'' = JNull
         \<and> getn state ''failed_offspring_sha256'' = JNull \<and> \<not> required
         \<and> (case current of JInt n \<Rightarrow> 0 \<le> n \<and> (\<forall>c\<in>set records. int (ca_iteration c) \<le> n) | _ \<Rightarrow> False))"

text \<open>The typed binding of a state: current iteration, first journalled iteration, the two digests.\<close>

definition binding_of :: "(string \<times> json) list \<Rightarrow> (nat \<times> nat \<times> string \<times> string) option" where
  "binding_of state =
     (case (jget_default state ''iteration'' (JInt 0), getn state ''outcome_start_iteration'',
            getn state ''outcome_watermark'', getn state ''outcome_watermark_sha256'',
            getn state ''outcome_archive_baseline_sha256'') of
        (JInt current, JInt start, JInt watermark, JStr wd, JStr bd) \<Rightarrow>
          if getn state ''outcome_schema_version'' = JStr ''1'' \<and> 0 \<le> current \<and> 1 \<le> start
             \<and> watermark = current \<and> start \<le> watermark + 1 \<and> is_hex64 wd \<and> is_hex64 bd
          then Some (nat current, nat start, wd, bd) else None
      | _ \<Rightarrow> None)"

text \<open>The failed batch of a state: None when the fields are ill-formed.\<close>

definition failed_batch :: "(string \<times> json) list \<Rightarrow> nat \<Rightarrow> (nat \<times> string) option option" where
  "failed_batch state current =
     (case (getn state ''failed_offspring_iteration'', getn state ''failed_offspring_sha256'') of
        (JNull, JNull) \<Rightarrow> Some None
      | (JInt n, JStr d) \<Rightarrow>
          if getn state ''status'' = JStr ''failed'' \<and> n = int current + 1 \<and> is_hex64 d then Some (Some (nat n, d)) else None
      | _ \<Rightarrow> None)"

definition pending_ok :: "strategy_env \<Rightarrow> (string \<times> json) list \<Rightarrow> nat \<Rightarrow> (nat \<times> nat) option \<Rightarrow> bool \<Rightarrow> bool" where
  "pending_ok e state current pending no_failed \<longleftrightarrow>
     (case pending of None \<Rightarrow> True
      | Some (i, n) \<Rightarrow> getn state ''status'' = JStr ''running'' \<and> no_failed \<and> i = current + 1 \<and> n = ec_offspring (sv_config e))"

definition batch_of :: "nat \<Rightarrow> offspring_outcome list \<Rightarrow> offspring_outcome list" where
  "batch_of iteration us = filter (\<lambda>u. oo_iteration u = iteration) us"

definition attempts_of :: "offspring_outcome list \<Rightarrow> nat set" where
  "attempts_of us = oo_attempt ` set us"

definition evaluated :: "offspring_outcome list \<Rightarrow> offspring_outcome list" where
  "evaluated us = filter (\<lambda>u. oo_code u = ''evaluated'') us"

definition journal_shape_ok ::
  "strategy_env \<Rightarrow> offspring_outcome list \<Rightarrow> nat \<Rightarrow> nat \<Rightarrow> (nat \<times> nat) option \<Rightarrow> (nat \<times> string) option \<Rightarrow> bool" where
  "journal_shape_ok e us current start pending failed \<longleftrightarrow>
     (let cfg = sv_config e; expected = {..<ec_offspring cfg} in
      (\<forall>u\<in>set us. start \<le> oo_iteration u \<and> oo_attempt u < ec_offspring cfg
         \<and> oo_island u = oo_attempt u mod ec_num_islands cfg)
      \<and> (\<forall>i\<in>{start..current}. attempts_of (batch_of i us) = expected \<and> evaluated (batch_of i us) \<noteq> [])
      \<and> (\<forall>i\<in>oo_iteration ` set us. current < i \<longrightarrow>
           (if pending \<noteq> None \<and> i = current + 1 then attempts_of (batch_of i us) \<subseteq> expected
            else (case failed of None \<Rightarrow> False
                  | Some (f, _) \<Rightarrow> f = i \<and> i = current + 1 \<and> attempts_of (batch_of i us) = expected
                      \<and> evaluated (batch_of i us) = [])))
      \<and> (case failed of None \<Rightarrow> True
         | Some (f, d) \<Rightarrow> attempts_of (batch_of f us) = expected \<and> evaluated (batch_of f us) = []
             \<and> outcome_digest e (batch_of f us) = d))"

definition journal_candidates_ok :: "candidate list \<Rightarrow> offspring_outcome list \<Rightarrow> nat \<Rightarrow> bool" where
  "journal_candidates_ok records us start \<longleftrightarrow>
     distinct (map oo_candidate (evaluated us))
     \<and> (\<forall>u\<in>set (evaluated us). \<exists>c\<in>set records. Some (ca_id c) = oo_candidate u \<and> ca_strategy c = ''population''
          \<and> ca_iteration c = oo_iteration u \<and> ca_island c = Some (oo_island u))
     \<and> (\<forall>c\<in>set records. ca_strategy c = ''population'' \<and> start \<le> ca_iteration c \<longrightarrow>
          Some (ca_id c) \<in> oo_candidate ` set (evaluated us))
     \<and> (\<forall>i\<in>oo_iteration ` set us.
          map (\<lambda>c. Some (ca_id c)) (filter (\<lambda>c. ca_iteration c = i) records) =
          map oo_candidate (evaluated (sort_key oo_attempt (batch_of i us))))"

definition validate_history :: "strategy_env \<Rightarrow> archive \<Rightarrow> (string \<times> json) list \<Rightarrow> unit result" where
  "validate_history e a state =
     (let us = av_outcomes a; records = av_records a in
      bindE (guardE (\<exists>c\<in>set records. ca_strategy c \<noteq> ''population'') mismatch) (\<lambda>_.
      bindE (pending_offspring state) (\<lambda>pending.
      let present = filter (has_key state) binding_fields in
      if present = [] then guardE (\<not> unbound_ok state pending records us) mismatch
      else
        bindE (guardE (present \<noteq> binding_fields) mismatch) (\<lambda>_.
        case binding_of state of
          None \<Rightarrow> Inl mismatch
        | Some (current, start, watermark_digest, baseline_digest) \<Rightarrow>
            (case failed_batch state current of
               None \<Rightarrow> Inl mismatch
             | Some failed \<Rightarrow>
                 guardE (\<not> (pending_ok e state current pending (failed = None)
                            \<and> \<not> (start = current + 1 \<and> pending = None \<and> failed = None)
                            \<and> journal_shape_ok e us current start pending failed
                            \<and> outcome_digest e (filter (\<lambda>u. start \<le> oo_iteration u \<and> oo_iteration u \<le> current) us)
                                = watermark_digest
                            \<and> candidate_digest e (filter (\<lambda>c. ca_iteration c < start) records) = baseline_digest
                            \<and> journal_candidates_ok records us start)) mismatch)))))"

end
