(* ===== verification/PopulationLoop.thy ===== *)
theory PopulationLoop imports PopulationRun begin

text \<open>
  The stateful steps of \<^verbatim>\<open>PopulationStrategy\<close>: publishing a candidate, one offspring attempt, the begin
  and the end of an offspring batch, the replay that a resumed run checks its checkpoint with, and the
  the outcome journal.  Single-file candidates only: there is no bundle pipeline.  The environment says what generating and
  evaluating a request came to (\<open>reply\<close>), when the run is cancelled, and which of the parent pool the
  random generator picks.
\<close>

section \<open>Publishing a candidate\<close>

text \<open>
  What the environment contributes to a candidate record: the evaluator's report and the paths, dates
  and digests of the files written.  Everything else is fixed by \<^verbatim>\<open>_persist\<close>.
\<close>

record published_files =
  pf_code_path :: string
  pf_evaluation :: evaluation_report
  pf_metadata :: "(string \<times> json) list"
  pf_created :: json
  pf_source_sha256 :: string
  pf_receipt_sha256 :: string
  pf_integrity :: json

text \<open>
  The outcomes of one attempt: selection or the request failed; the generator failed; \<^verbatim>\<open>_persist\<close> raised
  a fixed code before publishing; a candidate was published, and \<open>late\<close> says that the check after the
  publication raised.
\<close>

datatype reply =
    Unselected
  | No_draft
  | Rejected string
  | Published published_files bool

definition new_candidate ::
  "published_files \<Rightarrow> nat \<Rightarrow> nat \<Rightarrow> candidate option \<Rightarrow> nat \<Rightarrow> archive \<Rightarrow> candidate" where
  "new_candidate f iteration generation parent island a =
     \<lparr>ca_id = next_id a, ca_code_path = pf_code_path f, ca_parent = map_option ca_id parent,
      ca_generation = generation, ca_iteration = iteration, ca_strategy = ''population'',
      ca_island = Some island, ca_evaluation = pf_evaluation f,
      ca_metadata = pf_metadata f, ca_created = pf_created f,
      ca_source_sha256 = Some (pf_source_sha256 f), ca_receipt_sha256 = Some (pf_receipt_sha256 f),
      ca_integrity = Some (pf_integrity f), ca_bundle = None\<rparr>"

text \<open>\<^verbatim>\<open>_validate_ordinary_metadata\<close>: the marker of imported seeds is reserved.\<close>

definition ordinary_metadata :: "published_files \<Rightarrow> bool" where
  "ordinary_metadata f \<longleftrightarrow> ''seed_handoff'' \<notin> set (map fst (pf_metadata f))"

definition publish ::
  "published_files \<Rightarrow> nat \<Rightarrow> nat \<Rightarrow> candidate option \<Rightarrow> nat \<Rightarrow> archive \<Rightarrow> archive" where
  "publish f iteration generation parent island a =
     a\<lparr>av_records := av_records a @ [new_candidate f iteration generation parent island a]\<rparr>"

section \<open>One offspring attempt\<close>

text \<open>What the generator is given.\<close>

record generation_request =
  gq_iteration :: nat
  gq_parent :: "candidate option"
  gq_inspirations :: "candidate list"
  gq_archive :: "candidate list"
  gq_candidate_id :: string

record run_env =
  rn_strategy :: strategy_env
  rn_pick :: "candidate list \<Rightarrow> candidate"
  rn_reply :: "nat \<Rightarrow> generation_request \<Rightarrow> reply"
  rn_cancelled :: "nat \<Rightarrow> nat \<Rightarrow> bool"

abbreviation rn_config :: "run_env \<Rightarrow> evolution_config" where
  "rn_config r \<equiv> sv_config (rn_strategy r)"

definition outcome_of :: "nat \<Rightarrow> nat \<Rightarrow> nat \<Rightarrow> string \<Rightarrow> string option \<Rightarrow> offspring_outcome" where
  "outcome_of iteration attempt island code cid =
     \<lparr>oo_iteration = iteration, oo_attempt = attempt, oo_island = island, oo_code = code, oo_candidate = cid\<rparr>"

definition request_of ::
  "run_env \<Rightarrow> nat \<Rightarrow> candidate option \<Rightarrow> candidate list \<Rightarrow> archive \<Rightarrow> generation_request" where
  "request_of r iteration parent inspired a =
     \<lparr>gq_iteration = iteration, gq_parent = parent, gq_inspirations = inspired, gq_archive = av_records a,
      gq_candidate_id = next_id a\<rparr>"

definition attempt_offspring ::
  "run_env \<Rightarrow> string list list \<Rightarrow> nat \<Rightarrow> nat \<Rightarrow> archive \<Rightarrow> offspring_outcome \<times> archive" where
  "attempt_offspring r active iteration attempt a =
     (let e = sv_selection (rn_strategy r);
          island = attempt mod ec_num_islands (rn_config r);
          parent = select_parent e (rn_pick r) (av_records a) active island;
          inspired = inspirations e (av_records a) active island parent;
          failed = (\<lambda>code. (outcome_of iteration attempt island code None, a))
      in case rn_reply r attempt (request_of r iteration parent inspired a) of
           Unselected \<Rightarrow> failed ''run_failed''
         | No_draft \<Rightarrow> failed ''candidate_failed''
         | Rejected code \<Rightarrow>
             failed (if code \<in> set outcome_codes - {''evaluated''} then code else ''run_failed'')
         | Published f late \<Rightarrow>
             if \<not> ordinary_metadata f then failed ''candidate_failed'' else
             let a' = publish f iteration (case parent of None \<Rightarrow> 0 | Some p \<Rightarrow> ca_generation p + 1) parent island a
             in if late then (outcome_of iteration attempt island ''candidate_failed'' None, a')
                else (outcome_of iteration attempt island ''evaluated'' (Some (next_id a)), a'))"

text \<open>The loop over the attempts of a batch, each outcome journalled as soon as it is known.\<close>

fun attempt_all ::
  "run_env \<Rightarrow> string list list \<Rightarrow> nat \<Rightarrow> nat list \<Rightarrow> archive \<Rightarrow> archive result" where
  "attempt_all r active iteration [] a = Inr a"
| "attempt_all r active iteration (k # ks) a =
     (case attempt_offspring r active iteration k a of
        (u, a') \<Rightarrow> bindE (append_outcome u a') (attempt_all r active iteration ks))"

section \<open>Beginning a batch\<close>

definition state_int :: "(string \<times> json) list \<Rightarrow> string \<Rightarrow> int result" where
  "state_int state k = py_int (jget_default state k (JInt 0))"

definition pending_item :: "nat \<Rightarrow> nat \<Rightarrow> json" where
  "pending_item iteration attempts =
     JObj [(''schema_version'', JStr ''1''), (''iteration'', JInt (int iteration)), (''attempt_count'', JInt (int attempts))]"

definition binding_items :: "json \<Rightarrow> nat \<Rightarrow> json \<Rightarrow> json \<Rightarrow> (string \<times> json) list" where
  "binding_items start watermark watermark_digest baseline =
     [(''outcome_schema_version'', JStr ''1''), (''outcome_start_iteration'', start),
      (''outcome_watermark'', JInt (int watermark)), (''outcome_watermark_sha256'', watermark_digest),
      (''outcome_archive_baseline_sha256'', baseline)]"

definition before :: "json \<Rightarrow> candidate \<Rightarrow> bool" where
  "before start c \<longleftrightarrow> (case start of JInt n \<Rightarrow> int (ca_iteration c) < n | _ \<Rightarrow> False)"

definition begin_batch ::
  "strategy_env \<Rightarrow> (string \<times> json) list \<Rightarrow> string list list \<Rightarrow> archive \<Rightarrow> archive result" where
  "begin_batch e state active a =
     bindE (validate_history e a state) (\<lambda>_.
     bindE (pending_offspring state) (\<lambda>pending.
     bindE (guardE (pending \<noteq> None) pending_invalid) (\<lambda>_.
     bindE (state_int state ''iteration'') (\<lambda>current.
     let target = nat (current + 1) in
     bindE (guardE (\<exists>u\<in>set (av_outcomes a). oo_iteration u = target) mismatch) (\<lambda>_.
     let start = jget_default state ''outcome_start_iteration'' (JInt (int target));
         watermark_digest = jget_default state ''outcome_watermark_sha256'' (JStr (outcome_digest e []));
         baseline = jget_default state ''outcome_archive_baseline_sha256''
                      (JStr (candidate_digest e (filter (before start) (av_records a)))) in
     bindE (state_int state ''stagnation'') (\<lambda>stagnation.
     bindE (state_int state ''last_migration_iteration'') (\<lambda>migration.
     Inr (write_state e ''running'' (target - 1)
            (snapshot e a active stagnation JNull (best_id a) migration
             @ [(''pending_offspring'', pending_item target (ec_offspring (sv_config e)))]
             @ binding_items start (target - 1) watermark_digest baseline) a))))))))"

section \<open>Ending a batch\<close>

definition best_score :: "candidate list \<Rightarrow> rat option" where
  "best_score cs = (if cs = [] then None else Some (Max (score ` set cs)))"

text \<open>\<^verbatim>\<open>current is not None and (previous is None or current > previous)\<close>.\<close>

definition improved :: "rat option \<Rightarrow> rat option \<Rightarrow> bool" where
  "improved previous current =
     (case current of None \<Rightarrow> False | Some c \<Rightarrow> (case previous of None \<Rightarrow> True | Some p \<Rightarrow> p < c))"

definition batch_consistent :: "candidate list \<Rightarrow> nat \<Rightarrow> nat \<Rightarrow> offspring_outcome list \<Rightarrow> bool" where
  "batch_consistent records current target us \<longleftrightarrow>
     distinct (map oo_candidate us)
     \<and> (\<forall>u\<in>set us. \<exists>c\<in>set records. Some (ca_id c) = oo_candidate u \<and> ca_strategy c = ''population''
          \<and> ca_iteration c = target \<and> ca_island c = Some (oo_island u))
     \<and> (\<lambda>c. Some (ca_id c)) ` {c \<in> set records. ca_strategy c = ''population'' \<and> current < ca_iteration c}
         = oo_candidate ` set us"

definition admit :: "offspring_outcome \<Rightarrow> string list list \<Rightarrow> string list list result" where
  "admit u active =
     (case oo_candidate u of
        None \<Rightarrow> Inl (RuntimeError ''AssertionError'')
      | Some cid \<Rightarrow>
          if cid \<in> set (concat active) then Inl mismatch
          else if oo_island u < length active
               then Inr (active[oo_island u := active ! oo_island u @ [cid]])
               else Inl (KeyError (show_nat (oo_island u))))"

definition fail_batch ::
  "strategy_env \<Rightarrow> (string \<times> json) list \<Rightarrow> string list list \<Rightarrow> nat \<Rightarrow> nat \<Rightarrow> offspring_outcome list \<Rightarrow> int
     \<Rightarrow> archive \<Rightarrow> archive result" where
  "fail_batch e state active current target us migration a =
     bindE (state_int state ''stagnation'') (\<lambda>stagnation.
     Inr (write_state e ''failed'' current
            (snapshot e a active stagnation (JStr ''offspring_batch_failed'') (best_id a) migration
             @ binding_items (getn state ''outcome_start_iteration'') current
                 (getn state ''outcome_watermark_sha256'') (getn state ''outcome_archive_baseline_sha256'')
             @ [(''failed_offspring_iteration'', JInt (int target)),
                (''failed_offspring_sha256'', JStr (outcome_digest e us))]) a))"

definition journalled :: "json \<Rightarrow> nat \<Rightarrow> offspring_outcome \<Rightarrow> bool" where
  "journalled start target u \<longleftrightarrow>
     (case start of JInt n \<Rightarrow> n \<le> int (oo_iteration u) \<and> oo_iteration u \<le> target | _ \<Rightarrow> False)"

definition advance_batch ::
  "strategy_env \<Rightarrow> (string \<times> json) list \<Rightarrow> string list list \<Rightarrow> nat \<Rightarrow> nat \<Rightarrow> offspring_outcome list \<Rightarrow> int
     \<Rightarrow> archive \<Rightarrow> (archive \<times> string list list) result" where
  "advance_batch e state active current target us migration a =
     (let records = av_records a;
          previous = best_score (filter (\<lambda>c. ca_iteration c \<le> current \<and> valid c) records) in
      bindE (foldE admit (evaluated us) active) (\<lambda>admitted.
      let (migrated, active') = migrate (sv_selection e) records (trim (sv_selection e) records admitted) target;
          migration' = (if migrated then int target else migration) in
      bindE (state_int state ''stagnation'') (\<lambda>stagnation.
      let stagnation' = (if improved previous (map_option score (best records)) then 0 else stagnation + 1);
          start = getn state ''outcome_start_iteration'' in
      Inr (write_state e ''running'' target
             (snapshot e a active' stagnation'
                (if length (evaluated us) = length us then JNull else JStr ''offspring_attempt_failed'')
                (best_id a) migration'
              @ binding_items start target
                  (JStr (outcome_digest e (filter (journalled start target) (av_outcomes a))))
                  (getn state ''outcome_archive_baseline_sha256'')) a, active'))))"

definition finish_batch ::
  "strategy_env \<Rightarrow> (string \<times> json) list \<Rightarrow> string list list \<Rightarrow> archive \<Rightarrow> (archive \<times> string list list) result" where
  "finish_batch e state active a =
     bindE (validate_history e a state) (\<lambda>_.
     bindE (pending_offspring state) (\<lambda>pending.
     case pending of
       None \<Rightarrow> Inl pending_invalid
     | Some (target, attempts) \<Rightarrow>
         let us = sort_key oo_attempt (batch_of target (av_outcomes a)) in
         bindE (guardE (map oo_attempt us \<noteq> [0..<attempts]) (EvolutionError ''population_iteration_incomplete'')) (\<lambda>_.
         bindE (state_int state ''iteration'') (\<lambda>current.
         bindE (guardE (\<not> batch_consistent (av_records a) (nat current) target (evaluated us)) mismatch) (\<lambda>_.
         bindE (state_int state ''last_migration_iteration'') (\<lambda>migration.
         if evaluated us = []
         then bindE (fail_batch e state active (nat current) target us migration a) (\<lambda>a'. Inr (a', active))
         else advance_batch e state active (nat current) target us migration a))))))"

definition resume_batch ::
  "strategy_env \<Rightarrow> (string \<times> json) list \<Rightarrow> string list list \<Rightarrow> archive \<Rightarrow> (archive \<times> string list list) result" where
  "resume_batch e state active a =
     bindE (validate_history e a state) (\<lambda>_.
     bindE (pending_offspring state) (\<lambda>pending.
     case pending of
       None \<Rightarrow> Inr (a, active)
     | Some (target, attempts) \<Rightarrow>
         if length (batch_of target (av_outcomes a)) \<noteq> attempts
         then Inl (EvolutionError ''population_iteration_incomplete'')
         else finish_batch e state active a))"

end
