(* ===== verification/Replay.thy ===== *)
theory Replay imports PopulationLoop begin

text \<open>
  What a resumed population run checks before it goes on: \<^verbatim>\<open>_reconstruct_population_projection\<close> replays
  the archive, \<^verbatim>\<open>_validate_reconstructed_status\<close> and \<^verbatim>\<open>_active\<close> compare the stored checkpoint with
  it.
\<close>

section \<open>Replaying the archive\<close>

definition projection_mismatch :: py_error where
  "projection_mismatch = EvolutionError ''population state projection mismatch''"

definition is_population :: "candidate \<Rightarrow> bool" where
  "is_population c \<longleftrightarrow> ca_strategy c = ''population''"

definition place :: "candidate \<Rightarrow> string list list \<Rightarrow> string list list result" where
  "place c active =
     (case ca_island c of
        None \<Rightarrow> Inl projection_mismatch
      | Some i \<Rightarrow> if i < length active then Inr (active[i := active ! i @ [ca_id c]]) else Inl projection_mismatch)"

definition place_seed :: "evolution_config \<Rightarrow> candidate \<Rightarrow> string list list \<Rightarrow> string list list result" where
  "place_seed cfg c active =
     (case ca_island c of
        None \<Rightarrow> Inl projection_mismatch
      | Some i \<Rightarrow>
          if \<not> is_population c \<or> \<not> valid c \<or> length active \<le> i \<or> capacity cfg i \<le> length (active ! i)
          then Inl projection_mismatch else place c active)"

text \<open>The replayed state: active population, best score so far, last migration, stagnation.\<close>

type_synonym projection = "string list list \<times> rat option \<times> int \<times> int"

definition scores_at :: "(candidate \<Rightarrow> bool) \<Rightarrow> candidate list \<Rightarrow> candidate list" where
  "scores_at P records = filter (\<lambda>c. is_population c \<and> P c \<and> valid c) records"

definition empty_active :: "evolution_config \<Rightarrow> string list list" where
  "empty_active cfg = replicate (ec_num_islands cfg) []"

definition replay_start :: "selection_env \<Rightarrow> candidate list \<Rightarrow> projection result" where
  "replay_start e records =
     (let seeds = filter is_seed_candidate records;
          initial = filter (\<lambda>c. is_population c \<and> \<not> is_seed_candidate c \<and> ca_iteration c = 0) records;
          cfg = se_config e in
      bindE (guardE (seeds \<noteq> [] \<and> initial \<noteq> []) projection_mismatch) (\<lambda>_.
      bindE (if seeds \<noteq> [] then foldE (place_seed cfg) (sort_key ca_id seeds) (empty_active cfg)
             else bindE (foldE place initial (empty_active cfg)) (\<lambda>active. Inr (trim e records active))) (\<lambda>active.
      Inr (active, best_score (scores_at (\<lambda>c. ca_iteration c = 0) records), 0, 0))))"

definition replay_batch :: "candidate list \<Rightarrow> nat \<Rightarrow> candidate list" where
  "replay_batch records i =
     filter (\<lambda>c. is_population c \<and> \<not> is_seed_candidate c \<and> ca_iteration c = i) records"

definition max_score :: "rat option \<Rightarrow> rat option \<Rightarrow> rat option" where
  "max_score x y = (case x of None \<Rightarrow> y | Some a \<Rightarrow> (case y of None \<Rightarrow> Some a | Some b \<Rightarrow> Some (max a b)))"

definition replay_iteration ::
  "selection_env \<Rightarrow> candidate list \<Rightarrow> nat \<Rightarrow> projection \<Rightarrow> projection result" where
  "replay_iteration e records i =
     (\<lambda>(active, best_so_far, migration, stagnation).
        let batch = replay_batch records i in
        bindE (guardE (batch = []) projection_mismatch) (\<lambda>_.
        bindE (foldE place batch active) (\<lambda>placed.
        let (migrated, active') = migrate e records (trim e records placed) i;
            current = max_score (best_score (filter valid batch)) best_so_far
        in Inr (active', current, (if migrated then int i else migration),
                if improved best_so_far current then 0 else stagnation + 1))))"

definition visible_best :: "candidate list \<Rightarrow> nat \<Rightarrow> string option" where
  "visible_best records current = map_option ca_id (max_by score (scores_at (\<lambda>c. ca_iteration c \<le> current) records))"

definition reconstruct ::
  "selection_env \<Rightarrow> (string \<times> json) list \<Rightarrow> candidate list \<Rightarrow> (string list list \<times> string option \<times> int \<times> int) result" where
  "reconstruct e state records =
     (case jget_default state ''iteration'' (JInt 0) of
        JInt n \<Rightarrow>
          bindE (guardE (n < 0) projection_mismatch) (\<lambda>_.
          bindE (replay_start e records) (\<lambda>start.
          bindE (foldE (replay_iteration e records) [1..<nat n + 1] start) (\<lambda>(active, _, migration, stagnation).
          Inr (active, visible_best records (nat n), migration, stagnation))))
      | _ \<Rightarrow> Inl projection_mismatch)"

section \<open>Status\<close>

definition status_valid ::
  "evolution_config \<Rightarrow> (string \<times> json) list \<Rightarrow> string list list \<Rightarrow> string option \<Rightarrow> int \<Rightarrow> bool" where
  "status_valid cfg state active best_candidate stagnation \<longleftrightarrow>
     (let status = getn state ''status''; iteration = getn state ''iteration''; err = getn state ''error'';
          fresh_failure = (iteration = JInt 0 \<and> best_candidate = None \<and> concat active = []
                             \<and> \<not> has_key state ''outcome_schema_version'');
          positive = (case iteration of JInt n \<Rightarrow> 0 < n | _ \<Rightarrow> False);
          below = (case iteration of JInt n \<Rightarrow> n < int (ec_max_rounds cfg) | _ \<Rightarrow> False);
          last_round = (iteration = JInt (int (ec_max_rounds cfg)));
          stale = (int (ec_stagnation_rounds cfg) \<le> stagnation) in
      if status = JStr ''running'' then
        err \<notin> {JStr ''cancelled'', JStr ''no valid candidate'', JStr ''offspring_batch_failed''}
        \<and> \<not> (fresh_failure \<and> err \<in> {JStr ''evaluator_timeout'', JStr ''worker_unknown'', JStr ''run_failed''})
      else if status = JStr ''completed'' then last_round \<and> \<not> stale \<and> best_candidate \<noteq> None
      else if status = JStr ''stagnated'' then positive \<and> stale \<and> best_candidate \<noteq> None
      else if status = JStr ''cancelled'' then below \<and> err = JStr ''cancelled''
      else if status = JStr ''failed'' then
        err \<noteq> JNull
        \<and> ((has_key state ''failed_offspring_iteration'' \<and> has_key state ''failed_offspring_sha256'')
           \<or> (fresh_failure \<and> err \<in> {JStr ''candidate_failed'', JStr ''evaluator_timeout'', JStr ''worker_unknown'',
                 JStr ''run_failed''})
           \<or> (last_round \<and> best_candidate = None)
           \<or> (positive \<and> stale \<and> best_candidate = None))
      else False)"

section \<open>Reading the active population of a checkpoint\<close>

definition parse_islands :: "evolution_config \<Rightarrow> json \<Rightarrow> string list list result" where
  "parse_islands cfg raw =
     (case raw of
        JObj d \<Rightarrow>
          if fst ` set d \<noteq> show_nat ` {..<ec_num_islands cfg}
          then Inl (EvolutionError ''population state active_ids must contain every island'')
          else mapE (\<lambda>i. case getn d (show_nat i) of
                       JArr xs \<Rightarrow> (case str_items xs of Some ids \<Rightarrow> Inr ids
                         | None \<Rightarrow> Inl (EvolutionError ''population state active_ids must contain string arrays''))
                     | _ \<Rightarrow> Inl (EvolutionError ''population state active_ids must contain string arrays''))
                 [0..<ec_num_islands cfg]
      | _ \<Rightarrow> Inl (EvolutionError ''population state active_ids must contain string arrays''))"

text \<open>\<^verbatim>\<open>PopulationState.__post_init__\<close>; the configuration it rebuilds has been checked before.\<close>

definition population_state_ok ::
  "evolution_config \<Rightarrow> int \<Rightarrow> string list list \<Rightarrow> json \<Rightarrow> int \<Rightarrow> unit result" where
  "population_state_ok cfg iteration active best_candidate migration =
     bindE (guardE (iteration < 0) (ValueError ''population iteration must be a non-negative integer'')) (\<lambda>_.
     bindE (if best_candidate = JNull then Inr [] else evolution_id best_candidate ''best_candidate_id'') (\<lambda>_.
     bindE (guardE (migration < 0) (ValueError ''last_migration_iteration must be a non-negative integer'')) (\<lambda>_.
     bindE (guardE (length active \<noteq> ec_num_islands cfg) (ValueError ''active_ids must contain one entry for every island'')) (\<lambda>_.
     bindE (guardE (ec_population_size cfg < length (concat active)) (ValueError ''active population exceeds population_size'')) (\<lambda>_.
     bindE (guardE (\<not> distinct (concat active)) (ValueError ''active candidate IDs must be unique'')) (\<lambda>_.
     guardE (\<not> list_all is_safe_id (concat active)) (EvolutionError ''active candidate id must be a safe identifier'')))))))"

definition find_record :: "candidate list \<Rightarrow> string \<Rightarrow> candidate option" where
  "find_record records i = find (\<lambda>c. ca_id c = i) records"

definition projection_agrees ::
  "strategy_env \<Rightarrow> (string \<times> json) list \<Rightarrow> string list list \<Rightarrow> candidate list \<Rightarrow> unit result" where
  "projection_agrees e state active records =
     bindE (guardE (getn state ''schema_version'' \<noteq> JStr ''1'') projection_mismatch) (\<lambda>_.
     bindE (reconstruct (sv_selection e) state records) (\<lambda>(expected, best_candidate, migration, stagnation).
     bindE (guardE (\<not> (has_key state ''best_candidate_id'' \<and> has_key state ''rng_seed''
              \<and> has_key state ''last_migration_iteration'' \<and> has_key state ''stagnation'')) projection_mismatch) (\<lambda>_.
     guardE (\<not> (active = expected \<and> getn state ''best_candidate_id'' = opt_json best_candidate
                \<and> getn state ''rng_seed'' = opt_int_json (ec_rng_seed (sv_config e))
                \<and> getn state ''last_migration_iteration'' = JInt migration
                \<and> getn state ''stagnation'' = JInt stagnation
                \<and> status_valid (sv_config e) state active best_candidate stagnation)) projection_mismatch)))"

definition pending_incomplete :: "(string \<times> json) list \<Rightarrow> offspring_outcome list \<Rightarrow> bool result" where
  "pending_incomplete state us =
     bindE (pending_offspring state) (\<lambda>p.
     Inr (case p of None \<Rightarrow> False | Some (i, n) \<Rightarrow> length (batch_of i us) < n))"

definition references_ok :: "candidate list \<Rightarrow> string list \<Rightarrow> json \<Rightarrow> unit result" where
  "references_ok records ids best_candidate =
     bindE (guardE (\<exists>i\<in>set ids. find_record records i = None)
              (EvolutionError ''population state references an unknown candidate'')) (\<lambda>_.
     bindE (guardE (\<not> list_all valid (candidates_of records ids))
              (EvolutionError ''population state references an invalid candidate'')) (\<lambda>_.
     guardE (best_candidate \<noteq> JNull
             \<and> (case find_record records (str_of best_candidate) of None \<Rightarrow> True | Some c \<Rightarrow> \<not> valid c))
       (EvolutionError ''population state best candidate is invalid'')))"

definition active_of_state :: "strategy_env \<Rightarrow> (string \<times> json) list \<Rightarrow> archive \<Rightarrow> string list list result" where
  "active_of_state e state a =
     (if state = [] then Inr (empty_active (sv_config e)) else
      bindE (parse_islands (sv_config e) (jget_default state ''active_ids'' (JObj []))) (\<lambda>active.
      bindE (state_int state ''iteration'') (\<lambda>iteration.
      bindE (state_int state ''last_migration_iteration'') (\<lambda>migration.
      bindE (population_state_ok (sv_config e) iteration active (getn state ''best_candidate_id'') migration) (\<lambda>_.
      bindE (references_ok (av_records a) (concat active) (getn state ''best_candidate_id'')) (\<lambda>_.
      if has_key state ''seed_admission'' \<and> concat active = [] then Inr active
      else if getn state ''candidate_integrity_schema_version'' \<noteq> JStr ''1'' then Inr active
      else bindE (pending_incomplete state (av_outcomes a)) (\<lambda>incomplete.
           if incomplete then Inr active
           else bindE (projection_agrees e state active (av_records a)) (\<lambda>_. Inr active))))))))"

end
