(* ===== verification/PopulationMain.thy ===== *)
theory PopulationMain imports Replay begin

text \<open>
  \<^verbatim>\<open>PopulationStrategy.run\<close> of a run without imported seeds and without a bundle pipeline: the gates a
  stored state passes before anything else happens, the initial population, the main loop and the
  result.  What the checks of one candidate's files (source, receipt, record, execution evidence) say
  is a reply of the environment, \<open>sidecars\<close>.
\<close>

section \<open>Integrity authority\<close>

record integrity_authority =
  ia_contract :: string
  ia_kind :: string
  ia_evaluator :: string
  ia_dependency :: string
  ia_environment :: string
  ia_runner :: string
  ia_generator :: string

definition integrity_invalid :: py_error where
  "integrity_invalid = EvolutionError ''ordinary_candidate_integrity_invalid''"

definition digest_of :: "json \<Rightarrow> string result" where
  "digest_of v = (case v of JStr s \<Rightarrow> if is_hex64 s then Inr s else Inl integrity_invalid | _ \<Rightarrow> Inl integrity_invalid)"

definition kind_of :: "json \<Rightarrow> string result" where
  "kind_of v = (case v of JStr s \<Rightarrow> if is_safe_id s \<and> \<not> secret_search s then Inr s else Inl integrity_invalid
                | _ \<Rightarrow> Inl integrity_invalid)"

definition authority_init ::
  "json \<Rightarrow> json \<Rightarrow> json \<Rightarrow> json \<Rightarrow> json \<Rightarrow> json \<Rightarrow> json \<Rightarrow> json \<Rightarrow> integrity_authority result" where
  "authority_init schema contract kind evaluator dependency environment runner generator =
     bindE (guardE (schema \<noteq> JStr ''1'') integrity_invalid) (\<lambda>_.
     bindE (digest_of contract) (\<lambda>c.
     bindE (digest_of evaluator) (\<lambda>ev.
     bindE (digest_of dependency) (\<lambda>d.
     bindE (digest_of environment) (\<lambda>en.
     bindE (digest_of runner) (\<lambda>r.
     bindE (digest_of generator) (\<lambda>g.
     bindE (kind_of kind) (\<lambda>k.
     Inr \<lparr>ia_contract = c, ia_kind = k, ia_evaluator = ev, ia_dependency = d, ia_environment = en,
          ia_runner = r, ia_generator = g\<rparr>))))))))"

definition authority_to_dict :: "integrity_authority \<Rightarrow> json" where
  "authority_to_dict x = JObj [(''schema_version'', JStr ''1''), (''contract_sha256'', JStr (ia_contract x)),
     (''evaluator_kind'', JStr (ia_kind x)), (''evaluator_fingerprint'', JStr (ia_evaluator x)),
     (''dependency_sha256'', JStr (ia_dependency x)), (''environment_sha256'', JStr (ia_environment x)),
     (''runner_fingerprint'', JStr (ia_runner x)), (''generator_fingerprint'', JStr (ia_generator x))]"

definition authority_fields :: "string list" where
  "authority_fields = [''schema_version'', ''contract_sha256'', ''evaluator_kind'', ''evaluator_fingerprint'',
     ''dependency_sha256'', ''environment_sha256'', ''runner_fingerprint'', ''generator_fingerprint'']"

definition authority_from_dict :: "json \<Rightarrow> integrity_authority result" where
  "authority_from_dict value =
     (case value of
        JObj d \<Rightarrow>
          if fst ` set d \<noteq> set authority_fields then Inl integrity_invalid
          else authority_init (getn d ''schema_version'') (getn d ''contract_sha256'') (getn d ''evaluator_kind'')
                 (getn d ''evaluator_fingerprint'') (getn d ''dependency_sha256'') (getn d ''environment_sha256'')
                 (getn d ''runner_fingerprint'') (getn d ''generator_fingerprint'')
      | _ \<Rightarrow> Inl integrity_invalid)"

section \<open>Lineage\<close>

definition lineage_mismatch :: py_error where
  "lineage_mismatch = EvolutionError ''ordinary_candidate_lineage_mismatch''"

definition integrity_required :: py_error where
  "integrity_required = EvolutionError ''ordinary_candidate_integrity_required''"

definition is_ordinary :: "candidate \<Rightarrow> bool" where
  "is_ordinary c \<longleftrightarrow> is_population c \<and> \<not> is_seed_candidate c"

definition complete_batch :: "int \<Rightarrow> int \<Rightarrow> (nat \<times> nat) option \<Rightarrow> offspring_outcome list \<Rightarrow> nat \<Rightarrow> bool" where
  "complete_batch start watermark pending us i \<longleftrightarrow>
     (start \<le> int i \<and> int i \<le> watermark)
     \<or> (case pending of None \<Rightarrow> False | Some (t, n) \<Rightarrow> i = t \<and> length (batch_of t us) = n)"

text \<open>\<^verbatim>\<open>_allowed_delayed_root_ids\<close> after the outcome history has been validated.\<close>

definition delayed_roots :: "(string \<times> json) list \<Rightarrow> archive \<Rightarrow> string list" where
  "delayed_roots state a =
     (if getn state ''outcome_schema_version'' \<noteq> JStr ''1'' then [] else
      case (pending_offspring state, getn state ''outcome_start_iteration'', getn state ''outcome_watermark'') of
        (Inr pending, JInt start, JInt watermark) \<Rightarrow>
          let us = av_outcomes a;
              proven = filter (\<lambda>u. complete_batch start watermark pending us (oo_iteration u)) (evaluated us)
          in map ca_id (filter (\<lambda>c. is_population c \<and> ca_parent c = None \<and> ca_generation c = 0 \<and> 0 < ca_iteration c
               \<and> (\<exists>u\<in>set proven. oo_iteration u = ca_iteration c \<and> oo_candidate u = Some (ca_id c))
               \<and> \<not> (\<exists>d\<in>set (av_records a). is_population d \<and> ca_iteration d < ca_iteration c \<and> valid d)) (av_records a))
      | _ \<Rightarrow> [])"

text \<open>The lineage of an ordinary candidate, given the records before it.\<close>

definition lineage_ok :: "string list \<Rightarrow> candidate list \<Rightarrow> candidate \<Rightarrow> bool" where
  "lineage_ok delayed seen c \<longleftrightarrow>
     ca_island c \<noteq> None
     \<and> (case ca_parent c of
          None \<Rightarrow> ca_generation c = 0 \<and> (ca_iteration c = 0 \<or> ca_id c \<in> set delayed)
        | Some pid \<Rightarrow>
            (case find_record seen pid of
               None \<Rightarrow> False
             | Some p \<Rightarrow> is_population p \<and> valid p \<and> ca_id p \<noteq> ca_id c
                 \<and> ca_generation c = ca_generation p + 1 \<and> ca_iteration p < ca_iteration c))"

fun check_records ::
  "(candidate \<Rightarrow> unit result) \<Rightarrow> string list \<Rightarrow> candidate list \<Rightarrow> candidate list \<Rightarrow> unit result" where
  "check_records sidecars delayed seen [] = Inr ()"
| "check_records sidecars delayed seen (c # cs) =
     bindE (if \<not> is_ordinary c then Inr ()
            else if ca_source_sha256 c = None \<or> ca_receipt_sha256 c = None \<or> ca_integrity c = None
            then Inl integrity_required
            else if \<not> lineage_ok delayed seen c then Inl lineage_mismatch
            else sidecars c)
       (\<lambda>_. check_records sidecars delayed (seen @ [c]) cs)"

section \<open>Integrity of a stored state\<close>

definition state_invalid :: py_error where
  "state_invalid = EvolutionError ''ordinary_candidate_integrity_state_invalid''"

text \<open>\<^verbatim>\<open>_candidate_archive_digest\<close> of given records.\<close>

definition digest_records :: "strategy_env \<Rightarrow> candidate list \<Rightarrow> string" where
  "digest_records e cs = sv_sha256 e (canonical (JArr (map candidate_to_dict (filter (\<lambda>c. \<not> is_seed_candidate c) cs))))"

definition extension_matches :: "strategy_env \<Rightarrow> (string \<times> json) list \<Rightarrow> archive \<Rightarrow> bool" where
  "extension_matches e state a =
     (case getn state ''pending_offspring'' of
        JObj p \<Rightarrow>
          (case (getn p ''attempt_count'', getn p ''iteration'') of
             (JInt n, JInt i) \<Rightarrow>
               let us = sort_key oo_attempt (filter (\<lambda>u. int (oo_iteration u) = i) (av_outcomes a));
                   ids = map oo_candidate (evaluated us);
                   ordinary = (\<lambda>cs. map (\<lambda>c. Some (ca_id c)) (filter (\<lambda>c. \<not> is_seed_candidate c) cs));
                   baseline = filter (\<lambda>c. Some (ca_id c) \<notin> set ids) (av_records a)
               in int (length us) = n \<and> map oo_attempt us = [0..<nat n] \<and> None \<notin> set ids
                  \<and> getn state ''candidate_archive_sha256'' = JStr (digest_records e baseline)
                  \<and> ordinary (av_records a) = ordinary baseline @ ids
           | _ \<Rightarrow> False)
      | _ \<Rightarrow> False)"

definition pending_prefix :: "(string \<times> json) list \<Rightarrow> archive \<Rightarrow> bool" where
  "pending_prefix state a =
     (case getn state ''pending_offspring'' of
        JObj p \<Rightarrow>
          (case (getn p ''attempt_count'', getn p ''iteration'') of
             (JInt n, JInt i) \<Rightarrow> int (length (filter (\<lambda>u. int (oo_iteration u) = i) (av_outcomes a))) < n
           | _ \<Rightarrow> False)
      | _ \<Rightarrow> False)"

definition markers :: "string list" where
  "markers = [''candidate_integrity_schema_version'', ''candidate_integrity_authority'', ''candidate_archive_sha256'']"

definition check_integrity_state ::
  "(candidate \<Rightarrow> unit result) \<Rightarrow> strategy_env \<Rightarrow> (string \<times> json) list \<Rightarrow> bool \<Rightarrow> archive \<Rightarrow> unit result" where
  "check_integrity_state sidecars e state validated a =
     (let records = av_records a; ordinary = filter is_ordinary records;
          present = filter (has_key state) markers in
      if present = [] then
        guardE (ordinary \<noteq> [] \<or> (state \<noteq> [] \<and> \<not> has_key state ''seed_admission'')) integrity_required
      else
        bindE (guardE (present \<noteq> markers) state_invalid) (\<lambda>_.
        bindE (guardE (getn state ''candidate_integrity_schema_version'' \<noteq> JStr ''1'') state_invalid) (\<lambda>_.
        bindE (authority_from_dict (getn state ''candidate_integrity_authority'')) (\<lambda>x.
        bindE (guardE (authority_to_dict x \<noteq> sv_authority e)
                 (EvolutionError ''ordinary_candidate_integrity_authority_mismatch'')) (\<lambda>_.
        if ordinary = []
        then guardE (getn state ''candidate_archive_sha256'' \<noteq> JStr (digest_records e records)) state_invalid
        else if pending_prefix state a then Inr ()
        else
          bindE (check_records sidecars (if validated then delayed_roots state a else []) [] records) (\<lambda>_.
          bindE (guardE (\<exists>c\<in>set ordinary. case ca_island c of None \<Rightarrow> True | Some i \<Rightarrow> ec_num_islands (sv_config e) \<le> i)
                   lineage_mismatch) (\<lambda>_.
          guardE (getn state ''candidate_archive_sha256'' \<noteq> JStr (digest_records e records)
                  \<and> \<not> extension_matches e state a) (EvolutionError ''ordinary_candidate_archive_mismatch''))))))))"

text \<open>\<^verbatim>\<open>_validate_ordinary_resume_evidence\<close>.\<close>

definition check_evidence ::
  "(candidate \<Rightarrow> unit result) \<Rightarrow> strategy_env \<Rightarrow> (string \<times> json) list \<Rightarrow> archive \<Rightarrow> unit result" where
  "check_evidence sidecars e state a =
     bindE (if \<exists>c\<in>set (av_records a). is_population c \<and>
                 (ca_source_sha256 c = None \<or> ca_receipt_sha256 c = None \<or> ca_integrity c = None)
            then check_integrity_state sidecars e state False a else Inr ()) (\<lambda>_.
     bindE (validate_history e a state) (\<lambda>_.
     check_integrity_state sidecars e state True a))"

section \<open>Loading a state\<close>

definition load_state :: "strategy_env \<Rightarrow> archive \<Rightarrow> (string \<times> json) list result" where
  "load_state e a =
     (let state = av_state a; stored = getn state ''config'' in
      if state = [] then Inr []
      else
        bindE (guardE (getn state ''strategy'' \<noteq> JStr ''population'')
                 (EvolutionError ''evolution state strategy does not match the requested strategy'')) (\<lambda>_.
        bindE (guardE (getn state ''contract_sha256'' \<noteq> JStr (sv_contract e))
                 (EvolutionError ''evolution state contract digest does not match the supplied contract'')) (\<lambda>_.
        bindE (guardE ((getn state ''candidate_integrity_schema_version'' = JStr ''1'' \<and> stored = JNull)
                  \<or> (stored \<noteq> JNull \<and> canonical stored \<noteq> canonical (config_to_dict (sv_sha256 e) (sv_config e))))
                 (EvolutionError ''evolution state configuration does not match the supplied configuration'')) (\<lambda>_.
        Inr state))))"

text \<open>\<^verbatim>\<open>_seed_resume_gate\<close> when no initial seeds are supplied; \<open>marker\<close>: the seed commit file exists.\<close>

definition seed_gate :: "bool \<Rightarrow> (string \<times> json) list \<Rightarrow> archive \<Rightarrow> unit result" where
  "seed_gate marker state a =
     (let records = av_records a; seedless = EvolutionError ''verified_seed_resume_requires_initial_seeds'' in
      bindE (guardE (marker \<noteq> has_key state ''seed_admission'') (EvolutionError ''verified_seed_resume_mismatch'')) (\<lambda>_.
      if state \<noteq> [] then guardE (has_key state ''seed_admission'' \<or> (\<exists>c\<in>set records. is_seed_candidate c)) seedless
      else
        bindE (guardE (\<exists>c\<in>set records. is_seed_candidate c) seedless) (\<lambda>_.
        bindE (guardE (\<exists>c\<in>set records. ca_source_sha256 c = None \<or> ca_receipt_sha256 c = None) integrity_required) (\<lambda>_.
        guardE (records \<noteq> []) (EvolutionError ''ordinary_candidate_integrity_state_missing'')))))"

section \<open>Results\<close>

record strategy_result =
  sr_status :: string
  sr_iterations :: nat
  sr_evaluated :: nat
  sr_valid :: nat
  sr_best_id :: "string option"
  sr_best_score :: "rat option"
  sr_best_path :: "string option"
  sr_error :: "string option"

fun squeeze :: "string \<Rightarrow> string list" where
  "squeeze [] = [[]]"
| "squeeze (c # cs) =
     (if is_space c then [] # squeeze cs
      else case squeeze cs of [] \<Rightarrow> [[c]] | p # ps \<Rightarrow> (c # p) # ps)"

definition MAX_ERROR_BYTES :: nat where "MAX_ERROR_BYTES = 2000"

text \<open>\<^verbatim>\<open>" ".join(str(error).split())[-MAX_ERROR_BYTES:]\<close>.\<close>

definition bounded_error :: "json \<Rightarrow> string" where
  "bounded_error v =
     (let text = join_with '' '' (filter (\<lambda>w. w \<noteq> []) (squeeze (py_str v))) in
      if text = [] then ''unknown evolution error'' else last_chars MAX_ERROR_BYTES text)"

definition truthy :: "json \<Rightarrow> bool" where
  "truthy v = (case v of JNull \<Rightarrow> False | JBool b \<Rightarrow> b | JStr s \<Rightarrow> s \<noteq> [] | JArr xs \<Rightarrow> xs \<noteq> [] | JObj d \<Rightarrow> d \<noteq> []
     | _ \<Rightarrow> num_val v \<noteq> 0)"

text \<open>\<open>regular c\<close>: the source file of \<open>c\<close> is a regular file inside the workspace.\<close>

definition result_of :: "(candidate \<Rightarrow> bool) \<Rightarrow> string \<Rightarrow> nat \<Rightarrow> json \<Rightarrow> archive \<Rightarrow> strategy_result result" where
  "result_of regular status iterations err a =
     (let records = av_records a; state = av_state a; mixed = (\<exists>c\<in>set records. ca_strategy c \<noteq> ''population'');
          shown = (case best records of None \<Rightarrow> None | Some c \<Rightarrow> if regular c then Some c else None) in
      bindE (guardE (state \<noteq> [] \<and> getn state ''strategy'' \<noteq> JStr ''population'')
               (EvolutionError (if getn state ''strategy'' = JStr ''loop'' then LOOP_RETIRED
                  else ''evolution result strategy does not match the persisted state''))) (\<lambda>_.
      bindE (guardE mixed
               (EvolutionError (if \<exists>c\<in>set records. ca_strategy c = ''loop'' then LOOP_RETIRED
                  else ''evolution result strategy does not match the candidate archive''))) (\<lambda>_.
      Inr \<lparr>sr_status = status, sr_iterations = iterations, sr_evaluated = length records,
           sr_valid = length (filter valid records), sr_best_id = map_option ca_id shown,
           sr_best_score = map_option score shown, sr_best_path = map_option ca_code_path shown,
           sr_error = (if truthy err then Some (bounded_error err) else None)\<rparr>)))"

section \<open>Running\<close>

record main_env = run_env +
  rn_sidecars :: "candidate \<Rightarrow> unit result"
  rn_regular :: "candidate \<Rightarrow> bool"
  rn_marker :: bool

type_synonym run_result = "(strategy_result \<times> archive) result"

text \<open>Every exit of \<^verbatim>\<open>run\<close> after the gates: the last snapshot, then the result.\<close>

definition stop_run ::
  "main_env \<Rightarrow> string \<Rightarrow> nat \<Rightarrow> string list list \<Rightarrow> int \<Rightarrow> json \<Rightarrow> int \<Rightarrow> archive \<Rightarrow> run_result" where
  "stop_run r status iteration active stagnation err migration a =
     (let e = rn_strategy r;
          a' = write_state e status iteration (snapshot e a active stagnation err (best_id a) migration) a
      in bindE (result_of (rn_regular r) status iteration err a') (\<lambda>x. Inr (x, a')))"

definition ending :: "string \<Rightarrow> json \<Rightarrow> archive \<Rightarrow> string \<times> json" where
  "ending good err a =
     (let status = (if best (av_records a) \<noteq> None then good else ''failed'')
      in (status, if truthy err then err else if status = ''failed'' then JStr ''no valid candidate'' else JNull))"

definition terminal_statuses :: "json set" where
  "terminal_statuses = {JStr ''completed'', JStr ''stagnated'', JStr ''cancelled'', JStr ''failed''}"

definition terminal :: "main_env \<Rightarrow> archive \<Rightarrow> run_result option" where
  "terminal r a =
     (let state = av_state a in
      if getn state ''status'' \<in> terminal_statuses
      then Some (bindE (state_int state ''iteration'') (\<lambda>n.
                 bindE (result_of (rn_regular r) (str_of (getn state ''status'')) (nat n) (getn state ''error'') a) (\<lambda>x.
                 Inr (x, a))))
      else None)"

text \<open>One round of the main loop: a whole batch.\<close>

definition run_batch ::
  "main_env \<Rightarrow> string list list \<Rightarrow> nat \<Rightarrow> archive \<Rightarrow> (archive \<times> string list list) result" where
  "run_batch r active iteration a =
     (let e = rn_strategy r in
      bindE (begin_batch e (av_state a) active a) (\<lambda>a1.
      bindE (pending_offspring (av_state a1)) (\<lambda>pending.
      let target = (case pending of None \<Rightarrow> iteration + 1 | Some (t, _) \<Rightarrow> t) in
      bindE (attempt_all (run_env.truncate r) active target [0..<ec_offspring (sv_config e)] a1) (\<lambda>a2.
      finish_batch e (av_state a1) active a2))))"

text \<open>
  The main loop.  \<open>fuel\<close> bounds the rounds; \<open>None\<close> is running out of it.
\<close>

fun evolve ::
  "main_env \<Rightarrow> nat \<Rightarrow> string list list \<Rightarrow> nat \<Rightarrow> int \<Rightarrow> int \<Rightarrow> json \<Rightarrow> archive \<Rightarrow> run_result option" where
  "evolve r fuel active iteration stagnation migration err a =
     (let cfg = sv_config (rn_strategy r) in
      if ec_max_rounds cfg \<le> iteration
      then (case ending ''completed'' err a of
              (status, err') \<Rightarrow> Some (stop_run r status iteration active stagnation err' migration a))
      else if rn_cancelled r 1 iteration
      then Some (stop_run r ''cancelled'' iteration active stagnation (JStr ''cancelled'') migration a)
      else case fuel of
        0 \<Rightarrow> None
      | Suc n \<Rightarrow>
          (case run_batch r active iteration a of
             Inl x \<Rightarrow> Some (Inl x)
           | Inr (a', active') \<Rightarrow>
               (case terminal r a' of
                  Some x \<Rightarrow> Some x
                | None \<Rightarrow>
                    (case (state_int (av_state a') ''iteration'', state_int (av_state a') ''stagnation'',
                           state_int (av_state a') ''last_migration_iteration'') of
                       (Inr i, Inr s, Inr m) \<Rightarrow>
                         let err' = getn (av_state a') ''error'' in
                         if int (ec_stagnation_rounds cfg) \<le> s
                         then (case ending ''stagnated'' err' a' of
                                 (status, err'') \<Rightarrow> Some (stop_run r status (nat i) active' s err'' m a'))
                         else evolve r n active' (nat i) s m err' a'
                     | (Inl x, _, _) \<Rightarrow> Some (Inl x)
                     | (_, Inl x, _) \<Rightarrow> Some (Inl x)
                     | (_, _, Inl x) \<Rightarrow> Some (Inl x)))))"

declare evolve.simps [simp del]

section \<open>The initial population\<close>

text \<open>
  The state of the initialisation: the active population, \<^verbatim>\<open>initialization_error\<close>,
  \<^verbatim>\<open>evaluator_failure\<close> and the archive.  There is nothing to select yet, so \<open>Unselected\<close> is a failure
  of the generator.
\<close>

record init_state =
  in_active :: "string list list"
  in_error :: "string option"
  in_failure :: "string option"
  in_archive :: archive

definition first_of :: "string option \<Rightarrow> string \<Rightarrow> string option" where
  "first_of old new = (case old of None \<Rightarrow> Some new | Some _ \<Rightarrow> old)"

definition evaluator_failed :: "string \<Rightarrow> init_state \<Rightarrow> init_state" where
  "evaluator_failed code s = s\<lparr>in_error := first_of (in_error s) code, in_failure := first_of (in_failure s) code\<rparr>"

definition generator_failed :: "init_state \<Rightarrow> init_state" where
  "generator_failed s = s\<lparr>in_error := first_of (in_error s) ''candidate_failed''\<rparr>"

definition init_candidate :: "main_env \<Rightarrow> nat \<Rightarrow> init_state \<Rightarrow> init_state" where
  "init_candidate r k s =
     (let a = in_archive s; island = k mod ec_num_islands (rn_config (run_env.truncate r)) in
      case rn_reply r k (request_of (run_env.truncate r) 0 None [] a) of
        Unselected \<Rightarrow> generator_failed s
      | No_draft \<Rightarrow> generator_failed s
      | Rejected code \<Rightarrow> evaluator_failed (if code \<in> set outcome_codes - {''evaluated''} then code else ''run_failed'') s
      | Published f late \<Rightarrow>
          if \<not> ordinary_metadata f then evaluator_failed ''candidate_failed'' s
          else
            let c = new_candidate f 0 0 None island a; s' = s\<lparr>in_archive := publish f 0 0 None island a\<rparr>
            in if late then generator_failed s'
               else if valid c then s'\<lparr>in_active := (in_active s)[island := in_active s ! island @ [ca_id c]]\<rparr>
               else s')"

text \<open>The loop over the initial population; the flag says that it was cancelled.\<close>

fun init_all :: "main_env \<Rightarrow> nat list \<Rightarrow> init_state \<Rightarrow> bool \<times> init_state" where
  "init_all r [] s = (False, s)"
| "init_all r (k # ks) s = (if rn_cancelled r 0 k then (True, s) else init_all r ks (init_candidate r k s))"

definition opt_error :: "json \<Rightarrow> string option \<Rightarrow> json" where
  "opt_error old new = (case new of None \<Rightarrow> old | Some s \<Rightarrow> JStr s)"

text \<open>What \<^verbatim>\<open>run\<close> does once the active population is known.\<close>

definition continue_run ::
  "main_env \<Rightarrow> string list list \<Rightarrow> nat \<Rightarrow> int \<Rightarrow> int \<Rightarrow> json \<Rightarrow> archive \<Rightarrow> run_result option" where
  "continue_run r active iteration stagnation migration err a =
     (let e = rn_strategy r; cfg = sv_config e;
          a' = write_state e ''running'' iteration (snapshot e a active stagnation err (best_id a) migration) a in
      if 0 < iteration \<and> int (ec_stagnation_rounds cfg) \<le> stagnation
      then (case ending ''stagnated'' err a' of
              (status, err') \<Rightarrow> Some (stop_run r status iteration active stagnation err' migration a'))
      else evolve r (ec_max_rounds cfg) active iteration stagnation migration err a')"

definition initialise_run ::
  "main_env \<Rightarrow> string list list \<Rightarrow> nat \<Rightarrow> int \<Rightarrow> int \<Rightarrow> json \<Rightarrow> archive \<Rightarrow> run_result option" where
  "initialise_run r active iteration stagnation migration err a =
     (let e = rn_strategy r; cfg = sv_config e in
      case init_all r [0..<ec_population_size cfg] \<lparr>in_active = active, in_error = None, in_failure = None, in_archive = a\<rparr> of
        (cancelled, s) \<Rightarrow>
          let a' = in_archive s; active' = trim (sv_selection e) (av_records a') (in_active s) in
          if cancelled
          then Some (stop_run r ''cancelled'' iteration active' stagnation (JStr ''cancelled'') migration a')
          else (case (concat active' = [], in_failure s) of
                  (True, Some code) \<Rightarrow>
                    (let a2 = write_state e ''failed'' iteration (snapshot e a' active' 0 (JStr code) None migration) a'
                     in Some (bindE (result_of (rn_regular r) ''failed'' iteration (JStr code) a2) (\<lambda>x. Inr (x, a2))))
                | _ \<Rightarrow> continue_run r active' iteration stagnation migration (opt_error err (in_error s)) a'))"

text \<open>An empty active population over a non-empty archive: the last valid candidates, dealt round-robin.\<close>

definition deal :: "evolution_config \<Rightarrow> candidate list \<Rightarrow> string list list \<Rightarrow> string list list" where
  "deal cfg records active =
     (let eligible = filter valid records;
          chosen = drop (length eligible - ec_population_size cfg) eligible
      in fold (\<lambda>(k, c) act. let i = k mod ec_num_islands cfg in act[i := act ! i @ [ca_id c]])
           (zip [0..<length chosen] chosen) active)"

text \<open>What \<^verbatim>\<open>run\<close> does once a pending batch has been resumed.\<close>

definition proceed :: "main_env \<Rightarrow> archive \<Rightarrow> string list list \<Rightarrow> run_result option" where
  "proceed r a active =
     (case terminal r a of
        Some x \<Rightarrow> Some x
      | None \<Rightarrow>
          (case (state_int (av_state a) ''iteration'', state_int (av_state a) ''stagnation'',
                 state_int (av_state a) ''last_migration_iteration'') of
             (Inr i, Inr s, Inr m) \<Rightarrow>
               let err = getn (av_state a) ''error'' in
               if concat active \<noteq> [] then continue_run r active (nat i) s m err a
               else if av_records a \<noteq> []
               then continue_run r (deal (sv_config (rn_strategy r)) (av_records a) active) (nat i) s m err a
               else initialise_run r active (nat i) s m err a
           | (Inl x, _, _) \<Rightarrow> Some (Inl x)
           | (_, Inl x, _) \<Rightarrow> Some (Inl x)
           | (_, _, Inl x) \<Rightarrow> Some (Inl x)))"

definition run_population :: "main_env \<Rightarrow> archive \<Rightarrow> run_result option" where
  "run_population r a =
     (let e = rn_strategy r in
      case bindE (guardE (\<exists>c\<in>set (av_records a). ca_bundle c \<noteq> None) (EvolutionError ''bundle_candidate_pipeline_required'')) (\<lambda>_.
           bindE (load_state e a) (\<lambda>state.
           bindE (seed_gate (rn_marker r) state a) (\<lambda>_.
           bindE (check_evidence (rn_sidecars r) e state a) (\<lambda>_.
           bindE (active_of_state e state a) (\<lambda>active.
           bindE (guardE (has_key state ''seed_admission'' \<and> concat active = [])
                    (EvolutionError ''verified_seed_active_population_missing'')) (\<lambda>_.
           resume_batch e state active a)))))) of
        Inl x \<Rightarrow> Some (Inl x)
      | Inr (a1, active) \<Rightarrow> proceed r a1 active)"

end
