(* ===== verification/PopulationLogic.thy ===== *)
theory PopulationLogic imports PopulationMain "HOL-Library.Multiset" begin

text \<open>
  What trimming and migration keep: capacities, uniqueness, validity, the best candidate of every
  island, and independence of the order in which candidates were appended.
\<close>

section \<open>Sorting\<close>

lemma set_sort_desc [simp]: "set (sort_desc k xs) = set xs"
  by (simp add: sort_desc_def)

lemma mset_sort_desc [simp]: "mset (sort_desc k xs) = mset xs"
  by (simp add: sort_desc_def)

lemma length_sort_desc [simp]: "length (sort_desc k xs) = length xs"
  by (simp add: sort_desc_def)

lemma distinct_sort_desc [simp]: "distinct (sort_desc k xs) = distinct xs"
  by (simp add: sort_desc_def)

lemma sort_desc_sorted: "sorted_wrt (\<lambda>x y. k y \<le> k x) (sort_desc k xs)"
proof -
  have "sorted_wrt (\<lambda>x y. k x \<le> k y) (sort_key k (rev xs))"
    using sorted_sort_key [of k "rev xs"] by (simp add: sorted_wrt_map)
  then show ?thesis by (simp add: sort_desc_def sorted_wrt_rev)
qed

lemma sort_desc_perm:
  assumes "mset xs = mset ys" and "inj_on k (set xs)"
  shows "sort_desc k xs = sort_desc k ys"
proof -
  have "sort_key k (rev xs) = sort_key k (rev ys)"
    using assms by (intro sort_key_inj_key_eq) auto
  then show ?thesis by (simp add: sort_desc_def)
qed

lemma insort_key_agree: "(\<And>y. y \<in> insert x (set xs) \<Longrightarrow> k y = l y) \<Longrightarrow> insort_key k x xs = insort_key l x xs"
  by (induction xs) auto

lemma sort_key_agree: "(\<And>x. x \<in> set xs \<Longrightarrow> k x = l x) \<Longrightarrow> sort_key k xs = sort_key l xs"
  by (induction xs) (auto intro!: insort_key_agree)

lemma sort_desc_agree: "(\<And>x. x \<in> set xs \<Longrightarrow> k x = l x) \<Longrightarrow> sort_desc k xs = sort_desc l xs"
  unfolding sort_desc_def using sort_key_agree [of "rev xs" k l] by auto

section \<open>Records by id\<close>

lemma candidates_of_simps [simp]:
  "candidates_of records [] = []"
  "candidates_of records (i # is) =
     (case find_record records i of None \<Rightarrow> candidates_of records is | Some c \<Rightarrow> c # candidates_of records is)"
  by (simp_all add: candidates_of_def find_record_def map_filter_simps split: option.split)

lemma candidates_of_append: "candidates_of records (xs @ ys) = candidates_of records xs @ candidates_of records ys"
  by (induction xs) (auto split: option.split)

lemma candidates_of_concat: "candidates_of records (concat xss) = concat (map (candidates_of records) xss)"
  by (induction xss) (auto simp: candidates_of_append)

lemma find_record_Some: "find_record records i = Some c \<Longrightarrow> c \<in> set records \<and> ca_id c = i"
  unfolding find_record_def by (auto dest: find_Some_iff_first)

lemma set_candidates_of: "set (candidates_of records ids) = {c. \<exists>i\<in>set ids. find_record records i = Some c}"
  by (induction ids) (auto split: option.split)

lemma candidates_of_ids: "map ca_id (candidates_of records ids) = filter (\<lambda>i. find_record records i \<noteq> None) ids"
  by (induction ids) (auto split: option.split dest: find_record_Some)

text \<open>Every id names a record.\<close>

definition known :: "candidate list \<Rightarrow> string list \<Rightarrow> bool" where
  "known records ids \<longleftrightarrow> set ids \<subseteq> ca_id ` set records"

lemma find_record_known: "i \<in> ca_id ` set records \<Longrightarrow> \<exists>c. find_record records i = Some c"
  unfolding find_record_def by (cases "find (\<lambda>c. ca_id c = i) records") (auto simp: find_None_iff)

lemma candidates_of_known:
  assumes "known records ids"
  shows "map ca_id (candidates_of records ids) = ids"
proof -
  have "find_record records i \<noteq> None" if "i \<in> set ids" for i
  proof -
    from assms that have "i \<in> ca_id ` set records" by (auto simp: known_def)
    then show ?thesis by (auto dest!: find_record_known)
  qed
  then show ?thesis unfolding candidates_of_ids by simp
qed

lemma candidates_of_inj: "inj_on ca_id (set (candidates_of records ids))"
proof (rule inj_onI)
  fix c d
  assume "c \<in> set (candidates_of records ids)" and "d \<in> set (candidates_of records ids)" and same: "ca_id c = ca_id d"
  then obtain i j where i: "find_record records i = Some c" and j: "find_record records j = Some d"
    by (auto simp: set_candidates_of)
  from find_record_Some [OF i] find_record_Some [OF j] same have "i = j" by simp
  with i j show "c = d" by simp
qed

lemma candidates_of_distinct: "distinct ids \<Longrightarrow> distinct (candidates_of records ids)"
proof -
  assume "distinct ids"
  then have "distinct (map ca_id (candidates_of records ids))" unfolding candidates_of_ids by simp
  then show ?thesis by (simp add: distinct_map)
qed

lemma mset_candidates_of: "mset xs = mset ys \<Longrightarrow> mset (candidates_of records xs) = mset (candidates_of records ys)"
proof -
  have *: "mset (candidates_of records zs) = (\<Sum>i\<in>#mset zs. case find_record records i of None \<Rightarrow> {#} | Some c \<Rightarrow> {#c#})" for zs
    by (induction zs) (auto split: option.split)
  assume "mset xs = mset ys"
  then show ?thesis by (simp add: *)
qed

section \<open>Ranking\<close>

lemma fold_min_Min: "foldl min d ds = Min (insert d (set ds))" for d :: rat
proof -
  have "foldl min d ds = fold min ds d" by (simp add: foldl_conv_fold min.commute)
  also have "\<dots> = Min (insert d (set ds))" by (simp add: Min.set_eq_fold [symmetric])
  finally show ?thesis .
qed

lemma novelty_set:
  assumes "set peers = set peers'"
  shows "novelty src c peers = novelty src c peers'"
proof (cases "token_set src c = []")
  case False
  have *: "novelty src c ps = (if ps = [] then 1 else Min (distance (token_set src c) ` token_set src ` set ps))" for ps
    using False by (cases ps) (auto simp: novelty_def Let_def fold_min_Min image_image)
  show ?thesis using assms by (simp add: * flip: set_empty)
qed (simp add: novelty_def)

lemma rank_key_set:
  assumes "set all_active = set all_active'"
  shows "rank_key src all_active c = rank_key src all_active' c"
  unfolding rank_key_def using novelty_set [of "filter (\<lambda>p. ca_id p \<noteq> ca_id c) all_active" "filter (\<lambda>p. ca_id p \<noteq> ca_id c) all_active'"]
  using assms by auto

lemma rank_key_inj: "inj_on ca_id A \<Longrightarrow> inj_on (rank_key src all_active) A"
  by (auto simp: inj_on_def rank_key_def)

lemma set_rank [simp]: "set (rank src cs all_active) = set cs"
  by (simp add: rank_def)

lemma length_rank [simp]: "length (rank src cs all_active) = length cs"
  by (simp add: rank_def)

lemma rank_perm:
  assumes "mset cs = mset cs'" and "inj_on ca_id (set cs)" and "set all_active = set all_active'"
  shows "rank src cs all_active = rank src cs' all_active'"
proof -
  have "rank src cs all_active = rank src cs' all_active"
    unfolding rank_def using assms by (intro sort_desc_perm rank_key_inj)
  also have "\<dots> = rank src cs' all_active'"
    unfolding rank_def using assms(3) by (intro sort_desc_agree rank_key_set)
  finally show ?thesis .
qed

text \<open>The first ranked candidate is at least as valid and, among equals, scores at least as high.\<close>

lemma rank_sorted: "sorted_wrt (\<lambda>x y. rank_key src all_active y \<le> rank_key src all_active x) (rank src cs all_active)"
  unfolding rank_def by (rule sort_desc_sorted)

lemma rank_valid_best:
  assumes "filter valid (rank src cs all_active) = b # bs" and "c \<in> set cs" and "valid c"
  shows "score c \<le> score b"
proof -
  have "sorted_wrt (\<lambda>x y. rank_key src all_active y \<le> rank_key src all_active x) (b # bs)"
    using sorted_wrt_filter [OF rank_sorted] assms(1) by metis
  moreover have "c \<in> set (filter valid (rank src cs all_active))" using assms(2,3) by simp
  then have "c \<in> set (b # bs)" using assms(1) by simp
  ultimately have "c = b \<or> rank_key src all_active c \<le> rank_key src all_active b" by auto
  moreover have "valid b" using assms(1) by (metis filter_eq_ConsD)
  ultimately show ?thesis using assms(3) by (auto simp: rank_key_def valid_def)
qed

section \<open>Trimming\<close>

lemma fill_up_set: "set (fill_up cap sel cs) \<subseteq> set sel \<union> set cs"
  by (induction cap sel cs rule: fill_up.induct) auto

lemma fill_up_keeps: "\<exists>zs. fill_up cap sel cs = sel @ zs"
  by (induction cap sel cs rule: fill_up.induct) auto

lemma fill_up_length: "length sel \<le> cap \<Longrightarrow> length (fill_up cap sel cs) \<le> cap"
  by (induction cap sel cs rule: fill_up.induct) auto

lemma fill_up_distinct: "distinct (map ca_id sel) \<Longrightarrow> distinct (map ca_id (fill_up cap sel cs))"
  by (induction cap sel cs rule: fill_up.induct) auto

lemma fill_up_all:
  assumes "length sel + length cs \<le> cap"
  shows "ca_id ` set (fill_up cap sel cs) = ca_id ` (set sel \<union> set cs)"
  using assms by (induction cap sel cs rule: fill_up.induct) auto

lemma elites_set: "set (elites family seen cs) \<subseteq> {c \<in> set cs. valid c}"
  by (induction family seen cs rule: elites.induct) (auto split: option.splits)

lemma family_elites_set: "set (family_elites e cs all_active) \<subseteq> {c \<in> set cs. valid c}"
  unfolding family_elites_def using elites_set [of "candidate_family (se_problem e)" "[]" "rank (se_source e) cs all_active"]
  by simp

text \<open>The candidates an island keeps.\<close>

definition kept :: "selection_env \<Rightarrow> candidate list \<Rightarrow> candidate list \<Rightarrow> nat \<Rightarrow> string list \<Rightarrow> candidate list" where
  "kept e records all_active island ids =
     (let candidates = candidates_of records ids;
          valids = filter valid (rank (se_source e) candidates all_active);
          cap = capacity (se_config e) island
      in fill_up cap (fill_up cap (take 1 valids) (family_elites e candidates all_active)) valids)"

lemma trim_island_kept: "trim_island e records all_active island ids = map ca_id (kept e records all_active island ids)"
  by (simp add: trim_island_def kept_def Let_def)

lemma kept_set: "set (kept e records all_active island ids) \<subseteq> {c \<in> set (candidates_of records ids). valid c}"
proof -
  let ?cs = "candidates_of records ids"
  let ?vs = "filter valid (rank (se_source e) ?cs all_active)"
  have "set (kept e records all_active island ids) \<subseteq> set (take 1 ?vs) \<union> set (family_elites e ?cs all_active) \<union> set ?vs"
    unfolding kept_def Let_def by (rule subset_trans [OF fill_up_set]) (use fill_up_set in blast)
  also have "\<dots> \<subseteq> {c \<in> set ?cs. valid c}"
    using family_elites_set [of e ?cs all_active] set_take_subset [of 1 ?vs] by (auto simp del: One_nat_def)
  finally show ?thesis .
qed

lemma kept_distinct: "distinct (map ca_id (kept e records all_active island ids))"
  unfolding kept_def Let_def
  by (intro fill_up_distinct) (cases "filter valid (rank (se_source e) (candidates_of records ids) all_active)"; simp)

lemma kept_length:
  assumes "1 \<le> capacity (se_config e) island"
  shows "length (kept e records all_active island ids) \<le> capacity (se_config e) island"
  unfolding kept_def Let_def using assms
  by (intro fill_up_length) (simp add: min_def)

lemma kept_hd:
  assumes "filter valid (rank (se_source e) (candidates_of records ids) all_active) = b # bs"
  shows "\<exists>cs. kept e records all_active island ids = b # cs"
proof -
  obtain xs where "fill_up (capacity (se_config e) island) [b] (family_elites e (candidates_of records ids) all_active) = [b] @ xs"
    using fill_up_keeps by blast
  moreover obtain ys where "fill_up (capacity (se_config e) island) ([b] @ xs) (b # bs) = ([b] @ xs) @ ys"
    using fill_up_keeps by blast
  ultimately show ?thesis using assms by (simp add: kept_def Let_def)
qed

text \<open>An island never loses its best valid candidate.\<close>

lemma kept_best:
  assumes "c \<in> set (candidates_of records ids)" and "valid c"
  shows "\<exists>b\<in>set (kept e records all_active island ids). score c \<le> score b"
proof -
  let ?vs = "filter valid (rank (se_source e) (candidates_of records ids) all_active)"
  have "c \<in> set ?vs" using assms by simp
  then obtain b bs where vs: "?vs = b # bs" by (cases ?vs) auto
  moreover have "score c \<le> score b" using rank_valid_best [OF vs assms] .
  ultimately show ?thesis using kept_hd [OF vs, of island] by auto
qed

section \<open>The whole population\<close>

lemma length_trim [simp]: "length (trim e records active) = length active"
  by (simp add: trim_def Let_def)

lemma trim_nth:
  "i < length active \<Longrightarrow>
     trim e records active ! i = map ca_id (kept e records (candidates_of records (concat active)) i (active ! i))"
  by (simp add: trim_def Let_def trim_island_kept)

lemma trim_island_subset: "i < length active \<Longrightarrow> set (trim e records active ! i) \<subseteq> set (active ! i)"
  using kept_set [of e records "candidates_of records (concat active)" i "active ! i"]
  by (auto simp: trim_nth set_candidates_of dest: find_record_Some)

text \<open>Islands hold pairwise different ids.\<close>

lemma distinct_concat_nth:
  "distinct (concat xss) \<longleftrightarrow>
     (\<forall>i<length xss. distinct (xss ! i))
     \<and> (\<forall>i<length xss. \<forall>j<length xss. i \<noteq> j \<longrightarrow> set (xss ! i) \<inter> set (xss ! j) = {})"
proof (induction xss)
  case Nil
  then show ?case by simp
next
  case (Cons xs xss)
  have "set xs \<inter> set (concat xss) = {} \<longleftrightarrow> (\<forall>ys\<in>set xss. set xs \<inter> set ys = {})" by auto
  also have "\<dots> \<longleftrightarrow> (\<forall>j<length xss. set xs \<inter> set (xss ! j) = {})" by (rule all_set_conv_all_nth)
  finally have *: "set xs \<inter> set (concat xss) = {} \<longleftrightarrow> (\<forall>j<length xss. set xs \<inter> set (xss ! j) = {})" .
  have "distinct (concat (xs # xss)) \<longleftrightarrow> distinct xs \<and> distinct (concat xss) \<and> set xs \<inter> set (concat xss) = {}"
    by simp
  then show ?case unfolding * Cons by (simp add: All_less_Suc2 Int_commute conj_ac) (intro conj_cong iffI; blast)
qed

lemma set_concat_nth: "set (concat xss) = (\<Union>i<length xss. set (xss ! i))"
  by (simp add: set_conv_nth [of xss]) blast

lemma trim_distinct:
  assumes "distinct (concat active)"
  shows "distinct (concat (trim e records active))"
  unfolding distinct_concat_nth
proof (intro conjI allI impI)
  fix i assume "i < length (trim e records active)"
  then show "distinct (trim e records active ! i)" by (simp add: trim_nth kept_distinct)
next
  fix i j assume i: "i < length (trim e records active)" and j: "j < length (trim e records active)" and "i \<noteq> j"
  with assms have "set (active ! i) \<inter> set (active ! j) = {}" by (auto simp: distinct_concat_nth)
  moreover have "set (trim e records active ! i) \<subseteq> set (active ! i)" "set (trim e records active ! j) \<subseteq> set (active ! j)"
    using trim_island_subset [of _ active e records] i j by auto
  ultimately show "set (trim e records active ! i) \<inter> set (trim e records active ! j) = {}" by blast
qed

text \<open>The capacities of the islands add up to the population size.\<close>

lemma sum_capacity:
  assumes "0 < ec_num_islands cfg"
  shows "(\<Sum>i<ec_num_islands cfg. capacity cfg i) = ec_population_size cfg"
proof -
  let ?n = "ec_num_islands cfg" and ?p = "ec_population_size cfg"
  have "(\<Sum>i<?n. if i < ?p mod ?n then 1 else (0::nat)) = card {i \<in> {..<?n}. i < ?p mod ?n}"
    by (simp add: sum.If_cases Int_def)
  also have "{i \<in> {..<?n}. i < ?p mod ?n} = {..<?p mod ?n}"
    using assms by (auto intro: order.strict_trans)
  finally have "(\<Sum>i<?n. capacity cfg i) = ?n * (?p div ?n) + ?p mod ?n"
    by (simp add: capacity_def sum.distrib)
  then show ?thesis by simp
qed

lemma capacity_pos: "0 < ec_num_islands cfg \<Longrightarrow> ec_num_islands cfg \<le> ec_population_size cfg \<Longrightarrow> 1 \<le> capacity cfg i"
  unfolding capacity_def by (simp add: div_greater_zero_iff Suc_le_eq trans_less_add1)

lemma length_concat_sum: "length (concat xss) = (\<Sum>i<length xss. length (xss ! i))"
  by (simp add: length_concat sum_list_sum_nth atLeast0LessThan)

text \<open>What a population is between two batches.\<close>

definition populated :: "evolution_config \<Rightarrow> candidate list \<Rightarrow> string list list \<Rightarrow> bool" where
  "populated cfg records active \<longleftrightarrow>
     length active = ec_num_islands cfg \<and> distinct (concat active)
     \<and> (\<forall>i<length active. length (active ! i) \<le> capacity cfg i)
     \<and> (\<forall>cid\<in>set (concat active). \<exists>c. find_record records cid = Some c \<and> valid c)"

text \<open>The configurations that \<open>config_init\<close> accepts.\<close>

definition config_ok :: "evolution_config \<Rightarrow> bool" where
  "config_ok cfg \<longleftrightarrow>
     1 \<le> ec_max_rounds cfg \<and> ec_max_rounds cfg \<le> 10000 \<and> ec_population_size cfg \<le> 10000
     \<and> 1 \<le> ec_stagnation_rounds cfg \<and> 1 \<le> ec_offspring cfg \<and> ec_offspring cfg \<le> 256
     \<and> 1 \<le> ec_num_islands cfg \<and> ec_num_islands cfg \<le> 64 \<and> ec_num_islands cfg \<le> ec_population_size cfg"

lemma config_ok_capacity: "config_ok cfg \<Longrightarrow> 1 \<le> capacity cfg i"
  by (rule capacity_pos) (simp_all add: config_ok_def)

lemma populated_size:
  assumes "config_ok cfg" and "populated cfg records active"
  shows "length (concat active) \<le> ec_population_size cfg"
proof -
  have "length (concat active) \<le> (\<Sum>i<ec_num_islands cfg. capacity cfg i)"
    using assms unfolding length_concat_sum populated_def by (auto intro!: sum_mono)
  with assms show ?thesis by (simp add: sum_capacity config_ok_def)
qed

lemma trim_populated:
  assumes "config_ok (se_config e)" and "length active = ec_num_islands (se_config e)" and "distinct (concat active)"
  shows "populated (se_config e) records (trim e records active)"
  unfolding populated_def
proof (intro conjI allI impI ballI)
  show "length (trim e records active) = ec_num_islands (se_config e)" using assms by simp
  show "distinct (concat (trim e records active))" using assms by (intro trim_distinct)
next
  fix i assume "i < length (trim e records active)"
  then show "length (trim e records active ! i) \<le> capacity (se_config e) i"
    using assms(1) by (simp only: length_trim trim_nth length_map) (intro kept_length config_ok_capacity)
next
  fix cid assume "cid \<in> set (concat (trim e records active))"
  then obtain i where i: "i < length active" and "cid \<in> set (trim e records active ! i)"
    by (simp only: set_concat_nth) auto
  then obtain c where "c \<in> set (kept e records (candidates_of records (concat active)) i (active ! i))" and "cid = ca_id c"
    by (auto simp: trim_nth)
  then show "\<exists>c. find_record records cid = Some c \<and> valid c"
    using kept_set [of e records "candidates_of records (concat active)" i "active ! i"]
    by (auto simp: set_candidates_of dest: find_record_Some)
qed

text \<open>Some candidate that is at least as good as any valid one of the population survives.\<close>

lemma trim_best:
  assumes "c \<in> set (candidates_of records (concat active))" and "valid c"
  shows "\<exists>b\<in>set (candidates_of records (concat (trim e records active))). valid b \<and> score c \<le> score b"
proof -
  from assms(1) obtain ids where "ids \<in> set active" and "c \<in> set (candidates_of records ids)"
    by (auto simp: candidates_of_concat)
  then obtain i where i: "i < length active" and c: "c \<in> set (candidates_of records (active ! i))"
    by (auto simp: in_set_conv_nth)
  let ?k = "kept e records (candidates_of records (concat active)) i (active ! i)"
  from kept_best [OF c assms(2)] obtain b where b: "b \<in> set ?k" and "score c \<le> score b" by blast
  from b kept_set have "valid b" and "b \<in> set (candidates_of records (active ! i))" by blast+
  then have "find_record records (ca_id b) = Some b" by (auto simp: set_candidates_of dest: find_record_Some)
  moreover from b i have "ca_id b \<in> set (trim e records active ! i)" by (simp add: trim_nth)
  with i have "ca_id b \<in> set (concat (trim e records active))" by (auto intro!: nth_mem)
  ultimately have "b \<in> set (candidates_of records (concat (trim e records active)))" by (auto simp: set_candidates_of)
  with \<open>valid b\<close> \<open>score c \<le> score b\<close> show ?thesis by blast
qed

text \<open>Only which candidates an island holds matters, not their order.\<close>

lemma family_elites_perm:
  assumes "mset cs = mset cs'" and "inj_on ca_id (set cs)" and "set all_active = set all_active'"
  shows "family_elites e cs all_active = family_elites e cs' all_active'"
  unfolding family_elites_def by (simp add: rank_perm [OF assms])

lemma kept_perm:
  assumes "mset ids = mset ids'" and "set all_active = set all_active'"
  shows "kept e records all_active i ids = kept e records all_active' i ids'"
proof -
  have "mset (candidates_of records ids) = mset (candidates_of records ids')"
    using assms(1) by (rule mset_candidates_of)
  then show ?thesis
    unfolding kept_def Let_def
    by (simp add: rank_perm [OF _ candidates_of_inj assms(2)] family_elites_perm [OF _ candidates_of_inj assms(2)])
qed

lemma trim_perm:
  assumes "list_all2 (\<lambda>xs ys. mset xs = mset ys) active active'"
  shows "trim e records active = trim e records active'"
proof (rule nth_equalityI)
  show "length (trim e records active) = length (trim e records active')"
    using assms by (simp add: list_all2_lengthD)
next
  have len: "length active = length active'" using assms by (rule list_all2_lengthD)
  have nth: "mset (active ! i) = mset (active' ! i)" if "i < length active" for i
    using assms that by (rule list_all2_nthD)
  have "mset (concat active) = mset (concat active')"
    using assms by (induction rule: list_all2_induct) auto
  then have "set (candidates_of records (concat active)) = set (candidates_of records (concat active'))"
    using mset_candidates_of [of _ _ records] by (metis mset_eq_setD)
  then show "trim e records active ! i = trim e records active' ! i" if "i < length (trim e records active)" for i
    using that len kept_perm [OF nth, of i] by (simp only: length_trim trim_nth)
qed

section \<open>Migration\<close>

lemma move_candidate_length [simp]: "length (move_candidate m active) = length active"
  by (cases m) (simp add: move_candidate_def Let_def)

lemma move_candidate_nth:
  "i < length active \<Longrightarrow>
     move_candidate (t, cid) active ! i = removeAll cid (active ! i) @ (if i = t then [cid] else [])"
  by (cases "i = t") (simp_all add: move_candidate_def Let_def)

lemma move_candidate_distinct:
  assumes "distinct (concat active)"
  shows "distinct (concat (move_candidate m active))"
proof -
  obtain t cid where m: "m = (t, cid)" by fastforce
  show ?thesis
    using assms unfolding m distinct_concat_nth
    by (auto simp: move_candidate_nth distinct_removeAll)
qed

lemma move_candidate_set:
  assumes "t < length active"
  shows "set (concat (move_candidate (t, cid) active)) = insert cid (set (concat active))"
proof -
  have "set (concat (move_candidate (t, cid) active)) = (\<Union>i<length active. set (move_candidate (t, cid) active ! i))"
    by (simp only: set_concat_nth move_candidate_length)
  also have "\<dots> = (\<Union>i<length active. set (active ! i) - {cid} \<union> (if i = t then {cid} else {}))"
    by (intro SUP_cong refl) (auto simp: move_candidate_nth)
  also have "\<dots> = insert cid (\<Union>i<length active. set (active ! i))"
  proof (rule set_eqI)
    fix x
    show "x \<in> (\<Union>i<length active. set (active ! i) - {cid} \<union> (if i = t then {cid} else {}))
            \<longleftrightarrow> x \<in> insert cid (\<Union>i<length active. set (active ! i))"
      using assms by (cases "x = cid") auto
  qed
  also have "(\<Union>i<length active. set (active ! i)) = set (concat active)"
    by (simp only: set_concat_nth)
  finally show ?thesis .
qed

lemma fold_moves:
  assumes "\<forall>(t, cid)\<in>set moves. t < length active \<and> cid \<in> set (concat active)"
  shows "length (fold move_candidate moves active) = length active
    \<and> (distinct (concat active) \<longrightarrow> distinct (concat (fold move_candidate moves active)))
    \<and> set (concat (fold move_candidate moves active)) = set (concat active)"
  using assms
proof (induction moves arbitrary: active)
  case (Cons m moves)
  obtain t cid where m: "m = (t, cid)" by fastforce
  with Cons.prems have "set (concat (move_candidate m active)) = set (concat active)"
    by (simp only: m) (auto simp: move_candidate_set simp del: set_concat)
  then show ?case using Cons.prems Cons.IH [of "move_candidate m active"] move_candidate_distinct [of active m]
    by (auto simp del: set_concat)
qed simp

lemma moves_of_known:
  assumes "source < length active" and "(t, cid) \<in> set (moves_of e records active source)"
  shows "t < length active \<and> cid \<in> set (concat active)"
proof -
  from assms(2) obtain c where c: "c \<in> set (candidates_of records (active ! source))" and "cid = ca_id c" "t = (source + 1) mod length active"
    unfolding moves_of_def using set_take_subset by (fastforce split: if_splits)
  then have "cid \<in> set (active ! source)" by (auto simp: set_candidates_of dest: find_record_Some)
  moreover have "t < length active" using assms(1) \<open>t = _\<close> by (metis mod_less_divisor less_zeroE neq0_conv)
  ultimately show ?thesis using assms(1) by auto
qed

lemma all_moves_known:
  "\<forall>(t, cid)\<in>set (concat (map (moves_of e records active) [0..<length active])).
     t < length active \<and> cid \<in> set (concat active)"
  using moves_of_known [of _ active _ _ e records] by (auto simp del: set_concat) (auto simp: set_concat)

text \<open>One selection step of a batch: trimming, then migration.\<close>

definition select_step :: "selection_env \<Rightarrow> candidate list \<Rightarrow> nat \<Rightarrow> string list list \<Rightarrow> bool \<times> string list list" where
  "select_step e records i active = migrate e records (trim e records active) i"

lemma migrate_cases:
  assumes "migrate e records active i = (moved, active')"
  obtains "\<not> moved" "active' = active"
  | moves where "active' = trim e records (fold move_candidate moves active)"
      and "\<forall>(t, cid)\<in>set moves. t < length active \<and> cid \<in> set (concat active)"
proof -
  show thesis
    using assms unfolding migrate_def Let_def by (auto split: if_splits intro: that(1) that(2) [OF _ all_moves_known])
qed

lemma select_step_populated:
  assumes "config_ok (se_config e)" and "length active = ec_num_islands (se_config e)" and "distinct (concat active)"
    and "select_step e records i active = (moved, active')"
  shows "populated (se_config e) records active'"
proof -
  have trimmed: "populated (se_config e) records (trim e records active)" using assms(1-3) by (rule trim_populated)
  from assms(4) [unfolded select_step_def] show ?thesis
  proof (cases rule: migrate_cases)
    case 1
    with trimmed show ?thesis by simp
  next
    case (2 moves)
    from trimmed fold_moves [OF 2(2)] show ?thesis
      unfolding 2(1) populated_def by (intro trim_populated [unfolded populated_def] assms(1)) auto
  qed
qed

lemma candidates_of_set_cong:
  "set xs = set ys \<Longrightarrow> set (candidates_of records xs) = set (candidates_of records ys)"
  by (simp add: set_candidates_of)

lemma select_step_best:
  assumes "c \<in> set (candidates_of records (concat active))" and "valid c"
    and "select_step e records i active = (moved, active')"
  shows "\<exists>b\<in>set (candidates_of records (concat active')). valid b \<and> score c \<le> score b"
proof -
  from trim_best [OF assms(1,2)] obtain b
    where b: "b \<in> set (candidates_of records (concat (trim e records active)))" "valid b" "score c \<le> score b" by blast
  from assms(3) [unfolded select_step_def] show ?thesis
  proof (cases rule: migrate_cases)
    case 1
    with b show ?thesis by blast
  next
    case (2 moves)
    have "b \<in> set (candidates_of records (concat (fold move_candidate moves (trim e records active))))"
      using b(1) fold_moves [OF 2(2)] candidates_of_set_cong by blast
    from trim_best [OF this b(2), of e] b(3) show ?thesis unfolding 2(1) by (meson order_trans)
  qed
qed

lemma select_step_subset:
  assumes "select_step e records i active = (moved, active')"
  shows "set (concat active') \<subseteq> set (concat active)"
proof -
  have trimmed: "set (concat (trim e records xss)) \<subseteq> set (concat xss)" for xss
    unfolding set_concat_nth using trim_island_subset [of _ xss e records] by (intro UN_mono) auto
  from assms [unfolded select_step_def] show ?thesis
  proof (cases rule: migrate_cases)
    case 1
    then show ?thesis using trimmed by simp
  next
    case (2 moves)
    then show ?thesis using trimmed [of active] trimmed [of "fold move_candidate moves (trim e records active)"]
      fold_moves [OF 2(2)] by (auto simp del: set_concat)
  qed
qed

end
