(* ===== verification/Checkpoint.thy ===== *)
theory Checkpoint imports PopulationLogic begin

text \<open>
  The checkpoints of an undisturbed population run, described independently of the code that writes
  them, and the proof that the gates of a resumed run accept them.
\<close>

section \<open>Reading a written state\<close>

lemma map_of_put_item: "map_of (put_item k v d) k' = (if k' = k then Some v else map_of d k')"
  by (induction k v d rule: put_item.induct) auto

lemma map_of_carried:
  "map_of (fold (\<lambda>k d. case map_of old k of None \<Rightarrow> d | Some v \<Rightarrow> if has_key d k then d else put_item k v d) ks d) k' =
     (case map_of d k' of Some v \<Rightarrow> Some v | None \<Rightarrow> if k' \<in> set ks then map_of old k' else None)"
  by (induction ks arbitrary: d) (auto simp: map_of_put_item has_key_def split: option.splits)

text \<open>The items that \<open>write_state\<close> writes itself, in a run without imported seeds.\<close>

definition written :: "strategy_env \<Rightarrow> archive \<Rightarrow> string \<Rightarrow> nat \<Rightarrow> (string \<times> json) list \<Rightarrow> (string \<times> json) list" where
  "written e a status iteration extra =
     [(''schema_version'', JStr ''1''), (''strategy'', JStr ''population''), (''status'', JStr status),
      (''iteration'', JInt (int iteration)), (''contract_sha256'', JStr (sv_contract e)),
      (''config'', config_to_dict (sv_sha256 e) (sv_config e))] @ extra
     @ [(''candidate_integrity_schema_version'', JStr ''1''), (''candidate_integrity_authority'', sv_authority e),
        (''candidate_archive_sha256'', JStr (archive_digest e a))]"

lemma state_payload_lookup:
  assumes "\<not> sv_seeded e" and "getn (av_state a) ''seed_admission'' = JNull"
  shows "map_of (state_payload e a status iteration extra) k =
    (case map_of (written e a status iteration extra) k of
       Some v \<Rightarrow> Some v
     | None \<Rightarrow> if k \<in> set carried_fields then map_of (av_state a) k else None)"
  using assms unfolding state_payload_def written_def Let_def by (simp add: map_of_carried)

lemmas state_lookup = jget_def jget_default_def has_key_def map_of_append

section \<open>Placing a batch\<close>

definition settled :: "nat \<Rightarrow> candidate \<Rightarrow> bool" where
  "settled n c \<longleftrightarrow> (\<exists>i<n. ca_island c = Some i)"

definition put_candidate :: "candidate \<Rightarrow> string list list \<Rightarrow> string list list" where
  "put_candidate c active = active[the (ca_island c) := active ! the (ca_island c) @ [ca_id c]]"

definition put_all :: "candidate list \<Rightarrow> string list list \<Rightarrow> string list list" where
  "put_all cs active = fold put_candidate cs active"

lemma length_put_candidate [simp]: "length (put_candidate c active) = length active"
  by (simp add: put_candidate_def)

lemma length_put_all [simp]: "length (put_all cs active) = length active"
  unfolding put_all_def by (induction cs arbitrary: active) auto

lemma put_candidate_set:
  assumes "settled (length active) c"
  shows "set (concat (put_candidate c active)) = insert (ca_id c) (set (concat active))"
proof -
  from assms obtain i where i: "i < length active" "ca_island c = Some i" by (auto simp: settled_def)
  then have "put_candidate c active ! j = active ! j @ (if j = i then [ca_id c] else [])" if "j < length active" for j
    using that by (simp add: put_candidate_def nth_list_update)
  then have "set (concat (put_candidate c active)) = (\<Union>j<length active. set (active ! j) \<union> (if j = i then {ca_id c} else {}))"
    by (simp only: set_concat_nth length_put_candidate) (intro SUP_cong refl; auto)
  also have "\<dots> = insert (ca_id c) (\<Union>j<length active. set (active ! j))" using i by (auto split: if_splits)
  finally show ?thesis by (simp only: set_concat_nth)
qed

lemma put_candidate_distinct:
  assumes "settled (length active) c" and "distinct (concat active)" and "ca_id c \<notin> set (concat active)"
  shows "distinct (concat (put_candidate c active))"
proof -
  from assms(1) obtain i where i: "i < length active" "ca_island c = Some i" by (auto simp: settled_def)
  have nth: "put_candidate c active ! j = active ! j @ (if j = i then [ca_id c] else [])" if "j < length active" for j
    using that i by (simp add: put_candidate_def nth_list_update)
  have "ca_id c \<notin> set (active ! j)" if "j < length active" for j using that assms(3) by auto
  then show ?thesis using assms(2) unfolding distinct_concat_nth length_put_candidate
    by (simp add: nth) (simp add: disjoint_iff)
qed

lemma put_all_set:
  "list_all (settled (length active)) cs \<Longrightarrow> set (concat (put_all cs active)) = set (concat active) \<union> ca_id ` set cs"
  unfolding put_all_def
proof (induction cs arbitrary: active)
  case (Cons c cs)
  then show ?case using Cons.IH [of "put_candidate c active"] put_candidate_set [of active c]
    by (auto simp del: set_concat)
qed simp

lemma put_all_distinct:
  assumes "list_all (settled (length active)) cs" and "distinct (concat active)" and "distinct (map ca_id cs)"
    and "ca_id ` set cs \<inter> set (concat active) = {}"
  shows "distinct (concat (put_all cs active))"
  using assms unfolding put_all_def
proof (induction cs arbitrary: active)
  case (Cons c cs)
  from Cons.prems have c: "settled (length active) c" and new: "ca_id c \<notin> set (concat active)" by auto
  have "ca_id ` set cs \<inter> set (concat (put_candidate c active)) = {}"
    using Cons.prems(3,4) unfolding put_candidate_set [OF c] by auto
  then have "distinct (concat (fold put_candidate cs (put_candidate c active)))"
    using Cons.prems by (intro Cons.IH put_candidate_distinct [OF c _ new]) auto
  then show ?case by simp
qed simp

lemma foldE_place: "list_all (settled (length active)) cs \<Longrightarrow> foldE place cs active = Inr (put_all cs active)"
  unfolding put_all_def
  by (induction cs arbitrary: active) (auto simp: place_def settled_def put_candidate_def)

text \<open>Admitting outcomes does to the population what placing their candidates does.\<close>

lemma foldE_admit:
  assumes "map (\<lambda>u. (oo_candidate u, Some (oo_island u))) us = map (\<lambda>c. (Some (ca_id c), ca_island c)) cs"
    and "list_all (settled (length active)) cs" and "distinct (map ca_id cs)" and "ca_id ` set cs \<inter> set (concat active) = {}"
  shows "foldE admit us active = Inr (put_all cs active)"
  using assms
proof (induction cs arbitrary: us active)
  case (Cons c cs)
  from Cons.prems(1) obtain u us' where us: "us = u # us'" and u: "oo_candidate u = Some (ca_id c)" "ca_island c = Some (oo_island u)"
    and rest: "map (\<lambda>u. (oo_candidate u, Some (oo_island u))) us' = map (\<lambda>c. (Some (ca_id c), ca_island c)) cs" by (auto simp: map_eq_Cons_conv)
  from Cons.prems have c: "settled (length active) c" and new: "ca_id c \<notin> set (concat active)" by auto
  have "admit u active = Inr (put_candidate c active)"
    using u c new by (auto simp: admit_def put_candidate_def settled_def)
  moreover have "foldE admit us' (put_candidate c active) = Inr (put_all cs (put_candidate c active))"
    using Cons.prems(2-4) put_candidate_set [OF c] rest by (intro Cons.IH) (auto simp del: set_concat)
  ultimately show ?case by (simp add: us put_all_def)
qed (simp add: put_all_def)

section \<open>Later records do not change what was selected earlier\<close>

lemma find_record_append:
  "i \<in> ca_id ` set old \<Longrightarrow> find_record (old @ new) i = find_record old i"
  unfolding find_record_def by (induction old) auto

lemma candidates_of_frame: "known old ids \<Longrightarrow> candidates_of (old @ new) ids = candidates_of old ids"
  unfolding known_def by (induction ids) (simp_all add: find_record_append split: option.split)

lemma known_concat: "known old (concat active) \<Longrightarrow> i < length active \<Longrightarrow> known old (active ! i)"
  unfolding known_def set_concat_nth by blast

lemma trim_frame: "known old (concat active) \<Longrightarrow> trim e (old @ new) active = trim e old active"
  by (rule nth_equalityI) (simp_all add: trim_nth kept_def Let_def candidates_of_frame known_concat)

lemma migrate_frame:
  assumes "known old (concat active)"
  shows "migrate e (old @ new) active i = migrate e old active i"
proof -
  have moves: "moves_of e (old @ new) active k = moves_of e old active k" if "k < length active" for k
    using assms that unfolding moves_of_def by (simp add: candidates_of_frame known_concat)
  have maps: "map (moves_of e (old @ new) active) [0..<length active] = map (moves_of e old active) [0..<length active]"
    by (simp add: moves)
  have "known old (concat (fold move_candidate (concat (map (moves_of e old active) [0..<length active])) active))"
    using fold_moves [OF all_moves_known, of e old active] assms unfolding known_def by metis
  then show ?thesis unfolding migrate_def Let_def maps by (simp add: trim_frame)
qed

lemma select_frame:
  assumes "known old (concat active)"
  shows "select_step e (old @ new) i active = select_step e old i active"
proof -
  have "set (concat (trim e old active)) \<subseteq> set (concat active)"
    unfolding set_concat_nth using trim_island_subset [of _ active e old] by (intro UN_mono) auto
  with assms have "known old (concat (trim e old active))" by (auto simp: known_def simp del: set_concat)
  then show ?thesis unfolding select_step_def by (simp add: trim_frame [OF assms] migrate_frame)
qed

section \<open>The population as a function of the archive\<close>

text \<open>An ordinary candidate published by the run, and an archive of such candidates.\<close>

definition ordinary_ok :: "nat \<Rightarrow> candidate \<Rightarrow> bool" where
  "ordinary_ok n c \<longleftrightarrow> is_population c \<and> \<not> is_seed_candidate c \<and> settled n c \<and> is_safe_id (ca_id c)
     \<and> ca_source_sha256 c \<noteq> None \<and> ca_receipt_sha256 c \<noteq> None \<and> ca_integrity c \<noteq> None \<and> ca_bundle c = None"

definition records_ok :: "evolution_config \<Rightarrow> candidate list \<Rightarrow> bool" where
  "records_ok cfg records \<longleftrightarrow> distinct (map ca_id records) \<and> list_all (ordinary_ok (ec_num_islands cfg)) records"

definition batch_at :: "candidate list \<Rightarrow> nat \<Rightarrow> candidate list" where
  "batch_at records i = filter (\<lambda>c. ca_iteration c = i) records"

definition best_at :: "candidate list \<Rightarrow> nat \<Rightarrow> rat option" where
  "best_at records n = best_score (filter (\<lambda>c. ca_iteration c \<le> n \<and> valid c) records)"

text \<open>
  The specification: what the population, the last migration and the stagnation are after \<open>n\<close>
  iterations, as a function of the archive alone.
\<close>

fun population_at :: "selection_env \<Rightarrow> candidate list \<Rightarrow> nat \<Rightarrow> string list list \<times> int \<times> int" where
  "population_at e records 0 = (trim e records (put_all (batch_at records 0) (empty_active (se_config e))), 0, 0)"
| "population_at e records (Suc n) =
     (case population_at e records n of
        (active, migration, stagnation) \<Rightarrow>
          case select_step e records (Suc n) (put_all (batch_at records (Suc n)) active) of
            (moved, active') \<Rightarrow> (active', if moved then int (Suc n) else migration,
               if improved (best_at records n) (best_at records (Suc n)) then 0 else stagnation + 1))"

lemma records_ok_settled: "records_ok cfg records \<Longrightarrow> list_all (settled (ec_num_islands cfg)) (batch_at records i)"
  by (auto simp: records_ok_def list_all_iff ordinary_ok_def batch_at_def)

lemma records_ok_append: "records_ok cfg (old @ new) \<Longrightarrow> records_ok cfg old"
  by (simp add: records_ok_def)

lemma batch_ids_distinct: "records_ok cfg records \<Longrightarrow> distinct (map ca_id (batch_at records i))"
  unfolding records_ok_def batch_at_def by (simp add: distinct_map_filter)

lemma find_record_batch: "records_ok cfg records \<Longrightarrow> c \<in> set records \<Longrightarrow> find_record records (ca_id c) = Some c"
  unfolding records_ok_def find_record_def by (simp add: find_distinct_key)

text \<open>What the population at \<open>n\<close> is made of.\<close>

definition grounded :: "selection_env \<Rightarrow> candidate list \<Rightarrow> nat \<Rightarrow> string list list \<Rightarrow> bool" where
  "grounded e records n active \<longleftrightarrow>
     populated (se_config e) records active
     \<and> set (concat active) \<subseteq> ca_id ` {c \<in> set records. ca_iteration c \<le> n}
     \<and> (\<forall>c\<in>set records. ca_iteration c \<le> n \<and> valid c \<longrightarrow>
          (\<exists>b\<in>set (candidates_of records (concat active)). valid b \<and> score c \<le> score b))"

lemma length_empty_active [simp]: "length (empty_active cfg) = ec_num_islands cfg"
  by (simp add: empty_active_def)

lemma concat_empty_active [simp]: "concat (empty_active cfg) = []"
  by (simp add: empty_active_def)

lemma batch_fresh:
  assumes ok: "records_ok cfg records" and below: "set (concat active) \<subseteq> ca_id ` {c \<in> set records. ca_iteration c \<le> n}"
  shows "ca_id ` set (batch_at records (Suc n)) \<inter> set (concat active) = {}"
proof (rule equals0I)
  fix x assume x: "x \<in> ca_id ` set (batch_at records (Suc n)) \<inter> set (concat active)"
  from x obtain c where c: "c \<in> set records" "ca_iteration c = Suc n" "x = ca_id c" by (auto simp: batch_at_def)
  from x have "x \<in> set (concat active)" by (rule IntD2)
  with below have "x \<in> ca_id ` {c \<in> set records. ca_iteration c \<le> n}" by (rule subsetD)
  then obtain d where d: "d \<in> set records" "ca_iteration d \<le> n" "x = ca_id d" by blast
  from ok c d have "c = d" unfolding records_ok_def by (metis distinct_key_unique)
  with c d show False by simp
qed

lemma candidates_of_member:
  "find_record records (ca_id c) = Some c \<Longrightarrow> ca_id c \<in> set ids \<Longrightarrow> c \<in> set (candidates_of records ids)"
  by (auto simp: set_candidates_of)

lemma population_at_grounded:
  assumes cfg: "config_ok (se_config e)" and ok: "records_ok (se_config e) records"
  shows "grounded e records n (fst (population_at e records n))"
proof (induction n)
  case 0
  let ?placed = "put_all (batch_at records 0) (empty_active (se_config e))"
  have settled: "list_all (settled (length (empty_active (se_config e)))) (batch_at records 0)"
    using records_ok_settled [OF ok] by simp
  have dist: "distinct (concat ?placed)"
    using put_all_distinct [OF settled] batch_ids_distinct [OF ok] by simp
  have members: "set (concat ?placed) = ca_id ` set (batch_at records 0)"
    using put_all_set [OF settled] by (simp only: concat_empty_active) simp
  have "populated (se_config e) records (trim e records ?placed)"
    using cfg dist by (intro trim_populated) simp_all
  moreover have "set (concat (trim e records ?placed)) \<subseteq> ca_id ` {c \<in> set records. ca_iteration c \<le> 0}"
  proof -
    have "set (concat (trim e records ?placed)) \<subseteq> set (concat ?placed)"
      unfolding set_concat_nth using trim_island_subset [of _ ?placed e records] by (intro UN_mono) auto
    then show ?thesis unfolding members by (auto simp: batch_at_def simp del: set_concat)
  qed
  moreover have "\<exists>b\<in>set (candidates_of records (concat (trim e records ?placed))). valid b \<and> score c \<le> score b"
    if "c \<in> set records" "ca_iteration c \<le> 0" "valid c" for c
  proof -
    have "ca_id c \<in> set (concat ?placed)" unfolding members using that by (auto simp: batch_at_def)
    with find_record_batch [OF ok that(1)] have "c \<in> set (candidates_of records (concat ?placed))"
      by (rule candidates_of_member)
    then show ?thesis using that(3) by (rule trim_best)
  qed
  ultimately show ?case by (simp add: grounded_def)
next
  case (Suc n)
  obtain active migration stagnation where before: "population_at e records n = (active, migration, stagnation)"
    by (cases "population_at e records n") auto
  let ?batch = "batch_at records (Suc n)"
  let ?placed = "put_all ?batch active"
  obtain moved active' where step: "select_step e records (Suc n) ?placed = (moved, active')" by fastforce
  have after: "fst (population_at e records (Suc n)) = active'" by (simp add: before step)
  from Suc before have pop: "populated (se_config e) records active"
    and below: "set (concat active) \<subseteq> ca_id ` {c \<in> set records. ca_iteration c \<le> n}"
    and best: "\<And>c. c \<in> set records \<Longrightarrow> ca_iteration c \<le> n \<Longrightarrow> valid c \<Longrightarrow>
       \<exists>b\<in>set (candidates_of records (concat active)). valid b \<and> score c \<le> score b"
    by (auto simp: grounded_def simp del: set_concat)
  have len: "length active = ec_num_islands (se_config e)" and dist: "distinct (concat active)"
    using pop by (auto simp: populated_def)
  have settled: "list_all (settled (length active)) ?batch" using records_ok_settled [OF ok] len by simp
  have dist': "distinct (concat ?placed)"
    using put_all_distinct [OF settled dist batch_ids_distinct [OF ok] batch_fresh [OF ok below]] .
  have members: "set (concat ?placed) = set (concat active) \<union> ca_id ` set ?batch" using settled by (rule put_all_set)
  have "populated (se_config e) records active'"
    using cfg dist' len step by (intro select_step_populated) auto
  moreover have "set (concat active') \<subseteq> ca_id ` {c \<in> set records. ca_iteration c \<le> Suc n}"
  proof -
    have "set (concat ?placed) \<subseteq> ca_id ` {c \<in> set records. ca_iteration c \<le> Suc n}"
      unfolding members
    proof (rule Un_least)
      show "set (concat active) \<subseteq> ca_id ` {c \<in> set records. ca_iteration c \<le> Suc n}"
        by (rule subset_trans [OF below]) (auto intro!: image_mono)
    qed (auto simp: batch_at_def)
    with select_step_subset [OF step] show ?thesis by blast
  qed
  moreover have "\<exists>b\<in>set (candidates_of records (concat active')). valid b \<and> score c \<le> score b"
    if "c \<in> set records" "ca_iteration c \<le> Suc n" "valid c" for c
  proof -
    have "\<exists>d\<in>set (candidates_of records (concat ?placed)). valid d \<and> score c \<le> score d"
    proof (cases "ca_iteration c \<le> n")
      case True
      from best [OF that(1) True that(3)] obtain d
        where d: "d \<in> set (candidates_of records (concat active))" "valid d" "score c \<le> score d" by blast
      then have "d \<in> set (candidates_of records (concat ?placed))"
        unfolding set_candidates_of members by blast
      with d show ?thesis by blast
    next
      case False
      with that have "ca_id c \<in> set (concat ?placed)" unfolding members by (auto simp: batch_at_def)
      with find_record_batch [OF ok that(1)] have "c \<in> set (candidates_of records (concat ?placed))"
        by (rule candidates_of_member)
      with that(3) show ?thesis by blast
    qed
    then obtain d where d: "d \<in> set (candidates_of records (concat ?placed))" "valid d" "score c \<le> score d" by blast
    from select_step_best [OF d(1,2) step] d(3) show ?thesis by (meson order_trans)
  qed
  ultimately show ?case unfolding after grounded_def by blast
qed

lemma batch_at_frame: "\<forall>c\<in>set new. n < ca_iteration c \<Longrightarrow> i \<le> n \<Longrightarrow> batch_at (old @ new) i = batch_at old i"
  unfolding batch_at_def by (auto simp: filter_empty_conv)

lemma best_at_frame: "\<forall>c\<in>set new. n < ca_iteration c \<Longrightarrow> i \<le> n \<Longrightarrow> best_at (old @ new) i = best_at old i"
  unfolding best_at_def by (simp add: filter_empty_conv) (metis (mono_tags, lifting) append_Nil2 filter_False leD order_trans)

lemma population_at_frame:
  assumes cfg: "config_ok (se_config e)" and ok: "records_ok (se_config e) (old @ new)"
    and new: "\<forall>c\<in>set new. n < ca_iteration c"
  shows "population_at e (old @ new) n = population_at e old n"
  using new
proof (induction n)
  case 0
  have settled: "list_all (settled (length (empty_active (se_config e)))) (batch_at old 0)"
    using records_ok_settled [OF records_ok_append [OF ok]] by simp
  have "known old (concat (put_all (batch_at old 0) (empty_active (se_config e))))"
    unfolding known_def put_all_set [OF settled] by (auto simp: batch_at_def)
  then show ?case using 0 by (simp add: batch_at_frame trim_frame)
next
  case (Suc n)
  then have new: "\<forall>c\<in>set new. n < ca_iteration c" by auto
  obtain active migration stagnation where at: "population_at e old n = (active, migration, stagnation)"
    by (cases "population_at e old n") auto
  from population_at_grounded [OF cfg records_ok_append [OF ok], of n] at
  have len: "length active = ec_num_islands (se_config e)" and below: "set (concat active) \<subseteq> ca_id ` {c \<in> set old. ca_iteration c \<le> n}"
    by (auto simp: grounded_def populated_def simp del: set_concat)
  have settled: "list_all (settled (length active)) (batch_at old (Suc n))"
    using records_ok_settled [OF records_ok_append [OF ok]] len by simp
  have "known old (concat (put_all (batch_at old (Suc n)) active))"
    unfolding known_def put_all_set [OF settled] using below by (auto simp: batch_at_def simp del: set_concat)
  then show ?case using Suc.IH [OF new] Suc.prems new at
    by (simp add: batch_at_frame [OF Suc.prems] best_at_frame [OF Suc.prems] best_at_frame [OF new] select_frame)
qed

section \<open>Replaying computes the specification\<close>

lemma foldE_append: "foldE f (xs @ ys) s = bindE (foldE f xs s) (foldE f ys)"
proof (induction xs arbitrary: s)
  case (Cons x xs)
  then show ?case by (cases "f x s") simp_all
qed simp

lemma foldE_snoc: "foldE f (xs @ [x]) s = bindE (foldE f xs s) (f x)"
proof (cases "foldE f xs s")
  case (Inr u)
  then show ?thesis by (cases "f x u") (simp_all add: foldE_append)
qed (simp add: foldE_append)

lemma best_score_set: "set xs = set ys \<Longrightarrow> best_score xs = best_score ys"
  unfolding best_score_def by (metis set_empty)

lemma best_score_Un: "best_score (xs @ ys) = max_score (best_score xs) (best_score ys)"
  unfolding best_score_def max_score_def by (simp add: image_Un Max_Un)

lemma scores_at_ok:
  assumes "records_ok cfg records"
  shows "scores_at P records = filter (\<lambda>c. P c \<and> valid c) records"
  using assms unfolding scores_at_def records_ok_def list_all_iff ordinary_ok_def by (auto intro!: filter_cong)

lemma replay_batch_ok: "records_ok cfg records \<Longrightarrow> replay_batch records i = batch_at records i"
  unfolding replay_batch_def batch_at_def records_ok_def list_all_iff ordinary_ok_def by (auto intro!: filter_cong)

lemma best_at_Suc:
  "best_at records (Suc n) = max_score (best_score (filter valid (batch_at records (Suc n)))) (best_at records n)"
  unfolding best_at_def best_score_Un [symmetric] by (rule best_score_set) (auto simp: batch_at_def)

definition replay_to :: "selection_env \<Rightarrow> candidate list \<Rightarrow> nat \<Rightarrow> projection result" where
  "replay_to e records n = bindE (replay_start e records) (foldE (replay_iteration e records) [1..<n + 1])"

lemma replay_to_population_at:
  assumes cfg: "config_ok (se_config e)" and ok: "records_ok (se_config e) records"
    and "\<forall>i\<in>{1..n}. batch_at records i \<noteq> []"
  shows "replay_to e records n = Inr (case population_at e records n of
           (active, migration, stagnation) \<Rightarrow> (active, best_at records n, migration, stagnation))"
  using assms(3)
proof (induction n)
  case 0
  have seeds: "filter is_seed_candidate records = []"
    using ok by (auto simp: records_ok_def list_all_iff ordinary_ok_def filter_empty_conv)
  have initial: "filter (\<lambda>c. is_population c \<and> \<not> is_seed_candidate c \<and> ca_iteration c = 0) records = batch_at records 0"
    using replay_batch_ok [OF ok, of 0] by (simp add: replay_batch_def)
  have "foldE place (batch_at records 0) (empty_active (se_config e)) = Inr (put_all (batch_at records 0) (empty_active (se_config e)))"
    using records_ok_settled [OF ok] by (intro foldE_place) simp
  moreover have "best_score (scores_at (\<lambda>c. ca_iteration c = 0) records) = best_at records 0"
    by (simp add: scores_at_ok [OF ok] best_at_def)
  ultimately show ?case by (simp add: replay_to_def replay_start_def seeds initial Let_def)
next
  case (Suc n)
  obtain active migration stagnation where at: "population_at e records n = (active, migration, stagnation)"
    by (cases "population_at e records n") auto
  from population_at_grounded [OF cfg ok, of n] at have len: "length active = ec_num_islands (se_config e)"
    by (auto simp: grounded_def populated_def)
  have range: "[1..<Suc n + 1] = [1..<n + 1] @ [Suc n]" by simp
  have "foldE place (batch_at records (Suc n)) active = Inr (put_all (batch_at records (Suc n)) active)"
    using records_ok_settled [OF ok] len by (intro foldE_place) simp
  then have step: "replay_iteration e records (Suc n) (active, best_at records n, migration, stagnation) =
      Inr (case population_at e records (Suc n) of (active, migration, stagnation) \<Rightarrow>
        (active, best_at records (Suc n), migration, stagnation))"
    using Suc.prems at
    by (auto simp: replay_iteration_def replay_batch_ok [OF ok] best_at_Suc select_step_def Let_def split: prod.split)
  have "replay_to e records (Suc n) = bindE (replay_to e records n) (replay_iteration e records (Suc n))"
    unfolding replay_to_def range by (cases "replay_start e records") (simp_all only: foldE_snoc bindE_simps)
  then show ?case using Suc at step by simp
qed

lemma reconstruct_population_at:
  assumes "config_ok (se_config e)" and "records_ok (se_config e) records"
    and "jget_default state ''iteration'' (JInt 0) = JInt (int n)" and "\<forall>i\<in>{1..n}. batch_at records i \<noteq> []"
  shows "reconstruct e state records = Inr (case population_at e records n of
           (active, migration, stagnation) \<Rightarrow> (active, visible_best records n, migration, stagnation))"
proof -
  have "reconstruct e state records = bindE (replay_to e records n)
      (\<lambda>(active, _, migration, stagnation). Inr (active, visible_best records n, migration, stagnation))"
    unfolding reconstruct_def replay_to_def assms(3) by (cases "replay_start e records") simp_all
  then show ?thesis using replay_to_population_at [OF assms(1,2,4)] by (simp split: prod.split)
qed

end
