(* ===== verification/Journal.thy ===== *)
theory Journal imports Checkpoint begin

text \<open>
  The offspring journal of an undisturbed run: one outcome per attempt in the order of the
  attempts, and exactly the candidates it names in the archive.  Such a journal passes the checks
  of \<^verbatim>\<open>_validate_outcome_history\<close>.
\<close>

section \<open>The order of the attempts\<close>

text \<open>\<open>n\<close> complete iterations of \<open>m\<close> attempts, then the first \<open>k\<close> attempts of the next.\<close>

definition schedule :: "nat \<Rightarrow> nat \<Rightarrow> nat \<Rightarrow> (nat \<times> nat) list" where
  "schedule m n k = concat (map (\<lambda>i. map (Pair i) [0..<m]) [1..<n + 1]) @ map (Pair (n + 1)) [0..<k]"

definition stamp :: "offspring_outcome \<Rightarrow> nat \<times> nat" where
  "stamp u = (oo_iteration u, oo_attempt u)"

lemma schedule_next: "schedule m n k @ [(n + 1, k)] = schedule m n (Suc k)"
  by (simp add: schedule_def)

lemma schedule_full: "schedule m n m = schedule m (Suc n) 0"
  by (simp add: schedule_def)

lemma schedule_range: "(i, j) \<in> set (schedule m n k) \<Longrightarrow> k \<le> m \<Longrightarrow> 1 \<le> i \<and> i \<le> n + 1 \<and> j < m \<and> (i = n + 1 \<longrightarrow> j < k)"
  by (auto simp: schedule_def)

lemma filter_pairs:
  "distinct is \<Longrightarrow> filter (\<lambda>p. fst p = i) (concat (map (\<lambda>j. map (Pair j) xs) is)) = (if i \<in> set is then map (Pair i) xs else [])"
  by (induction "is") (auto simp: filter_empty_conv filter_id_conv comp_def filter_map)

lemma schedule_filter:
  "filter (\<lambda>p. fst p = i) (schedule m n k) =
     (if 1 \<le> i \<and> i \<le> n then map (Pair i) [0..<m] else if i = n + 1 then map (Pair i) [0..<k] else [])"
proof -
  have "filter (\<lambda>p. fst p = i) (map (Pair (n + 1)) [0..<k]) = (if i = n + 1 then map (Pair i) [0..<k] else [])"
    by (auto simp: filter_empty_conv filter_id_conv)
  moreover have "filter (\<lambda>p. fst p = i) (concat (map (\<lambda>i. map (Pair i) [0..<m]) [1..<n + 1])) =
      (if 1 \<le> i \<and> i \<le> n then map (Pair i) [0..<m] else [])"
    by (subst filter_pairs) auto
  ultimately show ?thesis unfolding schedule_def filter_append by auto
qed

section \<open>Well-formed journals\<close>

definition candidate_entry :: "candidate \<Rightarrow> nat \<times> string option \<times> nat option" where
  "candidate_entry c = (ca_iteration c, Some (ca_id c), ca_island c)"

definition outcome_entry :: "offspring_outcome \<Rightarrow> nat \<times> string option \<times> nat option" where
  "outcome_entry u = (oo_iteration u, oo_candidate u, Some (oo_island u))"

definition later :: "candidate list \<Rightarrow> candidate list" where
  "later records = filter (\<lambda>c. 0 < ca_iteration c) records"

definition journal_ok :: "evolution_config \<Rightarrow> archive \<Rightarrow> nat \<Rightarrow> nat \<Rightarrow> bool" where
  "journal_ok cfg a n k \<longleftrightarrow>
     records_ok cfg (av_records a) \<and> k \<le> ec_offspring cfg
     \<and> map stamp (av_outcomes a) = schedule (ec_offspring cfg) n k
     \<and> (\<forall>u\<in>set (av_outcomes a). oo_island u = oo_attempt u mod ec_num_islands cfg)
     \<and> (\<forall>i\<in>{1..n}. evaluated (batch_of i (av_outcomes a)) \<noteq> [])
     \<and> map candidate_entry (later (av_records a)) = map outcome_entry (evaluated (av_outcomes a))"

lemma batch_of_stamps: "map stamp (batch_of i us) = filter (\<lambda>p. fst p = i) (map stamp us)"
  by (simp add: batch_of_def filter_map comp_def stamp_def)

lemma journal_attempts:
  assumes "journal_ok cfg a n k"
  shows "map oo_attempt (batch_of i (av_outcomes a)) =
    (if 1 \<le> i \<and> i \<le> n then [0..<ec_offspring cfg] else if i = n + 1 then [0..<k] else [])"
proof -
  have "map oo_attempt us = map snd (map stamp us)" for us by (simp add: stamp_def)
  then have "map oo_attempt (batch_of i (av_outcomes a)) = map snd (filter (\<lambda>p. fst p = i) (schedule (ec_offspring cfg) n k))"
    using assms by (simp only: batch_of_stamps journal_ok_def)
  then show ?thesis by (simp add: schedule_filter comp_def)
qed

lemma journal_sorted:
  assumes "journal_ok cfg a n k"
  shows "sort_key oo_attempt (batch_of i (av_outcomes a)) = batch_of i (av_outcomes a)"
  by (rule sort_key_id_if_sorted) (simp add: journal_attempts [OF assms])

lemma journal_attempts_of:
  assumes "journal_ok cfg a n k"
  shows "attempts_of (batch_of i (av_outcomes a)) =
    (if 1 \<le> i \<and> i \<le> n then {..<ec_offspring cfg} else if i = n + 1 then {..<k} else {})"
proof -
  have "attempts_of (batch_of i (av_outcomes a)) = set (map oo_attempt (batch_of i (av_outcomes a)))"
    by (simp add: attempts_of_def)
  then show ?thesis unfolding journal_attempts [OF assms] by (auto simp: atLeast0LessThan)
qed

lemma journal_member:
  assumes "journal_ok cfg a n k" and "u \<in> set (av_outcomes a)"
  shows "1 \<le> oo_iteration u \<and> oo_iteration u \<le> n + 1 \<and> oo_attempt u < ec_offspring cfg
    \<and> (oo_iteration u = n + 1 \<longrightarrow> oo_attempt u < k)"
proof -
  have "stamp u \<in> set (schedule (ec_offspring cfg) n k)"
    using assms unfolding journal_ok_def by (metis image_eqI list.set_map)
  then show ?thesis using schedule_range assms(1) by (simp add: stamp_def journal_ok_def)
qed

lemma evaluated_batch: "evaluated (batch_of i us) = batch_of i (evaluated us)"
  by (simp add: evaluated_def batch_of_def conj_commute)

text \<open>The candidates of an iteration are those its outcomes name, in the same order.\<close>

lemma journal_batch:
  assumes "journal_ok cfg a n k" and "1 \<le> i"
  shows "map candidate_entry (batch_at (av_records a) i) = map outcome_entry (evaluated (batch_of i (av_outcomes a)))"
proof -
  have "batch_at (av_records a) i = filter (\<lambda>c. fst (candidate_entry c) = i) (later (av_records a))"
    using assms(2) by (auto simp: batch_at_def later_def candidate_entry_def intro!: filter_cong)
  then have "map candidate_entry (batch_at (av_records a) i) = filter (\<lambda>p. fst p = i) (map candidate_entry (later (av_records a)))"
    by (simp add: filter_map comp_def)
  also have "\<dots> = filter (\<lambda>p. fst p = i) (map outcome_entry (evaluated (av_outcomes a)))"
    using assms(1) by (simp add: journal_ok_def)
  also have "\<dots> = map outcome_entry (evaluated (batch_of i (av_outcomes a)))"
    unfolding evaluated_batch by (simp add: filter_map comp_def batch_of_def outcome_entry_def)
  finally show ?thesis .
qed

lemma entry_ids:
  assumes "map candidate_entry cs = map outcome_entry us"
  shows "map (\<lambda>c. Some (ca_id c)) cs = map oo_candidate us"
proof -
  have "map (fst \<circ> snd) (map candidate_entry cs) = map (fst \<circ> snd) (map outcome_entry us)" using assms by simp
  then show ?thesis by (simp add: comp_def candidate_entry_def outcome_entry_def)
qed

lemma journal_batch_nonempty:
  "journal_ok cfg a n k \<Longrightarrow> i \<in> {1..n} \<Longrightarrow> batch_at (av_records a) i \<noteq> []"
  using journal_batch [of cfg a n k i] unfolding journal_ok_def by force

lemma journal_iterations:
  assumes "journal_ok cfg a n k" and "c \<in> set (av_records a)"
  shows "ca_iteration c \<le> n + 1 \<and> (k = 0 \<longrightarrow> ca_iteration c \<le> n)"
proof (cases "ca_iteration c = 0")
  case False
  with assms(2) have "c \<in> set (later (av_records a))" by (simp add: later_def)
  then have "candidate_entry c \<in> set (map outcome_entry (evaluated (av_outcomes a)))"
    using assms(1) unfolding journal_ok_def by (metis image_eqI list.set_map)
  then obtain u where "u \<in> set (av_outcomes a)" and "oo_iteration u = ca_iteration c"
    by (auto simp: candidate_entry_def outcome_entry_def evaluated_def)
  with journal_member [OF assms(1)] show ?thesis by (metis less_nat_zero_code Suc_eq_plus1 le_SucE)
qed simp

section \<open>Passing the checks of the outcome history\<close>

lemma journal_candidates:
  assumes "journal_ok cfg a n k"
  shows "journal_candidates_ok (av_records a) (av_outcomes a) 1"
proof -
  let ?us = "av_outcomes a" and ?cs = "av_records a"
  have entries: "map candidate_entry (later ?cs) = map outcome_entry (evaluated ?us)"
    and dist: "distinct (map ca_id ?cs)" and pop: "\<forall>c\<in>set ?cs. ca_strategy c = ''population''"
    using assms by (auto simp: journal_ok_def records_ok_def list_all_iff ordinary_ok_def is_population_def)
  have "distinct (map (\<lambda>c. Some (ca_id c)) (later ?cs))"
    using dist by (simp add: later_def distinct_map_filter distinct_map comp_def inj_on_def)
  then have "distinct (map oo_candidate (evaluated ?us))" by (simp only: entry_ids [OF entries])
  moreover have "\<exists>c\<in>set ?cs. Some (ca_id c) = oo_candidate u \<and> ca_strategy c = ''population''
      \<and> ca_iteration c = oo_iteration u \<and> ca_island c = Some (oo_island u)" if "u \<in> set (evaluated ?us)" for u
  proof -
    have "outcome_entry u \<in> set (map candidate_entry (later ?cs))" using that unfolding entries by simp
    then obtain c where "c \<in> set ?cs" and "outcome_entry u = candidate_entry c" by (auto simp: later_def)
    then show ?thesis using pop by (auto simp: outcome_entry_def candidate_entry_def intro!: bexI [of _ c])
  qed
  moreover have "Some (ca_id c) \<in> oo_candidate ` set (evaluated ?us)" if "c \<in> set ?cs" "1 \<le> ca_iteration c" for c
  proof -
    have "Some (ca_id c) \<in> set (map (\<lambda>c. Some (ca_id c)) (later ?cs))" using that by (auto simp: later_def)
    then show ?thesis unfolding entry_ids [OF entries] by simp
  qed
  moreover have "map (\<lambda>c. Some (ca_id c)) (filter (\<lambda>c. ca_iteration c = i) ?cs) =
      map oo_candidate (evaluated (sort_key oo_attempt (batch_of i ?us)))" if "i \<in> oo_iteration ` set ?us" for i
  proof -
    from that journal_member [OF assms] have "1 \<le> i" by auto
    from entry_ids [OF journal_batch [OF assms this]] show ?thesis
      by (simp add: journal_sorted [OF assms] batch_at_def)
  qed
  ultimately show ?thesis unfolding journal_candidates_ok_def by blast
qed

text \<open>A journal without a started batch, one with a pending batch, one with a failed batch.\<close>

definition phase_ok ::
  "strategy_env \<Rightarrow> archive \<Rightarrow> nat \<Rightarrow> nat \<Rightarrow> (nat \<times> nat) option \<Rightarrow> (nat \<times> string) option \<Rightarrow> bool" where
  "phase_ok e a n k pending failed \<longleftrightarrow>
     (case failed of
        None \<Rightarrow> (pending = None \<longrightarrow> k = 0)
      | Some (f, d) \<Rightarrow> pending = None \<and> f = n + 1 \<and> k = ec_offspring (sv_config e)
          \<and> evaluated (batch_of (n + 1) (av_outcomes a)) = [] \<and> d = outcome_digest e (batch_of (n + 1) (av_outcomes a)))"

lemma journal_shape:
  assumes ok: "journal_ok (sv_config e) a n k" and phase: "phase_ok e a n k pending failed"
  shows "journal_shape_ok e (av_outcomes a) n 1 pending failed"
proof -
  let ?us = "av_outcomes a" and ?cfg = "sv_config e"
  have members: "1 \<le> oo_iteration u \<and> oo_attempt u < ec_offspring ?cfg \<and> oo_island u = oo_attempt u mod ec_num_islands ?cfg"
    if "u \<in> set ?us" for u
    using journal_member [OF ok that] ok that by (auto simp: journal_ok_def)
  have complete: "attempts_of (batch_of i ?us) = {..<ec_offspring ?cfg} \<and> evaluated (batch_of i ?us) \<noteq> []"
    if "i \<in> {1..n}" for i
    using ok that by (auto simp: journal_attempts_of [OF ok] journal_ok_def)
  have future: "if pending \<noteq> None \<and> i = n + 1 then attempts_of (batch_of i ?us) \<subseteq> {..<ec_offspring ?cfg}
            else (case failed of None \<Rightarrow> False
                  | Some (f, _) \<Rightarrow> f = i \<and> i = n + 1 \<and> attempts_of (batch_of i ?us) = {..<ec_offspring ?cfg}
                      \<and> evaluated (batch_of i ?us) = [])" if "i \<in> oo_iteration ` set ?us" "n < i" for i
  proof -
    from that obtain u where u: "u \<in> set ?us" "oo_iteration u = i" by auto
    with journal_member [OF ok u(1)] that have i: "i = n + 1" and "oo_attempt u < k" by auto
    with phase ok show ?thesis
      unfolding phase_ok_def by (auto simp: journal_attempts_of [OF ok] journal_ok_def split: option.splits)
  qed
  have fail: "case failed of None \<Rightarrow> True
         | Some (f, d) \<Rightarrow> attempts_of (batch_of f ?us) = {..<ec_offspring ?cfg} \<and> evaluated (batch_of f ?us) = []
             \<and> outcome_digest e (batch_of f ?us) = d"
    using phase unfolding phase_ok_def by (auto simp: journal_attempts_of [OF ok] split: option.splits)
  show ?thesis unfolding journal_shape_ok_def Let_def using members complete future fail by blast
qed

end
