(* ===== verification/CandidateIds.thy ===== *)
theory CandidateIds imports PopulationMain begin

text \<open>
  The ids \<^verbatim>\<open>candidate-0001\<close>, \<^verbatim>\<open>candidate-0002\<close> and so on that \<^verbatim>\<open>next_id\<close> hands out: fresh, safe identifiers.
\<close>

section \<open>Candidate ids\<close>

lemma digit_char_digit: "is_digit (digit_char n)"
proof -
  have "n mod 10 < 10" by simp
  then have "48 + n mod 10 < 256" by linarith
  then have "(48 + n mod 10) mod 256 = 48 + n mod 10" by (rule mod_less)
  with \<open>n mod 10 < 10\<close> show ?thesis by (simp add: digit_char_def is_digit_def of_char_of Let_def)
qed

lemma show_nat_digits: "c \<in> set (show_nat n) \<Longrightarrow> is_digit c"
proof (induction n rule: show_nat.induct)
  case (1 n)
  then show ?case by (subst (asm) (2) show_nat.simps) (auto simp: digit_char_digit split: if_splits)
qed

lemma show_nat_nonempty [simp]: "show_nat n \<noteq> []"
  by (subst show_nat.simps) simp

lemma show_nat_length: "n < 10 ^ Suc d \<Longrightarrow> length (show_nat n) \<le> Suc d"
proof (induction d arbitrary: n)
  case 0
  then show ?case by (subst show_nat.simps) simp
next
  case (Suc d)
  show ?case
  proof (cases "n < 10")
    case True
    then show ?thesis by (subst show_nat.simps) simp
  next
    case False
    have "n div 10 < 10 ^ Suc d" using Suc.prems by (simp add: less_mult_imp_div_less)
    from Suc.IH [OF this] False show ?thesis by (subst show_nat.simps) simp
  qed
qed

lemma digits_val_zeros: "digits_val (replicate z CHR ''0'' @ s) = digits_val s"
  by (induction z) (simp_all add: digits_val.simps)

lemma candidate_number_next: "candidate_number (''candidate-'' @ pad4 (show_nat n)) = Some n"
proof -
  have "is_digit CHR ''0''" by (simp add: is_digit_def)
  then show ?thesis
    by (auto simp: candidate_number_def pad4_def digits_val_zeros digits_val_show_nat Let_def dest: show_nat_digits
        simp del: digits_val.simps)
qed

lemma digit_alnum: "is_digit c \<Longrightarrow> is_alnum c"
  by (simp add: is_digit_def is_alnum_def Let_def)

lemma next_id_safe:
  assumes "n < 10 ^ 100"
  shows "is_safe_id (''candidate-'' @ pad4 (show_nat n))"
proof -
  have "length (show_nat n) \<le> Suc 99" using assms by (intro show_nat_length) simp
  moreover have "is_digit CHR ''0''" by (simp add: is_digit_def)
  then have "id_char c" if "c \<in> set (pad4 (show_nat n))" for c
    using that by (auto simp: pad4_def id_char_def intro!: digit_alnum dest: show_nat_digits)
  moreover have "id_char c" if "c \<in> set ''candidate-''" for c
    using that by (auto simp: id_char_def is_alnum_def)
  ultimately show ?thesis by (auto simp: is_safe_id_def pad4_def is_alnum_def)
qed

text \<open>The candidates are numbered from one without gaps above.\<close>

definition numbered :: "candidate list \<Rightarrow> bool" where
  "numbered records \<longleftrightarrow> (\<forall>c\<in>set records. \<exists>m. candidate_number (ca_id c) = Some m \<and> m \<le> length records)"

definition next_number :: "candidate list \<Rightarrow> nat" where
  "next_number records = Max (insert 0 (set (List.map_filter (\<lambda>c. candidate_number (ca_id c)) records))) + 1"

lemma next_id_number: "next_id a = ''candidate-'' @ pad4 (show_nat (next_number (av_records a)))"
  by (simp add: next_id_def next_number_def)

lemma set_map_filter_numbers:
  "set (List.map_filter f xs) = {y. \<exists>x\<in>set xs. f x = Some y}"
  by (induction xs) (auto simp: map_filter_simps split: option.splits)

lemma next_number_above:
  assumes "c \<in> set records" and "candidate_number (ca_id c) = Some m"
  shows "m < next_number records"
proof -
  have "m \<in> insert 0 (set (List.map_filter (\<lambda>c. candidate_number (ca_id c)) records))"
    using assms by (auto simp: set_map_filter_numbers)
  then have "m \<le> Max (insert 0 (set (List.map_filter (\<lambda>c. candidate_number (ca_id c)) records)))"
    by (intro Max_ge) auto
  then show ?thesis by (simp add: next_number_def)
qed

lemma next_id_fresh: "next_id a \<notin> ca_id ` set (av_records a)"
proof
  assume "next_id a \<in> ca_id ` set (av_records a)"
  then obtain c where c: "c \<in> set (av_records a)" "ca_id c = next_id a" by auto
  then have "candidate_number (ca_id c) = Some (next_number (av_records a))"
    by (simp only: c next_id_number candidate_number_next)
  from next_number_above [OF c(1) this] show False by simp
qed

lemma next_number_bound:
  assumes "numbered records"
  shows "next_number records \<le> length records + 1"
proof -
  have "\<forall>m\<in>insert 0 (set (List.map_filter (\<lambda>c. candidate_number (ca_id c)) records)). m \<le> length records"
    using assms by (auto simp: numbered_def set_map_filter_numbers)
  then have "Max (insert 0 (set (List.map_filter (\<lambda>c. candidate_number (ca_id c)) records))) \<le> length records"
    by (subst Max_le_iff) auto
  then show ?thesis by (simp add: next_number_def)
qed

end
