(* ===== verification/Resume.thy ===== *)
theory Resume imports Journal CandidateIds begin

text \<open>
  Checkpoints: the states an undisturbed run writes between two batches.  The gates of a resumed run
  accept them, and every batch leads from one checkpoint to the next.
\<close>

section \<open>Checkpoints\<close>

text \<open>The environment: a checked configuration, hexadecimal digests, a well-formed authority, no seeds.\<close>

definition env_ok :: "strategy_env \<Rightarrow> bool" where
  "env_ok e \<longleftrightarrow> config_ok (sv_config e) \<and> \<not> sv_seeded e \<and> (\<forall>x. is_hex64 (sv_sha256 e x))
     \<and> (\<exists>x. authority_from_dict (sv_authority e) = Inr x \<and> authority_to_dict x = sv_authority e)"

text \<open>Where every candidate comes from: an earlier valid parent, or no valid candidate to descend from.\<close>

definition descends :: "candidate list \<Rightarrow> candidate list \<Rightarrow> candidate \<Rightarrow> bool" where
  "descends all_records earlier c \<longleftrightarrow>
     (case ca_parent c of
        None \<Rightarrow> ca_generation c = 0
          \<and> (ca_iteration c = 0 \<or> \<not> (\<exists>d\<in>set all_records. ca_iteration d < ca_iteration c \<and> valid d))
      | Some pid \<Rightarrow> \<exists>p\<in>set earlier. ca_id p = pid \<and> valid p \<and> ca_generation c = ca_generation p + 1
          \<and> ca_iteration p < ca_iteration c)"

fun lineage_from :: "candidate list \<Rightarrow> candidate list \<Rightarrow> candidate list \<Rightarrow> bool" where
  "lineage_from all_records earlier [] \<longleftrightarrow> True"
| "lineage_from all_records earlier (c # cs) \<longleftrightarrow>
     descends all_records earlier c \<and> lineage_from all_records (earlier @ [c]) cs"

definition archive_fine :: "evolution_config \<Rightarrow> archive \<Rightarrow> nat \<Rightarrow> nat \<Rightarrow> bool" where
  "archive_fine cfg a n k \<longleftrightarrow>
     journal_ok cfg a n k \<and> numbered (av_records a) \<and> n \<le> ec_max_rounds cfg
     \<and> length (batch_at (av_records a) 0) \<le> ec_population_size cfg
     \<and> (\<forall>c\<in>set (batch_at (av_records a) 0). valid c)
     \<and> lineage_from (av_records a) [] (av_records a)"

text \<open>The items of the outcome journal, absent before the first batch.\<close>

definition bound_items :: "strategy_env \<Rightarrow> archive \<Rightarrow> nat \<Rightarrow> (string \<times> json) list" where
  "bound_items e a n =
     (if n = 0 then []
      else binding_items (JInt 1) n (JStr (outcome_digest e (av_outcomes a))) (JStr (candidate_digest e (batch_at (av_records a) 0))))"

definition harmless_error :: "json \<Rightarrow> nat \<Rightarrow> string list list \<Rightarrow> bool" where
  "harmless_error err n active \<longleftrightarrow>
     err \<notin> {JStr ''cancelled'', JStr ''no valid candidate'', JStr ''offspring_batch_failed''}
     \<and> (n = 0 \<and> concat active = [] \<longrightarrow> err \<notin> {JStr ''evaluator_timeout'', JStr ''worker_unknown'', JStr ''run_failed''})"

definition checkpoint :: "strategy_env \<Rightarrow> archive \<Rightarrow> string list list \<Rightarrow> nat \<Rightarrow> int \<Rightarrow> int \<Rightarrow> json \<Rightarrow> bool" where
  "checkpoint e a active n migration stagnation err \<longleftrightarrow>
     archive_fine (sv_config e) a n 0
     \<and> population_at (sv_selection e) (av_records a) n = (active, migration, stagnation)
     \<and> harmless_error err n active
     \<and> map_of (av_state a) = map_of (written e a ''running'' n (snapshot e a active stagnation err (best_id a) migration @ bound_items e a n))"

lemma checkpointD:
  assumes "checkpoint e a active n migration stagnation err"
  shows "archive_fine (sv_config e) a n 0"
    and "population_at (sv_selection e) (av_records a) n = (active, migration, stagnation)"
    and "harmless_error err n active"
    and "map_of (av_state a) = map_of (written e a ''running'' n (snapshot e a active stagnation err (best_id a) migration @ bound_items e a n))"
  using assms by (auto simp: checkpoint_def)

lemmas state_items = written_def snapshot_def bound_items_def binding_items_def

lemma checkpoint_lookup:
  assumes "checkpoint e a active n migration stagnation err"
  shows "map_of (av_state a) ''schema_version'' = Some (JStr ''1'')"
    and "map_of (av_state a) ''strategy'' = Some (JStr ''population'')"
    and "map_of (av_state a) ''status'' = Some (JStr ''running'')"
    and "map_of (av_state a) ''iteration'' = Some (JInt (int n))"
    and "map_of (av_state a) ''contract_sha256'' = Some (JStr (sv_contract e))"
    and "map_of (av_state a) ''config'' = Some (config_to_dict (sv_sha256 e) (sv_config e))"
    and "map_of (av_state a) ''active_ids'' = Some (active_json active)"
    and "map_of (av_state a) ''stagnation'' = Some (JInt stagnation)"
    and "map_of (av_state a) ''error'' = Some err"
    and "map_of (av_state a) ''best_candidate_id'' = Some (opt_json (best_id a))"
    and "map_of (av_state a) ''rng_seed'' = Some (opt_int_json (ec_rng_seed (sv_config e)))"
    and "map_of (av_state a) ''last_migration_iteration'' = Some (JInt migration)"
    and "map_of (av_state a) ''candidate_integrity_schema_version'' = Some (JStr ''1'')"
    and "map_of (av_state a) ''candidate_integrity_authority'' = Some (sv_authority e)"
    and "map_of (av_state a) ''candidate_archive_sha256'' = Some (JStr (archive_digest e a))"
    and "map_of (av_state a) ''pending_offspring'' = None"
    and "map_of (av_state a) ''seed_admission'' = None"
    and "map_of (av_state a) ''failed_offspring_iteration'' = None"
    and "map_of (av_state a) ''failed_offspring_sha256'' = None"
    and "map_of (av_state a) ''outcome_schema_version'' = (if n = 0 then None else Some (JStr ''1''))"
    and "map_of (av_state a) ''outcome_start_iteration'' = (if n = 0 then None else Some (JInt 1))"
    and "map_of (av_state a) ''outcome_watermark'' = (if n = 0 then None else Some (JInt (int n)))"
    and "map_of (av_state a) ''outcome_watermark_sha256'' = (if n = 0 then None else Some (JStr (outcome_digest e (av_outcomes a))))"
    and "map_of (av_state a) ''outcome_archive_baseline_sha256'' =
       (if n = 0 then None else Some (JStr (candidate_digest e (batch_at (av_records a) 0))))"
  unfolding checkpointD(4) [OF assms] by (simp_all add: state_items)

section \<open>The gates accept a checkpoint\<close>

text \<open>The fields of a checkpoint, as the gates read them.\<close>

lemma checkpoint_get:
  assumes "checkpoint e a active n migration stagnation err"
  shows "jget_default (av_state a) ''schema_version'' d = JStr ''1''"
    and "jget_default (av_state a) ''strategy'' d = JStr ''population''"
    and "jget_default (av_state a) ''status'' d = JStr ''running''"
    and "jget_default (av_state a) ''iteration'' d = JInt (int n)"
    and "jget_default (av_state a) ''contract_sha256'' d = JStr (sv_contract e)"
    and "jget_default (av_state a) ''config'' d = config_to_dict (sv_sha256 e) (sv_config e)"
    and "jget_default (av_state a) ''active_ids'' d = active_json active"
    and "jget_default (av_state a) ''stagnation'' d = JInt stagnation"
    and "jget_default (av_state a) ''error'' d = err"
    and "jget_default (av_state a) ''best_candidate_id'' d = opt_json (best_id a)"
    and "jget_default (av_state a) ''rng_seed'' d = opt_int_json (ec_rng_seed (sv_config e))"
    and "jget_default (av_state a) ''last_migration_iteration'' d = JInt migration"
    and "jget_default (av_state a) ''candidate_integrity_schema_version'' d = JStr ''1''"
    and "jget_default (av_state a) ''candidate_integrity_authority'' d = sv_authority e"
    and "jget_default (av_state a) ''candidate_archive_sha256'' d = JStr (archive_digest e a)"
    and "jget_default (av_state a) ''pending_offspring'' d = d"
    and "jget_default (av_state a) ''failed_offspring_iteration'' d = d"
    and "jget_default (av_state a) ''failed_offspring_sha256'' d = d"
    and "jget_default (av_state a) ''outcome_schema_version'' d = (if n = 0 then d else JStr ''1'')"
    and "jget_default (av_state a) ''outcome_start_iteration'' d = (if n = 0 then d else JInt 1)"
    and "jget_default (av_state a) ''outcome_watermark'' d = (if n = 0 then d else JInt (int n))"
    and "jget_default (av_state a) ''outcome_watermark_sha256'' d = (if n = 0 then d else JStr (outcome_digest e (av_outcomes a)))"
    and "jget_default (av_state a) ''outcome_archive_baseline_sha256'' d =
       (if n = 0 then d else JStr (candidate_digest e (batch_at (av_records a) 0)))"
  unfolding jget_default_def checkpoint_lookup [OF assms] by simp_all

lemma checkpoint_has:
  assumes "checkpoint e a active n migration stagnation err"
  shows "\<not> has_key (av_state a) ''seed_admission''"
    and "filter (has_key (av_state a)) binding_fields = (if n = 0 then [] else binding_fields)"
    and "filter (has_key (av_state a)) markers = markers"
    and "has_key (av_state a) ''outcome_schema_version'' \<longleftrightarrow> n \<noteq> 0"
    and "has_key (av_state a) ''best_candidate_id''" and "has_key (av_state a) ''rng_seed''"
    and "has_key (av_state a) ''last_migration_iteration''" and "has_key (av_state a) ''stagnation''"
    and "av_state a \<noteq> []"
proof -
  note [simp] = has_key_def checkpoint_lookup [OF assms]
  show "\<not> has_key (av_state a) ''seed_admission''"
    and "filter (has_key (av_state a)) binding_fields = (if n = 0 then [] else binding_fields)"
    and "filter (has_key (av_state a)) markers = markers"
    and "has_key (av_state a) ''outcome_schema_version'' \<longleftrightarrow> n \<noteq> 0"
    and "has_key (av_state a) ''best_candidate_id''" and "has_key (av_state a) ''rng_seed''"
    and "has_key (av_state a) ''last_migration_iteration''" and "has_key (av_state a) ''stagnation''"
    by (simp_all add: binding_fields_def markers_def)
qed (use checkpoint_lookup(1) [OF assms] in auto)

lemma checkpoint_pending:
  "checkpoint e a active n migration stagnation err \<Longrightarrow> pending_offspring (av_state a) = Inr None"
  by (simp add: pending_offspring_def checkpoint_get)

lemma digest_hex: "env_ok e \<Longrightarrow> is_hex64 (outcome_digest e us)" "env_ok e \<Longrightarrow> is_hex64 (candidate_digest e cs)"
  by (simp_all add: env_ok_def outcome_digest_def candidate_digest_def)

lemma journal_complete:
  assumes "journal_ok cfg a n 0"
  shows "filter (\<lambda>u. 1 \<le> oo_iteration u \<and> oo_iteration u \<le> n) (av_outcomes a) = av_outcomes a"
proof (rule filter_True, rule ballI)
  fix u assume "u \<in> set (av_outcomes a)"
  from journal_member [OF assms this] show "1 \<le> oo_iteration u \<and> oo_iteration u \<le> n" by (auto simp: le_Suc_eq)
qed

lemma population_strategy:
  "journal_ok cfg a n k \<Longrightarrow> c \<in> set (av_records a) \<Longrightarrow> ca_strategy c = ''population'' \<and> \<not> is_seed_candidate c"
  by (auto simp: journal_ok_def records_ok_def list_all_iff ordinary_ok_def is_population_def)

lemma checkpoint_history:
  assumes env: "env_ok e" and cp: "checkpoint e a active n migration stagnation err"
  shows "validate_history e a (av_state a) = Inr ()"
proof -
  note get = checkpoint_get [OF cp] and has = checkpoint_has [OF cp]
  have ok: "journal_ok (sv_config e) a n 0" using checkpointD(1) [OF cp] by (simp add: archive_fine_def)
  have pop: "\<not> (\<exists>c\<in>set (av_records a). ca_strategy c \<noteq> ''population'')" using population_strategy [OF ok] by auto
  show ?thesis
  proof (cases "n = 0")
    case True
    have "av_outcomes a = []" using ok by (simp add: True journal_ok_def schedule_def)
    moreover have "\<forall>c\<in>set (av_records a). ca_iteration c = 0" using journal_iterations [OF ok] by (simp add: True)
    ultimately have "unbound_ok (av_state a) None (av_records a) (av_outcomes a)"
      using has by (simp add: unbound_ok_def get True)
    then show ?thesis
      by (simp add: validate_history_def Let_def bind_guardE pop checkpoint_pending [OF cp] has True)
  next
    case False
    have "binding_fields \<noteq> []" by (simp add: binding_fields_def)
    moreover have "binding_of (av_state a) = Some (n, 1, outcome_digest e (av_outcomes a), candidate_digest e (batch_at (av_records a) 0))"
      using False digest_hex [OF env] by (simp add: binding_of_def get)
    moreover have "failed_batch (av_state a) n = Some None" by (simp add: failed_batch_def get)
    moreover have "journal_shape_ok e (av_outcomes a) n 1 None None"
      using ok by (intro journal_shape [where k = 0]) (simp_all add: phase_ok_def)
    moreover have "filter (\<lambda>c. ca_iteration c < 1) (av_records a) = batch_at (av_records a) 0"
      by (simp add: batch_at_def)
    ultimately show ?thesis
      using False journal_candidates [OF ok]
      by (simp add: validate_history_def Let_def bind_guardE pop checkpoint_pending [OF cp] has pending_ok_def
          journal_complete [OF ok, unfolded One_nat_def])
  qed
qed

text \<open>Writing and reading the islands.\<close>

lemma islands_lookup:
  assumes "i < length active"
  shows "map_of (map (\<lambda>(i, ids). (show_nat i, strs_json ids)) (zip [0..<length active] active)) (show_nat i) =
    Some (strs_json (active ! i))"
proof (rule map_of_is_SomeI)
  have keys: "map fst (map (\<lambda>(i, ids). (show_nat i, strs_json ids)) (zip [0..<length active] active)) = map show_nat [0..<length active]"
    by (rule nth_equalityI) simp_all
  show "distinct (map fst (map (\<lambda>(i, ids). (show_nat i, strs_json ids)) (zip [0..<length active] active)))"
    unfolding keys by (simp add: distinct_map inj_on_def)
  show "(show_nat i, strs_json (active ! i)) \<in> set (map (\<lambda>(i, ids). (show_nat i, strs_json ids)) (zip [0..<length active] active))"
    using assms by (force simp: set_zip)
qed

lemma str_items_strs: "strs_json ids = JArr xs \<Longrightarrow> str_items xs = Some ids"
  by (auto simp: strs_json_def str_items_def comp_def)

lemma mapE_all: "(\<And>x. x \<in> set xs \<Longrightarrow> f x = Inr (g x)) \<Longrightarrow> mapE f xs = Inr (map g xs)"
  by (induction xs) auto

lemma parse_active_json:
  assumes "length active = ec_num_islands cfg"
  shows "parse_islands cfg (active_json active) = Inr active"
proof -
  let ?d = "map (\<lambda>(i, ids). (show_nat i, strs_json ids)) (zip [0..<length active] active)"
  have "fst ` set ?d = show_nat ` {..<ec_num_islands cfg}"
    using assms by (force simp: set_zip image_iff)
  moreover have "mapE (\<lambda>i. case getn ?d (show_nat i) of
        JArr xs \<Rightarrow> (case str_items xs of Some ids \<Rightarrow> Inr ids
          | None \<Rightarrow> Inl (EvolutionError ''population state active_ids must contain string arrays''))
      | _ \<Rightarrow> Inl (EvolutionError ''population state active_ids must contain string arrays'')) [0..<length active]
      = Inr (map ((!) active) [0..<length active])"
  proof (rule mapE_all)
    fix i assume "i \<in> set [0..<length active]"
    then have "getn ?d (show_nat i) = strs_json (active ! i)"
      by (simp only: jget_default_def islands_lookup option.simps atLeastLessThan_iff set_upt)
    moreover have "strs_json (active ! i) = JArr (map JStr (active ! i))" by (simp add: strs_json_def)
    ultimately show "(case getn ?d (show_nat i) of
        JArr xs \<Rightarrow> (case str_items xs of Some ids \<Rightarrow> Inr ids
          | None \<Rightarrow> Inl (EvolutionError ''population state active_ids must contain string arrays''))
      | _ \<Rightarrow> Inl (EvolutionError ''population state active_ids must contain string arrays'')) = Inr (active ! i)"
      using str_items_strs by simp
  qed
  moreover have "map ((!) active) [0..<length active] = active" by (rule map_nth)
  ultimately show ?thesis unfolding parse_islands_def active_json_def assms [symmetric] by simp
qed

lemma best_id_visible:
  assumes "journal_ok cfg a n 0"
  shows "visible_best (av_records a) n = best_id a"
proof -
  have ok: "records_ok cfg (av_records a)" using assms by (simp add: journal_ok_def)
  have "scores_at (\<lambda>c. ca_iteration c \<le> n) (av_records a) = filter valid (av_records a)"
    unfolding scores_at_ok [OF ok] using journal_iterations [OF assms] by (intro filter_cong) auto
  then show ?thesis by (simp add: visible_best_def best_id_def best_def)
qed

lemma best_record:
  assumes "records_ok cfg records" and "best records = Some c"
  shows "find_record records (ca_id c) = Some c" and "valid c" and "is_safe_id (ca_id c)"
proof -
  have c: "c \<in> set records" "valid c" using assms(2) by (auto simp: best_def dest: max_by_in)
  then show "find_record records (ca_id c) = Some c" using find_record_batch [OF assms(1)] by blast
  from c assms(1) show "valid c" "is_safe_id (ca_id c)"
    by (auto simp: records_ok_def list_all_iff ordinary_ok_def)
qed

lemma known_ids_safe:
  assumes "records_ok cfg records" and "set ids \<subseteq> ca_id ` set records"
  shows "list_all is_safe_id ids"
  using assms by (auto simp: records_ok_def list_all_iff ordinary_ok_def)

lemma stagnation_nonneg: "population_at e records n = (active, migration, stagnation) \<Longrightarrow> 0 \<le> migration \<and> 0 \<le> stagnation"
proof (induction n arbitrary: active migration stagnation)
  case (Suc n)
  then show ?case by (cases "population_at e records n") (auto split: prod.splits if_splits)
qed (auto)

lemma checkpoint_population:
  assumes env: "env_ok e" and cp: "checkpoint e a active n migration stagnation err"
  shows "grounded (sv_selection e) (av_records a) n active"
proof -
  have "records_ok (sv_config e) (av_records a)" using checkpointD(1) [OF cp] by (simp add: archive_fine_def journal_ok_def)
  with env have "grounded (sv_selection e) (av_records a) n (fst (population_at (sv_selection e) (av_records a) n))"
    by (intro population_at_grounded) (simp_all add: env_ok_def)
  then show ?thesis by (simp add: checkpointD(2) [OF cp])
qed

lemma checkpoint_references:
  assumes env: "env_ok e" and cp: "checkpoint e a active n migration stagnation err"
  shows "references_ok (av_records a) (concat active) (opt_json (best_id a)) = Inr ()"
proof -
  have ok: "records_ok (sv_config e) (av_records a)" using checkpointD(1) [OF cp] by (simp add: archive_fine_def journal_ok_def)
  have pop: "\<forall>cid\<in>set (concat active). \<exists>c. find_record (av_records a) cid = Some c \<and> valid c"
    using checkpoint_population [OF env cp] by (simp add: grounded_def populated_def del: set_concat)
  then have "\<not> (\<exists>i\<in>set (concat active). find_record (av_records a) i = None)" by (metis option.distinct(1))
  moreover have "list_all valid (candidates_of (av_records a) (concat active))"
    using pop by (fastforce simp: list_all_iff set_candidates_of simp del: set_concat)
  ultimately show ?thesis
    using best_record [OF ok]
    by (auto simp: references_ok_def bind_guardE guardE_def opt_json_def best_id_def str_of_def split: option.split simp del: set_concat)
qed

lemma checkpoint_projection:
  assumes env: "env_ok e" and cp: "checkpoint e a active n migration stagnation err"
  shows "projection_agrees e (av_state a) active (av_records a) = Inr ()"
proof -
  note get = checkpoint_get [OF cp] and has = checkpoint_has [OF cp]
  have ok: "journal_ok (sv_config e) a n 0" using checkpointD(1) [OF cp] by (simp add: archive_fine_def)
  have rec: "reconstruct (sv_selection e) (av_state a) (av_records a) = Inr (active, best_id a, migration, stagnation)"
  proof -
    have "reconstruct (sv_selection e) (av_state a) (av_records a) = Inr (case population_at (sv_selection e) (av_records a) n of
           (active, migration, stagnation) \<Rightarrow> (active, visible_best (av_records a) n, migration, stagnation))"
      using env ok journal_batch_nonempty [OF ok]
      by (intro reconstruct_population_at) (auto simp: env_ok_def journal_ok_def get)
    then show ?thesis by (simp add: checkpointD(2) [OF cp] best_id_visible [OF ok])
  qed
  have "status_valid (sv_config e) (av_state a) active (best_id a) stagnation"
    using checkpointD(3) [OF cp] unfolding status_valid_def Let_def get has harmless_error_def
    by (simp only: if_True simp_thms json.inject of_nat_eq_0_iff int_eq_iff_numeral) blast
  then show ?thesis by (simp add: projection_agrees_def rec get has bind_guardE)
qed

lemma checkpoint_active:
  assumes env: "env_ok e" and cp: "checkpoint e a active n migration stagnation err"
  shows "active_of_state e (av_state a) a = Inr active"
proof -
  note get = checkpoint_get [OF cp] and has = checkpoint_has [OF cp]
  have ok: "records_ok (sv_config e) (av_records a)" using checkpointD(1) [OF cp] by (simp add: archive_fine_def journal_ok_def)
  have pop: "populated (sv_config e) (av_records a) active" and ids: "set (concat active) \<subseteq> ca_id ` set (av_records a)"
    using checkpoint_population [OF env cp] by (auto simp: grounded_def simp del: set_concat)
  have "population_state_ok (sv_config e) (int n) active (opt_json (best_id a)) migration = Inr ()"
    using pop populated_size [OF _ pop] env stagnation_nonneg [OF checkpointD(2) [OF cp]] known_ids_safe [OF ok ids] best_record(3) [OF ok]
    by (auto simp: population_state_ok_def bind_guardE guardE_def env_ok_def populated_def opt_json_def best_id_def
        evolution_id_def split: option.split)
  moreover have "parse_islands (sv_config e) (active_json active) = Inr active"
    using pop by (intro parse_active_json) (simp add: populated_def)
  ultimately show ?thesis
    by (simp add: active_of_state_def get has state_int_def pending_incomplete_def checkpoint_pending [OF cp]
        checkpoint_references [OF env cp] checkpoint_projection [OF env cp])
qed

text \<open>Lineage.\<close>

lemma journal_outcome:
  assumes "journal_ok cfg a n k" and "c \<in> set (av_records a)" and "0 < ca_iteration c"
  shows "\<exists>u\<in>set (evaluated (av_outcomes a)). oo_iteration u = ca_iteration c \<and> oo_candidate u = Some (ca_id c)"
proof -
  have "candidate_entry c \<in> set (map candidate_entry (later (av_records a)))" using assms(2,3) by (simp add: later_def)
  then have "candidate_entry c \<in> set (map outcome_entry (evaluated (av_outcomes a)))"
    using assms(1) by (simp only: journal_ok_def)
  then show ?thesis by (auto simp: candidate_entry_def outcome_entry_def)
qed

lemma checkpoint_delayed:
  assumes cp: "checkpoint e a active n migration stagnation err" and c: "c \<in> set (av_records a)" "0 < ca_iteration c"
    and fields: "ca_parent c = None" "ca_generation c = 0" "\<not> (\<exists>d\<in>set (av_records a). ca_iteration d < ca_iteration c \<and> valid d)"
  shows "ca_id c \<in> set (delayed_roots (av_state a) a)"
proof -
  have ok: "journal_ok (sv_config e) a n 0" using checkpointD(1) [OF cp] by (simp add: archive_fine_def)
  from journal_iterations [OF ok c(1)] c(2) have n: "n \<noteq> 0" "ca_iteration c \<le> n" by auto
  from journal_outcome [OF ok c] obtain u where u: "u \<in> set (evaluated (av_outcomes a))" "oo_iteration u = ca_iteration c" "oo_candidate u = Some (ca_id c)" by blast
  have "complete_batch 1 (int n) None (av_outcomes a) (oo_iteration u)"
    using n c(2) u(2) by (simp add: complete_batch_def)
  moreover have "is_population c" using population_strategy [OF ok c(1)] by (simp add: is_population_def)
  ultimately show ?thesis
    using u n c fields unfolding delayed_roots_def Let_def by (auto simp: checkpoint_get [OF cp] checkpoint_pending [OF cp] intro!: image_eqI [where x = c])
qed

lemma check_records_ok:
  assumes "lineage_from (earlier @ cs) earlier cs" and "records_ok cfg (earlier @ cs)"
    and "\<forall>c\<in>set cs. sidecars c = Inr ()"
    and "\<And>c. c \<in> set cs \<Longrightarrow> 0 < ca_iteration c \<Longrightarrow> ca_parent c = None \<Longrightarrow> ca_generation c = 0 \<Longrightarrow>
      \<not> (\<exists>d\<in>set (earlier @ cs). ca_iteration d < ca_iteration c \<and> valid d) \<Longrightarrow> ca_id c \<in> set delayed"
  shows "check_records sidecars delayed earlier cs = Inr ()"
  using assms
proof (induction cs arbitrary: earlier)
  case (Cons c cs)
  from Cons.prems(1) have desc: "descends (earlier @ c # cs) earlier c" by simp
  have fields: "ordinary_ok (ec_num_islands cfg) c" using Cons.prems(2) by (simp add: records_ok_def)
  have "lineage_ok delayed earlier c"
  proof (cases "ca_parent c")
    case None
    then show ?thesis using desc fields Cons.prems(4) [of c]
      by (auto simp: lineage_ok_def descends_def ordinary_ok_def settled_def)
  next
    case (Some pid)
    with desc obtain p where p: "p \<in> set earlier" "ca_id p = pid" "valid p" "ca_generation c = ca_generation p + 1"
      "ca_iteration p < ca_iteration c" by (auto simp: descends_def)
    from Cons.prems(2) have "records_ok cfg earlier" using records_ok_append by blast
    then have "find_record earlier pid = Some p" using find_record_batch p(1,2) by blast
    moreover have "ca_id p \<noteq> ca_id c" using Cons.prems(2) p(1) by (auto simp: records_ok_def rev_image_eqI)
    moreover have "is_population p" using Cons.prems(2) p(1) by (auto simp: records_ok_def list_all_iff ordinary_ok_def)
    ultimately show ?thesis using p fields Some by (auto simp: lineage_ok_def ordinary_ok_def settled_def)
  qed
  moreover have "check_records sidecars delayed (earlier @ [c]) cs = Inr ()"
    using Cons.prems by (intro Cons.IH) auto
  moreover have "sidecars c = Inr ()" using Cons.prems(3) by simp
  ultimately show ?case using fields by (simp add: is_ordinary_def ordinary_ok_def)
qed simp

lemma checkpoint_integrity:
  assumes env: "env_ok e" and cp: "checkpoint e a active n migration stagnation err"
    and files: "\<forall>c\<in>set (av_records a). sidecars c = Inr ()"
  shows "check_integrity_state sidecars e (av_state a) True a = Inr ()"
proof -
  note get = checkpoint_get [OF cp] and has = checkpoint_has [OF cp]
  from checkpointD(1) [OF cp] have lineage: "lineage_from (av_records a) [] (av_records a)"
    and ok: "records_ok (sv_config e) (av_records a)" by (simp_all add: archive_fine_def journal_ok_def)
  obtain x where x: "authority_from_dict (sv_authority e) = Inr x" "authority_to_dict x = sv_authority e"
    using env by (auto simp: env_ok_def)
  have checked: "check_records sidecars (delayed_roots (av_state a) a) [] (av_records a) = Inr ()"
    using lineage ok files by (intro check_records_ok [where cfg = "sv_config e"]) (auto intro: checkpoint_delayed [OF cp])
  have islands: "\<not> (\<exists>c\<in>set (filter is_ordinary (av_records a)).
      case ca_island c of None \<Rightarrow> True | Some i \<Rightarrow> ec_num_islands (sv_config e) \<le> i)"
    using ok by (auto simp: records_ok_def list_all_iff ordinary_ok_def settled_def)
  have digest: "archive_digest e a = digest_records e (av_records a)" by (simp add: archive_digest_def digest_records_def)
  have "markers \<noteq> []" by (simp add: markers_def)
  then show ?thesis
    unfolding check_integrity_state_def Let_def
    by (simp only: has get x checked islands digest bind_guardE if_True if_False simp_thms bindE_simps)
      (simp add: guardE_def pending_prefix_def get)
qed

section \<open>A resumed run goes on from the checkpoint\<close>

lemma checkpoint_load:
  assumes "checkpoint e a active n migration stagnation err"
  shows "load_state e a = Inr (av_state a)"
  using checkpoint_has(9) [OF assms]
  by (simp add: load_state_def Let_def checkpoint_get [OF assms] bind_guardE config_to_dict_def)

lemma checkpoint_gate:
  assumes cp: "checkpoint e a active n migration stagnation err"
  shows "seed_gate False (av_state a) a = Inr ()"
proof -
  have ok: "journal_ok (sv_config e) a n 0" using checkpointD(1) [OF cp] by (simp add: archive_fine_def)
  show ?thesis using checkpoint_has [OF cp] population_strategy [OF ok]
    by (auto simp: seed_gate_def Let_def bind_guardE guardE_def)
qed

lemma checkpoint_evidence:
  assumes env: "env_ok e" and cp: "checkpoint e a active n migration stagnation err"
    and files: "\<forall>c\<in>set (av_records a). sidecars c = Inr ()"
  shows "check_evidence sidecars e (av_state a) a = Inr ()"
proof -
  have "records_ok (sv_config e) (av_records a)" using checkpointD(1) [OF cp] by (simp add: archive_fine_def journal_ok_def)
  then have none: "(\<exists>c\<in>set (av_records a). is_population c \<and>
      (ca_source_sha256 c = None \<or> ca_receipt_sha256 c = None \<or> ca_integrity c = None)) = False"
    by (auto simp: records_ok_def list_all_iff ordinary_ok_def)
  show ?thesis unfolding check_evidence_def none
    by (simp add: checkpoint_history [OF env cp] checkpoint_integrity [OF env cp files])
qed

lemma checkpoint_resume_batch:
  "env_ok e \<Longrightarrow> checkpoint e a active n migration stagnation err \<Longrightarrow>
     resume_batch e (av_state a) active a = Inr (a, active)"
  by (simp add: resume_batch_def checkpoint_history checkpoint_pending)

lemma checkpoint_bundles:
  assumes "checkpoint e a active n migration stagnation err"
  shows "(\<exists>c\<in>set (av_records a). ca_bundle c \<noteq> None) = False"
  using checkpointD(1) [OF assms] by (auto simp: archive_fine_def journal_ok_def records_ok_def list_all_iff ordinary_ok_def)

text \<open>With nobody valid in the archive there is nothing to deal.\<close>

lemma checkpoint_deal:
  assumes env: "env_ok e" and cp: "checkpoint e a active n migration stagnation err" and "concat active = []"
  shows "deal (sv_config e) (av_records a) active = active"
proof -
  have ok: "journal_ok (sv_config e) a n 0" using checkpointD(1) [OF cp] by (simp add: archive_fine_def)
  have "\<not> valid c" if "c \<in> set (av_records a)" for c
    using checkpoint_population [OF env cp] that journal_iterations [OF ok that] assms(3) by (auto simp: grounded_def)
  then have "filter valid (av_records a) = []" by (simp add: filter_empty_conv)
  then show ?thesis by (simp add: deal_def)
qed

lemma checkpoint_proceeds:
  assumes env: "env_ok (rn_strategy r)" and cp: "checkpoint (rn_strategy r) a active n migration stagnation err"
    and "av_records a \<noteq> []"
  shows "proceed r a active = continue_run r active n stagnation migration err a"
proof -
  note get = checkpoint_get [OF cp]
  have "terminal r a = None" by (simp add: terminal_def get terminal_statuses_def)
  moreover have "state_int (av_state a) k = Inr v" if "jget_default (av_state a) k (JInt 0) = JInt v" for k v
    using that by (simp add: state_int_def)
  ultimately show ?thesis
    using assms(3) checkpoint_deal [OF env cp] unfolding proceed_def by (simp add: get Let_def)
qed

lemma checkpoint_resumes:
  assumes env: "env_ok (rn_strategy r)" and cp: "checkpoint (rn_strategy r) a active n migration stagnation err"
    and files: "\<forall>c\<in>set (av_records a). rn_sidecars r c = Inr ()"
    and "\<not> rn_marker r" and "av_records a \<noteq> []"
  shows "run_population r a = continue_run r active n stagnation migration err a"
  using assms(4) checkpoint_proceeds [OF env cp assms(5)] unfolding run_population_def checkpoint_bundles [OF cp]
  by (simp add: checkpoint_load [OF cp] checkpoint_gate [OF cp] checkpoint_evidence [OF env cp files]
      checkpoint_active [OF env cp] checkpoint_resume_batch [OF env cp] bind_guardE checkpoint_has [OF cp] Let_def)

end
