(* ===== verification/Batch.thy ===== *)
theory Batch imports Resume begin

text \<open>
  One batch of an undisturbed run, from checkpoint to checkpoint: it begins, every attempt is
  journalled, it ends.  No step of it can raise.
\<close>

section \<open>Beginning\<close>

text \<open>The state that \<open>begin_batch\<close> writes over the checkpoint \<open>a\<close>.\<close>

definition begun_items :: "strategy_env \<Rightarrow> archive \<Rightarrow> string list list \<Rightarrow> nat \<Rightarrow> int \<Rightarrow> int \<Rightarrow> (string \<times> json) list" where
  "begun_items e a active n migration stagnation =
     written e a ''running'' n (snapshot e a active stagnation JNull (best_id a) migration
       @ [(''pending_offspring'', pending_item (n + 1) (ec_offspring (sv_config e)))]
       @ binding_items (JInt 1) n (JStr (outcome_digest e (av_outcomes a))) (JStr (candidate_digest e (batch_at (av_records a) 0))))"

definition begun :: "strategy_env \<Rightarrow> archive \<Rightarrow> string list list \<Rightarrow> nat \<Rightarrow> int \<Rightarrow> int \<Rightarrow> (string \<times> json) list \<Rightarrow> bool" where
  "begun e a active n migration stagnation s \<longleftrightarrow> map_of s = map_of (begun_items e a active n migration stagnation)"

lemma write_state_simps [simp]:
  "av_records (write_state e status iteration extra a) = av_records a"
  "av_outcomes (write_state e status iteration extra a) = av_outcomes a"
  "av_state (write_state e status iteration extra a) = state_payload e a status iteration extra"
  by (simp_all add: write_state_def)

text \<open>Nothing is carried over when the written items cover what the old state carries.\<close>

lemma map_of_payload:
  assumes "\<not> sv_seeded e" and "map_of (av_state a) ''seed_admission'' = None"
    and "\<And>k. k \<in> set carried_fields \<Longrightarrow> map_of extra k = None \<Longrightarrow> map_of (av_state a) k = None"
  shows "map_of (state_payload e a status iteration extra) = map_of (written e a status iteration extra)"
proof
  fix k
  have lookup: "map_of (state_payload e a status iteration extra) k =
    (case map_of (written e a status iteration extra) k of
       Some v \<Rightarrow> Some v
     | None \<Rightarrow> if k \<in> set carried_fields then map_of (av_state a) k else None)"
    using assms(1,2) by (intro state_payload_lookup) (simp_all add: jget_default_def)
  show "map_of (state_payload e a status iteration extra) k = map_of (written e a status iteration extra) k"
  proof (cases "map_of (written e a status iteration extra) k")
    case None
    then have "map_of extra k = None" by (auto simp: written_def map_add_def split: option.splits if_splits)
    then show ?thesis unfolding lookup using None assms(3) [of k] by simp
  qed (simp add: lookup)
qed

lemma checkpoint_carried:
  assumes cp: "checkpoint e a active n migration stagnation err"
    and extra: "\<And>k. k \<in> set binding_fields \<Longrightarrow> map_of extra k \<noteq> None"
    and k: "k \<in> set carried_fields" "map_of extra k = None"
  shows "map_of (av_state a) k = None"
proof -
  from k(1) have "k \<in> set binding_fields \<or> k = ''failed_offspring_iteration'' \<or> k = ''failed_offspring_sha256''"
    unfolding carried_fields_def binding_fields_def by auto
  with extra [of k] k(2) checkpoint_lookup(18,19) [OF cp] show ?thesis by auto
qed

lemma binding_covers: "k \<in> set binding_fields \<Longrightarrow> map_of (xs @ binding_items b w d c) k \<noteq> None"
  by (auto simp: binding_fields_def binding_items_def map_add_def split: option.splits)

lemma checkpoint_no_outcome:
  assumes "checkpoint e a active n migration stagnation err"
  shows "(\<exists>u\<in>set (av_outcomes a). oo_iteration u = n + 1) = False"
proof -
  have "journal_ok (sv_config e) a n 0" using checkpointD(1) [OF assms] by (simp add: archive_fine_def)
  from journal_member [OF this] show ?thesis by auto
qed

lemma begin_batch_total:
  assumes env: "env_ok e" and cp: "checkpoint e a active n migration stagnation err"
  shows "\<exists>s. begin_batch e (av_state a) active a = Inr (a\<lparr>av_state := s\<rparr>) \<and> begun e a active n migration stagnation s"
proof -
  note get = checkpoint_get [OF cp]
  let ?extra = "snapshot e a active stagnation JNull (best_id a) migration
       @ [(''pending_offspring'', pending_item (n + 1) (ec_offspring (sv_config e)))]
       @ binding_items (JInt 1) n (JStr (outcome_digest e (av_outcomes a))) (JStr (candidate_digest e (batch_at (av_records a) 0)))"
  have ok: "journal_ok (sv_config e) a n 0" using checkpointD(1) [OF cp] by (simp add: archive_fine_def)
  have "nat (int n + 1) = n + 1" by simp
  moreover have "jget_default (av_state a) ''outcome_start_iteration'' (JInt (int (n + 1))) = JInt 1" by (simp add: get)
  moreover have "jget_default (av_state a) ''outcome_watermark_sha256'' (JStr (outcome_digest e [])) = JStr (outcome_digest e (av_outcomes a))"
    using ok by (auto simp: get journal_ok_def schedule_def)
  moreover have "filter (before (JInt 1)) (av_records a) = batch_at (av_records a) 0"
    unfolding batch_at_def by (rule filter_cong) (auto simp: before_def)
  moreover have "jget_default (av_state a) ''outcome_archive_baseline_sha256'' (JStr (candidate_digest e (batch_at (av_records a) 0)))
      = JStr (candidate_digest e (batch_at (av_records a) 0))" by (simp add: get)
  ultimately have "begin_batch e (av_state a) active a = Inr (write_state e ''running'' n ?extra a)"
    using checkpoint_no_outcome [OF cp]
    by (simp add: begin_batch_def checkpoint_history [OF env cp] checkpoint_pending [OF cp] bind_guardE state_int_def get Let_def)
  moreover have "map_of (state_payload e a ''running'' n ?extra) = map_of (begun_items e a active n migration stagnation)"
    unfolding begun_items_def
  proof (rule map_of_payload)
    show "\<not> sv_seeded e" using env by (simp add: env_ok_def)
    show "map_of (av_state a) ''seed_admission'' = None" by (rule checkpoint_lookup(17) [OF cp])
    show "map_of (av_state a) k = None" if "k \<in> set carried_fields" "map_of ?extra k = None" for k
      using checkpoint_carried [OF cp _ that] binding_covers [of _ "_ @ _"] by (metis append_assoc)
  qed
  ultimately show ?thesis by (auto simp: begun_def write_state_def)
qed

lemma begun_lookup:
  assumes "begun e a active n migration stagnation s"
  shows "map_of s ''status'' = Some (JStr ''running'')"
    and "map_of s ''iteration'' = Some (JInt (int n))"
    and "map_of s ''stagnation'' = Some (JInt stagnation)"
    and "map_of s ''last_migration_iteration'' = Some (JInt migration)"
    and "map_of s ''candidate_integrity_schema_version'' = Some (JStr ''1'')"
    and "map_of s ''pending_offspring'' = Some (pending_item (n + 1) (ec_offspring (sv_config e)))"
    and "map_of s ''seed_admission'' = None"
    and "map_of s ''failed_offspring_iteration'' = None"
    and "map_of s ''failed_offspring_sha256'' = None"
    and "map_of s ''outcome_schema_version'' = Some (JStr ''1'')"
    and "map_of s ''outcome_start_iteration'' = Some (JInt 1)"
    and "map_of s ''outcome_watermark'' = Some (JInt (int n))"
    and "map_of s ''outcome_watermark_sha256'' = Some (JStr (outcome_digest e (av_outcomes a)))"
    and "map_of s ''outcome_archive_baseline_sha256'' = Some (JStr (candidate_digest e (batch_at (av_records a) 0)))"
  using assms unfolding begun_def by (simp_all add: begun_items_def state_items)

lemma begun_get:
  assumes "begun e a active n migration stagnation s"
  shows "jget_default s ''status'' d = JStr ''running''"
    and "jget_default s ''iteration'' d = JInt (int n)"
    and "jget_default s ''stagnation'' d = JInt stagnation"
    and "jget_default s ''last_migration_iteration'' d = JInt migration"
    and "jget_default s ''candidate_integrity_schema_version'' d = JStr ''1''"
    and "jget_default s ''pending_offspring'' d = pending_item (n + 1) (ec_offspring (sv_config e))"
    and "jget_default s ''failed_offspring_iteration'' d = d"
    and "jget_default s ''failed_offspring_sha256'' d = d"
    and "jget_default s ''outcome_schema_version'' d = JStr ''1''"
    and "jget_default s ''outcome_start_iteration'' d = JInt 1"
    and "jget_default s ''outcome_watermark'' d = JInt (int n)"
    and "jget_default s ''outcome_watermark_sha256'' d = JStr (outcome_digest e (av_outcomes a))"
    and "jget_default s ''outcome_archive_baseline_sha256'' d = JStr (candidate_digest e (batch_at (av_records a) 0))"
  unfolding jget_default_def begun_lookup [OF assms] by simp_all

lemma begun_pending:
  assumes "env_ok e" and "begun e a active n migration stagnation s"
  shows "pending_offspring s = Inr (Some (n + 1, ec_offspring (sv_config e)))"
proof -
  have "1 \<le> ec_offspring (sv_config e)" "ec_offspring (sv_config e) \<le> 256"
    using assms(1) by (simp_all add: env_ok_def config_ok_def)
  then show ?thesis
    unfolding pending_offspring_def begun_get [OF assms(2)]
    by (auto simp: pending_item_def jget_default_def insert_commute nat_add_distrib)
qed

section \<open>The journal grows by one outcome per attempt\<close>

text \<open>\<open>a'\<close> is \<open>a\<close> with candidates and outcomes of the next iteration added.\<close>

definition grown :: "archive \<Rightarrow> archive \<Rightarrow> nat \<Rightarrow> bool" where
  "grown a a' n \<longleftrightarrow>
     (\<exists>cs us. av_records a' = av_records a @ cs \<and> av_outcomes a' = av_outcomes a @ us
        \<and> (\<forall>c\<in>set cs. ca_iteration c = n + 1) \<and> (\<forall>u\<in>set us. oo_iteration u = n + 1))"

lemma grown_refl: "grown a (a\<lparr>av_state := s\<rparr>) n"
  by (auto simp: grown_def)

text \<open>The history checks accept every prefix of a started batch.\<close>

lemma begun_history:
  assumes env: "env_ok e" and cp: "checkpoint e a active n migration stagnation err"
    and s: "begun e a active n migration stagnation s" and grown: "grown a a' n"
    and fine: "archive_fine (sv_config e) a' n k"
  shows "validate_history e a' s = Inr ()"
proof -
  note get = begun_get [OF s]
  have ok: "journal_ok (sv_config e) a' n k" using fine by (simp add: archive_fine_def)
  have ok0: "journal_ok (sv_config e) a n 0" using checkpointD(1) [OF cp] by (simp add: archive_fine_def)
  obtain cs us where cs: "av_records a' = av_records a @ cs" "\<forall>c\<in>set cs. ca_iteration c = n + 1"
    and us: "av_outcomes a' = av_outcomes a @ us" "\<forall>u\<in>set us. oo_iteration u = n + 1"
    using grown by (auto simp: grown_def)
  have pop: "(\<exists>c\<in>set (av_records a'). ca_strategy c \<noteq> ''population'') = False" using population_strategy [OF ok] by auto
  have present: "filter (has_key s) binding_fields = binding_fields"
    unfolding binding_fields_def by (simp add: has_key_def begun_lookup [OF s])
  have binding: "binding_of s = Some (n, 1, outcome_digest e (av_outcomes a), candidate_digest e (batch_at (av_records a) 0))"
    using digest_hex [OF env] by (simp add: binding_of_def get)
  have failed: "failed_batch s n = Some None" by (simp add: failed_batch_def get)
  have pend: "pending_ok e s n (Some (n + 1, ec_offspring (sv_config e))) (None = None)"
    by (simp add: pending_ok_def get)
  have shape: "journal_shape_ok e (av_outcomes a') n 1 (Some (n + 1, ec_offspring (sv_config e))) None"
    by (rule journal_shape [OF ok]) (simp add: phase_ok_def)
  have "filter (\<lambda>u. 1 \<le> oo_iteration u \<and> oo_iteration u \<le> n) us = []" using us(2) by (auto simp: filter_empty_conv)
  then have prefix: "filter (\<lambda>u. 1 \<le> oo_iteration u \<and> oo_iteration u \<le> n) (av_outcomes a') = av_outcomes a"
    using journal_complete [OF ok0] by (simp add: us(1))
  have "filter (\<lambda>c. ca_iteration c < 1) cs = []" using cs(2) by (auto simp: filter_empty_conv)
  then have baseline: "filter (\<lambda>c. ca_iteration c < 1) (av_records a') = batch_at (av_records a) 0"
    by (simp add: cs(1) batch_at_def)
  show ?thesis
    unfolding validate_history_def Let_def pop
    by (simp only: bind_guardE if_False begun_pending [OF env s] bindE_simps present binding failed option.case prod.case
        pend shape prefix baseline journal_candidates [OF ok])
      (simp add: binding_fields_def guardE_def)
qed

text \<open>Where parents come from.\<close>

lemma family_elites_member: "c \<in> set (family_elites e cs all_active) \<Longrightarrow> c \<in> set cs"
  using family_elites_set by blast

lemma parent_pool_set:
  assumes "island < length active"
  shows "set (parent_pool e records active island) \<subseteq> set (candidates_of records (concat active))"
proof -
  let ?all = "candidates_of records (concat active)" and ?own = "candidates_of records (active ! island)"
  have "set ?own \<subseteq> set ?all" using assms by (auto simp: set_candidates_of)
  then have "set (if ?own = [] then ?all else ?own) \<subseteq> set ?all" by simp
  then show ?thesis
    unfolding parent_pool_def Let_def by (auto dest!: in_set_takeD family_elites_member simp del: set_concat)
qed

lemma rank_Nil [simp]: "rank src cs all_active = [] \<longleftrightarrow> cs = []"
  by (metis length_rank length_0_conv)

lemma parent_pool_empty:
  assumes "parent_pool e records active island = []"
  shows "candidates_of records (concat active) = []"
  using assms unfolding parent_pool_def Let_def
  by (auto split: if_splits)

lemma selected_parent:
  assumes pick: "\<And>pool. pool \<noteq> [] \<Longrightarrow> pick pool \<in> set pool"
    and ground: "grounded e (av_records a) n active" and "island < length active"
    and ok: "records_ok cfg (av_records a @ cs)"
  shows "case select_parent e pick (av_records a @ cs) active island of
           Some p \<Rightarrow> p \<in> set (av_records a) \<and> valid p \<and> ca_iteration p \<le> n
         | None \<Rightarrow> \<forall>c\<in>set (av_records a). ca_iteration c \<le> n \<longrightarrow> \<not> valid c"
proof -
  let ?pool = "parent_pool e (av_records a @ cs) active island"
  have ids: "set (concat active) \<subseteq> ca_id ` {c \<in> set (av_records a). ca_iteration c \<le> n}"
    using ground by (simp add: grounded_def del: set_concat)
  then have known: "known (av_records a) (concat active)" unfolding known_def by (rule subset_trans) auto
  have pool: "set ?pool \<subseteq> set (candidates_of (av_records a) (concat active))"
    using parent_pool_set [OF assms(3), of e "av_records a @ cs"] by (simp add: candidates_of_frame [OF known])
  show ?thesis
  proof (cases "?pool = []")
    case True
    then have "candidates_of (av_records a) (concat active) = []"
      using parent_pool_empty [OF True] by (simp add: candidates_of_frame [OF known])
    then show ?thesis using True ground by (auto simp: select_parent_def grounded_def)
  next
    case False
    with pick pool have "pick ?pool \<in> set (candidates_of (av_records a) (concat active))" by blast
    then obtain i where i: "i \<in> set (concat active)" "find_record (av_records a) i = Some (pick ?pool)"
      by (auto simp: set_candidates_of)
    then have p: "pick ?pool \<in> set (av_records a)" "ca_id (pick ?pool) = i" by (auto dest: find_record_Some)
    have "valid (pick ?pool)" using ground i by (auto simp: grounded_def populated_def simp del: set_concat)
    moreover have "ca_iteration (pick ?pool) \<le> n"
    proof -
      from ids i(1) obtain d where d: "d \<in> set (av_records a)" "ca_iteration d \<le> n" "ca_id d = i" by blast
      with p ok have "d = pick ?pool" unfolding records_ok_def by (metis distinct_key_unique map_append distinct_append)
      with d show ?thesis by simp
    qed
    ultimately show ?thesis using False p by (simp add: select_parent_def Let_def)
  qed
qed

lemma lineage_append:
  "lineage_from all_records earlier (xs @ ys) \<longleftrightarrow>
     lineage_from all_records earlier xs \<and> lineage_from all_records (earlier @ xs) ys"
  by (induction xs arbitrary: earlier) auto

lemma lineage_extend:
  assumes "lineage_from all_records earlier xs" and "\<forall>x\<in>set xs. ca_iteration x \<le> ca_iteration c"
  shows "lineage_from (all_records @ [c]) earlier xs"
  using assms by (induction xs arbitrary: earlier) (auto simp: descends_def split: option.splits)

text \<open>Archives stay small, so candidate ids stay safe.\<close>

lemma length_schedule: "length (schedule m n k) = n * m + k"
  by (simp add: schedule_def length_concat comp_def sum_list_triv)

lemma archive_size:
  assumes "archive_fine cfg a n k"
  shows "length (av_records a) \<le> ec_population_size cfg + n * ec_offspring cfg + k"
proof -
  have ok: "journal_ok cfg a n k" and initial: "length (batch_at (av_records a) 0) \<le> ec_population_size cfg"
    using assms by (simp_all add: archive_fine_def)
  have "length (av_records a) = length (batch_at (av_records a) 0) + length (later (av_records a))"
    unfolding batch_at_def later_def using sum_length_filter_compl [of "\<lambda>c. ca_iteration c = 0" "av_records a"] by simp
  also have "length (later (av_records a)) = length (evaluated (av_outcomes a))"
    using ok unfolding journal_ok_def by (metis length_map)
  also have "\<dots> \<le> length (av_outcomes a)" by (simp add: evaluated_def)
  also have "\<dots> = n * ec_offspring cfg + k"
    using ok unfolding journal_ok_def by (metis length_map length_schedule)
  finally show ?thesis using initial by simp
qed

lemma next_id_safe_fine:
  assumes "config_ok cfg" and fine: "archive_fine cfg a n k"
  shows "is_safe_id (next_id a)"
proof -
  have "n \<le> 10000" "ec_offspring cfg \<le> 256" "ec_population_size cfg \<le> 10000" "k \<le> 256"
    using assms by (auto simp: config_ok_def archive_fine_def journal_ok_def)
  then have "n * ec_offspring cfg \<le> 10000 * 256" by (intro mult_le_mono)
  with archive_size [OF fine] \<open>k \<le> 256\<close> \<open>ec_population_size cfg \<le> 10000\<close>
  have "length (av_records a) \<le> 2570256" by simp
  moreover have "next_number (av_records a) \<le> length (av_records a) + 1"
    using fine by (intro next_number_bound) (simp add: archive_fine_def)
  ultimately have "next_number (av_records a) < 10 ^ 100" by simp
  then show ?thesis unfolding next_id_number by (rule next_id_safe)
qed

text \<open>Adding one outcome, and perhaps its candidate.\<close>

definition added :: "archive \<Rightarrow> offspring_outcome \<Rightarrow> candidate list \<Rightarrow> archive" where
  "added a u cs = a\<lparr>av_records := av_records a @ cs, av_outcomes := av_outcomes a @ [u]\<rparr>"

lemma added_fine:
  assumes fine: "archive_fine cfg a n k" and k: "k < ec_offspring cfg"
    and u: "stamp u = (n + 1, k)" "oo_island u = k mod ec_num_islands cfg"
    and cs: "cs = [] \<and> oo_code u \<noteq> ''evaluated'' \<or>
      (\<exists>c. cs = [c] \<and> oo_code u = ''evaluated'' \<and> candidate_entry c = outcome_entry u \<and> ordinary_ok (ec_num_islands cfg) c
         \<and> ca_id c = next_id a \<and> descends (av_records a @ [c]) (av_records a) c)"
  shows "archive_fine cfg (added a u cs) n (Suc k)"
proof -
  have ok: "journal_ok cfg a n k" and lineage: "lineage_from (av_records a) [] (av_records a)" and num: "numbered (av_records a)"
    using fine by (simp_all add: archive_fine_def)
  have stamps: "map stamp (av_outcomes a @ [u]) = schedule (ec_offspring cfg) n (Suc k)"
    using ok u(1) schedule_next [of "ec_offspring cfg" n k] by (simp add: journal_ok_def)
  have islands: "\<forall>v\<in>set (av_outcomes a @ [u]). oo_island v = oo_attempt v mod ec_num_islands cfg"
    using ok u by (auto simp: journal_ok_def stamp_def)
  have batches: "\<forall>i\<in>{1..n}. evaluated (batch_of i (av_outcomes a @ [u])) \<noteq> []"
    using ok u(1) by (auto simp: journal_ok_def batch_of_def stamp_def)
  from cs show ?thesis
  proof (elim disjE)
    assume "cs = [] \<and> oo_code u \<noteq> ''evaluated''"
    then show ?thesis using fine k stamps islands batches
      by (auto simp: archive_fine_def journal_ok_def added_def evaluated_def)
  next
    assume "\<exists>c. cs = [c] \<and> oo_code u = ''evaluated'' \<and> candidate_entry c = outcome_entry u \<and> ordinary_ok (ec_num_islands cfg) c
         \<and> ca_id c = next_id a \<and> descends (av_records a @ [c]) (av_records a) c"
    then obtain c where c: "cs = [c]" "oo_code u = ''evaluated''" "candidate_entry c = outcome_entry u"
      "ordinary_ok (ec_num_islands cfg) c" "ca_id c = next_id a" "descends (av_records a @ [c]) (av_records a) c" by blast
    from c(3) u(1) have it: "ca_iteration c = n + 1" by (simp add: candidate_entry_def outcome_entry_def stamp_def)
    have "records_ok cfg (av_records a @ [c])"
      using ok c next_id_fresh [of a] by (auto simp: journal_ok_def records_ok_def)
    moreover have "map candidate_entry (later (av_records a @ [c])) = map outcome_entry (evaluated (av_outcomes a @ [u]))"
      using ok c it by (simp add: journal_ok_def later_def evaluated_def)
    moreover have "numbered (av_records a @ [c])"
    proof -
      have "candidate_number (ca_id c) = Some (next_number (av_records a))"
        unfolding c(5) next_id_number by (rule candidate_number_next)
      moreover have "next_number (av_records a) \<le> length (av_records a @ [c])" using next_number_bound [OF num] by simp
      ultimately show ?thesis using num by (fastforce simp: numbered_def)
    qed
    moreover have "lineage_from (av_records a @ [c]) [] (av_records a @ [c])"
      using lineage_extend [OF lineage, of c] journal_iterations [OF ok] it c(6) by (auto simp: lineage_append)
    moreover have "batch_at (av_records a @ [c]) 0 = batch_at (av_records a) 0" using it by (simp add: batch_at_def)
    ultimately show ?thesis using fine k stamps islands batches c(1)
      by (simp add: archive_fine_def journal_ok_def added_def)
  qed
qed

lemma added_grown:
  assumes "grown a a' n" and "\<forall>c\<in>set cs. ca_iteration c = n + 1" and "oo_iteration u = n + 1"
  shows "grown a (added a' u cs) n"
proof -
  obtain cs' us' where "av_records a' = av_records a @ cs'" "av_outcomes a' = av_outcomes a @ us'"
    "\<forall>c\<in>set cs'. ca_iteration c = n + 1" "\<forall>u\<in>set us'. oo_iteration u = n + 1" using assms(1) by (auto simp: grown_def)
  with assms(2,3) show ?thesis
    unfolding grown_def added_def by (intro exI [of _ "cs' @ cs"] exI [of _ "us' @ [u]"]) auto
qed

text \<open>The environment of an undisturbed run: the pick is from the pool, nothing fails after publication.\<close>

definition undisturbed :: "run_env \<Rightarrow> bool" where
  "undisturbed r \<longleftrightarrow> env_ok (rn_strategy r) \<and> (\<forall>pool. pool \<noteq> [] \<longrightarrow> rn_pick r pool \<in> set pool)
     \<and> (\<forall>k q f. rn_reply r k q \<noteq> Published f True)"

lemma failed_code: "(if code \<in> set outcome_codes - {''evaluated''} then code else ''run_failed'') \<noteq> ''evaluated''"
  by auto

lemma attempt_fine:
  assumes r: "undisturbed r" and ground: "grounded (sv_selection (rn_strategy r)) (av_records a) n active"
    and grown: "grown a a' n" and fine: "archive_fine (rn_config r) a' n k" and k: "k < ec_offspring (rn_config r)"
  shows "\<exists>u cs. attempt_offspring r active (n + 1) k a' = (u, a'\<lparr>av_records := av_records a' @ cs\<rparr>)
    \<and> archive_fine (rn_config r) (added a' u cs) n (Suc k) \<and> grown a (added a' u cs) n \<and> oo_iteration u = n + 1 \<and> oo_attempt u = k"
proof -
  let ?cfg = "rn_config r" and ?e = "sv_selection (rn_strategy r)"
  let ?island = "k mod ec_num_islands ?cfg"
  let ?parent = "select_parent ?e (rn_pick r) (av_records a') active ?island"
  let ?request = "request_of r (n + 1) ?parent (inspirations ?e (av_records a') active ?island ?parent) a'"
  have cfg: "config_ok ?cfg" using r by (simp add: undisturbed_def env_ok_def)
  then have island: "?island < ec_num_islands ?cfg" by (simp add: config_ok_def)
  have len: "length active = ec_num_islands ?cfg" using ground by (simp add: grounded_def populated_def)
  obtain cs where cs: "av_records a' = av_records a @ cs" "\<forall>c\<in>set cs. ca_iteration c = n + 1" using grown by (auto simp: grown_def)
  have ok: "journal_ok ?cfg a' n k" using fine by (simp add: archive_fine_def)
  then have records: "records_ok ?cfg (av_records a @ cs)" by (simp add: journal_ok_def cs(1))
  show ?thesis
  proof (cases "\<exists>f. rn_reply r k ?request = Published f False \<and> ordinary_metadata f")
    case False
    have *: "\<exists>u. attempt_offspring r active (n + 1) k a' = (u, a') \<and> oo_code u \<noteq> ''evaluated'' \<and> stamp u = (n + 1, k) \<and> oo_island u = ?island"
    proof (cases "rn_reply r k ?request")
      case (Published f late)
      moreover have "\<not> late" using r Published by (auto simp: undisturbed_def)
      ultimately have "\<not> ordinary_metadata f" using False by auto
      with Published show ?thesis by (auto simp: attempt_offspring_def outcome_of_def stamp_def Let_def)
    next
      case (Rejected code)
      then show ?thesis using failed_code [of code] by (auto simp: attempt_offspring_def outcome_of_def stamp_def Let_def)
    qed (auto simp: attempt_offspring_def outcome_of_def stamp_def Let_def)
    then obtain u where u: "attempt_offspring r active (n + 1) k a' = (u, a')" "oo_code u \<noteq> ''evaluated''"
      "stamp u = (n + 1, k)" "oo_island u = ?island" by blast
    have "archive_fine ?cfg (added a' u []) n (Suc k)" using u by (intro added_fine [OF fine k]) auto
    moreover have "grown a (added a' u []) n" using u(3) by (intro added_grown [OF grown]) (auto simp: stamp_def)
    moreover have "a'\<lparr>av_records := av_records a' @ []\<rparr> = a'" by simp
    ultimately show ?thesis using u(1,3) by (intro exI [of _ u] exI [of _ "[]"]) (simp add: stamp_def)
  next
    case True
    then obtain f where f: "rn_reply r k ?request = Published f False" "ordinary_metadata f" by blast
    let ?gen = "case ?parent of None \<Rightarrow> 0 | Some p \<Rightarrow> ca_generation p + 1"
    let ?c = "new_candidate f (n + 1) ?gen ?parent ?island a'"
    let ?u = "outcome_of (n + 1) k ?island ''evaluated'' (Some (next_id a'))"
    have attempt: "attempt_offspring r active (n + 1) k a' = (?u, a'\<lparr>av_records := av_records a' @ [?c]\<rparr>)"
      using f by (simp add: attempt_offspring_def publish_def Let_def)
    have "case ?parent of Some p \<Rightarrow> p \<in> set (av_records a) \<and> valid p \<and> ca_iteration p \<le> n
        | None \<Rightarrow> \<forall>c\<in>set (av_records a). ca_iteration c \<le> n \<longrightarrow> \<not> valid c"
      unfolding cs(1) using r island len records ground by (intro selected_parent) (auto simp: undisturbed_def)
    then have "descends (av_records a' @ [?c]) (av_records a') ?c"
      using cs by (auto simp: descends_def new_candidate_def split: option.splits)
    moreover have "ordinary_ok (ec_num_islands ?cfg) ?c"
      using f(2) island next_id_safe_fine [OF cfg fine]
      by (simp add: ordinary_ok_def new_candidate_def is_population_def is_seed_candidate_def ordinary_metadata_def settled_def)
    moreover have "candidate_entry ?c = outcome_entry ?u" "ca_id ?c = next_id a'"
      by (simp_all add: candidate_entry_def outcome_entry_def new_candidate_def outcome_of_def)
    ultimately have "archive_fine ?cfg (added a' ?u [?c]) n (Suc k)"
      by (intro added_fine [OF fine k]) (auto simp: outcome_of_def stamp_def)
    moreover have "grown a (added a' ?u [?c]) n"
      by (intro added_grown [OF grown]) (auto simp: outcome_of_def new_candidate_def)
    ultimately show ?thesis using attempt by (intro exI [of _ ?u] exI [of _ "[?c]"]) (simp add: outcome_of_def)
  qed
qed

lemma append_fresh:
  assumes "archive_fine cfg a n k" and "oo_iteration u = n + 1" and "oo_attempt u = k"
  shows "append_outcome u (a\<lparr>av_records := av_records a @ cs\<rparr>) = Inr (added a u cs)"
proof -
  have ok: "journal_ok cfg a n k" using assms(1) by (simp add: archive_fine_def)
  have "\<not> (\<exists>v\<in>set (av_outcomes a). oo_iteration v = oo_iteration u \<and> oo_attempt v = oo_attempt u)"
  proof (clarify)
    fix v assume v: "v \<in> set (av_outcomes a)" "oo_iteration v = oo_iteration u" "oo_attempt v = oo_attempt u"
    from journal_member [OF ok v(1)] v(2,3) assms(2,3) show False by simp
  qed
  then have "(\<exists>v\<in>set (av_outcomes a). oo_iteration v = oo_iteration u \<and> oo_attempt v = oo_attempt u) = False" by simp
  then show ?thesis unfolding append_outcome_def by (simp add: guardE_def added_def)
qed

lemma attempts_fine:
  assumes r: "undisturbed r" and ground: "grounded (sv_selection (rn_strategy r)) (av_records a) n active"
    and "grown a a' n" and "archive_fine (rn_config r) a' n k" and "k \<le> ec_offspring (rn_config r)"
  shows "\<exists>a''. attempt_all r active (n + 1) [k..<ec_offspring (rn_config r)] a' = Inr a''
    \<and> archive_fine (rn_config r) a'' n (ec_offspring (rn_config r)) \<and> grown a a'' n \<and> av_state a'' = av_state a'"
  using assms(3-5)
proof (induction "ec_offspring (rn_config r) - k" arbitrary: k a')
  case 0
  then show ?case by (intro exI [of _ a']) auto
next
  case (Suc d)
  then have k: "k < ec_offspring (rn_config r)" by simp
  from attempt_fine [OF r ground Suc.prems(1,2) k] obtain u cs
    where u: "attempt_offspring r active (n + 1) k a' = (u, a'\<lparr>av_records := av_records a' @ cs\<rparr>)"
      "oo_iteration u = n + 1" "oo_attempt u = k"
      and next_fine: "archive_fine (rn_config r) (added a' u cs) n (Suc k)" "grown a (added a' u cs) n" by blast
  have "\<exists>a''. attempt_all r active (n + 1) [Suc k..<ec_offspring (rn_config r)] (added a' u cs) = Inr a''
    \<and> archive_fine (rn_config r) a'' n (ec_offspring (rn_config r)) \<and> grown a a'' n \<and> av_state a'' = av_state (added a' u cs)"
    using Suc.hyps(2) k by (intro Suc.hyps(1) next_fine) auto
  moreover have "[k..<ec_offspring (rn_config r)] = k # [Suc k..<ec_offspring (rn_config r)]" using k by (rule upt_conv_Cons)
  moreover have "av_state (added a' u cs) = av_state a'" by (simp add: added_def)
  ultimately show ?case by (simp add: u(1) [simplified] append_fresh [OF Suc.prems(2) u(2,3)])
qed

section \<open>Ending\<close>

lemma best_score_best: "best_score (filter valid records) = map_option score (best records)"
proof (cases "best records")
  case None
  then show ?thesis by (simp add: best_def best_score_def)
next
  case (Some c)
  then have "c \<in> set (filter valid records)" "\<And>d. d \<in> set (filter valid records) \<Longrightarrow> score d \<le> score c"
    unfolding best_def by (auto dest: max_by_in max_by_ge)
  then have "Max (score ` set (filter valid records)) = score c" by (intro Max_eqI) auto
  then show ?thesis using Some \<open>c \<in> _\<close> by (auto simp: best_score_def filter_empty_conv)
qed

text \<open>A batch whose attempts have all been made.\<close>

definition completed :: "strategy_env \<Rightarrow> archive \<Rightarrow> archive \<Rightarrow> string list list \<Rightarrow> nat \<Rightarrow> int \<Rightarrow> int \<Rightarrow> json \<Rightarrow> bool" where
  "completed e a b active n migration stagnation err \<longleftrightarrow>
     checkpoint e a active n migration stagnation err \<and> begun e a active n migration stagnation (av_state b)
     \<and> grown a b n \<and> archive_fine (sv_config e) b n (ec_offspring (sv_config e))"

lemma completed_batch:
  assumes "completed e a b active n migration stagnation err"
  shows "av_records b = av_records a @ batch_at (av_records b) (n + 1)"
    and "map candidate_entry (batch_at (av_records b) (n + 1)) = map outcome_entry (evaluated (batch_of (n + 1) (av_outcomes b)))"
    and "\<forall>c\<in>set (av_records a). ca_iteration c \<le> n"
proof -
  have ok: "journal_ok (sv_config e) a n 0" and ok': "journal_ok (sv_config e) b n (ec_offspring (sv_config e))"
    using assms by (simp_all add: completed_def checkpoint_def archive_fine_def)
  show old: "\<forall>c\<in>set (av_records a). ca_iteration c \<le> n" using journal_iterations [OF ok] by blast
  obtain cs where cs: "av_records b = av_records a @ cs" "\<forall>c\<in>set cs. ca_iteration c = n + 1"
    using assms by (auto simp: completed_def grown_def)
  have "filter (\<lambda>c. ca_iteration c = n + 1) (av_records a) = []" using old by (auto simp: filter_empty_conv)
  moreover have "filter (\<lambda>c. ca_iteration c = n + 1) cs = cs" using cs(2) by (simp add: filter_id_conv)
  ultimately show "av_records b = av_records a @ batch_at (av_records b) (n + 1)" by (simp add: batch_at_def cs(1))
  show "map candidate_entry (batch_at (av_records b) (n + 1)) = map outcome_entry (evaluated (batch_of (n + 1) (av_outcomes b)))"
    by (rule journal_batch [OF ok']) simp
qed

lemma completed_consistent:
  assumes c: "completed e a b active n migration stagnation err"
  shows "batch_consistent (av_records b) n (n + 1) (evaluated (batch_of (n + 1) (av_outcomes b)))"
proof -
  let ?us = "evaluated (batch_of (n + 1) (av_outcomes b))" and ?cs = "batch_at (av_records b) (n + 1)"
  note entries = completed_batch(2) [OF c]
  have records: "records_ok (sv_config e) (av_records b)" using c by (simp add: completed_def archive_fine_def journal_ok_def)
  have pop: "ca_strategy c = ''population''" if "c \<in> set (av_records b)" for c
    using records that by (auto simp: records_ok_def list_all_iff ordinary_ok_def is_population_def)
  have "distinct (map (\<lambda>c. Some (ca_id c)) ?cs)"
    using batch_ids_distinct [OF records, of "n + 1"] by (simp add: distinct_map inj_on_def)
  then have "distinct (map oo_candidate ?us)" by (simp only: entry_ids [OF entries])
  moreover have "\<exists>c\<in>set (av_records b). Some (ca_id c) = oo_candidate u \<and> ca_strategy c = ''population''
          \<and> ca_iteration c = n + 1 \<and> ca_island c = Some (oo_island u)" if "u \<in> set ?us" for u
  proof -
    have "outcome_entry u \<in> set (map candidate_entry ?cs)" using that unfolding entries by simp
    then obtain c where "c \<in> set ?cs" "outcome_entry u = candidate_entry c" by auto
    then show ?thesis using pop by (auto simp: batch_at_def outcome_entry_def candidate_entry_def intro!: bexI [of _ c])
  qed
  moreover have "{c \<in> set (av_records b). ca_strategy c = ''population'' \<and> n < ca_iteration c} = set ?cs"
  proof (rule set_eqI)
    fix d
    have sets: "set (av_records b) = set (av_records a) \<union> set ?cs"
      using arg_cong [OF completed_batch(1) [OF c], of set] by (simp only: set_append)
    have "d \<in> set ?cs \<longleftrightarrow> d \<in> set (av_records b) \<and> ca_iteration d = n + 1" by (auto simp: batch_at_def)
    moreover have "d \<in> set ?cs" if "d \<in> set (av_records b)" "n < ca_iteration d"
      using that completed_batch(3) [OF c] unfolding sets by (meson UnE leD)
    ultimately show "d \<in> {c \<in> set (av_records b). ca_strategy c = ''population'' \<and> n < ca_iteration c} \<longleftrightarrow> d \<in> set ?cs"
      using pop [of d] by (simp only: mem_Collect_eq) (metis less_add_one)
  qed
  moreover have "(\<lambda>c. Some (ca_id c)) ` set ?cs = oo_candidate ` set ?us"
    using entry_ids [OF entries] by (metis list.set_map)
  ultimately show ?thesis unfolding batch_consistent_def by simp
qed

text \<open>The population after the batch is the one the specification computes.\<close>

lemma completed_population:
  assumes env: "env_ok e" and c: "completed e a b active n migration stagnation err"
  shows "population_at (sv_selection e) (av_records b) n = (active, migration, stagnation)"
    and "foldE admit (evaluated (batch_of (n + 1) (av_outcomes b))) active = Inr (put_all (batch_at (av_records b) (n + 1)) active)"
    and "best_score (filter (\<lambda>c. ca_iteration c \<le> n \<and> valid c) (av_records b)) = best_at (av_records b) n"
    and "map_option score (best (av_records b)) = best_at (av_records b) (Suc n)"
proof -
  let ?cs = "batch_at (av_records b) (n + 1)"
  have cp: "checkpoint e a active n migration stagnation err" using c by (simp add: completed_def)
  have records: "records_ok (sv_config e) (av_records b)" using c by (simp add: completed_def archive_fine_def journal_ok_def)
  have split: "av_records b = av_records a @ ?cs" by (rule completed_batch(1) [OF c])
  have later: "\<forall>c\<in>set ?cs. n < ca_iteration c" by (simp add: batch_at_def)
  have "population_at (sv_selection e) (av_records a @ ?cs) n = population_at (sv_selection e) (av_records a) n"
    using env records split later by (intro population_at_frame) (auto simp: env_ok_def)
  then show pop: "population_at (sv_selection e) (av_records b) n = (active, migration, stagnation)"
    using split checkpointD(2) [OF cp] by simp
  have ground: "grounded (sv_selection e) (av_records b) n active"
    using population_at_grounded [of "sv_selection e" "av_records b" n] env records pop by (simp add: env_ok_def)
  have len: "length active = ec_num_islands (sv_config e)" and below: "set (concat active) \<subseteq> ca_id ` {c \<in> set (av_records b). ca_iteration c \<le> n}"
    using ground by (simp_all add: grounded_def populated_def del: set_concat)
  have "map (\<lambda>u. (oo_candidate u, Some (oo_island u))) (evaluated (batch_of (n + 1) (av_outcomes b))) = map snd (map outcome_entry (evaluated (batch_of (n + 1) (av_outcomes b))))"
    by (simp add: outcome_entry_def)
  also have "\<dots> = map snd (map candidate_entry ?cs)" by (simp only: completed_batch(2) [OF c])
  also have "\<dots> = map (\<lambda>c. (Some (ca_id c), ca_island c)) ?cs" by (simp add: candidate_entry_def)
  finally show "foldE admit (evaluated (batch_of (n + 1) (av_outcomes b))) active = Inr (put_all ?cs active)"
    using records_ok_settled [OF records] len batch_ids_distinct [OF records] batch_fresh [OF records below]
    by (intro foldE_admit) simp_all
  show "best_score (filter (\<lambda>c. ca_iteration c \<le> n \<and> valid c) (av_records b)) = best_at (av_records b) n"
    by (simp add: best_at_def)
  have "\<forall>c\<in>set (av_records b). ca_iteration c \<le> Suc n"
    using c journal_iterations by (fastforce simp: completed_def archive_fine_def)
  then have "filter (\<lambda>c. ca_iteration c \<le> Suc n \<and> valid c) (av_records b) = filter valid (av_records b)"
    by (intro filter_cong) auto
  then show "map_option score (best (av_records b)) = best_at (av_records b) (Suc n)"
    by (simp add: best_at_def best_score_best)
qed

lemma completed_fine:
  assumes c: "completed e a b active n migration stagnation err" and "n < ec_max_rounds (sv_config e)"
    and some: "evaluated (batch_of (n + 1) (av_outcomes b)) \<noteq> []"
  shows "archive_fine (sv_config e) (b\<lparr>av_state := s\<rparr>) (Suc n) 0"
proof -
  have fine: "archive_fine (sv_config e) b n (ec_offspring (sv_config e))" using c by (simp add: completed_def)
  have "\<forall>i\<in>{1..Suc n}. evaluated (batch_of i (av_outcomes b)) \<noteq> []"
    using fine some by (auto simp: archive_fine_def journal_ok_def le_Suc_eq)
  then show ?thesis using fine assms(2)
    by (simp add: archive_fine_def journal_ok_def schedule_full)
qed

lemma completed_history:
  assumes "env_ok e" and "completed e a b active n migration stagnation err"
  shows "validate_history e b (av_state b) = Inr ()"
  using assms(2) unfolding completed_def by (blast intro: begun_history [OF assms(1)])

lemma begun_carried:
  assumes s: "begun e a active n migration stagnation s"
    and extra: "\<And>k. k \<in> set binding_fields \<Longrightarrow> map_of extra k \<noteq> None"
    and k: "k \<in> set carried_fields" "map_of extra k = None"
  shows "map_of s k = None"
proof -
  from k(1) have "k \<in> set binding_fields \<or> k = ''failed_offspring_iteration'' \<or> k = ''failed_offspring_sha256''"
    unfolding carried_fields_def binding_fields_def by auto
  with extra [of k] k(2) begun_lookup(8,9) [OF s] show ?thesis by auto
qed

lemma advance_total:
  assumes env: "env_ok e" and c: "completed e a b active n migration stagnation err" and n: "n < ec_max_rounds (sv_config e)"
    and some: "evaluated (batch_of (n + 1) (av_outcomes b)) \<noteq> []"
  shows "\<exists>b' active' m s err'. advance_batch e (av_state b) active n (n + 1) (batch_of (n + 1) (av_outcomes b)) migration b = Inr (b', active')
    \<and> checkpoint e b' active' (Suc n) m s err' \<and> av_records b' = av_records b"
proof -
  let ?sel = "sv_selection e" and ?us = "batch_of (n + 1) (av_outcomes b)"
  have s: "begun e a active n migration stagnation (av_state b)" using c by (simp add: completed_def)
  note get = begun_get [OF s] and pop = completed_population [OF env c]
  obtain moved active' where step: "select_step ?sel (av_records b) (n + 1) (put_all (batch_at (av_records b) (n + 1)) active) = (moved, active')"
    by fastforce
  let ?m = "if moved then int (n + 1) else migration"
  let ?s = "if improved (best_at (av_records b) n) (best_at (av_records b) (Suc n)) then 0 else stagnation + 1"
  let ?err = "if length (evaluated ?us) = length ?us then JNull else JStr ''offspring_attempt_failed''"
  let ?extra = "snapshot e b active' ?s ?err (best_id b) ?m
    @ binding_items (JInt 1) (n + 1) (JStr (outcome_digest e (av_outcomes b))) (JStr (candidate_digest e (batch_at (av_records a) 0)))"
  let ?b = "write_state e ''running'' (n + 1) ?extra b"
  have ok: "journal_ok (sv_config e) b n (ec_offspring (sv_config e))" using c by (simp add: completed_def archive_fine_def)
  have "filter (journalled (JInt 1) (n + 1)) (av_outcomes b) = av_outcomes b"
    using journal_member [OF ok] by (intro filter_True) (auto simp: journalled_def)
  then have "advance_batch e (av_state b) active n (n + 1) ?us migration b = Inr (?b, active')"
    using step unfolding select_step_def
    by (simp add: advance_batch_def pop(2) [simplified] pop(3,4) get state_int_def Let_def)
  moreover have "checkpoint e ?b active' (Suc n) ?m ?s ?err"
    unfolding checkpoint_def
  proof (intro conjI)
    have "?b = b\<lparr>av_state := av_state ?b\<rparr>" by (simp add: write_state_def)
    then show "archive_fine (sv_config e) ?b (Suc n) 0" using completed_fine [OF c n some] by metis
    show "population_at ?sel (av_records ?b) (Suc n) = (active', ?m, ?s)" using pop(1) step by simp
    show "harmless_error ?err (Suc n) active'" by (simp add: harmless_error_def)
    have baseline: "batch_at (av_records b) 0 = batch_at (av_records a) 0"
    proof -
      have "\<forall>d\<in>set (batch_at (av_records b) (n + 1)). n < ca_iteration d" by (simp add: batch_at_def)
      from batch_at_frame [OF this, of 0 "av_records a"]
      have "batch_at (av_records a @ batch_at (av_records b) (n + 1)) 0 = batch_at (av_records a) 0" by simp
      then show ?thesis by (simp only: completed_batch(1) [OF c, symmetric])
    qed
    have "map_of (state_payload e b ''running'' (n + 1) ?extra) = map_of (written e b ''running'' (n + 1) ?extra)"
    proof (rule map_of_payload)
      show "\<not> sv_seeded e" using env by (simp add: env_ok_def)
      show "map_of (av_state b) ''seed_admission'' = None" by (rule begun_lookup(7) [OF s])
      show "map_of (av_state b) k = None" if "k \<in> set carried_fields" "map_of ?extra k = None" for k
        using begun_carried [OF s _ that] binding_covers by blast
    qed
    then show "map_of (av_state ?b) = map_of (written e ?b ''running'' (Suc n)
        (snapshot e ?b active' ?s ?err (best_id ?b) ?m @ bound_items e ?b (Suc n)))"
      by (simp add: bound_items_def baseline written_def snapshot_def best_id_def archive_digest_def)
  qed
  moreover have "av_records ?b = av_records b" by simp
  ultimately show ?thesis by blast
qed

text \<open>The state of a batch in which every attempt failed.\<close>

definition failed_state :: "strategy_env \<Rightarrow> archive \<Rightarrow> nat \<Rightarrow> bool" where
  "failed_state e a n \<longleftrightarrow>
     getn (av_state a) ''strategy'' = JStr ''population'' \<and> getn (av_state a) ''status'' = JStr ''failed''
     \<and> state_int (av_state a) ''iteration'' = Inr (int n) \<and> getn (av_state a) ''error'' = JStr ''offspring_batch_failed''
     \<and> (\<forall>c\<in>set (av_records a). ca_strategy c = ''population'')"

lemma fail_total:
  assumes env: "env_ok e" and c: "completed e a b active n migration stagnation err"
  shows "\<exists>b'. fail_batch e (av_state b) active n (n + 1) us migration b = Inr b' \<and> failed_state e b' n \<and> av_records b' = av_records b"
proof -
  have s: "begun e a active n migration stagnation (av_state b)" using c by (simp add: completed_def)
  note get = begun_get [OF s]
  have pop: "\<forall>c\<in>set (av_records b). ca_strategy c = ''population''"
    using c population_strategy by (fastforce simp: completed_def archive_fine_def)
  let ?extra = "snapshot e b active stagnation (JStr ''offspring_batch_failed'') (best_id b) migration
    @ binding_items (JInt 1) n (JStr (outcome_digest e (av_outcomes a))) (JStr (candidate_digest e (batch_at (av_records a) 0)))
    @ [(''failed_offspring_iteration'', JInt (int (n + 1))), (''failed_offspring_sha256'', JStr (outcome_digest e us))]"
  have "fail_batch e (av_state b) active n (n + 1) us migration b = Inr (write_state e ''failed'' n ?extra b)"
    by (simp add: fail_batch_def get state_int_def)
  moreover have "map_of (state_payload e b ''failed'' n ?extra) = map_of (written e b ''failed'' n ?extra)"
  proof (rule map_of_payload)
    show "\<not> sv_seeded e" using env by (simp add: env_ok_def)
    show "map_of (av_state b) ''seed_admission'' = None" by (rule begun_lookup(7) [OF s])
    fix k assume k: "k \<in> set carried_fields" "map_of ?extra k = None"
    have "map_of ?extra k \<noteq> None" using k(1) by (auto simp: carried_fields_def state_items map_add_def split: option.splits)
    with k(2) show "map_of (av_state b) k = None" by simp
  qed
  ultimately show ?thesis using pop
    by (auto simp: failed_state_def jget_default_def state_int_def state_items)
qed

text \<open>A whole batch.\<close>

lemma finish_total:
  assumes env: "env_ok e" and c: "completed e a b active n migration stagnation err" and n: "n < ec_max_rounds (sv_config e)"
  shows "(\<exists>b' active' m s err'. finish_batch e (av_state b) active b = Inr (b', active') \<and> checkpoint e b' active' (Suc n) m s err'
      \<and> av_records b' = av_records b)
    \<or> (\<exists>b'. finish_batch e (av_state b) active b = Inr (b', active) \<and> failed_state e b' n \<and> av_records b' = av_records b)"
proof -
  have s: "begun e a active n migration stagnation (av_state b)" using c by (simp add: completed_def)
  have ok: "journal_ok (sv_config e) b n (ec_offspring (sv_config e))" using c by (simp add: completed_def archive_fine_def)
  have attempts: "map oo_attempt (batch_of (n + 1) (av_outcomes b)) = [0..<ec_offspring (sv_config e)]"
    using journal_attempts [OF ok, of "n + 1"] by simp
  have finish: "finish_batch e (av_state b) active b =
     (if evaluated (batch_of (n + 1) (av_outcomes b)) = []
      then bindE (fail_batch e (av_state b) active n (n + 1) (batch_of (n + 1) (av_outcomes b)) migration b) (\<lambda>a'. Inr (a', active))
      else advance_batch e (av_state b) active n (n + 1) (batch_of (n + 1) (av_outcomes b)) migration b)"
    unfolding finish_batch_def completed_history [OF env c] begun_pending [OF env s] bindE_simps option.case prod.case
      journal_sorted [OF ok] Let_def attempts
    using completed_consistent [OF c] by (simp add: guardE_def state_int_def begun_get [OF s])
  show ?thesis
  proof (cases "evaluated (batch_of (n + 1) (av_outcomes b)) = []")
    case True
    from fail_total [OF env c, of "batch_of (n + 1) (av_outcomes b)"] show ?thesis unfolding finish using True by auto
  next
    case False
    from advance_total [OF env c n False] show ?thesis unfolding finish using False by auto
  qed
qed

end
