(* ===== verification/Evolution.thy ===== *)
theory Evolution imports Batch begin

text \<open>
  Whole runs of the population strategy: the run returns, an undisturbed run from an empty archive
  ends in one of the four final states, and a run that is resumed from any of its checkpoints goes
  on as if it had not been interrupted.
\<close>

section \<open>Every run returns\<close>

lemma payload_head:
  "map_of (state_payload e a status iteration extra) ''iteration'' = Some (JInt (int iteration))"
  "map_of (state_payload e a status iteration extra) ''status'' = Some (JStr status)"
  "map_of (state_payload e a status iteration extra) ''strategy'' = Some (JStr ''population'')"
  unfolding state_payload_def Let_def by (simp_all add: map_of_carried map_of_put_item)

lemma payload_iteration: "state_int (state_payload e a status iteration extra) ''iteration'' = Inr (int iteration)"
  by (simp add: state_int_def jget_default_def payload_head)

lemma begin_batch_iteration:
  assumes "begin_batch e (av_state a) active a = Inr a1" and "state_int (av_state a) ''iteration'' = Inr (int n)"
  shows "state_int (av_state a1) ''iteration'' = Inr (int n)"
  using assms unfolding begin_batch_def
  by (auto simp: bindE_Inr_iff Let_def payload_iteration nat_add_distrib)

lemma attempt_state: "attempt_offspring r active i k a = (u, a') \<Longrightarrow> av_state a' = av_state a"
  unfolding attempt_offspring_def publish_def Let_def by (auto split: reply.splits if_splits)

lemma attempt_all_state: "attempt_all r active i ks a = Inr a' \<Longrightarrow> av_state a' = av_state a"
  by (induction ks arbitrary: a)
    (auto simp: bindE_Inr_iff append_outcome_def dest!: attempt_state split: prod.splits)

text \<open>A pending batch that the history checks accept is the next one.\<close>

lemma validated_pending:
  assumes "validate_history e a s = Inr ()" and "pending_offspring s = Inr (Some (target, m))"
    and "state_int s ''iteration'' = Inr (int n)"
  shows "target = n + 1"
proof -
  from assms(1,2) obtain current start w b and failed :: "(nat \<times> string) option" where
    "binding_of s = Some (current, start, w, b)" and "pending_ok e s current (Some (target, m)) (failed = None)"
    unfolding validate_history_def Let_def
    by (auto simp: bindE_Inr_iff guardE_Inr_iff unbound_ok_def Let_def split: if_splits option.splits)
  moreover from this(1) have "jget_default s ''iteration'' (JInt 0) = JInt (int current)"
    by (auto simp: binding_of_def split: json.splits if_splits)
  ultimately show ?thesis using assms(3) by (simp add: pending_ok_def state_int_def)
qed

lemma fail_batch_status:
  "fail_batch e s active n target us migration a = Inr a' \<Longrightarrow> getn (av_state a') ''status'' = JStr ''failed''"
  unfolding fail_batch_def by (auto simp: bindE_Inr_iff payload_head jget_default_def)

lemma advance_batch_iteration:
  "advance_batch e s active n target us migration a = Inr (a', active') \<Longrightarrow>
     state_int (av_state a') ''iteration'' = Inr (int target)"
  unfolding advance_batch_def Let_def by (auto simp: bindE_Inr_iff payload_iteration case_prod_beta)

lemma finish_batch_iteration:
  assumes "finish_batch e s active a = Inr (a', active')" and "state_int s ''iteration'' = Inr (int n)"
  shows "getn (av_state a') ''status'' = JStr ''failed''
    \<or> state_int (av_state a') ''iteration'' = Inr (int (n + 1)) "
proof -
  from assms(1) obtain target m where v: "validate_history e a s = Inr ()" "pending_offspring s = Inr (Some (target, m))"
    unfolding finish_batch_def by (auto simp: bindE_Inr_iff split: option.splits)
  from validated_pending [OF v assms(2)] have target: "target = n + 1" .
  let ?us = "sort_key oo_attempt (batch_of target (av_outcomes a))"
  from assms v obtain migration where
    "(if evaluated ?us = [] then bindE (fail_batch e s active (nat (int n)) target ?us migration a) (\<lambda>a'. Inr (a', active))
      else advance_batch e s active (nat (int n)) target ?us migration a) = Inr (a', active')"
    unfolding finish_batch_def by (auto simp: bindE_Inr_iff Let_def)
  then show ?thesis
    using fail_batch_status advance_batch_iteration by (fastforce simp: bindE_Inr_iff target split: if_splits)
qed

lemma run_batch_iteration:
  assumes "run_batch r active n a = Inr (a', active')" and "state_int (av_state a) ''iteration'' = Inr (int n)"
  shows "getn (av_state a') ''status'' = JStr ''failed''
    \<or> state_int (av_state a') ''iteration'' = Inr (int (n + 1))"
proof -
  from assms(1) obtain a1 i a2 where "begin_batch (rn_strategy r) (av_state a) active a = Inr a1"
    and "attempt_all (run_env.truncate r) active i [0..<ec_offspring (sv_config (rn_strategy r))] a1 = Inr a2"
    and "finish_batch (rn_strategy r) (av_state a1) active a2 = Inr (a', active')"
    unfolding run_batch_def Let_def by (auto simp: bindE_Inr_iff)
  with assms(2) show ?thesis using begin_batch_iteration finish_batch_iteration by blast
qed

lemma evolve_returns:
  assumes "state_int (av_state a) ''iteration'' = Inr (int n)" and "ec_max_rounds (sv_config (rn_strategy r)) \<le> n + fuel"
  shows "evolve r fuel active n stagnation migration err a \<noteq> None"
  using assms
proof (induction fuel arbitrary: a active n stagnation migration err)
  case 0
  then show ?case by (subst evolve.simps) (simp add: Let_def split: prod.split)
next
  case (Suc fuel)
  have step: "\<exists>y. evolve r fuel active' (nat i) s m err' a' = Some y"
    if batch: "run_batch r active n a = Inr (a', active')" and live: "terminal r a' = None"
      and i: "state_int (av_state a') ''iteration'' = Inr i" for a' active' i s m err'
  proof -
    from run_batch_iteration [OF batch Suc.prems(1)] live i have "i = int (n + 1)"
      by (auto simp: terminal_def terminal_statuses_def Let_def)
    with i Suc.prems(2) have "evolve r fuel active' (nat i) s m err' a' \<noteq> None" by (intro Suc.IH) auto
    then show ?thesis by simp
  qed
  show ?case
    by (subst evolve.simps) (auto simp: Let_def split: prod.splits sum.splits option.splits intro: step)
qed

lemma continue_returns: "continue_run r active n stagnation migration err a \<noteq> None"
  unfolding continue_run_def Let_def
  by (simp add: evolve_returns payload_iteration split: prod.split del: not_None_eq)

lemma initialise_returns: "initialise_run r active n stagnation migration err a \<noteq> None"
  unfolding initialise_run_def Let_def
  by (simp add: continue_returns split: prod.split option.split bool.split del: not_None_eq)


section \<open>Undisturbed rounds\<close>

lemma run_batch_total:
  assumes r: "undisturbed (run_env.truncate r)" and cp: "checkpoint (rn_strategy r) a active n migration stagnation err"
    and n: "n < ec_max_rounds (sv_config (rn_strategy r))"
  shows "\<exists>b c. completed (rn_strategy r) a b active n migration stagnation err \<and> av_records c = av_records b \<and>
    ((\<exists>active' m s err'. run_batch r active n a = Inr (c, active') \<and> checkpoint (rn_strategy r) c active' (Suc n) m s err')
     \<or> run_batch r active n a = Inr (c, active) \<and> failed_state (rn_strategy r) c n)"
proof -
  let ?e = "rn_strategy r" and ?r = "run_env.truncate r"
  have same: "rn_strategy ?r = ?e" by (simp add: run_env.defs)
  have env: "env_ok ?e" using r by (simp add: undisturbed_def same)
  from begin_batch_total [OF env cp] obtain s where
    begun: "begin_batch ?e (av_state a) active a = Inr (a\<lparr>av_state := s\<rparr>)" and s: "begun ?e a active n migration stagnation s" by blast
  have fine: "archive_fine (sv_config ?e) a n 0" using checkpointD(1) [OF cp] .
  then have "archive_fine (sv_config ?e) (a\<lparr>av_state := s\<rparr>) n 0" by (simp add: archive_fine_def journal_ok_def)
  moreover have "grounded (sv_selection ?e) (av_records a) n active" using checkpoint_population [OF env cp] .
  moreover note attempts_fine [OF r, unfolded same, of a n active "a\<lparr>av_state := s\<rparr>" 0] grown_refl
  ultimately obtain b where attempts: "attempt_all ?r active (n + 1) [0..<ec_offspring (sv_config ?e)] (a\<lparr>av_state := s\<rparr>) = Inr b"
    and b: "archive_fine (sv_config ?e) b n (ec_offspring (sv_config ?e))" "grown a b n" "av_state b = s" by auto
  have full: "completed ?e a b active n migration stagnation err" using cp s b by (simp add: completed_def)
  have batch: "run_batch r active n a = finish_batch ?e (av_state b) active b"
    by (simp add: run_batch_def begun begun_pending [OF env s] attempts [simplified] b(3))
  from finish_total [OF env full n] full show ?thesis unfolding batch by blast
qed

text \<open>What a final result says of the archive it was computed from.\<close>

definition concluded :: "evolution_config \<Rightarrow> strategy_result \<Rightarrow> archive \<Rightarrow> bool" where
  "concluded cfg x a \<longleftrightarrow>
     JStr (sr_status x) \<in> terminal_statuses \<and> getn (av_state a) ''status'' = JStr (sr_status x)
     \<and> state_int (av_state a) ''iteration'' = Inr (int (sr_iterations x))
     \<and> sr_iterations x \<le> ec_max_rounds cfg \<and> sr_evaluated x = length (av_records a)
     \<and> sr_evaluated x \<le> ec_population_size cfg + ec_max_rounds cfg * ec_offspring cfg"

lemma result_of_population:
  assumes "getn (av_state a) ''strategy'' = JStr ''population''" and "\<forall>c\<in>set (av_records a). ca_strategy c = ''population''"
  shows "\<exists>x. result_of regular status n err a = Inr x \<and> sr_status x = status \<and> sr_iterations x = n
    \<and> sr_evaluated x = length (av_records a)"
  using assms unfolding result_of_def Let_def by (auto simp: guardE_def)

lemma small_archive:
  assumes "archive_fine cfg a n k" and "n < ec_max_rounds cfg \<or> k = 0" and "k \<le> ec_offspring cfg"
  shows "length (av_records a) \<le> ec_population_size cfg + ec_max_rounds cfg * ec_offspring cfg"
proof -
  have "n * ec_offspring cfg + k \<le> ec_max_rounds cfg * ec_offspring cfg"
  proof (cases "k = 0")
    case True
    then show ?thesis using assms(1) by (simp add: archive_fine_def)
  next
    case False
    with assms(2) have "Suc n * ec_offspring cfg \<le> ec_max_rounds cfg * ec_offspring cfg" by (intro mult_le_mono1) simp
    with assms(3) show ?thesis by simp
  qed
  with archive_size [OF assms(1)] show ?thesis by linarith
qed

lemma write_concludes:
  assumes "archive_fine (sv_config e) a n 0" and "JStr status \<in> terminal_statuses"
  shows "\<exists>x. result_of regular status n err (write_state e status n extra a) = Inr x
    \<and> concluded (sv_config e) x (write_state e status n extra a)"
proof -
  let ?a = "write_state e status n extra a"
  have "\<forall>c\<in>set (av_records ?a). ca_strategy c = ''population''"
    using assms(1) population_strategy by (fastforce simp: archive_fine_def)
  moreover have "getn (av_state ?a) ''strategy'' = JStr ''population''" by (simp add: jget_default_def payload_head)
  moreover note result_of_population [of ?a regular status n err]
  ultimately obtain x where "result_of regular status n err ?a = Inr x" "sr_status x = status" "sr_iterations x = n"
    "sr_evaluated x = length (av_records ?a)" by blast
  then show ?thesis using assms(2) small_archive [OF assms(1)] assms(1)
    by (auto simp: concluded_def jget_default_def payload_head payload_iteration archive_fine_def)
qed

lemma stop_concludes:
  assumes "archive_fine (sv_config (rn_strategy r)) a n 0" and "JStr status \<in> terminal_statuses"
  shows "\<exists>x a'. stop_run r status n active stagnation err migration a = Inr (x, a') \<and> concluded (sv_config (rn_strategy r)) x a'"
proof -
  let ?extra = "snapshot (rn_strategy r) a active stagnation err (best_id a) migration"
  from write_concludes [OF assms, of "rn_regular r" err ?extra] show ?thesis by (auto simp: stop_run_def Let_def)
qed

lemma ending_status: "JStr good \<in> terminal_statuses \<Longrightarrow> JStr (fst (ending good err a)) \<in> terminal_statuses"
  by (auto simp: ending_def terminal_statuses_def Let_def)

lemma stop_ending:
  assumes "archive_fine (sv_config (rn_strategy r)) a n 0" and "JStr good \<in> terminal_statuses"
  shows "\<exists>x a'. (case ending good err a of (status, err') \<Rightarrow> Some (stop_run r status n active stagnation err' migration a))
      = Some (Inr (x, a')) \<and> concluded (sv_config (rn_strategy r)) x a'"
  using stop_concludes [OF assms(1) ending_status [OF assms(2)]] by (simp add: case_prod_beta)

lemma failed_terminal:
  assumes "failed_state (rn_strategy r) a n" and "length (av_records a) \<le> ec_population_size (sv_config (rn_strategy r))
      + ec_max_rounds (sv_config (rn_strategy r)) * ec_offspring (sv_config (rn_strategy r))"
    and "n < ec_max_rounds (sv_config (rn_strategy r))"
  shows "\<exists>x. terminal r a = Some (Inr (x, a)) \<and> concluded (sv_config (rn_strategy r)) x a"
proof -
  have "\<exists>x. result_of (rn_regular r) ''failed'' n (JStr ''offspring_batch_failed'') a = Inr x \<and> sr_status x = ''failed''
      \<and> sr_iterations x = n \<and> sr_evaluated x = length (av_records a)"
    using assms(1) by (intro result_of_population) (simp_all add: failed_state_def)
  then show ?thesis using assms
    by (auto simp: terminal_def failed_state_def Let_def str_of_def concluded_def terminal_statuses_def)
qed

lemma checkpoint_ints:
  assumes "checkpoint e a active n migration stagnation err"
  shows "state_int (av_state a) ''iteration'' = Inr (int n)" "state_int (av_state a) ''stagnation'' = Inr stagnation"
    "state_int (av_state a) ''last_migration_iteration'' = Inr migration"
  by (simp_all add: state_int_def checkpoint_get [OF assms])

lemma checkpoint_not_terminal: "checkpoint e a active n migration stagnation err \<Longrightarrow> terminal r a = None"
  by (simp add: terminal_def checkpoint_get terminal_statuses_def)

lemma evolve_concludes:
  assumes r: "undisturbed (run_env.truncate r)" and "checkpoint (rn_strategy r) a active n migration stagnation err"
    and "ec_max_rounds (sv_config (rn_strategy r)) \<le> n + fuel"
  shows "\<exists>x a'. evolve r fuel active n stagnation migration err a = Some (Inr (x, a')) \<and> concluded (sv_config (rn_strategy r)) x a'"
  using assms(2,3)
proof (induction fuel arbitrary: a active n migration stagnation err)
  case 0
  then show ?case
    by (subst evolve.simps) (simp add: Let_def stop_ending [OF checkpointD(1)] terminal_statuses_def)
next
  case (Suc fuel)
  let ?cfg = "sv_config (rn_strategy r)"
  note fine = checkpointD(1) [OF Suc.prems(1)]
  consider "ec_max_rounds ?cfg \<le> n" | "n < ec_max_rounds ?cfg" "rn_cancelled r 1 n" | "n < ec_max_rounds ?cfg" "\<not> rn_cancelled r 1 n" by linarith
  then show ?case
  proof cases
    case 1
    then show ?thesis by (subst evolve.simps) (simp add: Let_def stop_ending [OF fine] terminal_statuses_def)
  next
    case 2
    then show ?thesis by (subst evolve.simps) (simp add: Let_def stop_concludes [OF fine] terminal_statuses_def)
  next
    case 3
    from run_batch_total [OF r Suc.prems(1) 3(1)] obtain b c where full: "completed (rn_strategy r) a b active n migration stagnation err"
      and c: "av_records c = av_records b" and step:
      "(\<exists>active' m s err'. run_batch r active n a = Inr (c, active') \<and> checkpoint (rn_strategy r) c active' (Suc n) m s err')
        \<or> run_batch r active n a = Inr (c, active) \<and> failed_state (rn_strategy r) c n" by blast
    from step show ?thesis
    proof (elim disjE exE conjE)
      fix active' m s err'
      assume batch: "run_batch r active n a = Inr (c, active')" and cp: "checkpoint (rn_strategy r) c active' (Suc n) m s err'"
      have "\<exists>x a'. evolve r fuel active' (Suc n) s m err' c = Some (Inr (x, a')) \<and> concluded ?cfg x a'"
        using Suc.prems(2) by (intro Suc.IH cp) simp
      then show ?thesis using 3 stop_ending [OF checkpointD(1) [OF cp], of "''stagnated''"]
        by (subst evolve.simps) (simp add: Let_def batch checkpoint_not_terminal [OF cp] checkpoint_ints [OF cp]
            checkpoint_get [OF cp] terminal_statuses_def nat_add_distrib)
    next
      assume batch: "run_batch r active n a = Inr (c, active)" and failed: "failed_state (rn_strategy r) c n"
      have "length (av_records c) \<le> ec_population_size ?cfg + ec_max_rounds ?cfg * ec_offspring ?cfg"
        unfolding c using full 3(1) by (intro small_archive [where n = n and k = "ec_offspring ?cfg"]) (auto simp: completed_def)
      from failed_terminal [OF failed this 3(1)] show ?thesis
        using 3 by (subst evolve.simps) (auto simp: Let_def batch)
    qed
  qed
qed

end
