(* ===== verification/Resumption.thy ===== *)
theory Resumption imports Evolution begin

text \<open>
  Runs from the empty archive.  The initial population is a checkpoint; an undisturbed run ends with a
  result; and a run that is interrupted between two batches and started again on the archive it left
  ends exactly as the uninterrupted run does.
\<close>

section \<open>Only the items of a state matter, not their order\<close>

definition same_archive :: "archive \<Rightarrow> archive \<Rightarrow> bool" where
  "same_archive a b \<longleftrightarrow> av_records a = av_records b \<and> av_outcomes a = av_outcomes b
     \<and> map_of (av_state a) = map_of (av_state b)"

lemma state_payload_same: "same_archive a b \<Longrightarrow> state_payload e a = state_payload e b"
  unfolding same_archive_def state_payload_def archive_digest_def Let_def jget_default_def by (intro ext) simp

lemma write_state_same: "same_archive a b \<Longrightarrow> write_state e status n x a = write_state e status n x b"
  using state_payload_same [of a b e] by (simp add: write_state_def same_archive_def)

lemma snapshot_same: "same_archive a b \<Longrightarrow> snapshot e a = snapshot e b" "same_archive a b \<Longrightarrow> best_id a = best_id b"
  by (auto simp: same_archive_def snapshot_def best_id_def fun_eq_iff)

text \<open>Everything the history checks read of a state is an item of it.\<close>

lemma read_same:
  assumes "map_of s = map_of t"
  shows "jget_default s = jget_default t" "has_key s = has_key t" "pending_offspring s = pending_offspring t"
    "unbound_ok s = unbound_ok t" "binding_of s = binding_of t" "failed_batch s = failed_batch t"
    "pending_ok e s = pending_ok e t" "state_int s = state_int t"
proof -
  show get: "jget_default s = jget_default t" and has: "has_key s = has_key t"
    using assms by (auto simp: jget_default_def has_key_def fun_eq_iff)
  show "pending_offspring s = pending_offspring t" "unbound_ok s = unbound_ok t" "binding_of s = binding_of t"
    "failed_batch s = failed_batch t" "pending_ok e s = pending_ok e t" "state_int s = state_int t"
    unfolding pending_offspring_def unbound_ok_def [abs_def] binding_of_def failed_batch_def [abs_def] pending_ok_def [abs_def]
      state_int_def [abs_def] get has by (rule refl)+
qed

lemma begin_batch_same: "same_archive a b \<Longrightarrow> begin_batch e (av_state a) active a = begin_batch e (av_state b) active b"
proof -
  assume same: "same_archive a b"
  note read = read_same [of "av_state a" "av_state b"]
  from same have m: "map_of (av_state a) = map_of (av_state b)" and r: "av_records a = av_records b" "av_outcomes a = av_outcomes b"
    by (auto simp: same_archive_def)
  have "validate_history e a (av_state a) = validate_history e b (av_state b)"
    unfolding validate_history_def r read [OF m] ..
  then show ?thesis
    unfolding begin_batch_def r read [OF m] snapshot_same [OF same] write_state_same [OF same] by simp
qed

lemma run_batch_same: "same_archive a b \<Longrightarrow> run_batch r active n a = run_batch r active n b"
  by (simp add: run_batch_def begin_batch_same)

lemma stop_run_same: "same_archive a b \<Longrightarrow> stop_run r status n active s err m a = stop_run r status n active s err m b"
  by (simp add: stop_run_def snapshot_same write_state_same)

lemma ending_same: "same_archive a b \<Longrightarrow> ending good err a = ending good err b"
  by (simp add: ending_def same_archive_def)

lemma evolve_same: "same_archive a b \<Longrightarrow> evolve r fuel active n s m err a = evolve r fuel active n s m err b"
  by (subst (1 2) evolve.simps) (simp only: stop_run_same ending_same run_batch_same)

section \<open>More fuel changes nothing\<close>

lemma evolve_fuel:
  "evolve r fuel active n s m err a = Some x \<Longrightarrow> evolve r (fuel + d) active n s m err a = Some x"
proof (induction fuel arbitrary: active n s m err a)
  case 0
  then show ?case by (subst evolve.simps) (subst (asm) evolve.simps, simp add: Let_def split: if_splits prod.splits)
next
  case (Suc fuel)
  from Suc.prems show ?case
    by (subst evolve.simps) (subst (asm) evolve.simps,
      auto simp: Let_def intro: Suc.IH split: if_splits prod.splits sum.splits option.splits)
qed

section \<open>Continuing from a checkpoint\<close>

lemma checkpoint_rewritten:
  assumes env: "env_ok e" and cp: "checkpoint e a active n migration stagnation err"
  shows "same_archive (write_state e ''running'' n (snapshot e a active stagnation err (best_id a) migration) a) a"
proof -
  let ?x = "snapshot e a active stagnation err (best_id a) migration"
  have "map_of (state_payload e a ''running'' n ?x) k = map_of (av_state a) k" for k
  proof -
    have lookup: "map_of (state_payload e a ''running'' n ?x) k =
        (case map_of (written e a ''running'' n ?x) k of
           Some v \<Rightarrow> Some v | None \<Rightarrow> if k \<in> set carried_fields then map_of (av_state a) k else None)"
      using env checkpoint_lookup(17) [OF cp] by (intro state_payload_lookup) (simp_all add: env_ok_def jget_default_def)
    show ?thesis
    proof (cases "k \<in> set carried_fields")
      case True
      then have "map_of (written e a ''running'' n ?x) k = None"
        unfolding carried_fields_def set_simps by (elim insertE emptyE; simp add: state_items)
      then show ?thesis using True by (simp add: lookup)
    next
      case False
      then have none: "map_of (bound_items e a n) k = None" by (simp add: carried_fields_def bound_items_def binding_items_def)
      have "map_of (written e a ''running'' n (?x @ bound_items e a n)) k = map_of (written e a ''running'' n ?x) k"
        by (simp add: written_def map_add_def none split: option.split)
      then show ?thesis using False unfolding lookup checkpointD(4) [OF cp] by (simp split: option.split)
    qed
  qed
  then show ?thesis by (auto simp: same_archive_def)
qed

text \<open>What is left of a run that has come to a checkpoint.\<close>

definition rest_of_run :: "main_env \<Rightarrow> string list list \<Rightarrow> nat \<Rightarrow> int \<Rightarrow> int \<Rightarrow> json \<Rightarrow> archive \<Rightarrow> run_result option" where
  "rest_of_run r active n stagnation migration err a =
     (let cfg = sv_config (rn_strategy r) in
      if 0 < n \<and> int (ec_stagnation_rounds cfg) \<le> stagnation
      then (case ending ''stagnated'' err a of (status, err') \<Rightarrow> Some (stop_run r status n active stagnation err' migration a))
      else evolve r (ec_max_rounds cfg) active n stagnation migration err a)"

lemma continue_from_checkpoint:
  assumes "env_ok (rn_strategy r)" and "checkpoint (rn_strategy r) a active n migration stagnation err"
  shows "continue_run r active n stagnation migration err a = rest_of_run r active n stagnation migration err a"
proof -
  note same = checkpoint_rewritten [OF assms]
  show ?thesis unfolding continue_run_def rest_of_run_def Let_def
    evolve_same [OF same] ending_same [OF same] stop_run_same [OF same] ..
qed

end
