(* ===== verification/SampleRun.thy ===== *)
theory SampleRun imports Resumption begin

text \<open>
  A small concrete run for the closed instances of the theorems: two islands, two rounds of two offspring,
  an evaluator that scores every candidate by its number.
\<close>

definition sample_config :: evolution_config where
  "sample_config = \<lparr>ec_strategy = ''population'', ec_max_rounds = 2, ec_stagnation_rounds = 3, ec_population_size = 2,
     ec_offspring = 2, ec_num_islands = 2, ec_migration_interval = 1, ec_migration_rate = JInt 0, ec_rng_seed = Some 7,
     ec_timeout = JInt 60, ec_command = [''run''], ec_generator_fp = None, ec_evaluator_fp = None, ec_runner_fp = None,
     ec_evaluator_kind = None, ec_dependency = None, ec_environment = None\<rparr>"

definition zero_digest :: string where
  "zero_digest = replicate 64 CHR ''0''"

definition sample_authority :: integrity_authority where
  "sample_authority = \<lparr>ia_contract = zero_digest, ia_kind = ''program'', ia_evaluator = zero_digest,
     ia_dependency = zero_digest, ia_environment = zero_digest, ia_runner = zero_digest, ia_generator = zero_digest\<rparr>"

definition sample_strategy :: strategy_env where
  "sample_strategy = \<lparr>sv_selection = \<lparr>se_config = sample_config, se_source = \<lambda>c. Some ''x = 1'', se_problem = ''knapsack''\<rparr>,
     sv_sha256 = \<lambda>_. zero_digest, sv_contract = zero_digest, sv_authority = authority_to_dict sample_authority, sv_seeded = False\<rparr>"

definition sample_report :: "nat \<Rightarrow> evaluation_report" where
  "sample_report n = \<lparr>er_schema_version = ''1'', er_evaluator_id = ''scorer'', er_validity = JInt 1, er_score = JInt (int n),
     er_detailed = JObj [], er_errors = [], er_quality = JNull\<rparr>"

definition sample_files :: "nat \<Rightarrow> published_files" where
  "sample_files n = \<lparr>pf_code_path = ''candidates/program.py'', pf_evaluation = sample_report n, pf_metadata = [],
     pf_created = JStr ''2025-01-01T00:00:00+00:00'', pf_source_sha256 = zero_digest, pf_receipt_sha256 = zero_digest,
     pf_integrity = JObj []\<rparr>"

definition sample_env :: main_env where
  "sample_env = \<lparr>rn_strategy = sample_strategy, rn_pick = hd,
     rn_reply = \<lambda>k q. if gq_iteration q = 1 \<and> k = 1 then Rejected ''evaluator_timeout'' else Published (sample_files (length (gq_archive q))) False,
     rn_cancelled = \<lambda>phase n. False, rn_sidecars = \<lambda>c. Inr (), rn_regular = \<lambda>c. True, rn_marker = False\<rparr>"

lemmas sample_defs = sample_env_def sample_strategy_def sample_config_def sample_files_def sample_report_def

lemma sample_authority_ok: "authority_from_dict (authority_to_dict sample_authority) = Inr sample_authority"
  by code_simp

lemma sample_undisturbed: "undisturbed (run_env.truncate sample_env)"
proof -
  have "is_hex64 zero_digest" by code_simp
  then show ?thesis using sample_authority_ok
    by (auto simp: undisturbed_def env_ok_def config_ok_def sample_defs run_env.defs)
qed

lemma sample_fields:
  "rn_strategy sample_env = sample_strategy" "sv_config sample_strategy = sample_config" "ec_population_size sample_config = 2"
  by (simp_all add: sample_env_def sample_strategy_def sample_config_def)

definition sample_start :: init_state where
  "sample_start = \<lparr>in_active = empty_active sample_config, in_error = None, in_failure = None,
     in_archive = \<lparr>av_records = [], av_outcomes = [], av_state = []\<rparr>\<rparr>"

definition sample_founded :: init_state where
  "sample_founded = snd (init_all sample_env [0..<2] sample_start)"

definition sample_active :: "string list list" where
  "sample_active = trim (sv_selection sample_strategy) (av_records (in_archive sample_founded)) (in_active sample_founded)"

lemma sample_init: "init_all sample_env [0..<2] sample_start = (False, sample_founded)"
proof -
  have "\<not> fst (init_all sample_env [0..<2] sample_start)" by code_simp
  then show ?thesis unfolding sample_founded_def by (metis prod.collapse)
qed

lemma sample_nonempty: "av_records (in_archive sample_founded) \<noteq> []" "concat sample_active \<noteq> []"
  by code_simp+

end
