(* ===== verification/Interruption.thy ===== *)
theory Interruption imports SampleRun begin

text \<open>
  Runs from the empty archive.  The initial population is a checkpoint, an undisturbed run ends with a
  result, and a run that is interrupted between two batches and started again on the archive it left
  ends exactly as the uninterrupted run does.
\<close>

section \<open>The initial population\<close>

definition no_archive :: archive where
  "no_archive = \<lparr>av_records = [], av_outcomes = [], av_state = []\<rparr>"

text \<open>Every initial candidate that is published is valid.\<close>

definition initially_valid :: "main_env \<Rightarrow> bool" where
  "initially_valid r \<longleftrightarrow> (\<forall>k q f. gq_iteration q = 0 \<and> rn_reply r k q = Published f False \<longrightarrow>
     num_val (er_validity (pf_evaluation f)) = 1)"

definition founder :: "nat \<Rightarrow> candidate \<Rightarrow> bool" where
  "founder islands c \<longleftrightarrow> ordinary_ok islands c \<and> ca_iteration c = 0 \<and> ca_parent c = None \<and> ca_generation c = 0 \<and> valid c"

text \<open>The state of the initialisation after \<open>k\<close> attempts.\<close>

definition founding :: "evolution_config \<Rightarrow> nat \<Rightarrow> init_state \<Rightarrow> bool" where
  "founding cfg k s \<longleftrightarrow>
     (let cs = av_records (in_archive s) in
      av_outcomes (in_archive s) = [] \<and> av_state (in_archive s) = [] \<and> list_all (founder (ec_num_islands cfg)) cs
      \<and> numbered cs \<and> distinct (map ca_id cs) \<and> length cs \<le> k \<and> in_active s = put_all cs (empty_active cfg)
      \<and> (\<forall>x. in_error s = Some x \<longrightarrow> x \<in> set outcome_codes)
      \<and> (in_failure s = None \<longrightarrow> in_error s \<in> {None, Some ''candidate_failed''}))"

lemma founding_start: "founding cfg 0 \<lparr>in_active = empty_active cfg, in_error = None, in_failure = None, in_archive = no_archive\<rparr>"
  by (simp add: founding_def no_archive_def numbered_def put_all_def)

lemma founding_error:
  assumes "founding cfg k s" and "code \<in> set outcome_codes"
  shows "founding cfg (Suc k) (evaluator_failed code s)" and "founding cfg (Suc k) (generator_failed s)"
  using assms by (auto simp: founding_def evaluator_failed_def generator_failed_def first_of_def outcome_codes_def Let_def
      split: option.splits)

lemma founding_step:
  assumes r: "undisturbed (run_env.truncate r)" and valid: "initially_valid r" and s: "founding (sv_config (rn_strategy r)) k s"
    and k: "k < ec_population_size (sv_config (rn_strategy r))"
  shows "founding (sv_config (rn_strategy r)) (Suc k) (init_candidate r k s)"
proof -
  let ?cfg = "sv_config (rn_strategy r)" and ?a = "in_archive s"
  let ?island = "k mod ec_num_islands ?cfg"
  let ?q = "request_of (run_env.truncate r) 0 None [] ?a"
  have same: "rn_strategy (run_env.truncate r) = rn_strategy r" "rn_reply (run_env.truncate r) = rn_reply r"
    by (simp_all add: run_env.defs)
  have cfg: "config_ok ?cfg" and not_late: "rn_reply r j q \<noteq> Published f True" for j q f
    using r by (auto simp: undisturbed_def env_ok_def same)
  then have island: "?island < ec_num_islands ?cfg" by (simp add: config_ok_def)
  show ?thesis
  proof (cases "\<exists>f. rn_reply r k ?q = Published f False \<and> ordinary_metadata f")
    case False
    have "(if code \<in> set outcome_codes - {''evaluated''} then code else ''run_failed'') \<in> set outcome_codes" for code
      by (simp add: outcome_codes_def)
    moreover have "''candidate_failed'' \<in> set outcome_codes" by (simp add: outcome_codes_def)
    ultimately show ?thesis using False not_late
      by (cases "rn_reply r k ?q") (fastforce simp: init_candidate_def same Let_def intro: founding_error [OF s])+
  next
    case True
    then obtain f where f: "rn_reply r k ?q = Published f False" "ordinary_metadata f" by blast
    let ?c = "new_candidate f 0 0 None ?island ?a" and ?cs = "av_records ?a"
    have fit: "numbered ?cs" "length ?cs \<le> k" "distinct (map ca_id ?cs)" using s by (simp_all add: founding_def Let_def)
    have "gq_iteration ?q = 0" by (simp add: request_of_def)
    with valid f(1) have "num_val (er_validity (pf_evaluation f)) = 1" unfolding initially_valid_def by blast
    then have "valid ?c" by (simp add: valid_def validity_def new_candidate_def)
    moreover have "is_safe_id (next_id ?a)"
      unfolding next_id_number using next_number_bound [OF fit(1)] fit(2) k cfg
      by (intro next_id_safe) (simp add: config_ok_def)
    ultimately have "founder (ec_num_islands ?cfg) ?c"
      using f(2) island by (simp add: founder_def ordinary_ok_def new_candidate_def is_population_def
          is_seed_candidate_def ordinary_metadata_def settled_def)
    moreover have "numbered (?cs @ [?c])"
    proof -
      have "candidate_number (ca_id ?c) = Some (next_number ?cs)"
        unfolding new_candidate_def candidate.simps next_id_number by (rule candidate_number_next)
      moreover have "next_number ?cs \<le> length (?cs @ [?c])" using next_number_bound [OF fit(1)] by simp
      ultimately show ?thesis using fit(1) by (fastforce simp: numbered_def)
    qed
    moreover have "distinct (map ca_id (?cs @ [?c]))"
      using fit(3) next_id_fresh [of ?a] by (simp add: new_candidate_def)
    moreover have "put_all (?cs @ [?c]) (empty_active ?cfg) = (in_active s)[?island := in_active s ! ?island @ [ca_id ?c]]"
      using s by (simp add: founding_def Let_def put_all_def put_candidate_def new_candidate_def)
    moreover have "init_candidate r k s = s\<lparr>in_archive := publish f 0 0 None ?island ?a,
        in_active := (in_active s)[?island := in_active s ! ?island @ [ca_id ?c]]\<rparr>"
      using f \<open>valid ?c\<close> by (simp add: init_candidate_def same Let_def)
    ultimately show ?thesis using s fit
      by (simp add: founding_def Let_def publish_def)
  qed
qed

lemma founding_all:
  assumes r: "undisturbed (run_env.truncate r)" "initially_valid r"
    and s: "founding (sv_config (rn_strategy r)) k s" and k: "k \<le> ec_population_size (sv_config (rn_strategy r))"
  shows "founding (sv_config (rn_strategy r)) (ec_population_size (sv_config (rn_strategy r)))
    (snd (init_all r [k..<ec_population_size (sv_config (rn_strategy r))] s))"
  using s k
proof (induction "ec_population_size (sv_config (rn_strategy r)) - k" arbitrary: k s)
  case (Suc d)
  then have k: "k < ec_population_size (sv_config (rn_strategy r))" by simp
  then have "[k..<ec_population_size (sv_config (rn_strategy r))] = k # [Suc k..<ec_population_size (sv_config (rn_strategy r))]"
    by (rule upt_conv_Cons)
  moreover have "founding (sv_config (rn_strategy r)) (ec_population_size (sv_config (rn_strategy r))) s"
    using Suc.prems by (auto simp: founding_def Let_def)
  moreover have "founding (sv_config (rn_strategy r)) (Suc k) (init_candidate r k s)" using Suc.prems k by (intro founding_step [OF r])
  moreover have "d = ec_population_size (sv_config (rn_strategy r)) - Suc k" using Suc.hyps(2) by simp
  ultimately show ?case using k Suc.hyps(1) [of "Suc k" "init_candidate r k s"] by simp
qed simp

lemma lineage_founders: "list_all (founder k) cs \<Longrightarrow> lineage_from all_records earlier cs"
  by (induction cs arbitrary: earlier) (auto simp: descends_def founder_def)

lemma founders_fine:
  assumes "config_ok cfg" and s: "founding cfg (ec_population_size cfg) s"
  shows "archive_fine cfg (in_archive s) 0 0" and "batch_at (av_records (in_archive s)) 0 = av_records (in_archive s)"
proof -
  let ?cs = "av_records (in_archive s)"
  have none: "av_outcomes (in_archive s) = []" and founders: "list_all (founder (ec_num_islands cfg)) ?cs"
    and rest: "numbered ?cs" "distinct (map ca_id ?cs)" "length ?cs \<le> ec_population_size cfg"
    using s by (simp_all add: founding_def Let_def)
  show batch: "batch_at ?cs 0 = ?cs" using founders by (auto simp: batch_at_def founder_def list_all_iff intro: filter_True)
  have "later ?cs = []" using founders by (auto simp: later_def filter_empty_conv founder_def list_all_iff)
  then have "journal_ok cfg (in_archive s) 0 0"
    using founders rest(2) none by (auto simp: journal_ok_def records_ok_def schedule_def evaluated_def founder_def list_all_iff)
  moreover have "\<forall>c\<in>set ?cs. valid c" using founders by (auto simp: founder_def list_all_iff)
  ultimately show "archive_fine cfg (in_archive s) 0 0"
    using lineage_founders [OF founders] rest batch by (simp add: archive_fine_def)
qed

lemma founders_checkpoint:
  assumes env: "env_ok e" and s: "founding (sv_config e) (ec_population_size (sv_config e)) s"
    and active: "active = trim (sv_selection e) (av_records (in_archive s)) (in_active s)"
    and alive: "concat active \<noteq> [] \<or> in_failure s = None"
  shows "checkpoint e (write_state e ''running'' 0 (snapshot e (in_archive s) active 0 (opt_error JNull (in_error s)) (best_id (in_archive s)) 0)
      (in_archive s)) active 0 0 0 (opt_error JNull (in_error s))" (is "checkpoint e ?a active 0 0 0 ?err")
proof -
  note fine = founders_fine [OF _ s]
  have cfg: "config_ok (sv_config e)" using env by (simp add: env_ok_def)
  have empty: "av_state (in_archive s) = []"
    using s by (simp add: founding_def Let_def)
  have "archive_fine (sv_config e) ?a 0 0" using fine(1) [OF cfg] by (simp add: archive_fine_def journal_ok_def)
  moreover have "population_at (sv_selection e) (av_records ?a) 0 = (active, 0, 0)"
    using s fine(2) [OF cfg] by (simp add: active founding_def Let_def)
  moreover have "harmless_error ?err 0 active"
    using s alive by (cases "in_error s") (auto simp: harmless_error_def opt_error_def founding_def outcome_codes_def Let_def)
  moreover have "map_of (av_state ?a) = map_of (written e (in_archive s) ''running'' 0
      (snapshot e (in_archive s) active 0 ?err (best_id (in_archive s)) 0))"
    using env by (simp add: empty map_of_payload env_ok_def)
  ultimately show ?thesis
    by (simp add: checkpoint_def bound_items_def written_def snapshot_def best_id_def archive_digest_def)
qed

section \<open>Starting from nothing\<close>

lemma empty_run:
  assumes marker: "\<not> rn_marker r"
  shows "run_population r no_archive = initialise_run r (empty_active (sv_config (rn_strategy r))) 0 0 0 JNull no_archive"
proof -
  let ?e = "rn_strategy r"
  have history: "validate_history ?e no_archive [] = Inr ()"
    by (simp add: validate_history_def no_archive_def pending_offspring_def has_key_def jget_default_def guardE_def unbound_ok_def)
  have "check_evidence (rn_sidecars r) ?e [] no_archive = Inr ()"
    using history by (simp add: check_evidence_def check_integrity_state_def no_archive_def has_key_def guardE_def)
  moreover have "resume_batch ?e [] active no_archive = Inr (no_archive, active)" for active
    by (simp add: resume_batch_def history pending_offspring_def jget_default_def)
  moreover have "terminal r no_archive = None"
    by (simp add: terminal_def no_archive_def jget_default_def terminal_statuses_def)
  ultimately show ?thesis using marker
    by (simp add: run_population_def proceed_def no_archive_def load_state_def seed_gate_def active_of_state_def guardE_def has_key_def
        state_int_def jget_default_def empty_active_def Let_def)
qed

lemma initialise_started:
  assumes "init_all r [0..<ec_population_size (sv_config (rn_strategy r))]
      \<lparr>in_active = active0, in_error = None, in_failure = None, in_archive = a\<rparr> = (False, s)"
    and active: "active = trim (sv_selection (rn_strategy r)) (av_records (in_archive s)) (in_active s)"
    and "concat active \<noteq> [] \<or> in_failure s = None"
  shows "initialise_run r active0 n stagnation migration err a =
    continue_run r active n stagnation migration (opt_error err (in_error s)) (in_archive s)"
proof (cases "concat active = []")
  case True
  with assms(3) have "in_failure s = None" by simp
  with True show ?thesis unfolding initialise_run_def Let_def assms(1) prod.case active by simp
next
  case False
  then show ?thesis unfolding initialise_run_def Let_def assms(1) prod.case active
    by (simp del: concat_eq_Nil_conv split: option.split)
qed

lemma continue_initial:
  "continue_run r active 0 stagnation migration err a =
     rest_of_run r active 0 stagnation migration err
       (write_state (rn_strategy r) ''running'' 0 (snapshot (rn_strategy r) a active stagnation err (best_id a) migration) a)"
  by (simp add: continue_run_def rest_of_run_def Let_def)

text \<open>How the initialisation ends: cancelled, failed, or in the first checkpoint.\<close>

lemma initial_cases:
  assumes r: "undisturbed (run_env.truncate r)" "initially_valid r" and marker: "\<not> rn_marker r"
  shows "(\<exists>x a. run_population r no_archive = Some (Inr (x, a)) \<and> concluded (sv_config (rn_strategy r)) x a)
    \<or> (\<exists>a active err. checkpoint (rn_strategy r) a active 0 0 0 err
         \<and> run_population r no_archive = rest_of_run r active 0 0 0 err a)"
proof -
  let ?e = "rn_strategy r" and ?cfg = "sv_config (rn_strategy r)"
  let ?s0 = "\<lparr>in_active = empty_active ?cfg, in_error = None, in_failure = None, in_archive = no_archive\<rparr>"
  have env: "env_ok ?e" using r(1) by (simp add: undisturbed_def run_env.defs)
  then have cfg: "config_ok ?cfg" by (simp add: env_ok_def)
  obtain cancelled s where all: "init_all r [0..<ec_population_size ?cfg] ?s0 = (cancelled, s)" by fastforce
  have s: "founding ?cfg (ec_population_size ?cfg) s"
    using founding_all [OF r founding_start] all by simp
  let ?active = "trim (sv_selection ?e) (av_records (in_archive s)) (in_active s)"
  have run: "run_population r no_archive = initialise_run r (empty_active ?cfg) 0 0 0 JNull no_archive"
    using marker by (rule empty_run)
  have fine: "archive_fine ?cfg (in_archive s) 0 0" using founders_fine [OF cfg s] by blast
  consider (stopped) cancelled | (failed) code where "\<not> cancelled" "concat ?active = []" "in_failure s = Some code"
    | (alive) "\<not> cancelled" "concat ?active \<noteq> [] \<or> in_failure s = None" by (cases "in_failure s") auto
  then show ?thesis
  proof cases
    case stopped
    then show ?thesis
      using stop_concludes [OF fine, of "''cancelled''"] by (simp add: run initialise_run_def all terminal_statuses_def Let_def)
  next
    case failed
    let ?a = "write_state ?e ''failed'' 0 (snapshot ?e (in_archive s) ?active 0 (JStr code) None 0) (in_archive s)"
    have "initialise_run r (empty_active ?cfg) 0 0 0 JNull no_archive =
        Some (bindE (result_of (rn_regular r) ''failed'' 0 (JStr code) ?a) (\<lambda>x. Inr (x, ?a)))"
      using failed by (simp add: initialise_run_def all Let_def del: concat_eq_Nil_conv)
    moreover have "JStr ''failed'' \<in> terminal_statuses" by (simp add: terminal_statuses_def)
    from write_concludes [OF fine this] obtain x where "result_of (rn_regular r) ''failed'' 0 (JStr code) ?a = Inr x"
      "concluded ?cfg x ?a" by blast
    ultimately show ?thesis unfolding run by simp
  next
    case alive
    let ?err = "opt_error JNull (in_error s)"
    have "run_population r no_archive = continue_run r ?active 0 0 0 ?err (in_archive s)"
      using alive all unfolding run by (intro initialise_started) simp_all
    moreover note founders_checkpoint [OF env s refl alive(2)]
    ultimately show ?thesis unfolding continue_initial by metis
  qed
qed

lemma rest_concludes:
  assumes "undisturbed (run_env.truncate r)" and cp: "checkpoint (rn_strategy r) a active n m s err"
  shows "\<exists>x a'. rest_of_run r active n s m err a = Some (Inr (x, a')) \<and> concluded (sv_config (rn_strategy r)) x a'"
  unfolding rest_of_run_def Let_def
  using evolve_concludes [OF assms] stop_ending [OF checkpointD(1) [OF cp], of "''stagnated''"]
  by (simp add: terminal_statuses_def)


lemma sample_initially_valid: "initially_valid sample_env"
  by (simp add: initially_valid_def sample_defs)


section \<open>Interrupting a run between two batches\<close>

text \<open>The states of the main loop: archive, population, iteration, last migration, stagnation, error.\<close>

type_synonym loop_state = "archive \<times> string list list \<times> nat \<times> int \<times> int \<times> json"

text \<open>One round: neither the round limit nor the stagnation limit is reached, the run is not cancelled,
  and the batch does not end it.\<close>

inductive loop_round :: "main_env \<Rightarrow> loop_state \<Rightarrow> loop_state \<Rightarrow> bool" for r where
  loop_round: "n < ec_max_rounds (sv_config (rn_strategy r)) \<Longrightarrow> \<not> rn_cancelled r 1 n \<Longrightarrow>
     n = 0 \<or> s < int (ec_stagnation_rounds (sv_config (rn_strategy r))) \<Longrightarrow>
     run_batch r active n a = Inr (a', active') \<Longrightarrow> terminal r a' = None \<Longrightarrow>
     state_int (av_state a') ''iteration'' = Inr i \<Longrightarrow> state_int (av_state a') ''stagnation'' = Inr s' \<Longrightarrow>
     state_int (av_state a') ''last_migration_iteration'' = Inr m' \<Longrightarrow>
     loop_round r (a, active, n, m, s, err) (a', active', nat i, m', s', getn (av_state a') ''error'')"

inductive_cases loop_roundE: "loop_round r (a, active, n, m, s, err) st"

text \<open>The states a run from the empty archive comes to between two batches.\<close>

inductive boundary :: "main_env \<Rightarrow> loop_state \<Rightarrow> bool" for r where
  started: "init_all r [0..<ec_population_size (sv_config (rn_strategy r))]
      \<lparr>in_active = empty_active (sv_config (rn_strategy r)), in_error = None, in_failure = None, in_archive = no_archive\<rparr>
        = (False, s) \<Longrightarrow>
     active = trim (sv_selection (rn_strategy r)) (av_records (in_archive s)) (in_active s) \<Longrightarrow>
     concat active \<noteq> [] \<or> in_failure s = None \<Longrightarrow> err = opt_error JNull (in_error s) \<Longrightarrow>
     a = write_state (rn_strategy r) ''running'' 0 (snapshot (rn_strategy r) (in_archive s) active 0 err (best_id (in_archive s)) 0)
           (in_archive s) \<Longrightarrow>
     boundary r (a, active, 0, 0, 0, err)"
| continued: "boundary r st \<Longrightarrow> loop_round r st st' \<Longrightarrow> boundary r st'"

lemma round_rest:
  assumes r: "undisturbed (run_env.truncate r)" and cp: "checkpoint (rn_strategy r) a active n m s err"
    and step: "loop_round r (a, active, n, m, s, err) (a', active', n', m', s', err')"
  shows "checkpoint (rn_strategy r) a' active' n' m' s' err'"
    and "rest_of_run r active' n' s' m' err' a' = rest_of_run r active n s m err a"
proof -
  let ?cfg = "sv_config (rn_strategy r)"
  from step obtain i where n: "n < ec_max_rounds ?cfg" "\<not> rn_cancelled r 1 n" "n = 0 \<or> s < int (ec_stagnation_rounds ?cfg)"
    and batch: "run_batch r active n a = Inr (a', active')" "terminal r a' = None"
    and ints: "state_int (av_state a') ''iteration'' = Inr i" "state_int (av_state a') ''stagnation'' = Inr s'"
      "state_int (av_state a') ''last_migration_iteration'' = Inr m'" "n' = nat i" "err' = getn (av_state a') ''error''"
    by (auto elim: loop_roundE)
  have "\<not> failed_state (rn_strategy r) a' n"
    using batch(2) by (auto simp: terminal_def failed_state_def terminal_statuses_def Let_def)
  with run_batch_total [OF r cp n(1)] batch(1)
  obtain m'' s'' err'' where cp': "checkpoint (rn_strategy r) a' active' (Suc n) m'' s'' err''" by auto
  from checkpoint_ints [OF cp'] checkpoint_get(9) [OF cp'] ints have same: "n' = Suc n" "m'' = m'" "s'' = s'" "err'' = err'" by auto
  with cp' show now: "checkpoint (rn_strategy r) a' active' n' m' s' err'" by simp
  obtain f where f: "ec_max_rounds ?cfg = Suc f" using n(1) by (cases "ec_max_rounds ?cfg") auto
  have "evolve r f active' n' s' m' err' a' \<noteq> None"
    using ints(1) f n(1) same(1) ints(4) by (intro evolve_returns) auto
  then have "evolve r f active' n' s' m' err' a' = evolve r (Suc f) active' n' s' m' err' a'"
    using evolve_fuel [where fuel = f and d = 1] by force
  moreover have "rest_of_run r active n s m err a = evolve r (Suc f) active n s m err a"
    using n(3) f by (auto simp: rest_of_run_def)
  moreover have "evolve r (Suc f) active n s m err a =
      (if int (ec_stagnation_rounds ?cfg) \<le> s'
       then (case ending ''stagnated'' err' a' of (status, err'') \<Rightarrow> Some (stop_run r status n' active' s' err'' m' a'))
       else evolve r f active' n' s' m' err' a')"
    using n batch ints by (subst evolve.simps) (simp add: Let_def)
  ultimately show "rest_of_run r active' n' s' m' err' a' = rest_of_run r active n s m err a"
    using f same(1) by (simp add: rest_of_run_def)
qed

lemma boundary_rest:
  assumes "boundary r (a, active, n, m, s, err)" and r: "undisturbed (run_env.truncate r)" "initially_valid r" and "\<not> rn_marker r"
  shows "checkpoint (rn_strategy r) a active n m s err \<and> run_population r no_archive = rest_of_run r active n s m err a"
  using assms(1)
proof (induction "(a, active, n, m, s, err)" arbitrary: a active n m s err rule: boundary.induct)
  case (started s active err a)
  have env: "env_ok (rn_strategy r)" using r(1) by (simp add: undisturbed_def run_env.defs)
  have founders: "founding (sv_config (rn_strategy r)) (ec_population_size (sv_config (rn_strategy r))) s"
    using founding_all [OF r founding_start] started(1) by simp
  have "run_population r no_archive = continue_run r active 0 0 0 err (in_archive s)"
    unfolding empty_run [OF assms(4)] started(4) by (rule initialise_started [OF started(1-3)])
  then have "run_population r no_archive = rest_of_run r active 0 0 0 err a"
    unfolding continue_initial started(5) .
  with founders_checkpoint [OF env founders started(2,3)] started show ?case by simp
next
  case (continued st a' active' n' m' s' err')
  obtain a active n m s err where st: "st = (a, active, n, m, s, err)" by (cases st) auto
  from continued(2) [OF st] have cp: "checkpoint (rn_strategy r) a active n m s err"
    and run: "run_population r no_archive = rest_of_run r active n s m err a" by auto
  from round_rest [OF r(1) cp continued(3) [unfolded st]] run show ?case by simp
qed


definition sample_error :: json where
  "sample_error = opt_error JNull (in_error sample_founded)"

definition sample_boundary :: archive where
  "sample_boundary = write_state sample_strategy ''running'' 0
     (snapshot sample_strategy (in_archive sample_founded) sample_active 0 sample_error (best_id (in_archive sample_founded)) 0)
     (in_archive sample_founded)"

lemma sample_at_boundary: "boundary sample_env (sample_boundary, sample_active, 0, 0, 0, sample_error)"
  using sample_init sample_nonempty(2)
  by (intro boundary.started)
    (simp_all add: sample_fields sample_start_def sample_active_def sample_boundary_def sample_error_def no_archive_def
      del: concat_eq_Nil_conv)

lemma sample_files_ok: "\<not> rn_marker sample_env" "rn_sidecars sample_env c = Inr ()"
  by (simp_all add: sample_env_def)

lemma sample_boundary_records: "av_records sample_boundary \<noteq> []"
  using sample_nonempty(1) by (simp add: sample_boundary_def)


end
