(* ===== verification/MidBatch.thy ===== *)
theory MidBatch imports Interruption begin

text \<open>
  Interruptions inside a batch.  An archive that was left after some but not all of the attempts of a
  batch passes every check of a stored state, and the run then refuses to go on; after the last attempt
  the run finishes the batch and ends as if it had not been interrupted.
\<close>

section \<open>An archive left inside a batch\<close>

definition inside :: "strategy_env \<Rightarrow> archive \<Rightarrow> archive \<Rightarrow> string list list \<Rightarrow> nat \<Rightarrow> nat \<Rightarrow> int \<Rightarrow> int \<Rightarrow> json \<Rightarrow> bool" where
  "inside e a b active n k migration stagnation err \<longleftrightarrow>
     checkpoint e a active n migration stagnation err \<and> begun e a active n migration stagnation (av_state b)
     \<and> grown a b n \<and> archive_fine (sv_config e) b n k"

lemma begun_other:
  assumes "begun e a active n migration stagnation s"
  shows "map_of s ''schema_version'' = Some (JStr ''1'')"
    and "map_of s ''strategy'' = Some (JStr ''population'')"
    and "map_of s ''contract_sha256'' = Some (JStr (sv_contract e))"
    and "map_of s ''config'' = Some (config_to_dict (sv_sha256 e) (sv_config e))"
    and "map_of s ''active_ids'' = Some (active_json active)"
    and "map_of s ''error'' = Some JNull"
    and "map_of s ''best_candidate_id'' = Some (opt_json (best_id a))"
    and "map_of s ''rng_seed'' = Some (opt_int_json (ec_rng_seed (sv_config e)))"
    and "map_of s ''candidate_integrity_authority'' = Some (sv_authority e)"
    and "map_of s ''candidate_archive_sha256'' = Some (JStr (archive_digest e a))"
  using assms unfolding begun_def by (simp_all add: begun_items_def state_items)

lemmas begun_items_of = begun_lookup begun_other

lemma insideD:
  assumes "inside e a b active n k migration stagnation err"
  shows "checkpoint e a active n migration stagnation err" and "begun e a active n migration stagnation (av_state b)"
    and "grown a b n" and "archive_fine (sv_config e) b n k" and "journal_ok (sv_config e) b n k"
    and "records_ok (sv_config e) (av_records b)" and "records_ok (sv_config e) (av_records a)"
  using assms by (auto simp: inside_def checkpoint_def archive_fine_def journal_ok_def)

lemma checkpoint_journal:
  "checkpoint e a active n migration stagnation err \<Longrightarrow> journal_ok (sv_config e) a n 0"
  by (simp add: checkpoint_def archive_fine_def)

lemma inside_grown:
  assumes "inside e a b active n k migration stagnation err"
  obtains cs us where "av_records b = av_records a @ cs" "\<forall>c\<in>set cs. ca_iteration c = n + 1"
    "av_outcomes b = av_outcomes a @ us" "\<forall>u\<in>set us. oo_iteration u = n + 1"
  using insideD(3) [OF assms] by (auto simp: grown_def)

lemma inside_get:
  assumes "inside e a b active n k migration stagnation err" and "map_of (av_state b) x = Some v"
  shows "jget_default (av_state b) x d = v"
  using assms(2) by (simp add: jget_default_def)

lemma inside_load:
  assumes "inside e a b active n k migration stagnation err"
  shows "load_state e b = Inr (av_state b)" and "seed_gate False (av_state b) b = Inr ()"
    and "(\<exists>c\<in>set (av_records b). ca_bundle c \<noteq> None) = False"
proof -
  note items = begun_items_of [OF insideD(2) [OF assms]]
  have "av_state b \<noteq> []" using items(1) by auto
  then show "load_state e b = Inr (av_state b)"
    by (simp add: load_state_def Let_def jget_default_def items bind_guardE config_to_dict_def)
  show "seed_gate False (av_state b) b = Inr ()"
    using population_strategy [OF insideD(5) [OF assms]] \<open>av_state b \<noteq> []\<close>
    by (auto simp: seed_gate_def Let_def bind_guardE guardE_def has_key_def items)
  show "(\<exists>c\<in>set (av_records b). ca_bundle c \<noteq> None) = False"
    using insideD(6) [OF assms] by (auto simp: records_ok_def list_all_iff ordinary_ok_def)
qed

lemma inside_history:
  assumes "env_ok e" and "inside e a b active n k migration stagnation err"
  shows "validate_history e b (av_state b) = Inr ()"
  using begun_history [OF assms(1)] insideD [OF assms(2)] by blast

section \<open>The integrity check\<close>

lemma inside_pending_prefix:
  assumes env: "env_ok e" and "inside e a b active n k migration stagnation err"
  shows "pending_prefix (av_state b) b \<longleftrightarrow> k < ec_offspring (sv_config e)"
proof -
  have "map oo_attempt (batch_of (n + 1) (av_outcomes b)) = [0..<k]"
    using journal_attempts [OF insideD(5) [OF assms(2)], of "n + 1"] by simp
  then have "length (batch_of (n + 1) (av_outcomes b)) = k" by (metis length_map length_upt diff_zero)
  moreover have "filter (\<lambda>u. int (oo_iteration u) = int (n + 1)) (av_outcomes b) = batch_of (n + 1) (av_outcomes b)"
    by (simp only: batch_of_def of_nat_eq_iff)
  ultimately show ?thesis
    unfolding pending_prefix_def begun_get [OF insideD(2) [OF assms(2)]] pending_item_def by (simp add: jget_default_def)
qed

text \<open>A complete batch accounts for the candidates that the digest in the state does not cover.\<close>

lemma full_extension:
  assumes env: "env_ok e" and full: "inside e a b active n (ec_offspring (sv_config e)) migration stagnation err"
  shows "extension_matches e (av_state b) b"
proof -
  note items = begun_items_of [OF insideD(2) [OF full]]
  let ?us = "batch_of (n + 1) (av_outcomes b)" and ?K = "ec_offspring (sv_config e)"
  note ok = insideD(5) [OF full]
  have completed: "completed e a b active n migration stagnation err" using full by (simp add: completed_def inside_def)
  have attempts: "map oo_attempt ?us = [0..<?K]" using journal_attempts [OF ok, of "n + 1"] by simp
  then have len: "length ?us = ?K" by (metis length_map length_upt diff_zero)
  have us: "sort_key oo_attempt (filter (\<lambda>u. int (oo_iteration u) = int (n + 1)) (av_outcomes b)) = ?us"
    using journal_sorted [OF ok, of "n + 1"] by (simp only: batch_of_def of_nat_eq_iff)
  let ?new = "batch_at (av_records b) (n + 1)"
  have ids: "map oo_candidate (evaluated ?us) = map (\<lambda>c. Some (ca_id c)) ?new"
    using entry_ids [OF completed_batch(2) [OF completed]] by simp
  have split: "av_records b = av_records a @ ?new" by (rule completed_batch(1) [OF completed])
  have new: "Some (ca_id c) \<in> set (map (\<lambda>c. Some (ca_id c)) ?new) \<longleftrightarrow> c \<in> set ?new" if "c \<in> set (av_records b)" for c
  proof
    assume "Some (ca_id c) \<in> set (map (\<lambda>c. Some (ca_id c)) ?new)"
    then obtain d where d: "d \<in> set ?new" "ca_id d = ca_id c" by auto
    then have "d \<in> set (av_records b)" by (simp add: batch_at_def)
    with d that insideD(6) [OF full] show "c \<in> set ?new" unfolding records_ok_def by (metis distinct_key_unique)
  qed auto
  have apart: "\<And>c. c \<in> set (av_records a) \<Longrightarrow> c \<notin> set ?new"
    using completed_batch(3) [OF completed] by (auto simp: batch_at_def)
  have "filter (\<lambda>c. Some (ca_id c) \<notin> set (map (\<lambda>c. Some (ca_id c)) ?new)) (av_records b) =
      filter (\<lambda>c. c \<notin> set ?new) (av_records b)" using new by (intro filter_cong) blast+
  also have "\<dots> = filter (\<lambda>c. c \<notin> set ?new) (av_records a) @ filter (\<lambda>c. c \<notin> set ?new) ?new"
    by (subst split) (simp only: filter_append)
  also have "\<dots> = av_records a" using apart by (simp add: filter_id_conv)
  finally have baseline: "filter (\<lambda>c. Some (ca_id c) \<notin> set (map (\<lambda>c. Some (ca_id c)) ?new)) (av_records b) = av_records a" .
  have plain: "filter (\<lambda>c. \<not> is_seed_candidate c) (av_records b) = av_records b"
    "filter (\<lambda>c. \<not> is_seed_candidate c) (av_records a) = av_records a"
    using population_strategy [OF ok] population_strategy [OF checkpoint_journal [OF insideD(1) [OF full]]]
    by (auto intro!: filter_True)
  let ?p = "[(''schema_version'', JStr ''1''), (''iteration'', JInt (int (n + 1))), (''attempt_count'', JInt (int ?K))]"
  have pending: "getn (av_state b) ''pending_offspring'' = JObj ?p"
    unfolding begun_get [OF insideD(2) [OF full]] pending_item_def ..
  have parts: "getn ?p ''attempt_count'' = JInt (int ?K)"
    "getn ?p ''iteration'' = JInt (int (n + 1))"
    by (simp_all add: jget_default_def)
  have digest: "getn (av_state b) ''candidate_archive_sha256'' = JStr (archive_digest e a)"
    by (simp add: jget_default_def items)
  have none: "None \<notin> set (map (\<lambda>c. Some (ca_id c)) ?new)" by auto
  have grows: "map (\<lambda>c. Some (ca_id c)) (av_records b) = map (\<lambda>c. Some (ca_id c)) (av_records a) @ map (\<lambda>c. Some (ca_id c)) ?new"
    by (subst split) (rule map_append)
  show ?thesis
    unfolding extension_matches_def pending json.case parts prod.case Let_def us ids attempts len baseline digest
      digest_records_def archive_digest_def plain
    using none grows by (simp only: nat_int simp_thms)
qed

lemma full_delayed:
  assumes full: "inside e a b active n (ec_offspring (sv_config e)) migration stagnation err" and env: "env_ok e"
    and c: "c \<in> set (av_records b)" "0 < ca_iteration c"
    and fields: "ca_parent c = None" "ca_generation c = 0" "\<not> (\<exists>d\<in>set (av_records b). ca_iteration d < ca_iteration c \<and> valid d)"
  shows "ca_id c \<in> set (delayed_roots (av_state b) b)"
proof -
  note ok = insideD(5) [OF full] and s = insideD(2) [OF full]
  from journal_outcome [OF ok c] obtain u where u: "u \<in> set (evaluated (av_outcomes b))" "oo_iteration u = ca_iteration c" "oo_candidate u = Some (ca_id c)" by blast
  have "map oo_attempt (batch_of (n + 1) (av_outcomes b)) = [0..<ec_offspring (sv_config e)]"
    using journal_attempts [OF ok, of "n + 1"] by simp
  then have "length (batch_of (n + 1) (av_outcomes b)) = ec_offspring (sv_config e)" by (metis length_map length_upt diff_zero)
  then have "complete_batch 1 (int n) (Some (n + 1, ec_offspring (sv_config e))) (av_outcomes b) (oo_iteration u)"
    using journal_iterations [OF ok c(1)] c(2) u(2) by (auto simp: complete_batch_def)
  moreover have "is_population c" using population_strategy [OF ok c(1)] by (simp add: is_population_def)
  ultimately show ?thesis
    using u c fields unfolding delayed_roots_def Let_def
    by (auto simp: begun_get [OF s] begun_pending [OF env s] intro!: image_eqI [where x = c])
qed

lemma inside_integrity:
  assumes env: "env_ok e" and inside: "inside e a b active n k migration stagnation err"
    and files: "\<forall>c\<in>set (av_records b). sidecars c = Inr ()"
  shows "check_integrity_state sidecars e (av_state b) True b = Inr ()"
proof -
  note s = insideD(2) [OF inside]
  note items = begun_items_of [OF s] and get = begun_get [OF s] and records = insideD(6) [OF inside]
  obtain x where x: "authority_from_dict (sv_authority e) = Inr x" "authority_to_dict x = sv_authority e"
    using env by (auto simp: env_ok_def)
  have has: "filter (has_key (av_state b)) markers = markers" by (simp add: markers_def has_key_def items)
  have "markers \<noteq> []" by (simp add: markers_def)
  have authority: "getn (av_state b) ''candidate_integrity_authority'' = sv_authority e"
    and digest: "getn (av_state b) ''candidate_archive_sha256'' = JStr (archive_digest e a)"
    by (simp_all add: jget_default_def items)
  have ordinary: "filter is_ordinary (av_records b) = av_records b"
    using population_strategy [OF insideD(5) [OF inside]] by (intro filter_True) (auto simp: is_ordinary_def is_population_def)
  note rules = has get authority digest x bind_guardE if_True if_False simp_thms bindE_simps
  consider (empty) "av_records b = []" | (partial) "av_records b \<noteq> []" "k < ec_offspring (sv_config e)"
    | (full) "av_records b \<noteq> []" "\<not> k < ec_offspring (sv_config e)" by blast
  then show ?thesis
  proof cases
    case empty
    obtain cs where "av_records b = av_records a @ cs" using inside_grown [OF inside] by blast
    with empty have "archive_digest e a = digest_records e (av_records b)"
      by (simp add: archive_digest_def digest_records_def)
    with empty \<open>markers \<noteq> []\<close> show ?thesis
      unfolding check_integrity_state_def Let_def ordinary by (simp only: rules) (simp add: guardE_def)
  next
    case partial
    with \<open>markers \<noteq> []\<close> show ?thesis
      unfolding check_integrity_state_def Let_def ordinary inside_pending_prefix [OF env inside]
      by (simp only: rules)
  next
    case full
    then have k: "k = ec_offspring (sv_config e)" using insideD(5) [OF inside] by (simp add: journal_ok_def)
    note whole = inside [unfolded k]
    have "lineage_from (av_records b) [] (av_records b)" using insideD(4) [OF inside] by (simp add: archive_fine_def)
    then have checked: "check_records sidecars (delayed_roots (av_state b) b) [] (av_records b) = Inr ()"
      using records files by (intro check_records_ok [where cfg = "sv_config e"]) (auto intro: full_delayed [OF whole env])
    have islands: "\<not> (\<exists>c\<in>set (av_records b). case ca_island c of None \<Rightarrow> True | Some i \<Rightarrow> ec_num_islands (sv_config e) \<le> i)"
      using records by (auto simp: records_ok_def list_all_iff ordinary_ok_def settled_def)
    from full \<open>markers \<noteq> []\<close> show ?thesis
      unfolding check_integrity_state_def Let_def ordinary inside_pending_prefix [OF env inside]
      by (simp only: rules checked islands) (simp add: guardE_def full_extension [OF env whole])
  qed
qed

lemma inside_evidence:
  assumes "env_ok e" and "inside e a b active n k migration stagnation err"
    and "\<forall>c\<in>set (av_records b). sidecars c = Inr ()"
  shows "check_evidence sidecars e (av_state b) b = Inr ()"
proof -
  have none: "(\<exists>c\<in>set (av_records b). is_population c \<and>
      (ca_source_sha256 c = None \<or> ca_receipt_sha256 c = None \<or> ca_integrity c = None)) = False"
    using insideD(6) [OF assms(2)] by (auto simp: records_ok_def list_all_iff ordinary_ok_def)
  show ?thesis unfolding check_evidence_def none
    by (simp add: inside_history [OF assms(1,2)] inside_integrity [OF assms])
qed

section \<open>The active population\<close>

lemma inside_references:
  assumes env: "env_ok e" and inside: "inside e a b active n k migration stagnation err"
  shows "references_ok (av_records b) (concat active) (opt_json (best_id a)) = Inr ()"
proof -
  obtain cs where cs: "av_records b = av_records a @ cs" using inside_grown [OF inside] by blast
  have ground: "grounded (sv_selection e) (av_records a) n active" using checkpoint_population [OF env insideD(1) [OF inside]] .
  have pop: "\<exists>c. find_record (av_records b) cid = Some c \<and> valid c" if "cid \<in> set (concat active)" for cid
  proof -
    from ground that obtain c where "find_record (av_records a) cid = Some c" "valid c"
      by (auto simp: grounded_def populated_def simp del: set_concat)
    moreover have "cid \<in> ca_id ` set (av_records a)" using ground that by (auto simp: grounded_def simp del: set_concat)
    ultimately show ?thesis by (simp add: cs find_record_append)
  qed
  then have "\<not> (\<exists>i\<in>set (concat active). find_record (av_records b) i = None)" by (metis option.distinct(1))
  moreover have "list_all valid (candidates_of (av_records b) (concat active))"
    using pop by (fastforce simp: list_all_iff set_candidates_of simp del: set_concat)
  moreover have "find_record (av_records b) (ca_id c) = Some c \<and> valid c" if "best (av_records a) = Some c" for c
  proof -
    have "c \<in> set (av_records a)" "valid c" using that by (auto simp: best_def dest: max_by_in)
    then show ?thesis using find_record_batch [OF insideD(6) [OF inside]] by (simp add: cs)
  qed
  ultimately show ?thesis
    by (auto simp: references_ok_def bind_guardE guardE_def opt_json_def best_id_def str_of_def split: option.split simp del: set_concat)
qed

lemma full_projection:
  assumes env: "env_ok e" and full: "inside e a b active n (ec_offspring (sv_config e)) migration stagnation err"
  shows "projection_agrees e (av_state b) active (av_records b) = Inr ()"
proof -
  note s = insideD(2) [OF full]
  note items = begun_items_of [OF s] and get = begun_get [OF s] and ok = insideD(5) [OF full]
  obtain cs where cs: "av_records b = av_records a @ cs" "\<forall>c\<in>set cs. ca_iteration c = n + 1" using inside_grown [OF full] by metis
  have completed: "completed e a b active n migration stagnation err" using full by (simp add: completed_def inside_def)
  have "visible_best (av_records b) n = visible_best (av_records a) n"
    using cs by (simp add: visible_best_def scores_at_def)
  then have best: "visible_best (av_records b) n = best_id a"
    using best_id_visible [OF checkpoint_journal [OF insideD(1) [OF full]]] by simp
  have rec: "reconstruct (sv_selection e) (av_state b) (av_records b) = Inr (active, best_id a, migration, stagnation)"
  proof -
    have "reconstruct (sv_selection e) (av_state b) (av_records b) = Inr (case population_at (sv_selection e) (av_records b) n of
           (active, migration, stagnation) \<Rightarrow> (active, visible_best (av_records b) n, migration, stagnation))"
      using env insideD(6) [OF full] journal_batch_nonempty [OF ok] by (intro reconstruct_population_at) (auto simp: env_ok_def get)
    then show ?thesis by (simp add: completed_population(1) [OF env completed] best)
  qed
  have "status_valid (sv_config e) (av_state b) active (best_id a) stagnation"
    unfolding status_valid_def Let_def by (simp add: jget_default_def items)
  then show ?thesis by (simp add: projection_agrees_def rec jget_default_def has_key_def items bind_guardE)
qed

lemma inside_active:
  assumes env: "env_ok e" and inside: "inside e a b active n k migration stagnation err"
  shows "active_of_state e (av_state b) b = Inr active"
proof -
  note s = insideD(2) [OF inside] and cp = insideD(1) [OF inside]
  note items = begun_items_of [OF s] and get = begun_get [OF s]
  have ok: "records_ok (sv_config e) (av_records a)" using insideD(7) [OF inside] .
  have pop: "populated (sv_config e) (av_records a) active" and ids: "set (concat active) \<subseteq> ca_id ` set (av_records a)"
    using checkpoint_population [OF env cp] by (auto simp: grounded_def simp del: set_concat)
  have "population_state_ok (sv_config e) (int n) active (opt_json (best_id a)) migration = Inr ()"
    using pop populated_size [OF _ pop] env stagnation_nonneg [OF checkpointD(2) [OF cp]] known_ids_safe [OF ok ids] best_record(3) [OF ok]
    by (auto simp: population_state_ok_def bind_guardE guardE_def env_ok_def populated_def opt_json_def best_id_def
        evolution_id_def split: option.split)
  moreover have "parse_islands (sv_config e) (active_json active) = Inr active"
    using pop by (intro parse_active_json) (simp add: populated_def)
  moreover have "pending_incomplete (av_state b) (av_outcomes b) = Inr (k < ec_offspring (sv_config e))"
  proof -
    have "map oo_attempt (batch_of (n + 1) (av_outcomes b)) = [0..<k]"
      using journal_attempts [OF insideD(5) [OF inside], of "n + 1"] by simp
    then have "length (batch_of (n + 1) (av_outcomes b)) = k" by (metis length_map length_upt diff_zero)
    then show ?thesis by (simp add: pending_incomplete_def begun_pending [OF env s])
  qed
  moreover have "projection_agrees e (av_state b) active (av_records b) = Inr ()" if "\<not> k < ec_offspring (sv_config e)"
  proof -
    from that have "k = ec_offspring (sv_config e)" using insideD(5) [OF inside] by (simp add: journal_ok_def)
    with full_projection [OF env] inside show ?thesis by blast
  qed
  moreover have "av_state b \<noteq> []" using items(1) by auto
  ultimately show ?thesis
    by (simp add: active_of_state_def jget_default_def has_key_def items state_int_def inside_references [OF env inside])
qed

section \<open>Starting again inside a batch\<close>

lemma inside_gates:
  assumes env: "env_ok (rn_strategy r)" and inside: "inside (rn_strategy r) a b active n k migration stagnation err"
    and "\<forall>c\<in>set (av_records b). rn_sidecars r c = Inr ()" and "\<not> rn_marker r"
  shows "run_population r b =
    (case resume_batch (rn_strategy r) (av_state b) active b of Inl x \<Rightarrow> Some (Inl x) | Inr (c, active') \<Rightarrow> proceed r c active')"
proof -
  have "\<not> has_key (av_state b) ''seed_admission''"
    by (simp add: has_key_def begun_lookup(7) [OF insideD(2) [OF inside]])
  with assms(4) show ?thesis
    unfolding run_population_def inside_load(3) [OF inside]
    by (simp add: inside_load(1,2) [OF inside] inside_evidence [OF env inside assms(3)] inside_active [OF env inside] bind_guardE Let_def)
qed

lemma inside_resume_batch:
  assumes env: "env_ok e" and inside: "inside e a b active n k migration stagnation err"
  shows "resume_batch e (av_state b) active b =
    (if k < ec_offspring (sv_config e) then Inl (EvolutionError ''population_iteration_incomplete'')
     else finish_batch e (av_state b) active b)"
proof -
  have "map oo_attempt (batch_of (n + 1) (av_outcomes b)) = [0..<k]"
    using journal_attempts [OF insideD(5) [OF inside], of "n + 1"] by simp
  then have "length (batch_of (n + 1) (av_outcomes b)) = k" by (metis length_map length_upt diff_zero)
  moreover have "k \<le> ec_offspring (sv_config e)" using insideD(5) [OF inside] by (simp add: journal_ok_def)
  ultimately show ?thesis
    by (simp add: resume_batch_def inside_history [OF env inside] begun_pending [OF env insideD(2) [OF inside]])
qed

lemma attempt_all_append:
  "attempt_all r active i (xs @ ys) c = bindE (attempt_all r active i xs c) (attempt_all r active i ys)"
proof (induction xs arbitrary: c)
  case (Cons x xs)
  obtain u d where "attempt_offspring r active i x c = (u, d)" by fastforce
  with Cons show ?case by (cases "append_outcome u d") auto
qed simp

text \<open>Where the attempts of a batch lead from a checkpoint.\<close>

lemma attempts_inside:
  assumes r: "undisturbed r" and cp: "checkpoint (rn_strategy r) a active n migration stagnation err"
    and begun: "begin_batch (rn_strategy r) (av_state a) active a = Inr a1"
    and attempts: "attempt_all r active (n + 1) [0..<k] a1 = Inr b" and k: "k \<le> ec_offspring (rn_config r)"
  shows "inside (rn_strategy r) a b active n k migration stagnation err"
  using attempts k
proof (induction k arbitrary: b)
  case 0
  have env: "env_ok (rn_strategy r)" using r by (simp add: undisturbed_def)
  from begin_batch_total [OF env cp] begun 0 obtain s
    where b: "b = a\<lparr>av_state := s\<rparr>" "begun (rn_strategy r) a active n migration stagnation s" by auto
  then show ?case using cp checkpointD(1) [OF cp] grown_refl
    by (simp add: inside_def archive_fine_def journal_ok_def)
next
  case (Suc k)
  have upt: "[0..<Suc k] = [0..<k] @ [k]" by simp
  from Suc.prems(1) obtain b0 where b0: "attempt_all r active (n + 1) [0..<k] a1 = Inr b0"
    and last: "attempt_all r active (n + 1) [k] b0 = Inr b"
    unfolding upt attempt_all_append by (auto simp: bindE_Inr_iff simp del: attempt_all.simps)
  have inside: "inside (rn_strategy r) a b0 active n k migration stagnation err" using Suc.IH [OF b0] Suc.prems(2) by simp
  have env: "env_ok (rn_strategy r)" using r by (simp add: undisturbed_def)
  have ground: "grounded (sv_selection (rn_strategy r)) (av_records a) n active" using checkpoint_population [OF env cp] .
  from attempt_fine [OF r ground insideD(3,4) [OF inside]] Suc.prems(2) obtain u cs
    where u: "attempt_offspring r active (n + 1) k b0 = (u, b0\<lparr>av_records := av_records b0 @ cs\<rparr>)"
      "archive_fine (rn_config r) (added b0 u cs) n (Suc k)" "grown a (added b0 u cs) n" "oo_iteration u = n + 1" "oo_attempt u = k" by auto
  have "b = added b0 u cs"
    using last append_fresh [OF insideD(4) [OF inside] u(4,5), of cs] by (simp add: u(1) [simplified])
  moreover have "av_state (added b0 u cs) = av_state b0" by (simp add: added_def)
  ultimately show ?case using u(2,3) insideD(1,2) [OF inside] by (simp add: inside_def)
qed

lemma boundary_inside:
  assumes "undisturbed (run_env.truncate r)" "initially_valid r" "\<not> rn_marker r" and "boundary r (a, active, n, m, s, err)"
    and "begin_batch (rn_strategy r) (av_state a) active a = Inr a1"
    and "attempt_all (run_env.truncate r) active (n + 1) [0..<k] a1 = Inr b"
    and "k \<le> ec_offspring (sv_config (rn_strategy r))"
  shows "env_ok (rn_strategy r)" and "checkpoint (rn_strategy r) a active n m s err"
    and "inside (rn_strategy r) a b active n k m s err"
    and "run_population r no_archive = rest_of_run r active n s m err a"
proof -
  have same: "rn_strategy (run_env.truncate r) = rn_strategy r" by (simp add: run_env.defs)
  show "env_ok (rn_strategy r)" using assms(1) by (simp add: undisturbed_def same)
  from boundary_rest [OF assms(4,1-3)] show cp: "checkpoint (rn_strategy r) a active n m s err"
    and "run_population r no_archive = rest_of_run r active n s m err a" by auto
  show "inside (rn_strategy r) a b active n k m s err"
    using attempts_inside [OF assms(1), unfolded same, OF cp assms(5-7)] .
qed

lemma sample_batch:
  "\<exists>a1 b b'. begin_batch sample_strategy (av_state sample_boundary) sample_active sample_boundary = Inr a1
    \<and> attempt_all (run_env.truncate sample_env) sample_active (0 + 1) [0..<1] a1 = Inr b
    \<and> attempt_all (run_env.truncate sample_env) sample_active (0 + 1) [0..<2] a1 = Inr b'"
proof -
  have same: "rn_strategy (run_env.truncate sample_env) = sample_strategy" by (simp add: run_env.defs sample_env_def)
  have env: "env_ok sample_strategy" using sample_undisturbed by (simp add: undisturbed_def same)
  have cp: "checkpoint sample_strategy sample_boundary sample_active 0 0 0 sample_error"
    using boundary_rest [OF sample_at_boundary sample_undisturbed sample_initially_valid sample_files_ok(1)] by (simp add: sample_fields)
  from begin_batch_total [OF env cp] obtain s
    where a1: "begin_batch sample_strategy (av_state sample_boundary) sample_active sample_boundary = Inr (sample_boundary\<lparr>av_state := s\<rparr>)" by blast
  have "archive_fine sample_config (sample_boundary\<lparr>av_state := s\<rparr>) 0 0"
    using checkpointD(1) [OF cp] by (simp add: archive_fine_def journal_ok_def sample_fields)
  with attempts_fine [OF sample_undisturbed, unfolded same, OF checkpoint_population [OF env cp] grown_refl, of s 0]
  obtain b' where b': "attempt_all (run_env.truncate sample_env) sample_active (0 + 1) [0..<2] (sample_boundary\<lparr>av_state := s\<rparr>) = Inr b'"
    by (auto simp: sample_fields sample_config_def)
  have "[0..<2] = [0..<1] @ [1::nat]" by (simp add: upt_rec)
  with b' obtain b where "attempt_all (run_env.truncate sample_env) sample_active (0 + 1) [0..<1] (sample_boundary\<lparr>av_state := s\<rparr>) = Inr b"
    by (auto simp: attempt_all_append bindE_Inr_iff simp del: attempt_all.simps upt.simps)
  with a1 b' show ?thesis by blast
qed





section \<open>The population\<close>





end
