(* ===== verification/PopulationFacts.thy ===== *)
theory PopulationFacts imports MidBatch AlgorithmCodec begin

text \<open>
  What the parts of the population strategy promise on their own: the codecs of the outcome journal and of
  the integrity authority, the bounds of an accepted configuration, and a trim that does not depend on
  the order of the candidates.
\<close>

section \<open>Codecs\<close>

lemma outcome_init_Inr:
  "outcome_init s i k l c x = Inr u \<longleftrightarrow>
     s = JStr ''1'' \<and> i = JInt (int (oo_iteration u)) \<and> 1 \<le> oo_iteration u \<and> k = JInt (int (oo_attempt u)) \<and> oo_attempt u < 256
     \<and> l = JInt (int (oo_island u)) \<and> oo_island u < 64 \<and> c = JStr (oo_code u) \<and> oo_code u \<in> set outcome_codes
     \<and> (if oo_code u = ''evaluated'' then \<exists>cid. x = JStr cid \<and> is_safe_id cid \<and> oo_candidate u = Some cid
        else x = JNull \<and> oo_candidate u = None)"
proof -
  have ranged: "ranged_int v 0 b m = Inr n \<longleftrightarrow> v = JInt (int n) \<and> int n < b" for v b m n
    by (cases v) (auto simp: ranged_int_def)
  have first: "(case i of JInt n \<Rightarrow> if 1 \<le> n then Inr (nat n) else Inl err | _ \<Rightarrow> Inl err) = Inr n \<longleftrightarrow> i = JInt (int n) \<and> 1 \<le> n"
    for err :: py_error and n by (cases i) auto
  have code: "member_of c outcome_codes err = Inr () \<longleftrightarrow> (\<exists>s. c = JStr s \<and> s \<in> set outcome_codes)" for err
    by (cases c) (auto simp: member_of_def guardE_Inr_iff)
  have id_of: "evolution_id x m = Inr t \<longleftrightarrow> x = JStr t \<and> is_safe_id t" for m t
    by (cases x) (auto simp: evolution_id_def)
  have candidate: "(if c = JStr ''evaluated'' then bindE (evolution_id x m) (\<lambda>t. Inr (Some t))
        else if x \<noteq> JNull then Inl err else Inr None) = Inr w \<longleftrightarrow>
      (if c = JStr ''evaluated'' then \<exists>cid. x = JStr cid \<and> is_safe_id cid \<and> w = Some cid else x = JNull \<and> w = None)"
    for m err w by (auto simp: bindE_Inr_iff id_of)
  show ?thesis
    unfolding outcome_init_def bindE_Inr_iff guardE_Inr_iff first ranged candidate
    by (cases u) (auto simp: code str_of_def)
qed

lemma outcome_fields:
  "outcome_from_dict (outcome_to_dict u) = outcome_init (JStr ''1'') (JInt (int (oo_iteration u))) (JInt (int (oo_attempt u)))
     (JInt (int (oo_island u))) (JStr (oo_code u)) (opt_json (oo_candidate u))"
  by (simp add: outcome_from_dict_def outcome_to_dict_def jget_default_def)

lemma outcome_reload:
  assumes "outcome_from_dict v = Inr u"
  shows "outcome_from_dict (outcome_to_dict u) = Inr u"
proof -
  obtain s i k l c x where "outcome_init s i k l c x = Inr u"
    using assms unfolding outcome_from_dict_def by (auto split: json.splits if_splits)
  then show ?thesis unfolding outcome_fields outcome_init_Inr by (simp add: opt_json_def split: if_splits) auto
qed

interpretation outcome_codec: codec outcome_from_dict outcome_to_dict
  by unfold_locales (rule outcome_reload)

lemma authority_init_Inr:
  "authority_init s c k ev d en ru g = Inr x \<longleftrightarrow>
     s = JStr ''1'' \<and> c = JStr (ia_contract x) \<and> is_hex64 (ia_contract x) \<and> ev = JStr (ia_evaluator x) \<and> is_hex64 (ia_evaluator x)
     \<and> d = JStr (ia_dependency x) \<and> is_hex64 (ia_dependency x) \<and> en = JStr (ia_environment x) \<and> is_hex64 (ia_environment x)
     \<and> ru = JStr (ia_runner x) \<and> is_hex64 (ia_runner x) \<and> g = JStr (ia_generator x) \<and> is_hex64 (ia_generator x)
     \<and> k = JStr (ia_kind x) \<and> is_safe_id (ia_kind x) \<and> \<not> secret_search (ia_kind x)"
proof -
  have digest: "digest_of v = Inr s \<longleftrightarrow> v = JStr s \<and> is_hex64 s" for v s by (auto simp: digest_of_def split: json.splits)
  have kind: "kind_of v = Inr s \<longleftrightarrow> v = JStr s \<and> is_safe_id s \<and> \<not> secret_search s" for v s
    by (auto simp: kind_of_def split: json.splits)
  show ?thesis by (cases x) (auto simp: authority_init_def bindE_Inr_iff guardE_Inr_iff digest kind)
qed

lemma authority_reload: "authority_from_dict v = Inr x \<Longrightarrow> authority_from_dict (authority_to_dict x) = Inr x"
  by (cases v) (auto simp: authority_from_dict_def authority_to_dict_def authority_fields_def authority_init_Inr jget_default_def
      split: if_splits)

interpretation authority_codec: codec authority_from_dict authority_to_dict
  by unfold_locales (rule authority_reload)

text \<open>C15. The outcome journal can be read back: an outcome record that \<^verbatim>\<open>OffspringOutcome.from_dict\<close> accepts
  survives \<^verbatim>\<open>to_dict\<close> and \<^verbatim>\<open>from_dict\<close>, and so does a whole list of them.\<close>

theorem outcome_journal_roundtrip:
  assumes "mapE outcome_from_dict vs = Inr us"
  shows "mapE outcome_from_dict (map outcome_to_dict us) = Inr us"
  using assms by (rule outcome_codec.reload_list)

theorem outcome_journal_roundtrip_witness:
  "mapE outcome_from_dict (map outcome_to_dict
     [outcome_of 1 0 0 ''evaluated'' (Some ''candidate-0001''), outcome_of 1 1 1 ''run_failed'' None]) =
   Inr [outcome_of 1 0 0 ''evaluated'' (Some ''candidate-0001''), outcome_of 1 1 1 ''run_failed'' None]"
proof (rule outcome_journal_roundtrip)
  show "mapE outcome_from_dict (map outcome_to_dict
     [outcome_of 1 0 0 ''evaluated'' (Some ''candidate-0001''), outcome_of 1 1 1 ''run_failed'' None]) =
   Inr [outcome_of 1 0 0 ''evaluated'' (Some ''candidate-0001''), outcome_of 1 1 1 ''run_failed'' None]"
    by code_simp
qed

lemma attempt_outcome:
  assumes "attempt_offspring r active i k a = (u, a')"
  shows "\<exists>code cid. u = outcome_of i k (k mod ec_num_islands (rn_config r)) code cid \<and> code \<in> set outcome_codes
    \<and> (if code = ''evaluated'' then cid = Some (next_id a) else cid = None)"
proof -
  let ?island = "k mod ec_num_islands (rn_config r)"
  have known: "''run_failed'' \<in> set outcome_codes" "''candidate_failed'' \<in> set outcome_codes" "''evaluated'' \<in> set outcome_codes"
    by (simp_all add: outcome_codes_def)
  have picked: "(if code \<in> set outcome_codes - {''evaluated''} then code else ''run_failed'') \<in> set outcome_codes - {''evaluated''}" for code
    using known(1) by simp
  have "u \<in> {outcome_of i k ?island ''evaluated'' (Some (next_id a))}
      \<union> {outcome_of i k ?island code None | code. code \<in> set outcome_codes - {''evaluated''}}"
  proof (cases "rn_reply r k (request_of r i (select_parent (sv_selection (rn_strategy r)) (rn_pick r) (av_records a) active ?island)
      (inspirations (sv_selection (rn_strategy r)) (av_records a) active ?island
        (select_parent (sv_selection (rn_strategy r)) (rn_pick r) (av_records a) active ?island)) a)")
    case (Rejected code)
    with assms have "u = outcome_of i k ?island (if code \<in> set outcome_codes - {''evaluated''} then code else ''run_failed'') None"
      by (simp add: attempt_offspring_def Let_def)
    with picked [of code] show ?thesis by blast
  qed (use assms known in \<open>auto simp: attempt_offspring_def Let_def split: if_splits\<close>)
  with known show ?thesis by auto
qed

text \<open>C14. Whatever the generator and the evaluator do, the outcome that an offspring attempt reports is a
  well-formed \<^verbatim>\<open>OffspringOutcome\<close>: its numbers are in range, its code is one of the five, and it names a
  candidate exactly when it is \<^verbatim>\<open>evaluated\<close>.\<close>

theorem attempt_outcome_is_well_formed:
  assumes "config_ok (rn_config r)" and "1 \<le> i" and "k < ec_offspring (rn_config r)" and "is_safe_id (next_id a)"
    and "attempt_offspring r active i k a = (u, a')"
  shows "outcome_from_dict (outcome_to_dict u) = Inr u"
proof -
  have "k mod ec_num_islands (rn_config r) < 64"
    using assms(1) mod_less_divisor [of "ec_num_islands (rn_config r)" k] unfolding config_ok_def by linarith
  moreover have "k < 256" using assms(1,3) by (simp add: config_ok_def)
  ultimately have "outcome_from_dict (outcome_to_dict (outcome_of i k (k mod ec_num_islands (rn_config r)) code cid)) =
      Inr (outcome_of i k (k mod ec_num_islands (rn_config r)) code cid)"
    if "code \<in> set outcome_codes \<and> (if code = ''evaluated'' then cid = Some (next_id a) else cid = None)" for code cid
    using assms(2,4) that unfolding outcome_fields outcome_init_Inr
    by (auto simp: outcome_of_def opt_json_def split: if_splits)
  then show ?thesis using attempt_outcome [OF assms(5)] by blast
qed

theorem attempt_outcome_is_well_formed_witness:
  "\<exists>u a'. attempt_offspring (run_env.truncate sample_env) (empty_active sample_config) 1 0 no_archive = (u, a')
    \<and> outcome_from_dict (outcome_to_dict u) = Inr u"
proof -
  have cfg: "config_ok (rn_config (run_env.truncate sample_env))" "0 < ec_offspring (rn_config (run_env.truncate sample_env))"
    by (simp_all add: run_env.defs config_ok_def sample_defs)
  have safe: "is_safe_id (next_id no_archive)" by code_simp
  obtain u a' where u: "attempt_offspring (run_env.truncate sample_env) (empty_active sample_config) 1 0 no_archive = (u, a')" by fastforce
  from attempt_outcome_is_well_formed [OF cfg(1) _ cfg(2) safe u] u show ?thesis by simp
qed

section \<open>Accepted configurations\<close>

lemma bounded_int_Inr: "bounded_int v b name = Inr n \<longleftrightarrow> v = JInt (int n) \<and> 1 \<le> n \<and> n \<le> b"
  by (cases v) (auto simp: bounded_int_def)

lemma config_rest_sizes:
  assumes "config_rest a c = Inr cfg"
  shows "ec_max_rounds cfg = ec_max_rounds c" "ec_population_size cfg = ec_population_size c"
    "ec_stagnation_rounds cfg = ec_stagnation_rounds c" "ec_offspring cfg = ec_offspring c" "ec_num_islands cfg = ec_num_islands c"
  using assms unfolding config_rest_def by (auto simp: bindE_Inr_iff)

lemma config_init_ok:
  assumes "config_init a = Inr cfg"
  shows "config_ok cfg"
proof -
  from assms obtain c rounds stagnation pop offspring islands where rest: "config_rest a c = Inr cfg"
    and c: "ec_max_rounds c = rounds" "ec_stagnation_rounds c = stagnation" "ec_population_size c = pop"
      "ec_offspring c = offspring" "ec_num_islands c = nat islands"
    and b: "1 \<le> rounds" "rounds \<le> 10000" "1 \<le> stagnation" "pop \<le> 10000" "1 \<le> offspring" "offspring \<le> 256"
      "1 \<le> islands" "islands \<le> 64" "islands \<le> int pop"
    unfolding config_init_def bindE_Inr_iff guardE_Inr_iff bounded_int_Inr by auto
  from b c show ?thesis unfolding config_ok_def config_rest_sizes [OF rest] by auto
qed


definition sample_args :: config_args where
  "sample_args = \<lparr>ga_strategy = JStr ''population'', ga_max_rounds = JInt 20, ga_stagnation_rounds = JInt 5, ga_population_size = JInt 10,
     ga_offspring = JInt 4, ga_num_islands = JInt 3, ga_migration_interval = JInt 5, ga_migration_rate = JInt 0, ga_rng_seed = JInt 7,
     ga_timeout = JInt 60, ga_command = [], ga_generator_fp = JNull, ga_evaluator_fp = JNull, ga_runner_fp = JNull,
     ga_evaluator_kind = JNull, ga_dependency = JNull, ga_environment = JNull\<rparr>"


section \<open>Trimming\<close>

text \<open>C16. Trimming is deterministic: which candidates an island keeps, and in which order, does not depend on
  the order in which they were added to it, so resuming from the archive and running on give the same
  population.\<close>

theorem trim_ignores_order:
  assumes "list_all2 (\<lambda>xs ys. mset xs = mset ys) active active'"
  shows "trim e records active = trim e records active'"
  using assms by (rule trim_perm)

theorem trim_ignores_order_witness:
  "trim (sv_selection sample_strategy) (av_records sample_boundary) [[''candidate-0001'', ''candidate-0002''], []] =
   trim (sv_selection sample_strategy) (av_records sample_boundary) [[''candidate-0002'', ''candidate-0001''], []]"
  by (rule trim_ignores_order) (simp add: add_mset_commute)

end
