(* ===== verification/AcceptanceEval.thy ===== *)
theory AcceptanceEval imports Acceptance Algorithm begin

text \<open>
  Evaluating compiled acceptance rules (src/src/lunar_evolution/evaluator.py) against the result text and
  the files of an attempt workspace.  The workspace is an argument: what the path resolution, \<^verbatim>\<open>lstat\<close> and
  reading a file as UTF-8 text return.  \<^verbatim>\<open>json.loads\<close> is an argument too; it can fail to decode (\<open>None\<close>) or
  raise anything else (\<open>Inl\<close>).  The reader of CSV files is modelled with its default dialect.
\<close>

section \<open>Workspaces\<close>

datatype entry = Absent | Directory | Regular | Link | Special

text \<open>\<open>ws_resolve\<close>: does the resolved path lie below the resolved root; \<open>None\<close>: the resolution raised.
  \<open>ws_file\<close>: the size of a regular file and its text, if it can be read as UTF-8.\<close>

record workspace =
  ws_link :: bool
  ws_resolve :: "string \<Rightarrow> bool option"
  ws_kind :: "string list \<Rightarrow> entry"
  ws_file :: "string list \<Rightarrow> nat \<times> string option"

definition path_parts :: "string \<Rightarrow> string list" where
  "path_parts p = filter (\<lambda>s. s \<noteq> [] \<and> s \<noteq> ''.'') (split_on CHR ''/'' p)"

definition raw_path_has_symlink :: "workspace \<Rightarrow> string list \<Rightarrow> bool" where
  "raw_path_has_symlink ws parts = list_ex (\<lambda>i. ws_kind ws (take i parts) = Link) [0..<length parts + 1]"

definition MAX_ARTIFACT_BYTES :: nat where "MAX_ARTIFACT_BYTES = 256 * 1024"

text \<open>The error of \<^verbatim>\<open>_artifact_file\<close>, if any.\<close>

definition artifact_error :: "workspace \<Rightarrow> string \<Rightarrow> string option" where
  "artifact_error ws p =
     (if ws_link ws then Some ''attempt workspace must not be a symlink''
      else case ws_resolve ws p of
        None \<Rightarrow> Some ''artifact path cannot be resolved safely''
      | Some inside \<Rightarrow>
          if \<not> inside then Some ''artifact path resolves outside the attempt workspace''
          else if raw_path_has_symlink ws (path_parts p) then Some ''artifact path contains a symlink''
          else if ws_kind ws (path_parts p) \<noteq> Regular then Some ''artifact does not exist as a regular file''
          else None)"

definition read_artifact :: "workspace \<Rightarrow> string \<Rightarrow> string + string" where
  "read_artifact ws p =
     (case artifact_error ws p of
        Some err \<Rightarrow> Inl err
      | None \<Rightarrow>
          (case ws_file ws (path_parts p) of (bytes, content) \<Rightarrow>
             if MAX_ARTIFACT_BYTES < bytes then Inl (''artifact exceeds '' @ show_nat MAX_ARTIFACT_BYTES @ '' inspection bytes'')
             else case content of None \<Rightarrow> Inl ''artifact is unreadable or not UTF-8 text'' | Some text \<Rightarrow> Inr text))"

section \<open>Lines and CSV\<close>

text \<open>\<^verbatim>\<open>str.splitlines\<close> on UTF-8 bytes: the length of the line break at the head, 0 if there is none.\<close>

definition break_length :: "string \<Rightarrow> nat" where
  "break_length s =
     (case map (of_char :: char \<Rightarrow> nat) (take 3 s) of
        a # b # c # _ \<Rightarrow> if a = 13 \<and> b = 10 then 2 else if a \<in> {10, 11, 12, 13, 28, 29, 30} then 1
          else if a = 194 \<and> b = 133 then 2 else if a = 226 \<and> b = 128 \<and> c \<in> {168, 169} then 3 else 0
      | a # b # _ \<Rightarrow> if a = 13 \<and> b = 10 then 2 else if a \<in> {10, 11, 12, 13, 28, 29, 30} then 1
          else if a = 194 \<and> b = 133 then 2 else 0
      | a # _ \<Rightarrow> if a \<in> {10, 11, 12, 13, 28, 29, 30} then 1 else 0
      | [] \<Rightarrow> 0)"

function split_lines :: "string \<Rightarrow> string \<Rightarrow> string list" where
  "split_lines acc [] = (if acc = [] then [] else [rev acc])"
| "split_lines acc (c # cs) =
     (if 0 < break_length (c # cs) then rev acc # split_lines [] (drop (break_length (c # cs)) (c # cs))
      else split_lines (c # acc) cs)"
  by pat_completeness auto
termination
  by (relation "measure (\<lambda>(acc, s). length s)") auto

text \<open>\<^verbatim>\<open>csv.reader\<close> with the default dialect, over lines that keep their line feed.\<close>

datatype csv_state = Start_record | Start_field | In_field | In_quoted | Quote_in_quoted | Eat_crnl

type_synonym csv = "csv_state \<times> string \<times> string list"

definition CSV_FIELD_LIMIT :: nat where "CSV_FIELD_LIMIT = 131072"

definition newline_char :: "char \<Rightarrow> bool" where
  "newline_char c \<longleftrightarrow> (of_char c :: nat) \<in> {10, 13}"

definition csv_add :: "csv_state \<Rightarrow> char \<Rightarrow> string \<Rightarrow> string list \<Rightarrow> csv option" where
  "csv_add s c f fs = (if CSV_FIELD_LIMIT \<le> char_length f \<and> \<not> is_continuation c then None else Some (s, f @ [c], fs))"

definition csv_start_field :: "char \<Rightarrow> string \<Rightarrow> string list \<Rightarrow> csv option" where
  "csv_start_field c f fs =
     (if newline_char c then Some (Eat_crnl, [], fs @ [f])
      else if c = CHR 0x22 then Some (In_quoted, f, fs)
      else if c = CHR '','' then Some (Start_field, [], fs @ [f])
      else csv_add In_field c f fs)"

fun csv_char :: "char \<Rightarrow> csv \<Rightarrow> csv option" where
  "csv_char c (s, f, fs) =
     (case s of
        Start_record \<Rightarrow> if newline_char c then Some (Eat_crnl, f, fs) else csv_start_field c f fs
      | Start_field \<Rightarrow> csv_start_field c f fs
      | In_field \<Rightarrow> if newline_char c then Some (Eat_crnl, [], fs @ [f])
          else if c = CHR '','' then Some (Start_field, [], fs @ [f]) else csv_add In_field c f fs
      | In_quoted \<Rightarrow> if c = CHR 0x22 then Some (Quote_in_quoted, f, fs) else csv_add In_quoted c f fs
      | Quote_in_quoted \<Rightarrow> if c = CHR 0x22 then csv_add In_quoted c f fs
          else if c = CHR '','' then Some (Start_field, [], fs @ [f])
          else if newline_char c then Some (Eat_crnl, [], fs @ [f]) else csv_add In_field c f fs
      | Eat_crnl \<Rightarrow> if newline_char c then Some (s, f, fs) else None)"

fun csv_line :: "string \<Rightarrow> csv \<Rightarrow> csv option" where
  "csv_line [] st = Some st"
| "csv_line (c # cs) st = (case csv_char c st of None \<Rightarrow> None | Some st' \<Rightarrow> csv_line cs st')"

fun csv_eol :: "csv \<Rightarrow> csv" where
  "csv_eol (s, f, fs) =
     (case s of
        Start_record \<Rightarrow> (Start_record, f, fs)
      | In_quoted \<Rightarrow> (In_quoted, f, fs)
      | Eat_crnl \<Rightarrow> (Start_record, f, fs)
      | _ \<Rightarrow> (Start_record, [], fs @ [f]))"

text \<open>The first row (\<open>Some None\<close>: no row; \<open>None\<close>: \<^verbatim>\<open>csv.Error\<close>), and all rows.\<close>

fun csv_first :: "string list \<Rightarrow> csv \<Rightarrow> string list option option" where
  "csv_first [] (s, f, fs) = Some (if f \<noteq> [] \<or> s = In_quoted then Some (fs @ [f]) else None)"
| "csv_first (l # ls) st =
     (case csv_line l st of
        None \<Rightarrow> None
      | Some st' \<Rightarrow> (case csv_eol st' of (s, f, fs) \<Rightarrow> if s = Start_record then Some (Some fs) else csv_first ls (s, f, fs)))"

fun csv_all :: "string list \<Rightarrow> csv \<Rightarrow> string list list option" where
  "csv_all [] (s, f, fs) = Some (if f \<noteq> [] \<or> s = In_quoted then [fs @ [f]] else [])"
| "csv_all (l # ls) st =
     (case csv_line l st of
        None \<Rightarrow> None
      | Some st' \<Rightarrow>
          (case csv_eol st' of (s, f, fs) \<Rightarrow>
             if s = Start_record then map_option ((#) fs) (csv_all ls (Start_record, [], [])) else csv_all ls (s, f, fs)))"

fun feed_lines :: "string \<Rightarrow> string \<Rightarrow> string list" where
  "feed_lines acc [] = (if acc = [] then [] else [rev acc])"
| "feed_lines acc (c # cs) = (if (of_char c :: nat) = 10 then rev (c # acc) # feed_lines [] cs else feed_lines (c # acc) cs)"

section \<open>Structured files\<close>

text \<open>The error, the number of rows and the fields of the first row.\<close>

type_synonym structure_check = "string option \<times> nat option \<times> string list"

definition missing_of :: "(string \<times> json) list \<Rightarrow> string list \<Rightarrow> string list" where
  "missing_of items names = filter (\<lambda>f. f \<notin> fst ` set items) names"

fun json_rows :: "nat \<Rightarrow> string list \<Rightarrow> json list \<Rightarrow> string list \<Rightarrow> string option \<times> string list" where
  "json_rows i names [] observed = (None, observed)"
| "json_rows i names (v # vs) observed =
     (case v of
        JObj items \<Rightarrow>
          let observed' = (if i = 0 then map fst items else observed); missing = missing_of items names in
          if missing \<noteq> [] then (Some (''JSON artifact row '' @ show_nat i @ '' is missing fields: '' @ join_with '', '' missing), observed')
          else json_rows (i + 1) names vs observed'
      | _ \<Rightarrow> (Some (''JSON artifact row '' @ show_nat i @ '' is not an object''), observed))"

fun jsonl_rows ::
  "(string \<Rightarrow> json option result) \<Rightarrow> nat \<Rightarrow> string list \<Rightarrow> string list \<Rightarrow> nat \<Rightarrow> string list \<Rightarrow> structure_check result" where
  "jsonl_rows loads i names [] n observed = Inr (None, Some n, observed)"
| "jsonl_rows loads i names (l # ls) n observed =
     (if strip l = [] then jsonl_rows loads (i + 1) names ls n observed else
      bindE (loads l) (\<lambda>parsed.
      case parsed of
        None \<Rightarrow> Inr (Some (''JSONL artifact line '' @ show_nat (i + 1) @ '' is invalid''), Some n, observed)
      | Some (JObj items) \<Rightarrow>
          let observed' = (if observed = [] then map fst items else observed); missing = missing_of items names in
          if missing \<noteq> []
          then Inr (Some (''JSONL artifact line '' @ show_nat (i + 1) @ '' is missing fields: '' @ join_with '', '' missing),
                    Some (n + 1), observed')
          else jsonl_rows loads (i + 1) names ls (n + 1) observed'
      | Some _ \<Rightarrow> Inr (Some (''JSONL artifact line '' @ show_nat (i + 1) @ '' is not an object''), Some n, observed)))"

definition json_structure :: "(string \<Rightarrow> json option result) \<Rightarrow> string \<Rightarrow> string list \<Rightarrow> structure_check result" where
  "json_structure loads content names =
     bindE (loads content) (\<lambda>parsed.
     Inr (case parsed of
            None \<Rightarrow> (Some ''JSON artifact is invalid'', None, [])
          | Some (JObj items) \<Rightarrow>
              (if missing_of items names = [] then None
               else Some (''JSON artifact is missing fields: '' @ join_with '', '' (missing_of items names)), Some 1, map fst items)
          | Some (JArr vs) \<Rightarrow> (case json_rows 0 names vs [] of (err, observed) \<Rightarrow> (err, Some (length vs), observed))
          | Some _ \<Rightarrow> (Some ''JSON artifact root must be an object or array'', None, [])))"

definition csv_structure :: "string \<Rightarrow> string list \<Rightarrow> structure_check" where
  "csv_structure content names =
     (let ls = feed_lines [] content in
      case csv_first ls (Start_record, [], []) of
        None \<Rightarrow> (Some ''CSV artifact is invalid'', None, [])
      | Some header \<Rightarrow>
          (let observed = (case header of None \<Rightarrow> [] | Some fs \<Rightarrow> fs); missing = filter (\<lambda>f. f \<notin> set observed) names in
           if observed = [] then (Some ''CSV artifact has no header'', None, [])
           else if missing \<noteq> [] then (Some (''CSV artifact is missing fields: '' @ join_with '', '' missing), None, observed)
           else case csv_all ls (Start_record, [], []) of
                  None \<Rightarrow> (Some ''CSV artifact is invalid'', None, observed)
                | Some rows \<Rightarrow> (None, Some (length (filter (\<lambda>r. r \<noteq> []) (tl rows))), observed)))"

definition structured_content_check ::
  "(string \<Rightarrow> json option result) \<Rightarrow> string \<Rightarrow> string \<Rightarrow> string list \<Rightarrow> structure_check result" where
  "structured_content_check loads content fmt names =
     (if fmt = ''text'' then Inr (if strip content = [] then Some ''text artifact is empty'' else None, None, [])
      else if fmt = ''json'' then json_structure loads content names
      else if fmt = ''jsonl'' then
        bindE (jsonl_rows loads 0 names (split_lines [] content) 0 []) (\<lambda>(err, n, observed).
        Inr (if err = None \<and> n = Some 0 then Some ''JSONL artifact contains no records'' else err, n, observed))
      else if fmt = ''csv'' then Inr (csv_structure content names)
      else Inr (None, None, []))"

text \<open>\<^verbatim>\<open>_validate_data_profile\<close>: the error, if any, and the metadata of a valid profile.\<close>

definition bounded_strings :: "nat \<Rightarrow> nat \<Rightarrow> json \<Rightarrow> string list option" where
  "bounded_strings most bytes v =
     (case v of
        JArr vs \<Rightarrow>
          if most < length vs then None
          else (case str_items vs of
                  None \<Rightarrow> None
                | Some ss \<Rightarrow> if \<exists>s\<in>set ss. strip s = [] \<or> bytes < length s then None else Some ss)
      | _ \<Rightarrow> None)"

definition raw_data_path :: "json \<Rightarrow> bool" where
  "raw_data_path v \<longleftrightarrow>
     (case v of
        JStr p \<Rightarrow> starts_with ''data/raw/'' p \<and> p \<noteq> ''data/raw/''
          \<and> \<not> (\<exists>part\<in>set (split_on CHR ''/'' p). part \<in> {[], ''.'', ''..''}) \<and> backslash \<notin> set p \<and> nul \<notin> set p
      | _ \<Rightarrow> False)"

definition profile_input_error :: "nat \<Rightarrow> json \<Rightarrow> string option" where
  "profile_input_error i v =
     (let input = ''data profile input '' @ show_nat i in
      case v of
        JObj items \<Rightarrow>
          if fst ` set items \<noteq> {''path'', ''format'', ''row_count'', ''columns'', ''issues''} then Some (input @ '' has an invalid shape'')
          else if \<not> raw_data_path (getn items ''path'') then Some (input @ '' path is invalid'')
          else if (case getn items ''format'' of JStr f \<Rightarrow> strip f = [] \<or> 32 < length f | _ \<Rightarrow> True)
          then Some (input @ '' format is invalid'')
          else if (case getn items ''row_count'' of JInt n \<Rightarrow> n < 0 | _ \<Rightarrow> True) then Some (input @ '' row_count is invalid'')
          else (case bounded_strings 128 128 (getn items ''columns'') of
                  None \<Rightarrow> Some (input @ '' columns are invalid'')
                | Some columns \<Rightarrow>
                    if \<not> distinct columns then Some (input @ '' columns must be unique'')
                    else if bounded_strings 32 512 (getn items ''issues'') = None then Some (input @ '' issues are invalid'')
                    else None)
      | _ \<Rightarrow> Some (input @ '' has an invalid shape''))"

fun first_input_error :: "nat \<Rightarrow> json list \<Rightarrow> string option" where
  "first_input_error i [] = None"
| "first_input_error i (v # vs) = (case profile_input_error i v of None \<Rightarrow> first_input_error (i + 1) vs | Some err \<Rightarrow> Some err)"

definition row_count_of :: "json \<Rightarrow> json" where
  "row_count_of v = (case v of JObj items \<Rightarrow> getn items ''row_count'' | _ \<Rightarrow> JNull)"

definition profile_error :: "string \<Rightarrow> json \<Rightarrow> string option \<times> (string \<times> json) list" where
  "profile_error content payload =
     (case payload of
        JObj items \<Rightarrow>
          if \<not> fst ` set items \<subseteq> {''schema_version'', ''inputs'', ''notes''}
          then (Some ''data profile contains unknown top-level fields'', [])
          else if getn items ''schema_version'' \<noteq> JStr ''1'' then (Some (''data profile schema_version must be '' @ repr_str ''1''), [])
          else (case getn items ''inputs'' of
                  JArr inputs \<Rightarrow>
                    if inputs = [] \<or> 64 < length inputs then (Some ''data profile inputs must be a non-empty bounded array'', [])
                    else (case first_input_error 0 inputs of
                            Some err \<Rightarrow> (Some err, [])
                          | None \<Rightarrow>
                              if (case jget_default items ''notes'' (JStr []) of JStr t \<Rightarrow> 2000 < length t | _ \<Rightarrow> True)
                              then (Some ''data profile notes are invalid'', [])
                              else if secret_search content then (Some ''data profile contains credential-like content'', [])
                              else (None, [(''schema_version'', JStr ''1''), (''input_count'', JInt (int (length inputs))),
                                           (''row_counts'', JArr (map row_count_of inputs))]))
                | _ \<Rightarrow> (Some ''data profile inputs must be a non-empty bounded array'', []))
      | _ \<Rightarrow> (Some ''data profile root must be an object'', []))"

definition validate_data_profile ::
  "(string \<Rightarrow> json option result) \<Rightarrow> string \<Rightarrow> (string option \<times> (string \<times> json) list) result" where
  "validate_data_profile loads content =
     bindE (loads content) (\<lambda>parsed.
     Inr (case parsed of None \<Rightarrow> (Some ''data profile is not valid JSON'', []) | Some v \<Rightarrow> profile_error content v))"

text \<open>The first \<open>n\<close> characters of a UTF-8 string.\<close>

definition first_chars :: "nat \<Rightarrow> string \<Rightarrow> string" where
  "first_chars n s = take (length s - length (drop_chars n s)) s"

definition count_items :: "json \<Rightarrow> int" where
  "count_items v = (case v of JObj items \<Rightarrow> int (length items) | JArr vs \<Rightarrow> int (length vs) | _ \<Rightarrow> 0)"

definition validate_evaluation_report ::
  "(string \<Rightarrow> json option result) \<Rightarrow> string \<Rightarrow> (string option \<times> (string \<times> json) list) result" where
  "validate_evaluation_report loads content =
     bindE (loads content) (\<lambda>parsed.
     case parsed of
       None \<Rightarrow> Inr (Some ''evaluation report is not valid JSON'', [])
     | Some v \<Rightarrow>
         (case report_from_dict v of
            Inl (ValueError m) \<Rightarrow> Inr (Some (''evaluation report is invalid: '' @ first_chars 512 m), [])
          | Inl (TypeError m) \<Rightarrow> Inr (Some (''evaluation report is invalid: '' @ first_chars 512 m), [])
          | Inl e \<Rightarrow> Inl e
          | Inr r \<Rightarrow> Inr (None, [(''schema_version'', JStr (er_schema_version r)), (''evaluator_id'', JStr (er_evaluator_id r)),
              (''validity'', er_validity r), (''combined_score'', er_score r),
              (''detailed_score_count'', JInt (count_items (er_detailed r))), (''error_count'', JInt (int (length (er_errors r))))])))"

section \<open>Rules\<close>

record eval_env =
  ev_workspace :: workspace
  ev_loads :: "string \<Rightarrow> json option result"

record rule_check =
  rc_passed :: bool
  rc_evidence :: "string list"
  rc_reason :: string
  rc_detail :: json

definition detail :: "string \<Rightarrow> bool \<Rightarrow> string \<Rightarrow> (string \<times> json) list \<Rightarrow> json" where
  "detail rule passed reason metadata =
     JObj ([(''rule'', JStr rule), (''passed'', JBool passed), (''reason'', JStr reason)] @ metadata)"

definition leaf_check ::
  "string \<Rightarrow> bool \<Rightarrow> string \<Rightarrow> string \<Rightarrow> string \<Rightarrow> (string \<times> json) list \<Rightarrow> rule_check" where
  "leaf_check rule passed evidence good bad metadata =
     (let reason = (if passed then good else bad) in
      \<lparr>rc_passed = passed, rc_evidence = (if passed then [evidence] else []), rc_reason = reason,
       rc_detail = detail rule passed reason metadata\<rparr>)"

text \<open>Payloads are read from compiled contracts, whose shapes \<open>compile_leaf\<close> has fixed.\<close>

definition text_at :: "json \<Rightarrow> string \<Rightarrow> string" where
  "text_at payload k = (case payload of JObj items \<Rightarrow> str_of (getn items k) | _ \<Rightarrow> [])"

definition texts_at :: "json \<Rightarrow> string \<Rightarrow> string list" where
  "texts_at payload k = (case payload of JObj items \<Rightarrow> (case getn items k of JArr vs \<Rightarrow> map str_of vs | _ \<Rightarrow> []) | _ \<Rightarrow> [])"

definition check_result_contains :: "string \<Rightarrow> json \<Rightarrow> rule_check" where
  "check_result_contains res payload =
     (let t = str_of payload in
      leaf_check ''result_contains'' (contains t res) (''result contains '' @ repr_str t)
        (''result contains required text '' @ repr_str t) (''result does not contain required text '' @ repr_str t) [])"

definition check_artifact_exists :: "workspace \<Rightarrow> json \<Rightarrow> rule_check" where
  "check_artifact_exists ws payload =
     (let p = str_of payload; err = artifact_error ws p in
      leaf_check ''artifact_exists'' (err = None) (''artifact exists: '' @ p) (''artifact exists: '' @ p)
        (''artifact '' @ repr_str p @ '': '' @ (case err of None \<Rightarrow> [] | Some m \<Rightarrow> m)) [(''path'', payload)])"

definition check_text_contains :: "workspace \<Rightarrow> json \<Rightarrow> rule_check" where
  "check_text_contains ws payload =
     (let p = text_at payload ''path''; t = text_at payload ''contains''; content = read_artifact ws p in
      leaf_check ''artifact_text_contains'' (case content of Inl err \<Rightarrow> False | Inr c \<Rightarrow> contains t c)
        (''artifact '' @ p @ '' contains required text'') (''artifact '' @ repr_str p @ '' contains required text'')
        (''artifact '' @ repr_str p @
          (case content of Inl err \<Rightarrow> '': '' @ err | Inr c \<Rightarrow> '' does not contain required text '' @ repr_str t))
        [(''path'', JStr p)])"

text \<open>The decoded JSON of an artifact, or why there is none.\<close>

definition read_json :: "eval_env \<Rightarrow> string \<Rightarrow> (string + json) result" where
  "read_json ev p =
     (case read_artifact (ev_workspace ev) p of
        Inl err \<Rightarrow> Inr (Inl err)
      | Inr content \<Rightarrow>
          bindE (ev_loads ev content) (\<lambda>parsed.
          Inr (case parsed of None \<Rightarrow> Inl ''artifact does not contain valid JSON'' | Some v \<Rightarrow> Inr v)))"

definition check_json_parse :: "eval_env \<Rightarrow> json \<Rightarrow> rule_check result" where
  "check_json_parse ev payload =
     (let p = str_of payload in
      bindE (read_json ev p) (\<lambda>parsed.
      Inr (leaf_check ''json_parse'' (case parsed of Inl err \<Rightarrow> False | Inr v \<Rightarrow> True) (''artifact parses as JSON: '' @ p)
             (''artifact '' @ repr_str p @ '' parses as JSON'')
             (''artifact '' @ repr_str p @ '': '' @ (case parsed of Inl err \<Rightarrow> err | Inr v \<Rightarrow> [])) [(''path'', payload)])))"

definition check_json_keys :: "eval_env \<Rightarrow> json \<Rightarrow> rule_check result" where
  "check_json_keys ev payload =
     (let p = text_at payload ''path''; required = texts_at payload ''keys'' in
      bindE (read_json ev p) (\<lambda>parsed.
      let missing = (case parsed of Inr (JObj items) \<Rightarrow> missing_of items required | _ \<Rightarrow> required) in
      Inr (leaf_check ''json_has_keys'' ((case parsed of Inl err \<Rightarrow> False | Inr v \<Rightarrow> True) \<and> missing = [])
             (''artifact JSON has required keys: '' @ p)
             (''artifact '' @ repr_str p @
                (case parsed of Inr (JObj items) \<Rightarrow> '' JSON has required top-level keys'' | _ \<Rightarrow> '' JSON root is not an object''))
             (''artifact '' @ repr_str p @
                (case parsed of
                   Inl err \<Rightarrow> '': '' @ err
                 | Inr (JObj items) \<Rightarrow> '' JSON is missing top-level keys: '' @ join_with '', '' missing
                 | Inr _ \<Rightarrow> '' JSON root is not an object''))
             [(''path'', JStr p), (''keys'', strs_json required), (''missing'', strs_json missing)])))"

function as_output :: "string \<Rightarrow> string" where
  "as_output s =
     (if starts_with '' artifact'' s then '' output'' @ as_output (drop 9 s)
      else case s of [] \<Rightarrow> [] | c # cs \<Rightarrow> c # as_output cs)"
  by pat_completeness auto
termination
  by (relation "measure length") (auto dest: prefix_length_le)

declare as_output.simps [simp del]

definition opt_nat_json :: "nat option \<Rightarrow> json" where
  "opt_nat_json v = (case v of None \<Rightarrow> JNull | Some n \<Rightarrow> JInt (int n))"

text \<open>\<^verbatim>\<open>output_valid\<close> and \<^verbatim>\<open>artifact_valid\<close>; the former says "output" where the checks say "artifact".\<close>

definition check_structured :: "eval_env \<Rightarrow> string \<Rightarrow> string \<Rightarrow> json \<Rightarrow> rule_check result" where
  "check_structured ev rule noun payload =
     (let p = text_at payload ''path''; fmt = text_at payload ''format''; names = texts_at payload ''fields'' in
      bindE (case read_artifact (ev_workspace ev) p of
               Inl err \<Rightarrow> Inr (Some err, None, [])
             | Inr content \<Rightarrow>
                 bindE (structured_content_check (ev_loads ev) content fmt names) (\<lambda>(err, n, observed).
                 Inr (if rule = ''output_valid'' then map_option as_output err else err, n, observed))) (\<lambda>(err, n, observed).
      Inr (leaf_check rule (err = None) (noun @ '' valid: '' @ p)
             (noun @ '' '' @ repr_str p @ '' is a valid '' @ fmt @ '' artifact'')
             (noun @ '' '' @ repr_str p @ '': '' @ (case err of None \<Rightarrow> [] | Some m \<Rightarrow> m))
             [(''path'', JStr p), (''format'', JStr fmt), (''fields'', strs_json names), (''row_count'', opt_nat_json n),
              (''observed_fields'', strs_json (take MAX_OUTPUT_FIELDS observed))])))"

definition check_document ::
  "eval_env \<Rightarrow> string \<Rightarrow> string \<Rightarrow> ((string \<Rightarrow> json option result) \<Rightarrow> string \<Rightarrow> (string option \<times> (string \<times> json) list) result)
     \<Rightarrow> json \<Rightarrow> rule_check result" where
  "check_document ev rule noun validate payload =
     (let p = str_of payload in
      bindE (case read_artifact (ev_workspace ev) p of
               Inl err \<Rightarrow> Inr (Some err, [])
             | Inr content \<Rightarrow> validate (ev_loads ev) content) (\<lambda>(err, metadata).
      Inr (leaf_check rule (err = None) (noun @ '' valid: '' @ p) (noun @ '' '' @ repr_str p @ '' is valid'')
             (noun @ '' '' @ repr_str p @ '': '' @ (case err of None \<Rightarrow> [] | Some m \<Rightarrow> m)) ((''path'', payload) # metadata))))"

definition evaluate_leaf :: "eval_env \<Rightarrow> string \<Rightarrow> string \<Rightarrow> json \<Rightarrow> rule_check result option" where
  "evaluate_leaf ev res name payload =
     (if name = ''result_contains'' then Some (Inr (check_result_contains res payload))
      else if name = ''artifact_exists'' then Some (Inr (check_artifact_exists (ev_workspace ev) payload))
      else if name = ''artifact_text_contains'' then Some (Inr (check_text_contains (ev_workspace ev) payload))
      else if name = ''json_parse'' then Some (check_json_parse ev payload)
      else if name = ''json_has_keys'' then Some (check_json_keys ev payload)
      else if name = ''output_valid'' then Some (check_structured ev name ''output'' payload)
      else if name = ''artifact_valid'' then Some (check_structured ev name ''artifact'' payload)
      else if name = ''data_profile_valid'' then Some (check_document ev name ''data profile'' validate_data_profile payload)
      else if name = ''evaluation_report_valid''
      then Some (check_document ev name ''evaluation report'' validate_evaluation_report payload)
      else None)"

definition combine_checks :: "string \<Rightarrow> rule_check list \<Rightarrow> rule_check result" where
  "combine_checks name children =
     (let passed = (if name = ''all'' then list_all rc_passed children else list_ex rc_passed children);
          failures = map rc_reason (filter (\<lambda>c. \<not> rc_passed c) children);
          done = (\<lambda>reason. \<lparr>rc_passed = passed, rc_evidence = concat (map rc_evidence children), rc_reason = reason,
                    rc_detail = detail name passed reason [(''children'', JArr (map rc_detail children))]\<rparr>)
      in if passed
         then Inr (done (if name = ''all'' then ''all '' @ show_nat (length children) @ '' acceptance rules passed''
                         else ''at least one acceptance rule passed''))
         else case failures of
                [] \<Rightarrow> Inl (IndexError ''list index out of range'')
              | f # _ \<Rightarrow> Inr (done ((if name = ''all'' then ''all acceptance rule failed: '' else ''no any acceptance rule passed: '') @ f)))"

fun evaluate_rule :: "eval_env \<Rightarrow> string \<Rightarrow> json \<Rightarrow> rule_check result"
and evaluate_rules :: "eval_env \<Rightarrow> string \<Rightarrow> json list \<Rightarrow> rule_check list result" where
  "evaluate_rule ev res (JObj ((name, JArr rules) # items)) =
     (case evaluate_leaf ev res name (JArr rules) of
        Some check \<Rightarrow> check
      | None \<Rightarrow> bindE (evaluate_rules ev res rules) (combine_checks name))"
| "evaluate_rule ev res (JObj ((name, payload) # items)) =
     (case evaluate_leaf ev res name payload of
        Some check \<Rightarrow> check
      | None \<Rightarrow> Inl (TypeError ''acceptance rules must be an array''))"
| "evaluate_rule ev res rule = Inl (TypeError ''acceptance rule must be an object'')"
| "evaluate_rules ev res [] = Inr []"
| "evaluate_rules ev res (r # rs) =
     bindE (evaluate_rule ev res r) (\<lambda>c. bindE (evaluate_rules ev res rs) (\<lambda>cs. Inr (c # cs)))"

section \<open>Evaluators\<close>

record evaluation =
  en_passed :: bool
  en_evidence :: "string list"
  en_reason :: string
  en_details :: json

definition evaluate_contract :: "eval_env \<Rightarrow> json \<Rightarrow> string \<Rightarrow> evaluation result" where
  "evaluate_contract ev contract res =
     bindE (evaluate_rule ev res contract) (\<lambda>c.
     Inr \<lparr>en_passed = rc_passed c, en_evidence = rc_evidence c, en_reason = rc_reason c,
          en_details = JObj [(''kind'', JStr ''acceptance_contract''), (''contract'', contract), (''check'', rc_detail c)]\<rparr>)"

definition evaluate_non_empty :: "string \<Rightarrow> evaluation" where
  "evaluate_non_empty res =
     (let passed = (strip res \<noteq> []) in
      \<lparr>en_passed = passed, en_evidence = (if passed then [''result.txt contains non-empty output''] else []),
       en_reason = (if passed then ''result is non-empty'' else ''result is empty''),
       en_details = JObj [(''kind'', JStr ''non_empty''), (''passed'', JBool passed)]\<rparr>)"

definition evaluate_contains :: "string \<Rightarrow> string \<Rightarrow> evaluation" where
  "evaluate_contains expected res =
     (let passed = contains expected res in
      \<lparr>en_passed = passed, en_evidence = (if passed then [''result contains '' @ repr_str expected] else []),
       en_reason = (if passed then ''result contains required text '' else ''result does not contain required text '') @ repr_str expected,
       en_details = JObj [(''kind'', JStr ''result_contains''), (''passed'', JBool passed)]\<rparr>)"

definition acceptance_evaluator ::
  "(string \<Rightarrow> json option) \<Rightarrow> json \<Rightarrow> (eval_env \<Rightarrow> string \<Rightarrow> evaluation result) option result" where
  "acceptance_evaluator loads value =
     bindE (compile_acceptance loads value) (\<lambda>c. Inr (map_option (\<lambda>contract ev. evaluate_contract ev contract) c))"

text \<open>Is an optional output absent below ordinary directories?  \<open>i\<close> walks from the path up to the root.\<close>

fun needs_check_from :: "workspace \<Rightarrow> string list \<Rightarrow> nat \<Rightarrow> bool" where
  "needs_check_from ws parts i =
     (let kind = ws_kind ws (take i parts) in
      if kind = Link then True
      else if kind \<noteq> Absent \<and> (i = length parts \<or> kind \<noteq> Directory) then True
      else case i of 0 \<Rightarrow> False | Suc j \<Rightarrow> needs_check_from ws parts j)"

declare needs_check_from.simps [simp del]

definition optional_output_needs_check :: "workspace \<Rightarrow> string \<Rightarrow> bool" where
  "optional_output_needs_check ws p = needs_check_from ws (path_parts p) (length (path_parts p))"

definition output_rule :: "output_spec \<Rightarrow> json" where
  "output_rule u = JObj [(''output_valid'', JObj [(''path'', JStr (ou_path u)), (''format'', JStr (ou_format u)),
     (''fields'', strs_json (ou_fields u))])]"

definition check_of :: "evaluation \<Rightarrow> json" where
  "check_of e = (case en_details e of JObj items \<Rightarrow> getn items ''check'' | _ \<Rightarrow> JNull)"

definition evaluate_output :: "(string \<Rightarrow> json option) \<Rightarrow> eval_env \<Rightarrow> output_spec \<Rightarrow> evaluation result" where
  "evaluate_output loads ev u =
     bindE (acceptance_evaluator loads (output_rule u)) (\<lambda>validator.
     case validator of None \<Rightarrow> Inl (RuntimeError ''AssertionError'') | Some evaluate \<Rightarrow> evaluate ev [])"

definition evaluate_output_contract ::
  "(string \<Rightarrow> json option) \<Rightarrow> eval_env \<Rightarrow> output_spec list \<Rightarrow> evaluation result" where
  "evaluate_output_contract loads ev outputs =
     bindE (guardE (MAX_OUTPUTS < length outputs) (ValueError ''outputs exceed the bounded declaration limit'')) (\<lambda>_.
     bindE (guardE (\<not> distinct (map ou_path outputs)) (ValueError ''output paths must be unique'')) (\<lambda>_.
     bindE (mapE (evaluate_output loads ev)
              (filter (\<lambda>u. ou_required u \<or> optional_output_needs_check (ev_workspace ev) (ou_path u)) outputs)) (\<lambda>checks.
     let failed = filter (\<lambda>c. \<not> en_passed c) checks in
     Inr \<lparr>en_passed = (failed = []), en_evidence = concat (map en_evidence checks),
          en_reason = (case failed of
             f # _ \<Rightarrow> ''output contract failed: '' @ en_reason f
           | [] \<Rightarrow> if checks \<noteq> [] then ''all '' @ show_nat (length checks) @ '' declared output checks passed''
                   else ''no declared output requires validation''),
          en_details = JObj [(''kind'', JStr ''output_contract''), (''checks'', JArr (map check_of checks))]\<rparr>)))"

end
