(* ===== verification/AcceptanceSound.thy ===== *)
theory AcceptanceSound imports AcceptanceEval begin

text \<open>
  What a verdict of the acceptance evaluator means.  \<open>rule_met\<close> says when a compiled rule holds of a result
  and a workspace, without reasons, evidence and details; the evaluator decides it, backs every pass with
  evidence, and never looks at a file it must not follow.
\<close>

section \<open>The meaning of a rule\<close>

definition file_holds :: "eval_env \<Rightarrow> string \<Rightarrow> (string \<Rightarrow> bool) \<Rightarrow> bool" where
  "file_holds ev p P \<longleftrightarrow> (\<exists>content. read_artifact (ev_workspace ev) p = Inr content \<and> P content)"

definition json_holds :: "eval_env \<Rightarrow> string \<Rightarrow> (json \<Rightarrow> bool) \<Rightarrow> bool" where
  "json_holds ev p P \<longleftrightarrow> file_holds ev p (\<lambda>content. \<exists>v. ev_loads ev content = Inr (Some v) \<and> P v)"

definition leaf_met :: "eval_env \<Rightarrow> string \<Rightarrow> string \<Rightarrow> json \<Rightarrow> bool" where
  "leaf_met ev res name payload \<longleftrightarrow>
     (name = ''result_contains'' \<and> sublist (str_of payload) res)
     \<or> (name = ''artifact_exists'' \<and> artifact_error (ev_workspace ev) (str_of payload) = None)
     \<or> (name = ''artifact_text_contains'' \<and> file_holds ev (text_at payload ''path'') (sublist (text_at payload ''contains'')))
     \<or> (name = ''json_parse'' \<and> json_holds ev (str_of payload) (\<lambda>v. True))
     \<or> (name = ''json_has_keys'' \<and> json_holds ev (text_at payload ''path'')
          (\<lambda>v. \<forall>k\<in>set (texts_at payload ''keys''). \<exists>items. v = JObj items \<and> k \<in> fst ` set items))
     \<or> (name \<in> {''output_valid'', ''artifact_valid''} \<and> file_holds ev (text_at payload ''path'')
          (\<lambda>content. \<exists>n observed. structured_content_check (ev_loads ev) content (text_at payload ''format'')
             (texts_at payload ''fields'') = Inr (None, n, observed)))
     \<or> (name = ''data_profile_valid'' \<and> file_holds ev (str_of payload)
          (\<lambda>content. \<exists>v. ev_loads ev content = Inr (Some v) \<and> fst (profile_error content v) = None))
     \<or> (name = ''evaluation_report_valid'' \<and> json_holds ev (str_of payload) (\<lambda>v. \<exists>r. report_from_dict v = Inr r))"

fun rule_met :: "eval_env \<Rightarrow> string \<Rightarrow> json \<Rightarrow> bool"
and rules_met :: "eval_env \<Rightarrow> string \<Rightarrow> json list \<Rightarrow> bool list" where
  "rule_met ev res (JObj [(name, JArr rules)]) =
     (if name = ''all'' then False \<notin> set (rules_met ev res rules)
      else if name = ''any'' then True \<in> set (rules_met ev res rules)
      else leaf_met ev res name (JArr rules))"
| "rule_met ev res (JObj [(name, payload)]) = leaf_met ev res name payload"
| "rule_met ev res rule = False"
| "rules_met ev res [] = []"
| "rules_met ev res (r # rs) = rule_met ev res r # rules_met ev res rs"

text \<open>The shape of compiled rules.\<close>

definition leaf_names :: "string list" where
  "leaf_names = [''result_contains'', ''artifact_exists'', ''artifact_text_contains'', ''json_parse'', ''json_has_keys'',
     ''output_valid'', ''artifact_valid'', ''data_profile_valid'', ''evaluation_report_valid'']"

fun canonical_rule :: "json \<Rightarrow> bool" and canonical_rules :: "json list \<Rightarrow> bool" where
  "canonical_rule (JObj [(name, JArr rules)]) =
     (if name \<in> {''all'', ''any''} then rules \<noteq> [] \<and> canonical_rules rules else name \<in> set leaf_names)"
| "canonical_rule (JObj [(name, payload)]) = (name \<in> set leaf_names)"
| "canonical_rule rule = False"
| "canonical_rules [] = True"
| "canonical_rules (r # rs) = (canonical_rule r \<and> canonical_rules rs)"

lemma canonical_leaf: "name \<in> set leaf_names \<Longrightarrow> canonical_rule (JObj [(name, payload)])"
  by (cases payload) (auto simp: leaf_names_def)

lemma compile_leaf_known: "compile_leaf rule payload = Inr r \<Longrightarrow> rule = ''contains'' \<or> rule \<in> set leaf_names"
  by (rule ccontr) (simp add: compile_leaf_def leaf_names_def)

lemma compile_leaf_named:
  assumes "compile_leaf rule payload = Inr r"
  shows "\<exists>name p. r = JObj [(name, p)] \<and> name \<in> set leaf_names"
proof -
  have "rule \<noteq> ''all''" "rule \<noteq> ''any''" using compile_leaf_known [OF assms] by (auto simp: leaf_names_def)
  from compile_leaf_idem [OF assms this] obtain name p where r: "r = JObj [(name, p)]" "compile_leaf name p = Inr r" by blast
  moreover have "name \<noteq> ''contains''"
  proof
    assume "name = ''contains''"
    with r(2) have "\<exists>t. r = JObj [(''result_contains'', JStr t)]" by (auto simp: compile_leaf_def bindE_Inr_iff)
    with r(1) \<open>name = ''contains''\<close> show False by simp
  qed
  ultimately show ?thesis using compile_leaf_known by blast
qed

lemma compile_rule_shape:
  "compile_rule v d c = Inr (r, n) \<Longrightarrow> canonical_rule r"
  "compile_rules vs d c = Inr (rs, n) \<Longrightarrow> canonical_rules rs \<and> (rs = [] \<longleftrightarrow> vs = [])"
proof (induction v d c and vs d c arbitrary: r n and rs n rule: compile_rule_compile_rules.induct)
  case (1 v d c)
  from "1.prems" have d: "d \<le> MAX_RULE_DEPTH" by (subst (asm) compile_rule.simps) (auto split: if_splits)
  from "1.prems" d obtain rule p where v: "v = JObj [(rule, p)]"
    by (subst (asm) compile_rule.simps) (auto split: json.splits list.splits)
  from "1.prems" d v have c: "Suc c \<le> MAX_RULES" by (subst (asm) compile_rule.simps) (auto split: if_splits)
  show ?case
  proof (cases "rule = ''all'' \<or> rule = ''any''")
    case True
    from "1.prems" d v c True obtain x xs rs where p: "p = JArr (x # xs)"
        and rs: "compile_rules (x # xs) (Suc d) (Suc c) = Inr (rs, n)" and r: "r = JObj [(rule, JArr rs)]"
      by (subst (asm) compile_rule.simps) (auto simp: bindE_Inr_iff split: json.splits list.splits if_splits)
    have "canonical_rules rs \<and> (rs = [] \<longleftrightarrow> x # xs = [])"
      using "1.IH" [of "[(rule, p)]" "(rule, p)" "[]" rule p "x # xs" x xs rs n] d v c p True rs by auto
    then show ?thesis using r True by auto
  next
    case False
    from "1.prems" d v c False have "compile_leaf rule p = Inr r"
      by (subst (asm) compile_rule.simps) (auto simp: bindE_Inr_iff split: if_splits)
    from compile_leaf_named [OF this] show ?thesis using canonical_leaf by auto
  qed
next
  case (3 v vs d c)
  then show ?case by (auto simp: bindE_Inr_iff)
qed simp

lemma compiled_shape:
  assumes "compile_acceptance loads v = Inr (Some r)"
  shows "canonical_rule r"
proof -
  from assms obtain w where w: "(case w of JStr s \<Rightarrow> Inr (Some (JObj [(''result_contains'', JStr s)]))
      | _ \<Rightarrow> bindE (compile_rule w 1 0) (\<lambda>(r, n). Inr (Some r))) = Inr (Some r)"
    unfolding compile_acceptance_def by (auto simp: bindE_Inr_iff split: if_splits)
  show ?thesis
  proof (cases "\<exists>s. w = JStr s")
    case True
    with w show ?thesis by (auto simp: leaf_names_def)
  next
    case False
    with w obtain n where "compile_rule w 1 0 = Inr (r, n)" by (cases w) (auto simp: bindE_Inr_iff)
    then show ?thesis by (rule compile_rule_shape)
  qed
qed

section \<open>The evaluator decides the meaning\<close>

definition faithful_check :: "bool \<Rightarrow> rule_check \<Rightarrow> bool" where
  "faithful_check met c \<longleftrightarrow> rc_passed c = met \<and> (rc_evidence c \<noteq> [] \<or> \<not> met)"

lemma faithful_leaf: "passed = met \<Longrightarrow> faithful_check met (leaf_check rule passed evidence good bad metadata)"
  by (simp add: faithful_check_def leaf_check_def Let_def)

text \<open>The reader never raises, and a decoded report is accepted or rejected with an error the evaluator catches.\<close>

definition reads_safely :: "eval_env \<Rightarrow> bool" where
  "reads_safely ev \<longleftrightarrow> (\<forall>content. \<exists>parsed. ev_loads ev content = Inr parsed
     \<and> (\<forall>v. parsed = Some v \<longrightarrow> (\<exists>r. report_from_dict v = Inr r) \<or> (\<exists>m. report_from_dict v \<in> {Inl (ValueError m), Inl (TypeError m)})))"

lemma reads_safelyE:
  assumes "reads_safely ev"
  obtains parsed where "ev_loads ev content = Inr parsed"
  using assms by (auto simp: reads_safely_def)

lemma jsonl_total: "reads_safely ev \<Longrightarrow> \<exists>x. jsonl_rows (ev_loads ev) i names ls n observed = Inr x"
proof (induction ls arbitrary: i n observed)
  case (Cons l ls)
  obtain parsed where "ev_loads ev l = Inr parsed" using Cons.prems by (rule reads_safelyE)
  then show ?case using Cons by (auto simp: Let_def split: option.split json.split)
qed simp

lemma structured_total:
  assumes "reads_safely ev"
  shows "\<exists>x. structured_content_check (ev_loads ev) content fmt names = Inr x"
proof -
  obtain parsed where parsed: "ev_loads ev content = Inr parsed" using assms by (rule reads_safelyE)
  obtain err n observed where "jsonl_rows (ev_loads ev) 0 names (split_lines [] content) 0 [] = Inr (err, n, observed)"
    using jsonl_total [OF assms] by (metis prod_cases3)
  then show ?thesis
    by (cases "fmt = ''json''"; cases "fmt = ''jsonl''")
      (simp_all add: structured_content_check_def json_structure_def parsed del: split_paired_Ex)
qed

lemma evaluate_leaf_faithful:
  assumes safe: "reads_safely ev" and "name \<in> set leaf_names"
  shows "\<exists>c. evaluate_leaf ev res name payload = Some (Inr c) \<and> faithful_check (leaf_met ev res name payload) c"
proof -
  have "name = ''result_contains'' \<or> name = ''artifact_exists'' \<or> name = ''artifact_text_contains'' \<or> name = ''json_parse''
    \<or> name = ''json_has_keys'' \<or> name = ''output_valid'' \<or> name = ''artifact_valid'' \<or> name = ''data_profile_valid''
    \<or> name = ''evaluation_report_valid''" using assms(2) by (simp add: leaf_names_def)
  then consider "name = ''result_contains''" | "name = ''artifact_exists''" | "name = ''artifact_text_contains''"
    | "name = ''json_parse''" | "name = ''json_has_keys''" | "name = ''output_valid'' \<or> name = ''artifact_valid''"
    | "name = ''data_profile_valid''" | "name = ''evaluation_report_valid''"
    by fast
  then show ?thesis
  proof cases
    case 1
    then show ?thesis by (simp add: evaluate_leaf_def check_result_contains_def leaf_met_def Let_def contains_sublist faithful_leaf)
  next
    case 2
    then show ?thesis by (simp add: evaluate_leaf_def check_artifact_exists_def leaf_met_def Let_def faithful_leaf)
  next
    case 3
    then show ?thesis
      by (simp add: evaluate_leaf_def check_text_contains_def leaf_met_def file_holds_def Let_def contains_sublist faithful_leaf
          split: sum.split)
  next
    case 4
    show ?thesis
    proof (cases "read_artifact (ev_workspace ev) (str_of payload)")
      case (Inr content)
      obtain parsed where "ev_loads ev content = Inr parsed" using safe by (rule reads_safelyE)
      then show ?thesis using 4 Inr
        by (cases parsed) (simp_all add: evaluate_leaf_def check_json_parse_def read_json_def leaf_met_def file_holds_def json_holds_def
            Let_def faithful_leaf)
    qed (use 4 in \<open>simp add: evaluate_leaf_def check_json_parse_def read_json_def leaf_met_def file_holds_def json_holds_def
            Let_def faithful_leaf\<close>)
  next
    case 5
    show ?thesis
    proof (cases "read_artifact (ev_workspace ev) (text_at payload ''path'')")
      case (Inr content)
      obtain parsed where "ev_loads ev content = Inr parsed" using safe by (rule reads_safelyE)
      then show ?thesis using 5 Inr
        by (cases parsed) (auto simp: evaluate_leaf_def check_json_keys_def read_json_def leaf_met_def file_holds_def json_holds_def
            Let_def missing_of_def filter_empty_conv intro!: faithful_leaf split: json.split)
    qed (use 5 in \<open>simp add: evaluate_leaf_def check_json_keys_def read_json_def leaf_met_def file_holds_def json_holds_def
            Let_def faithful_leaf\<close>)
  next
    case 6
    show ?thesis
    proof (cases "read_artifact (ev_workspace ev) (text_at payload ''path'')")
      case (Inr content)
      obtain err n observed where "structured_content_check (ev_loads ev) content (text_at payload ''format'') (texts_at payload ''fields'') =
          Inr (err, n, observed)" using structured_total [OF safe] by (metis prod_cases3)
      then show ?thesis using 6 Inr
        by (auto simp: evaluate_leaf_def check_structured_def leaf_met_def file_holds_def Let_def intro!: faithful_leaf)
    qed (use 6 in \<open>auto simp: evaluate_leaf_def check_structured_def leaf_met_def file_holds_def Let_def intro!: faithful_leaf\<close>)
  next
    case 7
    show ?thesis
    proof (cases "read_artifact (ev_workspace ev) (str_of payload)")
      case (Inr content)
      obtain parsed where "ev_loads ev content = Inr parsed" using safe by (rule reads_safelyE)
      then show ?thesis using 7 Inr
        by (cases parsed) (simp_all add: evaluate_leaf_def check_document_def validate_data_profile_def leaf_met_def file_holds_def
            Let_def case_prod_beta faithful_leaf)
    qed (use 7 in \<open>simp add: evaluate_leaf_def check_document_def leaf_met_def file_holds_def Let_def faithful_leaf\<close>)
  next
    case 8
    show ?thesis
    proof (cases "read_artifact (ev_workspace ev) (str_of payload)")
      case (Inr content)
      from safe obtain parsed where parsed: "ev_loads ev content = Inr parsed"
        "\<And>v. parsed = Some v \<Longrightarrow> (\<exists>r. report_from_dict v = Inr r) \<or> (\<exists>m. report_from_dict v \<in> {Inl (ValueError m), Inl (TypeError m)})"
        unfolding reads_safely_def by metis
      then show ?thesis using 8 Inr
        by (cases parsed) (auto simp: evaluate_leaf_def check_document_def validate_evaluation_report_def leaf_met_def file_holds_def
            json_holds_def Let_def intro!: faithful_leaf)
    qed (use 8 in \<open>simp add: evaluate_leaf_def check_document_def leaf_met_def file_holds_def json_holds_def Let_def faithful_leaf\<close>)
  qed
qed

lemma faithful_lists:
  assumes "list_all2 faithful_check ms cs"
  shows "list_all rc_passed cs \<longleftrightarrow> False \<notin> set ms" and "list_ex rc_passed cs \<longleftrightarrow> True \<in> set ms"
    and "cs = [] \<longleftrightarrow> ms = []" and "list_ex rc_passed cs \<Longrightarrow> concat (map rc_evidence cs) \<noteq> []"
  using assms by (induction rule: list_all2_induct) (auto simp: faithful_check_def)

lemma combine_faithful:
  assumes checks: "list_all2 faithful_check ms cs" and "ms \<noteq> []" and "name = ''all'' \<or> name = ''any''"
  shows "\<exists>c. combine_checks name cs = Inr c \<and> faithful_check (if name = ''all'' then False \<notin> set ms else True \<in> set ms) c"
proof -
  note facts = faithful_lists [OF checks]
  let ?passed = "if name = ''all'' then list_all rc_passed cs else list_ex rc_passed cs"
  have met: "?passed = (if name = ''all'' then False \<notin> set ms else True \<in> set ms)" using facts by simp
  have "cs \<noteq> []" using facts(3) assms(2) by simp
  then have some: "list_ex rc_passed cs" if ?passed using that by (cases cs) (auto split: if_splits)
  show ?thesis
  proof (cases ?passed)
    case True
    with some facts(4) show ?thesis unfolding met [symmetric] by (auto simp: combine_checks_def Let_def faithful_check_def)
  next
    case False
    then have "\<exists>c\<in>set cs. \<not> rc_passed c" using \<open>cs \<noteq> []\<close> by (cases cs) (auto simp: list_all_iff list_ex_iff split: if_splits)
    then have "map rc_reason (filter (\<lambda>c. \<not> rc_passed c) cs) \<noteq> []" by (simp add: filter_empty_conv)
    then obtain f fs where "map rc_reason (filter (\<lambda>c. \<not> rc_passed c) cs) = f # fs" by (auto simp: neq_Nil_conv)
    with False show ?thesis unfolding met [symmetric] combine_checks_def Let_def by (simp add: faithful_check_def)
  qed
qed

lemma rules_met_Nil: "rules_met ev res rs = [] \<longleftrightarrow> rs = []"
  by (cases rs) auto

lemma leaf_faithful:
  assumes "reads_safely ev" and "name \<in> set leaf_names" and "rule_met ev res (JObj [(name, payload)]) = leaf_met ev res name payload"
  shows "\<exists>c. evaluate_rule ev res (JObj [(name, payload)]) = Inr c \<and> faithful_check (rule_met ev res (JObj [(name, payload)])) c"
proof -
  from evaluate_leaf_faithful [OF assms(1,2)] obtain c where c: "evaluate_leaf ev res name payload = Some (Inr c)"
    "faithful_check (leaf_met ev res name payload) c" by blast
  then have "evaluate_rule ev res (JObj [(name, payload)]) = Inr c" by (cases payload) simp_all
  with c(2) assms(3) show ?thesis by simp
qed

lemma combinator_no_leaf: "name = ''all'' \<or> name = ''any'' \<Longrightarrow> evaluate_leaf ev res name payload = None"
  by (elim disjE) (simp_all add: evaluate_leaf_def)

lemma evaluate_faithful:
  assumes safe: "reads_safely ev"
  shows "canonical_rule r \<Longrightarrow> \<exists>c. evaluate_rule ev res r = Inr c \<and> faithful_check (rule_met ev res r) c"
    and "canonical_rules rs \<Longrightarrow> \<exists>cs. evaluate_rules ev res rs = Inr cs \<and> list_all2 faithful_check (rules_met ev res rs) cs"
proof (induction r and rs rule: canonical_rule_canonical_rules.induct)
  case (1 name rules)
  show ?case
  proof (cases "name = ''all'' \<or> name = ''any''")
    case True
    with 1 obtain cs where cs: "evaluate_rules ev res rules = Inr cs" "list_all2 faithful_check (rules_met ev res rules) cs"
      and "rules \<noteq> []" by auto
    from combine_faithful [OF cs(2) _ True] rules_met_Nil \<open>rules \<noteq> []\<close> obtain c where
      "combine_checks name cs = Inr c"
      "faithful_check (if name = ''all'' then False \<notin> set (rules_met ev res rules) else True \<in> set (rules_met ev res rules)) c" by blast
    with cs(1) True show ?thesis by (auto simp: combinator_no_leaf)
  next
    case False
    with 1(2) have "name \<in> set leaf_names" by simp
    with False show ?thesis by (intro leaf_faithful [OF safe]) simp_all
  qed
qed (((rule leaf_faithful [OF safe]; simp) | auto)+)


section \<open>The evaluator looks at nothing else\<close>

lemma evaluate_leaf_same:
  assumes "artifact_error w' = artifact_error w" and "read_artifact w' = read_artifact w"
  shows "evaluate_leaf (ev\<lparr>ev_workspace := w'\<rparr>) res name payload = evaluate_leaf (ev\<lparr>ev_workspace := w\<rparr>) res name payload"
  unfolding evaluate_leaf_def check_artifact_exists_def check_text_contains_def check_json_parse_def check_json_keys_def
    check_structured_def check_document_def read_json_def
  by (cases ev) (simp only: assms eval_env.simps eval_env.update_convs eval_env.select_convs)

lemma evaluate_leaf_None: "evaluate_leaf ev res name payload = None \<Longrightarrow> evaluate_leaf ev' res' name payload' = None"
  unfolding evaluate_leaf_def by (simp split: if_splits)

lemma evaluate_rule_same:
  assumes "artifact_error w' = artifact_error w" and "read_artifact w' = read_artifact w"
  shows "evaluate_rule (ev\<lparr>ev_workspace := w'\<rparr>) res r = evaluate_rule (ev\<lparr>ev_workspace := w\<rparr>) res r"
    and "evaluate_rules (ev\<lparr>ev_workspace := w'\<rparr>) res rs = evaluate_rules (ev\<lparr>ev_workspace := w\<rparr>) res rs"
proof (induction ev res r and ev res rs rule: evaluate_rule_evaluate_rules.induct)
  case (1 ev res name rules items)
  then show ?case
    by (cases "evaluate_leaf (ev\<lparr>ev_workspace := w\<rparr>) res name (JArr rules)")
      (simp_all add: evaluate_leaf_same [OF assms] evaluate_leaf_None [of "ev\<lparr>ev_workspace := w\<rparr>" res name "JArr rules"])
qed (simp_all add: evaluate_leaf_same [OF assms])

text \<open>C26. A verdict depends on the files of the workspace only through those that are regular, lie inside the
  workspace and are reached without following a link: changing the size or the contents of anything else,
  in particular of the target of a symbolic link, changes no verdict, reason or detail.\<close>

theorem acceptance_is_confined:
  assumes "ws_link w' = ws_link w" and "ws_resolve w' = ws_resolve w" and "ws_kind w' = ws_kind w"
    and "\<And>p. ws_resolve w p = Some True \<Longrightarrow> \<not> raw_path_has_symlink w (path_parts p) \<Longrightarrow> ws_kind w (path_parts p) = Regular \<Longrightarrow>
      ws_file w' (path_parts p) = ws_file w (path_parts p)"
  shows "evaluate_contract (ev\<lparr>ev_workspace := w'\<rparr>) contract res = evaluate_contract (ev\<lparr>ev_workspace := w\<rparr>) contract res"
proof -
  have links: "raw_path_has_symlink w' = raw_path_has_symlink w"
    by (intro ext) (simp add: raw_path_has_symlink_def assms(3))
  have errors: "artifact_error w' = artifact_error w"
    by (intro ext) (simp add: artifact_error_def assms(1-3) links)
  have reads: "read_artifact w' = read_artifact w"
  proof
    fix p
    show "read_artifact w' p = read_artifact w p"
    proof (cases "artifact_error w p")
      case None
      then have "ws_file w' (path_parts p) = ws_file w (path_parts p)"
        by (intro assms(4)) (auto simp: artifact_error_def split: if_splits option.splits)
      with None show ?thesis by (simp add: read_artifact_def errors)
    qed (simp add: read_artifact_def errors)
  qed
  show ?thesis by (simp only: evaluate_contract_def evaluate_rule_same(1) [OF errors reads])
qed

section \<open>Witnesses\<close>

text \<open>A workspace with one regular file, \<^verbatim>\<open>evaluate/report.txt\<close>, and a link \<^verbatim>\<open>out\<close> to somewhere else.\<close>

definition sample_workspace :: workspace where
  "sample_workspace = \<lparr>ws_link = False, ws_resolve = \<lambda>p. Some True,
     ws_kind = \<lambda>parts. if parts = [] \<or> parts = [''evaluate''] then Directory else if parts = [''evaluate'', ''report.txt''] then Regular
       else if parts = [''out''] then Link else Absent,
     ws_file = \<lambda>parts. (4, Some ''done'')\<rparr>"

definition sample_eval :: eval_env where
  "sample_eval = \<lparr>ev_workspace = sample_workspace, ev_loads = \<lambda>content. Inr None\<rparr>"

definition sample_contract :: json where
  "sample_contract = JObj [(''any'', JArr [JObj [(''result_contains'', JStr ''missing'')],
     JObj [(''all'', JArr [JObj [(''result_contains'', JStr ''ok'')],
        JObj [(''artifact_text_contains'', JObj [(''path'', JStr ''evaluate/report.txt''), (''contains'', JStr ''done'')])]])]])]"


theorem acceptance_is_confined_witness:
  "evaluate_contract (sample_eval\<lparr>ev_workspace := sample_workspace\<lparr>ws_file := \<lambda>parts. if parts = [''out''] then (6, Some ''secret'')
      else (4, Some ''done'')\<rparr>\<rparr>) sample_contract ''all ok'' =
   evaluate_contract (sample_eval\<lparr>ev_workspace := sample_workspace\<rparr>) sample_contract ''all ok''"
  by (rule acceptance_is_confined) (auto simp: sample_workspace_def raw_path_has_symlink_def)

end
