(* ===== verification/Recovery.thy ===== *)
theory Recovery imports Scheduler Algorithm begin

text \<open>
  \<^verbatim>\<open>recovery.py\<close>: the advisory recovery policy over a run, its tasks and its events, and
  \<^verbatim>\<open>Controller.recover\<close>, which stores the proposal.  An event is a row of the event table, so its payload is an
  object.  The SHA-256 digest, the file writer and the text of an event id are arguments.
\<close>

section \<open>Proposals\<close>

definition recovery_actions :: "string list" where
  "recovery_actions = [''none'', ''retry'', ''ask_user'', ''propose_patch'', ''propose_replan'', ''stop'']"

definition configuration_markers :: "string list" where
  "configuration_markers = [''permission'', ''authoriz'', ''credential'', ''api key'', ''command not found'',
     ''no such file'', ''configuration'', ''configur'']"

definition recovery_rule_names :: "string list" where
  "recovery_rule_names = [''result_contains'', ''artifact_exists'', ''artifact_text_contains'', ''json_parse'',
     ''json_has_keys'', ''all'', ''any'']"

definition MAX_EVIDENCE :: nat where "MAX_EVIDENCE = 16"
definition MAX_PROPOSAL_QUESTIONS :: nat where "MAX_PROPOSAL_QUESTIONS = 4"

definition safe_identifier_char :: "char \<Rightarrow> bool" where
  "safe_identifier_char c \<longleftrightarrow> is_alnum c \<or> c \<in> set ''._:-''"

definition safe_identifier :: "string option \<Rightarrow> string option" where
  "safe_identifier value =
     (case value of
        None \<Rightarrow> None
      | Some v \<Rightarrow>
          if \<not> (1 \<le> length v \<and> length v \<le> 160 \<and> list_all safe_identifier_char v) then None
          else (let lowered = lower v
                in if contains ''api_key'' lowered \<or> contains ''api-key'' lowered \<or> starts_with ''sk-'' lowered then None
                   else Some v))"

fun evidence_from :: "string list \<Rightarrow> string list \<Rightarrow> string list" where
  "evidence_from evidence [] = evidence"
| "evidence_from evidence (value # values) =
     (if value = [] \<or> length value > 256 then evidence_from evidence values
      else (let evidence' = (if value \<in> set evidence then evidence else evidence @ [value])
            in if length evidence' = MAX_EVIDENCE then evidence' else evidence_from evidence' values))"

definition bounded_evidence :: "string list \<Rightarrow> string list" where
  "bounded_evidence values = evidence_from [] values"

record proposal =
  pp_action :: string
  pp_run :: string
  pp_status :: string
  pp_rationale :: string
  pp_evidence :: "string list"
  pp_questions :: "string list"
  pp_guidance :: "(string \<times> json) list"
  pp_plan :: "string option"
  pp_version :: "int option"
  pp_task :: "string option"
  pp_plan_task :: "string option"
  pp_path :: "string option"
  pp_schema :: string

definition run_statuses :: "string list" where
  "run_statuses = map run_status_text [Run_pending, Run_running, Run_awaiting_input, Run_succeeded, Run_failed, Run_cancelled]"

definition bad_text :: "nat \<Rightarrow> string \<Rightarrow> bool" where
  "bad_text limit item \<longleftrightarrow> item = [] \<or> length item > limit"

definition unsafe_field :: "string option \<Rightarrow> bool" where
  "unsafe_field value \<longleftrightarrow> value \<noteq> None \<and> safe_identifier value = None"

definition proposal_init :: "proposal \<Rightarrow> proposal result" where
  "proposal_init p =
     bindE (guardE (pp_action p \<notin> set recovery_actions) (ValueError (''unsupported recovery action: '' @ pp_action p))) (\<lambda>_.
     bindE (guardE (safe_identifier (Some (pp_run p)) = None) (ValueError ''recovery run_id must be a safe identifier'')) (\<lambda>_.
     bindE (guardE (pp_status p \<notin> set run_statuses) (ValueError ''recovery run_status is invalid'')) (\<lambda>_.
     bindE (guardE (bad_text 1000 (pp_rationale p)) (ValueError ''recovery rationale must be bounded non-empty text'')) (\<lambda>_.
     bindE (guardE (length (pp_evidence p) > MAX_EVIDENCE \<or> list_ex (bad_text 256) (pp_evidence p))
       (ValueError ''recovery evidence is invalid'')) (\<lambda>_.
     bindE (guardE (length (pp_questions p) > MAX_PROPOSAL_QUESTIONS \<or> list_ex (bad_text 1000) (pp_questions p))
       (ValueError ''recovery questions are invalid'')) (\<lambda>_.
     bindE (guardE (length (dumps (JObj (pp_guidance p))) > 4000) (ValueError ''recovery guidance exceeds 4 KiB'')) (\<lambda>_.
     bindE (guardE (unsafe_field (pp_plan p)) (ValueError ''recovery plan_id must be a safe identifier'')) (\<lambda>_.
     bindE (guardE (unsafe_field (pp_task p)) (ValueError ''recovery task_id must be a safe identifier'')) (\<lambda>_.
     bindE (guardE (unsafe_field (pp_plan_task p)) (ValueError ''recovery plan_task_id must be a safe identifier'')) (\<lambda>_.
     bindE (guardE (case pp_version p of None \<Rightarrow> False | Some v \<Rightarrow> v < 1) (ValueError ''recovery plan_version must be positive'')) (\<lambda>_.
     bindE (guardE (case pp_path p of None \<Rightarrow> False
                    | Some path \<Rightarrow> \<not> starts_with ''recovery/proposals/'' path \<or> \<not> ends_with ''.json'' path)
       (ValueError ''recovery artifact_path must be a proposal path'')) (\<lambda>_.
     Inr p))))))))))))"

definition payload_without_fingerprint :: "proposal \<Rightarrow> (string \<times> json) list" where
  "payload_without_fingerprint p =
     [(''schema_version'', JStr (pp_schema p)), (''action'', JStr (pp_action p)), (''run_id'', JStr (pp_run p)),
      (''run_status'', JStr (pp_status p)), (''plan_id'', opt_str (pp_plan p)), (''plan_version'', opt_int (pp_version p)),
      (''task_id'', opt_str (pp_task p)), (''plan_task_id'', opt_str (pp_plan_task p)),
      (''rationale'', JStr (pp_rationale p)), (''evidence'', JArr (map JStr (pp_evidence p))),
      (''questions'', JArr (map JStr (pp_questions p))), (''guidance'', JObj (pp_guidance p))]"

definition fingerprint :: "(string \<Rightarrow> string) \<Rightarrow> proposal \<Rightarrow> string" where
  "fingerprint sha p = sha (canonical (JObj (payload_without_fingerprint p)))"

definition proposal_event_id :: "(string \<Rightarrow> string) \<Rightarrow> proposal \<Rightarrow> string" where
  "proposal_event_id sha p = ''event-recovery-'' @ pp_run p @ ''-'' @ take 24 (fingerprint sha p)"

definition with_artifact_path :: "string \<Rightarrow> proposal \<Rightarrow> proposal result" where
  "with_artifact_path path p = proposal_init (p\<lparr>pp_path := Some path\<rparr>)"

definition proposal_to_dict :: "(string \<Rightarrow> string) \<Rightarrow> proposal \<Rightarrow> (string \<times> json) list" where
  "proposal_to_dict sha p =
     payload_without_fingerprint p @ [(''fingerprint'', JStr (fingerprint sha p))] @
     (case pp_path p of None \<Rightarrow> [] | Some path \<Rightarrow> [(''artifact_path'', JStr path)])"

section \<open>The policy\<close>

definition with_question :: "task_row \<Rightarrow> bool" where
  "with_question task \<longleftrightarrow> tr_question task \<noteq> None \<and> tr_question task \<noteq> Some []"

definition is_event :: "string \<Rightarrow> event_row \<Rightarrow> bool" where
  "is_event typ e \<longleftrightarrow> ev_type e = typ"

text \<open>\<^verbatim>\<open>max(..., default=-1)\<close> over the positions of the revision events, and the slice after it.\<close>

definition events_after_latest_plan_revision :: "event_row list \<Rightarrow> event_row list" where
  "events_after_latest_plan_revision evs =
     drop (case filter (\<lambda>i. is_event ''plan_revision_created'' (evs ! i)) [0..<length evs] of
             [] \<Rightarrow> 0
           | i # is \<Rightarrow> Suc (fold max is i)) evs"

definition latest_event :: "event_row list \<Rightarrow> string \<Rightarrow> event_row option" where
  "latest_event evs typ = find (is_event typ) (rev evs)"

definition failed_evaluation_of :: "string \<Rightarrow> event_row \<Rightarrow> bool" where
  "failed_evaluation_of task_id e \<longleftrightarrow>
     is_event ''task_evaluated'' e \<and> ev_task e = Some task_id \<and> jget (ev_payload e) ''passed'' = Some (JBool False)"

definition latest_failed_evaluation :: "event_row list \<Rightarrow> string option \<Rightarrow> event_row option" where
  "latest_failed_evaluation evs task_id =
     (case task_id of None \<Rightarrow> None | Some t \<Rightarrow> find (failed_evaluation_of t) (rev evs))"

text \<open>The value under a key of a dictionary, or of anything else \<open>None\<close>.\<close>

definition field_of :: "string \<Rightarrow> json option \<Rightarrow> json option" where
  "field_of key v = (case v of Some (JObj items) \<Rightarrow> jget items key | _ \<Rightarrow> None)"

definition acceptance_rule :: "event_row \<Rightarrow> string option" where
  "acceptance_rule e =
     (case field_of ''rule'' (field_of ''check'' (field_of ''acceptance'' (field_of ''details'' (Some (JObj (ev_payload e)))))) of
        Some (JStr rule) \<Rightarrow> if rule \<in> set recovery_rule_names then Some rule else None
      | _ \<Rightarrow> None)"

definition needs_runtime_configuration :: "string option \<Rightarrow> bool" where
  "needs_runtime_configuration error =
     (case error of None \<Rightarrow> False
      | Some text \<Rightarrow> (let lowered = lower text in list_ex (\<lambda>marker. contains marker lowered) configuration_markers))"

definition pending_input_task :: "task_row list \<Rightarrow> (string \<times> json) list option \<Rightarrow> task_row option" where
  "pending_input_task ts pending =
     (let pending_id = (case pending of None \<Rightarrow> JNull | Some items \<Rightarrow> jget_default items ''task_id'' JNull)
      in case find (\<lambda>t. JStr (tr_id t) = pending_id) ts of
           Some t \<Rightarrow> Some t
         | None \<Rightarrow> find (\<lambda>t. tr_state t = Waiting \<and> with_question t) ts)"

definition first_nonterminal_task :: "task_row list \<Rightarrow> task_row option" where
  "first_nonterminal_task ts =
     (case find (\<lambda>t. tr_state t \<notin> {Succeeded, Superseded, Cancelled}) ts of
        Some t \<Rightarrow> Some t
      | None \<Rightarrow> (case ts of [] \<Rightarrow> None | t # _ \<Rightarrow> Some t))"

definition make_proposal ::
  "run_row \<Rightarrow> string option \<Rightarrow> int option \<Rightarrow> string \<Rightarrow> string \<Rightarrow> string list \<Rightarrow> (string \<times> json) list \<Rightarrow> task_row option \<Rightarrow>
   string list \<Rightarrow> proposal result" where
  "make_proposal run plan_id plan_version action rationale evidence guidance task questions =
     proposal_init \<lparr>pp_action = action, pp_run = rr_id run, pp_status = run_status_text (rr_status run),
       pp_rationale = rationale, pp_evidence = bounded_evidence evidence, pp_questions = questions,
       pp_guidance = guidance, pp_plan = plan_id, pp_version = plan_version,
       pp_task = (case task of None \<Rightarrow> None | Some t \<Rightarrow> safe_identifier (Some (tr_id t))),
       pp_plan_task = (case task of None \<Rightarrow> None | Some t \<Rightarrow> safe_identifier (tr_plan_task t)),
       pp_path = None, pp_schema = ''1''\<rparr>"

definition limit_code :: "event_row \<Rightarrow> string" where
  "limit_code e =
     (case jget (ev_payload e) ''limit'' of
        Some (JStr limit) \<Rightarrow>
          if limit \<in> set [''max_tasks'', ''max_attempts'', ''max_tool_steps'', ''max_runtime_seconds'', ''max_artifact_bytes'']
          then limit else ''unknown''
      | _ \<Rightarrow> ''unknown'')"

text \<open>The branches of \<^verbatim>\<open>propose\<close> from line 223 on: what a failed task asks for.\<close>

definition propose_failed ::
  "run_row \<Rightarrow> string option \<Rightarrow> int option \<Rightarrow> string list \<Rightarrow> event_row list \<Rightarrow> task_row \<Rightarrow> proposal result" where
  "propose_failed run plan_id plan_version base_evidence current_events failed_task =
     (case latest_failed_evaluation current_events (Some (tr_id failed_task)) of
        Some evaluation \<Rightarrow>
          (let evidence = base_evidence @ [''task_state:failed'', ''evaluation:failed''] @
                 (case acceptance_rule evaluation of None \<Rightarrow> [] | Some rule \<Rightarrow> [''acceptance:'' @ rule])
           in if plan_id \<noteq> None \<and> plan_version \<noteq> None \<and> safe_identifier (tr_plan_task failed_task) \<noteq> None
              then make_proposal run plan_id plan_version ''propose_patch''
                ''Independent acceptance verification failed for a planned task.'' evidence
                [(''required_operation'', JStr ''update_task''), (''target'', opt_str (tr_plan_task failed_task)),
                 (''inspect'', JArr [JStr ''evaluation''])] (Some failed_task) []
              else make_proposal run plan_id plan_version ''ask_user''
                ''Independent verification failed, but this run has no versioned plan to revise.'' evidence
                [(''versioned_plan_required'', JBool True), (''inspect'', JArr [JStr ''evaluation''])] (Some failed_task)
                [''Provide a versioned replacement plan before retrying the failed task.''])
      | None \<Rightarrow>
          if needs_runtime_configuration (tr_last_error failed_task)
          then make_proposal run plan_id plan_version ''ask_user''
            ''The runtime needs explicit configuration or authority before it can continue.''
            (base_evidence @ [''task_state:failed'', ''runtime_failure:requires_configuration''])
            [(''runtime_configuration'', JBool True)] (Some failed_task)
            [''Provide or confirm the runtime configuration and authority required to continue.'']
          else if plan_id \<noteq> None
          then make_proposal run plan_id plan_version ''propose_replan''
            ''A planned task exhausted its current recovery path without verified output.''
            (base_evidence @ [''task_state:failed'', ''runtime_failure:unclassified''])
            [(''preserve_verified_artifacts'', JBool True), (''inspect'', JArr [JStr ''failed_tasks''])] (Some failed_task) []
          else make_proposal run plan_id plan_version ''ask_user''
            ''The unplanned task failed and needs explicit next-step instructions.''
            (base_evidence @ [''task_state:failed'', ''runtime_failure:unclassified''])
            [(''versioned_plan_required'', JBool True), (''inspect'', JArr [JStr ''failed_tasks''])] (Some failed_task)
            [''Provide a versioned plan or runtime instructions before retrying.''])"

text \<open>The branches from line 208 on, once nothing can simply be resumed.\<close>

definition propose_diagnosis ::
  "run_row \<Rightarrow> string option \<Rightarrow> int option \<Rightarrow> string list \<Rightarrow> task_row list \<Rightarrow> event_row list \<Rightarrow> proposal result" where
  "propose_diagnosis run plan_id plan_version base_evidence ts evs =
     (let current_events = events_after_latest_plan_revision evs
      in case latest_event current_events ''budget_exceeded'' of
           Some budget \<Rightarrow>
             make_proposal run plan_id plan_version ''propose_replan''
               ''A configured execution budget was reached and must be reconsidered explicitly.''
               (base_evidence @ [''budget_exceeded'', ''budget:'' @ limit_code budget])
               [(''preserve_verified_artifacts'', JBool True), (''inspect'', JArr [JStr ''budget''])]
               (first_nonterminal_task ts) []
         | None \<Rightarrow>
       (case find (\<lambda>t. tr_state t = Failed) ts of
           Some failed_task \<Rightarrow> propose_failed run plan_id plan_version base_evidence current_events failed_task
         | None \<Rightarrow>
       (case find (\<lambda>t. tr_state t = Blocked) ts of
           Some blocked \<Rightarrow>
             make_proposal run plan_id plan_version ''propose_replan''
               ''A task is blocked by a prerequisite that did not produce verified output.''
               (base_evidence @ [''task_state:blocked''])
               [(''preserve_verified_artifacts'', JBool True), (''inspect'', JArr [JStr ''failed_tasks''])] (Some blocked) []
         | None \<Rightarrow> make_proposal run plan_id plan_version ''none'' ''No actionable recovery evidence is currently available.''
               base_evidence [] None [])))"

definition retryable_task :: "task_row list \<Rightarrow> task_row option" where
  "retryable_task ts = find (\<lambda>t. tr_state t \<in> {Ready, Uncertain}) ts"

definition awaits_input :: "task_row list \<Rightarrow> (string \<times> json) list option \<Rightarrow> bool" where
  "awaits_input ts pending \<longleftrightarrow> pending \<noteq> None \<or> list_ex (\<lambda>t. tr_state t = Waiting \<and> with_question t) ts"

definition propose ::
  "run_row \<Rightarrow> task_row list \<Rightarrow> event_row list \<Rightarrow> (string \<times> json) list option \<Rightarrow> proposal result" where
  "propose run ts evs pending =
     (let plan_id = safe_identifier (rr_plan_id run);
          plan_version = (if plan_id \<noteq> None then rr_plan_version run else None);
          base_evidence = [''run_status:'' @ run_status_text (rr_status run)]
      in if rr_status run = Run_succeeded
         then make_proposal run plan_id plan_version ''none'' ''The run already has verified successful output.''
           base_evidence [] None []
         else if rr_status run = Run_cancelled
         then make_proposal run plan_id plan_version ''stop''
           ''The run was cancelled and requires a new explicit start to continue.'' base_evidence
           [(''terminal'', JBool True)] None []
         else if awaits_input ts pending
         then make_proposal run plan_id plan_version ''ask_user''
           ''The run is waiting for an explicit user or parent-Agent answer.'' (base_evidence @ [''input:pending''])
           [(''input_request'', JBool True)] (pending_input_task ts pending)
           [''Answer the pending input request before resuming this run.'']
         else case (if rr_status run \<in> {Run_pending, Run_running} then retryable_task ts else None) of
           Some retryable \<Rightarrow>
             make_proposal run plan_id plan_version ''retry''
               ''Ready or recovered work can be resumed through the existing controller.''
               (base_evidence @ [''task_state:'' @ (if tr_state retryable = Ready then ''ready'' else ''uncertain'')])
               [(''command'', JStr ''resume'')] (Some retryable) []
         | None \<Rightarrow> propose_diagnosis run plan_id plan_version base_evidence ts evs)"

section \<open>Storing a proposal: \<^verbatim>\<open>Controller.recover\<close>\<close>

text \<open>\<^verbatim>\<open>ORDER BY created_at, id\<close>; \<open>ids\<close> is the text of an event id.\<close>

definition list_events :: "(event_id \<Rightarrow> string) \<Rightarrow> string \<Rightarrow> ledger \<Rightarrow> event_row list" where
  "list_events ids r s = sort_key (\<lambda>e. (ev_created e, ids (ev_id e))) (filter (\<lambda>e. ev_run e = r) (events s))"

definition list_artifacts :: "string \<Rightarrow> ledger \<Rightarrow> artifact_row list" where
  "list_artifacts r s = sort_key (\<lambda>a. (fa_created a, fa_id a)) (filter (\<lambda>a. fa_run a = r) (artifacts s))"

text \<open>
  \<open>rc_write path content\<close> is what \<^verbatim>\<open>ArtifactStore.write_text\<close> leaves on the disk: the path below the resolved root, the
  digest and the size; \<open>rc_artifact\<close> is the random artifact id, \<open>rc_render\<close> the indented JSON text.
\<close>

record recover_env =
  rc_sha :: "string \<Rightarrow> string"
  rc_ids :: "event_id \<Rightarrow> string"
  rc_write :: "string \<Rightarrow> string \<Rightarrow> (string \<times> string \<times> int) result"
  rc_artifact :: string
  rc_render :: "json \<Rightarrow> string"

definition proposal_path :: "recover_env \<Rightarrow> proposal \<Rightarrow> string" where
  "proposal_path env p = ''recovery/proposals/'' @ fingerprint (rc_sha env) p @ ''.json''"

definition write_proposal :: "recover_env \<Rightarrow> string \<Rightarrow> string \<Rightarrow> proposal \<Rightarrow> string \<Rightarrow> unit store" where
  "write_proposal env run_id path persisted task_id =
     bindS (ask (list_artifacts run_id)) (\<lambda>listed.
       if list_ex (\<lambda>a. fa_path a = path \<and> fa_kind a = ''recovery'') listed then ret ()
       else bindS (lift (rc_write env path (rc_render env (JObj (proposal_to_dict (rc_sha env) persisted)) @ [char_of (10::nat)])))
         (\<lambda>(relative, digest, nbytes).
           bindS (add_artifact (rc_artifact env) run_id task_id relative digest nbytes ''recovery'') (\<lambda>_. ret ())))"

definition recover :: "recover_env \<Rightarrow> string \<Rightarrow> proposal store" where
  "recover env run_id =
     bindS (ask (get_run run_id)) (\<lambda>found.
       case found of
         None \<Rightarrow> raise (ValueError (''unknown run: '' @ run_id))
       | Some run \<Rightarrow>
     bindS (ask (list_tasks (rr_id run))) (\<lambda>ts.
     bindS (ask (list_events (rc_ids env) (rr_id run))) (\<lambda>evs.
     bindS (ask (pending_input (rr_id run))) (\<lambda>pending.
     bindS (lift (propose run ts evs pending)) (\<lambda>p.
       case (case pp_task p of Some t \<Rightarrow> Some t
             | None \<Rightarrow> (case ts of [] \<Rightarrow> None | t # _ \<Rightarrow> Some (tr_id t))) of
         None \<Rightarrow> raise (ValueError ''run has no task to own the recovery artifact'')
       | Some target \<Rightarrow>
     bindS (lift (with_artifact_path (proposal_path env p) p)) (\<lambda>persisted.
     bindS (write_proposal env (rr_id run) (proposal_path env p) persisted target) (\<lambda>_.
     bindS (append_event (rr_id run) (pp_task p) ''recovery_proposed''
              [(''proposal'', JObj (proposal_to_dict (rc_sha env) persisted))]
              (Some (proposal_event_id (rc_sha env) p))) (\<lambda>_.
     ret persisted))))))))"

end
