(* ===== verification/RecoverySound.thy ===== *)
theory RecoverySound imports Recovery begin

text \<open>
  What the recovery policy promises: it always has an answer for a run with a safe id, its answer follows from the
  state of the run, evidence from before the latest plan revision plays no part, and storing an answer twice is
  storing it once.
\<close>

section \<open>Proposals are valid\<close>

lemma evidence_from_ok:
  assumes "length acc < MAX_EVIDENCE" and "\<not> list_ex (bad_text 256) acc"
  shows "length (evidence_from acc values) \<le> MAX_EVIDENCE \<and> \<not> list_ex (bad_text 256) (evidence_from acc values)"
  using assms
proof (induction acc "values" rule: evidence_from.induct)
  case (2 acc v vs)
  show ?case
  proof (cases "v = [] \<or> length v > 256")
    case False
    then have "\<not> bad_text 256 v" by (simp add: bad_text_def)
    with 2(4) have "\<not> list_ex (bad_text 256) (if v \<in> set acc then acc else acc @ [v])" by simp
    with 2(2) [OF False refl] 2(3) False show ?thesis by (auto simp: Let_def)
  qed (use 2 in simp)
qed simp

lemma bounded_evidence_ok:
  "length (bounded_evidence values) \<le> MAX_EVIDENCE" "\<not> list_ex (bad_text 256) (bounded_evidence values)"
  using evidence_from_ok [of "[]" "values"] by (auto simp: bounded_evidence_def MAX_EVIDENCE_def)

lemma safe_identifier_idem: "safe_identifier v = Some x \<Longrightarrow> v = Some x"
  by (auto simp: safe_identifier_def Let_def split: option.splits if_splits)

lemma safe_identifier_twice: "\<not> unsafe_field (safe_identifier v)"
  using safe_identifier_idem [of v] by (cases "safe_identifier v") (auto simp: unsafe_field_def)

lemma safe_identifier_length: "safe_identifier v = Some x \<Longrightarrow> length x \<le> 160"
  by (auto simp: safe_identifier_def Let_def split: option.splits if_splits)

text \<open>What a caller of \<open>make_proposal\<close> supplies itself, and what depends on the run.\<close>

definition well_formed :: "string \<Rightarrow> string \<Rightarrow> (string \<times> json) list \<Rightarrow> string list \<Rightarrow> bool" where
  "well_formed action rationale guidance questions \<longleftrightarrow> action \<in> set recovery_actions \<and> \<not> bad_text 1000 rationale \<and>
     length questions \<le> MAX_PROPOSAL_QUESTIONS \<and> \<not> list_ex (bad_text 1000) questions \<and> length (dumps (JObj guidance)) \<le> 4000"

definition refusal :: "run_row \<Rightarrow> py_error option" where
  "refusal run =
     (if safe_identifier (Some (rr_id run)) = None then Some (ValueError ''recovery run_id must be a safe identifier'')
      else if safe_identifier (rr_plan_id run) = None then None
      else (case rr_plan_version run of None \<Rightarrow> None
            | Some v \<Rightarrow> if v < 1 then Some (ValueError ''recovery plan_version must be positive'') else None))"

definition answer_of ::
  "run_row \<Rightarrow> string \<Rightarrow> string \<Rightarrow> string list \<Rightarrow> (string \<times> json) list \<Rightarrow> task_row option \<Rightarrow> string list \<Rightarrow> proposal" where
  "answer_of run action rationale evidence guidance task questions =
     \<lparr>pp_action = action, pp_run = rr_id run, pp_status = run_status_text (rr_status run), pp_rationale = rationale,
       pp_evidence = bounded_evidence evidence, pp_questions = questions, pp_guidance = guidance,
       pp_plan = safe_identifier (rr_plan_id run),
       pp_version = (if safe_identifier (rr_plan_id run) \<noteq> None then rr_plan_version run else None),
       pp_task = (case task of None \<Rightarrow> None | Some t \<Rightarrow> safe_identifier (Some (tr_id t))),
       pp_plan_task = (case task of None \<Rightarrow> None | Some t \<Rightarrow> safe_identifier (tr_plan_task t)),
       pp_path = None, pp_schema = ''1''\<rparr>"

lemma status_known: "run_status_text st \<in> set run_statuses"
  by (cases st) (simp_all add: run_statuses_def)

lemma make_proposal_eq:
  assumes "well_formed action rationale guidance questions"
  shows "make_proposal run (safe_identifier (rr_plan_id run))
      (if safe_identifier (rr_plan_id run) \<noteq> None then rr_plan_version run else None) action rationale evidence guidance task questions =
    (case refusal run of Some e \<Rightarrow> Inl e | None \<Rightarrow> Inr (answer_of run action rationale evidence guidance task questions))"
proof -
  have fields: "\<not> unsafe_field (case task of None \<Rightarrow> None | Some t \<Rightarrow> safe_identifier (f t))" for f
    by (cases task) (simp_all add: safe_identifier_twice, simp add: unsafe_field_def)
  show ?thesis
    using assms bounded_evidence_ok [of evidence]
    by (auto simp: make_proposal_def proposal_init_def answer_of_def well_formed_def refusal_def bind_guardE status_known
        safe_identifier_twice fields not_less split: option.splits)
qed

lemma length_join_with: "length (join_with sep xs) \<le> sum_list (map (\<lambda>x. length sep + length x) xs)"
proof -
  have "length (concat (map ((@) sep) ys)) = sum_list (map (\<lambda>x. length sep + length x) ys)" for ys
    by (induction ys) simp_all
  then show ?thesis by (cases xs) (simp_all add: join_with_def)
qed

lemma sum_list_sort_key: "sum_list (map f (sort_key k xs)) = (sum_list (map f xs) :: nat)"
proof -
  have "sum_list (map f (insort_key k y ys)) = f y + sum_list (map f ys)" for y ys by (induction ys) simp_all
  then show ?thesis by (induction xs) simp_all
qed

lemma length_dumps_object:
  "length (dumps (JObj items)) \<le> 2 + sum_list (map (\<lambda>(k, v). 4 + length (quote_str k) + length (dumps v)) items)"
proof -
  let ?rows = "map (\<lambda>(k, v). (k, dumps v)) items"
  have "length (dumps (JObj items)) \<le> 2 + sum_list (map (\<lambda>(k, t). 4 + length (quote_str k) + length t) (sort_key fst ?rows))"
    using length_join_with [of "'', ''" "map (\<lambda>(k, t). quote_str k @ '': '' @ t) (sort_key fst ?rows)"]
    by (simp add: case_prod_unfold comp_def eval_nat_numeral)
  also have "sum_list (map (\<lambda>(k, t). 4 + length (quote_str k) + length t) (sort_key fst ?rows)) =
      sum_list (map (\<lambda>(k, t). 4 + length (quote_str k) + length t) ?rows)"
    by (rule sum_list_sort_key)
  finally show ?thesis by (simp add: case_prod_unfold comp_def)
qed

lemma length_quote_str: "length (quote_str s) \<le> 2 + 6 * length s"
proof -
  have "length (escape_char c) \<le> 6" for c by (simp add: escape_char_def Let_def)
  then have "length (concat (map escape_char s)) \<le> 6 * length s"
    by (induction s) (auto intro: add_mono)
  then show ?thesis by (simp add: quote_str_def)
qed

lemma patch_guidance_fits:
  assumes "safe_identifier v \<noteq> None"
  shows "length (dumps (JObj [(''required_operation'', JStr ''update_task''), (''target'', opt_str v),
    (''inspect'', JArr [JStr ''evaluation''])])) \<le> 4000"
proof -
  obtain x where x: "v = Some x" "length x \<le> 160"
    using assms by (metis not_None_eq safe_identifier_idem safe_identifier_length)
  have small: "length (quote_str ''required_operation'') + length (dumps (JStr ''update_task'')) + length (quote_str ''target'') +
      length (quote_str ''inspect'') + length (dumps (JArr [JStr ''evaluation''])) \<le> 500" by code_simp
  have "length (dumps (opt_str v)) \<le> 962" using x length_quote_str [of x] by (simp add: opt_str_def)
  with small length_dumps_object [of "[(''required_operation'', JStr ''update_task''), (''target'', opt_str v),
    (''inspect'', JArr [JStr ''evaluation''])]"] show ?thesis by simp
qed

lemma patch_well_formed:
  assumes "safe_identifier v \<noteq> None"
  shows "well_formed ''propose_patch'' ''Independent acceptance verification failed for a planned task.''
    [(''required_operation'', JStr ''update_task''), (''target'', opt_str v), (''inspect'', JArr [JStr ''evaluation''])] []"
  using patch_guidance_fits [OF assms]
  by (simp add: well_formed_def bad_text_def recovery_actions_def)

lemma answers_well_formed:
  "well_formed ''none'' ''The run already has verified successful output.'' [] []"
  "well_formed ''none'' ''No actionable recovery evidence is currently available.'' [] []"
  "well_formed ''stop'' ''The run was cancelled and requires a new explicit start to continue.'' [(''terminal'', JBool True)] []"
  "well_formed ''ask_user'' ''The run is waiting for an explicit user or parent-Agent answer.'' [(''input_request'', JBool True)]
     [''Answer the pending input request before resuming this run.'']"
  "well_formed ''retry'' ''Ready or recovered work can be resumed through the existing controller.'' [(''command'', JStr ''resume'')] []"
  "well_formed ''propose_replan'' ''A configured execution budget was reached and must be reconsidered explicitly.''
     [(''preserve_verified_artifacts'', JBool True), (''inspect'', JArr [JStr ''budget''])] []"
  "well_formed ''propose_replan'' ''A task is blocked by a prerequisite that did not produce verified output.''
     [(''preserve_verified_artifacts'', JBool True), (''inspect'', JArr [JStr ''failed_tasks''])] []"
  "well_formed ''propose_replan'' ''A planned task exhausted its current recovery path without verified output.''
     [(''preserve_verified_artifacts'', JBool True), (''inspect'', JArr [JStr ''failed_tasks''])] []"
  "well_formed ''ask_user'' ''Independent verification failed, but this run has no versioned plan to revise.''
     [(''versioned_plan_required'', JBool True), (''inspect'', JArr [JStr ''evaluation''])]
     [''Provide a versioned replacement plan before retrying the failed task.'']"
  "well_formed ''ask_user'' ''The runtime needs explicit configuration or authority before it can continue.''
     [(''runtime_configuration'', JBool True)]
     [''Provide or confirm the runtime configuration and authority required to continue.'']"
  "well_formed ''ask_user'' ''The unplanned task failed and needs explicit next-step instructions.''
     [(''versioned_plan_required'', JBool True), (''inspect'', JArr [JStr ''failed_tasks''])]
     [''Provide a versioned plan or runtime instructions before retrying.'']"
  by code_simp+

section \<open>What each action means\<close>

abbreviation plan_of :: "run_row \<Rightarrow> string option" where
  "plan_of run \<equiv> safe_identifier (rr_plan_id run)"

abbreviation version_of :: "run_row \<Rightarrow> int option" where
  "version_of run \<equiv> (if plan_of run \<noteq> None then rr_plan_version run else None)"

text \<open>\<open>made run pid ver a x\<close>: \<open>x\<close> is a well-formed call of \<open>make_proposal\<close> with action \<open>a\<close>.\<close>

definition made :: "run_row \<Rightarrow> string option \<Rightarrow> int option \<Rightarrow> string \<Rightarrow> proposal result \<Rightarrow> bool" where
  "made run pid ver a x \<longleftrightarrow>
     (\<exists>r e g t q. well_formed a r g q \<and> x = make_proposal run pid ver a r e g t q)"

lemma madeI: "well_formed a r g q \<Longrightarrow> made run pid ver a (make_proposal run pid ver a r e g t q)"
  unfolding made_def by blast

lemma made_if:
  "(c \<Longrightarrow> made run pid ver a x) \<Longrightarrow> (\<not> c \<Longrightarrow> made run pid ver b y) \<Longrightarrow>
   made run pid ver (if c then a else b) (if c then x else y)"
  by (cases c) simp_all

lemma made_option:
  "made run pid ver a x \<Longrightarrow> (\<And>y. v = Some y \<Longrightarrow> made run pid ver (b y) (f y)) \<Longrightarrow>
   made run pid ver (case v of None \<Rightarrow> a | Some y \<Rightarrow> b y) (case v of None \<Rightarrow> x | Some y \<Rightarrow> f y)"
  by (cases v) simp_all

text \<open>The action alone, along the branches of the code.\<close>

definition failed_action :: "string option \<Rightarrow> int option \<Rightarrow> event_row list \<Rightarrow> task_row \<Rightarrow> string" where
  "failed_action pid ver current t =
     (case latest_failed_evaluation current (Some (tr_id t)) of
        None \<Rightarrow> if needs_runtime_configuration (tr_last_error t) then ''ask_user''
                else if pid \<noteq> None then ''propose_replan'' else ''ask_user''
      | Some evaluation \<Rightarrow>
          if pid \<noteq> None \<and> ver \<noteq> None \<and> safe_identifier (tr_plan_task t) \<noteq> None then ''propose_patch'' else ''ask_user'')"

definition diagnosis_action :: "string option \<Rightarrow> int option \<Rightarrow> task_row list \<Rightarrow> event_row list \<Rightarrow> string" where
  "diagnosis_action pid ver ts current =
     (case latest_event current ''budget_exceeded'' of
        None \<Rightarrow>
          (case find (\<lambda>t. tr_state t = Failed) ts of
             None \<Rightarrow> (case find (\<lambda>t. tr_state t = Blocked) ts of None \<Rightarrow> ''none'' | Some b \<Rightarrow> ''propose_replan'')
           | Some t \<Rightarrow> failed_action pid ver current t)
      | Some e \<Rightarrow> ''propose_replan'')"

lemma propose_failed_made: "made run pid ver (failed_action pid ver current t) (propose_failed run pid ver base current t)"
  unfolding failed_action_def propose_failed_def Let_def
  by (intro made_option made_if madeI answers_well_formed patch_well_formed) simp_all

lemma propose_diagnosis_made:
  "made run pid ver (diagnosis_action pid ver ts (events_after_latest_plan_revision evs)) (propose_diagnosis run pid ver base ts evs)"
  unfolding diagnosis_action_def propose_diagnosis_def Let_def
  by (intro made_option made_if madeI answers_well_formed propose_failed_made)

definition recovery_action :: "run_row \<Rightarrow> task_row list \<Rightarrow> event_row list \<Rightarrow> (string \<times> json) list option \<Rightarrow> string" where
  "recovery_action run ts evs pending =
     (if rr_status run = Run_succeeded then ''none''
      else if rr_status run = Run_cancelled then ''stop''
      else if awaits_input ts pending then ''ask_user''
      else case (if rr_status run \<in> {Run_pending, Run_running} then retryable_task ts else None) of
             None \<Rightarrow> diagnosis_action (plan_of run) (version_of run) ts (events_after_latest_plan_revision evs)
           | Some t \<Rightarrow> ''retry'')"

lemma propose_made: "made run (plan_of run) (version_of run) (recovery_action run ts evs pending) (propose run ts evs pending)"
  unfolding recovery_action_def propose_def Let_def
  by (intro made_option made_if madeI answers_well_formed propose_diagnosis_made)

lemma propose_eq:
  obtains r e g t q where "propose run ts evs pending =
    (case refusal run of Some err \<Rightarrow> Inl err
     | None \<Rightarrow> Inr (answer_of run (recovery_action run ts evs pending) r e g t q))"
proof -
  obtain r e g t q where "well_formed (recovery_action run ts evs pending) r g q"
    and "propose run ts evs pending =
      make_proposal run (plan_of run) (version_of run) (recovery_action run ts evs pending) r e g t q"
    using propose_made unfolding made_def by blast
  then show ?thesis by (intro that) (simp only: make_proposal_eq)
qed

text \<open>The events a proposal may rest on: those after the latest plan revision.\<close>

definition since_revision :: "event_row list \<Rightarrow> event_row list" where
  "since_revision evs = rev (takeWhile (\<lambda>e. \<not> is_event ''plan_revision_created'' e) (rev evs))"

definition undisturbed :: "run_row \<Rightarrow> task_row list \<Rightarrow> (string \<times> json) list option \<Rightarrow> bool" where
  "undisturbed run ts pending \<longleftrightarrow> rr_status run \<notin> {Run_succeeded, Run_cancelled} \<and> \<not> awaits_input ts pending"

definition resumable :: "run_row \<Rightarrow> task_row list \<Rightarrow> bool" where
  "resumable run ts \<longleftrightarrow> rr_status run \<in> {Run_pending, Run_running} \<and> (\<exists>t\<in>set ts. tr_state t \<in> {Ready, Uncertain})"

lemma answer_action [simp]: "pp_action (answer_of run a r e g t q) = a"
  by (simp add: answer_of_def)

lemma latest_event_None: "latest_event evs typ = None \<longleftrightarrow> (\<forall>e\<in>set evs. \<not> is_event typ e)"
  by (auto simp: latest_event_def find_None_set)

lemma latest_failed_evaluation_None:
  "latest_failed_evaluation evs (Some t) = None \<longleftrightarrow> (\<forall>e\<in>set evs. \<not> failed_evaluation_of t e)"
  by (auto simp: latest_failed_evaluation_def find_None_set)

lemma fold_max_last: "sorted (i # is) \<Longrightarrow> fold max is i = last (i # is)"
  by (induction "is" arbitrary: i) (auto simp: max_def)

lemma drop_after_last:
  "drop (case filter (\<lambda>i. P (xs ! i)) [0..<length xs] of [] \<Rightarrow> 0 | i # is \<Rightarrow> Suc (last (i # is))) xs =
   rev (takeWhile (\<lambda>x. \<not> P x) (rev xs))"
proof (induction xs rule: rev_induct)
  case (snoc x xs)
  have same: "filter (\<lambda>i. P ((xs @ [x]) ! i)) [0..<length xs] = filter (\<lambda>i. P (xs ! i)) [0..<length xs]"
    by (rule filter_cong) (auto simp: nth_append)
  show ?case
  proof (cases "P x")
    case True
    have "(case ys @ [n] of [] \<Rightarrow> 0 | i # is \<Rightarrow> Suc (last (i # is))) = Suc n" for ys and n :: nat by (cases ys) auto
    with True show ?thesis by (simp add: same)
  next
    case False
    let ?n = "case filter (\<lambda>i. P (xs ! i)) [0..<length xs] of [] \<Rightarrow> 0 | i # is \<Rightarrow> Suc (last (i # is))"
    have "?n \<le> length xs"
    proof (cases "filter (\<lambda>i. P (xs ! i)) [0..<length xs]")
      case (Cons i "is")
      then have "last (i # is) \<in> set (filter (\<lambda>i. P (xs ! i)) [0..<length xs])" by (metis last_in_set list.discI)
      then have "last (i # is) < length xs" by simp
      with Cons show ?thesis by (simp del: last.simps)
    qed simp
    with snoc False show ?thesis by (simp add: same)
  qed
qed simp

lemma events_after_eq: "events_after_latest_plan_revision evs = since_revision evs"
proof -
  let ?R = "filter (\<lambda>i. is_event ''plan_revision_created'' (evs ! i)) [0..<length evs]"
  have "sorted ?R" by (rule sorted_wrt_filter) simp
  then have "(case ?R of [] \<Rightarrow> 0 | i # is \<Rightarrow> Suc (fold max is i)) = (case ?R of [] \<Rightarrow> 0 | i # is \<Rightarrow> Suc (last (i # is)))"
    by (cases ?R) (simp_all only: list.case fold_max_last)
  then show ?thesis by (simp only: events_after_latest_plan_revision_def since_revision_def drop_after_last)
qed

text \<open>Which branch is taken, by the state of the run.\<close>

lemma recovery_action_simps:
  "rr_status run = Run_succeeded \<Longrightarrow> recovery_action run ts evs pending = ''none''"
  "rr_status run = Run_cancelled \<Longrightarrow> recovery_action run ts evs pending = ''stop''"
  "rr_status run \<notin> {Run_succeeded, Run_cancelled} \<Longrightarrow> awaits_input ts pending \<Longrightarrow> recovery_action run ts evs pending = ''ask_user''"
  "undisturbed run ts pending \<Longrightarrow> resumable run ts \<Longrightarrow> recovery_action run ts evs pending = ''retry''"
  "undisturbed run ts pending \<Longrightarrow> \<not> resumable run ts \<Longrightarrow>
     recovery_action run ts evs pending = diagnosis_action (plan_of run) (version_of run) ts (since_revision evs)"
proof -
  obtain r where r: "r = (if rr_status run \<in> {Run_pending, Run_running} then retryable_task ts else None)" by blast
  have "resumable run ts \<longleftrightarrow> r \<noteq> None"
    unfolding r resumable_def retryable_task_def by (simp add: find_None_set del: not_None_eq)
  then show "undisturbed run ts pending \<Longrightarrow> resumable run ts \<Longrightarrow> recovery_action run ts evs pending = ''retry''"
    and "undisturbed run ts pending \<Longrightarrow> \<not> resumable run ts \<Longrightarrow>
      recovery_action run ts evs pending = diagnosis_action (plan_of run) (version_of run) ts (since_revision evs)"
    unfolding undisturbed_def recovery_action_def events_after_eq r [symmetric] by (cases r; simp)+
qed (simp_all add: recovery_action_def)

lemma run_cases:
  obtains "rr_status run = Run_succeeded" | "rr_status run = Run_cancelled"
  | "rr_status run \<notin> {Run_succeeded, Run_cancelled}" "awaits_input ts pending"
  | "rr_status run \<noteq> Run_succeeded" "rr_status run \<noteq> Run_cancelled" "undisturbed run ts pending" "resumable run ts"
  | "rr_status run \<noteq> Run_succeeded" "rr_status run \<noteq> Run_cancelled" "undisturbed run ts pending" "\<not> resumable run ts"
  unfolding undisturbed_def by blast

lemma undisturbed_simps:
  "rr_status run = Run_succeeded \<Longrightarrow> \<not> undisturbed run ts pending"
  "rr_status run = Run_cancelled \<Longrightarrow> \<not> undisturbed run ts pending"
  "awaits_input ts pending \<Longrightarrow> \<not> undisturbed run ts pending"
  by (simp_all add: undisturbed_def)

lemma failed_action_is:
  "failed_action pid ver current t \<notin> {''none'', ''retry'', ''stop''}"
  "failed_action pid ver current t = ''propose_patch'' \<longleftrightarrow>
     pid \<noteq> None \<and> ver \<noteq> None \<and> safe_identifier (tr_plan_task t) \<noteq> None \<and> (\<exists>e\<in>set current. failed_evaluation_of (tr_id t) e)"
proof -
  show "failed_action pid ver current t \<notin> {''none'', ''retry'', ''stop''}"
    unfolding failed_action_def by (simp split: option.split)
  have "latest_failed_evaluation current (Some (tr_id t)) \<noteq> None \<longleftrightarrow> (\<exists>e\<in>set current. failed_evaluation_of (tr_id t) e)"
    unfolding latest_failed_evaluation_None by blast
  then show "failed_action pid ver current t = ''propose_patch'' \<longleftrightarrow>
      pid \<noteq> None \<and> ver \<noteq> None \<and> safe_identifier (tr_plan_task t) \<noteq> None \<and> (\<exists>e\<in>set current. failed_evaluation_of (tr_id t) e)"
    unfolding failed_action_def by (cases "latest_failed_evaluation current (Some (tr_id t))") simp_all
qed

lemma diagnosis_action_is:
  "diagnosis_action pid ver ts current \<notin> {''retry'', ''stop''}"
  "diagnosis_action pid ver ts current = ''none'' \<longleftrightarrow>
     latest_event current ''budget_exceeded'' = None \<and> find (\<lambda>t. tr_state t = Failed) ts = None \<and> find (\<lambda>t. tr_state t = Blocked) ts = None"
  "diagnosis_action pid ver ts current = ''propose_patch'' \<longleftrightarrow>
     latest_event current ''budget_exceeded'' = None \<and>
     (\<exists>t. find (\<lambda>t. tr_state t = Failed) ts = Some t \<and> failed_action pid ver current t = ''propose_patch'')"
  using failed_action_is(1)
  by (cases "latest_event current ''budget_exceeded''"; cases "find (\<lambda>t. tr_state t = Failed) ts";
      cases "find (\<lambda>t. tr_state t = Blocked) ts"; simp add: diagnosis_action_def)+

lemma diagnosis_action_not:
  "diagnosis_action pid ver ts current = ''retry'' \<longleftrightarrow> False" "diagnosis_action pid ver ts current = ''stop'' \<longleftrightarrow> False"
  using diagnosis_action_is(1) [of pid ver ts current] by simp_all

lemma stop_is: "recovery_action run ts evs pending = ''stop'' \<longleftrightarrow> rr_status run = Run_cancelled"
  by (cases rule: run_cases [where run = run and ts = ts and pending = pending])
    (simp_all add: recovery_action_simps undisturbed_simps diagnosis_action_not)

lemma retry_is: "recovery_action run ts evs pending = ''retry'' \<longleftrightarrow> undisturbed run ts pending \<and> resumable run ts"
  by (cases rule: run_cases [where run = run and ts = ts and pending = pending])
    (simp_all add: recovery_action_simps undisturbed_simps diagnosis_action_not)

lemma none_is:
  "recovery_action run ts evs pending = ''none'' \<longleftrightarrow> rr_status run = Run_succeeded \<or>
     undisturbed run ts pending \<and> \<not> resumable run ts \<and> (\<forall>e\<in>set (since_revision evs). \<not> is_event ''budget_exceeded'' e) \<and>
     (\<forall>t\<in>set ts. tr_state t \<noteq> Failed \<and> tr_state t \<noteq> Blocked)"
  by (cases rule: run_cases [where run = run and ts = ts and pending = pending])
    (auto simp: recovery_action_simps undisturbed_simps diagnosis_action_is(2) latest_event_None find_None_set)

lemma patch_is:
  "recovery_action run ts evs pending = ''propose_patch'' \<longleftrightarrow>
     undisturbed run ts pending \<and> \<not> resumable run ts \<and> (\<forall>e\<in>set (since_revision evs). \<not> is_event ''budget_exceeded'' e) \<and>
     plan_of run \<noteq> None \<and> version_of run \<noteq> None \<and>
     (\<exists>t. find (\<lambda>t. tr_state t = Failed) ts = Some t \<and> safe_identifier (tr_plan_task t) \<noteq> None \<and>
        (\<exists>e\<in>set (since_revision evs). failed_evaluation_of (tr_id t) e))"
proof (cases rule: run_cases [where run = run and ts = ts and pending = pending])
  case 5
  then show ?thesis
    by (simp only: recovery_action_simps(5) [OF 5(3,4)] diagnosis_action_is(3) failed_action_is(2) latest_event_None) blast
qed (simp_all add: recovery_action_simps undisturbed_simps)

lemma proposal_init_Inr: "proposal_init x = Inr p \<Longrightarrow> x = p"
  by (simp add: proposal_init_def bindE_Inr_iff)

lemma propose_valid: "propose run ts evs pending = Inr p \<Longrightarrow> proposal_init p = Inr p"
proof -
  assume "propose run ts evs pending = Inr p"
  moreover obtain a r e g t q where
    "propose run ts evs pending = make_proposal run (plan_of run) (version_of run) a r e g t q"
    using propose_made unfolding made_def by blast
  ultimately obtain x where x: "proposal_init x = Inr p" unfolding make_proposal_def by metis
  with proposal_init_Inr [OF x] show ?thesis by simp
qed

text \<open>C30. The recovery policy always has an answer: \<^verbatim>\<open>propose\<close> raises only when the id of the run is not a safe
  identifier, or when a safely named plan has a version below one.  Every proposal it does return passes the checks of
  \<^verbatim>\<open>RecoveryProposal\<close> again and carries the id and the status of the run.\<close>

theorem recovery_always_answers:
  "((\<exists>p. propose run ts evs pending = Inr p) \<longleftrightarrow>
     safe_identifier (Some (rr_id run)) \<noteq> None \<and>
     (safe_identifier (rr_plan_id run) = None \<or> (case rr_plan_version run of None \<Rightarrow> True | Some v \<Rightarrow> 1 \<le> v))) \<and>
   (case propose run ts evs pending of Inl e \<Rightarrow> True
    | Inr p \<Rightarrow> proposal_init p = Inr p \<and> pp_run p = rr_id run \<and> pp_status p = run_status_text (rr_status run))"
proof (rule conjI)
  obtain r e g t q where eq: "propose run ts evs pending = (case refusal run of Some err \<Rightarrow> Inl err
      | None \<Rightarrow> Inr (answer_of run (recovery_action run ts evs pending) r e g t q))"
    by (rule propose_eq)
  then have "(\<exists>p. propose run ts evs pending = Inr p) \<longleftrightarrow> refusal run = None" by (cases "refusal run") simp_all
  then show "(\<exists>p. propose run ts evs pending = Inr p) \<longleftrightarrow>
      safe_identifier (Some (rr_id run)) \<noteq> None \<and>
      (safe_identifier (rr_plan_id run) = None \<or> (case rr_plan_version run of None \<Rightarrow> True | Some v \<Rightarrow> 1 \<le> v))"
    by (simp only:) (simp add: refusal_def not_less split: option.split)
  show "case propose run ts evs pending of Inl e \<Rightarrow> True
    | Inr p \<Rightarrow> proposal_init p = Inr p \<and> pp_run p = rr_id run \<and> pp_status p = run_status_text (rr_status run)"
    using eq propose_valid [of run ts evs pending] by (cases "refusal run") (simp_all add: answer_of_def)
qed


section \<open>Superseded evidence\<close>

definition informative :: "event_row \<Rightarrow> bool" where
  "informative e \<longleftrightarrow> ev_type e \<in> {''plan_revision_created'', ''budget_exceeded'', ''task_evaluated''}"

lemma propose_cong:
  assumes "latest_event (since_revision evs) ''budget_exceeded'' = latest_event (since_revision evs') ''budget_exceeded''"
    and "latest_failed_evaluation (since_revision evs) = latest_failed_evaluation (since_revision evs')"
  shows "propose run ts evs pending = propose run ts evs' pending"
  unfolding propose_def propose_diagnosis_def propose_failed_def events_after_eq by (simp only: assms Let_def)

lemma find_informative: "(\<And>e. P e \<Longrightarrow> informative e) \<Longrightarrow> find P (filter informative xs) = find P xs"
  by (induction xs) auto

lemma since_revision_filter: "since_revision (filter informative evs) = filter informative (since_revision evs)"
proof -
  have "takeWhile (\<lambda>e. \<not> is_event ''plan_revision_created'' e) (filter informative xs) =
      filter informative (takeWhile (\<lambda>e. \<not> is_event ''plan_revision_created'' e) xs)" for xs
    by (induction xs) (simp_all add: is_event_def informative_def)
  then show ?thesis by (simp add: since_revision_def rev_filter)
qed

lemma since_revision_append:
  assumes "is_event ''plan_revision_created'' e"
  shows "since_revision (old @ e # new) = since_revision new"
  using assms
  by (auto simp: since_revision_def takeWhile_append intro!: takeWhile_eq_all_conv [THEN iffD2, symmetric])

lemma propose_filter: "propose run ts (filter informative evs) pending = propose run ts evs pending"
  by (rule propose_cong)
    (auto simp: since_revision_filter latest_event_def latest_failed_evaluation_def rev_filter fun_eq_iff is_event_def
      failed_evaluation_of_def informative_def intro!: find_informative split: option.split)

text \<open>C32. Evidence from before the latest plan revision is superseded: it never influences a proposal, whatever it says,
  and of the events since then only plan revisions, exceeded budgets and task evaluations do.\<close>

theorem recovery_ignores_superseded_evidence:
  assumes "is_event ''plan_revision_created'' e"
  shows "propose run ts (old @ e # new) pending = propose run ts (filter informative new) pending"
  unfolding propose_filter by (rule propose_cong) (simp_all only: since_revision_append [OF assms])

section \<open>Storing a proposal twice\<close>

text \<open>What storing a proposal leaves alone, and what it leaves behind.\<close>

definition unmoved :: "ledger \<Rightarrow> ledger \<Rightarrow> bool" where
  "unmoved s s' \<longleftrightarrow> runs s' = runs s \<and> tasks s' = tasks s \<and> timeline s' = timeline s \<and>
     filter informative (events s') = filter informative (events s) \<and>
     filter (\<lambda>a. fa_kind a = ''input'') (artifacts s') = filter (\<lambda>a. fa_kind a = ''input'') (artifacts s)"

lemma unmoved_refl [simp]: "unmoved s s" by (simp add: unmoved_def)

lemma unmoved_trans: "unmoved s s' \<Longrightarrow> unmoved s' s'' \<Longrightarrow> unmoved s s''" by (simp add: unmoved_def)

lemma append_event_unmoved:
  assumes "append_event run task typ payload eid s = Inr (b, s')"
    and "typ \<notin> {''plan_revision_created'', ''budget_exceeded'', ''task_evaluated''}"
  shows "unmoved s s'" "artifacts s' = artifacts s"
  using assms by (auto simp: append_event_def unmoved_def informative_def Let_def split: if_splits)

lemma insert_row_Inr: "insert_row k x xs = Inr t \<Longrightarrow> t = xs @ [x]"
  by (simp add: insert_row_def split: if_splits)

lemma add_artifact_unmoved:
  assumes "add_artifact aid r t path d n ''recovery'' s = Inr (b, s')"
  shows "unmoved s s' \<and> list_ex (\<lambda>a. fa_path a = path \<and> fa_kind a = ''recovery'') (list_artifacts r s')"
proof -
  from assms obtain now u s1 s2 s3 where steps: "utc_now s = Inr (now, s1)"
    "insert_artifact \<lparr>fa_id = aid, fa_run = r, fa_task = t, fa_path = path, fa_sha256 = d, fa_size = n,
       fa_kind = ''recovery'', fa_created = now\<rparr> s1 = Inr (u, s2)"
    "append_event r (Some t) ''artifact_recorded''
      [(''artifact_id'', JStr aid), (''path'', JStr path), (''sha256'', JStr d), (''size'', JInt n)] None s2 = Inr (s3, s')"
    by (auto simp: add_artifact_def event_def bindS_def split: sum.splits)
  have "unmoved s s2 \<and> list_ex (\<lambda>a. fa_path a = path \<and> fa_kind a = ''recovery'') (list_artifacts r s2)"
    using steps(1,2) by (auto simp: utc_now_def insert_artifact_def bindE_Inr_iff unmoved_def list_artifacts_def list_ex_iff
        dest!: insert_row_Inr)
  with append_event_unmoved [OF steps(3)] show ?thesis
    by (auto simp: list_artifacts_def intro: unmoved_trans)
qed

lemma write_proposal_unmoved:
  assumes "write_proposal env r path p t s = Inr (u, s')" and "\<And>content q d n. rc_write env path content = Inr (q, d, n) \<Longrightarrow> q = path"
  shows "unmoved s s' \<and> list_ex (\<lambda>a. fa_path a = path \<and> fa_kind a = ''recovery'') (list_artifacts r s')"
proof (cases "list_ex (\<lambda>a. fa_path a = path \<and> fa_kind a = ''recovery'') (list_artifacts r s)")
  case True
  with assms(1) show ?thesis by (simp add: write_proposal_def bindS_def)
next
  case False
  with assms(1) obtain q d n b where
    stored: "rc_write env path (rc_render env (JObj (proposal_to_dict (rc_sha env) p)) @ [char_of (10::nat)]) = Inr (q, d, n)"
      "add_artifact (rc_artifact env) r t q d n ''recovery'' s = Inr (b, s')"
    by (auto simp: write_proposal_def bindS_def lift_def split: sum.splits)
  from stored(2) show ?thesis unfolding assms(2) [OF stored(1)] by (rule add_artifact_unmoved)
qed

lemma filter_conj_same: "filter Q xs = filter Q ys \<Longrightarrow> filter (\<lambda>x. P x \<and> Q x) xs = filter (\<lambda>x. P x \<and> Q x) ys"
proof -
  have "filter (\<lambda>x. P x \<and> Q x) zs = filter P (filter Q zs)" for zs by (simp add: conj_commute)
  then show "filter Q xs = filter Q ys \<Longrightarrow> ?thesis" by metis
qed

lemma unmoved_queries:
  assumes "unmoved s s'"
  shows "get_run r s' = get_run r s" "list_tasks r s' = list_tasks r s" "pending_input r s' = pending_input r s"
    "filter informative (list_events ids r s') = filter informative (list_events ids r s)"
proof -
  have same: "runs s' = runs s" "tasks s' = tasks s" using assms by (simp_all add: unmoved_def)
  have "filter (\<lambda>a. (fa_run a = r \<and> fa_task a = t) \<and> fa_kind a = ''input'') (artifacts s') =
      filter (\<lambda>a. (fa_run a = r \<and> fa_task a = t) \<and> fa_kind a = ''input'') (artifacts s)" for t
    using assms by (intro filter_conj_same) (simp add: unmoved_def)
  then have "input_request_path r t s' = input_request_path r t s" for t by (simp add: input_request_path_def conj_assoc)
  then show "get_run r s' = get_run r s" "list_tasks r s' = list_tasks r s" "pending_input r s' = pending_input r s"
    by (simp_all add: get_run_def list_tasks_def pending_input_def pending_input_row_def same split: option.split)
  have "filter (\<lambda>x. ev_run x = r \<and> informative x) (events s') = filter (\<lambda>x. ev_run x = r \<and> informative x) (events s)"
    using assms by (intro filter_conj_same) (simp add: unmoved_def)
  then show "filter informative (list_events ids r s') = filter informative (list_events ids r s)"
    by (simp add: list_events_def filter_sort)
qed

text \<open>The answer of the policy on a ledger, and what \<open>recover\<close> does once it has it.\<close>

definition proposal_on :: "recover_env \<Rightarrow> string \<Rightarrow> ledger \<Rightarrow> proposal result option" where
  "proposal_on env r s = map_option (\<lambda>run. propose run (list_tasks (rr_id run) s) (list_events (rc_ids env) (rr_id run) s)
     (pending_input (rr_id run) s)) (get_run r s)"

lemma proposal_on_unmoved: "unmoved s s' \<Longrightarrow> proposal_on env r s' = proposal_on env r s"
  using unmoved_queries [of s s'] propose_filter [of _ _ "list_events _ _ s'"] propose_filter [of _ _ "list_events _ _ s"]
  by (simp add: proposal_on_def)

text \<open>The task that owns a stored proposal.\<close>

definition owner_of :: "string \<Rightarrow> ledger \<Rightarrow> proposal \<Rightarrow> string option" where
  "owner_of r s p = (case pp_task p of Some t \<Rightarrow> Some t
     | None \<Rightarrow> (case list_tasks r s of [] \<Rightarrow> None | t # _ \<Rightarrow> Some (tr_id t)))"

lemma get_run_id: "get_run r s = Some run \<Longrightarrow> rr_id run = r"
  by (auto simp: get_run_def fetch_one_def dest: find_Some_iff_first)

lemma recover_iff:
  "recover env r s = Inr (q, s') \<longleftrightarrow>
     (\<exists>p target s1 b. proposal_on env r s = Some (Inr p) \<and> owner_of r s p = Some target \<and>
        with_artifact_path (proposal_path env p) p = Inr q \<and> write_proposal env r (proposal_path env p) q target s = Inr ((), s1) \<and>
        append_event r (pp_task p) ''recovery_proposed'' [(''proposal'', JObj (proposal_to_dict (rc_sha env) q))]
          (Some (proposal_event_id (rc_sha env) p)) s1 = Inr (b, s'))"
proof (cases "get_run r s")
  case None
  then show ?thesis by (simp add: recover_def proposal_on_def bindS_def)
next
  case (Some run)
  note id = get_run_id [OF Some]
  show ?thesis
  proof (cases "propose run (list_tasks r s) (list_events (rc_ids env) r s) (pending_input r s)")
    case (Inl e)
    with Some id show ?thesis by (simp add: recover_def proposal_on_def bindS_def lift_def)
  next
    case (Inr p)
    show ?thesis
    proof (cases "owner_of r s p")
      case None
      with Some id Inr show ?thesis
        by (simp add: recover_def proposal_on_def bindS_def lift_def owner_of_def)
    next
      case (Some target)
      with \<open>get_run r s = Some run\<close> id Inr show ?thesis
        by (auto simp: recover_def proposal_on_def bindS_def lift_def owner_of_def [symmetric] split: sum.splits)
    qed
  qed
qed

lemma append_named_twice:
  assumes "append_event run task typ payload (Some i) s = Inr (b, s')"
  shows "append_event run task typ payload (Some i) s' = Inr (False, s'\<lparr>ticks := Suc (ticks s')\<rparr>)"
  using assms by (auto simp: append_event_def Let_def split: if_splits)

text \<open>C33. Recovering twice is recovering once.  Once \<^verbatim>\<open>Controller.recover\<close> has stored a proposal, a second call on the
  ledger it left returns the same proposal and adds nothing to it, no artifact and no event (only the clock advances); and
  neither call touches a run, a task or the clock's future.  It is enough that the writer records the path it was given.\<close>

theorem recover_idempotent:
  assumes "recover env run_id s = Inr (p, s')"
    and "\<And>path content q d n. rc_write env path content = Inr (q, d, n) \<Longrightarrow> q = path"
  shows "recover env run_id s' = Inr (p, s'\<lparr>ticks := Suc (ticks s')\<rparr>) \<and> runs s' = runs s \<and> tasks s' = tasks s"
proof -
  from assms(1) obtain p0 target s1 b where first: "proposal_on env run_id s = Some (Inr p0)" "owner_of run_id s p0 = Some target"
    "with_artifact_path (proposal_path env p0) p0 = Inr p" "write_proposal env run_id (proposal_path env p0) p target s = Inr ((), s1)"
    "append_event run_id (pp_task p0) ''recovery_proposed'' [(''proposal'', JObj (proposal_to_dict (rc_sha env) p))]
       (Some (proposal_event_id (rc_sha env) p0)) s1 = Inr (b, s')"
    unfolding recover_iff by blast
  have "unmoved s s1 \<and> list_ex (\<lambda>a. fa_path a = proposal_path env p0 \<and> fa_kind a = ''recovery'') (list_artifacts run_id s1)"
    by (rule write_proposal_unmoved [OF first(4)]) (rule assms(2))
  with append_event_unmoved [OF first(5)]
  have un: "unmoved s s'" and listed:
    "list_ex (\<lambda>a. fa_path a = proposal_path env p0 \<and> fa_kind a = ''recovery'') (list_artifacts run_id s')"
    by (auto simp: list_artifacts_def intro: unmoved_trans)
  have "write_proposal env run_id (proposal_path env p0) p target s' = Inr ((), s')"
    using listed by (simp add: write_proposal_def bindS_def)
  moreover have "proposal_on env run_id s' = Some (Inr p0)" "owner_of run_id s' p0 = Some target"
    using first(1,2) by (simp_all only: proposal_on_unmoved [OF un] owner_of_def unmoved_queries(2) [OF un])
  ultimately have "recover env run_id s' = Inr (p, s'\<lparr>ticks := Suc (ticks s')\<rparr>)"
    unfolding recover_iff using first(3) append_named_twice [OF first(5)] by blast
  with un show ?thesis by (simp add: unmoved_def)
qed

section \<open>Witnesses\<close>

text \<open>A planned run whose only task failed its evaluation, after a first revision.\<close>

definition sick_run :: run_row where
  "sick_run = \<lparr>rr_id = ''run-1'', rr_goal = ''goal'', rr_status = Run_failed, rr_workspace = ''w'', rr_created = 0, rr_updated = 0,
     rr_runner_pid = None, rr_runner_pgid = None, rr_plan_id = Some ''plan-1'', rr_plan_version = Some 1, rr_route = None,
     rr_budget = default_budget\<rparr>"

definition sick_task :: task_row where
  "sick_task = \<lparr>tr_id = ''task-1'', tr_run = ''run-1'', tr_title = ''t'', tr_prompt = ''p'', tr_state = Failed, tr_attempts = 1,
     tr_result_path = None, tr_last_error = None, tr_dependencies = [], tr_acceptance = None, tr_question = None, tr_options = [],
     tr_answer_path = None, tr_plan_task = Some ''a'', tr_orchestration = False, tr_created = 0, tr_updated = 0\<rparr>"

definition told :: "nat \<Rightarrow> string \<Rightarrow> (string \<times> json) list \<Rightarrow> event_row" where
  "told n typ payload = \<lparr>ev_id = Fresh_event n, ev_run = ''run-1'', ev_task = Some ''task-1'', ev_type = typ,
     ev_payload = payload, ev_created = n\<rparr>"

definition sick_events :: "event_row list" where
  "sick_events = [told 0 ''budget_exceeded'' [], told 1 ''plan_revision_created'' [], told 2 ''task_evaluated'' [(''passed'', JBool False)]]"

definition sick_ledger :: ledger where
  "sick_ledger = (empty_ledger (\<lambda>n. n))\<lparr>ticks := 3, runs := [sick_run], tasks := [sick_task], events := sick_events\<rparr>"

definition plain_recovery :: recover_env where
  "plain_recovery = \<lparr>rc_sha = (\<lambda>t. ''0123''), rc_ids = (\<lambda>i. case i of Fresh_event n \<Rightarrow> show_nat n | Named_event x \<Rightarrow> x),
     rc_write = (\<lambda>path content. Inr (path, ''digest'', int (length content))), rc_artifact = ''artifact-1'', rc_render = dumps\<rparr>"


theorem recovery_ignores_superseded_evidence_witness:
  "propose sick_run [sick_task] sick_events None =
   propose sick_run [sick_task] [told 2 ''task_evaluated'' [(''passed'', JBool False)]] None"
  using recovery_ignores_superseded_evidence [of "told 1 ''plan_revision_created'' []" sick_run "[sick_task]"
      "[told 0 ''budget_exceeded'' []]" "[told 2 ''task_evaluated'' [(''passed'', JBool False)]]" None]
  by (simp add: sick_events_def is_event_def told_def informative_def)

theorem recover_idempotent_witness:
  "\<exists>p s'. recover plain_recovery ''run-1'' sick_ledger = Inr (p, s') \<and>
     recover plain_recovery ''run-1'' s' = Inr (p, s'\<lparr>ticks := Suc (ticks s')\<rparr>) \<and> length (events s') = 5"
proof -
  have "case recover plain_recovery ''run-1'' sick_ledger of Inl e \<Rightarrow> False | Inr (p, s') \<Rightarrow> length (events s') = 5" by code_simp
  then obtain p s' where p: "recover plain_recovery ''run-1'' sick_ledger = Inr (p, s')" "length (events s') = 5"
    by (auto split: sum.splits)
  have "recover plain_recovery ''run-1'' s' = Inr (p, s'\<lparr>ticks := Suc (ticks s')\<rparr>)"
    using recover_idempotent [OF p(1)] by (simp add: plain_recovery_def)
  with p show ?thesis by blast
qed

end
