(* ===== verification/Registry.thy ===== *)
theory Registry imports AcceptanceEval Routing Population begin

text \<open>
  The solver and evaluator registry of \<^verbatim>\<open>profiles.py\<close>, the rendering of a model profile, and the role workspace
  of an algorithm problem (\<^verbatim>\<open>materialize_algorithm_workspace\<close>).  A registry is the list of its profiles, looked up
  by name.  The workspace routine is run against a record of what the file system says, and yields the file
  operations it performs next to its outcome, so that a failure keeps the operations made before it.
\<close>

section \<open>Solver and evaluator profiles\<close>

record solver_profile =
  sp_name :: string
  sp_description :: string
  sp_capabilities :: "string list"
  sp_budget :: budget_spec

record evaluator_profile =
  ep_name :: string
  ep_description :: string
  ep_create :: "string \<Rightarrow> evaluation"

definition solver_profile_init :: "solver_profile \<Rightarrow> solver_profile result" where
  "solver_profile_init p =
     bindE (profile_text (JStr (sp_name p)) ''solver profile name'') (\<lambda>_.
     bindE (profile_text (JStr (sp_description p)) ''solver profile description'') (\<lambda>_.
     bindE (guardE (length (sp_capabilities p) > 16) (ValueError ''solver profile has too many capabilities'')) (\<lambda>_.
     bindE (mapE (\<lambda>c. profile_text (JStr c) ''solver capability'') (sp_capabilities p)) (\<lambda>_. Inr p))))"

definition evaluator_profile_init :: "evaluator_profile \<Rightarrow> evaluator_profile result" where
  "evaluator_profile_init p =
     bindE (profile_text (JStr (ep_name p)) ''evaluator profile name'') (\<lambda>_.
     bindE (profile_text (JStr (ep_description p)) ''evaluator profile description'') (\<lambda>_. Inr p))"

section \<open>The registry\<close>

record registry =
  rg_solvers :: "solver_profile list"
  rg_evaluators :: "evaluator_profile list"

definition default_solver_table :: "(string \<times> string list) list" where
  "default_solver_table =
     [(''general'', [''read_files'', ''write_artifacts'']),
      (''data'', [''read_files'', ''write_files'', ''analyze_data'', ''write_artifacts'']),
      (''research'', [''read_files'', ''gather_sources'', ''write_artifacts'']),
      (''coding'', [''read_files'', ''write_files'', ''run_tests'', ''write_artifacts''])]"

definition default_solvers :: "solver_profile list result" where
  "default_solvers = mapE (\<lambda>(name, capabilities). solver_profile_init \<lparr>sp_name = name,
     sp_description = name @ '' local solver'', sp_capabilities = capabilities, sp_budget = default_budget\<rparr>) default_solver_table"

definition default_evaluators :: "evaluator_profile list result" where
  "default_evaluators = mapE (\<lambda>name. evaluator_profile_init \<lparr>ep_name = name,
     ep_description = name @ '' structured evaluator'', ep_create = evaluate_non_empty\<rparr>)
     [''general'', ''data'', ''research'', ''coding'']"

text \<open>An absent and an empty tuple both select the defaults.\<close>

definition registry_init :: "solver_profile list \<Rightarrow> evaluator_profile list \<Rightarrow> registry result" where
  "registry_init solvers evaluators =
     bindE (if solvers \<noteq> [] then Inr solvers else default_solvers) (\<lambda>ss.
     bindE (if evaluators \<noteq> [] then Inr evaluators else default_evaluators) (\<lambda>es.
     bindE (guardE (\<not> distinct (map sp_name ss)) (ValueError ''solver profile names must be unique'')) (\<lambda>_.
     bindE (guardE (\<not> distinct (map ep_name es)) (ValueError ''evaluator profile names must be unique'')) (\<lambda>_.
     Inr \<lparr>rg_solvers = ss, rg_evaluators = es\<rparr>))))"

definition registry_solver :: "registry \<Rightarrow> string \<Rightarrow> solver_profile result" where
  "registry_solver r name =
     (case find (\<lambda>p. sp_name p = name) (rg_solvers r) of
        None \<Rightarrow> Inl (ValueError (''unknown solver profile: '' @ name))
      | Some p \<Rightarrow> Inr p)"

definition registry_evaluator :: "registry \<Rightarrow> string \<Rightarrow> (string \<Rightarrow> evaluation) result" where
  "registry_evaluator r name =
     (case find (\<lambda>p. ep_name p = name) (rg_evaluators r) of
        None \<Rightarrow> Inl (ValueError (''unknown evaluator profile: '' @ name))
      | Some p \<Rightarrow> Inr (ep_create p))"

text \<open>\<^verbatim>\<open>LocalController._validate_route\<close>: a controller with an evaluator of its own asks for the solver only.\<close>

definition validate_route :: "registry \<Rightarrow> (string \<Rightarrow> evaluation) option \<Rightarrow> route_decision \<Rightarrow> unit result" where
  "validate_route r own d =
     bindE (registry_solver r (ro_solver d)) (\<lambda>_.
     case own of None \<Rightarrow> bindE (registry_evaluator r (ro_evaluator d)) (\<lambda>_. Inr ()) | Some _ \<Rightarrow> Inr ())"

section \<open>Rendering a model profile\<close>

text \<open>\<^verbatim>\<open>float(v)\<close> of a stored timeout: an accepted integer is at most 86400 and prints its digits.\<close>

definition as_float :: "json \<Rightarrow> json" where
  "as_float v = (case v of JInt i \<Rightarrow> JFloat (of_int i) (show_int i @ ''.0'') | _ \<Rightarrow> v)"

definition model_profile_to_dict :: "model_profile \<Rightarrow> (string \<times> json) list" where
  "model_profile_to_dict p =
     [(''name'', JStr (mp_name p)), (''model'', JStr (mp_model p)), (''thinking_budget'', JInt (thinking_budget p)),
      (''max_steps'', JInt (max_steps p)), (''timeout_seconds'', as_float (timeout_seconds p)),
      (''max_total_tokens'', opt_int (max_total_tokens p)), (''max_cost_micros'', opt_int (max_cost_micros p)),
      (''input_cost_per_1k_micros'', opt_int (input_cost_per_1k_micros p)),
      (''output_cost_per_1k_micros'', opt_int (output_cost_per_1k_micros p))]"

section \<open>The role workspace\<close>

definition problem_canonical_json :: "problem_contract \<Rightarrow> string" where
  "problem_canonical_json c = canonical (problem_to_dict c)"

definition problem_digest :: "(string \<Rightarrow> string) \<Rightarrow> problem_contract \<Rightarrow> string" where
  "problem_digest sha c = sha (problem_canonical_json c)"

definition WORKSPACE_DIRECTORIES :: "(string \<times> string) list" where
  "WORKSPACE_DIRECTORIES = [(''raw_data'', ''data/raw''), (''processed_data'', ''data/processed''), (''solver'', ''solve''),
     (''evaluator'', ''evaluate''), (''output'', ''output''), (''evolution'', ''evolution'')]"

datatype file_step = Make_root | Make_directory string | Write_file string string | Replace_file string string

text \<open>Is the root, or a directory below it, a link; and does a directory resolve below the root once made?\<close>

record role_fs =
  rf_root_link :: bool
  rf_link :: "string \<Rightarrow> bool"
  rf_inside :: "string \<Rightarrow> bool"

fun make_roles :: "role_fs \<Rightarrow> string list \<Rightarrow> file_step list \<times> py_error option" where
  "make_roles fs [] = ([], None)"
| "make_roles fs (relative # rest) =
     (if rf_link fs relative
      then ([], Some (ValueError (''algorithm workspace directory must not be a symlink: '' @ relative)))
      else if \<not> rf_inside fs relative
      then ([Make_directory relative], Some (ValueError (''algorithm workspace directory escapes root: '' @ relative)))
      else (case make_roles fs rest of (steps, outcome) \<Rightarrow> (Make_directory relative # steps, outcome)))"

definition role_manifest :: "(string \<Rightarrow> string) \<Rightarrow> problem_contract \<Rightarrow> string \<Rightarrow> int \<Rightarrow> json" where
  "role_manifest sha c plan_id plan_version =
     JObj [(''schema_version'', JStr ''1''), (''problem_id'', JStr (pc_problem_id c)), (''plan_id'', JStr plan_id),
       (''plan_version'', JInt plan_version), (''contract_sha256'', JStr (problem_digest sha c)),
       (''evolution_strategy'', JStr (es_strategy (pc_evolution c))),
       (''directories'', JObj (map (\<lambda>(role, d). (role, JStr d)) WORKSPACE_DIRECTORIES))]"

definition materialize_algorithm_workspace ::
  "(string \<Rightarrow> string) \<Rightarrow> (json \<Rightarrow> string) \<Rightarrow> role_fs \<Rightarrow> problem_contract \<Rightarrow> string \<Rightarrow> json \<Rightarrow> file_step list \<times> string result" where
  "materialize_algorithm_workspace sha render fs c plan_id plan_version =
     (if es_strategy (pc_evolution c) = ''loop'' then ([], Inl (ValueError LOOP_RETIRED))
      else if rf_root_link fs then ([], Inl (ValueError ''algorithm workspace root must not be a symlink''))
      else case safe_segment (JStr plan_id) ''plan id'' of
        Inl e \<Rightarrow> ([], Inl e)
      | Inr _ \<Rightarrow>
     (case plan_version of
        JInt version \<Rightarrow>
          if version < 1 then ([], Inl (ValueError ''plan version must be a positive integer''))
          else (case make_roles fs (map snd WORKSPACE_DIRECTORIES) of
             (steps, Some e) \<Rightarrow> (Make_root # steps, Inl e)
           | (steps, None) \<Rightarrow>
               (Make_root # steps @ [Write_file ''.algorithm-workspace.json.tmp''
                  (render (role_manifest sha c plan_id version) @ [char_of (10::nat)]),
                  Replace_file ''.algorithm-workspace.json.tmp'' ''algorithm-workspace.json''],
                Inr ''algorithm-workspace.json''))
      | _ \<Rightarrow> ([], Inl (ValueError ''plan version must be a positive integer''))))"

section \<open>Every route is served\<close>

lemma default_registry:
  obtains r where "registry_init [] [] = Inr r"
    and "map (\<lambda>p. (sp_name p, sp_capabilities p)) (rg_solvers r) = default_solver_table"
    and "map ep_name (rg_evaluators r) = map fst default_solver_table"
    and "\<And>p. p \<in> set (rg_evaluators r) \<Longrightarrow> ep_create p = evaluate_non_empty"
proof -
  have solvers: "case default_solvers of Inl e \<Rightarrow> False
    | Inr ss \<Rightarrow> map (\<lambda>p. (sp_name p, sp_capabilities p)) ss = default_solver_table" by code_simp
  have evaluators: "case default_evaluators of Inl e \<Rightarrow> False | Inr es \<Rightarrow> map ep_name es = map fst default_solver_table"
    by code_simp
  from solvers obtain ss where ss: "default_solvers = Inr ss"
    "map (\<lambda>p. (sp_name p, sp_capabilities p)) ss = default_solver_table" by (auto split: sum.splits)
  from evaluators obtain es where es: "default_evaluators = Inr es" "map ep_name es = map fst default_solver_table"
    by (auto split: sum.splits)
  have "map sp_name ss = map fst default_solver_table" unfolding ss(2) [symmetric] by simp
  moreover have "distinct (map fst default_solver_table)" by code_simp
  ultimately have "registry_init [] [] = Inr \<lparr>rg_solvers = ss, rg_evaluators = es\<rparr>"
    by (simp add: registry_init_def ss(1) es)
  moreover have "ep_create p = evaluate_non_empty" if "p \<in> set es" for p
    using mapE_set [OF es(1) [unfolded default_evaluators_def] that]
    by (auto simp: evaluator_profile_init_def bindE_Inr_iff)
  ultimately show ?thesis using that ss(2) es(2) by fastforce
qed

lemma route_texts_ok:
  "list_all (\<lambda>(d, sigs). is_ok (route_text (JStr d) ''domain'') \<and> is_ok (route_text (JStr (''matched '' @ d @ '' goal signals'')) ''route reason'') \<and>
     is_ok (route_text (JStr d) ''solver profile'') \<and> is_ok (route_text (JStr d) ''evaluator profile'') \<and>
     list_all (\<lambda>c. is_ok (route_text (JStr c) ''route item'')) (domain_capabilities d) \<and> length (domain_capabilities d) \<le> ROUTE_ITEMS \<and>
     map_of default_solver_table d = Some (domain_capabilities d) \<and>
     list_all (\<lambda>sg. is_ok (route_text (JStr (''signal:'' @ snd sg)) ''route item'')) sigs) route_signals"
  by code_simp

lemma is_ok_mapE: "is_ok (mapE f xs) \<longleftrightarrow> (\<forall>x\<in>set xs. is_ok (f x))"
proof (induction xs)
  case (Cons x xs)
  then show ?case by (cases "f x"; cases "mapE f xs") simp_all
qed simp

lemma route_initI:
  assumes "is_ok (route_text (JStr (ro_domain r)) ''domain'')" "is_ok (route_text (JStr (ro_reason r)) ''route reason'')"
    and "0 \<le> ro_confidence r" "ro_confidence r \<le> 1"
    and "is_ok (route_text (JStr (ro_solver r)) ''solver profile'')" "is_ok (route_text (JStr (ro_evaluator r)) ''evaluator profile'')"
    and "length (ro_capabilities r) \<le> ROUTE_ITEMS" "length (ro_evidence r) \<le> ROUTE_ITEMS"
    and "\<forall>i\<in>set (ro_capabilities r @ ro_evidence r). is_ok (route_text (JStr i) ''route item'')"
  shows "route_init r = Inr r"
proof -
  have "is_ok (mapE (\<lambda>i. route_text (JStr i) ''route item'') (ro_capabilities r @ ro_evidence r))"
    using assms(9) by (simp only: is_ok_mapE)
  with assms show ?thesis unfolding route_init_def by (auto simp: is_ok_iff bind_guardE)
qed

lemma matched_signal:
  assumes "m \<in> set (route_matches lowered)"
  obtains sigs sg where "(fst m, sigs) \<in> set route_signals" "sg \<in> set sigs" "snd m = snd sg"
  using assms unfolding route_matches_def by (auto split: prod.splits)

lemma route_total:
  assumes "route_text goal ''goal'' = Inr g"
  shows "\<exists>r. route goal = Inr r \<and> map_of default_solver_table (ro_solver r) = Some (ro_capabilities r) \<and> ro_evaluator r = ro_solver r"
proof (cases "find (\<lambda>(d, _). d \<in> fst ` set (route_matches (lower g))) route_signals")
  case None
  let ?r = "\<lparr>ro_domain = ''general'', ro_reason = ''no domain-specific signal detected'',
    ro_confidence = 62 / 100, ro_capabilities = [''read_files'', ''write_artifacts''], ro_solver = ''general'',
    ro_evaluator = ''general'', ro_budget = default_budget, ro_evidence = [''fallback:general'']\<rparr>"
  have "route_init ?r = Inr ?r" by code_simp
  with None assms show ?thesis by (simp add: route_def default_solver_table_def)
next
  case (Some found)
  obtain d sigs where found: "found = (d, sigs)" by (cases found)
  with Some have d: "(d, sigs) \<in> set route_signals" by (auto dest: find_Some_iff_first)
  define evidence where "evidence = take ROUTE_ITEMS (map (\<lambda>(d, sg). ''signal:'' @ sg) (filter (\<lambda>(d', _). d' = d) (route_matches (lower g))))"
  define confidence :: rat where "confidence = min (95 / 100) (78 / 100 + 4 / 100 * of_int (int (length evidence) - 1))"
  let ?r = "\<lparr>ro_domain = d, ro_reason = ''matched '' @ d @ '' goal signals'', ro_confidence = confidence,
    ro_capabilities = domain_capabilities d, ro_solver = d, ro_evaluator = d, ro_budget = default_budget, ro_evidence = evidence\<rparr>"
  have texts: "is_ok (route_text (JStr d) ''domain'')" "is_ok (route_text (JStr (''matched '' @ d @ '' goal signals'')) ''route reason'')"
    "is_ok (route_text (JStr d) ''solver profile'')" "is_ok (route_text (JStr d) ''evaluator profile'')"
    "\<forall>c\<in>set (domain_capabilities d). is_ok (route_text (JStr c) ''route item'')" "length (domain_capabilities d) \<le> ROUTE_ITEMS"
    "map_of default_solver_table d = Some (domain_capabilities d)"
    using route_texts_ok d unfolding list_all_iff by (auto split: prod.splits)
  have "is_ok (route_text (JStr i) ''route item'')" if "i \<in> set evidence" for i
  proof -
    from that obtain m where m: "m \<in> set (route_matches (lower g))" "i = ''signal:'' @ snd m"
      unfolding evidence_def by (fastforce dest: in_set_takeD)
    from m(1) obtain sigs' sg where "(fst m, sigs') \<in> set route_signals" "sg \<in> set sigs'" "snd m = snd sg"
      by (rule matched_signal)
    with m(2) route_texts_ok show ?thesis unfolding list_all_iff by fastforce
  qed
  moreover have "length evidence \<le> ROUTE_ITEMS" by (simp add: evidence_def)
  moreover have "0 \<le> confidence"
  proof -
    have "4 / 100 * (- 1) \<le> 4 / 100 * (rat_of_nat (length evidence) - 1)" by (rule mult_left_mono) simp_all
    moreover have "(0 :: rat) \<le> 78 / 100 + 4 / 100 * (- 1)" by simp
    ultimately have "0 \<le> 78 / 100 + 4 / 100 * (rat_of_nat (length evidence) - 1)" by (meson add_left_mono order_trans)
    then show ?thesis by (simp add: confidence_def)
  qed
  moreover have "confidence \<le> 1" by (simp add: confidence_def min_le_iff_disj)
  ultimately have init: "route_init ?r = Inr ?r" using texts by (intro route_initI) auto
  have "route goal = route_init ?r"
    by (simp only: route_def assms bindE_simps Let_def Some found option.case prod.case evidence_def confidence_def)
  with init texts(7) show ?thesis by simp
qed

lemma find_by_key: "map f xs = map fst tab \<Longrightarrow> map_of tab k = Some v \<Longrightarrow> \<exists>x. find (\<lambda>x. f x = k) xs = Some x"
  by (metis (mono_tags, lifting) find_None_set image_iff image_set map_of_SomeD not_None_eq fst_conv)

lemma find_by_pair:
  "map (\<lambda>x. (f x, g x)) xs = tab \<Longrightarrow> map_of tab k = Some v \<Longrightarrow> \<exists>x. find (\<lambda>x. f x = k) xs = Some x \<and> g x = v"
  by (induction xs arbitrary: tab) (auto split: if_splits)

text \<open>C29. Every route is served.  Whatever goal the router accepts, it returns a route; the default registry knows the
  solver and the evaluator the route names, the controller's route check passes, and the solver profile requires exactly the
  capabilities the route announces.\<close>

theorem routes_are_served:
  assumes "registry_init [] [] = Inr registry" and "route_text goal ''goal'' = Inr g"
  shows "\<exists>r p. route goal = Inr r \<and> registry_solver registry (ro_solver r) = Inr p \<and> sp_capabilities p = ro_capabilities r \<and>
    registry_evaluator registry (ro_evaluator r) = Inr evaluate_non_empty \<and> validate_route registry own r = Inr ()"
proof -
  obtain r where r: "route goal = Inr r" "map_of default_solver_table (ro_solver r) = Some (ro_capabilities r)"
    "ro_evaluator r = ro_solver r" using route_total [OF assms(2)] by blast
  obtain rg where rg: "registry_init [] [] = Inr rg"
    "map (\<lambda>p. (sp_name p, sp_capabilities p)) (rg_solvers rg) = default_solver_table"
    "map ep_name (rg_evaluators rg) = map fst default_solver_table"
    "\<And>p. p \<in> set (rg_evaluators rg) \<Longrightarrow> ep_create p = evaluate_non_empty" by (rule default_registry) blast
  obtain p where p: "find (\<lambda>p. sp_name p = ro_solver r) (rg_solvers rg) = Some p" "sp_capabilities p = ro_capabilities r"
    using find_by_pair [OF rg(2) r(2)] by blast
  obtain e where e: "find (\<lambda>p. ep_name p = ro_solver r) (rg_evaluators rg) = Some e"
    using find_by_key [OF rg(3) r(2)] by blast
  then have "ep_create e = evaluate_non_empty" by (intro rg(4)) (auto dest: find_Some_iff_first)
  with p e r rg(1) assms(1) show ?thesis
    by (simp add: registry_solver_def registry_evaluator_def validate_route_def split: option.split)
qed

theorem routes_are_served_witness:
  "\<exists>registry r p. registry_init [] [] = Inr registry \<and> route (JStr ''fix the bug in sources'') = Inr r \<and>
     registry_solver registry (ro_solver r) = Inr p \<and> sp_capabilities p = ro_capabilities r"
proof -
  obtain registry where registry: "registry_init [] [] = Inr registry" by (rule default_registry) blast
  have "case route_text (JStr ''fix the bug in sources'') ''goal'' of Inl e \<Rightarrow> False | Inr g \<Rightarrow> True" by code_simp
  then obtain g where g: "route_text (JStr ''fix the bug in sources'') ''goal'' = Inr g" by (auto split: sum.splits)
  from routes_are_served [OF registry g] registry show ?thesis by blast
qed

section \<open>Model profiles and workspaces\<close>

text \<open>A rendered profile is read back, up to the timeout, which comes back as a float of the same value.\<close>

lemma as_float_same:
  assumes "is_number v" and "is_finite_number v = Inr True"
  shows "is_number (as_float v)" "is_finite_number (as_float v) = Inr True" "num_val (as_float v) = num_val v"
  using assms by (cases v; simp add: as_float_def)+

lemma profile_text_JStr: "profile_text v n = Inr x \<Longrightarrow> \<exists>s. v = JStr s"
  by (cases v) (simp_all add: profile_text_def)

lemma optional_nat_field_again: "optional_nat_field n v = Inr x \<Longrightarrow> optional_nat_field n (opt_int x) = Inr x"
  by (auto simp: optional_nat_field_Inr opt_int_def)

lemma bounded_int_field_again: "bounded_int_field m lo hi v = Inr x \<Longrightarrow> bounded_int_field m lo hi (JInt x) = Inr x"
  by (auto simp: bounded_int_field_def split: json.splits if_splits)

lemma model_profile_post_init_again:
  assumes "model_profile_post_init n m t s w tt cm ic oc = Inr p"
  shows "model_profile_post_init (JStr (mp_name p)) (JStr (mp_model p)) (JInt (thinking_budget p)) (JInt (max_steps p))
      (as_float (timeout_seconds p)) (opt_int (max_total_tokens p)) (opt_int (max_cost_micros p))
      (opt_int (input_cost_per_1k_micros p)) (opt_int (output_cost_per_1k_micros p)) =
    Inr (p\<lparr>timeout_seconds := as_float (timeout_seconds p)\<rparr>) \<and> num_val (as_float (timeout_seconds p)) = num_val (timeout_seconds p)"
proof -
  from assms obtain n' m' tb st tt' cm' ic' oc' where steps:
    "profile_text n ''model profile name'' = Inr n'" "profile_text m ''model profile model'' = Inr m'"
    "bounded_int_field ''thinking_budget must be an integer between 0 and 1000000'' 0 1000000 t = Inr tb"
    "bounded_int_field ''max_steps must be between 1 and 200'' 1 200 s = Inr st"
    "is_number w" "is_finite_number w = Inr True" "0 < num_val w" "num_val w \<le> 86400"
    "optional_nat_field ''max_total_tokens'' tt = Inr tt'" "optional_nat_field ''max_cost_micros'' cm = Inr cm'"
    "optional_nat_field ''input_cost_per_1k_micros'' ic = Inr ic'" "optional_nat_field ''output_cost_per_1k_micros'' oc = Inr oc'"
    "\<not> ((ic' = None) \<noteq> (oc' = None))" "\<not> (cm' \<noteq> None \<and> ic' = None)" "\<not> (tt' = Some 0 \<or> cm' = Some 0)"
    "p = \<lparr>mp_name = (case n of JStr s \<Rightarrow> s | _ \<Rightarrow> []), mp_model = (case m of JStr s \<Rightarrow> s | _ \<Rightarrow> []),
       thinking_budget = tb, max_steps = st, timeout_seconds = w, max_total_tokens = tt', max_cost_micros = cm',
       input_cost_per_1k_micros = ic', output_cost_per_1k_micros = oc'\<rparr>"
    unfolding model_profile_post_init_def bindE_Inr_iff guardE_Inr_iff sum.inject by (elim exE conjE) (simp add: that)
  from profile_text_JStr [OF steps(1)] profile_text_JStr [OF steps(2)] obtain a b where "n = JStr a" "m = JStr b" by blast
  with steps show ?thesis
    by (auto simp: model_profile_post_init_def as_float_same bounded_int_field_again optional_nat_field_again bind_guardE)
qed

lemma model_profile_roundtrip:
  assumes "model_profile_from_dict v = Inr p"
  shows "model_profile_from_dict (JObj (model_profile_to_dict p)) = Inr (p\<lparr>timeout_seconds := as_float (timeout_seconds p)\<rparr>)
    \<and> num_val (as_float (timeout_seconds p)) = num_val (timeout_seconds p)"
proof -
  from assms obtain n m t s w tt cm ic oc where "model_profile_post_init n m t s w tt cm ic oc = Inr p"
    by (auto simp: model_profile_from_dict_def Let_def split: json.splits if_splits)
  from model_profile_post_init_again [OF this] show ?thesis
    by (simp add: model_profile_from_dict_def model_profile_to_dict_def model_profile_fields_def Let_def jget_default_def)
qed

text \<open>The manifest is replaced only after every role directory has been made and found inside the root.\<close>

lemma make_roles_only_makes: "make_roles fs ds = (steps, e) \<Longrightarrow> Replace_file t m \<notin> set steps"
  by (induction ds arbitrary: steps e) (auto split: if_splits prod.splits)

lemma make_roles_done:
  "make_roles fs ds = (steps, None) \<Longrightarrow> Replace_file t m \<notin> set steps \<and> (\<forall>d\<in>set ds. \<not> rf_link fs d \<and> rf_inside fs d)"
  by (induction ds arbitrary: steps) (auto split: if_splits prod.splits)

lemma manifest_is_last:
  assumes "materialize_algorithm_workspace sha render fs c plan_id version = (steps, outcome)"
    and "Replace_file t m \<in> set steps"
  shows "outcome = Inr m \<and> last steps = Replace_file t m \<and>
    (\<forall>d\<in>set (map snd WORKSPACE_DIRECTORIES). \<not> rf_link fs d \<and> rf_inside fs d)"
  using assms unfolding materialize_algorithm_workspace_def
  by (auto simp del: set_map split: if_splits sum.splits json.splits prod.splits option.splits
      dest: make_roles_only_makes dest!: make_roles_done [where t = t and m = m])

end
