(* ===== verification/StageControl.thy ===== *)
theory StageControl imports Algorithm Population Tables begin

text \<open>
  \<^verbatim>\<open>workflow_checkpoint.py\<close>: the control plane of a staged attempt.  The manifest binds every record to one
  attempt; the usage ledger is cumulative; the state machine of \<^verbatim>\<open>WorkflowController\<close> lives in
  \<^verbatim>\<open>workflow/state.json\<close>, next to the master record and the numbered checkpoint files.  A record file holds the
  decoded value that was written (dictionaries do not compare the order of their keys); the files of the
  workspace, the safety of the control directories and SHA-256 are the environment.  A failing operation
  keeps what it wrote before it failed.
\<close>

section \<open>Values\<close>

text \<open>Python's \<^verbatim>\<open>==\<close> on decoded JSON: numbers and booleans by value, dictionaries in any order, no NaN.\<close>

fun py_norm :: "json \<Rightarrow> json" where
  "py_norm (JBool b) = JInt (if b then 1 else 0)"
| "py_norm (JFloat r txt) = (if r = of_int \<lfloor>r\<rfloor> then JInt \<lfloor>r\<rfloor> else JFloat r [])"
| "py_norm (JArr vs) = JArr (map py_norm vs)"
| "py_norm (JObj items) = JObj (sort_key fst (map (\<lambda>(k, v). (k, py_norm v)) items))"
| "py_norm v = v"

fun has_nan :: "json \<Rightarrow> bool" where
  "has_nan (JNonFinite txt) = (txt = ''NaN'')"
| "has_nan (JArr vs) = list_ex has_nan vs"
| "has_nan (JObj items) = list_ex (\<lambda>(k, v). has_nan v) items"
| "has_nan v = False"

definition json_eq :: "json \<Rightarrow> json \<Rightarrow> bool" where
  "json_eq a b \<longleftrightarrow> py_norm a = py_norm b \<and> \<not> has_nan a \<and> \<not> has_nan b"

definition MAX_JSON_BYTES :: nat where "MAX_JSON_BYTES = 512 * 1024"
definition MAX_PLAN_ITEMS :: nat where "MAX_PLAN_ITEMS = 64"
definition MAX_PLAN_ITEM_BYTES :: nat where "MAX_PLAN_ITEM_BYTES = 2048"
definition MAX_FLOW_PATHS :: nat where "MAX_FLOW_PATHS = 128"
definition MAX_FLOW_PATH_BYTES :: nat where "MAX_FLOW_PATH_BYTES = 1024"

definition flow_error :: "string \<Rightarrow> py_error" where
  "flow_error message = WorkflowCheckpointError message"

definition strict_dict :: "json \<Rightarrow> string list \<Rightarrow> string \<Rightarrow> (string \<times> json) list result" where
  "strict_dict value required label =
     (case value of
        JObj items \<Rightarrow>
          (let missing = filter (\<lambda>k. k \<notin> fst ` set items) required;
               extra = filter (\<lambda>k. k \<notin> set required) (map fst items);
               detail = (if missing = [] then [] else [''missing '' @ join_with '', '' (sort missing)]) @
                        (if extra = [] then [] else [''unsupported '' @ join_with '', '' (sort extra)])
           in if detail \<noteq> [] then Inl (flow_error (label @ '' has invalid fields ('' @ join_with ''; '' detail @ '')''))
              else Inr items)
      | _ \<Rightarrow> Inl (flow_error (label @ '' must be an object'')))"

definition flow_identifier :: "string \<Rightarrow> bool" where
  "flow_identifier s \<longleftrightarrow>
     (case s of [] \<Rightarrow> False
      | c # cs \<Rightarrow> is_alnum c \<and> length cs \<le> 127 \<and> list_all (\<lambda>x. is_alnum x \<or> x \<in> set ''_.:-'') cs)"

definition flow_text :: "json \<Rightarrow> string \<Rightarrow> bool \<Rightarrow> nat \<Rightarrow> string result" where
  "flow_text value label identifier max_bytes =
     (case value of
        JStr s \<Rightarrow>
          if s = [] \<or> length s > max_bytes \<or> nul \<in> set s then Inl (flow_error (label @ '' must be bounded text''))
          else if identifier \<and> \<not> flow_identifier s then Inl (flow_error (label @ '' must be a safe identifier''))
          else Inr s
      | _ \<Rightarrow> Inl (flow_error (label @ '' must be bounded text'')))"

definition flow_digest :: "json \<Rightarrow> string \<Rightarrow> string result" where
  "flow_digest value label =
     (case value of
        JStr s \<Rightarrow> if is_hex64 s then Inr s else Inl (flow_error (label @ '' must be a lowercase SHA-256 digest''))
      | _ \<Rightarrow> Inl (flow_error (label @ '' must be a lowercase SHA-256 digest'')))"

text \<open>A text equals the \<^verbatim>\<open>as_posix\<close> of its own path, and is relative, exactly when none of its segments is
  empty or a dot; a double dot survives normalisation and is refused as a part.\<close>

definition flow_relpath :: "json \<Rightarrow> string \<Rightarrow> string result" where
  "flow_relpath value label =
     bindE (flow_text value label False MAX_FLOW_PATH_BYTES) (\<lambda>text.
     bindE (guardE (backslash \<in> set text \<or> list_ex (\<lambda>part. part \<in> {[], ''.'', ''..''}) (split_on CHR ''/'' text))
              (flow_error (label @ '' must be a confined POSIX relative path''))) (\<lambda>_. Inr text))"

definition flow_integer :: "json \<Rightarrow> string \<Rightarrow> int \<Rightarrow> int result" where
  "flow_integer value label minimum =
     (let bad = Inl (flow_error (label @ '' must be an integer >= '' @ show_int minimum))
      in case value of JInt i \<Rightarrow> if i < minimum then bad else Inr i | _ \<Rightarrow> bad)"

text \<open>The size check of \<^verbatim>\<open>_canonical\<close>, and the digest of a payload.\<close>

definition flow_canonical :: "json \<Rightarrow> string result" where
  "flow_canonical value =
     (let raw = canonical value @ [char_of (10::nat)]
      in if length raw > MAX_JSON_BYTES then Inl (flow_error ''workflow payload exceeds its bounded size'') else Inr raw)"

definition sha_payload :: "(string \<Rightarrow> string) \<Rightarrow> json \<Rightarrow> string result" where
  "sha_payload sha value = bindE (flow_canonical value) (\<lambda>raw. Inr (sha raw))"

section \<open>Redaction\<close>

text \<open>\<open>secret_match s\<close> is what follows the match of \<^verbatim>\<open>_SECRET\<close> at the start of \<open>s\<close>.\<close>

definition run_of8 :: "(char \<Rightarrow> bool) \<Rightarrow> string \<Rightarrow> string option" where
  "run_of8 P s = (if 8 \<le> length (takeWhile P s) then Some (dropWhile P s) else None)"

definition assigned_value :: "string \<Rightarrow> string option" where
  "assigned_value s =
     (case dropWhile is_space s of
        [] \<Rightarrow> None
      | c # cs \<Rightarrow>
          if c \<noteq> CHR '':'' \<and> c \<noteq> CHR ''='' then None
          else (let P = (\<lambda>x. \<not> is_space x \<and> x \<noteq> CHR '','' \<and> x \<noteq> CHR '';''); r = dropWhile is_space cs
                in if takeWhile P r = [] then None else Some (dropWhile P r)))"

definition secret_key :: "string \<Rightarrow> string option" where
  "secret_key s =
     (case strip_prefix_ci ''api'' s of
        Some r \<Rightarrow>
          (case strip_prefix_ci ''key'' (case r of [] \<Rightarrow> [] | c # cs \<Rightarrow> if c = CHR ''_'' \<or> c = CHR ''-'' then cs else r) of
             Some q \<Rightarrow> Some q
           | None \<Rightarrow> None)
      | None \<Rightarrow> (case strip_prefix_ci ''password'' s of Some q \<Rightarrow> Some q | None \<Rightarrow> strip_prefix_ci ''token'' s))"

definition secret_match :: "string \<Rightarrow> string option" where
  "secret_match s =
     (case (case strip_prefix_ci ''sk-'' s of
              None \<Rightarrow> None | Some r \<Rightarrow> run_of8 (\<lambda>c. is_alnum c \<or> c = CHR ''_'' \<or> c = CHR ''-'') r) of
        Some rest \<Rightarrow> Some rest
      | None \<Rightarrow>
     (case (case strip_prefix_ci ''bearer'' s of
              None \<Rightarrow> None
            | Some r \<Rightarrow> if r = [] \<or> \<not> is_space (hd r) then None
                else run_of8 (\<lambda>c. is_alnum c \<or> c = CHR ''.'' \<or> c = CHR ''_'' \<or> c = CHR ''-'') (dropWhile is_space r)) of
        Some rest \<Rightarrow> Some rest
      | None \<Rightarrow> (case secret_key s of None \<Rightarrow> None | Some r \<Rightarrow> assigned_value r)))"

fun flow_secret :: "string \<Rightarrow> bool" where
  "flow_secret [] = False"
| "flow_secret (c # cs) = (secret_match (c # cs) \<noteq> None \<or> flow_secret cs)"

lemma strip_prefix_ci_shorter: "strip_prefix_ci p s = Some r \<Longrightarrow> length r \<le> length s - length p \<and> length p \<le> length s"
  by (auto simp: strip_prefix_ci_def lower_def dest: prefix_length_le split: if_splits)

lemma run_of8_shorter: "run_of8 P s = Some r \<Longrightarrow> length r < length s"
  by (auto simp: run_of8_def split: if_splits)
    (metis add_less_cancel_right add.commute less_add_same_cancel1 length_append order_less_le_trans takeWhile_dropWhile_id zero_less_numeral)

lemma assigned_value_shorter: "assigned_value s = Some r \<Longrightarrow> length r < length s"
proof -
  assume "assigned_value s = Some r"
  then obtain c cs P where "dropWhile is_space s = c # cs" "r = dropWhile P (dropWhile is_space cs)"
    by (auto simp: assigned_value_def Let_def split: list.splits if_splits)
  moreover have "length (dropWhile P (dropWhile is_space cs)) \<le> length cs"
    by (meson length_dropWhile_le order_trans)
  moreover have "length (dropWhile is_space s) \<le> length s" by (rule length_dropWhile_le)
  ultimately show ?thesis by simp
qed

lemma secret_match_shorter: "secret_match s = Some r \<Longrightarrow> length r < length s"
proof -
  assume m: "secret_match s = Some r"
  then consider (sk) q P where "strip_prefix_ci ''sk-'' s = Some q" "run_of8 P q = Some r"
    | (bearer) q P where "strip_prefix_ci ''bearer'' s = Some q" "run_of8 P (dropWhile is_space q) = Some r"
    | (key) q where "secret_key s = Some q" "assigned_value q = Some r"
    by (auto simp: secret_match_def split: option.splits if_splits)
  then show ?thesis
  proof cases
    case sk
    then show ?thesis using run_of8_shorter strip_prefix_ci_shorter by fastforce
  next
    case bearer
    have "length (dropWhile is_space q) \<le> length q" by (rule length_dropWhile_le)
    with bearer show ?thesis using run_of8_shorter strip_prefix_ci_shorter by fastforce
  next
    case key
    have "length q \<le> length s"
      using key(1) by (fastforce simp: secret_key_def dest: strip_prefix_ci_shorter split: option.splits list.splits if_splits)
    with key(2) show ?thesis using assigned_value_shorter by fastforce
  qed
qed

function redact :: "string \<Rightarrow> string" where
  "redact s =
     (case s of [] \<Rightarrow> []
      | c # cs \<Rightarrow> (case secret_match (c # cs) of Some rest \<Rightarrow> ''[REDACTED]'' @ redact rest | None \<Rightarrow> c # redact cs))"
  by pat_completeness auto
termination
  by (relation "measure length") (auto dest: secret_match_shorter)

declare redact.simps [simp del]

section \<open>The manifest\<close>

record flow_manifest =
  wm_run :: string
  wm_attempt :: string
  wm_source :: string
  wm_suite :: string
  wm_case :: string
  wm_request :: string
  wm_profile :: "string option"
  wm_wall :: json
  wm_steps :: int
  wm_tokens :: int
  wm_cost :: "int option"

definition ceiling_keys :: "string list" where
  "ceiling_keys = [''max_wall_seconds'', ''max_tool_steps'', ''max_total_tokens'', ''max_cost_micros'']"

definition manifest_keys :: "string list" where
  "manifest_keys = [''run_id'', ''attempt_id'', ''source_sha256'', ''suite_key'', ''case_key'', ''request_sha256'',
     ''model_profile_sha256'', ''ceilings'']"

definition manifest_init :: "(string \<times> json) list \<Rightarrow> (string \<times> json) list \<Rightarrow> flow_manifest result" where
  "manifest_init obj ceilings =
     bindE (flow_text (getn obj ''run_id'') ''run_id'' True 512) (\<lambda>run_id.
     bindE (flow_text (getn obj ''attempt_id'') ''attempt_id'' True 512) (\<lambda>attempt_id.
     bindE (flow_text (getn obj ''suite_key'') ''suite_key'' True 512) (\<lambda>suite_key.
     bindE (flow_text (getn obj ''case_key'') ''case_key'' True 512) (\<lambda>case_key.
     bindE (flow_digest (getn obj ''source_sha256'') ''source_sha256'') (\<lambda>source.
     bindE (flow_digest (getn obj ''request_sha256'') ''request_sha256'') (\<lambda>request.
     bindE (case getn obj ''model_profile_sha256'' of JNull \<Rightarrow> Inr None
            | v \<Rightarrow> bindE (flow_digest v ''model_profile_sha256'') (\<lambda>d. Inr (Some d))) (\<lambda>profile.
     bindE (guardE (\<not> list_all (\<lambda>k. k \<in> set ceiling_keys) (map fst ceilings) \<or> \<not> list_all (\<lambda>k. k \<in> fst ` set ceilings) ceiling_keys)
       (flow_error ''ceilings must contain exactly the four aggregate limits'')) (\<lambda>_.
     bindE (guardE (\<not> is_number (getn ceilings ''max_wall_seconds'')) (flow_error ''max_wall_seconds must be finite and positive'')) (\<lambda>_.
     bindE (is_finite_number (getn ceilings ''max_wall_seconds'')) (\<lambda>finite_wall.
     bindE (guardE (\<not> finite_wall \<or> num_val (getn ceilings ''max_wall_seconds'') \<le> 0)
       (flow_error ''max_wall_seconds must be finite and positive'')) (\<lambda>_.
     bindE (flow_integer (getn ceilings ''max_tool_steps'') ''max_tool_steps'' 1) (\<lambda>steps.
     bindE (flow_integer (getn ceilings ''max_total_tokens'') ''max_total_tokens'' 1) (\<lambda>tokens.
     bindE (case getn ceilings ''max_cost_micros'' of JNull \<Rightarrow> Inr None
            | v \<Rightarrow> bindE (flow_integer v ''max_cost_micros'' 1) (\<lambda>c. Inr (Some c))) (\<lambda>cost.
     Inr \<lparr>wm_run = run_id, wm_attempt = attempt_id, wm_source = source, wm_suite = suite_key, wm_case = case_key,
       wm_request = request, wm_profile = profile, wm_wall = getn ceilings ''max_wall_seconds'', wm_steps = steps,
       wm_tokens = tokens, wm_cost = cost\<rparr>))))))))))))))"

definition manifest_to_dict :: "flow_manifest \<Rightarrow> (string \<times> json) list" where
  "manifest_to_dict m =
     [(''run_id'', JStr (wm_run m)), (''attempt_id'', JStr (wm_attempt m)), (''source_sha256'', JStr (wm_source m)),
      (''suite_key'', JStr (wm_suite m)), (''case_key'', JStr (wm_case m)), (''request_sha256'', JStr (wm_request m)),
      (''model_profile_sha256'', opt_str (wm_profile m)),
      (''ceilings'', JObj [(''max_wall_seconds'', wm_wall m), (''max_tool_steps'', JInt (wm_steps m)),
         (''max_total_tokens'', JInt (wm_tokens m)), (''max_cost_micros'', opt_int (wm_cost m))])]"

definition manifest_from_dict :: "json \<Rightarrow> flow_manifest result" where
  "manifest_from_dict value =
     bindE (strict_dict value manifest_keys ''manifest'') (\<lambda>obj.
     case getn obj ''ceilings'' of
       JObj ceilings \<Rightarrow> manifest_init obj ceilings
     | _ \<Rightarrow> Inl (flow_error ''ceilings must be an object''))"

section \<open>The aggregate usage ledger\<close>

record aggregate_usage =
  au_available :: bool
  au_input :: "int option"
  au_output :: "int option"
  au_total :: "int option"
  au_cost :: "int option"
  au_rounds :: int
  au_steps :: int
  au_elapsed :: int

definition usage_keys :: "string list" where
  "usage_keys = [''available'', ''input_tokens'', ''output_tokens'', ''total_tokens'', ''cost_micros'', ''rounds'',
     ''tool_steps'', ''elapsed_ms'']"

definition optional_counter :: "(string \<times> json) list \<Rightarrow> string \<Rightarrow> int option result" where
  "optional_counter obj key =
     (case getn obj key of JNull \<Rightarrow> Inr None | v \<Rightarrow> bindE (flow_integer v (''usage.'' @ key) 0) (\<lambda>i. Inr (Some i)))"

definition usage_check :: "aggregate_usage \<Rightarrow> aggregate_usage result" where
  "usage_check u =
     (if au_available u
      then (case (au_input u, au_output u, au_total u) of
              (Some i, Some out, Some t) \<Rightarrow>
                if i + out \<noteq> t then Inl (flow_error ''usage total must equal input plus output'') else Inr u
            | _ \<Rightarrow> Inl (flow_error ''available usage requires token counters''))
      else if au_input u \<noteq> None \<or> au_output u \<noteq> None \<or> au_total u \<noteq> None \<or> au_cost u \<noteq> None
      then Inl (flow_error ''unavailable usage must not claim counters'') else Inr u)"

definition usage_from_dict :: "json \<Rightarrow> aggregate_usage result" where
  "usage_from_dict value =
     bindE (strict_dict value usage_keys ''usage'') (\<lambda>obj.
     case getn obj ''available'' of
       JBool available \<Rightarrow>
         bindE (optional_counter obj ''input_tokens'') (\<lambda>input.
         bindE (optional_counter obj ''output_tokens'') (\<lambda>out.
         bindE (optional_counter obj ''total_tokens'') (\<lambda>tokens.
         bindE (optional_counter obj ''cost_micros'') (\<lambda>cost.
         bindE (flow_integer (getn obj ''rounds'') ''usage.rounds'' 0) (\<lambda>rounds.
         bindE (flow_integer (getn obj ''tool_steps'') ''usage.tool_steps'' 0) (\<lambda>steps.
         bindE (flow_integer (getn obj ''elapsed_ms'') ''usage.elapsed_ms'' 0) (\<lambda>elapsed.
         usage_check \<lparr>au_available = available, au_input = input, au_output = out, au_total = tokens, au_cost = cost,
           au_rounds = rounds, au_steps = steps, au_elapsed = elapsed\<rparr>)))))))
     | _ \<Rightarrow> Inl (flow_error ''usage.available must be boolean''))"

definition usage_unavailable :: aggregate_usage where
  "usage_unavailable = \<lparr>au_available = False, au_input = None, au_output = None, au_total = None, au_cost = None,
     au_rounds = 0, au_steps = 0, au_elapsed = 0\<rparr>"

definition usage_zero :: aggregate_usage where
  "usage_zero = \<lparr>au_available = True, au_input = Some 0, au_output = Some 0, au_total = Some 0, au_cost = Some 0,
     au_rounds = 0, au_steps = 0, au_elapsed = 0\<rparr>"

definition usage_to_dict :: "aggregate_usage \<Rightarrow> json" where
  "usage_to_dict u =
     JObj [(''available'', JBool (au_available u)), (''input_tokens'', opt_int (au_input u)),
       (''output_tokens'', opt_int (au_output u)), (''total_tokens'', opt_int (au_total u)),
       (''cost_micros'', opt_int (au_cost u)), (''rounds'', JInt (au_rounds u)), (''tool_steps'', JInt (au_steps u)),
       (''elapsed_ms'', JInt (au_elapsed u))]"

definition at_least :: "int option \<Rightarrow> int option \<Rightarrow> bool" where
  "at_least now before \<longleftrightarrow> (case (now, before) of (Some a, Some b) \<Rightarrow> a \<ge> b | _ \<Rightarrow> False)"

definition monotonic_from :: "aggregate_usage \<Rightarrow> aggregate_usage \<Rightarrow> bool" where
  "monotonic_from u previous \<longleftrightarrow>
     (if au_steps u < au_steps previous \<or> au_rounds u < au_rounds previous \<or> au_elapsed u < au_elapsed previous then False
      else if \<not> au_available u then \<not> au_available previous
      else if \<not> au_available previous then au_rounds previous = 0 \<and> au_steps previous = 0 \<and> au_elapsed previous = 0
      else if \<not> (at_least (au_input u) (au_input previous) \<and> at_least (au_output u) (au_output previous) \<and>
                 at_least (au_total u) (au_total previous)) then False
      else \<not> (case au_cost previous of None \<Rightarrow> False
               | Some c \<Rightarrow> (case au_cost u of None \<Rightarrow> True | Some x \<Rightarrow> x < c)))"

definition over :: "int option \<Rightarrow> int option \<Rightarrow> bool" where
  "over used maximum \<longleftrightarrow> (case (used, maximum) of (Some u, Some m) \<Rightarrow> u > m | _ \<Rightarrow> False)"

definition wall_ms :: "flow_manifest \<Rightarrow> rat" where
  "wall_ms m = num_val (wm_wall m) * 1000"

definition validate_usage :: "flow_manifest \<Rightarrow> aggregate_usage \<Rightarrow> unit result" where
  "validate_usage m u =
     bindE (guardE (au_available u \<and> over (au_total u) (Some (wm_tokens m))) (flow_error ''aggregate token ceiling exceeded'')) (\<lambda>_.
     bindE (guardE (au_available u \<and> over (au_cost u) (wm_cost m)) (flow_error ''aggregate cost ceiling exceeded'')) (\<lambda>_.
     bindE (guardE (au_steps u > wm_steps m) (flow_error ''aggregate tool-step ceiling exceeded'')) (\<lambda>_.
     guardE (of_int (au_elapsed u) > wall_ms m) (flow_error ''aggregate wall-time ceiling exceeded''))))"

section \<open>The disk and the environment\<close>

datatype record_file = No_record | Link_record bool | Bad_record py_error | Record json

text \<open>A record path holds nothing, a link (dangling or not), an unreadable regular file, or a decoded value.\<close>

record flow_disk =
  fd_state :: record_file
  fd_master :: record_file
  fd_checkpoints :: "(nat \<times> record_file) list"

text \<open>
  \<open>fe_unsafe\<close> is what \<^verbatim>\<open>assert_paths_safe\<close> raises, if it does; \<open>fe_path\<close> gives the size and the digest of a confined
  regular file of the workspace, or the error of \<^verbatim>\<open>_path_record\<close>.
\<close>

record flow_env =
  fe_unsafe :: "py_error option"
  fe_path :: "string \<Rightarrow> (int \<times> string) result"
  fe_sha :: "string \<Rightarrow> string"

type_synonym 'a flow = "flow_disk \<Rightarrow> 'a result \<times> flow_disk"

definition bindF :: "'a flow \<Rightarrow> ('a \<Rightarrow> 'b flow) \<Rightarrow> 'b flow" where
  "bindF m f d = (case m d of (Inl e, d') \<Rightarrow> (Inl e, d') | (Inr x, d') \<Rightarrow> f x d')"

definition pureF :: "'a result \<Rightarrow> 'a flow" where
  "pureF r d = (r, d)"

definition readF :: "(flow_disk \<Rightarrow> 'a result) \<Rightarrow> 'a flow" where
  "readF q d = (q d, d)"

definition safe_paths :: "flow_env \<Rightarrow> unit result" where
  "safe_paths env = (case fe_unsafe env of Some e \<Rightarrow> Inl e | None \<Rightarrow> Inr ())"

definition record_exists :: "record_file \<Rightarrow> bool" where
  "record_exists f = (case f of No_record \<Rightarrow> False | Link_record dangling \<Rightarrow> \<not> dangling | _ \<Rightarrow> True)"

definition read_record :: "flow_env \<Rightarrow> record_file \<Rightarrow> json result" where
  "read_record env f =
     bindE (safe_paths env) (\<lambda>_.
     case f of
       Record (JObj items) \<Rightarrow> Inr (JObj items)
     | Record v \<Rightarrow> Inl (flow_error ''workflow record must be an object'')
     | Bad_record e \<Rightarrow> Inl e
     | _ \<Rightarrow> Inl (flow_error ''workflow record is not a bounded regular file''))"

text \<open>The guards of \<^verbatim>\<open>_write_replace\<close> and \<^verbatim>\<open>_write_new\<close>; the value then becomes the record.\<close>

definition write_replace :: "flow_env \<Rightarrow> json \<Rightarrow> record_file \<Rightarrow> record_file result" where
  "write_replace env value f =
     bindE (safe_paths env) (\<lambda>_.
     bindE (flow_canonical value) (\<lambda>_.
     case f of Link_record dangling \<Rightarrow> Inl (flow_error ''workflow destination must not be a symlink'')
     | _ \<Rightarrow> Inr (Record value)))"

definition write_new :: "flow_env \<Rightarrow> json \<Rightarrow> record_file \<Rightarrow> record_file result" where
  "write_new env value f =
     bindE (safe_paths env) (\<lambda>_.
     bindE (flow_canonical value) (\<lambda>_.
     if f = No_record then Inr (Record value) else Inl (flow_error ''workflow checkpoint already exists'')))"

definition put_state :: "flow_env \<Rightarrow> json \<Rightarrow> unit flow" where
  "put_state env value d =
     (case write_replace env value (fd_state d) of
        Inl e \<Rightarrow> (Inl e, d) | Inr f \<Rightarrow> (Inr (), d\<lparr>fd_state := f\<rparr>))"

definition put_master :: "flow_env \<Rightarrow> json \<Rightarrow> unit flow" where
  "put_master env value d =
     (case write_replace env value (fd_master d) of
        Inl e \<Rightarrow> (Inl e, d) | Inr f \<Rightarrow> (Inr (), d\<lparr>fd_master := f\<rparr>))"

definition checkpoint_file :: "flow_disk \<Rightarrow> nat \<Rightarrow> record_file" where
  "checkpoint_file d number = (case map_of (fd_checkpoints d) number of None \<Rightarrow> No_record | Some f \<Rightarrow> f)"

definition put_checkpoint :: "flow_env \<Rightarrow> nat \<Rightarrow> json \<Rightarrow> unit flow" where
  "put_checkpoint env number value d =
     (case write_new env value (checkpoint_file d number) of
        Inl e \<Rightarrow> (Inl e, d)
      | Inr f \<Rightarrow> (Inr (), d\<lparr>fd_checkpoints := (number, f) # fd_checkpoints d\<rparr>))"

section \<open>The state record\<close>

definition flow_stages :: "string list" where
  "flow_stages = [''created'', ''master_running'', ''master_ready'', ''build_running'', ''checkpointed'',
     ''resuming'', ''build_ready'', ''harness_pending'', ''terminal'']"

definition next_stages :: "(string \<times> string list) list" where
  "next_stages =
     [(''created'', [''master_running'']), (''master_running'', [''master_ready'']), (''master_ready'', [''build_running'']),
      (''build_running'', [''checkpointed'', ''build_ready'']), (''checkpointed'', [''resuming'', ''build_ready'']),
      (''resuming'', [''build_running'', ''build_ready'']), (''build_ready'', [''harness_pending'', ''terminal'']),
      (''harness_pending'', [''terminal'']), (''terminal'', [])]"

record flow_state =
  fs_stage :: string
  fs_number :: "nat option"
  fs_resumed :: bool
  fs_usage :: aggregate_usage

definition schema_items :: "string \<Rightarrow> (string \<times> json) list" where
  "schema_items kind = [(''schema_version'', JStr ''1''), (''kind'', JStr kind)]"

definition opt_number :: "nat option \<Rightarrow> json" where
  "opt_number n = (case n of None \<Rightarrow> JNull | Some k \<Rightarrow> JInt (int k))"

definition state_payload :: "flow_manifest \<Rightarrow> flow_state \<Rightarrow> json" where
  "state_payload m st =
     JObj (schema_items ''workflow_state'' @ manifest_to_dict m @
       [(''stage'', JStr (fs_stage st)), (''checkpoint_number'', opt_number (fs_number st)),
        (''resume_used'', JBool (fs_resumed st)), (''usage'', usage_to_dict (fs_usage st))])"

fun binding_error :: "(string \<times> json) list \<Rightarrow> (string \<times> json) list \<Rightarrow> string option" where
  "binding_error [] obj = None"
| "binding_error ((key, value) # rest) obj =
     (if json_eq (getn obj key) value then binding_error rest obj else Some (''workflow binding mismatch: '' @ key))"

definition validate_binding :: "flow_manifest \<Rightarrow> (string \<times> json) list \<Rightarrow> unit result" where
  "validate_binding m obj =
     (case binding_error (manifest_to_dict m) obj of None \<Rightarrow> Inr () | Some message \<Rightarrow> Inl (flow_error message))"

definition is_text :: "json \<Rightarrow> string \<Rightarrow> bool" where
  "is_text v s \<longleftrightarrow> v = JStr s"

definition validate_state :: "flow_manifest \<Rightarrow> json \<Rightarrow> flow_state result" where
  "validate_state m value =
     bindE (strict_dict value (manifest_keys @ [''schema_version'', ''kind'', ''stage'', ''checkpoint_number'', ''resume_used'', ''usage''])
              ''workflow state'') (\<lambda>obj.
     bindE (guardE (\<not> is_text (getn obj ''schema_version'') ''1'' \<or> \<not> is_text (getn obj ''kind'') ''workflow_state'')
       (flow_error ''invalid workflow state identity'')) (\<lambda>_.
     bindE (validate_binding m obj) (\<lambda>_.
     bindE (guardE (str_of (getn obj ''stage'') \<notin> set flow_stages) (flow_error ''invalid workflow state stage'')) (\<lambda>_.
     bindE (case getn obj ''checkpoint_number'' of JNull \<Rightarrow> Inr None
            | v \<Rightarrow> bindE (flow_integer v ''checkpoint_number'' 1) (\<lambda>i. Inr (Some (nat i)))) (\<lambda>number.
     case getn obj ''resume_used'' of
       JBool resumed \<Rightarrow>
         bindE (usage_from_dict (getn obj ''usage'')) (\<lambda>usage.
         bindE (validate_usage m usage) (\<lambda>_.
         let stage = str_of (getn obj ''stage'') in
         bindE (guardE (stage \<in> {''checkpointed'', ''resuming''} \<and> number = None)
           (flow_error ''workflow stage requires a checkpoint'')) (\<lambda>_.
         bindE (guardE (stage = ''resuming'' \<and> \<not> resumed)
           (flow_error ''resuming state requires a consumed resume guard'')) (\<lambda>_.
         Inr \<lparr>fs_stage = stage, fs_number = number, fs_resumed = resumed, fs_usage = usage\<rparr>))))
     | _ \<Rightarrow> Inl (flow_error ''resume_used must be boolean''))))))"

definition flow_state_of :: "flow_env \<Rightarrow> flow_manifest \<Rightarrow> flow_disk \<Rightarrow> flow_state result" where
  "flow_state_of env m d = bindE (read_record env (fd_state d)) (validate_state m)"

section \<open>Operations\<close>

definition transition :: "flow_env \<Rightarrow> flow_manifest \<Rightarrow> string \<Rightarrow> unit flow" where
  "transition env m stage =
     bindF (pureF (flow_text (JStr stage) ''stage'' True 512)) (\<lambda>_.
     bindF (pureF (guardE (stage \<notin> set flow_stages) (flow_error ''invalid workflow stage''))) (\<lambda>_.
     bindF (pureF (guardE (stage = ''harness_pending'') (flow_error ''harness authority belongs to EffectTrialRunner''))) (\<lambda>_.
     bindF (pureF (guardE (stage = ''resuming'')
       (flow_error ''resuming transition requires resume() and its one-resume guard''))) (\<lambda>_.
     bindF (pureF (guardE (stage = ''checkpointed'')
       (flow_error ''checkpointed transition requires a durable checkpoint()''))) (\<lambda>_.
     bindF (readF (flow_state_of env m)) (\<lambda>current.
     bindF (pureF (guardE (stage = fs_stage current) (flow_error (''duplicate workflow transition: '' @ stage)))) (\<lambda>_.
     bindF (pureF (guardE (stage \<notin> set (the (map_of next_stages (fs_stage current))))
       (flow_error (''out-of-order workflow transition: '' @ fs_stage current @ '' -> '' @ stage)))) (\<lambda>_.
     put_state env (state_payload m (current\<lparr>fs_stage := stage\<rparr>))))))))))"

definition record_flow_usage :: "flow_env \<Rightarrow> flow_manifest \<Rightarrow> json \<Rightarrow> unit flow" where
  "record_flow_usage env m usage =
     bindF (readF (flow_state_of env m)) (\<lambda>current.
     bindF (pureF (guardE (fs_stage current \<notin> {''master_running'', ''master_ready''})
       (flow_error ''master usage may only be recorded during the master stage''))) (\<lambda>_.
     bindF (pureF (usage_from_dict usage)) (\<lambda>snapshot.
     bindF (pureF (guardE (\<not> monotonic_from snapshot (fs_usage current)) (flow_error ''usage ledger moved backwards or reset''))) (\<lambda>_.
     bindF (pureF (validate_usage m snapshot)) (\<lambda>_.
     put_state env (state_payload m (current\<lparr>fs_usage := snapshot\<rparr>)))))))"

definition plan_items :: "json list \<Rightarrow> string list result" where
  "plan_items plan =
     mapE (\<lambda>item. bindE (flow_text item ''plan item'' False MAX_PLAN_ITEM_BYTES) (\<lambda>text. Inr (redact text))) plan"

definition master_body :: "flow_manifest \<Rightarrow> string list \<Rightarrow> string list \<Rightarrow> (string \<times> json) list" where
  "master_body m plan paths =
     schema_items ''workflow_master'' @ manifest_to_dict m @
     [(''plan'', JArr (map JStr plan)), (''expected_paths'', JArr (map JStr paths))]"

definition write_master :: "flow_env \<Rightarrow> flow_manifest \<Rightarrow> json list \<Rightarrow> json list \<Rightarrow> json flow" where
  "write_master env m plan expected_paths =
     bindF (readF (flow_state_of env m)) (\<lambda>current.
     bindF (pureF (guardE (fs_stage current \<notin> {''created'', ''master_running''})
       (flow_error ''master checkpoint is no longer writable''))) (\<lambda>_.
     bindF (if fs_stage current = ''created'' then transition env m ''master_running'' else pureF (Inr ())) (\<lambda>_.
     bindF (pureF (guardE (\<not> (1 \<le> length plan \<and> length plan \<le> MAX_PLAN_ITEMS))
       (flow_error ''plan must be a bounded non-empty sequence''))) (\<lambda>_.
     bindF (pureF (plan_items plan)) (\<lambda>normalized_plan.
     bindF (pureF (guardE (length expected_paths > MAX_FLOW_PATHS)
       (flow_error ''expected_paths must be a bounded sequence''))) (\<lambda>_.
     bindF (pureF (mapE (\<lambda>item. flow_relpath item ''expected path'') expected_paths)) (\<lambda>paths.
     bindF (pureF (guardE (\<not> distinct paths) (flow_error ''expected paths must be unique''))) (\<lambda>_.
     bindF (pureF (guardE (list_ex flow_secret paths) (flow_error ''expected paths contain a credential''))) (\<lambda>_.
     let body = master_body m normalized_plan paths in
     bindF (pureF (sha_payload (fe_sha env) (JObj body))) (\<lambda>digest.
     let payload = JObj (body @ [(''plan_sha256'', JStr digest)]) in
     bindF (put_master env payload) (\<lambda>_.
     bindF (transition env m ''master_ready'') (\<lambda>_.
     pureF (Inr payload)))))))))))))"

text \<open>A dictionary without one of its keys.\<close>

definition without_key :: "string \<Rightarrow> (string \<times> json) list \<Rightarrow> (string \<times> json) list" where
  "without_key key obj = filter (\<lambda>(k, v). k \<noteq> key) obj"

definition check_plan_item :: "json \<Rightarrow> unit result" where
  "check_plan_item item =
     bindE (flow_text item ''plan item'' False MAX_PLAN_ITEM_BYTES) (\<lambda>original.
     guardE (redact original \<noteq> original) (flow_error ''master plan contains a credential''))"

definition load_master :: "flow_env \<Rightarrow> flow_manifest \<Rightarrow> flow_disk \<Rightarrow> (string \<times> json) list result" where
  "load_master env m d =
     bindE (read_record env (fd_master d)) (\<lambda>value.
     bindE (strict_dict value (manifest_keys @ [''schema_version'', ''kind'', ''plan'', ''expected_paths'', ''plan_sha256''])
       ''workflow master'') (\<lambda>obj.
     bindE (guardE (\<not> is_text (getn obj ''schema_version'') ''1'' \<or> \<not> is_text (getn obj ''kind'') ''workflow_master'')
       (flow_error ''invalid workflow master identity'')) (\<lambda>_.
     bindE (validate_binding m obj) (\<lambda>_.
     case getn obj ''plan'' of
       JArr plan \<Rightarrow>
         bindE (guardE (\<not> (1 \<le> length plan \<and> length plan \<le> MAX_PLAN_ITEMS)) (flow_error ''invalid master plan'')) (\<lambda>_.
         bindE (mapE check_plan_item plan) (\<lambda>_.
         case getn obj ''expected_paths'' of
           JArr expected \<Rightarrow>
             bindE (guardE (length expected > MAX_FLOW_PATHS) (flow_error ''invalid expected paths'')) (\<lambda>_.
             bindE (mapE (\<lambda>item. flow_relpath item ''expected path'') expected) (\<lambda>normalized.
             bindE (guardE (\<not> distinct normalized) (flow_error ''invalid expected paths'')) (\<lambda>_.
             bindE (guardE (list_ex flow_secret normalized) (flow_error ''expected paths contain a credential'')) (\<lambda>_.
             bindE (flow_digest (getn obj ''plan_sha256'') ''plan_sha256'') (\<lambda>digest.
             bindE (sha_payload (fe_sha env) (JObj (without_key ''plan_sha256'' obj))) (\<lambda>expected_digest.
             bindE (guardE (digest \<noteq> expected_digest) (flow_error ''master plan digest mismatch'')) (\<lambda>_.
             Inr obj)))))))
         | _ \<Rightarrow> Inl (flow_error ''invalid expected paths'')))
     | _ \<Rightarrow> Inl (flow_error ''invalid master plan'')))))"

section \<open>Checkpoints\<close>

record checkpoint_view =
  cp_number :: nat
  cp_stage :: string
  cp_prior :: string
  cp_usage :: aggregate_usage
  cp_paths :: "json list"
  cp_transcript :: json
  cp_digest :: string

definition checkpoint_to_dict :: "checkpoint_view \<Rightarrow> json" where
  "checkpoint_to_dict c =
     JObj (schema_items ''workflow_checkpoint'' @
       [(''number'', JInt (int (cp_number c))), (''stage'', JStr (cp_stage c)), (''prior_stage'', JStr (cp_prior c)),
        (''usage'', usage_to_dict (cp_usage c)), (''declared_paths'', JArr (cp_paths c)),
        (''transcript'', cp_transcript c), (''checkpoint_sha256'', JStr (cp_digest c))])"

definition file_record :: "string \<Rightarrow> int \<times> string \<Rightarrow> json" where
  "file_record path info = JObj [(''path'', JStr path), (''size_bytes'', JInt (fst info)), (''sha256'', JStr (snd info))]"

definition path_record :: "flow_env \<Rightarrow> json \<Rightarrow> string \<Rightarrow> (string \<times> json) result" where
  "path_record env relative label =
     bindE (flow_relpath relative label) (\<lambda>path. bindE (fe_path env path) (\<lambda>info. Inr (path, file_record path info)))"

definition transcript_record :: "flow_env \<Rightarrow> string option \<Rightarrow> json result" where
  "transcript_record env transcript =
     (case transcript of None \<Rightarrow> Inr JNull
      | Some path \<Rightarrow> bindE (path_record env (JStr path) ''transcript path'') (\<lambda>(p, r). Inr r))"

definition checkpoint_body :: "flow_manifest \<Rightarrow> nat \<Rightarrow> string \<Rightarrow> string \<Rightarrow> aggregate_usage \<Rightarrow> json list \<Rightarrow> json \<Rightarrow> (string \<times> json) list" where
  "checkpoint_body m number stage prior usage records transcript =
     schema_items ''workflow_checkpoint'' @ manifest_to_dict m @
     [(''number'', JInt (int number)), (''stage'', JStr stage), (''prior_stage'', JStr prior),
      (''usage'', usage_to_dict usage), (''declared_paths'', JArr records), (''transcript'', transcript)]"

definition number_of :: "nat option \<Rightarrow> nat" where
  "number_of n = (case n of None \<Rightarrow> 0 | Some k \<Rightarrow> k)"

definition state_after :: "checkpoint_view \<Rightarrow> bool \<Rightarrow> flow_state" where
  "state_after c resumed = \<lparr>fs_stage = cp_stage c, fs_number = Some (cp_number c), fs_resumed = resumed, fs_usage = cp_usage c\<rparr>"

text \<open>Everything \<^verbatim>\<open>checkpoint\<close> decides before its first write: the state it found, the checkpoint and its record.\<close>

definition prepare_checkpoint ::
  "flow_env \<Rightarrow> flow_manifest \<Rightarrow> string \<Rightarrow> json list \<Rightarrow> json \<Rightarrow> string option \<Rightarrow> flow_disk \<Rightarrow>
   (flow_state \<times> checkpoint_view \<times> json) result" where
  "prepare_checkpoint env m stage declared_paths usage transcript d =
     bindE (flow_state_of env m d) (\<lambda>current.
     bindE (guardE (fs_stage current \<notin> {''build_running'', ''resuming'', ''checkpointed''})
       (flow_error ''checkpoint is not allowed in the current stage'')) (\<lambda>_.
     bindE (guardE (stage \<notin> {''checkpointed'', ''build_ready''})
       (flow_error ''checkpoint stage must be checkpointed or build_ready'')) (\<lambda>_.
     bindE (guardE (length declared_paths > MAX_FLOW_PATHS) (flow_error ''declared_paths must be a bounded sequence'')) (\<lambda>_.
     bindE (mapE (\<lambda>p. path_record env p ''path'') declared_paths) (\<lambda>records.
     bindE (guardE (\<not> distinct (map fst records)) (flow_error ''declared paths must be unique'')) (\<lambda>_.
     bindE (usage_from_dict usage) (\<lambda>snapshot.
     bindE (guardE (\<not> monotonic_from snapshot (fs_usage current)) (flow_error ''usage ledger moved backwards or reset'')) (\<lambda>_.
     bindE (validate_usage m snapshot) (\<lambda>_.
     let number = number_of (fs_number current) + 1 in
     bindE (transcript_record env transcript) (\<lambda>written.
     let body = checkpoint_body m number stage (fs_stage current) snapshot (map snd records) written in
     bindE (sha_payload (fe_sha env) (JObj body)) (\<lambda>digest.
     Inr (current,
       \<lparr>cp_number = number, cp_stage = stage, cp_prior = fs_stage current, cp_usage = snapshot,
        cp_paths = map snd records, cp_transcript = written, cp_digest = digest\<rparr>,
       JObj (body @ [(''checkpoint_sha256'', JStr digest)])))))))))))))"

definition checkpoint ::
  "flow_env \<Rightarrow> flow_manifest \<Rightarrow> string \<Rightarrow> json list \<Rightarrow> json \<Rightarrow> string option \<Rightarrow> checkpoint_view flow" where
  "checkpoint env m stage declared_paths usage transcript =
     bindF (readF (prepare_checkpoint env m stage declared_paths usage transcript)) (\<lambda>(current, c, payload).
     bindF (put_checkpoint env (cp_number c) payload) (\<lambda>_.
     bindF (put_state env (state_payload m (state_after c (fs_resumed current)))) (\<lambda>_.
     pureF (Inr c))))"

text \<open>The same call, interrupted between its two writes.\<close>

definition interrupted_checkpoint ::
  "flow_env \<Rightarrow> flow_manifest \<Rightarrow> string \<Rightarrow> json list \<Rightarrow> json \<Rightarrow> string option \<Rightarrow> unit flow" where
  "interrupted_checkpoint env m stage declared_paths usage transcript =
     bindF (readF (prepare_checkpoint env m stage declared_paths usage transcript)) (\<lambda>(current, c, payload).
     put_checkpoint env (cp_number c) payload)"

definition check_path_record :: "flow_env \<Rightarrow> string \<Rightarrow> string \<Rightarrow> json \<Rightarrow> json result" where
  "check_path_record env label changed item =
     bindE (strict_dict item [''path'', ''size_bytes'', ''sha256''] label) (\<lambda>record.
     bindE (path_record env (getn record ''path'') ''path'') (\<lambda>(p, fresh).
     bindE (guardE (\<not> json_eq (JObj record) fresh) (flow_error changed)) (\<lambda>_. Inr item)))"

definition load_checkpoint :: "flow_env \<Rightarrow> flow_manifest \<Rightarrow> nat \<Rightarrow> flow_disk \<Rightarrow> checkpoint_view result" where
  "load_checkpoint env m number d =
     bindE (guardE (number < 1) (flow_error ''checkpoint number must be an integer >= 1'')) (\<lambda>_.
     bindE (read_record env (checkpoint_file d number)) (\<lambda>value.
     bindE (strict_dict value (manifest_keys @ [''schema_version'', ''kind'', ''number'', ''stage'', ''prior_stage'', ''usage'',
       ''declared_paths'', ''transcript'', ''checkpoint_sha256'']) ''workflow checkpoint'') (\<lambda>obj.
     bindE (guardE (\<not> is_text (getn obj ''schema_version'') ''1'' \<or> \<not> is_text (getn obj ''kind'') ''workflow_checkpoint'' \<or>
         \<not> json_eq (getn obj ''number'') (JInt (int number))) (flow_error ''invalid checkpoint identity'')) (\<lambda>_.
     bindE (validate_binding m obj) (\<lambda>_.
     bindE (flow_integer (getn obj ''number'') ''checkpoint number'' 1) (\<lambda>_.
     bindE (guardE (str_of (getn obj ''stage'') \<notin> {''checkpointed'', ''build_ready''} \<or>
         str_of (getn obj ''prior_stage'') \<notin> {''build_running'', ''resuming'', ''checkpointed''})
       (flow_error ''invalid checkpoint stage'')) (\<lambda>_.
     bindE (usage_from_dict (getn obj ''usage'')) (\<lambda>usage.
     bindE (validate_usage m usage) (\<lambda>_.
     case getn obj ''declared_paths'' of
       JArr records \<Rightarrow>
         bindE (guardE (length records > MAX_FLOW_PATHS) (flow_error ''invalid checkpoint paths'')) (\<lambda>_.
         bindE (mapE (check_path_record env ''declared path record'' ''declared path digest changed'') records) (\<lambda>normalized.
         bindE (guardE (\<not> distinct (map (\<lambda>r. case r of JObj items \<Rightarrow> getn items ''path'' | _ \<Rightarrow> JNull) normalized))
           (flow_error ''declared paths must be unique'')) (\<lambda>_.
         bindE (case getn obj ''transcript'' of JNull \<Rightarrow> Inr JNull
                | v \<Rightarrow> check_path_record env ''transcript record'' ''transcript digest changed'' v) (\<lambda>transcript.
         bindE (flow_digest (getn obj ''checkpoint_sha256'') ''checkpoint_sha256'') (\<lambda>digest.
         bindE (sha_payload (fe_sha env) (JObj (without_key ''checkpoint_sha256'' obj))) (\<lambda>expected.
         bindE (guardE (digest \<noteq> expected) (flow_error ''checkpoint digest mismatch'')) (\<lambda>_.
         Inr \<lparr>cp_number = number, cp_stage = str_of (getn obj ''stage''), cp_prior = str_of (getn obj ''prior_stage''),
           cp_usage = usage, cp_paths = normalized, cp_transcript = transcript, cp_digest = digest\<rparr>)))))))
     | _ \<Rightarrow> Inl (flow_error ''invalid checkpoint paths''))))))))))"

definition no_headroom :: "int option \<Rightarrow> rat option \<Rightarrow> bool" where
  "no_headroom used maximum \<longleftrightarrow>
     (case maximum of None \<Rightarrow> False | Some limit \<Rightarrow> (case used of None \<Rightarrow> True | Some u \<Rightarrow> of_int u \<ge> limit))"

definition headroom_error :: "flow_manifest \<Rightarrow> aggregate_usage \<Rightarrow> string option" where
  "headroom_error m u =
     map_option (\<lambda>(used, limit, label). ''resume requires known headroom below the aggregate '' @ label @ '' ceiling'')
       (find (\<lambda>(used, limit, label). no_headroom used limit)
          [(au_total u, Some (of_int (wm_tokens m)), ''token''), (Some (au_steps u), Some (of_int (wm_steps m)), ''tool-step''),
           (Some (au_elapsed u), Some (wall_ms m), ''wall-time''), (au_cost u, map_option of_int (wm_cost m), ''cost'')])"

definition resume_flow :: "flow_env \<Rightarrow> flow_manifest \<Rightarrow> int option \<Rightarrow> checkpoint_view flow" where
  "resume_flow env m wanted =
     bindF (readF (flow_state_of env m)) (\<lambda>current.
     bindF (pureF (guardE (fs_resumed current) (flow_error ''workflow resume is allowed only once''))) (\<lambda>_.
     bindF (pureF (guardE (fs_stage current \<noteq> ''checkpointed'') (flow_error ''resume requires a checkpointed stage''))) (\<lambda>_.
     bindF (pureF (case wanted of None \<Rightarrow> Inr 0 | Some w \<Rightarrow> flow_integer (JInt w) ''checkpoint number'' 1)) (\<lambda>_.
     bindF (pureF (guardE (wanted \<noteq> None \<and> wanted \<noteq> map_option int (fs_number current))
       (flow_error ''resume checkpoint does not match current state''))) (\<lambda>_.
     bindF (pureF (guardE (fs_number current = None) (flow_error ''resume requires a checkpoint''))) (\<lambda>_.
     let number = number_of (fs_number current) in
     bindF (readF (load_master env m)) (\<lambda>_.
     bindF (readF (load_checkpoint env m number)) (\<lambda>c.
     bindF (pureF (guardE (cp_stage c \<noteq> fs_stage current \<or> cp_usage c \<noteq> fs_usage current)
       (flow_error ''resume checkpoint does not match current state''))) (\<lambda>_.
     bindF (pureF (guardE (\<not> au_available (cp_usage c)) (flow_error ''unavailable usage cannot authorize resume''))) (\<lambda>_.
     bindF (pureF (case headroom_error m (cp_usage c) of None \<Rightarrow> Inr () | Some message \<Rightarrow> Inl (flow_error message))) (\<lambda>_.
     bindF (put_state env (state_payload m
       \<lparr>fs_stage = ''resuming'', fs_number = Some number, fs_resumed = True, fs_usage = cp_usage c\<rparr>)) (\<lambda>_.
     pureF (Inr c)))))))))))))"

section \<open>Opening a workspace\<close>

definition is_regular :: "record_file \<Rightarrow> bool" where
  "is_regular f = (case f of Record v \<Rightarrow> True | Bad_record e \<Rightarrow> True | _ \<Rightarrow> False)"

definition candidate_numbers :: "flow_disk \<Rightarrow> nat list" where
  "candidate_numbers d = sort (map fst (filter (\<lambda>(n, f). n < 1000000 \<and> is_regular f) (fd_checkpoints d)))"

definition recover_orphan_checkpoint :: "flow_env \<Rightarrow> flow_manifest \<Rightarrow> unit flow" where
  "recover_orphan_checkpoint env m =
     bindF (readF (flow_state_of env m)) (\<lambda>current.
     bindF (readF (\<lambda>d. Inr (candidate_numbers d))) (\<lambda>candidates.
     let current_number = number_of (fs_number current) in
     if candidates = [] \<or> last candidates \<le> current_number then pureF (Inr ())
     else
       bindF (pureF (guardE (last candidates \<noteq> current_number + 1 \<or> length candidates \<noteq> current_number + 1)
         (flow_error ''workflow checkpoint sequence is inconsistent''))) (\<lambda>_.
       bindF (readF (load_checkpoint env m (last candidates))) (\<lambda>c.
       bindF (pureF (guardE (cp_prior c \<noteq> fs_stage current)
         (flow_error ''orphan workflow checkpoint has an invalid prior stage''))) (\<lambda>_.
       bindF (pureF (guardE (\<not> monotonic_from (cp_usage c) (fs_usage current))
         (flow_error ''orphan checkpoint usage moved backwards or reset''))) (\<lambda>_.
       put_state env (state_payload m (state_after c (fs_resumed current)))))))))"

definition created_state :: flow_state where
  "created_state = \<lparr>fs_stage = ''created'', fs_number = None, fs_resumed = False, fs_usage = usage_unavailable\<rparr>"

definition open_flow :: "flow_env \<Rightarrow> flow_manifest \<Rightarrow> unit flow" where
  "open_flow env m =
     bindF (pureF (safe_paths env)) (\<lambda>_.
     bindF (readF (\<lambda>d. Inr (record_exists (fd_state d)))) (\<lambda>known.
     if \<not> known then put_state env (state_payload m created_state)
     else bindF (readF (flow_state_of env m)) (\<lambda>_. recover_orphan_checkpoint env m)))"

definition mark_build_ready :: "flow_env \<Rightarrow> flow_manifest \<Rightarrow> unit flow" where
  "mark_build_ready env m =
     bindF (readF (flow_state_of env m)) (\<lambda>current.
     bindF (pureF (guardE (fs_stage current = ''checkpointed'')
       (flow_error ''build ready requires resume or an explicit checkpoint''))) (\<lambda>_.
     transition env m ''build_ready''))"

definition mark_harness_pending :: "flow_env \<Rightarrow> flow_manifest \<Rightarrow> unit flow" where
  "mark_harness_pending env m = transition env m ''harness_pending''"

definition mark_terminal :: "flow_env \<Rightarrow> flow_manifest \<Rightarrow> unit flow" where
  "mark_terminal env m = transition env m ''terminal''"

end
