(* ===== verification/StageSound.thy ===== *)
theory StageSound imports StageControl begin

text \<open>
  What the control plane of a staged attempt guarantees: a checkpoint cut off between its two writes is completed when
  the workspace is opened again, every history of operations keeps the state machine and the ledger sound and resumes
  at most once, and the master record is read back.
\<close>

named_theorems flow_simps \<open>equations of the control-plane monad\<close>

lemma bindF_simps [flow_simps]:
  "bindF (pureF (Inl e)) f d = (Inl e, d)"
  "bindF (pureF (Inr x)) f d = f x d"
  "bindF (pureF (guardE c e)) g d = (if c then (Inl e, d) else g () d)"
  by (simp_all add: bindF_def pureF_def)

lemma bindF_readF [flow_simps]: "bindF (readF q) f d = (case q d of Inl e \<Rightarrow> (Inl e, d) | Inr x \<Rightarrow> f x d)"
  by (simp add: bindF_def readF_def split: sum.split)

lemma bindF_pureF: "bindF (pureF r) f d = (case r of Inl e \<Rightarrow> (Inl e, d) | Inr x \<Rightarrow> f x d)"
  by (simp add: bindF_def pureF_def split: sum.split)

section \<open>Records are read back\<close>

lemma json_eq_refl: "\<not> has_nan v \<Longrightarrow> json_eq v v"
  by (simp add: json_eq_def)

lemma strict_dict_Inr:
  assumes "set required \<subseteq> set (map fst items)" and "set (map fst items) \<subseteq> set required"
  shows "strict_dict (JObj items) required label = Inr items"
proof -
  have "filter (\<lambda>k. k \<notin> fst ` set items) required = []" "filter (\<lambda>k. k \<notin> set required) (map fst items) = []"
    using assms by (auto simp: filter_empty_conv)
  then show ?thesis by (simp add: strict_dict_def)
qed

lemma flow_text_Inr: "flow_text v label i n = Inr s \<Longrightarrow> v = JStr s"
  by (auto simp: flow_text_def split: json.splits if_splits)

lemma flow_integer_Inr: "flow_integer v label n = Inr i \<longleftrightarrow> v = JInt i \<and> n \<le> i"
  by (auto simp: flow_integer_def Let_def split: json.splits if_splits)

lemma optional_counter_opt_int: "getn obj key = opt_int v \<Longrightarrow> (\<And>i. v = Some i \<Longrightarrow> 0 \<le> i) \<Longrightarrow> optional_counter obj key = Inr v"
  by (cases v) (auto simp: optional_counter_def opt_int_def flow_integer_Inr bindE_Inr_iff)

lemma optional_counter_Inr: "optional_counter obj key = Inr v \<Longrightarrow> getn obj key = opt_int v \<and> (\<forall>i. v = Some i \<longrightarrow> 0 \<le> i)"
  by (auto simp: optional_counter_def opt_int_def flow_integer_Inr bindE_Inr_iff split: json.splits)

text \<open>Validated counters.\<close>

definition usage_ok :: "aggregate_usage \<Rightarrow> bool" where
  "usage_ok u \<longleftrightarrow> (\<forall>i. au_input u = Some i \<longrightarrow> 0 \<le> i) \<and> (\<forall>i. au_output u = Some i \<longrightarrow> 0 \<le> i) \<and>
     (\<forall>i. au_total u = Some i \<longrightarrow> 0 \<le> i) \<and> (\<forall>i. au_cost u = Some i \<longrightarrow> 0 \<le> i) \<and>
     0 \<le> au_rounds u \<and> 0 \<le> au_steps u \<and> 0 \<le> au_elapsed u \<and> usage_check u = Inr u"

lemma usage_roundtrip: "usage_ok u \<Longrightarrow> usage_from_dict (usage_to_dict u) = Inr u"
proof -
  assume ok: "usage_ok u"
  let ?obj = "[(''available'', JBool (au_available u)), (''input_tokens'', opt_int (au_input u)),
       (''output_tokens'', opt_int (au_output u)), (''total_tokens'', opt_int (au_total u)),
       (''cost_micros'', opt_int (au_cost u)), (''rounds'', JInt (au_rounds u)), (''tool_steps'', JInt (au_steps u)),
       (''elapsed_ms'', JInt (au_elapsed u))]"
  have dict: "strict_dict (JObj ?obj) usage_keys ''usage'' = Inr ?obj"
    by (rule strict_dict_Inr) (simp_all add: usage_keys_def)
  have counters: "optional_counter ?obj ''input_tokens'' = Inr (au_input u)" "optional_counter ?obj ''output_tokens'' = Inr (au_output u)"
    "optional_counter ?obj ''total_tokens'' = Inr (au_total u)" "optional_counter ?obj ''cost_micros'' = Inr (au_cost u)"
    using ok by (auto simp: usage_ok_def jget_default_def intro!: optional_counter_opt_int)
  have same: "\<lparr>au_available = au_available u, au_input = au_input u, au_output = au_output u, au_total = au_total u,
      au_cost = au_cost u, au_rounds = au_rounds u, au_steps = au_steps u, au_elapsed = au_elapsed u\<rparr> = u" by simp
  show ?thesis
    unfolding usage_from_dict_def usage_to_dict_def dict bindE_simps counters
    using ok by (simp add: jget_default_def flow_integer_def usage_ok_def same del: aggregate_usage.surjective)
qed

lemma usage_check_same: "usage_check u = Inr v \<Longrightarrow> v = u"
  by (auto simp: usage_check_def split: if_splits option.splits)

lemma usage_from_dict_ok:
  assumes "usage_from_dict v = Inr u"
  shows "usage_ok u"
proof -
  from assms obtain obj where obj: "(case getn obj ''available'' of JBool a \<Rightarrow>
         bindE (optional_counter obj ''input_tokens'') (\<lambda>input.
         bindE (optional_counter obj ''output_tokens'') (\<lambda>out.
         bindE (optional_counter obj ''total_tokens'') (\<lambda>tokens.
         bindE (optional_counter obj ''cost_micros'') (\<lambda>cost.
         bindE (flow_integer (getn obj ''rounds'') ''usage.rounds'' 0) (\<lambda>rounds.
         bindE (flow_integer (getn obj ''tool_steps'') ''usage.tool_steps'' 0) (\<lambda>steps.
         bindE (flow_integer (getn obj ''elapsed_ms'') ''usage.elapsed_ms'' 0) (\<lambda>elapsed.
         usage_check \<lparr>au_available = a, au_input = input, au_output = out, au_total = tokens, au_cost = cost,
           au_rounds = rounds, au_steps = steps, au_elapsed = elapsed\<rparr>)))))))
     | _ \<Rightarrow> Inl (flow_error ''usage.available must be boolean'')) = Inr u"
    unfolding usage_from_dict_def bindE_Inr_iff by blast
  then obtain a where "getn obj ''available'' = JBool a" by (cases "getn obj ''available''") simp_all
  with obj obtain i out t c r s e where steps: "optional_counter obj ''input_tokens'' = Inr i"
    "optional_counter obj ''output_tokens'' = Inr out" "optional_counter obj ''total_tokens'' = Inr t"
    "optional_counter obj ''cost_micros'' = Inr c" "0 \<le> r" "0 \<le> s" "0 \<le> e"
    and check: "usage_check \<lparr>au_available = a, au_input = i, au_output = out, au_total = t, au_cost = c,
           au_rounds = r, au_steps = s, au_elapsed = e\<rparr> = Inr u"
    by (auto simp: bindE_Inr_iff flow_integer_Inr)
  from usage_check_same [OF check] check steps show ?thesis
    by (auto simp: usage_ok_def dest!: optional_counter_Inr)
qed

interpretation usage_codec: codec usage_from_dict usage_to_dict
  by unfold_locales (rule usage_roundtrip [OF usage_from_dict_ok])

lemma usage_unavailable_ok: "usage_ok usage_unavailable"
  by (simp add: usage_ok_def usage_unavailable_def usage_check_def)

section \<open>The state record\<close>

definition manifest_ok :: "flow_manifest \<Rightarrow> bool" where
  "manifest_ok m \<longleftrightarrow> \<not> has_nan (wm_wall m) \<and> 0 < num_val (wm_wall m) \<and> 1 \<le> wm_steps m \<and> 1 \<le> wm_tokens m"

lemma manifest_from_dict_ok: "manifest_from_dict v = Inr m \<Longrightarrow> manifest_ok m"
proof -
  assume "manifest_from_dict v = Inr m"
  then obtain obj where "(case getn obj ''ceilings'' of JObj ceilings \<Rightarrow> manifest_init obj ceilings
      | _ \<Rightarrow> Inl (flow_error ''ceilings must be an object'')) = Inr m"
    by (auto simp: manifest_from_dict_def bindE_Inr_iff)
  then obtain ceilings where "manifest_init obj ceilings = Inr m" by (cases "getn obj ''ceilings''") simp_all
  then obtain w s t where "is_number w" "is_finite_number w = Inr True" "0 < num_val w" "1 \<le> s" "1 \<le> t"
    and "wm_wall m = w" "wm_steps m = s" "wm_tokens m = t"
    unfolding manifest_init_def bindE_Inr_iff guardE_Inr_iff flow_integer_Inr
    by (elim exE conjE) (auto simp: not_le)
  then show ?thesis by (cases w) (simp_all add: manifest_ok_def)
qed

lemma binding_error_None: "\<forall>(k, v) \<in> set ms. json_eq (getn obj k) v \<Longrightarrow> binding_error ms obj = None"
  by (induction ms obj rule: binding_error.induct) auto

lemma binding_kept:
  assumes "manifest_ok m" and "list_all (\<lambda>(k, v). getn obj k = v) (manifest_to_dict m)"
  shows "validate_binding m obj = Inr ()"
proof -
  have "list_all (\<lambda>(k, v). \<not> has_nan v) (manifest_to_dict m)"
    using assms(1) by (simp add: manifest_to_dict_def opt_str_def opt_int_def manifest_ok_def split: option.split)
  then have "\<forall>(k, v) \<in> set (manifest_to_dict m). json_eq (getn obj k) v"
    using assms(2) by (auto simp: json_eq_def list_all_iff)
  then have "binding_error (manifest_to_dict m) obj = None" by (rule binding_error_None)
  then show ?thesis by (simp add: validate_binding_def)
qed

definition state_ok :: "flow_manifest \<Rightarrow> flow_state \<Rightarrow> bool" where
  "state_ok m st \<longleftrightarrow> fs_stage st \<in> set flow_stages \<and> usage_ok (fs_usage st) \<and> validate_usage m (fs_usage st) = Inr () \<and>
     fs_number st \<noteq> Some 0 \<and> (fs_stage st \<in> {''checkpointed'', ''resuming''} \<longrightarrow> fs_number st \<noteq> None) \<and>
     (fs_stage st = ''resuming'' \<longrightarrow> fs_resumed st)"

text \<open>Propositional steps, kept away from the stage names.\<close>

lemma not_both:
  "(A \<longrightarrow> \<not> B) \<Longrightarrow> (A \<and> B) = False" "(A \<longrightarrow> B) \<Longrightarrow> (A \<and> \<not> B) = False" "A \<Longrightarrow> (\<not> A) = False"
  "\<not> (A \<and> B) \<Longrightarrow> A \<longrightarrow> \<not> B" "\<not> (A \<and> \<not> B) \<Longrightarrow> A \<longrightarrow> B"
  by blast+

lemma conj_parts:
  assumes "A \<and> B \<and> C \<and> D \<and> E \<and> F" shows A B C D E F
  using assms by blast+

lemmas state_ok_parts = conj_parts [OF state_ok_def [THEN iffD1]]

lemma state_payload_read:
  assumes "manifest_ok m" and "state_ok m st"
  shows "validate_state m (state_payload m st) = Inr st"
proof -
  let ?obj = "schema_items ''workflow_state'' @ manifest_to_dict m @
       [(''stage'', JStr (fs_stage st)), (''checkpoint_number'', opt_number (fs_number st)),
        (''resume_used'', JBool (fs_resumed st)), (''usage'', usage_to_dict (fs_usage st))]"
  have dict: "strict_dict (JObj ?obj) (manifest_keys @ [''schema_version'', ''kind'', ''stage'', ''checkpoint_number'', ''resume_used'', ''usage''])
      ''workflow state'' = Inr ?obj"
    by (rule strict_dict_Inr) (simp_all add: schema_items_def manifest_to_dict_def manifest_keys_def)
  have binding: "validate_binding m ?obj = Inr ()"
    by (rule binding_kept [OF assms(1)]) (simp add: schema_items_def manifest_to_dict_def jget_default_def)
  have fields: "getn ?obj ''schema_version'' = JStr ''1''" "getn ?obj ''kind'' = JStr ''workflow_state''"
    "getn ?obj ''stage'' = JStr (fs_stage st)" "getn ?obj ''checkpoint_number'' = opt_number (fs_number st)"
    "getn ?obj ''resume_used'' = JBool (fs_resumed st)" "getn ?obj ''usage'' = usage_to_dict (fs_usage st)"
    by (simp_all add: schema_items_def manifest_to_dict_def jget_default_def)
  have number: "(case opt_number (fs_number st) of JNull \<Rightarrow> Inr None
      | v \<Rightarrow> bindE (flow_integer v ''checkpoint_number'' 1) (\<lambda>i. Inr (Some (nat i)))) = Inr (fs_number st)"
    using assms(2) by (cases "fs_number st") (auto simp: opt_number_def flow_integer_def state_ok_def)
  have guards: "(\<not> is_text (JStr ''1'') ''1'' \<or> \<not> is_text (JStr ''workflow_state'') ''workflow_state'') = False"
    "str_of (JStr (fs_stage st)) = fs_stage st"
    by (simp_all add: is_text_def str_of_def)
  have stages: "(fs_stage st \<notin> set flow_stages) = False"
    "(fs_stage st \<in> {''checkpointed'', ''resuming''} \<and> fs_number st = None) = False"
    "(fs_stage st = ''resuming'' \<and> \<not> fs_resumed st) = False"
    by (rule not_both(3) [OF state_ok_parts(1) [OF assms(2)]], rule not_both(1) [OF state_ok_parts(5) [OF assms(2)]],
        rule not_both(2) [OF state_ok_parts(6) [OF assms(2)]])
  have usage: "usage_from_dict (usage_to_dict (fs_usage st)) = Inr (fs_usage st)" "validate_usage m (fs_usage st) = Inr ()"
    using state_ok_parts(2,3) [OF assms(2)] by (simp_all add: usage_roundtrip)
  show ?thesis
    by (simp only: validate_state_def state_payload_def dict bindE_simps binding fields number guards stages usage bind_guardE
        if_False json.case Let_def) simp
qed

lemma validate_state_ok:
  assumes "validate_state m v = Inr st"
  shows "state_ok m st"
proof -
  from assms obtain obj number where obj: "str_of (getn obj ''stage'') \<in> set flow_stages"
    "(case getn obj ''checkpoint_number'' of JNull \<Rightarrow> Inr None
      | v \<Rightarrow> bindE (flow_integer v ''checkpoint_number'' 1) (\<lambda>i. Inr (Some (nat i)))) = Inr number"
    and rest: "(case getn obj ''resume_used'' of
       JBool resumed \<Rightarrow>
         bindE (usage_from_dict (getn obj ''usage'')) (\<lambda>usage.
         bindE (validate_usage m usage) (\<lambda>_.
         let stage = str_of (getn obj ''stage'') in
         bindE (guardE (stage \<in> {''checkpointed'', ''resuming''} \<and> number = None)
           (flow_error ''workflow stage requires a checkpoint'')) (\<lambda>_.
         bindE (guardE (stage = ''resuming'' \<and> \<not> resumed)
           (flow_error ''resuming state requires a consumed resume guard'')) (\<lambda>_.
         Inr \<lparr>fs_stage = stage, fs_number = number, fs_resumed = resumed, fs_usage = usage\<rparr>))))
     | _ \<Rightarrow> Inl (flow_error ''resume_used must be boolean'')) = Inr st"
    unfolding validate_state_def bindE_Inr_iff guardE_Inr_iff not_not by blast
  from obj(2) have number: "number \<noteq> Some 0"
    by (cases "getn obj ''checkpoint_number''") (auto simp: bindE_Inr_iff flow_integer_Inr)
  from rest obtain resumed where "getn obj ''resume_used'' = JBool resumed" by (cases "getn obj ''resume_used''") simp_all
  with rest obtain usage where "usage_from_dict (getn obj ''usage'') = Inr usage" "validate_usage m usage = Inr ()"
    and guards: "\<not> (str_of (getn obj ''stage'') \<in> {''checkpointed'', ''resuming''} \<and> number = None)"
      "\<not> (str_of (getn obj ''stage'') = ''resuming'' \<and> \<not> resumed)"
    and st: "st = \<lparr>fs_stage = str_of (getn obj ''stage''), fs_number = number, fs_resumed = resumed, fs_usage = usage\<rparr>"
    by (simp only: json.case Let_def bindE_Inr_iff guardE_Inr_iff sum.inject) (elim exE conjE, simp)
  then show ?thesis
    unfolding state_ok_def st flow_state.simps using number obj(1) usage_from_dict_ok
    by (intro conjI not_both(4) [OF guards(1)] not_both(5) [OF guards(2)])
qed

lemma flow_state_ok: "flow_state_of env m d = Inr st \<Longrightarrow> state_ok m st"
  by (auto simp: flow_state_of_def bindE_Inr_iff dest: validate_state_ok)

section \<open>Writing the state\<close>

lemma write_replace_Inr: "write_replace env v f = Inr g \<Longrightarrow> g = Record v \<and> fe_unsafe env = None \<and> (\<forall>b. f \<noteq> Link_record b)"
  by (auto simp: write_replace_def safe_paths_def bindE_Inr_iff split: option.splits record_file.splits)

lemma put_state_Inr:
  assumes "put_state env v d = (Inr u, d')"
  shows "d' = d\<lparr>fd_state := Record v\<rparr> \<and> fe_unsafe env = None"
  using assms by (auto simp: put_state_def split: sum.splits dest!: write_replace_Inr)

lemma put_state_Inl: "put_state env v d = (Inl e, d') \<Longrightarrow> d' = d"
  by (auto simp: put_state_def split: sum.splits)

lemma state_after_put:
  assumes "manifest_ok m" and "state_ok m st" and "fe_unsafe env = None" and "fd_state d = Record (state_payload m st)"
  shows "flow_state_of env m d = Inr st"
proof -
  obtain items where "state_payload m st = JObj items" unfolding state_payload_def by blast
  then show ?thesis
    using state_payload_read [OF assms(1,2)] assms(3,4)
    by (simp add: flow_state_of_def read_record_def safe_paths_def)
qed

section \<open>Checkpoints are read back\<close>

lemma flow_relpath_Inr: "flow_relpath v label = Inr s \<Longrightarrow> v = JStr s"
  by (auto simp: flow_relpath_def bindE_Inr_iff dest: flow_text_Inr)

lemma flow_relpath_label: "flow_relpath v label = Inr s \<Longrightarrow> flow_relpath v label' = Inr s"
  by (auto simp: flow_relpath_def flow_text_def bindE_Inr_iff guardE_Inr_iff split: json.splits if_splits)

lemma path_record_Inr:
  "path_record env v label = Inr (p, r) \<longleftrightarrow> flow_relpath v label = Inr p \<and> (\<exists>info. fe_path env p = Inr info \<and> r = file_record p info)"
  by (auto simp: path_record_def bindE_Inr_iff)

lemma file_record_again:
  assumes "path_record env v label = Inr (p, r)"
  shows "check_path_record env label' changed r = Inr r"
proof -
  from assms obtain info where r: "flow_relpath v label = Inr p" "fe_path env p = Inr info" "r = file_record p info"
    by (auto simp: path_record_Inr)
  then have "flow_relpath (JStr p) ''path'' = Inr p" using flow_relpath_Inr flow_relpath_label by metis
  then have "path_record env (JStr p) ''path'' = Inr (p, r)" using r by (simp add: path_record_def)
  moreover have "json_eq r r" using r(3) by (intro json_eq_refl) (simp add: file_record_def)
  moreover have "strict_dict r [''path'', ''size_bytes'', ''sha256''] label' =
      Inr [(''path'', JStr p), (''size_bytes'', JInt (fst info)), (''sha256'', JStr (snd info))]"
    unfolding r(3) file_record_def by (rule strict_dict_Inr) simp_all
  ultimately show ?thesis using r(3) by (simp add: check_path_record_def file_record_def jget_default_def)
qed

lemma mapE_again: "mapE f xs = Inr ys \<Longrightarrow> (\<And>x y. f x = Inr y \<Longrightarrow> g (h y) = Inr (h y)) \<Longrightarrow> mapE g (map h ys) = Inr (map h ys)"
  by (induction xs arbitrary: ys) (auto simp: bindE_Inr_iff)

definition prepared ::
  "flow_env \<Rightarrow> flow_manifest \<Rightarrow> string \<Rightarrow> json list \<Rightarrow> json \<Rightarrow> string option \<Rightarrow> flow_state \<Rightarrow> checkpoint_view \<Rightarrow> json \<Rightarrow> bool" where
  "prepared env m stage declared usage transcript current c payload \<longleftrightarrow>
     (fs_stage current \<notin> {''build_running'', ''resuming'', ''checkpointed''}) = False \<and>
     (stage \<notin> {''checkpointed'', ''build_ready''}) = False \<and>
     (\<exists>records snapshot written digest.
        length declared \<le> MAX_FLOW_PATHS \<and> mapE (\<lambda>p. path_record env p ''path'') declared = Inr records \<and>
        distinct (map fst records) \<and> usage_from_dict usage = Inr snapshot \<and> monotonic_from snapshot (fs_usage current) \<and>
        validate_usage m snapshot = Inr () \<and> transcript_record env transcript = Inr written \<and>
        sha_payload (fe_sha env) (JObj (checkpoint_body m (number_of (fs_number current) + 1) stage (fs_stage current) snapshot
          (map snd records) written)) = Inr digest \<and>
        c = \<lparr>cp_number = number_of (fs_number current) + 1, cp_stage = stage, cp_prior = fs_stage current, cp_usage = snapshot,
              cp_paths = map snd records, cp_transcript = written, cp_digest = digest\<rparr> \<and>
        payload = JObj (checkpoint_body m (number_of (fs_number current) + 1) stage (fs_stage current) snapshot
          (map snd records) written @ [(''checkpoint_sha256'', JStr digest)]))"

lemma prepare_checkpoint_Inr:
  assumes "prepare_checkpoint env m stage declared usage transcript d = Inr (current, c, payload)"
  shows "flow_state_of env m d = Inr current \<and> prepared env m stage declared usage transcript current c payload"
  using assms unfolding prepare_checkpoint_def prepared_def bindE_Inr_iff guardE_Inr_iff Let_def sum.inject prod.inject not_less
  by (elim exE conjE, hypsubst, intro exI conjI) (assumption | simp)+

lemma transcript_again:
  assumes "transcript_record env transcript = Inr written"
  shows "(case written of JNull \<Rightarrow> Inr JNull | v \<Rightarrow> check_path_record env ''transcript record'' ''transcript digest changed'' v) = Inr written"
proof (cases transcript)
  case None
  with assms show ?thesis by (simp add: transcript_record_def)
next
  case (Some path)
  with assms obtain p where p: "path_record env (JStr path) ''transcript path'' = Inr (p, written)"
    by (auto simp: transcript_record_def bindE_Inr_iff)
  then obtain info where "written = file_record p info" by (auto simp: path_record_Inr)
  with file_record_again [OF p] show ?thesis by (simp add: file_record_def)
qed

lemma records_again:
  assumes "mapE (\<lambda>p. path_record env p ''path'') declared = Inr records"
  shows "mapE (check_path_record env ''declared path record'' ''declared path digest changed'') (map snd records) = Inr (map snd records)"
    and "map (\<lambda>r. case r of JObj items \<Rightarrow> getn items ''path'' | _ \<Rightarrow> JNull) (map snd records) = map JStr (map fst records)"
    and "length records = length declared"
proof -
  show "mapE (check_path_record env ''declared path record'' ''declared path digest changed'') (map snd records) = Inr (map snd records)"
    by (rule mapE_again [OF assms]) (use file_record_again in \<open>fastforce\<close>)
  have "(case snd r of JObj items \<Rightarrow> getn items ''path'' | _ \<Rightarrow> JNull) = JStr (fst r)" if "r \<in> set records" for r
    using mapE_set [OF assms that] by (cases r) (auto simp: path_record_Inr file_record_def jget_default_def)
  then show "map (\<lambda>r. case r of JObj items \<Rightarrow> getn items ''path'' | _ \<Rightarrow> JNull) (map snd records) = map JStr (map fst records)"
    by simp
  show "length records = length declared" using mapE_length [OF assms] .
qed

definition checkpoint_keys :: "string list" where
  "checkpoint_keys = manifest_keys @ [''schema_version'', ''kind'', ''number'', ''stage'', ''prior_stage'', ''usage'',
       ''declared_paths'', ''transcript'', ''checkpoint_sha256'']"

lemma without_last: "key \<notin> set (map fst xs) \<Longrightarrow> without_key key (xs @ [(key, v)]) = xs"
  by (induction xs) (auto simp: without_key_def)

lemma checkpoint_body_fields:
  assumes "obj = checkpoint_body m n stage prior usage records transcript @ [(''checkpoint_sha256'', JStr digest)]"
  shows "strict_dict (JObj obj) checkpoint_keys label = Inr obj"
    and "getn obj ''schema_version'' = JStr ''1''" "getn obj ''kind'' = JStr ''workflow_checkpoint''"
    "getn obj ''number'' = JInt (int n)" "getn obj ''stage'' = JStr stage" "getn obj ''prior_stage'' = JStr prior"
    "getn obj ''usage'' = usage_to_dict usage" "getn obj ''declared_paths'' = JArr records" "getn obj ''transcript'' = transcript"
    "getn obj ''checkpoint_sha256'' = JStr digest"
    "without_key ''checkpoint_sha256'' obj = checkpoint_body m n stage prior usage records transcript"
    "manifest_ok m \<Longrightarrow> validate_binding m obj = Inr ()"
proof -
  show "strict_dict (JObj obj) checkpoint_keys label = Inr obj"
    unfolding assms checkpoint_keys_def by (rule strict_dict_Inr)
      (simp_all add: checkpoint_body_def schema_items_def manifest_to_dict_def manifest_keys_def)
  show "without_key ''checkpoint_sha256'' obj = checkpoint_body m n stage prior usage records transcript"
    unfolding assms by (rule without_last) (simp add: checkpoint_body_def schema_items_def manifest_to_dict_def)
  show "manifest_ok m \<Longrightarrow> validate_binding m obj = Inr ()"
    by (rule binding_kept) (simp_all add: assms checkpoint_body_def schema_items_def manifest_to_dict_def jget_default_def)
qed (simp_all add: assms checkpoint_body_def schema_items_def manifest_to_dict_def jget_default_def)

lemma checkpoint_read:
  assumes "manifest_ok m" and "prepared env m stage declared usage transcript current c payload"
    and "\<And>t. is_hex64 (fe_sha env t)" and "fe_unsafe env = None" and "checkpoint_file d (cp_number c) = Record payload"
  shows "load_checkpoint env m (cp_number c) d = Inr c"
proof -
  from assms(2) obtain records snapshot written digest where
    stages: "(fs_stage current \<notin> {''build_running'', ''resuming'', ''checkpointed''}) = False"
      "(stage \<notin> {''checkpointed'', ''build_ready''}) = False"
    and paths: "length declared \<le> MAX_FLOW_PATHS" "mapE (\<lambda>p. path_record env p ''path'') declared = Inr records"
      "distinct (map fst records)"
    and snapshot: "usage_from_dict usage = Inr snapshot" "validate_usage m snapshot = Inr ()"
    and written: "transcript_record env transcript = Inr written"
    and digest: "sha_payload (fe_sha env) (JObj (checkpoint_body m (number_of (fs_number current) + 1) stage (fs_stage current)
          snapshot (map snd records) written)) = Inr digest"
    and c: "c = \<lparr>cp_number = number_of (fs_number current) + 1, cp_stage = stage, cp_prior = fs_stage current, cp_usage = snapshot,
              cp_paths = map snd records, cp_transcript = written, cp_digest = digest\<rparr>"
    and payload: "payload = JObj (checkpoint_body m (number_of (fs_number current) + 1) stage (fs_stage current) snapshot
          (map snd records) written @ [(''checkpoint_sha256'', JStr digest)])"
    unfolding prepared_def by (elim conjE exE)
  define n where "n = number_of (fs_number current) + 1"
  define obj where "obj = checkpoint_body m n stage (fs_stage current) snapshot (map snd records) written @
      [(''checkpoint_sha256'', JStr digest)]"
  note fields = checkpoint_body_fields [OF obj_def]
  have read: "read_record env (checkpoint_file d n) = Inr (JObj obj)"
    using assms(4,5) by (simp add: c payload read_record_def safe_paths_def n_def obj_def)
  have hex: "flow_digest (JStr digest) label = Inr digest" for label
    using digest assms(3) by (auto simp: sha_payload_def bindE_Inr_iff flow_digest_def)
  have usage: "usage_from_dict (usage_to_dict snapshot) = Inr snapshot"
    using usage_codec.reload [OF snapshot(1)] .
  have distinct: "distinct (map JStr (map fst records))" using paths(3) by (simp add: distinct_map inj_on_def)
  have number: "json_eq (JInt (int n)) (JInt (int n))" "flow_integer (JInt (int n)) ''checkpoint number'' 1 = Inr (int n)"
    by (simp_all add: json_eq_def flow_integer_Inr n_def)
  have guards: "(n < 1) = False" "(length (map snd records) > MAX_FLOW_PATHS) = False" "(\<not> distinct (map JStr (map fst records))) = False"
    "is_text (JStr s) s = True" "str_of (JStr s) = s" for s
    using paths(1) records_again(3) [OF paths(2)] distinct number(1) by (simp_all add: n_def is_text_def str_of_def)
  have "load_checkpoint env m n d = Inr \<lparr>cp_number = n, cp_stage = stage, cp_prior = fs_stage current, cp_usage = snapshot,
      cp_paths = map snd records, cp_transcript = written, cp_digest = digest\<rparr>"
    by (simp only: load_checkpoint_def bind_guardE guards if_False read bindE_simps fields checkpoint_keys_def [symmetric]
        fields(12) [OF assms(1)] number stages simp_thms usage snapshot json.case records_again(1,2) [OF paths(2)]
        transcript_again [OF written] hex digest [folded n_def])
  then show ?thesis by (simp add: c n_def)
qed

section \<open>An interrupted checkpoint is completed\<close>

lemma put_checkpoint_Inr:
  assumes "put_checkpoint env n v d = (Inr u, d')"
  shows "d' = d\<lparr>fd_checkpoints := (n, Record v) # fd_checkpoints d\<rparr> \<and> checkpoint_file d n = No_record \<and> fe_unsafe env = None"
  using assms by (auto simp: put_checkpoint_def write_new_def safe_paths_def bindE_Inr_iff split: sum.splits if_splits option.splits)

lemma put_checkpoint_Inl: "put_checkpoint env n v d = (Inl e, d') \<Longrightarrow> d' = d"
  by (auto simp: put_checkpoint_def split: sum.splits)

lemma checkpoint_file_put [simp]:
  "checkpoint_file (d\<lparr>fd_checkpoints := (n, f) # xs\<rparr>) n = f"
  by (simp add: checkpoint_file_def)

lemma flow_state_of_cong: "fd_state d' = fd_state d \<Longrightarrow> flow_state_of env m d' = flow_state_of env m d"
  by (simp add: flow_state_of_def)

lemma flow_state_of_exists: "flow_state_of env m d = Inr st \<Longrightarrow> record_exists (fd_state d) \<and> fe_unsafe env = None"
  by (auto simp: flow_state_of_def read_record_def safe_paths_def record_exists_def bindE_Inr_iff split: record_file.splits option.splits)

lemma candidates_next:
  assumes "candidate_numbers d = [1..<n]" and "n < 1000000" and "1 \<le> n"
  shows "candidate_numbers (d\<lparr>fd_checkpoints := (n, Record v) # fd_checkpoints d\<rparr>) = [1..<Suc n]"
proof -
  have "candidate_numbers (d\<lparr>fd_checkpoints := (n, Record v) # fd_checkpoints d\<rparr>) = insort n (candidate_numbers d)"
    using assms(2) by (simp add: candidate_numbers_def is_regular_def)
  also have "\<dots> = [1..<n] @ [n]" unfolding assms(1) by (rule sorted_insort_is_snoc) simp_all
  finally show ?thesis using assms(3) by simp
qed

lemma checkpoint_steps:
  assumes "checkpoint env m stage declared usage transcript d = (Inr c, d')"
  obtains current payload d1 where "prepare_checkpoint env m stage declared usage transcript d = Inr (current, c, payload)"
    and "put_checkpoint env (cp_number c) payload d = (Inr (), d1)"
    and "put_state env (state_payload m (state_after c (fs_resumed current))) d1 = (Inr (), d')"
  using assms by (auto simp: checkpoint_def flow_simps bindF_def pureF_def readF_def split: sum.splits prod.splits)

text \<open>C28. A checkpoint cut off between its two writes is completed when the workspace is opened again: the disk then is
  exactly the one the uninterrupted call leaves.  It is enough that the checkpoint files so far are numbered without a
  gap, that fewer than a million exist, and that SHA-256 yields hexadecimal digests.\<close>

theorem interrupted_checkpoint_is_completed:
  assumes "manifest_from_dict v = Inr m" and "\<And>t. is_hex64 (fe_sha env t)"
    and "checkpoint env m stage declared usage transcript d = (Inr c, d')"
    and "interrupted_checkpoint env m stage declared usage transcript d = (Inr (), d1)"
    and "candidate_numbers d = [1..<cp_number c]" and "cp_number c < 1000000"
  shows "open_flow env m d1 = (Inr (), d')"
proof -
  note m = manifest_from_dict_ok [OF assms(1)]
  from checkpoint_steps [OF assms(3)] obtain current payload d2 where
    prep: "prepare_checkpoint env m stage declared usage transcript d = Inr (current, c, payload)"
    and first: "put_checkpoint env (cp_number c) payload d = (Inr (), d2)"
    and second: "put_state env (state_payload m (state_after c (fs_resumed current))) d2 = (Inr (), d')" .
  from assms(4) prep first have d2: "d2 = d1" by (simp add: interrupted_checkpoint_def flow_simps)
  note current = conjunct1 [OF prepare_checkpoint_Inr [OF prep]] and prepared = conjunct2 [OF prepare_checkpoint_Inr [OF prep]]
  note d1 = put_checkpoint_Inr [OF first [unfolded d2]]
  have c: "cp_number c = Suc (number_of (fs_number current))" "cp_prior c = fs_stage current" "monotonic_from (cp_usage c) (fs_usage current)"
    using prepared unfolding prepared_def by auto
  have state: "flow_state_of env m d1 = Inr current" using current d1 by (simp add: flow_state_of_def)
  have cands: "candidate_numbers d1 = [1..<Suc (cp_number c)]"
    using d1 candidates_next [OF assms(5,6)] c(1) by simp
  have load: "load_checkpoint env m (cp_number c) d1 = Inr c"
    using d1 by (intro checkpoint_read [OF m prepared assms(2)]) simp_all
  have "last [1..<Suc (cp_number c)] = cp_number c" "length [1..<Suc (cp_number c)] = cp_number c" "[1..<Suc (cp_number c)] \<noteq> []"
    using c(1) by simp_all
  then have "recover_orphan_checkpoint env m d1 = (Inr (), d')"
    using state cands load c second [unfolded d2] by (simp add: recover_orphan_checkpoint_def flow_simps Let_def del: upt_Suc)
  moreover have "record_exists (fd_state d1)" "safe_paths env = Inr ()"
    using flow_state_of_exists [OF state] by (simp_all add: safe_paths_def)
  ultimately show ?thesis using state by (simp add: open_flow_def flow_simps bindF_pureF)
qed

text \<open>A concrete attempt in the build stage and its first checkpoint.\<close>

definition demo_hash :: string where "demo_hash = replicate 64 CHR ''a''"

definition demo_manifest :: flow_manifest where
  "demo_manifest = \<lparr>wm_run = ''r1'', wm_attempt = ''a1'', wm_source = demo_hash, wm_suite = ''suite'', wm_case = ''case'',
     wm_request = demo_hash, wm_profile = None, wm_wall = JInt 60, wm_steps = 10, wm_tokens = 100, wm_cost = None\<rparr>"

definition demo_env :: flow_env where
  "demo_env = \<lparr>fe_unsafe = None, fe_path = (\<lambda>p. Inr (1, demo_hash)), fe_sha = (\<lambda>t. demo_hash)\<rparr>"

definition demo_usage :: aggregate_usage where
  "demo_usage = \<lparr>au_available = True, au_input = Some 4, au_output = Some 2, au_total = Some 6, au_cost = None,
     au_rounds = 1, au_steps = 1, au_elapsed = 20\<rparr>"

definition demo_disk :: flow_disk where
  "demo_disk = \<lparr>fd_state = Record (state_payload demo_manifest \<lparr>fs_stage = ''build_running'', fs_number = None, fs_resumed = False,
     fs_usage = usage_unavailable\<rparr>), fd_master = No_record, fd_checkpoints = []\<rparr>"

definition demo_view :: checkpoint_view where
  "demo_view = \<lparr>cp_number = 1, cp_stage = ''checkpointed'', cp_prior = ''build_running'', cp_usage = demo_usage,
     cp_paths = [file_record ''o'' (1, demo_hash)], cp_transcript = JNull, cp_digest = demo_hash\<rparr>"

lemma demo_manifest_read: "manifest_from_dict (JObj (manifest_to_dict demo_manifest)) = Inr demo_manifest"
  by code_simp

lemma demo_calls:
  "fst (checkpoint demo_env demo_manifest ''checkpointed'' [JStr ''o''] (usage_to_dict demo_usage) None demo_disk) = Inr demo_view"
  by code_simp

lemma cut_returns: "checkpoint env m stage declared usage transcript d = (Inr c, d') \<Longrightarrow>
    fst (interrupted_checkpoint env m stage declared usage transcript d) = Inr ()"
  by (erule checkpoint_steps) (simp add: interrupted_checkpoint_def flow_simps)

theorem interrupted_checkpoint_is_completed_witness:
  "open_flow demo_env demo_manifest
     (snd (interrupted_checkpoint demo_env demo_manifest ''checkpointed'' [JStr ''o''] (usage_to_dict demo_usage) None demo_disk)) =
   (Inr (), snd (checkpoint demo_env demo_manifest ''checkpointed'' [JStr ''o''] (usage_to_dict demo_usage) None demo_disk))"
proof (rule interrupted_checkpoint_is_completed [OF demo_manifest_read, where c = demo_view])
  show ran: "checkpoint demo_env demo_manifest ''checkpointed'' [JStr ''o''] (usage_to_dict demo_usage) None demo_disk =
      (Inr demo_view, snd (checkpoint demo_env demo_manifest ''checkpointed'' [JStr ''o''] (usage_to_dict demo_usage) None demo_disk))"
    by (simp add: prod_eq_iff demo_calls)
  show "interrupted_checkpoint demo_env demo_manifest ''checkpointed'' [JStr ''o''] (usage_to_dict demo_usage) None demo_disk =
      (Inr (), snd (interrupted_checkpoint demo_env demo_manifest ''checkpointed'' [JStr ''o''] (usage_to_dict demo_usage) None demo_disk))"
    by (simp add: prod_eq_iff cut_returns [OF ran])
  show "is_hex64 (fe_sha demo_env s)" for s
    by (simp add: demo_env_def) code_simp
qed (simp_all add: demo_disk_def demo_view_def candidate_numbers_def)

section \<open>Histories of the control plane\<close>

definition holds_state :: "flow_manifest \<Rightarrow> flow_disk \<Rightarrow> flow_state \<Rightarrow> bool" where
  "holds_state m d st \<longleftrightarrow> fd_state d = Record (state_payload m st) \<and> state_ok m st"

lemma holds_state_read:
  assumes "manifest_ok m" and "holds_state m d st" and "flow_state_of env m d = Inr st'"
  shows "st' = st"
proof -
  have "fe_unsafe env = None" using flow_state_of_exists [OF assms(3)] by simp
  then have "flow_state_of env m d = Inr st" using assms(1,2) state_after_put by (auto simp: holds_state_def)
  with assms(3) show ?thesis by simp
qed

lemma holds_state_unique:
  assumes "manifest_ok m" and "holds_state m d st" and "holds_state m d st'"
  shows "st' = st"
proof -
  have "state_payload m st' = state_payload m st" using assms(2,3) by (simp add: holds_state_def)
  then have "(Inr st' :: flow_state result) = Inr st"
    using assms state_payload_read by (metis holds_state_def)
  then show ?thesis by simp
qed

lemma at_least_trans: "at_least a b \<Longrightarrow> at_least b c \<Longrightarrow> at_least a c"
  by (cases a; cases b; cases c) (auto simp: at_least_def)

lemma monotonic_from_iff:
  "monotonic_from u p \<longleftrightarrow> au_steps p \<le> au_steps u \<and> au_rounds p \<le> au_rounds u \<and> au_elapsed p \<le> au_elapsed u \<and>
     (if \<not> au_available u then \<not> au_available p
      else if \<not> au_available p then au_rounds p = 0 \<and> au_steps p = 0 \<and> au_elapsed p = 0
      else at_least (au_input u) (au_input p) \<and> at_least (au_output u) (au_output p) \<and> at_least (au_total u) (au_total p) \<and>
        (au_cost p = None \<or> at_least (au_cost u) (au_cost p)))"
  by (cases "au_cost p"; cases "au_cost u") (auto simp: monotonic_from_def at_least_def [of "Some _" "Some _"] at_least_def [of None])

lemma usage_ok_counters: "usage_ok u \<Longrightarrow> au_available u \<Longrightarrow> au_input u \<noteq> None \<and> au_output u \<noteq> None \<and> au_total u \<noteq> None"
  by (auto simp: usage_ok_def usage_check_def split: option.splits)

lemma at_least_same: "v \<noteq> None \<Longrightarrow> at_least v v"
  by (cases v) (simp_all add: at_least_def)

lemma monotonic_from_refl: "usage_ok u \<Longrightarrow> monotonic_from u u"
  using usage_ok_counters [of u] by (auto simp del: not_None_eq simp add: monotonic_from_iff intro: at_least_same)

lemma at_least_Some: "at_least a b \<Longrightarrow> a \<noteq> None"
  by (cases a) (simp_all add: at_least_def)

lemma monotonic_from_trans:
  assumes "usage_ok a" and ba: "monotonic_from b a" and cb: "monotonic_from c b"
  shows "monotonic_from c a"
proof -
  have nonneg: "0 \<le> au_rounds a" "0 \<le> au_steps a" "0 \<le> au_elapsed a" using assms(1) by (simp_all add: usage_ok_def)
  have counters: "au_steps a \<le> au_steps c" "au_rounds a \<le> au_rounds c" "au_elapsed a \<le> au_elapsed c"
    using ba cb unfolding monotonic_from_iff by linarith+
  consider "\<not> au_available c" | "au_available c" "\<not> au_available b" | "au_available c" "au_available b" "\<not> au_available a"
    | "au_available c" "au_available b" "au_available a" by blast
  then show ?thesis
  proof cases
    case 1
    with ba cb counters show ?thesis by (simp add: monotonic_from_iff)
  next
    case 2
    with ba cb nonneg counters show ?thesis unfolding monotonic_from_iff by auto
  next
    case 3
    with ba counters show ?thesis unfolding monotonic_from_iff by auto
  next
    case 4
    then have "at_least (au_input b) (au_input a)" "at_least (au_output b) (au_output a)" "at_least (au_total b) (au_total a)"
      "at_least (au_input c) (au_input b)" "at_least (au_output c) (au_output b)" "at_least (au_total c) (au_total b)"
      and cost: "au_cost a = None \<or> at_least (au_cost b) (au_cost a)" "au_cost b = None \<or> at_least (au_cost c) (au_cost b)"
      using ba cb unfolding monotonic_from_iff by simp_all
    moreover have "au_cost a = None \<or> at_least (au_cost c) (au_cost a)"
      using cost at_least_Some at_least_trans by metis
    ultimately show ?thesis using 4 counters at_least_trans unfolding monotonic_from_iff by auto
  qed
qed

text \<open>What one write of the state may do: the ledger and the numbering never go back, the resume guard is never
  released, and nothing follows the terminal stage.\<close>

definition advances :: "flow_state \<Rightarrow> flow_state \<Rightarrow> bool" where
  "advances st st' \<longleftrightarrow> monotonic_from (fs_usage st') (fs_usage st) \<and> number_of (fs_number st) \<le> number_of (fs_number st') \<and>
     (fs_resumed st \<longrightarrow> fs_resumed st') \<and> (fs_stage st = ''terminal'' \<longrightarrow> st' = st)"

lemma advances_refl: "state_ok m st \<Longrightarrow> advances st st"
  by (simp add: advances_def monotonic_from_refl state_ok_parts(2))

lemma conj4: assumes "A \<and> B \<and> C \<and> D" shows A B C D
  using assms by blast+

lemmas advances_parts = conj4 [OF advances_def [THEN iffD1]]

lemma advances_trans:
  assumes "state_ok m a" and "advances a b" and "advances b c"
  shows "advances a c"
proof -
  note ab = advances_parts [OF assms(2)] and bc = advances_parts [OF assms(3)]
  have "monotonic_from (fs_usage c) (fs_usage a)" by (rule monotonic_from_trans [OF state_ok_parts(2) [OF assms(1)] ab(1) bc(1)])
  moreover have "number_of (fs_number a) \<le> number_of (fs_number c)" by (rule order_trans [OF ab(2) bc(2)])
  moreover have "fs_resumed a \<longrightarrow> fs_resumed c" using ab(3) bc(3) by simp
  moreover have "fs_stage a = ''terminal'' \<longrightarrow> c = a"
  proof (rule impI)
    assume t: "fs_stage a = ''terminal''"
    have ba: "b = a" by (rule mp [OF ab(4) t])
    have "c = b" by (rule mp [OF bc(4)]) (simp only: ba t)
    with ba show "c = a" by simp
  qed
  ultimately show ?thesis by (simp only: advances_def)
qed

inductive flow_move :: "flow_manifest \<Rightarrow> flow_disk \<Rightarrow> flow_disk \<Rightarrow> bool" for m where
  create: "fd_state d = No_record \<Longrightarrow> flow_move m d (d\<lparr>fd_state := Record (state_payload m created_state)\<rparr>)"
| new_state: "holds_state m d st \<Longrightarrow> state_ok m st' \<Longrightarrow> advances st st' \<Longrightarrow>
    fs_number st' = fs_number st \<or>
      fs_number st' = Some (Suc (number_of (fs_number st))) \<and> Suc (number_of (fs_number st)) \<in> set (map fst (fd_checkpoints d)) \<Longrightarrow>
    flow_move m d (d\<lparr>fd_state := Record (state_payload m st')\<rparr>)"
| new_master: "flow_move m d (d\<lparr>fd_master := f\<rparr>)"
| new_file: "holds_state m d st \<Longrightarrow> checkpoint_file d (Suc (number_of (fs_number st))) = No_record \<Longrightarrow>
    flow_move m d (d\<lparr>fd_checkpoints := (Suc (number_of (fs_number st)), Record v) # fd_checkpoints d\<rparr>)"

text \<open>The disk of an attempt: not created yet, or a sound state over gapless checkpoint files, at most one of which the
  state does not know yet.\<close>

definition numbered :: "nat \<Rightarrow> flow_disk \<Rightarrow> bool" where
  "numbered n d \<longleftrightarrow> map fst (fd_checkpoints d) = rev [1..<Suc n] \<and> (\<forall>(k, f) \<in> set (fd_checkpoints d). \<exists>v. f = Record v)"

definition flow_ok :: "flow_manifest \<Rightarrow> flow_disk \<Rightarrow> bool" where
  "flow_ok m d \<longleftrightarrow>
     (fd_state d = No_record \<and> numbered 0 d \<or>
      (\<exists>st. holds_state m d st \<and> (numbered (number_of (fs_number st)) d \<or> numbered (Suc (number_of (fs_number st))) d)))"

lemma numbered_set: "numbered n d \<Longrightarrow> set (map fst (fd_checkpoints d)) = {1..n}"
  unfolding numbered_def by (metis atLeastLessThanSuc_atLeastAtMost set_rev set_upt)

lemma numbered_add: "numbered n d \<Longrightarrow> numbered (Suc n) (d\<lparr>fd_checkpoints := (Suc n, Record v) # fd_checkpoints d\<rparr>)"
  by (simp add: numbered_def)

lemma numbered_cong [simp]: "numbered n (d\<lparr>fd_state := f\<rparr>) = numbered n d" "numbered n (d\<lparr>fd_master := f\<rparr>) = numbered n d"
  by (simp_all add: numbered_def)

lemma numbered_free:
  assumes "checkpoint_file d k = No_record" and "numbered n d"
  shows "k \<notin> set (map fst (fd_checkpoints d))"
proof -
  have "map_of (fd_checkpoints d) k = None"
  proof (cases "map_of (fd_checkpoints d) k")
    case (Some f)
    with map_of_SomeD assms(2) obtain v where "f = Record v" unfolding numbered_def by fastforce
    with Some assms(1) show ?thesis by (simp add: checkpoint_file_def)
  qed simp
  then show ?thesis by (simp add: map_of_eq_None_iff)
qed

lemma created_ok: "manifest_ok m \<Longrightarrow> state_ok m created_state"
proof -
  assume "manifest_ok m"
  then have "validate_usage m usage_unavailable = Inr ()"
    by (simp add: validate_usage_def usage_unavailable_def wall_ms_def manifest_ok_def bind_guardE)
  then show ?thesis
    by (simp add: state_ok_def created_state_def flow_stages_def usage_unavailable_ok)
qed

lemma current_holds:
  assumes "manifest_ok m" and "flow_ok m d" and "flow_state_of env m d = Inr current"
  shows "holds_state m d current"
proof -
  have "fd_state d \<noteq> No_record" using flow_state_of_exists [OF assms(3)] by (auto simp: record_exists_def)
  then obtain st where st: "holds_state m d st" using assms(2) unfolding flow_ok_def by blast
  with holds_state_read [OF assms(1) st assms(3)] show ?thesis by simp
qed

lemma flow_ok_at:
  assumes "manifest_ok m" and "flow_ok m d" and "holds_state m d st"
  shows "numbered (number_of (fs_number st)) d \<or> numbered (Suc (number_of (fs_number st))) d"
proof -
  have "fd_state d \<noteq> No_record" using assms(3) by (simp add: holds_state_def)
  then obtain s where s: "holds_state m d s" "numbered (number_of (fs_number s)) d \<or> numbered (Suc (number_of (fs_number s))) d"
    using assms(2) unfolding flow_ok_def by blast
  with holds_state_unique [OF assms(1,3) s(1)] show ?thesis by simp
qed

lemma advances_kept:
  assumes "manifest_ok m" and "holds_state m d st" and "holds_state m d' st'" and "advances st st'"
  shows "\<forall>s. holds_state m d s \<longrightarrow> (\<exists>s'. holds_state m d' s' \<and> advances s s')"
  using holds_state_unique [OF assms(1,2)] assms(3,4) by blast

lemma holds_put: "state_ok m st \<Longrightarrow> holds_state m (d\<lparr>fd_state := Record (state_payload m st)\<rparr>) st"
  by (simp add: holds_state_def)

lemma flow_move_ok:
  assumes "manifest_ok m" and "flow_move m d d'" and "flow_ok m d"
  shows "flow_ok m d' \<and> (\<forall>st. holds_state m d st \<longrightarrow> (\<exists>st'. holds_state m d' st' \<and> advances st st'))"
  using assms(2)
proof cases
  case create
  have none: "\<not> holds_state m d st" for st using create(2) by (simp add: holds_state_def)
  with assms(3) have "numbered (number_of (fs_number created_state)) d" 
    unfolding flow_ok_def by (simp add: created_state_def number_of_def)
  then have "flow_ok m d'"
    unfolding flow_ok_def create(1) numbered_cong using holds_put [OF created_ok [OF assms(1)]] by blast
  with none show ?thesis by blast
next
  case (new_state st st')
  note hold = holds_put [OF new_state(3), of d]
  have "numbered (number_of (fs_number st')) d \<or> numbered (Suc (number_of (fs_number st'))) d"
    using new_state(5)
  proof (elim disjE conjE)
    assume "fs_number st' = fs_number st"
    with flow_ok_at [OF assms(1,3) new_state(2)] show ?thesis by simp
  next
    assume n: "fs_number st' = Some (Suc (number_of (fs_number st)))"
      and known: "Suc (number_of (fs_number st)) \<in> set (map fst (fd_checkpoints d))"
    have "\<not> numbered (number_of (fs_number st)) d"
    proof
      assume "numbered (number_of (fs_number st)) d"
      with known show False using numbered_set by fastforce
    qed
    with flow_ok_at [OF assms(1,3) new_state(2)] n show ?thesis by (simp add: number_of_def)
  qed
  then have "flow_ok m d'" unfolding flow_ok_def new_state(1) numbered_cong using hold by blast
  with advances_kept [OF assms(1) new_state(2) hold new_state(4)] show ?thesis unfolding new_state(1) by blast
next
  case (new_master f)
  have same: "holds_state m d' st = holds_state m d st" for st using new_master by (simp add: holds_state_def)
  have "flow_ok m d'" using assms(3) unfolding flow_ok_def same unfolding new_master numbered_cong by simp
  moreover have "advances st st" if "holds_state m d st" for st using that advances_refl unfolding holds_state_def by blast
  ultimately show ?thesis using same by blast
next
  case (new_file st v)
  have same: "holds_state m d' s = holds_state m d s" for s using new_file(1) by (simp add: holds_state_def)
  have "\<not> numbered (Suc (number_of (fs_number st))) d"
    using numbered_free [OF new_file(3)] numbered_set by fastforce
  with flow_ok_at [OF assms(1,3) new_file(2)] have "numbered (number_of (fs_number st)) d" by blast
  then have "numbered (Suc (number_of (fs_number st))) d'" unfolding new_file(1) by (rule numbered_add)
  then have "flow_ok m d'" unfolding flow_ok_def same using new_file(2) by blast
  moreover have "advances s s" if "holds_state m d s" for s using that advances_refl unfolding holds_state_def by blast
  ultimately show ?thesis using same by blast
qed

definition moves_at :: "flow_manifest \<Rightarrow> flow_disk \<Rightarrow> 'a flow \<Rightarrow> bool" where
  "moves_at m d f \<longleftrightarrow> (flow_ok m d \<longrightarrow> (\<forall>r d'. f d = (r, d') \<longrightarrow> (flow_move m)\<^sup>*\<^sup>* d d'))"

lemma moves_ok:
  assumes "manifest_ok m" and "(flow_move m)\<^sup>*\<^sup>* d d'" and "flow_ok m d"
  shows "flow_ok m d' \<and> (\<forall>st. holds_state m d st \<longrightarrow> (\<exists>st'. holds_state m d' st' \<and> advances st st'))"
  using assms(2)
proof induction
  case base
  show ?case using assms(3) advances_refl by (auto simp: holds_state_def)
next
  case (step y z)
  from step flow_move_ok [OF assms(1) step(2)] have ok: "flow_ok m z"
    and go: "\<forall>st. holds_state m y st \<longrightarrow> (\<exists>st'. holds_state m z st' \<and> advances st st')" by auto
  show ?case
  proof (intro conjI allI impI ok)
    fix st assume st: "holds_state m d st"
    with step obtain st1 where st1: "holds_state m y st1" "advances st st1" by blast
    with go obtain st2 where st2: "holds_state m z st2" "advances st1 st2" by blast
    then show "\<exists>st'. holds_state m z st' \<and> advances st st'"
      using advances_trans [OF _ st1(2) st2(2)] st by (auto simp: holds_state_def)
  qed
qed

lemma moves_pure: "moves_at m d (pureF r)"
  by (simp add: moves_at_def pureF_def)

lemma moves_bind_pure: "(\<And>x. r = Inr x \<Longrightarrow> moves_at m d (g x)) \<Longrightarrow> moves_at m d (bindF (pureF r) g)"
  by (cases r) (auto simp: moves_at_def bindF_pureF)

lemma moves_bind_read: "(\<And>x. q d = Inr x \<Longrightarrow> moves_at m d (g x)) \<Longrightarrow> moves_at m d (bindF (readF q) g)"
  by (cases "q d") (auto simp: moves_at_def bindF_readF)

lemma moves_bind:
  assumes "manifest_ok m" and "moves_at m d f" and "\<And>x d'. flow_ok m d \<Longrightarrow> f d = (Inr x, d') \<Longrightarrow> moves_at m d' (g x)"
  shows "moves_at m d (bindF f g)"
proof -
  have "(flow_move m)\<^sup>*\<^sup>* d d''" if ok: "flow_ok m d" and run: "bindF f g d = (r, d'')" for r d''
  proof (cases "f d")
    case (Pair a d1)
    with assms(2) ok have first: "(flow_move m)\<^sup>*\<^sup>* d d1" by (simp add: moves_at_def)
    show ?thesis
    proof (cases a)
      case (Inl e)
      with Pair run first show ?thesis by (simp add: bindF_def)
    next
      case (Inr x)
      with Pair run assms(3) [OF ok] moves_ok [OF assms(1) first ok] have "(flow_move m)\<^sup>*\<^sup>* d1 d''"
        by (simp add: bindF_def moves_at_def)
      with first show ?thesis by simp
    qed
  qed
  then show ?thesis by (simp add: moves_at_def)
qed

lemma moves_put_state:
  assumes "manifest_ok m" and "holds_state m d st" and "state_ok m st'" and "advances st st'"
    and "fs_number st' = fs_number st \<or>
      fs_number st' = Some (Suc (number_of (fs_number st))) \<and> Suc (number_of (fs_number st)) \<in> set (map fst (fd_checkpoints d))"
  shows "moves_at m d (put_state env (state_payload m st'))"
proof -
  have "(flow_move m)\<^sup>*\<^sup>* d d'" if "put_state env (state_payload m st') d = (r, d')" for r d'
  proof (cases r)
    case (Inl e)
    with that show ?thesis using put_state_Inl by fastforce
  next
    case (Inr u)
    with that put_state_Inr have "d' = d\<lparr>fd_state := Record (state_payload m st')\<rparr>" by blast
    with flow_move.new_state [OF assms(2-5)] show ?thesis by auto
  qed
  then show ?thesis by (simp add: moves_at_def)
qed

lemma moves_put_master: "moves_at m d (put_master env v)"
  by (auto simp: moves_at_def put_master_def intro: flow_move.new_master split: sum.splits)

lemma transition_moves:
  assumes "manifest_ok m"
  shows "moves_at m d (transition env m stage)"
proof (cases "flow_ok m d")
  case True
  show ?thesis
    unfolding transition_def
  proof (intro moves_bind_pure moves_bind_read)
    fix current and u1 u3 u4 u5 :: unit
    assume guards: "guardE (stage \<notin> set flow_stages) (flow_error ''invalid workflow stage'') = Inr u1"
      "guardE (stage = ''resuming'') (flow_error ''resuming transition requires resume() and its one-resume guard'') = Inr u3"
      "guardE (stage = ''checkpointed'') (flow_error ''checkpointed transition requires a durable checkpoint()'') = Inr u4"
      "guardE (stage \<notin> set (the (map_of next_stages (fs_stage current))))
        (flow_error (''out-of-order workflow transition: '' @ fs_stage current @ '' -> '' @ stage)) = Inr u5"
      and current: "flow_state_of env m d = Inr current"
    note hold = current_holds [OF assms True current] and parts = state_ok_parts [OF flow_state_ok [OF current]]
    have stage: "stage \<in> set flow_stages" "stage \<noteq> ''resuming''" "stage \<noteq> ''checkpointed''"
      "stage \<in> set (the (map_of next_stages (fs_stage current)))"
      using guards by (simp_all only: guardE_Inr_iff simp_thms)
    have "fs_stage current \<noteq> ''terminal''"
    proof
      assume "fs_stage current = ''terminal''"
      with stage(4) show False by (simp add: next_stages_def)
    qed
    then have adv: "advances current (current\<lparr>fs_stage := stage\<rparr>)"
      using monotonic_from_refl [OF parts(2)] by (simp add: advances_def)
    have "state_ok m (current\<lparr>fs_stage := stage\<rparr>)"
      using parts(2-4) stage(1-3) by (simp add: state_ok_def)
    from moves_put_state [OF assms hold this adv] show "moves_at m d (put_state env (state_payload m (current\<lparr>fs_stage := stage\<rparr>)))"
      by simp
  qed
qed (simp add: moves_at_def)

lemma usage_moves:
  assumes "manifest_ok m"
  shows "moves_at m d (record_flow_usage env m usage)"
proof (cases "flow_ok m d")
  case True
  show ?thesis
    unfolding record_flow_usage_def
  proof (intro moves_bind_pure moves_bind_read)
    fix current snapshot u1 u2 u3
    assume current: "flow_state_of env m d = Inr current"
      and guards: "guardE (fs_stage current \<notin> {''master_running'', ''master_ready''})
        (flow_error ''master usage may only be recorded during the master stage'') = Inr u1"
        "guardE (\<not> monotonic_from snapshot (fs_usage current)) (flow_error ''usage ledger moved backwards or reset'') = Inr u2"
      and usage: "usage_from_dict usage = Inr snapshot" "validate_usage m snapshot = Inr u3"
    note hold = current_holds [OF assms True current] and parts = state_ok_parts [OF flow_state_ok [OF current]]
    have stage: "fs_stage current \<in> {''master_running'', ''master_ready''}" using guards by (simp only: guardE_Inr_iff not_not)
    then have "fs_stage current \<noteq> ''terminal''" by (elim insertE emptyE) simp_all
    with guards(2) have adv: "advances current (current\<lparr>fs_usage := snapshot\<rparr>)"
      by (simp add: advances_def guardE_Inr_iff)
    have "state_ok m (current\<lparr>fs_usage := snapshot\<rparr>)"
      unfolding state_ok_def flow_state.simps using parts usage_from_dict_ok [OF usage(1)] usage(2) by simp
    from moves_put_state [OF assms hold this adv] show "moves_at m d (put_state env (state_payload m (current\<lparr>fs_usage := snapshot\<rparr>)))"
      by simp
  qed
qed (simp add: moves_at_def)

lemma master_moves:
  assumes "manifest_ok m"
  shows "moves_at m d (write_master env m plan paths)"
  unfolding write_master_def Let_def
  by (intro moves_bind_pure moves_bind_read moves_bind [OF assms] moves_pure moves_put_master transition_moves [OF assms])
    (simp add: moves_pure transition_moves [OF assms])

lemma moves_put_checkpoint:
  assumes "holds_state m d st"
  shows "moves_at m d (put_checkpoint env (Suc (number_of (fs_number st))) v)"
proof -
  have "(flow_move m)\<^sup>*\<^sup>* d d'" if "put_checkpoint env (Suc (number_of (fs_number st))) v d = (r, d')" for r d'
  proof (cases r)
    case (Inl e)
    with that show ?thesis using put_checkpoint_Inl by fastforce
  next
    case (Inr u)
    note p = put_checkpoint_Inr [OF that [unfolded Inr]]
    from flow_move.new_file [OF assms, of v] p show ?thesis by auto
  qed
  then show ?thesis by (simp add: moves_at_def)
qed

lemma prepared_state:
  assumes "prepared env m stage declared usage transcript current c payload" and "state_ok m current"
  shows "state_ok m (state_after c (fs_resumed current)) \<and> advances current (state_after c (fs_resumed current)) \<and>
     cp_number c = Suc (number_of (fs_number current))"
proof -
  from assms(1) obtain snapshot where
    stages: "(fs_stage current \<notin> {''build_running'', ''resuming'', ''checkpointed''}) = False"
      "(stage \<notin> {''checkpointed'', ''build_ready''}) = False"
    and usage: "usage_from_dict usage = Inr snapshot" "monotonic_from snapshot (fs_usage current)" "validate_usage m snapshot = Inr ()"
    and c: "cp_number c = Suc (number_of (fs_number current))" "cp_stage c = stage" "cp_usage c = snapshot"
    unfolding prepared_def by (elim conjE exE) simp
  have live: "fs_stage current \<noteq> ''terminal''" using stages(1) by auto
  have "stage = ''checkpointed'' \<or> stage = ''build_ready''" using stages(2) by blast
  then have "stage \<in> set flow_stages" "stage \<noteq> ''resuming''" by (elim disjE; simp add: flow_stages_def)+
  then have "state_ok m (state_after c (fs_resumed current))"
    using usage usage_from_dict_ok [OF usage(1)] c by (simp add: state_ok_def state_after_def)
  moreover have "advances current (state_after c (fs_resumed current))"
    using usage(2) c live by (simp add: advances_def state_after_def number_of_def)
  ultimately show ?thesis using c(1) by blast
qed

lemma interrupted_moves: "manifest_ok m \<Longrightarrow> moves_at m d (interrupted_checkpoint env m stage declared usage transcript)"
proof (cases "flow_ok m d")
  case True
  assume m: "manifest_ok m"
  show ?thesis
    unfolding interrupted_checkpoint_def
  proof (rule moves_bind_read)
    fix x assume x: "prepare_checkpoint env m stage declared usage transcript d = Inr x"
    obtain current c payload where p: "x = (current, c, payload)" by (cases x) blast
    note prep = prepare_checkpoint_Inr [OF x [unfolded p]]
    note hold = current_holds [OF m True conjunct1 [OF prep]]
    have "cp_number c = Suc (number_of (fs_number current))"
      using prepared_state [OF conjunct2 [OF prep] flow_state_ok [OF conjunct1 [OF prep]]] by simp
    with moves_put_checkpoint [OF hold] show "moves_at m d (case x of (current, c, payload) \<Rightarrow> put_checkpoint env (cp_number c) payload)"
      by (simp add: p)
  qed
qed (simp add: moves_at_def)

lemma checkpoint_moves: "manifest_ok m \<Longrightarrow> moves_at m d (checkpoint env m stage declared usage transcript)"
proof (cases "flow_ok m d")
  case True
  assume m: "manifest_ok m"
  show ?thesis
    unfolding checkpoint_def
  proof (rule moves_bind_read)
    fix x assume x: "prepare_checkpoint env m stage declared usage transcript d = Inr x"
    obtain current c payload where p: "x = (current, c, payload)" by (cases x) blast
    note prep = prepare_checkpoint_Inr [OF x [unfolded p]]
    note hold = current_holds [OF m True conjunct1 [OF prep]]
    note after = prepared_state [OF conjunct2 [OF prep] flow_state_ok [OF conjunct1 [OF prep]]]
    have "moves_at m d (bindF (put_checkpoint env (cp_number c) payload) (\<lambda>_.
        bindF (put_state env (state_payload m (state_after c (fs_resumed current)))) (\<lambda>_. pureF (Inr c))))"
    proof (rule moves_bind [OF m])
      show "moves_at m d (put_checkpoint env (cp_number c) payload)" using moves_put_checkpoint [OF hold] after by simp
    next
      fix u d' assume "put_checkpoint env (cp_number c) payload d = (Inr u, d')"
      note d' = put_checkpoint_Inr [OF this]
      then have "holds_state m d' current" using hold by (simp add: holds_state_def)
      moreover have "Suc (number_of (fs_number current)) \<in> set (map fst (fd_checkpoints d'))" using d' after by simp
      moreover have "fs_number (state_after c (fs_resumed current)) = Some (Suc (number_of (fs_number current)))"
        using after by (simp add: state_after_def)
      ultimately show "moves_at m d' (bindF (put_state env (state_payload m (state_after c (fs_resumed current)))) (\<lambda>_. pureF (Inr c)))"
        using after by (intro moves_bind [OF m] moves_pure moves_put_state [OF m]) blast+
    qed
    then show "moves_at m d (case x of (current, c, payload) \<Rightarrow> bindF (put_checkpoint env (cp_number c) payload) (\<lambda>_.
        bindF (put_state env (state_payload m (state_after c (fs_resumed current)))) (\<lambda>_. pureF (Inr c))))"
      by (simp add: p)
  qed
qed (simp add: moves_at_def)

lemma load_checkpoint_Inr:
  assumes "load_checkpoint env m number d = Inr c"
  shows "cp_number c = number \<and> usage_ok (cp_usage c) \<and> validate_usage m (cp_usage c) = Inr () \<and>
    (cp_stage c \<notin> {''checkpointed'', ''build_ready''}) = False \<and>
    (cp_prior c \<notin> {''build_running'', ''resuming'', ''checkpointed''}) = False \<and> checkpoint_file d number \<noteq> No_record"
proof -
  from assms obtain val obj usage u where read: "read_record env (checkpoint_file d number) = Inr val"
    and stage: "\<not> (str_of (getn obj ''stage'') \<notin> {''checkpointed'', ''build_ready''} \<or>
         str_of (getn obj ''prior_stage'') \<notin> {''build_running'', ''resuming'', ''checkpointed''})"
    and usage: "usage_from_dict (getn obj ''usage'') = Inr usage" "validate_usage m usage = Inr u"
    and rest: "(case getn obj ''declared_paths'' of
       JArr records \<Rightarrow>
         bindE (guardE (length records > MAX_FLOW_PATHS) (flow_error ''invalid checkpoint paths'')) (\<lambda>_.
         bindE (mapE (check_path_record env ''declared path record'' ''declared path digest changed'') records) (\<lambda>normalized.
         bindE (guardE (\<not> distinct (map (\<lambda>r. case r of JObj items \<Rightarrow> getn items ''path'' | _ \<Rightarrow> JNull) normalized))
           (flow_error ''declared paths must be unique'')) (\<lambda>_.
         bindE (case getn obj ''transcript'' of JNull \<Rightarrow> Inr JNull
                | v \<Rightarrow> check_path_record env ''transcript record'' ''transcript digest changed'' v) (\<lambda>transcript.
         bindE (flow_digest (getn obj ''checkpoint_sha256'') ''checkpoint_sha256'') (\<lambda>digest.
         bindE (sha_payload (fe_sha env) (JObj (without_key ''checkpoint_sha256'' obj))) (\<lambda>expected.
         bindE (guardE (digest \<noteq> expected) (flow_error ''checkpoint digest mismatch'')) (\<lambda>_.
         Inr \<lparr>cp_number = number, cp_stage = str_of (getn obj ''stage''), cp_prior = str_of (getn obj ''prior_stage''),
           cp_usage = usage, cp_paths = normalized, cp_transcript = transcript, cp_digest = digest\<rparr>)))))))
     | _ \<Rightarrow> Inl (flow_error ''invalid checkpoint paths'')) = Inr c"
    unfolding load_checkpoint_def bindE_Inr_iff guardE_Inr_iff by (elim exE conjE) (rule that; assumption)
  from rest obtain records where "getn obj ''declared_paths'' = JArr records" by (cases "getn obj ''declared_paths''") simp_all
  with rest have c: "cp_number c = number" "cp_stage c = str_of (getn obj ''stage'')"
    "cp_prior c = str_of (getn obj ''prior_stage'')" "cp_usage c = usage"
    by (auto simp: bindE_Inr_iff)
  have "checkpoint_file d number \<noteq> No_record" using read by (auto simp: read_record_def bindE_Inr_iff)
  moreover have "validate_usage m usage = Inr ()" using usage(2) by simp
  ultimately show ?thesis using c stage usage(1) usage_from_dict_ok [OF usage(1)] by (simp only: simp_thms de_Morgan_disj)
qed

lemma checkpoint_file_known: "checkpoint_file d n \<noteq> No_record \<Longrightarrow> n \<in> set (map fst (fd_checkpoints d))"
proof (rule ccontr)
  assume a: "checkpoint_file d n \<noteq> No_record" and "n \<notin> set (map fst (fd_checkpoints d))"
  then have "map_of (fd_checkpoints d) n = None" by (simp add: map_of_eq_None_iff)
  with a show False by (simp add: checkpoint_file_def)
qed

definition resumed_state :: "nat \<Rightarrow> aggregate_usage \<Rightarrow> flow_state" where
  "resumed_state number u = \<lparr>fs_stage = ''resuming'', fs_number = Some number, fs_resumed = True, fs_usage = u\<rparr>"

lemma resumed_ok:
  assumes "state_ok m current" and "fs_stage current = ''checkpointed''" and "fs_number current \<noteq> None"
  shows "state_ok m (resumed_state (number_of (fs_number current)) (fs_usage current)) \<and>
    advances current (resumed_state (number_of (fs_number current)) (fs_usage current)) \<and>
    fs_number (resumed_state (number_of (fs_number current)) (fs_usage current)) = fs_number current"
proof -
  note parts = state_ok_parts [OF assms(1)]
  obtain n where n: "fs_number current = Some n" using assms(3) by blast
  with parts(4) have "n \<noteq> 0" by simp
  with n parts(2,3) monotonic_from_refl [OF parts(2)] assms(2) show ?thesis
    by (simp add: resumed_state_def state_ok_def advances_def number_of_def flow_stages_def)
qed

lemma resume_moves: "manifest_ok m \<Longrightarrow> moves_at m d (resume_flow env m wanted)"
proof (cases "flow_ok m d")
  case True
  assume m: "manifest_ok m"
  show ?thesis
    unfolding resume_flow_def Let_def resumed_state_def [symmetric]
  proof (intro moves_bind_pure moves_bind_read moves_bind [OF m] moves_pure)
    fix current c and u2 u4 u6 :: unit
    assume current: "flow_state_of env m d = Inr current"
      and guards: "guardE (fs_stage current \<noteq> ''checkpointed'') (flow_error ''resume requires a checkpointed stage'') = Inr u2"
        "guardE (fs_number current = None) (flow_error ''resume requires a checkpoint'') = Inr u4"
        "guardE (cp_stage c \<noteq> fs_stage current \<or> cp_usage c \<noteq> fs_usage current)
          (flow_error ''resume checkpoint does not match current state'') = Inr u6"
    have usage: "cp_usage c = fs_usage current" using guards(3) unfolding guardE_Inr_iff by blast
    have "fs_stage current = ''checkpointed''" "fs_number current \<noteq> None"
      using guards(1,2) by (simp_all only: guardE_Inr_iff simp_thms)
    note after = resumed_ok [OF flow_state_ok [OF current] this]
    show "moves_at m d (put_state env (state_payload m (resumed_state (number_of (fs_number current)) (cp_usage c))))"
      unfolding usage using after by (intro moves_put_state [OF m current_holds [OF m True current]]) blast+
  qed
qed (simp add: moves_at_def)

lemma recover_moves: "manifest_ok m \<Longrightarrow> moves_at m d (recover_orphan_checkpoint env m)"
proof (cases "flow_ok m d")
  case True
  assume m: "manifest_ok m"
  show ?thesis
    unfolding recover_orphan_checkpoint_def
  proof (intro moves_bind_read)
    fix current candidates
    assume current: "flow_state_of env m d = Inr current" and "Inr (candidate_numbers d) = (Inr candidates :: nat list result)"
    note hold = current_holds [OF m True current]
    show "moves_at m d (let current_number = number_of (fs_number current) in
       if candidates = [] \<or> last candidates \<le> current_number then pureF (Inr ())
       else
         bindF (pureF (guardE (last candidates \<noteq> current_number + 1 \<or> length candidates \<noteq> current_number + 1)
           (flow_error ''workflow checkpoint sequence is inconsistent''))) (\<lambda>_.
         bindF (readF (load_checkpoint env m (last candidates))) (\<lambda>c.
         bindF (pureF (guardE (cp_prior c \<noteq> fs_stage current)
           (flow_error ''orphan workflow checkpoint has an invalid prior stage''))) (\<lambda>_.
         bindF (pureF (guardE (\<not> monotonic_from (cp_usage c) (fs_usage current))
           (flow_error ''orphan checkpoint usage moved backwards or reset''))) (\<lambda>_.
         put_state env (state_payload m (state_after c (fs_resumed current))))))))"
      unfolding Let_def
    proof (split if_split, intro conjI impI moves_pure moves_bind_pure moves_bind_read)
      fix c and u1 u2 u3 :: unit
      assume load: "load_checkpoint env m (last candidates) d = Inr c"
        and guards: "guardE (last candidates \<noteq> number_of (fs_number current) + 1 \<or> length candidates \<noteq> number_of (fs_number current) + 1)
           (flow_error ''workflow checkpoint sequence is inconsistent'') = Inr u1"
          "guardE (cp_prior c \<noteq> fs_stage current) (flow_error ''orphan workflow checkpoint has an invalid prior stage'') = Inr u2"
          "guardE (\<not> monotonic_from (cp_usage c) (fs_usage current))
             (flow_error ''orphan checkpoint usage moved backwards or reset'') = Inr u3"
      note c = load_checkpoint_Inr [OF load]
      have last: "last candidates = Suc (number_of (fs_number current))"
        using guards(1) unfolding guardE_Inr_iff by simp
      have prior: "cp_prior c = fs_stage current" and mono: "monotonic_from (cp_usage c) (fs_usage current)"
        using guards(2,3) by (simp_all only: guardE_Inr_iff simp_thms)
      have number: "cp_number c = Suc (number_of (fs_number current))" and usage: "usage_ok (cp_usage c)" "validate_usage m (cp_usage c) = Inr ()"
        and stage: "(cp_stage c \<notin> {''checkpointed'', ''build_ready''}) = False"
        and live: "(cp_prior c \<notin> {''build_running'', ''resuming'', ''checkpointed''}) = False"
        and found: "checkpoint_file d (last candidates) \<noteq> No_record"
        using c last by (simp_all only: simp_thms)
      have "cp_stage c = ''checkpointed'' \<or> cp_stage c = ''build_ready''" using stage by blast
      then have "cp_stage c \<in> set flow_stages" "cp_stage c \<noteq> ''resuming''" by (elim disjE; simp add: flow_stages_def)+
      with usage number have ok: "state_ok m (state_after c (fs_resumed current))" by (simp add: state_ok_def state_after_def)
      have "fs_stage current \<noteq> ''terminal''" using live unfolding prior by auto
      with mono number have adv: "advances current (state_after c (fs_resumed current))"
        by (simp add: advances_def state_after_def number_of_def)
      have "fs_number (state_after c (fs_resumed current)) = Some (Suc (number_of (fs_number current)))"
        using number by (simp add: state_after_def)
      with checkpoint_file_known [OF found] last show "moves_at m d (put_state env (state_payload m (state_after c (fs_resumed current))))"
        by (intro moves_put_state [OF m hold ok adv]) simp
    qed
  qed
qed (simp add: moves_at_def)

lemma open_moves: "manifest_ok m \<Longrightarrow> moves_at m d (open_flow env m)"
  unfolding open_flow_def
proof (intro moves_bind_pure moves_bind_read)
  fix known assume m: "manifest_ok m" and known: "Inr (record_exists (fd_state d)) = (Inr known :: bool result)"
  show "moves_at m d (if \<not> known then put_state env (state_payload m created_state)
     else bindF (readF (flow_state_of env m)) (\<lambda>_. recover_orphan_checkpoint env m))"
  proof (cases known)
    case True
    then show ?thesis by (simp add: moves_bind_read recover_moves [OF m])
  next
    case False
    have "moves_at m d (put_state env (state_payload m created_state))"
      unfolding moves_at_def
    proof (intro impI allI)
      fix r d' assume ok: "flow_ok m d" and run: "put_state env (state_payload m created_state) d = (r, d')"
      have "fd_state d = No_record"
        using ok known False by (auto simp: flow_ok_def holds_state_def record_exists_def)
      then show "(flow_move m)\<^sup>*\<^sup>* d d'"
        using put_state_Inl [of env _ d _ d'] put_state_Inr [of env _ d _ d'] run flow_move.create [of d m]
        by (cases r) fastforce+
    qed
    with False show ?thesis by simp
  qed
qed

lemma build_ready_moves: "manifest_ok m \<Longrightarrow> moves_at m d (mark_build_ready env m)"
  unfolding mark_build_ready_def by (intro moves_bind_pure moves_bind_read transition_moves)

datatype flow_op =
    Open_attempt
  | To_stage string
  | Record_usage json
  | Write_master "json list" "json list"
  | Write_checkpoint string "json list" json "string option"
  | Cut_checkpoint string "json list" json "string option"
  | Resume_attempt "int option"
  | Build_ready
  | Harness_pending
  | Terminal

text \<open>One call, with the environment it runs in: whether it returned, and the disk it leaves.\<close>

definition plain :: "'a flow \<Rightarrow> bool flow" where
  "plain f d = (case f d of (Inl e, d') \<Rightarrow> (Inr False, d') | (Inr x, d') \<Rightarrow> (Inr True, d'))"

fun flow_call :: "flow_manifest \<Rightarrow> flow_env \<Rightarrow> flow_op \<Rightarrow> bool flow" where
  "flow_call m env Open_attempt = plain (open_flow env m)"
| "flow_call m env (To_stage stage) = plain (transition env m stage)"
| "flow_call m env (Record_usage usage) = plain (record_flow_usage env m usage)"
| "flow_call m env (Write_master plan paths) = plain (write_master env m plan paths)"
| "flow_call m env (Write_checkpoint stage paths usage transcript) = plain (checkpoint env m stage paths usage transcript)"
| "flow_call m env (Cut_checkpoint stage paths usage transcript) = plain (interrupted_checkpoint env m stage paths usage transcript)"
| "flow_call m env (Resume_attempt wanted) = plain (resume_flow env m wanted)"
| "flow_call m env Build_ready = plain (mark_build_ready env m)"
| "flow_call m env Harness_pending = plain (mark_harness_pending env m)"
| "flow_call m env Terminal = plain (mark_terminal env m)"

fun flow_history :: "flow_manifest \<Rightarrow> (flow_env \<times> flow_op) list \<Rightarrow> flow_disk \<Rightarrow> flow_disk" where
  "flow_history m [] d = d"
| "flow_history m ((env, op) # rest) d = flow_history m rest (snd (flow_call m env op d))"

text \<open>The number of resumes that were granted.\<close>

fun granted :: "flow_manifest \<Rightarrow> (flow_env \<times> flow_op) list \<Rightarrow> flow_disk \<Rightarrow> nat" where
  "granted m [] d = 0"
| "granted m ((env, op) # rest) d =
     (case op of Resume_attempt wanted \<Rightarrow> (if fst (flow_call m env op d) = Inr True then 1 else 0) | _ \<Rightarrow> 0) +
     granted m rest (snd (flow_call m env op d))"

definition no_disk :: flow_disk where
  "no_disk = \<lparr>fd_state = No_record, fd_master = No_record, fd_checkpoints = []\<rparr>"

lemma moves_plain: "moves_at m d f \<Longrightarrow> moves_at m d (plain f)"
  unfolding moves_at_def plain_def by (auto split: prod.splits sum.splits)

lemma call_moves: "manifest_ok m \<Longrightarrow> moves_at m d (flow_call m env op)"
  by (cases op) (simp_all add: moves_plain open_moves transition_moves usage_moves master_moves checkpoint_moves
      interrupted_moves resume_moves build_ready_moves mark_harness_pending_def mark_terminal_def)

lemma call_ok:
  assumes "manifest_ok m" and "flow_ok m d"
  shows "(flow_move m)\<^sup>*\<^sup>* d (snd (flow_call m env op d))"
  using call_moves [OF assms(1), of d env op] assms(2) by (cases "flow_call m env op d") (simp add: moves_at_def)

lemma history_moves: "manifest_ok m \<Longrightarrow> flow_ok m d \<Longrightarrow> (flow_move m)\<^sup>*\<^sup>* d (flow_history m ops d)"
proof (induction ops arbitrary: d)
  case (Cons x rest)
  obtain env op where x: "x = (env, op)" by (cases x)
  note step = call_ok [OF Cons.prems, of env op]
  then have "flow_ok m (snd (flow_call m env op d))" using moves_ok [OF Cons.prems(1) _ Cons.prems(2)] by blast
  from Cons.IH [OF Cons.prems(1) this] step show ?case by (simp add: x)
qed simp

lemma no_disk_ok: "flow_ok m no_disk"
  by (simp add: flow_ok_def no_disk_def numbered_def)

text \<open>A resume needs a guard that is not consumed and leaves it consumed.\<close>

lemma resume_granted:
  assumes m: "manifest_ok m" and ok: "flow_ok m d" and run: "resume_flow env m wanted d = (Inr c, d')"
  shows "\<exists>st st'. holds_state m d st \<and> \<not> fs_resumed st \<and> holds_state m d' st' \<and> fs_resumed st'"
proof -
  from run obtain current d1 where current: "flow_state_of env m d = Inr current" and fresh: "\<not> fs_resumed current"
    and wrote: "put_state env (state_payload m (resumed_state (number_of (fs_number current)) (cp_usage c))) d = (Inr (), d')"
    unfolding resume_flow_def Let_def resumed_state_def [symmetric] bindF_def readF_def pureF_def
    by (auto simp: guardE_Inr_iff split: sum.splits prod.splits)
  note hold = current_holds [OF m ok current]
  have "moves_at m d (resume_flow env m wanted)" by (rule resume_moves [OF m])
  with ok run have "(flow_move m)\<^sup>*\<^sup>* d d'" by (simp add: moves_at_def)
  from moves_ok [OF m this ok] hold obtain st' where st': "holds_state m d' st'" by blast
  have d': "fd_state d' = Record (state_payload m (resumed_state (number_of (fs_number current)) (cp_usage c)))"
    using put_state_Inr [OF wrote] by simp
  have "state_payload m st' = state_payload m (resumed_state (number_of (fs_number current)) (cp_usage c))"
    using st' d' by (simp add: holds_state_def)
  then have "fs_resumed st'" by (simp add: state_payload_def resumed_state_def)
  with hold fresh st' show ?thesis by blast
qed

lemma plain_True: "fst (plain f d) = Inr True \<Longrightarrow> \<exists>x d'. f d = (Inr x, d')"
  by (cases "f d") (auto simp: plain_def split: sum.splits)

lemma granted_consumed:
  assumes "manifest_ok m" "flow_ok m d" "holds_state m d st" "fs_resumed st"
  shows "granted m ops d = 0"
  using assms(2-)
proof (induction ops arbitrary: d st)
  case (Cons x rest)
  obtain env op where x: "x = (env, op)" by (cases x)
  note step = moves_ok [OF assms(1) call_ok [OF assms(1) Cons.prems(1), of env op] Cons.prems(1)]
  then obtain st' where st': "holds_state m (snd (flow_call m env op d)) st'" "advances st st'" using Cons.prems(2) by blast
  have "fs_resumed st'" using advances_parts(3) [OF st'(2)] Cons.prems(3) by blast
  with Cons.IH st'(1) step have rest: "granted m rest (snd (flow_call m env op d)) = 0" by blast
  have "fst (flow_call m env op d) \<noteq> Inr True" if "op = Resume_attempt w" for w
  proof
    assume "fst (flow_call m env op d) = Inr True"
    with that plain_True obtain c d' where "resume_flow env m w d = (Inr c, d')" by fastforce
    from resume_granted [OF assms(1) Cons.prems(1) this] obtain s where "holds_state m d s" "\<not> fs_resumed s" by blast
    with holds_state_unique [OF assms(1) Cons.prems(2)] Cons.prems(3) show False by blast
  qed
  then show ?case using rest by (simp add: x split: flow_op.split)
qed simp

lemma granted_once: "manifest_ok m \<Longrightarrow> flow_ok m d \<Longrightarrow> granted m ops d \<le> 1"
proof (induction ops arbitrary: d)
  case (Cons x rest)
  obtain env op where x: "x = (env, op)" by (cases x)
  note ok = conjunct1 [OF moves_ok [OF Cons.prems(1) call_ok [OF Cons.prems, of env op] Cons.prems(2)]]
  note rest = Cons.IH [OF Cons.prems(1) ok]
  show ?case
  proof (cases "\<exists>w. op = Resume_attempt w \<and> fst (flow_call m env op d) = Inr True")
    case True
    then obtain w c d' where op: "op = Resume_attempt w" and run: "resume_flow env m w d = (Inr c, d')"
      by (auto simp: plain_def split: sum.splits prod.splits)
    from resume_granted [OF Cons.prems run] obtain st' where "holds_state m d' st'" "fs_resumed st'" by blast
    then have "granted m rest (snd (flow_call m env op d)) = 0"
      using granted_consumed [OF Cons.prems(1) ok] op run by (simp add: plain_def)
    then show ?thesis by (simp add: x split: flow_op.split)
  next
    case False
    then show ?thesis using rest by (auto simp: x split: flow_op.split)
  qed
qed simp

text \<open>C27. Starting from an attempt that does not exist yet, whatever calls are made, in whatever order and environments,
  interrupted checkpoints included, the disk holds a sound state over gapless checkpoint files (or nothing yet); the
  usage ledger and the checkpoint number never go back and the terminal stage is final; and at most one resume is ever
  granted.\<close>

theorem workflow_history_is_sound:
  assumes "manifest_from_dict v = Inr m"
  shows "flow_ok m (flow_history m (early @ late) no_disk) \<and>
    (\<forall>st. holds_state m (flow_history m early no_disk) st \<longrightarrow>
       (\<exists>st'. holds_state m (flow_history m (early @ late) no_disk) st' \<and> advances st st')) \<and>
    granted m (early @ late) no_disk \<le> 1"
proof -
  note m = manifest_from_dict_ok [OF assms]
  have split: "flow_history m (a @ b) d = flow_history m b (flow_history m a d)" for a b d
    by (induction a arbitrary: d) auto
  note early = conjunct1 [OF moves_ok [OF m history_moves [OF m no_disk_ok] no_disk_ok], of early]
  from moves_ok [OF m history_moves [OF m early, of late] early] granted_once [OF m no_disk_ok] show ?thesis
    unfolding split by blast
qed

theorem workflow_history_is_sound_witness:
  "flow_ok demo_manifest (flow_history demo_manifest ([(demo_env, Open_attempt)] @ [(demo_env, To_stage ''master_running'')]) no_disk) \<and>
   granted demo_manifest ([(demo_env, Open_attempt)] @ [(demo_env, To_stage ''master_running'')]) no_disk \<le> 1"
  using workflow_history_is_sound [OF demo_manifest_read] by blast

section \<open>The master record is read back\<close>

lemma master_body_fields:
  assumes "obj = master_body m plan paths @ [(''plan_sha256'', JStr digest)]"
  shows "strict_dict (JObj obj) (manifest_keys @ [''schema_version'', ''kind'', ''plan'', ''expected_paths'', ''plan_sha256'']) label = Inr obj"
    and "getn obj ''schema_version'' = JStr ''1''" "getn obj ''kind'' = JStr ''workflow_master''"
    "getn obj ''plan'' = JArr (map JStr plan)" "getn obj ''expected_paths'' = JArr (map JStr paths)"
    "getn obj ''plan_sha256'' = JStr digest"
    "without_key ''plan_sha256'' obj = master_body m plan paths"
    "manifest_ok m \<Longrightarrow> validate_binding m obj = Inr ()"
proof -
  show "strict_dict (JObj obj) (manifest_keys @ [''schema_version'', ''kind'', ''plan'', ''expected_paths'', ''plan_sha256'']) label = Inr obj"
    unfolding assms by (rule strict_dict_Inr)
      (simp_all add: master_body_def schema_items_def manifest_to_dict_def manifest_keys_def)
  show "without_key ''plan_sha256'' obj = master_body m plan paths"
    unfolding assms by (rule without_last) (simp add: master_body_def schema_items_def manifest_to_dict_def)
  show "manifest_ok m \<Longrightarrow> validate_binding m obj = Inr ()"
    by (rule binding_kept) (simp_all add: assms master_body_def schema_items_def manifest_to_dict_def jget_default_def)
qed (simp_all add: assms master_body_def schema_items_def manifest_to_dict_def jget_default_def)

lemma plan_items_again:
  assumes "mapE check_plan_item plan = Inr us" and "plan_items plan = Inr texts"
  shows "map JStr texts = plan"
  using assms
proof (induction plan arbitrary: us texts)
  case (Cons item plan)
  from Cons.prems(1) obtain s where s: "flow_text item ''plan item'' False MAX_PLAN_ITEM_BYTES = Inr s" "redact s = s"
    by (auto simp: check_plan_item_def bindE_Inr_iff guardE_Inr_iff)
  with Cons show ?case
    by (auto simp: plan_items_def bindE_Inr_iff flow_text_Inr [OF s(1)])
qed (simp add: plan_items_def)

lemma relpaths_again:
  "mapE (\<lambda>item. flow_relpath item ''expected path'') items = Inr paths \<Longrightarrow> map JStr paths = items"
  by (induction items arbitrary: paths) (auto simp: bindE_Inr_iff dest: flow_relpath_Inr)

text \<open>What \<^verbatim>\<open>write_master\<close> reported is what \<^verbatim>\<open>load_master\<close> returns, for every plan without a credential.\<close>

lemma master_read:
  assumes "manifest_ok m" and "\<And>t. is_hex64 (fe_sha env t)" and "mapE check_plan_item plan = Inr us"
    and run: "write_master env m plan expected d = (Inr payload, d')"
  shows "\<exists>obj. payload = JObj obj \<and> load_master env m d' = Inr obj"
proof -
  from run obtain d1 d2 texts paths digest where
    bounds: "1 \<le> length plan \<and> length plan \<le> MAX_PLAN_ITEMS" "length expected \<le> MAX_FLOW_PATHS"
    and items: "plan_items plan = Inr texts" "mapE (\<lambda>item. flow_relpath item ''expected path'') expected = Inr paths"
    and guards: "distinct paths" "\<not> list_ex flow_secret paths"
    and digest: "sha_payload (fe_sha env) (JObj (master_body m texts paths)) = Inr digest"
    and payload: "payload = JObj (master_body m texts paths @ [(''plan_sha256'', JStr digest)])"
    and wrote: "put_master env payload d1 = (Inr (), d2)" and moved: "transition env m ''master_ready'' d2 = (Inr (), d')"
    unfolding write_master_def Let_def bindF_def pureF_def readF_def
    by (auto simp: guardE_Inr_iff not_less split: sum.splits prod.splits if_splits)
  define obj where "obj = master_body m texts paths @ [(''plan_sha256'', JStr digest)]"
  note fields = master_body_fields [OF obj_def]
  have master: "fd_master d' = Record (JObj obj)" and safe: "fe_unsafe env = None"
    using wrote moved unfolding payload obj_def [symmetric] put_master_def transition_def bindF_def pureF_def readF_def put_state_def
    by (auto dest!: write_replace_Inr split: sum.splits prod.splits if_splits)
  have hex: "flow_digest (JStr digest) label = Inr digest" for label
    using digest assms(2) by (auto simp: sha_payload_def bindE_Inr_iff flow_digest_def)
  have read: "read_record env (fd_master d') = Inr (JObj obj)"
    using master safe by (simp add: read_record_def safe_paths_def)
  have "map JStr texts = plan" "map JStr paths = expected"
    using plan_items_again [OF assms(3) items(1)] relpaths_again [OF items(2)] by simp_all
  note same = this
  have lengths: "(\<not> (1 \<le> length plan \<and> length plan \<le> MAX_PLAN_ITEMS)) = False" "(length expected > MAX_FLOW_PATHS) = False"
    "(\<not> distinct paths) = False" "list_ex flow_secret paths = False" "is_text (JStr s) s = True" for s
    using bounds guards by (simp_all add: is_text_def)
  have "load_master env m d' = Inr obj"
    by (simp only: load_master_def read bindE_simps fields fields(8) [OF assms(1)] same bind_guardE lengths if_False simp_thms
        json.case assms(3) items(2) hex digest)
  then show ?thesis using payload obj_def by blast
qed

section \<open>Two corners of the code\<close>

text \<open>The operation for the pending harness stage always raises and writes nothing.\<close>

lemma harness_pending_never_returns:
  "mark_harness_pending env m d = (Inl (flow_error ''harness authority belongs to EffectTrialRunner''), d)"
proof -
  have "flow_text (JStr ''harness_pending'') ''stage'' True 512 = Inr ''harness_pending''" by code_simp
  moreover have "''harness_pending'' \<in> set flow_stages" by (simp add: flow_stages_def)
  ultimately show ?thesis by (simp add: mark_harness_pending_def transition_def flow_simps)
qed

text \<open>A plan item is bounded before it is redacted, and its redaction need not be: this item of exactly 2048 bytes is
  accepted by the writer, and what the writer stores for it is refused by the reader.\<close>

definition growing_item :: "nat \<Rightarrow> string" where
  "growing_item n = concat (replicate n ''token:x,'')"

lemma redact_Some: "secret_match (c # cs) = Some r \<Longrightarrow> redact (c # cs) = ''[REDACTED]'' @ redact r"
  by (subst redact.simps) simp

lemma redact_None: "secret_match (c # cs) = None \<Longrightarrow> redact (c # cs) = c # redact cs"
  by (subst redact.simps) simp

lemma growing_prefixes:
  "strip_prefix_ci ''sk-'' (CHR ''t'' # s) = None" "strip_prefix_ci ''bearer'' (CHR ''t'' # s) = None"
  "strip_prefix_ci ''api'' (CHR ''t'' # s) = None" "strip_prefix_ci ''password'' (CHR ''t'' # s) = None"
  "strip_prefix_ci ''token'' (CHR ''t'' # ''oken'' @ s) = Some s"
  "strip_prefix_ci ''sk-'' (CHR '','' # s) = None" "strip_prefix_ci ''bearer'' (CHR '','' # s) = None"
  "strip_prefix_ci ''api'' (CHR '','' # s) = None" "strip_prefix_ci ''password'' (CHR '','' # s) = None"
  "strip_prefix_ci ''token'' (CHR '','' # s) = None"
proof -
  have "lower_char CHR ''t'' = CHR ''t''" "lower_char CHR '','' = CHR '',''" "lower_char CHR ''o'' = CHR ''o''"
    "lower_char CHR ''k'' = CHR ''k''" "lower_char CHR ''e'' = CHR ''e''" "lower_char CHR ''n'' = CHR ''n''" by code_simp+
  note facts = this strip_prefix_ci_code
  show "strip_prefix_ci ''sk-'' (CHR ''t'' # s) = None" "strip_prefix_ci ''bearer'' (CHR ''t'' # s) = None"
    "strip_prefix_ci ''api'' (CHR ''t'' # s) = None" "strip_prefix_ci ''password'' (CHR ''t'' # s) = None"
    "strip_prefix_ci ''token'' (CHR ''t'' # ''oken'' @ s) = Some s"
    "strip_prefix_ci ''sk-'' (CHR '','' # s) = None" "strip_prefix_ci ''bearer'' (CHR '','' # s) = None"
    "strip_prefix_ci ''api'' (CHR '','' # s) = None" "strip_prefix_ci ''password'' (CHR '','' # s) = None"
    "strip_prefix_ci ''token'' (CHR '','' # s) = None"
    by (simp_all add: facts)
qed

lemma growing_value: "assigned_value ('':x,'' @ r) = Some (CHR '','' # r)"
proof -
  have "\<not> is_space CHR '':''" "\<not> is_space CHR ''x''" by code_simp+
  then show ?thesis by (simp add: assigned_value_def Let_def)
qed

lemma growing_match:
  "secret_match (CHR ''t'' # ''oken:x,'' @ r) = Some (CHR '','' # r)" "secret_match (CHR '','' # r) = None"
  using growing_prefixes(5) [of "'':x,'' @ r"] growing_value [of r]
  by (simp_all add: secret_match_def secret_key_def growing_prefixes del: strip_prefix_ci_code)

lemma redact_growing: "redact (growing_item n) = concat (replicate n ''[REDACTED],'')"
proof (induction n)
  case 0
  show ?case by (simp add: growing_item_def redact.simps [of "[]"])
next
  case (Suc n)
  have "growing_item (Suc n) = CHR ''t'' # ''oken:x,'' @ growing_item n" by (simp add: growing_item_def)
  then have "redact (growing_item (Suc n)) = ''[REDACTED]'' @ CHR '','' # redact (growing_item n)"
    by (simp only: redact_Some [OF growing_match(1)] redact_None [OF growing_match(2)])
  then show ?case using Suc by simp
qed

lemma growing_chars: "nul \<notin> set (growing_item n)"
proof -
  have "nul \<notin> set ''token:x,''" by code_simp
  then show ?thesis unfolding growing_item_def by (induction n) auto
qed

lemma growing_length: "length (growing_item n) = 8 * n" "length (concat (replicate n ''[REDACTED],'')) = 11 * n"
  by (simp_all add: growing_item_def length_concat sum_list_replicate)

lemma redaction_outgrows_the_bound:
  "\<exists>stored. plan_items [JStr (growing_item 256)] = Inr [stored] \<and>
     check_plan_item (JStr stored) = Inl (flow_error ''plan item must be bounded text'')"
proof -
  have "growing_item 256 \<noteq> []" using growing_length(1) [of 256] by fastforce
  with growing_chars have "flow_text (JStr (growing_item 256)) ''plan item'' False MAX_PLAN_ITEM_BYTES = Inr (growing_item 256)"
    by (simp add: flow_text_def growing_length MAX_PLAN_ITEM_BYTES_def)
  then have "plan_items [JStr (growing_item 256)] = Inr [redact (growing_item 256)]" by (simp add: plan_items_def)
  moreover have "length (redact (growing_item 256)) = 2816" unfolding redact_growing growing_length by simp
  then have "check_plan_item (JStr (redact (growing_item 256))) = Inl (flow_error ''plan item must be bounded text'')"
    by (simp add: check_plan_item_def flow_text_def MAX_PLAN_ITEM_BYTES_def)
  ultimately show ?thesis by blast
qed

end
